(* ===== verification/Prelude.thy ===== *)
theory Prelude
  imports Main
begin

text \<open>
  Shared vocabulary of the development: Go's \<open>int64\<close> arithmetic on \<open>int\<close> with the
  wrap-around written out, byte strings, results with an error summand, and the generic
  facts on lists, options and maps that the component theories use.  The named collections
  \<open>go_defs\<close> (definitions of the modelled language and library primitives) and
  \<open>width\<close> (range facts about 64-bit values) carry most of the component proofs.
\<close>

named_theorems go_defs \<open>definitions of the modelled Go primitives\<close>
named_theorems width \<open>range facts about 64-bit integers\<close>

section \<open>Byte strings and results\<close>

text \<open>
  A Go \<open>string\<close> and a Go \<open>[]byte\<close> are both sequences of bytes, and the code converts
  freely between them.  Both are \<open>string\<close> here (an Isabelle \<open>char\<close> is a byte); a
  \<open>[32]byte\<close> is a \<open>bytes\<close> value of length 32.
\<close>

type_synonym bytes = string

text \<open>A Go pair of a value and an \<open>error\<close>: the error on the left.\<close>

type_synonym ('e, 'a) result = "'e + 'a"

section \<open>Sixty-four bit integers\<close>

definition int64_min :: int where
  "int64_min = - (2 ^ 63)"

definition int64_max :: int where
  "int64_max = 2 ^ 63 - 1"

definition in_int64 :: "int \<Rightarrow> bool" where
  "in_int64 x \<longleftrightarrow> int64_min \<le> x \<and> x \<le> int64_max"

definition wrap64 :: "int \<Rightarrow> int" where
  "wrap64 x = (x + 2 ^ 63) mod 2 ^ 64 - 2 ^ 63"

abbreviation add64 :: "int \<Rightarrow> int \<Rightarrow> int" where
  "add64 a b \<equiv> wrap64 (a + b)"

abbreviation sub64 :: "int \<Rightarrow> int \<Rightarrow> int" where
  "sub64 a b \<equiv> wrap64 (a - b)"

abbreviation mul64 :: "int \<Rightarrow> int \<Rightarrow> int" where
  "mul64 a b \<equiv> wrap64 (a * b)"

lemmas int64_defs = int64_min_def int64_max_def in_int64_def

lemma wrap64_in_int64 [simp, width]: "in_int64 (wrap64 x)"
proof -
  have "0 \<le> (x + 2 ^ 63) mod 2 ^ 64" and "(x + 2 ^ 63) mod 2 ^ 64 < 2 ^ 64"
    by simp_all
  then show ?thesis by (simp add: wrap64_def int64_defs)
qed

lemma wrap64_id [width]: "in_int64 x \<Longrightarrow> wrap64 x = x"
  by (simp add: wrap64_def int64_defs)

lemma wrap64_eq_iff [width]: "wrap64 x = x \<longleftrightarrow> in_int64 x"
  by (metis wrap64_id wrap64_in_int64)

lemma in_int64I: "int64_min \<le> x \<Longrightarrow> x \<le> int64_max \<Longrightarrow> in_int64 x"
  by (simp add: in_int64_def)

lemma in_int64_0 [simp, width]: "in_int64 0"
  by (simp add: int64_defs)

lemma in_int64_mono [width]:
  "in_int64 y \<Longrightarrow> 0 \<le> x \<Longrightarrow> x \<le> y \<Longrightarrow> in_int64 x"
  by (simp add: int64_defs)

lemma in_int64_sub [width]:
  "in_int64 a \<Longrightarrow> 0 \<le> b \<Longrightarrow> b \<le> a \<Longrightarrow> in_int64 (a - b)"
  by (simp add: int64_defs)

lemma add64_id [width]: "in_int64 (a + b) \<Longrightarrow> add64 a b = a + b"
  by (rule wrap64_id)

lemma sub64_id [width]: "in_int64 a \<Longrightarrow> 0 \<le> b \<Longrightarrow> b \<le> a \<Longrightarrow> sub64 a b = a - b"
  by (simp add: wrap64_id in_int64_sub)

section \<open>Lists, options and maps\<close>

definition opt_default :: "'a \<Rightarrow> 'a option \<Rightarrow> 'a" where
  "opt_default d x = (case x of None \<Rightarrow> d | Some v \<Rightarrow> v)"

lemma opt_default_simps [simp]:
  "opt_default d None = d"
  "opt_default d (Some v) = v"
  by (simp_all add: opt_default_def)

lemma last_matching_append:
  "filter P (xs @ [x]) = (if P x then filter P xs @ [x] else filter P xs)"
  by simp

lemma sum_list_filter_insert:
  "sum_list (map f (filter P (x # xs))) =
     (if P x then f x else 0) + sum_list (map f (filter P xs))"
  by simp

lemma map_upd_same_dom: "m k = Some v \<Longrightarrow> dom (m(k \<mapsto> w)) = dom m"
  by (auto simp: dom_def)

end
