(* ===== verification/GoStrings.thy ===== *)
theory GoStrings
  imports Prelude
begin

text \<open>
  The functions of Go's \<open>strings\<close> and \<open>strconv\<close> packages that the repository calls, on
  byte strings.  Case mapping and white space are the ASCII part of the Go functions: every
  string the code compares this way (scheme keywords, hexadecimal digests, host names, caveat
  conditions) is ASCII.  \<open>ParseInt\<close> and \<open>FormatInt\<close> are base 10, 64 bit.
\<close>

section \<open>Characters\<close>

definition is_space :: "char \<Rightarrow> bool" where
  "is_space c \<longleftrightarrow> c \<in> set [CHR '' '', CHR 0x09, CHR 0x0A, CHR 0x0B, CHR 0x0C, CHR 0x0D]"

definition lower_char :: "char \<Rightarrow> char" where
  "lower_char c = (let n = of_char c :: nat in if 65 \<le> n \<and> n \<le> 90 then char_of (n + 32) else c)"

definition upper_char :: "char \<Rightarrow> char" where
  "upper_char c = (let n = of_char c :: nat in if 97 \<le> n \<and> n \<le> 122 then char_of (n - 32) else c)"

section \<open>Package strings\<close>

definition ToLower :: "string \<Rightarrow> string" where
  "ToLower s = map lower_char s"

definition ToUpper :: "string \<Rightarrow> string" where
  "ToUpper s = map upper_char s"

definition EqualFold :: "string \<Rightarrow> string \<Rightarrow> bool" where
  "EqualFold a b \<longleftrightarrow> ToLower a = ToLower b"

definition trim_by :: "(char \<Rightarrow> bool) \<Rightarrow> string \<Rightarrow> string" where
  "trim_by p s = rev (dropWhile p (rev (dropWhile p s)))"

definition TrimSpace :: "string \<Rightarrow> string" where
  "TrimSpace s = trim_by is_space s"

definition TrimRight :: "string \<Rightarrow> char \<Rightarrow> string" where
  "TrimRight s c = rev (dropWhile (\<lambda>x. x = c) (rev s))"

definition HasPrefix :: "string \<Rightarrow> string \<Rightarrow> bool" where
  "HasPrefix s p \<longleftrightarrow> take (length p) s = p"

definition HasSuffix :: "string \<Rightarrow> string \<Rightarrow> bool" where
  "HasSuffix s p \<longleftrightarrow> length p \<le> length s \<and> drop (length s - length p) s = p"

definition TrimPrefix :: "string \<Rightarrow> string \<Rightarrow> string" where
  "TrimPrefix s p = (if HasPrefix s p then drop (length p) s else s)"

definition TrimSuffix :: "string \<Rightarrow> string \<Rightarrow> string" where
  "TrimSuffix s p = (if HasSuffix s p then take (length s - length p) s else s)"

definition CutPrefix :: "string \<Rightarrow> string \<Rightarrow> string \<times> bool" where
  "CutPrefix s p = (if HasPrefix s p then (drop (length p) s, True) else (s, False))"

text \<open>\<open>Cut\<close> and \<open>Split\<close> at a one-byte separator, the only kind the code uses.\<close>

definition Cut :: "string \<Rightarrow> char \<Rightarrow> string \<times> string \<times> bool" where
  "Cut s c =
     (case dropWhile (\<lambda>x. x \<noteq> c) s of
        [] \<Rightarrow> (s, [], False)
      | _ # rest \<Rightarrow> (takeWhile (\<lambda>x. x \<noteq> c) s, rest, True))"

fun split_by :: "(char \<Rightarrow> bool) \<Rightarrow> string \<Rightarrow> string list" where
  "split_by p [] = [[]]"
| "split_by p (x # xs) =
     (if p x then [] # split_by p xs
      else (case split_by p xs of [] \<Rightarrow> [[x]] | w # ws \<Rightarrow> (x # w) # ws))"

definition Split :: "string \<Rightarrow> char \<Rightarrow> string list" where
  "Split s c = split_by (\<lambda>x. x = c) s"

definition Fields :: "string \<Rightarrow> string list" where
  "Fields s = filter (\<lambda>w. w \<noteq> []) (split_by is_space s)"

fun Join :: "string list \<Rightarrow> string \<Rightarrow> string" where
  "Join [] sep = []"
| "Join [w] sep = w"
| "Join (w # ws) sep = w @ sep @ Join ws sep"

fun Contains :: "string \<Rightarrow> string \<Rightarrow> bool" where
  "Contains [] t \<longleftrightarrow> t = []"
| "Contains (x # xs) t \<longleftrightarrow> HasPrefix (x # xs) t \<or> Contains xs t"

section \<open>Package strconv\<close>

definition digit_val :: "char \<Rightarrow> nat option" where
  "digit_val c = (let n = of_char c :: nat in if 48 \<le> n \<and> n \<le> 57 then Some (n - 48) else None)"

definition digit_chr :: "nat \<Rightarrow> char" where
  "digit_chr d = char_of (d + 48)"

fun digits_val :: "nat \<Rightarrow> string \<Rightarrow> nat option" where
  "digits_val acc [] = Some acc"
| "digits_val acc (c # cs) =
     (case digit_val c of None \<Rightarrow> None | Some d \<Rightarrow> digits_val (10 * acc + d) cs)"

fun strip_sign :: "string \<Rightarrow> bool \<times> string" where
  "strip_sign [] = (False, [])"
| "strip_sign (c # cs) =
     (if c = CHR ''-'' then (True, cs) else if c = CHR ''+'' then (False, cs) else (False, c # cs))"

definition ParseInt :: "string \<Rightarrow> int option" where
  "ParseInt s =
     (let (neg, ds) = strip_sign s in
      if ds = [] then None
      else (case digits_val 0 ds of
              None \<Rightarrow> None
            | Some n \<Rightarrow>
                (let v = (if neg then - int n else int n) in
                 if in_int64 v then Some v else None)))"

fun show_nat :: "nat \<Rightarrow> string" where
  "show_nat n = (if n < 10 then [digit_chr n] else show_nat (n div 10) @ [digit_chr (n mod 10)])"

declare show_nat.simps [simp del]

definition FormatInt :: "int \<Rightarrow> string" where
  "FormatInt v = (if v < 0 then CHR ''-'' # show_nat (nat (- v)) else show_nat (nat v))"

declare is_space_def [go_defs] ToLower_def [go_defs] ToUpper_def [go_defs]
  EqualFold_def [go_defs] trim_by_def [go_defs] TrimSpace_def [go_defs] TrimRight_def [go_defs]
  HasPrefix_def [go_defs] HasSuffix_def [go_defs] TrimPrefix_def [go_defs]
  TrimSuffix_def [go_defs] CutPrefix_def [go_defs] Cut_def [go_defs] Split_def [go_defs]
  Fields_def [go_defs]

section \<open>Facts\<close>

lemma EqualFold_refl [simp]: "EqualFold s s"
  by (simp add: EqualFold_def)

lemma EqualFold_sym: "EqualFold a b \<longleftrightarrow> EqualFold b a"
  by (auto simp: EqualFold_def)

lemma HasPrefix_iff: "HasPrefix s p \<longleftrightarrow> (\<exists>r. s = p @ r)"
  by (metis HasPrefix_def append_eq_conv_conj append_take_drop_id)

lemma HasPrefix_append [simp]: "HasPrefix (p @ r) p"
  by (simp add: HasPrefix_def)

lemma HasSuffix_iff: "HasSuffix s p \<longleftrightarrow> (\<exists>r. s = r @ p)"
proof
  assume "HasSuffix s p"
  then have "s = take (length s - length p) s @ p"
    by (metis HasSuffix_def append_take_drop_id)
  then show "\<exists>r. s = r @ p" by blast
qed (auto simp: HasSuffix_def)

lemma HasSuffix_append [simp]: "HasSuffix (r @ p) p"
  by (simp add: HasSuffix_def)

lemma TrimPrefix_append [simp]: "TrimPrefix (p @ r) p = r"
  by (simp add: TrimPrefix_def)

lemma TrimSuffix_append [simp]: "TrimSuffix (r @ p) p = r"
  by (simp add: TrimSuffix_def)

lemma Cut_append: "c \<notin> set a \<Longrightarrow> Cut (a @ c # b) c = (a, b, True)"
proof -
  assume "c \<notin> set a"
  then have "\<forall>x\<in>set a. x \<noteq> c" by auto
  then show ?thesis by (simp add: Cut_def)
qed

lemma Cut_none: "c \<notin> set a \<Longrightarrow> Cut a c = (a, [], False)"
proof -
  assume "c \<notin> set a"
  then have "dropWhile (\<lambda>x. x \<noteq> c) a = []" by (auto simp: dropWhile_eq_Nil_conv)
  then show ?thesis by (simp only: Cut_def list.case)
qed

lemma Cut_found: "Cut s c = (a, b, True) \<longleftrightarrow> s = a @ c # b \<and> c \<notin> set a"
proof
  assume cut: "Cut s c = (a, b, True)"
  show "s = a @ c # b \<and> c \<notin> set a"
  proof (cases "dropWhile (\<lambda>x. x \<noteq> c) s")
    case Nil
    with cut show ?thesis by (simp add: Cut_def)
  next
    case (Cons y ys)
    then have "y = c" using hd_dropWhile [of "\<lambda>x. x \<noteq> c" s] by simp
    moreover have "s = takeWhile (\<lambda>x. x \<noteq> c) s @ y # ys"
      using Cons takeWhile_dropWhile_id [of "\<lambda>x. x \<noteq> c" s] by simp
    ultimately show ?thesis using cut Cons set_takeWhileD [of c "\<lambda>x. x \<noteq> c" s]
      by (auto simp: Cut_def)
  qed
next
  assume "s = a @ c # b \<and> c \<notin> set a"
  then show "Cut s c = (a, b, True)" by (simp add: Cut_append)
qed

lemma split_by_not_nil [simp]: "split_by p s \<noteq> []"
  by (cases s) (auto split: list.split)

lemma split_by_none: "(\<forall>x\<in>set s. \<not> p x) \<Longrightarrow> split_by p s = [s]"
  by (induction s) auto

lemma split_by_append:
  "(\<forall>x\<in>set a. \<not> p x) \<Longrightarrow> p c \<Longrightarrow> split_by p (a @ c # b) = a # split_by p b"
  by (induction a) auto

lemma set_split_by: "w \<in> set (split_by p s) \<Longrightarrow> set w \<subseteq> set s \<and> (\<forall>x\<in>set w. \<not> p x)"
proof (induction s arbitrary: w)
  case Nil
  then show ?case by simp
next
  case (Cons x xs)
  obtain v vs where v: "split_by p xs = v # vs"
    using split_by_not_nil by (meson neq_Nil_conv)
  show ?case
  proof (cases "p x")
    case True
    with Cons v show ?thesis by fastforce
  next
    case False
    with Cons.prems v have "w = x # v \<or> w \<in> set vs" by auto
    with Cons.IH [of v] Cons.IH [of w] False v show ?thesis by auto
  qed
qed

lemma Split_single: "c \<notin> set s \<Longrightarrow> Split s c = [s]"
  unfolding Split_def by (rule split_by_none) auto

lemma Split_append: "c \<notin> set a \<Longrightarrow> Split (a @ c # b) c = a # Split b c"
  unfolding Split_def by (rule split_by_append) auto

lemma trim_by_id:
  "s = [] \<or> (\<not> p (hd s) \<and> \<not> p (last s)) \<Longrightarrow> trim_by p s = s"
proof (cases s rule: rev_cases)
  case Nil
  then show ?thesis by (simp add: trim_by_def)
next
  case (snoc ys y)
  assume a: "s = [] \<or> (\<not> p (hd s) \<and> \<not> p (last s))"
  with snoc have h: "\<not> p (hd s)" and l: "\<not> p y" by auto
  from h snoc have "dropWhile p s = s" by (metis dropWhile_eq_self_iff)
  then show ?thesis using snoc l by (simp add: trim_by_def)
qed

lemma set_trim_by: "set (trim_by p s) \<subseteq> set s"
  unfolding trim_by_def by (auto dest!: set_dropWhileD)

lemma TrimSpace_id: "(\<forall>c\<in>set s. \<not> is_space c) \<Longrightarrow> TrimSpace s = s"
  unfolding TrimSpace_def by (rule trim_by_id) (cases s; auto)

subsection \<open>Decimal numbers\<close>

lemma of_char_char_of_nat: "n < 256 \<Longrightarrow> (of_char (char_of (n::nat)) :: nat) = n"
  by simp

lemma digit_val_chr [simp]: "d < 10 \<Longrightarrow> digit_val (digit_chr d) = Some d"
  by (simp add: digit_val_def digit_chr_def Let_def)

lemma digits_val_append:
  "digits_val acc (xs @ ys) =
     (case digits_val acc xs of None \<Rightarrow> None | Some a \<Rightarrow> digits_val a ys)"
  by (induction xs arbitrary: acc) (auto split: option.split)

lemma digits_val_show_nat: "digits_val 0 (show_nat n) = Some n"
proof (induction n rule: show_nat.induct)
  case (1 n)
  show ?case
  proof (cases "n < 10")
    case True
    then show ?thesis by (simp add: show_nat.simps [of n])
  next
    case False
    with 1 show ?thesis
      by (simp add: show_nat.simps [of n] digits_val_append)
  qed
qed

lemma show_nat_not_nil [simp]: "show_nat n \<noteq> []"
  by (subst show_nat.simps) simp

lemma digit_chr_range: "d < 10 \<Longrightarrow> 48 \<le> (of_char (digit_chr d) :: nat) \<and> (of_char (digit_chr d) :: nat) \<le> 57"
  by (simp add: digit_chr_def)

lemma show_nat_digits:
  "c \<in> set (show_nat n) \<Longrightarrow> 48 \<le> (of_char c :: nat) \<and> (of_char c :: nat) \<le> 57"
proof (induction n rule: show_nat.induct)
  case (1 n)
  show ?case
  proof (cases "n < 10")
    case True
    with "1.prems" show ?thesis
      using digit_chr_range [of n] by (simp add: show_nat.simps [of n])
  next
    case False
    have m: "n mod 10 < 10" by simp
    from "1.prems" False have "c \<in> set (show_nat (n div 10)) \<or> c = digit_chr (n mod 10)"
      by (auto simp: show_nat.simps [of n])
    with "1.IH" [OF False] digit_chr_range [OF m] show ?thesis by blast
  qed
qed

lemma show_nat_hd_not_sign:
  "show_nat n = c # cs \<Longrightarrow> c \<noteq> CHR ''-'' \<and> c \<noteq> CHR ''+''"
  using show_nat_digits [of c n] by auto

lemma strip_sign_show_nat [simp]: "strip_sign (show_nat n) = (False, show_nat n)"
  by (cases "show_nat n") (auto dest: show_nat_hd_not_sign)

text \<open>Printing and reading a 64-bit integer is the identity.\<close>

lemma ParseInt_FormatInt [simp]: "in_int64 v \<Longrightarrow> ParseInt (FormatInt v) = Some v"
  by (simp add: ParseInt_def FormatInt_def digits_val_show_nat)

lemma ParseInt_in_int64 [width]: "ParseInt s = Some v \<Longrightarrow> in_int64 v"
  by (auto simp: ParseInt_def Let_def split: prod.splits if_splits option.splits)

lemma FormatInt_not_nil [simp]: "FormatInt v \<noteq> []"
  by (simp add: FormatInt_def)

lemma FormatInt_inject: "in_int64 a \<Longrightarrow> in_int64 b \<Longrightarrow> FormatInt a = FormatInt b \<longleftrightarrow> a = b"
  by (metis ParseInt_FormatInt option.inject)

end
