(* ===== verification/GoCodec.thy ===== *)
theory GoCodec
  imports GoStrings
begin

text \<open>
  The byte codecs of Go's standard library that the repository relies on:
  \<open>encoding/hex\<close>, \<open>encoding/base64\<close> (standard alphabet, padded; carriage returns and line
  feeds are skipped by the decoder and unused trailing bits are not checked, as in Go),
  \<open>encoding/binary\<close> unsigned varints and big-endian 16-bit values.  Each decoder is the
  inverse of its encoder, and each parser says how much input it consumes.
\<close>

abbreviation byte :: "char \<Rightarrow> nat" where
  "byte c \<equiv> of_char c"

section \<open>Hexadecimal\<close>

definition hex_chr :: "nat \<Rightarrow> char" where
  "hex_chr d = (if d < 10 then char_of (d + 48) else char_of (d + 87))"

definition hex_val :: "char \<Rightarrow> nat option" where
  "hex_val c =
     (let n = byte c in
      if 48 \<le> n \<and> n \<le> 57 then Some (n - 48)
      else if 97 \<le> n \<and> n \<le> 102 then Some (n - 87)
      else if 65 \<le> n \<and> n \<le> 70 then Some (n - 55)
      else None)"

fun hex_encode :: "bytes \<Rightarrow> string" where
  "hex_encode [] = []"
| "hex_encode (c # cs) = hex_chr (byte c div 16) # hex_chr (byte c mod 16) # hex_encode cs"

text \<open>\<open>strconv.Quote\<close> and the verb \<open>%q\<close>; bytes from 128 on are taken as printable.\<close>

definition quote_char :: "char \<Rightarrow> string" where
  "quote_char c =
     (let n = (of_char c :: nat); bs = CHR 0x5C in
      if n = 0x22 \<or> n = 0x5C then [bs, c]
      else if 0x20 \<le> n \<and> n \<noteq> 0x7F then [c]
      else if n = 7 then [bs, CHR ''a''] else if n = 8 then [bs, CHR ''b''] else if n = 12 then [bs, CHR ''f'']
      else if n = 10 then [bs, CHR ''n''] else if n = 13 then [bs, CHR ''r''] else if n = 9 then [bs, CHR ''t'']
      else if n = 11 then [bs, CHR ''v'']
      else [bs, CHR ''x'', hex_chr (n div 16), hex_chr (n mod 16)])"

definition Quote :: "string \<Rightarrow> string" where
  "Quote s = CHR 0x22 # concat (map quote_char s) @ [CHR 0x22]"

fun hex_decode :: "string \<Rightarrow> bytes option" where
  "hex_decode [] = Some []"
| "hex_decode [c] = None"
| "hex_decode (a # b # cs) =
     (case (hex_val a, hex_val b, hex_decode cs) of
        (Some x, Some y, Some r) \<Rightarrow> Some (char_of (16 * x + y) # r)
      | _ \<Rightarrow> None)"

section \<open>Base 64\<close>

definition b64_alphabet :: string where
  "b64_alphabet = ''ABCDEFGHIJKLMNOPQRSTUVWXYZabcdefghijklmnopqrstuvwxyz0123456789+/''"

definition b64_chr :: "nat \<Rightarrow> char" where
  "b64_chr i =
     (if i < 26 then char_of (i + 65)
      else if i < 52 then char_of (i + 71)
      else if i < 62 then char_of (i - 4)
      else if i = 62 then CHR ''+'' else CHR ''/'')"

definition b64_val :: "char \<Rightarrow> nat option" where
  "b64_val c =
     (let n = byte c in
      if 65 \<le> n \<and> n \<le> 90 then Some (n - 65)
      else if 97 \<le> n \<and> n \<le> 122 then Some (n - 71)
      else if 48 \<le> n \<and> n \<le> 57 then Some (n + 4)
      else if n = 43 then Some 62
      else if n = 47 then Some 63
      else None)"

fun b64_encode :: "bytes \<Rightarrow> string" where
  "b64_encode [] = []"
| "b64_encode [x] =
     [b64_chr (byte x div 4), b64_chr (byte x mod 4 * 16), CHR ''='', CHR ''='']"
| "b64_encode [x, y] =
     [b64_chr (byte x div 4), b64_chr (byte x mod 4 * 16 + byte y div 16),
      b64_chr (byte y mod 16 * 4), CHR ''='']"
| "b64_encode (x # y # z # r) =
     b64_chr (byte x div 4) # b64_chr (byte x mod 4 * 16 + byte y div 16)
       # b64_chr (byte y mod 16 * 4 + byte z div 64) # b64_chr (byte z mod 64)
       # b64_encode r"

text \<open>One quantum of four characters; the last may be padded.\<close>

fun b64_quads :: "string \<Rightarrow> bytes option" where
  "b64_quads [] = Some []"
| "b64_quads (a # b # c # d # r) =
     (case (b64_val a, b64_val b) of
        (Some i, Some j) \<Rightarrow>
          if c = CHR ''='' then
            (if d = CHR ''='' \<and> r = [] then Some [char_of (i * 4 + j div 16)] else None)
          else (case b64_val c of
                  None \<Rightarrow> None
                | Some k \<Rightarrow>
                    if d = CHR ''='' then
                      (if r = [] then Some [char_of (i * 4 + j div 16), char_of (j mod 16 * 16 + k div 4)]
                       else None)
                    else (case (b64_val d, b64_quads r) of
                            (Some l, Some bs) \<Rightarrow>
                              Some (char_of (i * 4 + j div 16) # char_of (j mod 16 * 16 + k div 4)
                                      # char_of (k mod 4 * 64 + l) # bs)
                          | _ \<Rightarrow> None))
      | _ \<Rightarrow> None)"
| "b64_quads _ = None"

definition b64_decode :: "string \<Rightarrow> bytes option" where
  "b64_decode s = b64_quads (filter (\<lambda>c. c \<noteq> CHR 0x0A \<and> c \<noteq> CHR 0x0D) s)"

section \<open>Unsigned varints and 16-bit integers\<close>

fun PutUvarint :: "nat \<Rightarrow> bytes" where
  "PutUvarint n = (if n < 128 then [char_of n] else char_of (n mod 128 + 128) # PutUvarint (n div 128))"

declare PutUvarint.simps [simp del]

text \<open>
  \<open>binary.Uvarint\<close>: \<open>None\<close> for a truncated buffer and for a value that overflows 64 bits
  (both make the caller's \<open>n <= 0\<close> test true), else the value and the rest of the buffer.
\<close>

fun uvarint_from :: "nat \<Rightarrow> nat \<Rightarrow> bytes \<Rightarrow> (nat \<times> bytes) option" where
  "uvarint_from i x [] = None"
| "uvarint_from i x (c # cs) =
     (if i = 10 then None
      else if byte c < 128 then
        (if i = 9 \<and> 1 < byte c then None else Some (x + byte c * 128 ^ i, cs))
      else uvarint_from (Suc i) (x + (byte c mod 128) * 128 ^ i) cs)"

definition Uvarint :: "bytes \<Rightarrow> (nat \<times> bytes) option" where
  "Uvarint bs = uvarint_from 0 0 bs"

definition PutUint16 :: "nat \<Rightarrow> bytes" where
  "PutUint16 v = [char_of (v div 256), char_of (v mod 256)]"

fun Uint16 :: "bytes \<Rightarrow> nat" where
  "Uint16 (a # b # _) = byte a * 256 + byte b"
| "Uint16 _ = 0"

section \<open>Facts\<close>

lemma byte_lt [simp]: "byte c < 256"
  by (rule nat_of_char_less_256)

lemma byte_div_16 [simp]: "byte c div 16 < 16"
  by (rule less_mult_imp_div_less) simp

lemma hex_val_chr [simp]: "d < 16 \<Longrightarrow> hex_val (hex_chr d) = Some d"
  by (simp add: hex_val_def hex_chr_def Let_def)

lemma char_of_byte_split [simp]: "char_of (16 * (byte c div 16) + byte c mod 16) = c"
  by simp

text \<open>Hexadecimal round trip.\<close>

lemma hex_decode_encode [simp]: "hex_decode (hex_encode bs) = Some bs"
  by (induction bs) simp_all

lemma hex_encode_inject [simp]: "hex_encode a = hex_encode b \<longleftrightarrow> a = b"
  by (metis hex_decode_encode option.inject)

lemma length_hex_encode [simp]: "length (hex_encode bs) = 2 * length bs"
  by (induction bs) simp_all

lemma hex_encode_Nil_iff [simp]: "hex_encode bs = [] \<longleftrightarrow> bs = []"
  by (cases bs) simp_all

lemma hex_chr_not: "d < 16 \<Longrightarrow> byte (hex_chr d) \<in> {48..57} \<union> {97..102}"
  by (simp add: hex_chr_def)

lemma hex_encode_chars: "c \<in> set (hex_encode bs) \<Longrightarrow> byte c \<in> {48..57} \<union> {97..102}"
proof (induction bs)
  case (Cons b bs)
  then show ?case
    using hex_chr_not [of "byte b div 16"] hex_chr_not [of "byte b mod 16"] by auto
qed simp

lemma b64_val_chr [simp]: "i < 64 \<Longrightarrow> b64_val (b64_chr i) = Some i"
  by (auto simp: b64_val_def b64_chr_def Let_def)

lemma b64_chr_byte: "i < 64 \<Longrightarrow>
  byte (b64_chr i) \<in> {65..90} \<union> {97..122} \<union> {48..57} \<union> {43, 47}"
  by (auto simp: b64_chr_def)

lemma b64_chr_not [simp]:
  assumes "i < 64"
  shows "b64_chr i \<noteq> CHR ''=''" and "b64_chr i \<noteq> CHR 0x0A" and "b64_chr i \<noteq> CHR 0x0D"
    and "b64_chr i \<noteq> CHR '':''" and "b64_chr i \<noteq> CHR '',''" and "b64_chr i \<noteq> CHR ''\"''"
    and "\<not> is_space (b64_chr i)"
  using b64_chr_byte [OF assms] by (auto simp: is_space_def)

lemma byte_parts [simp]:
  "byte x div 4 < 64" "byte x mod 4 * 16 < 64"
  "byte x mod 4 * 16 + byte y div 16 < 64" "byte y mod 16 * 4 < 64"
  "byte y mod 16 * 4 + byte z div 64 < 64"
proof -
  have "byte x < 256" "byte y < 256" "byte z < 256" by simp_all
  then show "byte x div 4 < 64" "byte x mod 4 * 16 < 64"
    "byte x mod 4 * 16 + byte y div 16 < 64" "byte y mod 16 * 4 < 64"
    "byte y mod 16 * 4 + byte z div 64 < 64"
    by linarith+
qed

lemma byte_quot [simp]:
  "byte z div 64 div 4 = 0" "byte z div 64 mod 4 = byte z div 64"
  "byte y div 16 div 16 = 0" "byte y div 16 mod 16 = byte y div 16"
proof -
  have "byte z div 64 < 4" "byte y div 16 < 16"
    by (simp_all add: less_mult_imp_div_less)
  then show "byte z div 64 div 4 = 0" "byte z div 64 mod 4 = byte z div 64"
    "byte y div 16 div 16 = 0" "byte y div 16 mod 16 = byte y div 16"
    by simp_all
qed

lemma b64_quads_encode: "b64_quads (b64_encode bs) = Some bs"
  by (induction bs rule: b64_encode.induct) simp_all

text \<open>The characters a base 64 text can hold.\<close>

definition b64_text :: "string \<Rightarrow> bool" where
  "b64_text s \<longleftrightarrow> (\<forall>c\<in>set s. c = CHR ''='' \<or> (\<exists>i<64. c = b64_chr i))"

lemma b64_chr_ex [simp]: "i < 64 \<Longrightarrow> \<exists>j<64. b64_chr i = b64_chr j"
  by blast

lemma b64_text_encode [simp]: "b64_text (b64_encode bs)"
  unfolding b64_text_def
proof (induction bs rule: b64_encode.induct)
  case (2 x)
  have "byte x div 4 < 64" "byte x mod 4 * 16 < 64" by simp_all
  then show ?case by auto
next
  case (3 x y)
  have "byte x div 4 < 64" "byte x mod 4 * 16 + byte y div 16 < 64" "byte y mod 16 * 4 < 64"
    by simp_all
  then show ?case by auto
next
  case (4 x y z r)
  have "byte x div 4 < 64" "byte x mod 4 * 16 + byte y div 16 < 64"
    "byte y mod 16 * 4 + byte z div 64 < 64" "byte z mod 64 < 64"
    by simp_all
  with 4 show ?case by auto
qed simp

lemma b64_text_chars:
  assumes "b64_text s" and "c \<in> set s"
  shows "c \<noteq> CHR 0x0A" and "c \<noteq> CHR 0x0D" and "c \<noteq> CHR '':''" and "c \<noteq> CHR '',''"
    and "c \<noteq> CHR ''\"''" and "\<not> is_space c"
proof -
  from assms consider "c = CHR ''=''" | i where "i < 64" "c = b64_chr i"
    by (auto simp: b64_text_def)
  then have "c \<noteq> CHR 0x0A \<and> c \<noteq> CHR 0x0D \<and> c \<noteq> CHR '':'' \<and> c \<noteq> CHR '','' \<and> c \<noteq> CHR ''\"'' \<and> \<not> is_space c"
    by cases (simp_all add: is_space_def [of "CHR ''=''"])
  then show "c \<noteq> CHR 0x0A" and "c \<noteq> CHR 0x0D" and "c \<noteq> CHR '':''" and "c \<noteq> CHR '',''"
    and "c \<noteq> CHR ''\"''" and "\<not> is_space c"
    by simp_all
qed

text \<open>Base 64 round trip.\<close>

lemma b64_decode_encode [simp]: "b64_decode (b64_encode bs) = Some bs"
proof -
  have "filter (\<lambda>c. c \<noteq> CHR 0x0A \<and> c \<noteq> CHR 0x0D) (b64_encode bs) = b64_encode bs"
    using b64_text_chars [OF b64_text_encode] by (simp add: filter_id_conv)
  then show ?thesis by (simp add: b64_decode_def b64_quads_encode)
qed

lemma b64_encode_inject [simp]: "b64_encode a = b64_encode b \<longleftrightarrow> a = b"
  by (metis b64_decode_encode option.inject)

lemma b64_encode_Nil_iff [simp]: "b64_encode bs = [] \<longleftrightarrow> bs = []"
  by (cases bs rule: b64_encode.cases) simp_all

subsection \<open>Varints\<close>

lemma uvarint_from_Put:
  "n < 128 ^ k \<Longrightarrow> i + k \<le> 9 \<Longrightarrow>
   uvarint_from i x (PutUvarint n @ rest) = Some (x + n * 128 ^ i, rest)"
proof (induction n arbitrary: i x k rule: PutUvarint.induct)
  case (1 n)
  show ?case
  proof (cases "n < 128")
    case True
    have "i \<le> 9" using "1.prems" by simp
    moreover have "i \<noteq> 9 \<or> n = 0" using "1.prems" by (cases k) auto
    ultimately show ?thesis using True by (auto simp: PutUvarint.simps [of n])
  next
    case False
    then obtain k' where k: "k = Suc k'" using "1.prems" by (cases k) auto
    have lt: "n div 128 < 128 ^ k'" using "1.prems"(1) k by (simp add: less_mult_imp_div_less mult.commute)
    have r: "Suc i + k' \<le> 9" using "1.prems"(2) k by simp
    have b: "byte (char_of (n mod 128 + 128)) = n mod 128 + 128" by simp
    have m: "(n mod 128 + 128) mod 128 = n mod 128" by simp
    have i: "i \<noteq> 10" using "1.prems"(2) by simp
    have e: "x + n mod 128 * 128 ^ i + n div 128 * 128 ^ Suc i = x + n * 128 ^ i"
    proof -
      have "n mod 128 * 128 ^ i + n div 128 * 128 ^ Suc i = (n mod 128 + n div 128 * 128) * 128 ^ i"
        by (simp only: power_Suc distrib_right mult.assoc)
      moreover have "n mod 128 + n div 128 * 128 = n" by simp
      ultimately show ?thesis by (metis add.assoc)
    qed
    have "uvarint_from i x (PutUvarint n @ rest) =
        uvarint_from (Suc i) (x + n mod 128 * 128 ^ i) (PutUvarint (n div 128) @ rest)"
      using False b m i by (simp add: PutUvarint.simps [of n])
    also have "\<dots> = Some (x + n mod 128 * 128 ^ i + n div 128 * 128 ^ Suc i, rest)"
      by (rule "1.IH" [OF False lt r])
    finally show ?thesis by (simp only: e)
  qed
qed

text \<open>A length below \<open>2^63\<close> survives the varint encoding.\<close>

lemma Uvarint_Put [simp]: "n < 2 ^ 63 \<Longrightarrow> Uvarint (PutUvarint n @ rest) = Some (n, rest)"
  using uvarint_from_Put [of n 9 0 0 rest] by (simp add: Uvarint_def)

lemma uvarint_from_shorter: "uvarint_from i x bs = Some (v, r) \<Longrightarrow> length r < length bs"
  by (induction i x bs rule: uvarint_from.induct) (auto split: if_splits simp: less_SucI)

lemma Uvarint_shorter: "Uvarint bs = Some (v, r) \<Longrightarrow> length r < length bs"
  unfolding Uvarint_def by (rule uvarint_from_shorter)

lemma Uint16_Put [simp]: "v < 65536 \<Longrightarrow> Uint16 (PutUint16 v @ rest) = v"
  by (simp add: PutUint16_def)

lemma length_PutUint16 [simp]: "length (PutUint16 v) = 2"
  by (simp add: PutUint16_def)

end
