(* ===== verification/GoJson.thy ===== *)
theory GoJson
  imports GoCodec "HOL-Library.Char_ord" "HOL-Library.List_Lexorder"
begin

text \<open>
  Go's \<open>encoding/json\<close>.  A document (and a \<open>json.RawMessage\<close>) is its syntax tree: objects keep
  the order and the duplicates of their members, numbers keep their literal.  \<open>json_print\<close> is
  \<open>Marshal\<close>'s compact, HTML-escaped text and \<open>json_parse\<close> the reader, which returns the rest of
  its input (a \<open>Decoder\<close> ignores it, \<open>Unmarshal\<close> refuses it).  Decoding into a Go value follows
  the library: object keys match struct fields without regard to case, a later member overrides
  an earlier one, \<open>null\<close> leaves a scalar as it was, a type mismatch is remembered while the rest
  is decoded.  Strings are taken as valid UTF-8, which the library would otherwise repair.
\<close>

datatype json =
    JNull
  | JBool bool
  | JNum string
  | JStr string
  | JArr "json list"
  | JObj "(string \<times> json) list"

section \<open>Go maps with string keys\<close>

text \<open>
  A Go map is kept as an association list sorted by key, the order \<open>Marshal\<close> writes; equal maps
  are then equal lists.
\<close>

type_synonym 'v gomap = "(string \<times> 'v) list"

fun mput :: "string \<Rightarrow> 'v \<Rightarrow> 'v gomap \<Rightarrow> 'v gomap" where
  "mput k v [] = [(k, v)]"
| "mput k v ((k', v') # m) =
     (if k = k' then (k, v) # m
      else if k < k' then (k, v) # (k', v') # m
      else (k', v') # mput k v m)"

definition mmap :: "'v gomap \<Rightarrow> 'v gomap" where
  "mmap kvs = fold (\<lambda>(k, v) m. mput k v m) kvs []"

lemma map_of_mput [simp]: "map_of (mput k v m) = (map_of m)(k \<mapsto> v)"
  by (induction m) (auto simp: fun_upd_twist)

section \<open>Printing\<close>

definition hex4 :: "nat \<Rightarrow> string" where
  "hex4 n = [CHR 0x5C, CHR ''u'', CHR ''0'', CHR ''0'', hex_chr (n div 16), hex_chr (n mod 16)]"

definition print_char :: "char \<Rightarrow> string" where
  "print_char c =
     (if c = CHR 0x22 then [CHR 0x5C, CHR 0x22]
      else if c = CHR 0x5C then [CHR 0x5C, CHR 0x5C]
      else if c = CHR 0x08 then [CHR 0x5C, CHR ''b'']
      else if c = CHR 0x0C then [CHR 0x5C, CHR ''f'']
      else if c = CHR 0x0A then [CHR 0x5C, CHR ''n'']
      else if c = CHR 0x0D then [CHR 0x5C, CHR ''r'']
      else if c = CHR 0x09 then [CHR 0x5C, CHR ''t'']
      else if byte c < 32 \<or> c = CHR ''<'' \<or> c = CHR ''>'' \<or> c = CHR ''&'' then hex4 (byte c)
      else [c])"

definition print_str :: "string \<Rightarrow> string" where
  "print_str s = CHR 0x22 # concat (map print_char s) @ [CHR 0x22]"

fun json_print :: "json \<Rightarrow> string"
and elems_print :: "json list \<Rightarrow> string"
and members_print :: "(string \<times> json) list \<Rightarrow> string" where
  "json_print JNull = ''null''"
| "json_print (JBool b) = (if b then ''true'' else ''false'')"
| "json_print (JNum t) = t"
| "json_print (JStr s) = print_str s"
| "json_print (JArr xs) = CHR ''['' # elems_print xs @ [CHR '']'']"
| "json_print (JObj kvs) = CHR ''{'' # members_print kvs @ [CHR ''}'']"
| "elems_print [] = []"
| "elems_print (x # xs) = json_print x @ (if xs = [] then [] else CHR '','' # elems_print xs)"
| "members_print [] = []"
| "members_print ((k, v) # kvs) =
     print_str k @ CHR '':'' # json_print v @ (if kvs = [] then [] else CHR '','' # members_print kvs)"

section \<open>Parsing\<close>

definition json_ws :: "char \<Rightarrow> bool" where
  "json_ws c \<longleftrightarrow> c = CHR '' '' \<or> c = CHR 0x09 \<or> c = CHR 0x0A \<or> c = CHR 0x0D"

abbreviation skip_ws :: "string \<Rightarrow> string" where
  "skip_ws s \<equiv> dropWhile json_ws s"

fun expect :: "string \<Rightarrow> string \<Rightarrow> string option" where
  "expect [] s = Some s"
| "expect (x # xs) [] = None"
| "expect (x # xs) (y # ys) = (if x = y then expect xs ys else None)"

definition utf8 :: "nat \<Rightarrow> string" where
  "utf8 n =
     (if n < 128 then [char_of n]
      else if n < 2048 then [char_of (192 + n div 64), char_of (128 + n mod 64)]
      else if n < 65536 then
        [char_of (224 + n div 4096), char_of (128 + n div 64 mod 64), char_of (128 + n mod 64)]
      else [char_of (240 + n div 262144), char_of (128 + n div 4096 mod 64),
            char_of (128 + n div 64 mod 64), char_of (128 + n mod 64)])"

fun hex4_val :: "string \<Rightarrow> (nat \<times> string) option" where
  "hex4_val (a # b # c # d # r) =
     (case (hex_val a, hex_val b, hex_val c, hex_val d) of
        (Some w, Some x, Some y, Some z) \<Rightarrow> Some (((w * 16 + x) * 16 + y) * 16 + z, r)
      | _ \<Rightarrow> None)"
| "hex4_val _ = None"

definition esc_char :: "char \<Rightarrow> char option" where
  "esc_char c =
     (if c = CHR 0x22 \<or> c = CHR 0x5C \<or> c = CHR ''/'' then Some c
      else if c = CHR ''b'' then Some (CHR 0x08)
      else if c = CHR ''f'' then Some (CHR 0x0C)
      else if c = CHR ''n'' then Some (CHR 0x0A)
      else if c = CHR ''r'' then Some (CHR 0x0D)
      else if c = CHR ''t'' then Some (CHR 0x09)
      else None)"

text \<open>A \<open>\\u\<close> escape, with surrogate pairs joined and lone surrogates replaced.\<close>

definition unicode_escape :: "string \<Rightarrow> (string \<times> string) option" where
  "unicode_escape s =
     (case hex4_val s of
        None \<Rightarrow> None
      | Some (n, r) \<Rightarrow>
          if 55296 \<le> n \<and> n < 57344 then
            (case expect [CHR 0x5C, CHR ''u''] r of
               None \<Rightarrow> Some (utf8 65533, r)
             | Some r' \<Rightarrow>
                 (case hex4_val r' of
                    None \<Rightarrow> Some (utf8 65533, r)
                  | Some (m, r'') \<Rightarrow>
                      if n < 56320 \<and> 56320 \<le> m \<and> m < 57344
                      then Some (utf8 ((n - 55296) * 1024 + (m - 56320) + 65536), r'')
                      else Some (utf8 65533, r)))
          else Some (utf8 n, r))"

fun parse_chars :: "nat \<Rightarrow> string \<Rightarrow> (string \<times> string) option" where
  "parse_chars 0 s = None"
| "parse_chars (Suc n) s =
     (case s of
        [] \<Rightarrow> None
      | c # cs \<Rightarrow>
          if c = CHR 0x22 then Some ([], cs)
          else if c = CHR 0x5C then
            (case cs of
               [] \<Rightarrow> None
             | e # es \<Rightarrow>
                 if e = CHR ''u'' then
                   (case unicode_escape es of
                      None \<Rightarrow> None
                    | Some (u, r) \<Rightarrow> map_option (\<lambda>(t, r'). (u @ t, r')) (parse_chars n r))
                 else (case esc_char e of
                         None \<Rightarrow> None
                       | Some x \<Rightarrow> map_option (\<lambda>(t, r). (x # t, r)) (parse_chars n es)))
          else if byte c < 32 then None
          else map_option (\<lambda>(t, r). (c # t, r)) (parse_chars n cs))"

definition parse_str :: "string \<Rightarrow> (string \<times> string) option" where
  "parse_str s = (case s of [] \<Rightarrow> None | c # cs \<Rightarrow> if c = CHR 0x22 then parse_chars (length s) cs else None)"

definition is_digit :: "char \<Rightarrow> bool" where
  "is_digit c \<longleftrightarrow> 48 \<le> byte c \<and> byte c \<le> 57"

text \<open>The number grammar: an optional minus, an integer without leading zeros, a fraction, an exponent.\<close>

definition num_int :: "string \<Rightarrow> (string \<times> string) option" where
  "num_int s =
     (case s of
        [] \<Rightarrow> None
      | c # cs \<Rightarrow> if c = CHR ''0'' then Some ([c], cs)
                  else if is_digit c then Some (takeWhile is_digit s, dropWhile is_digit s)
                  else None)"

definition num_frac :: "string \<Rightarrow> (string \<times> string) option" where
  "num_frac s =
     (case s of
        [] \<Rightarrow> Some ([], [])
      | c # cs \<Rightarrow>
          if c = CHR ''.'' then
            (if takeWhile is_digit cs = [] then None
             else Some (c # takeWhile is_digit cs, dropWhile is_digit cs))
          else Some ([], s))"

definition num_exp :: "string \<Rightarrow> (string \<times> string) option" where
  "num_exp s =
     (case s of
        [] \<Rightarrow> Some ([], [])
      | c # cs \<Rightarrow>
          if c = CHR ''e'' \<or> c = CHR ''E'' then
            (let (sg, ds) = (case cs of [] \<Rightarrow> ([], [])
                                | x # xs \<Rightarrow> if x = CHR ''+'' \<or> x = CHR ''-'' then ([x], xs) else ([], cs))
             in if takeWhile is_digit ds = [] then None
                else Some (c # sg @ takeWhile is_digit ds, dropWhile is_digit ds))
          else Some ([], s))"

definition parse_num :: "string \<Rightarrow> (string \<times> string) option" where
  "parse_num s =
     (let (sg, r) = (case s of [] \<Rightarrow> ([], []) | c # cs \<Rightarrow> if c = CHR ''-'' then ([c], cs) else ([], s)) in
      (case num_int r of
         None \<Rightarrow> None
       | Some (i, r1) \<Rightarrow>
           (case num_frac r1 of
              None \<Rightarrow> None
            | Some (f, r2) \<Rightarrow>
                (case num_exp r2 of
                   None \<Rightarrow> None
                 | Some (e, r3) \<Rightarrow> Some (sg @ i @ f @ e, r3)))))"

text \<open>
  The value reader is structural in a fuel argument: no more than two calls are made a byte, so twice
  the length of the input plus two, which \<open>json_parse\<close> uses, is always enough (theory GoJsonFuel).
\<close>

fun parse_value :: "nat \<Rightarrow> string \<Rightarrow> (json \<times> string) option"
and parse_elems :: "nat \<Rightarrow> string \<Rightarrow> (json list \<times> string) option"
and parse_members :: "nat \<Rightarrow> string \<Rightarrow> ((string \<times> json) list \<times> string) option" where
  "parse_value 0 s = None"
| "parse_value (Suc n) s =
     (case skip_ws s of
        [] \<Rightarrow> None
      | c # cs \<Rightarrow>
          if c = CHR ''n'' then map_option (\<lambda>r. (JNull, r)) (expect ''ull'' cs)
          else if c = CHR ''t'' then map_option (\<lambda>r. (JBool True, r)) (expect ''rue'' cs)
          else if c = CHR ''f'' then map_option (\<lambda>r. (JBool False, r)) (expect ''alse'' cs)
          else if c = CHR 0x22 then map_option (\<lambda>(t, r). (JStr t, r)) (parse_str (c # cs))
          else if c = CHR ''['' then
            (case skip_ws cs of
               [] \<Rightarrow> None
             | d # ds \<Rightarrow> if d = CHR '']'' then Some (JArr [], ds)
                         else map_option (\<lambda>(xs, r). (JArr xs, r)) (parse_elems n cs))
          else if c = CHR ''{'' then
            (case skip_ws cs of
               [] \<Rightarrow> None
             | d # ds \<Rightarrow> if d = CHR ''}'' then Some (JObj [], ds)
                         else map_option (\<lambda>(ms, r). (JObj ms, r)) (parse_members n cs))
          else map_option (\<lambda>(t, r). (JNum t, r)) (parse_num (c # cs)))"
| "parse_elems 0 s = None"
| "parse_elems (Suc n) s =
     (case parse_value n s of
        None \<Rightarrow> None
      | Some (x, r) \<Rightarrow>
          (case skip_ws r of
             [] \<Rightarrow> None
           | c # cs \<Rightarrow> if c = CHR '']'' then Some ([x], cs)
                       else if c = CHR '','' then map_option (\<lambda>(xs, r'). (x # xs, r')) (parse_elems n cs)
                       else None))"
| "parse_members 0 s = None"
| "parse_members (Suc n) s =
     (case parse_str (skip_ws s) of
        None \<Rightarrow> None
      | Some (k, r) \<Rightarrow>
          (case skip_ws r of
             [] \<Rightarrow> None
           | c # cs \<Rightarrow>
               if c = CHR '':'' then
                 (case parse_value n cs of
                    None \<Rightarrow> None
                  | Some (v, r') \<Rightarrow>
                      (case skip_ws r' of
                         [] \<Rightarrow> None
                       | d # ds \<Rightarrow>
                           if d = CHR ''}'' then Some ([(k, v)], ds)
                           else if d = CHR '','' then
                             map_option (\<lambda>(ms, r''). ((k, v) # ms, r'')) (parse_members n ds)
                           else None))
               else None))"

definition json_parse :: "string \<Rightarrow> (json \<times> string) option" where
  "json_parse s = parse_value (2 * length s + 2) s"

text \<open>\<open>json.Unmarshal\<close> reads the whole text, \<open>Decoder.Decode\<close> the first value of it.\<close>

definition json_unmarshal :: "string \<Rightarrow> json option" where
  "json_unmarshal s =
     (case json_parse s of None \<Rightarrow> None | Some (j, r) \<Rightarrow> if skip_ws r = [] then Some j else None)"

definition json_decode_first :: "string \<Rightarrow> json option" where
  "json_decode_first s = map_option fst (json_parse s)"

section \<open>Decoding into Go values\<close>

text \<open>
  A decoder takes the current value of its target and returns the new one with a flag that is
  false after a type mismatch (Go's \<open>UnmarshalTypeError\<close>, reported once decoding is over).
\<close>

type_synonym 'a decoder = "'a \<Rightarrow> json \<Rightarrow> 'a \<times> bool"

definition dec_string :: "string decoder" where
  "dec_string cur j = (case j of JStr s \<Rightarrow> (s, True) | JNull \<Rightarrow> (cur, True) | _ \<Rightarrow> (cur, False))"

definition dec_bool :: "bool decoder" where
  "dec_bool cur j = (case j of JBool b \<Rightarrow> (b, True) | JNull \<Rightarrow> (cur, True) | _ \<Rightarrow> (cur, False))"

definition dec_int :: "int decoder" where
  "dec_int cur j =
     (case j of
        JNum t \<Rightarrow> (case ParseInt t of Some v \<Rightarrow> (v, True) | None \<Rightarrow> (cur, False))
      | JNull \<Rightarrow> (cur, True)
      | _ \<Rightarrow> (cur, False))"

definition dec_raw :: "json option decoder" where
  "dec_raw cur j = (Some j, True)"

definition dec_slice :: "'a \<Rightarrow> 'a decoder \<Rightarrow> 'a list decoder" where
  "dec_slice zero d cur j =
     (case j of
        JArr xs \<Rightarrow> (map (\<lambda>x. fst (d zero x)) xs, list_all (\<lambda>x. snd (d zero x)) xs)
      | JNull \<Rightarrow> ([], True)
      | _ \<Rightarrow> (cur, False))"

definition dec_map :: "'a \<Rightarrow> 'a decoder \<Rightarrow> 'a gomap decoder" where
  "dec_map zero d cur j =
     (case j of
        JObj kvs \<Rightarrow> (fold (\<lambda>(k, v) m. mput k (fst (d zero v)) m) kvs cur,
                     list_all (\<lambda>(k, v). snd (d zero v)) kvs)
      | JNull \<Rightarrow> ([], True)
      | _ \<Rightarrow> (cur, False))"

definition dec_ptr :: "'a \<Rightarrow> 'a decoder \<Rightarrow> 'a option decoder" where
  "dec_ptr zero d cur j =
     (case j of
        JNull \<Rightarrow> (None, True)
      | _ \<Rightarrow> (let (v, ok) = d (opt_default zero cur) j in (Some v, ok)))"

text \<open>A struct: one step per member, in order; a step receives the key and decides on the field.\<close>

type_synonym 'r field_step = "string \<Rightarrow> json \<Rightarrow> 'r \<Rightarrow> 'r \<times> bool"

fun dec_members :: "'r field_step \<Rightarrow> (string \<times> json) list \<Rightarrow> 'r \<Rightarrow> 'r \<times> bool" where
  "dec_members st [] r = (r, True)"
| "dec_members st ((k, v) # kvs) r =
     (let (r', ok) = st k v r; (r'', ok') = dec_members st kvs r' in (r'', ok \<and> ok'))"

definition dec_struct :: "'r field_step \<Rightarrow> 'r decoder" where
  "dec_struct st cur j =
     (case j of JObj kvs \<Rightarrow> dec_members st kvs cur | JNull \<Rightarrow> (cur, True) | _ \<Rightarrow> (cur, False))"

text \<open>Field selection: the struct tag, compared without regard to case.\<close>

definition key_is :: "string \<Rightarrow> string \<Rightarrow> bool" where
  "key_is name k \<longleftrightarrow> EqualFold name k"

text \<open>\<open>err == nil\<close> after decoding into the zero value.\<close>

definition unmarshal_into :: "'a \<Rightarrow> 'a decoder \<Rightarrow> json option \<Rightarrow> 'a option" where
  "unmarshal_into zero d j =
     (case j of None \<Rightarrow> None | Some v \<Rightarrow> (let (x, ok) = d zero v in if ok then Some x else None))"

section \<open>Encoding Go values\<close>

text \<open>Struct fields marked \<open>omitempty\<close> are left out when they are empty.\<close>

definition opt_field :: "bool \<Rightarrow> string \<Rightarrow> json \<Rightarrow> (string \<times> json) list" where
  "opt_field present k v = (if present then [(k, v)] else [])"

definition enc_int :: "int \<Rightarrow> json" where
  "enc_int v = JNum (FormatInt v)"

definition enc_raw :: "json option \<Rightarrow> json" where
  "enc_raw r = opt_default JNull r"

lemmas dec_defs = dec_string_def dec_bool_def dec_int_def dec_raw_def dec_slice_def dec_map_def
  dec_ptr_def dec_struct_def unmarshal_into_def

section \<open>Semantic equality of documents\<close>

text \<open>
  What a document means once decoded into \<open>any\<close>: the last of several members with the same key
  counts, and a number is the \<open>float64\<close> nearest to its literal.
\<close>

fun bit_len :: "nat \<Rightarrow> nat" where
  "bit_len n = (if n = 0 then 0 else Suc (bit_len (n div 2)))"

declare bit_len.simps [simp del]

definition round_even :: "int \<Rightarrow> int \<Rightarrow> int" where
  "round_even p q =
     (let f = p div q; r = p mod q in
      if 2 * r < q then f else if q < 2 * r then f + 1 else if even f then f else f + 1)"

text \<open>
  The double nearest to the positive rational \<open>p / q\<close>, as mantissa and exponent; \<open>None\<close> when it
  overflows.
\<close>

definition f64_of_ratio :: "nat \<Rightarrow> nat \<Rightarrow> (int \<times> int) option" where
  "f64_of_ratio p q =
     (let e0 = int (bit_len p) - int (bit_len q) - 53;
          scale = (\<lambda>e. if e \<ge> 0 then (int p, int q * 2 ^ nat e) else (int p * 2 ^ nat (- e), int q));
          too_small = (\<lambda>e. case scale e of (a, b) \<Rightarrow> a < 2 ^ 52 * b);
          e1 = (if too_small (e0 + 1) then e0 else e0 + 1);
          e = max e1 (- 1074);
          m = (case scale e of (a, b) \<Rightarrow> round_even a b);
          r = (if m = 2 ^ 53 then (2 ^ 52, e + 1) else (m, e))
      in if snd r > 971 then None else if m = 0 then Some (0, 0) else Some r)"

text \<open>Sign, digits and decimal exponent of a literal.\<close>

definition lit_parts :: "string \<Rightarrow> bool \<times> nat \<times> int" where
  "lit_parts t =
     (let (neg, u) = strip_sign t;
          ip = takeWhile is_digit u; r1 = dropWhile is_digit u;
          fp = (case r1 of [] \<Rightarrow> [] | c # cs \<Rightarrow> if c = CHR ''.'' then takeWhile is_digit cs else []);
          r2 = (case r1 of [] \<Rightarrow> [] | c # cs \<Rightarrow> if c = CHR ''.'' then dropWhile is_digit cs else r1);
          ex = (case r2 of [] \<Rightarrow> 0
                | c # cs \<Rightarrow> (let (en, ds) = strip_sign cs; v = int (opt_default 0 (digits_val 0 ds))
                            in if en then - v else v))
      in (neg, opt_default 0 (digits_val 0 (ip @ fp)), ex - int (length fp)))"

definition f64_of_literal :: "string \<Rightarrow> (int \<times> int) option" where
  "f64_of_literal t =
     (case lit_parts t of (neg, m, ex) \<Rightarrow>
        if m = 0 then Some (0, 0)
        else map_option (\<lambda>(a, e). (if neg then - a else a, e))
               (if ex \<ge> 0 then f64_of_ratio (m * 10 ^ nat ex) 1
                else f64_of_ratio m (10 ^ nat (- ex))))"

datatype jval =
    VNull
  | VBool bool
  | VNum int int
  | VStr string
  | VArr "jval list"
  | VObj "(string \<times> jval) list"

fun decode_any :: "json \<Rightarrow> jval option"
and decode_elems :: "json list \<Rightarrow> jval list option"
and decode_members :: "(string \<times> json) list \<Rightarrow> jval gomap \<Rightarrow> jval gomap option" where
  "decode_any JNull = Some VNull"
| "decode_any (JBool b) = Some (VBool b)"
| "decode_any (JNum t) = map_option (\<lambda>(m, e). VNum m e) (f64_of_literal t)"
| "decode_any (JStr s) = Some (VStr s)"
| "decode_any (JArr xs) = map_option VArr (decode_elems xs)"
| "decode_any (JObj kvs) = map_option VObj (decode_members kvs [])"
| "decode_elems [] = Some []"
| "decode_elems (x # xs) =
     (case (decode_any x, decode_elems xs) of (Some v, Some vs) \<Rightarrow> Some (v # vs) | _ \<Rightarrow> None)"
| "decode_members [] m = Some m"
| "decode_members ((k, v) # kvs) m =
     (case decode_any v of None \<Rightarrow> None | Some x \<Rightarrow> decode_members kvs (mput k x m))"

section \<open>Facts\<close>

lemma key_is_refl [simp]: "key_is k k"
  by (simp add: key_is_def)

lemma dec_raw_simp [simp]: "dec_raw cur j = (Some j, True)"
  by (simp add: dec_raw_def)

lemma dec_string_simps [simp]:
  "dec_string cur (JStr s) = (s, True)"
  "dec_string cur JNull = (cur, True)"
  by (simp_all add: dec_string_def)

lemma dec_int_enc [simp]: "in_int64 v \<Longrightarrow> dec_int cur (enc_int v) = (v, True)"
  by (simp add: dec_int_def enc_int_def)

lemma dec_bool_simps [simp]: "dec_bool cur (JBool b) = (b, True)"
  by (simp add: dec_bool_def)

end
