(* ===== verification/GoJsonRoundtrip.thy ===== *)
theory GoJsonRoundtrip
  imports GoJson
begin

text \<open>
  Reading back what \<open>Marshal\<close> writes: the parser is a left inverse of the printer on documents
  whose numbers are number literals, with any text after the document left over.
\<close>

section \<open>Well-formed documents\<close>

definition wf_num :: "string \<Rightarrow> bool" where
  "wf_num t \<longleftrightarrow> parse_num t = Some (t, [])"

fun wf_json :: "json \<Rightarrow> bool"
and wf_elems :: "json list \<Rightarrow> bool"
and wf_members :: "(string \<times> json) list \<Rightarrow> bool" where
  "wf_json JNull = True"
| "wf_json (JBool b) = True"
| "wf_json (JNum t) = wf_num t"
| "wf_json (JStr s) = True"
| "wf_json (JArr xs) = wf_elems xs"
| "wf_json (JObj kvs) = wf_members kvs"
| "wf_elems [] = True"
| "wf_elems (x # xs) = (wf_json x \<and> wf_elems xs)"
| "wf_members [] = True"
| "wf_members ((k, v) # kvs) = (wf_json v \<and> wf_members kvs)"

text \<open>The text after a number must not continue it.\<close>

definition num_stop :: "string \<Rightarrow> bool" where
  "num_stop s \<longleftrightarrow> (case s of [] \<Rightarrow> True | c # _ \<Rightarrow> \<not> is_digit c \<and> c \<noteq> CHR ''.'' \<and> c \<noteq> CHR ''e'' \<and> c \<noteq> CHR ''E'')"

section \<open>Strings\<close>

lemma hex_chr_parts: "byte c div 16 < 16" "byte c mod 16 < 16"
  by simp_all

lemma parse_chars_plain:
  "c \<noteq> CHR 0x22 \<Longrightarrow> c \<noteq> CHR 0x5C \<Longrightarrow> \<not> byte c < 32 \<Longrightarrow>
   parse_chars (Suc n) (c # cs) = map_option (\<lambda>(t, r). (c # t, r)) (parse_chars n cs)"
  by simp

lemma unicode_escape_hex:
  "byte c < 128 \<Longrightarrow>
   unicode_escape (CHR ''0'' # CHR ''0'' # hex_chr (byte c div 16) # hex_chr (byte c mod 16) # r) = Some ([c], r)"
proof -
  have z: "hex_val (CHR ''0'') = Some 0" by (simp add: hex_val_def Let_def)
  assume "byte c < 128"
  then show ?thesis
    by (simp add: unicode_escape_def z utf8_def)
qed

definition short_escape :: "char \<Rightarrow> bool" where
  "short_escape c \<longleftrightarrow> c = CHR 0x22 \<or> c = CHR 0x5C \<or> c = CHR 0x08 \<or> c = CHR 0x0C \<or> c = CHR 0x0A \<or> c = CHR 0x0D \<or>
     c = CHR 0x09"

definition hex_escape :: "char \<Rightarrow> bool" where
  "hex_escape c \<longleftrightarrow> byte c < 32 \<or> c = CHR ''<'' \<or> c = CHR ''>'' \<or> c = CHR ''&''"

lemma print_char_hex: "\<not> short_escape c \<Longrightarrow> hex_escape c \<Longrightarrow> print_char c = hex4 (byte c)"
  unfolding print_char_def short_escape_def hex_escape_def by presburger

lemma print_char_plain: "\<not> short_escape c \<Longrightarrow> \<not> hex_escape c \<Longrightarrow> print_char c = [c]"
  unfolding print_char_def short_escape_def hex_escape_def by presburger

lemma hex_escape_ascii: "hex_escape c \<Longrightarrow> byte c < 128"
  unfolding hex_escape_def by auto

lemma parse_chars_short:
  "short_escape c \<Longrightarrow>
   parse_chars (Suc n) (print_char c @ s) = map_option (\<lambda>(t, r). (c # t, r)) (parse_chars n s)"
  unfolding short_escape_def by (elim disjE) (simp_all add: print_char_def esc_char_def)

lemma parse_chars_hex:
  assumes "byte c < 128"
  shows "parse_chars (Suc n) (hex4 (byte c) @ s) = map_option (\<lambda>(t, r). (c # t, r)) (parse_chars n s)"
  using unicode_escape_hex [OF assms, of s] by (simp add: hex4_def)

lemma parse_chars_print_char:
  "parse_chars (Suc n) (print_char c @ s) = map_option (\<lambda>(t, r). (c # t, r)) (parse_chars n s)"
proof -
  consider "short_escape c" | "\<not> short_escape c" "hex_escape c" | "\<not> short_escape c" "\<not> hex_escape c"
    by blast
  then show ?thesis
  proof cases
    case 1
    then show ?thesis by (rule parse_chars_short)
  next
    case 2
    then show ?thesis
      using parse_chars_hex [OF hex_escape_ascii [OF 2(2)]] by (simp add: print_char_hex del: parse_chars.simps)
  next
    case 3
    then have "c \<noteq> CHR 0x22" "c \<noteq> CHR 0x5C" "\<not> byte c < 32"
      unfolding short_escape_def hex_escape_def by blast+
    with print_char_plain [OF 3] show ?thesis
      by (simp add: parse_chars_plain del: parse_chars.simps)
  qed
qed

lemma parse_chars_print:
  "length s < n \<Longrightarrow> parse_chars n (concat (map print_char s) @ CHR 0x22 # rest) = Some (s, rest)"
proof (induction s arbitrary: n)
  case Nil
  then show ?case by (cases n) auto
next
  case (Cons c s)
  then obtain m where m: "n = Suc m" "length s < m" by (cases n) auto
  have "parse_chars n (concat (map print_char (c # s)) @ CHR 0x22 # rest) =
      map_option (\<lambda>(t, r). (c # t, r)) (parse_chars m (concat (map print_char s) @ CHR 0x22 # rest))"
    using m parse_chars_print_char [of m c] by simp
  with Cons.IH [OF m(2)] show ?case by simp
qed

lemma length_print_char: "0 < length (print_char c)"
  by (simp add: print_char_def hex4_def)

lemma length_concat_print_char: "length s \<le> length (concat (map print_char s))"
proof (induction s)
  case (Cons c s)
  moreover have "1 \<le> length (print_char c)"
    using length_print_char [of c] by linarith
  ultimately show ?case by simp
qed simp

lemma parse_str_print [simp]: "parse_str (print_str s @ rest) = Some (s, rest)"
proof -
  have "length s < length (print_str s @ rest)"
    using length_concat_print_char [of s] by (simp add: print_str_def)
  from parse_chars_print [OF this, of rest] show ?thesis
    by (simp add: parse_str_def print_str_def del: parse_chars.simps)
qed

section \<open>Numbers\<close>

lemma takeWhile_stop: "\<not> is_digit c \<Longrightarrow> takeWhile is_digit (s @ c # q) = takeWhile is_digit s"
  by (induction s) auto

lemma dropWhile_stop: "\<not> is_digit c \<Longrightarrow> dropWhile is_digit (s @ c # q) = dropWhile is_digit s @ c # q"
  by (induction s) auto

lemma num_int_stop:
  "num_int s = Some (i, r) \<Longrightarrow> \<not> is_digit c \<Longrightarrow> num_int (s @ c # q) = Some (i, r @ c # q)"
  by (auto simp: num_int_def takeWhile_stop dropWhile_stop split: list.splits if_splits)

lemma num_frac_stop:
  "num_frac s = Some (f, r) \<Longrightarrow> \<not> is_digit c \<Longrightarrow> c \<noteq> CHR ''.'' \<Longrightarrow>
   num_frac (s @ c # q) = Some (f, r @ c # q)"
  by (cases s) (auto simp: num_frac_def takeWhile_stop dropWhile_stop split: if_splits)

lemma num_exp_stop:
  "num_exp s = Some (e, r) \<Longrightarrow> \<not> is_digit c \<Longrightarrow> c \<noteq> CHR ''e'' \<Longrightarrow> c \<noteq> CHR ''E'' \<Longrightarrow>
   num_exp (s @ c # q) = Some (e, r @ c # q)"
proof (cases s)
  case (Cons x xs)
  assume a: "num_exp s = Some (e, r)" "\<not> is_digit c" "c \<noteq> CHR ''e''" "c \<noteq> CHR ''E''"
  show ?thesis
  proof (cases "x = CHR ''e'' \<or> x = CHR ''E''")
    case True
    with a Cons show ?thesis
      by (cases xs) (auto simp: num_exp_def takeWhile_stop dropWhile_stop split: if_splits)
  next
    case False
    from a(1) Cons False have "e = []" "r = s" by (auto simp: num_exp_def)
    with Cons False show ?thesis by (simp add: num_exp_def)
  qed
qed (simp add: num_exp_def)

lemma parse_num_stop:
  assumes "wf_num t" and "num_stop rest"
  shows "parse_num (t @ rest) = Some (t, rest)"
proof (cases rest)
  case Nil
  with assms show ?thesis by (simp add: wf_num_def)
next
  case (Cons c q)
  with assms(2) have c: "\<not> is_digit c" "c \<noteq> CHR ''.''" "c \<noteq> CHR ''e''" "c \<noteq> CHR ''E''"
    by (auto simp: num_stop_def)
  from assms(1) have p: "parse_num t = Some (t, [])" by (simp add: wf_num_def)
  then obtain x xs where t: "t = x # xs" by (cases t) (auto simp: parse_num_def num_int_def)
  define r where "r = (if x = CHR ''-'' then xs else t)"
  from p t obtain i r1 f r2 e where
    n: "num_int r = Some (i, r1)" "num_frac r1 = Some (f, r2)" "num_exp r2 = Some (e, [])"
    and eq: "(if x = CHR ''-'' then [x] else []) @ i @ f @ e = t"
    by (auto simp: parse_num_def r_def split: option.splits if_splits)
  from n c have "num_int (r @ c # q) = Some (i, r1 @ c # q)"
    and "num_frac (r1 @ c # q) = Some (f, r2 @ c # q)"
    and "num_exp (r2 @ c # q) = Some (e, c # q)"
    using num_exp_stop [OF n(3) c(1) c(3) c(4), of q]
    by (simp_all add: num_int_stop num_frac_stop)
  with t eq Cons show ?thesis
    by (auto simp: parse_num_def r_def split: if_splits)
qed

section \<open>First characters\<close>

lemma wf_num_first:
  "wf_num t \<Longrightarrow> \<exists>c cs. t = c # cs \<and> (c = CHR ''-'' \<or> is_digit c)"
  by (cases t) (auto simp: wf_num_def parse_num_def num_int_def is_digit_def split: if_splits)

lemma is_digit_not [simp]:
  "is_digit c \<Longrightarrow> \<not> json_ws c" "\<not> is_digit (CHR ''n'')" "\<not> is_digit (CHR ''t'')"
  "\<not> is_digit (CHR ''f'')" "\<not> is_digit (CHR 0x22)" "\<not> is_digit (CHR ''['')"
  "\<not> is_digit (CHR ''{'')" "\<not> is_digit (CHR '']'')" "\<not> is_digit (CHR ''}'')"
  "\<not> is_digit (CHR '','')"
  by (auto simp: is_digit_def json_ws_def)

lemma json_ws_minus: "\<not> json_ws (CHR ''-'')"
  by (simp add: json_ws_def)

lemma json_print_first:
  assumes "wf_json j"
  shows "\<exists>c cs. json_print j = c # cs \<and> \<not> json_ws c \<and> c \<noteq> CHR '']'' \<and> c \<noteq> CHR ''}''"
proof (cases j)
  case (JNum t)
  with assms obtain c cs where t: "t = c # cs" and c: "c = CHR ''-'' \<or> is_digit c"
    using wf_num_first [of t] by auto
  from c have "\<not> json_ws c" "c \<noteq> CHR '']''" "c \<noteq> CHR ''}''"
    by (auto simp: json_ws_minus)
  with t JNum show ?thesis by simp
qed (auto simp: json_ws_def print_str_def)

lemma num_stop_simps [simp]:
  "num_stop []" "num_stop (CHR '','' # r)" "num_stop (CHR '']'' # r)" "num_stop (CHR ''}'' # r)"
  by (simp_all add: num_stop_def is_digit_def)

lemma parse_value_num:
  assumes "wf_num t" and "num_stop rest"
  shows "parse_value (Suc n) (t @ rest) = Some (JNum t, rest)"
proof -
  obtain c cs where t: "t = c # cs" and c: "c = CHR ''-'' \<or> is_digit c"
    using wf_num_first [OF assms(1)] by blast
  have ws: "\<not> json_ws c" using c by (auto simp: json_ws_minus)
  have ne: "c \<noteq> CHR ''n''" "c \<noteq> CHR ''t''" "c \<noteq> CHR ''f''" "c \<noteq> CHR 0x22" "c \<noteq> CHR ''[''" "c \<noteq> CHR ''{''"
    using c by auto
  show ?thesis
    using parse_num_stop [OF assms] t ws ne by simp
qed

section \<open>Documents\<close>

lemma skip_ws_first: "\<not> json_ws c \<Longrightarrow> skip_ws (c # cs) = c # cs"
  by simp

lemma json_ws_punct [simp]:
  "\<not> json_ws (CHR '','')" "\<not> json_ws (CHR '']'')" "\<not> json_ws (CHR ''}'')" "\<not> json_ws (CHR '':'')"
  "\<not> json_ws (CHR 0x22)" "\<not> json_ws (CHR ''['')" "\<not> json_ws (CHR ''{'')"
  by (simp_all add: json_ws_def)

lemma skip_ws_print_str [simp]: "skip_ws (print_str k @ r) = print_str k @ r"
  by (simp add: print_str_def)

lemma parse_print_all:
  shows "wf_json j \<Longrightarrow> length (json_print j) \<le> n \<Longrightarrow> num_stop rest \<Longrightarrow>
      parse_value n (json_print j @ rest) = Some (j, rest)"
    and "wf_elems xs \<Longrightarrow> xs \<noteq> [] \<Longrightarrow> length (elems_print xs) < n \<Longrightarrow>
      parse_elems n (elems_print xs @ CHR '']'' # rest) = Some (xs, rest)"
    and "wf_members kvs \<Longrightarrow> kvs \<noteq> [] \<Longrightarrow> length (members_print kvs) < n \<Longrightarrow>
      parse_members n (members_print kvs @ CHR ''}'' # rest) = Some (kvs, rest)"
proof (induction j and xs and kvs arbitrary: n rest and n rest and n rest
    rule: json_print_elems_print_members_print.induct)
  case 1
  then show ?case by (cases n) (auto simp: json_ws_def)
next
  case (2 b)
  then show ?case by (cases b; cases n) (auto simp: json_ws_def)
next
  case (3 t)
  then obtain m where "n = Suc m" using wf_num_first [of t] by (cases n) auto
  with 3 show ?case by (simp add: parse_value_num del: parse_value.simps)
next
  case (4 s)
  then obtain m where m: "n = Suc m" by (cases n) (auto simp: print_str_def)
  have "parse_str (CHR 0x22 # concat (map print_char s) @ CHR 0x22 # rest) = Some (s, rest)"
    using parse_str_print [of s rest] by (simp add: print_str_def)
  with m show ?case by (simp add: print_str_def)
next
  case (5 xs)
  then obtain m where m: "n = Suc m" by (cases n) auto
  show ?case
  proof (cases xs)
    case Nil
    with m show ?thesis by simp
  next
    case (Cons x ys)
    with 5 obtain c cs where c: "json_print x = c # cs" "\<not> json_ws c" "c \<noteq> CHR '']''"
      using json_print_first [of x] by auto
    have "parse_elems m (elems_print xs @ CHR '']'' # rest) = Some (xs, rest)"
      using 5 m Cons by simp
    with m Cons c show ?thesis by simp
  qed
next
  case (6 kvs)
  then obtain m where m: "n = Suc m" by (cases n) auto
  show ?case
  proof (cases kvs)
    case Nil
    with m show ?thesis by simp
  next
    case (Cons kv rs)
    obtain k v where kv: "kv = (k, v)" by (cases kv)
    have "parse_members m (members_print kvs @ CHR ''}'' # rest) = Some (kvs, rest)"
      using 6 m Cons by simp
    with m Cons kv show ?thesis by (simp add: print_str_def)
  qed
next
  case 7
  then show ?case by simp
next
  case (8 x xs)
  then obtain m where m: "n = Suc m" by (cases n) auto
  show ?case
  proof (cases "xs = []")
    case True
    have "parse_value m (json_print x @ CHR '']'' # rest) = Some (x, CHR '']'' # rest)"
      using 8 m True by simp
    with m True show ?thesis by simp
  next
    case False
    have v: "parse_value m (json_print x @ CHR '','' # elems_print xs @ CHR '']'' # rest) =
        Some (x, CHR '','' # elems_print xs @ CHR '']'' # rest)"
      using 8 m False by simp
    have "parse_elems m (elems_print xs @ CHR '']'' # rest) = Some (xs, rest)"
      using 8 m False by simp
    with m v False show ?thesis by simp
  qed
next
  case 9
  then show ?case by simp
next
  case (10 k v kvs)
  then obtain m where m: "n = Suc m" by (cases n) auto
  show ?case
  proof (cases "kvs = []")
    case True
    have "parse_value m (json_print v @ CHR ''}'' # rest) = Some (v, CHR ''}'' # rest)"
      using 10 m True by simp
    with m True show ?thesis by simp
  next
    case False
    have v: "parse_value m (json_print v @ CHR '','' # members_print kvs @ CHR ''}'' # rest) =
        Some (v, CHR '','' # members_print kvs @ CHR ''}'' # rest)"
      using 10 m False by simp
    have "parse_members m (members_print kvs @ CHR ''}'' # rest) = Some (kvs, rest)"
      using 10 m False by simp
    with m v False show ?thesis by simp
  qed
qed

lemma json_parse_print [simp]:
  "wf_json j \<Longrightarrow> num_stop rest \<Longrightarrow> json_parse (json_print j @ rest) = Some (j, rest)"
  by (simp add: json_parse_def parse_print_all(1) del: parse_value.simps)

lemma json_unmarshal_print [simp]: "wf_json j \<Longrightarrow> json_unmarshal (json_print j) = Some j"
  using json_parse_print [of j "[]"] by (simp add: json_unmarshal_def)

lemma json_decode_first_print [simp]: "wf_json j \<Longrightarrow> json_decode_first (json_print j) = Some j"
  using json_parse_print [of j "[]"] by (simp add: json_decode_first_def)

section \<open>Integers are number literals\<close>

lemma show_nat_all_digits: "c \<in> set (show_nat n) \<Longrightarrow> is_digit c"
  using show_nat_digits by (simp add: is_digit_def)

lemma show_nat_zero_first:
  "show_nat n = CHR ''0'' # cs \<Longrightarrow> cs = []"
proof (induction n arbitrary: cs rule: show_nat.induct)
  case (1 n)
  show ?case
  proof (cases "n < 10")
    case True
    with "1.prems" show ?thesis by (simp add: show_nat.simps [of n])
  next
    case False
    obtain d ds where d: "show_nat (n div 10) = d # ds"
      by (meson neq_Nil_conv show_nat_not_nil)
    with "1.prems" False have z: "d = CHR ''0''" by (simp add: show_nat.simps [of n])
    with "1.IH" [OF False] d have "ds = []" by simp
    with d z have "n div 10 = 0"
      using digits_val_show_nat [of "n div 10"] by (simp add: digit_val_def Let_def)
    with False show ?thesis by simp
  qed
qed

lemma num_int_show_nat: "num_int (show_nat n) = Some (show_nat n, [])"
proof -
  obtain c cs where c: "show_nat n = c # cs" by (meson neq_Nil_conv show_nat_not_nil)
  have all: "\<forall>x\<in>set (show_nat n). is_digit x" using show_nat_all_digits by blast
  then have "takeWhile is_digit (show_nat n) = show_nat n" "dropWhile is_digit (show_nat n) = []"
    by (simp_all add: takeWhile_eq_all_conv dropWhile_eq_Nil_conv)
  moreover have "is_digit c" using all c by simp
  moreover have "c = CHR ''0'' \<Longrightarrow> cs = []" using show_nat_zero_first c by blast
  ultimately show ?thesis using c by (auto simp: num_int_def)
qed

lemma wf_num_FormatInt [simp]: "wf_num (FormatInt v)"
proof -
  have "parse_num (show_nat n) = Some (show_nat n, [])" for n
  proof -
    obtain c cs where c: "show_nat n = c # cs" by (meson neq_Nil_conv show_nat_not_nil)
    then have "c \<noteq> CHR ''-''" using show_nat_hd_not_sign by blast
    with c num_int_show_nat [of n] show ?thesis
      by (simp add: parse_num_def num_frac_def num_exp_def)
  qed
  moreover have "parse_num (CHR ''-'' # show_nat n) = Some (CHR ''-'' # show_nat n, [])" for n
    using num_int_show_nat [of n] by (simp add: parse_num_def num_frac_def num_exp_def)
  ultimately show ?thesis by (simp add: wf_num_def FormatInt_def)
qed

lemma wf_json_enc_int [simp]: "wf_json (enc_int v)"
  by (simp add: enc_int_def)

lemma wf_members_append [simp]: "wf_members (xs @ ys) \<longleftrightarrow> wf_members xs \<and> wf_members ys"
proof (induction xs)
  case (Cons kv xs)
  then show ?case by (cases kv) simp
qed simp

lemma wf_members_opt_field [simp]: "wf_members (opt_field b k v) \<longleftrightarrow> (b \<longrightarrow> wf_json v)"
  by (simp add: opt_field_def)

lemma wf_elems_iff: "wf_elems xs \<longleftrightarrow> (\<forall>x\<in>set xs. wf_json x)"
  by (induction xs) auto

end
