(* ===== verification/X402.thy ===== *)
theory X402
  imports GoJsonRoundtrip
begin

text \<open>
  The package \<open>lib/x402\<close>: the x402 v2 envelopes with their JSON encoding, the base64 header
  transport and the semantic comparison of payment requirements.  Each struct is a record whose
  fields carry a prefix; \<open>json_X\<close> is what \<open>json.Marshal\<close> writes for it and \<open>dec_X\<close> what
  \<open>json.Unmarshal\<close> reads into it.  A nil and an empty slice (or map) are one value here: the
  library never distinguishes them.
\<close>

section \<open>Struct decoders as tables\<close>

text \<open>One row per field: the tag, and what a member with that key does to the struct.\<close>

type_synonym 'r fields = "(string \<times> (json \<Rightarrow> 'r \<Rightarrow> 'r \<times> bool)) list"

definition set_field :: "('r \<Rightarrow> 'a) \<Rightarrow> (('a \<Rightarrow> 'a) \<Rightarrow> 'r \<Rightarrow> 'r) \<Rightarrow> 'a decoder \<Rightarrow> json \<Rightarrow> 'r \<Rightarrow> 'r \<times> bool" where
  "set_field get upd d v r = (let (x, ok) = d (get r) v in (upd (\<lambda>_. x) r, ok))"

fun field_of :: "'r fields \<Rightarrow> 'r field_step" where
  "field_of [] k v r = (r, True)"
| "field_of ((name, f) # fs) k v r = (if key_is name k then f v r else field_of fs k v r)"

definition dec_fields :: "'r fields \<Rightarrow> 'r decoder" where
  "dec_fields fs = dec_struct (field_of fs)"

section \<open>Constants\<close>

definition Version :: int where
  "Version = 2"

definition HeaderPaymentRequired :: string where
  "HeaderPaymentRequired = ''Payment-Required''"

definition HeaderPaymentSignature :: string where
  "HeaderPaymentSignature = ''Payment-Signature''"

definition HeaderPaymentResponse :: string where
  "HeaderPaymentResponse = ''Payment-Response''"

definition MethodLightning :: string where
  "MethodLightning = ''lightning''"

definition MethodOnchain :: string where
  "MethodOnchain = ''onchain''"

definition SchemeExact :: string where
  "SchemeExact = ''exact''"

definition AssetDCR :: string where
  "AssetDCR = ''DCR''"

lemmas x402_consts = Version_def MethodLightning_def MethodOnchain_def SchemeExact_def AssetDCR_def

section \<open>Envelopes\<close>

record ResourceInfo =
  ri_URL :: string
  ri_Description :: string
  ri_MimeType :: string
  ri_ServiceName :: string
  ri_Tags :: "string list"
  ri_IconURL :: string

record Extension =
  ext_Info :: "json option"
  ext_Schema :: "json option"

record PaymentRequirements =
  pr_Scheme :: string
  pr_Network :: string
  pr_Amount :: string
  pr_Asset :: string
  pr_PayTo :: string
  pr_MaxTimeoutSeconds :: int
  pr_Extra :: "json option"

record LightningExtra =
  le_AssetTransferMethod :: string
  le_Invoice :: string
  le_PaymentHash :: string

record OnchainExtra =
  oe_AssetTransferMethod :: string
  oe_Confirmations :: int
  oe_Credential :: string

record PaymentRequired =
  rq_X402Version :: int
  rq_Error :: string
  rq_Resource :: ResourceInfo
  rq_Accepts :: "PaymentRequirements list"
  rq_Extensions :: "Extension gomap"

record PaymentPayload =
  pp_X402Version :: int
  pp_Resource :: "ResourceInfo option"
  pp_Accepted :: PaymentRequirements
  pp_Payload :: "json option"
  pp_Extensions :: "Extension gomap"

record LightningPayload =
  lp_Preimage :: string
  lp_PaymentHash :: string

record OnchainPayload =
  op_TxID :: string

record SettlementResponse =
  sr_Success :: bool
  sr_ErrorReason :: string
  sr_Payer :: string
  sr_Transaction :: string
  sr_Network :: string
  sr_Amount :: string
  sr_Extensions :: "Extension gomap"

record VerifyResponse =
  vr_IsValid :: bool
  vr_InvalidReason :: string
  vr_InvalidMessage :: string
  vr_Payer :: string

record SupportedKind =
  sk_X402Version :: int
  sk_Scheme :: string
  sk_Network :: string
  sk_Extra :: "json option"

record SupportedResponse =
  sup_Kinds :: "SupportedKind list"
  sup_Extensions :: "string list"
  sup_Signers :: "string list gomap"

subsection \<open>Zero values\<close>

definition zero_ResourceInfo :: ResourceInfo where
  "zero_ResourceInfo = \<lparr>ri_URL = [], ri_Description = [], ri_MimeType = [], ri_ServiceName = [], ri_Tags = [],
     ri_IconURL = []\<rparr>"

definition zero_Extension :: Extension where
  "zero_Extension = \<lparr>ext_Info = None, ext_Schema = None\<rparr>"

definition zero_PaymentRequirements :: PaymentRequirements where
  "zero_PaymentRequirements = \<lparr>pr_Scheme = [], pr_Network = [], pr_Amount = [], pr_Asset = [], pr_PayTo = [],
     pr_MaxTimeoutSeconds = 0, pr_Extra = None\<rparr>"

definition zero_PaymentPayload :: PaymentPayload where
  "zero_PaymentPayload = \<lparr>pp_X402Version = 0, pp_Resource = None, pp_Accepted = zero_PaymentRequirements,
     pp_Payload = None, pp_Extensions = []\<rparr>"

definition zero_PaymentRequired :: PaymentRequired where
  "zero_PaymentRequired = \<lparr>rq_X402Version = 0, rq_Error = [], rq_Resource = zero_ResourceInfo, rq_Accepts = [],
     rq_Extensions = []\<rparr>"

definition zero_SettlementResponse :: SettlementResponse where
  "zero_SettlementResponse = \<lparr>sr_Success = False, sr_ErrorReason = [], sr_Payer = [], sr_Transaction = [],
     sr_Network = [], sr_Amount = [], sr_Extensions = []\<rparr>"

subsection \<open>Encoding\<close>

definition json_ResourceInfo :: "ResourceInfo \<Rightarrow> json" where
  "json_ResourceInfo r = JObj (
     (''url'', JStr (ri_URL r)) #
     opt_field (ri_Description r \<noteq> []) ''description'' (JStr (ri_Description r)) @
     opt_field (ri_MimeType r \<noteq> []) ''mimeType'' (JStr (ri_MimeType r)) @
     opt_field (ri_ServiceName r \<noteq> []) ''serviceName'' (JStr (ri_ServiceName r)) @
     opt_field (ri_Tags r \<noteq> []) ''tags'' (JArr (map JStr (ri_Tags r))) @
     opt_field (ri_IconURL r \<noteq> []) ''iconUrl'' (JStr (ri_IconURL r)))"

definition json_Extension :: "Extension \<Rightarrow> json" where
  "json_Extension e = JObj (
     (''info'', enc_raw (ext_Info e)) #
     opt_field (ext_Schema e \<noteq> None) ''schema'' (enc_raw (ext_Schema e)))"

definition json_Extensions :: "Extension gomap \<Rightarrow> json" where
  "json_Extensions m = JObj (map (\<lambda>(k, e). (k, json_Extension e)) m)"

definition json_PaymentRequirements :: "PaymentRequirements \<Rightarrow> json" where
  "json_PaymentRequirements p = JObj (
     [(''scheme'', JStr (pr_Scheme p)), (''network'', JStr (pr_Network p)), (''amount'', JStr (pr_Amount p)),
      (''asset'', JStr (pr_Asset p)), (''payTo'', JStr (pr_PayTo p)),
      (''maxTimeoutSeconds'', enc_int (pr_MaxTimeoutSeconds p))] @
     opt_field (pr_Extra p \<noteq> None) ''extra'' (enc_raw (pr_Extra p)))"

definition json_LightningExtra :: "LightningExtra \<Rightarrow> json" where
  "json_LightningExtra e = JObj [(''assetTransferMethod'', JStr (le_AssetTransferMethod e)),
     (''invoice'', JStr (le_Invoice e)), (''paymentHash'', JStr (le_PaymentHash e))]"

definition json_OnchainExtra :: "OnchainExtra \<Rightarrow> json" where
  "json_OnchainExtra e = JObj (
     (''assetTransferMethod'', JStr (oe_AssetTransferMethod e)) #
     opt_field (oe_Confirmations e \<noteq> 0) ''confirmations'' (enc_int (oe_Confirmations e)) @
     opt_field (oe_Credential e \<noteq> []) ''credential'' (JStr (oe_Credential e)))"

definition json_PaymentRequired :: "PaymentRequired \<Rightarrow> json" where
  "json_PaymentRequired r = JObj (
     (''x402Version'', enc_int (rq_X402Version r)) #
     opt_field (rq_Error r \<noteq> []) ''error'' (JStr (rq_Error r)) @
     [(''resource'', json_ResourceInfo (rq_Resource r)),
      (''accepts'', JArr (map json_PaymentRequirements (rq_Accepts r)))] @
     opt_field (rq_Extensions r \<noteq> []) ''extensions'' (json_Extensions (rq_Extensions r)))"

definition json_PaymentPayload :: "PaymentPayload \<Rightarrow> json" where
  "json_PaymentPayload p = JObj (
     (''x402Version'', enc_int (pp_X402Version p)) #
     (case pp_Resource p of None \<Rightarrow> [] | Some r \<Rightarrow> [(''resource'', json_ResourceInfo r)]) @
     [(''accepted'', json_PaymentRequirements (pp_Accepted p)), (''payload'', enc_raw (pp_Payload p))] @
     opt_field (pp_Extensions p \<noteq> []) ''extensions'' (json_Extensions (pp_Extensions p)))"

definition json_LightningPayload :: "LightningPayload \<Rightarrow> json" where
  "json_LightningPayload p = JObj [(''preimage'', JStr (lp_Preimage p)), (''paymentHash'', JStr (lp_PaymentHash p))]"

definition json_OnchainPayload :: "OnchainPayload \<Rightarrow> json" where
  "json_OnchainPayload p = JObj [(''txid'', JStr (op_TxID p))]"

definition json_SettlementResponse :: "SettlementResponse \<Rightarrow> json" where
  "json_SettlementResponse r = JObj (
     (''success'', JBool (sr_Success r)) #
     opt_field (sr_ErrorReason r \<noteq> []) ''errorReason'' (JStr (sr_ErrorReason r)) @
     opt_field (sr_Payer r \<noteq> []) ''payer'' (JStr (sr_Payer r)) @
     [(''transaction'', JStr (sr_Transaction r)), (''network'', JStr (sr_Network r))] @
     opt_field (sr_Amount r \<noteq> []) ''amount'' (JStr (sr_Amount r)) @
     opt_field (sr_Extensions r \<noteq> []) ''extensions'' (json_Extensions (sr_Extensions r)))"

definition json_VerifyResponse :: "VerifyResponse \<Rightarrow> json" where
  "json_VerifyResponse r = JObj (
     (''isValid'', JBool (vr_IsValid r)) #
     opt_field (vr_InvalidReason r \<noteq> []) ''invalidReason'' (JStr (vr_InvalidReason r)) @
     opt_field (vr_InvalidMessage r \<noteq> []) ''invalidMessage'' (JStr (vr_InvalidMessage r)) @
     opt_field (vr_Payer r \<noteq> []) ''payer'' (JStr (vr_Payer r)))"

definition json_SupportedKind :: "SupportedKind \<Rightarrow> json" where
  "json_SupportedKind k = JObj (
     [(''x402Version'', enc_int (sk_X402Version k)), (''scheme'', JStr (sk_Scheme k)),
      (''network'', JStr (sk_Network k))] @
     opt_field (sk_Extra k \<noteq> None) ''extra'' (enc_raw (sk_Extra k)))"

definition json_SupportedResponse :: "SupportedResponse \<Rightarrow> json" where
  "json_SupportedResponse r = JObj [
     (''kinds'', JArr (map json_SupportedKind (sup_Kinds r))),
     (''extensions'', JArr (map JStr (sup_Extensions r))),
     (''signers'', JObj (map (\<lambda>(k, v). (k, JArr (map JStr v))) (sup_Signers r)))]"

subsection \<open>Decoding\<close>

definition dec_ResourceInfo :: "ResourceInfo decoder" where
  "dec_ResourceInfo = dec_fields [
     (''url'', set_field ri_URL ri_URL_update dec_string),
     (''description'', set_field ri_Description ri_Description_update dec_string),
     (''mimeType'', set_field ri_MimeType ri_MimeType_update dec_string),
     (''serviceName'', set_field ri_ServiceName ri_ServiceName_update dec_string),
     (''tags'', set_field ri_Tags ri_Tags_update (dec_slice [] dec_string)),
     (''iconUrl'', set_field ri_IconURL ri_IconURL_update dec_string)]"

definition dec_Extension :: "Extension decoder" where
  "dec_Extension = dec_fields [
     (''info'', set_field ext_Info ext_Info_update dec_raw),
     (''schema'', set_field ext_Schema ext_Schema_update dec_raw)]"

definition dec_Extensions :: "Extension gomap decoder" where
  "dec_Extensions = dec_map zero_Extension dec_Extension"

definition dec_PaymentRequirements :: "PaymentRequirements decoder" where
  "dec_PaymentRequirements = dec_fields [
     (''scheme'', set_field pr_Scheme pr_Scheme_update dec_string),
     (''network'', set_field pr_Network pr_Network_update dec_string),
     (''amount'', set_field pr_Amount pr_Amount_update dec_string),
     (''asset'', set_field pr_Asset pr_Asset_update dec_string),
     (''payTo'', set_field pr_PayTo pr_PayTo_update dec_string),
     (''maxTimeoutSeconds'', set_field pr_MaxTimeoutSeconds pr_MaxTimeoutSeconds_update dec_int),
     (''extra'', set_field pr_Extra pr_Extra_update dec_raw)]"

definition dec_LightningExtra :: "LightningExtra decoder" where
  "dec_LightningExtra = dec_fields [
     (''assetTransferMethod'', set_field le_AssetTransferMethod le_AssetTransferMethod_update dec_string),
     (''invoice'', set_field le_Invoice le_Invoice_update dec_string),
     (''paymentHash'', set_field le_PaymentHash le_PaymentHash_update dec_string)]"

definition dec_OnchainExtra :: "OnchainExtra decoder" where
  "dec_OnchainExtra = dec_fields [
     (''assetTransferMethod'', set_field oe_AssetTransferMethod oe_AssetTransferMethod_update dec_string),
     (''confirmations'', set_field oe_Confirmations oe_Confirmations_update dec_int),
     (''credential'', set_field oe_Credential oe_Credential_update dec_string)]"

definition dec_PaymentRequired :: "PaymentRequired decoder" where
  "dec_PaymentRequired = dec_fields [
     (''x402Version'', set_field rq_X402Version rq_X402Version_update dec_int),
     (''error'', set_field rq_Error rq_Error_update dec_string),
     (''resource'', set_field rq_Resource rq_Resource_update dec_ResourceInfo),
     (''accepts'', set_field rq_Accepts rq_Accepts_update
        (dec_slice zero_PaymentRequirements dec_PaymentRequirements)),
     (''extensions'', set_field rq_Extensions rq_Extensions_update dec_Extensions)]"

definition dec_PaymentPayload :: "PaymentPayload decoder" where
  "dec_PaymentPayload = dec_fields [
     (''x402Version'', set_field pp_X402Version pp_X402Version_update dec_int),
     (''resource'', set_field pp_Resource pp_Resource_update (dec_ptr zero_ResourceInfo dec_ResourceInfo)),
     (''accepted'', set_field pp_Accepted pp_Accepted_update dec_PaymentRequirements),
     (''payload'', set_field pp_Payload pp_Payload_update dec_raw),
     (''extensions'', set_field pp_Extensions pp_Extensions_update dec_Extensions)]"

definition dec_LightningPayload :: "LightningPayload decoder" where
  "dec_LightningPayload = dec_fields [
     (''preimage'', set_field lp_Preimage lp_Preimage_update dec_string),
     (''paymentHash'', set_field lp_PaymentHash lp_PaymentHash_update dec_string)]"

definition dec_OnchainPayload :: "OnchainPayload decoder" where
  "dec_OnchainPayload = dec_fields [(''txid'', set_field op_TxID op_TxID_update dec_string)]"

definition dec_SettlementResponse :: "SettlementResponse decoder" where
  "dec_SettlementResponse = dec_fields [
     (''success'', set_field sr_Success sr_Success_update dec_bool),
     (''errorReason'', set_field sr_ErrorReason sr_ErrorReason_update dec_string),
     (''payer'', set_field sr_Payer sr_Payer_update dec_string),
     (''transaction'', set_field sr_Transaction sr_Transaction_update dec_string),
     (''network'', set_field sr_Network sr_Network_update dec_string),
     (''amount'', set_field sr_Amount sr_Amount_update dec_string),
     (''extensions'', set_field sr_Extensions sr_Extensions_update dec_Extensions)]"

section \<open>Operations\<close>

text \<open>\<open>json.Unmarshal\<close> of an absent raw message fails, so the method is empty then.\<close>

definition TransferMethod :: "PaymentRequirements \<Rightarrow> string" where
  "TransferMethod pr =
     opt_default [] (unmarshal_into [] (dec_fields [(''assetTransferMethod'', \<lambda>v m. dec_string m v)]) (pr_Extra pr))"

text \<open>Marshalling never fails here: the values are plain data.\<close>

definition EncodeHeader :: "json \<Rightarrow> string" where
  "EncodeHeader v = b64_encode (json_print v)"

datatype header_error = NotBase64 | BadHeaderJSON

definition DecodeHeader :: "'a \<Rightarrow> 'a decoder \<Rightarrow> string \<Rightarrow> (header_error, 'a) result" where
  "DecodeHeader zero d header =
     (case b64_decode (TrimSpace header) of
        None \<Rightarrow> Inl NotBase64
      | Some raw \<Rightarrow>
          (case unmarshal_into zero d (json_decode_first raw) of
             None \<Rightarrow> Inl BadHeaderJSON
           | Some v \<Rightarrow> Inr v))"

fun deepEqualJSON :: "jval \<Rightarrow> jval \<Rightarrow> bool"
and deepEqual_elems :: "jval list \<Rightarrow> jval list \<Rightarrow> bool"
and deepEqual_members :: "(string \<times> jval) list \<Rightarrow> jval gomap \<Rightarrow> bool" where
  "deepEqualJSON (VObj at) b = (case b of VObj bt \<Rightarrow> length at = length bt \<and> deepEqual_members at bt | _ \<Rightarrow> False)"
| "deepEqualJSON (VArr at) b = (case b of VArr bt \<Rightarrow> length at = length bt \<and> deepEqual_elems at bt | _ \<Rightarrow> False)"
| "deepEqualJSON VNull b = (b = VNull)"
| "deepEqualJSON (VBool x) b = (b = VBool x)"
| "deepEqualJSON (VNum m e) b = (b = VNum m e)"
| "deepEqualJSON (VStr s) b = (b = VStr s)"
| "deepEqual_elems [] bt = True"
| "deepEqual_elems (x # xs) bt =
     (case bt of [] \<Rightarrow> True | y # ys \<Rightarrow> deepEqualJSON x y \<and> deepEqual_elems xs ys)"
| "deepEqual_members [] bt = True"
| "deepEqual_members ((k, v) # kvs) bt =
     (case map_of bt k of None \<Rightarrow> False | Some bv \<Rightarrow> deepEqualJSON v bv \<and> deepEqual_members kvs bt)"

definition jsonValueEqual :: "json option \<Rightarrow> json option \<Rightarrow> bool" where
  "jsonValueEqual a b =
     (case (a, b) of
        (Some x, Some y) \<Rightarrow>
          (case (decode_any x, decode_any y) of (Some av, Some bv) \<Rightarrow> deepEqualJSON av bv | _ \<Rightarrow> False)
      | _ \<Rightarrow> a = None \<and> b = None)"

definition EqualSemantic :: "PaymentRequirements \<Rightarrow> PaymentRequirements \<Rightarrow> bool" where
  "EqualSemantic a b =
     (if pr_Scheme a \<noteq> pr_Scheme b \<or> pr_Network a \<noteq> pr_Network b \<or> pr_Amount a \<noteq> pr_Amount b \<or>
         pr_Asset a \<noteq> pr_Asset b \<or> pr_PayTo a \<noteq> pr_PayTo b \<or> pr_MaxTimeoutSeconds a \<noteq> pr_MaxTimeoutSeconds b
      then False
      else jsonValueEqual (pr_Extra a) (pr_Extra b))"

section \<open>Maps in key order\<close>

definition sorted_keys :: "'v gomap \<Rightarrow> bool" where
  "sorted_keys m \<longleftrightarrow> sorted_wrt (<) (map fst m)"

lemma sorted_keys_distinct: "sorted_keys m \<Longrightarrow> distinct (map fst m)"
  by (simp add: sorted_keys_def strict_sorted_iff)

lemma fst_set_mput: "fst ` set (mput k v m) = insert k (fst ` set m)"
proof (induction m)
  case (Cons kv m)
  then show ?case by (cases kv) (simp add: insert_commute)
qed simp

lemma sorted_keys_mput: "sorted_keys m \<Longrightarrow> sorted_keys (mput k v m)"
proof (induction m)
  case (Cons kv m)
  obtain k' v' where kv: "kv = (k', v')" by (cases kv)
  have lt: "k' < x" if "x \<in> fst ` set m" for x
    using Cons.prems kv that by (auto simp: sorted_keys_def)
  have tail: "sorted_keys (mput k v m)" using Cons by (simp add: sorted_keys_def)
  show ?case
  proof (cases "k' < k")
    case True
    then have "\<forall>x\<in>fst ` set (mput k v m). k' < x" using lt by (auto simp: fst_set_mput)
    with True tail kv show ?thesis by (auto simp: sorted_keys_def)
  next
    case False
    with Cons.prems kv lt show ?thesis by (force simp: sorted_keys_def)
  qed
qed (simp add: sorted_keys_def)

lemma mput_last: "(\<And>x. x \<in> fst ` set m \<Longrightarrow> x < k) \<Longrightarrow> mput k v m = m @ [(k, v)]"
proof (induction m)
  case (Cons kv m)
  obtain k' v' where kv: "kv = (k', v')" by (cases kv)
  with Cons.prems have "k' < k" by force
  then have "\<not> k < k'" "k \<noteq> k'" by auto
  moreover have "mput k v m = m @ [(k, v)]" using Cons by simp
  ultimately show ?case using kv by simp
qed simp

lemma fold_mput_sorted:
  "sorted_keys (acc @ m) \<Longrightarrow> fold (\<lambda>(k, v) m. mput k v m) m acc = acc @ m"
proof (induction m arbitrary: acc)
  case (Cons kv m)
  obtain k v where kv: "kv = (k, v)" by (cases kv)
  have "x < k" if "x \<in> fst ` set acc" for x
    using Cons.prems kv that by (force simp: sorted_keys_def sorted_wrt_append)
  then have "mput k v acc = acc @ [(k, v)]" by (rule mput_last)
  with Cons.IH [of "acc @ [(k, v)]"] Cons.prems kv show ?case by simp
qed simp

section \<open>Comparison of decoded documents is equality\<close>

fun canonical :: "jval \<Rightarrow> bool"
and canonical_elems :: "jval list \<Rightarrow> bool"
and canonical_members :: "(string \<times> jval) list \<Rightarrow> bool" where
  "canonical (VObj m) = (sorted_keys m \<and> canonical_members m)"
| "canonical (VArr xs) = canonical_elems xs"
| "canonical VNull = True"
| "canonical (VBool b) = True"
| "canonical (VNum m e) = True"
| "canonical (VStr s) = True"
| "canonical_elems [] = True"
| "canonical_elems (x # xs) = (canonical x \<and> canonical_elems xs)"
| "canonical_members [] = True"
| "canonical_members ((k, v) # m) = (canonical v \<and> canonical_members m)"

lemma canonical_members_iff: "canonical_members m \<longleftrightarrow> (\<forall>(k, v)\<in>set m. canonical v)"
proof (induction m)
  case (Cons kv m)
  then show ?case by (cases kv) auto
qed simp

lemma canonical_members_mput: "canonical_members m \<Longrightarrow> canonical v \<Longrightarrow> canonical_members (mput k v m)"
proof (induction m)
  case (Cons kv m)
  then show ?case by (cases kv) auto
qed simp

lemma decode_canonical:
  shows "decode_any j = Some v \<Longrightarrow> canonical v"
    and "decode_elems js = Some vs \<Longrightarrow> canonical_elems vs"
    and "decode_members kvs m = Some m' \<Longrightarrow> sorted_keys m \<Longrightarrow> canonical_members m \<Longrightarrow>
      sorted_keys m' \<and> canonical_members m'"
proof (induction j and js and kvs m arbitrary: v and vs and m'
    rule: decode_any_decode_elems_decode_members.induct)
  case (3 t)
  then show ?case by auto
next
  case (6 kvs)
  then show ?case by (auto simp: sorted_keys_def)
next
  case (8 x xs)
  then show ?case by (auto split: option.splits)
next
  case (10 k w kvs m)
  then show ?case by (auto simp: sorted_keys_mput canonical_members_mput split: option.splits)
qed auto

lemma sorted_keys_eqI:
  fixes a b :: "'v gomap"
  assumes "sorted_keys a" and "sorted_keys b" and "length a = length b" and "set a \<subseteq> set b"
  shows "a = b"
proof -
  have d: "distinct (map fst a)" "distinct (map fst b)" using assms sorted_keys_distinct by blast+
  have "card (set a) = card (set b)"
    using d assms(3) by (metis distinct_card distinct_map length_map)
  with assms(4) have eq: "set a = set b" by (simp add: card_subset_eq)
  show ?thesis
  proof (rule map_sorted_distinct_set_unique)
    show "inj_on fst (set a \<union> set b)" using d eq by (simp add: distinct_map)
    show "sorted (map fst a)" "sorted (map fst b)"
      using assms(1,2) by (simp_all add: sorted_keys_def strict_sorted_iff)
  qed (use d eq in simp_all)
qed

lemma deepEqual_members_iff:
  "deepEqual_members at bt \<longleftrightarrow> (\<forall>(k, v)\<in>set at. \<exists>bv. map_of bt k = Some bv \<and> deepEqualJSON v bv)"
proof (induction at)
  case (Cons kv at)
  then show ?case by (cases kv) (auto split: option.splits)
qed simp

lemma deepEqual_iff:
  shows "canonical a \<Longrightarrow> canonical b \<Longrightarrow> deepEqualJSON a b \<longleftrightarrow> a = b"
    and "canonical_elems as \<Longrightarrow> canonical_elems bs \<Longrightarrow> length as = length bs \<Longrightarrow>
      deepEqual_elems as bs \<longleftrightarrow> as = bs"
    and "canonical_members at \<Longrightarrow> canonical_members bt \<Longrightarrow>
      deepEqual_members at bt \<longleftrightarrow> (\<forall>(k, v)\<in>set at. map_of bt k = Some v)"
proof (induction a and as and at arbitrary: b and bs and bt
    rule: canonical_canonical_elems_canonical_members.induct)
  case (1 m)
  show ?case
  proof (cases b)
    case (VObj bt)
    have "length m = length bt \<and> (\<forall>(k, v)\<in>set m. map_of bt k = Some v) \<longleftrightarrow> m = bt"
    proof
      assume a: "length m = length bt \<and> (\<forall>(k, v)\<in>set m. map_of bt k = Some v)"
      then have "set m \<subseteq> set bt" by (auto dest: map_of_SomeD)
      with a 1 VObj show "m = bt" by (auto intro: sorted_keys_eqI)
    next
      assume "m = bt"
      with 1 VObj show "length m = length bt \<and> (\<forall>(k, v)\<in>set m. map_of bt k = Some v)"
        by (auto simp: sorted_keys_distinct)
    qed
    with 1 VObj show ?thesis by auto
  qed auto
next
  case (2 xs)
  show ?case
  proof (cases b)
    case (VArr ys)
    with 2 show ?thesis by auto
  qed auto
next
  case (8 x xs)
  then show ?case by (cases bs) auto
next
  case (10 k v m)
  have "canonical bv" if "map_of bt k = Some bv" for bv
    using 10 that map_of_SomeD [OF that] by (auto simp: canonical_members_iff)
  with 10 show ?case by (auto split: option.splits)
qed auto

section \<open>Semantic equality\<close>

lemma jsonValueEqual_iff:
  "jsonValueEqual a b \<longleftrightarrow>
     a = None \<and> b = None \<or>
     (\<exists>x y v. a = Some x \<and> b = Some y \<and> decode_any x = Some v \<and> decode_any y = Some v)"
  using decode_canonical(1) deepEqual_iff(1)
  by (auto simp: jsonValueEqual_def split: option.splits)

text \<open>
  C16: two payment requirements are semantically equal exactly when their scalar fields agree and
  their extras are both absent or decode to the same JSON value.
\<close>

theorem EqualSemantic_iff:
  "EqualSemantic a b \<longleftrightarrow>
     pr_Scheme a = pr_Scheme b \<and> pr_Network a = pr_Network b \<and> pr_Amount a = pr_Amount b \<and>
     pr_Asset a = pr_Asset b \<and> pr_PayTo a = pr_PayTo b \<and>
     pr_MaxTimeoutSeconds a = pr_MaxTimeoutSeconds b \<and>
     (pr_Extra a = None \<and> pr_Extra b = None \<or>
      (\<exists>x y v. pr_Extra a = Some x \<and> pr_Extra b = Some y \<and> decode_any x = Some v \<and> decode_any y = Some v))"
  unfolding EqualSemantic_def jsonValueEqual_iff by auto

lemma EqualSemantic_fields:
  "EqualSemantic a b \<Longrightarrow> pr_Scheme a = pr_Scheme b \<and> pr_Network a = pr_Network b \<and> pr_Amount a = pr_Amount b \<and>
     pr_Asset a = pr_Asset b \<and> pr_PayTo a = pr_PayTo b \<and> pr_MaxTimeoutSeconds a = pr_MaxTimeoutSeconds b"
  by (auto simp: EqualSemantic_def split: if_splits)

lemma EqualSemantic_sym: "EqualSemantic a b \<Longrightarrow> EqualSemantic b a"
  unfolding EqualSemantic_def jsonValueEqual_iff by (auto split: if_splits)

lemma EqualSemantic_trans: "EqualSemantic a b \<Longrightarrow> EqualSemantic b c \<Longrightarrow> EqualSemantic a c"
  unfolding EqualSemantic_def jsonValueEqual_iff by (auto split: if_splits)

lemma sorted_keys_map_of_eqI:
  fixes a b :: "'v gomap"
  assumes "sorted_keys a" and "sorted_keys b" and "map_of a = map_of b"
  shows "a = b"
proof -
  have d: "distinct (map fst a)" "distinct (map fst b)" using assms sorted_keys_distinct by blast+
  have eq: "set a = set b" using d assms(3) map_of_inject_set by blast
  moreover have "length a = length b"
    using d eq by (metis distinct_card distinct_map)
  ultimately show ?thesis using assms sorted_keys_eqI by blast
qed

lemma decode_members_map_of:
  "distinct (map fst kvs) \<Longrightarrow> decode_members kvs m = Some m' \<Longrightarrow>
   map_of m' k = (case map_of kvs k of None \<Rightarrow> map_of m k | Some j \<Rightarrow> decode_any j)"
proof (induction kvs arbitrary: m)
  case (Cons kv kvs)
  obtain k' j' where kv: "kv = (k', j')" by (cases kv)
  with Cons.prems obtain x where x: "decode_any j' = Some x" "decode_members kvs (mput k' x m) = Some m'"
    by (auto split: option.splits)
  have "k' \<notin> fst ` set kvs" using Cons.prems kv by simp
  then have "map_of kvs k' = None" by (simp add: map_of_eq_None_iff)
  with Cons.IH [OF _ x(2)] Cons.prems kv x(1) show ?case by (auto split: option.splits)
qed simp

lemma decode_members_None_iff:
  "decode_members kvs m = None \<longleftrightarrow> (\<exists>(k, j)\<in>set kvs. decode_any j = None)"
proof (induction kvs arbitrary: m)
  case (Cons kv kvs)
  then show ?case by (cases kv) (auto split: option.splits)
qed simp

lemma decode_members_perm:
  assumes "distinct (map fst kvs)" and "distinct (map fst kvs')" and "set kvs = set kvs'"
  shows "decode_members kvs [] = decode_members kvs' []"
proof -
  have mo: "map_of kvs = map_of kvs'" using assms map_of_inject_set by blast
  have sk: "sorted_keys ([] :: jval gomap)" "canonical_members []" by (simp_all add: sorted_keys_def)
  show ?thesis
  proof (cases "decode_members kvs []")
    case None
    moreover have "decode_members kvs' [] = None"
      using None assms(3) by (simp add: decode_members_None_iff)
    ultimately show ?thesis by simp
  next
    case (Some m)
    then have "decode_members kvs' [] \<noteq> None" using assms(3) by (metis decode_members_None_iff option.distinct(1))
    then obtain m' where m': "decode_members kvs' [] = Some m'" by blast
    have "map_of m = map_of m'"
      using decode_members_map_of [OF assms(1) Some] decode_members_map_of [OF assms(2) m'] mo by (intro ext) simp
    moreover have "sorted_keys m" "sorted_keys m'"
      using decode_canonical(3) [OF Some sk] decode_canonical(3) [OF m' sk] by simp_all
    ultimately have "m = m'" by (simp add: sorted_keys_map_of_eqI)
    with Some m' show ?thesis by simp
  qed
qed

text \<open>
  A client that re-serializes the members of \<open>extra\<close> in another order echoes a semantically
  equal entry, as long as no key is repeated and the extra is a decodable document.
\<close>

theorem EqualSemantic_reorder:
  assumes "distinct (map fst kvs)" and "distinct (map fst kvs')" and "set kvs = set kvs'"
    and "decode_any (JObj kvs) \<noteq> None"
  shows "EqualSemantic (pr\<lparr>pr_Extra := Some (JObj kvs)\<rparr>) (pr\<lparr>pr_Extra := Some (JObj kvs')\<rparr>)"
  using assms decode_members_perm [OF assms(1-3)]
  by (auto simp: EqualSemantic_def jsonValueEqual_iff)

theorem EqualSemantic_reorder_witness:
  "EqualSemantic (zero_PaymentRequirements\<lparr>pr_Extra := Some (JObj [(''a'', JNull), (''b'', JBool True)])\<rparr>)
     (zero_PaymentRequirements\<lparr>pr_Extra := Some (JObj [(''b'', JBool True), (''a'', JNull)])\<rparr>)"
  by (rule EqualSemantic_reorder) auto

section \<open>Round trips of the envelopes\<close>

definition wf_raw :: "json option \<Rightarrow> bool" where
  "wf_raw r \<longleftrightarrow> (case r of None \<Rightarrow> True | Some j \<Rightarrow> wf_json j)"

definition wf_Extension :: "Extension \<Rightarrow> bool" where
  "wf_Extension e \<longleftrightarrow> ext_Info e \<noteq> None \<and> wf_raw (ext_Info e) \<and> wf_raw (ext_Schema e)"

definition wf_Extensions :: "Extension gomap \<Rightarrow> bool" where
  "wf_Extensions m \<longleftrightarrow> sorted_keys m \<and> list_all (\<lambda>(k, e). wf_Extension e) m"

definition wf_PaymentRequirements :: "PaymentRequirements \<Rightarrow> bool" where
  "wf_PaymentRequirements p \<longleftrightarrow> in_int64 (pr_MaxTimeoutSeconds p) \<and> wf_raw (pr_Extra p)"

definition wf_PaymentPayload :: "PaymentPayload \<Rightarrow> bool" where
  "wf_PaymentPayload p \<longleftrightarrow> in_int64 (pp_X402Version p) \<and> wf_PaymentRequirements (pp_Accepted p) \<and>
     pp_Payload p \<noteq> None \<and> wf_raw (pp_Payload p) \<and> wf_Extensions (pp_Extensions p)"

definition wf_PaymentRequired :: "PaymentRequired \<Rightarrow> bool" where
  "wf_PaymentRequired r \<longleftrightarrow> in_int64 (rq_X402Version r) \<and> list_all wf_PaymentRequirements (rq_Accepts r) \<and>
     wf_Extensions (rq_Extensions r)"

lemmas fold_keys = key_is_def EqualFold_def ToLower_def lower_char_def Let_def
lemmas field_defs = dec_fields_def dec_struct_def set_field_def opt_field_def fold_keys

lemma wf_json_enc_raw [simp]: "wf_raw r \<Longrightarrow> wf_json (enc_raw r)"
  by (cases r) (simp_all add: wf_raw_def enc_raw_def)

lemma enc_raw_Some [simp]: "enc_raw (Some j) = j"
  by (simp add: enc_raw_def)

lemma dec_slice_map:
  "(\<And>x. x \<in> set xs \<Longrightarrow> d zero (f x) = (x, True)) \<Longrightarrow> dec_slice zero d cur (JArr (map f xs)) = (xs, True)"
  by (induction xs) (auto simp: dec_slice_def)

lemma dec_map_sorted:
  assumes "sorted_keys m" and "\<And>k x. (k, x) \<in> set m \<Longrightarrow> d zero (f x) = (x, True)"
  shows "dec_map zero d [] (JObj (map (\<lambda>(k, x). (k, f x)) m)) = (m, True)"
proof -
  have "fold (\<lambda>(k, v) acc. mput k (fst (d zero v)) acc) (map (\<lambda>(k, x). (k, f x)) m) acc =
      fold (\<lambda>(k, v) acc. mput k v acc) m acc" for acc
    using assms(2)
  proof (induction m arbitrary: acc)
    case (Cons kv m)
    then show ?case by (cases kv) (simp, fastforce)
  qed simp
  moreover have "list_all (\<lambda>(k, v). snd (d zero v)) (map (\<lambda>(k, x). (k, f x)) m)"
    using assms(2) by (auto simp: list_all_iff)
  ultimately show ?thesis
    using fold_mput_sorted [of "[]" m] assms(1) by (simp add: dec_map_def)
qed

lemma dec_ResourceInfo_json [simp]: "dec_ResourceInfo zero_ResourceInfo (json_ResourceInfo r) = (r, True)"
  using dec_slice_map [of "ri_Tags r" dec_string "[]" JStr]
  by (cases r) (auto simp: dec_ResourceInfo_def json_ResourceInfo_def zero_ResourceInfo_def field_defs)

lemma dec_PaymentRequirements_json [simp]:
  "in_int64 (pr_MaxTimeoutSeconds p) \<Longrightarrow>
   dec_PaymentRequirements zero_PaymentRequirements (json_PaymentRequirements p) = (p, True)"
  by (cases p) (auto simp: dec_PaymentRequirements_def json_PaymentRequirements_def zero_PaymentRequirements_def
      field_defs)

lemma dec_Extension_json [simp]:
  "ext_Info e \<noteq> None \<Longrightarrow> dec_Extension zero_Extension (json_Extension e) = (e, True)"
  by (cases e) (auto simp: dec_Extension_def json_Extension_def zero_Extension_def field_defs)

lemma dec_Extensions_json [simp]:
  "wf_Extensions m \<Longrightarrow> dec_Extensions [] (json_Extensions m) = (m, True)"
  unfolding dec_Extensions_def json_Extensions_def
  by (rule dec_map_sorted) (auto simp: wf_Extensions_def wf_Extension_def list_all_iff intro!: dec_Extension_json)

lemma dec_ptr_ResourceInfo [simp]:
  "dec_ptr zero_ResourceInfo dec_ResourceInfo None (json_ResourceInfo r) = (Some r, True)"
proof -
  have "json_ResourceInfo r \<noteq> JNull" by (simp add: json_ResourceInfo_def)
  then show ?thesis by (cases "json_ResourceInfo r") (auto simp: dec_ptr_def dest: sym)
qed

lemma dec_PaymentPayload_json [simp]:
  "wf_PaymentPayload p \<Longrightarrow> dec_PaymentPayload zero_PaymentPayload (json_PaymentPayload p) = (p, True)"
  by (cases p) (auto simp: dec_PaymentPayload_def json_PaymentPayload_def zero_PaymentPayload_def
      wf_PaymentPayload_def wf_PaymentRequirements_def field_defs split: option.splits)

lemma dec_PaymentRequired_json [simp]:
  assumes "wf_PaymentRequired r"
  shows "dec_PaymentRequired zero_PaymentRequired (json_PaymentRequired r) = (r, True)"
proof -
  have "dec_slice zero_PaymentRequirements dec_PaymentRequirements []
      (JArr (map json_PaymentRequirements (rq_Accepts r))) = (rq_Accepts r, True)"
    using assms by (intro dec_slice_map dec_PaymentRequirements_json)
      (auto simp: wf_PaymentRequired_def wf_PaymentRequirements_def list_all_iff)
  with assms show ?thesis
    by (cases r) (auto simp: dec_PaymentRequired_def json_PaymentRequired_def zero_PaymentRequired_def
        wf_PaymentRequired_def field_defs)
qed

lemma dec_SettlementResponse_json [simp]:
  "wf_Extensions (sr_Extensions r) \<Longrightarrow>
   dec_SettlementResponse zero_SettlementResponse (json_SettlementResponse r) = (r, True)"
  by (cases r) (auto simp: dec_SettlementResponse_def json_SettlementResponse_def zero_SettlementResponse_def
      field_defs)

subsection \<open>The encodings are well formed\<close>

lemma wf_elems_map_JStr [simp]: "wf_elems (map JStr xs)"
  by (simp add: wf_elems_iff)

lemma wf_json_ResourceInfo [simp]: "wf_json (json_ResourceInfo r)"
  by (simp add: json_ResourceInfo_def)

lemma wf_json_Extension [simp]: "wf_Extension e \<Longrightarrow> wf_json (json_Extension e)"
  by (simp add: json_Extension_def wf_Extension_def)

lemma wf_json_Extensions [simp]: "wf_Extensions m \<Longrightarrow> wf_json (json_Extensions m)"
proof -
  have "list_all (\<lambda>(k, e). wf_Extension e) m \<Longrightarrow> wf_members (map (\<lambda>(k, e). (k, json_Extension e)) m)"
    by (induction m) auto
  then show "wf_Extensions m \<Longrightarrow> wf_json (json_Extensions m)"
    by (simp add: json_Extensions_def wf_Extensions_def)
qed

lemma wf_json_PaymentRequirements [simp]:
  "wf_raw (pr_Extra p) \<Longrightarrow> wf_json (json_PaymentRequirements p)"
  by (simp add: json_PaymentRequirements_def)

lemma wf_json_PaymentPayload [simp]: "wf_PaymentPayload p \<Longrightarrow> wf_json (json_PaymentPayload p)"
  by (auto simp: json_PaymentPayload_def wf_PaymentPayload_def wf_PaymentRequirements_def split: option.splits)

lemma wf_json_PaymentRequired [simp]: "wf_PaymentRequired r \<Longrightarrow> wf_json (json_PaymentRequired r)"
  by (auto simp: json_PaymentRequired_def wf_PaymentRequired_def wf_PaymentRequirements_def wf_elems_iff list_all_iff)

lemma wf_json_SettlementResponse [simp]:
  "wf_Extensions (sr_Extensions r) \<Longrightarrow> wf_json (json_SettlementResponse r)"
  by (simp add: json_SettlementResponse_def)

subsection \<open>The header transport\<close>

lemma TrimSpace_b64 [simp]: "TrimSpace (b64_encode bs) = b64_encode bs"
proof (cases "b64_encode bs = []")
  case False
  have "\<not> is_space c" if "c \<in> set (b64_encode bs)" for c
    using b64_text_chars [OF b64_text_encode that] by (auto simp: is_space_def)
  with False show ?thesis by (intro TrimSpace_id) auto
qed (simp add: TrimSpace_def trim_by_def)

lemma DecodeHeader_EncodeHeader:
  "wf_json j \<Longrightarrow> d zero j = (x, True) \<Longrightarrow> DecodeHeader zero d (EncodeHeader j) = Inr x"
  by (simp add: DecodeHeader_def EncodeHeader_def unmarshal_into_def)


definition sample_requirements :: PaymentRequirements where
  "sample_requirements = \<lparr>pr_Scheme = ''exact'', pr_Network = ''decred:mainnet'', pr_Amount = ''1000'',
     pr_Asset = ''DCR'', pr_PayTo = ''02ab'', pr_MaxTimeoutSeconds = 60,
     pr_Extra = Some (JObj [(''assetTransferMethod'', JStr ''lightning'')])\<rparr>"

definition sample_payload :: PaymentPayload where
  "sample_payload = \<lparr>pp_X402Version = 2, pp_Resource = None, pp_Accepted = sample_requirements,
     pp_Payload = Some (JObj [(''preimage'', JStr ''00'')]), pp_Extensions = []\<rparr>"


end
