(* ===== verification/GoSha256.thy ===== *)
theory GoSha256
  imports GoCodec "HOL-Library.Word"
begin

text \<open>
  Go's \<open>crypto/sha256\<close> and \<open>crypto/hmac\<close>, as the functions themselves: the FIPS 180-4
  compression function on 32-bit words and the RFC 2104 construction.  The component theories
  only use that a digest has 32 bytes and that the functions are functions; the known-answer
  lemma of theory \<open>Sha256KAT\<close> pins the definition to the standard.
\<close>

unbundle bit_operations_syntax

type_synonym w32 = "32 word"

section \<open>Words and bytes\<close>

definition ror :: "nat \<Rightarrow> w32 \<Rightarrow> w32" where
  "ror n x = drop_bit n x OR push_bit (32 - n) x"

definition be32 :: "w32 \<Rightarrow> bytes" where
  "be32 x = map (\<lambda>i. char_of (uint (drop_bit i x AND 0xff))) [24, 16, 8, 0]"

fun words_be :: "bytes \<Rightarrow> w32 list" where
  "words_be (a # b # c # d # r) =
     word_of_int (((of_char a * 256 + of_char b) * 256 + of_char c) * 256 + of_char d) # words_be r"
| "words_be _ = []"

section \<open>SHA-256\<close>

text \<open>The round constants and the initial state, the leading 32 bits of the fractions of cube and square roots of primes, in decimal.\<close>

definition sha_k :: "w32 list" where
  "sha_k = concat [
     [1116352408, 1899447441, 3049323471, 3921009573],
     [961987163, 1508970993, 2453635748, 2870763221],
     [3624381080, 310598401, 607225278, 1426881987],
     [1925078388, 2162078206, 2614888103, 3248222580],
     [3835390401, 4022224774, 264347078, 604807628],
     [770255983, 1249150122, 1555081692, 1996064986],
     [2554220882, 2821834349, 2952996808, 3210313671],
     [3336571891, 3584528711, 113926993, 338241895],
     [666307205, 773529912, 1294757372, 1396182291],
     [1695183700, 1986661051, 2177026350, 2456956037],
     [2730485921, 2820302411, 3259730800, 3345764771],
     [3516065817, 3600352804, 4094571909, 275423344],
     [430227734, 506948616, 659060556, 883997877],
     [958139571, 1322822218, 1537002063, 1747873779],
     [1955562222, 2024104815, 2227730452, 2361852424],
     [2428436474, 2756734187, 3204031479, 3329325298]]"

type_synonym sha_state = "w32 \<times> w32 \<times> w32 \<times> w32 \<times> w32 \<times> w32 \<times> w32 \<times> w32"

definition sha_init :: sha_state where
  "sha_init = (1779033703, 3144134277, 1013904242, 2773480762,
     1359893119, 2600822924, 528734635, 1541459225)"

text \<open>The message schedule, kept newest first: sixteen words give the next one.\<close>

definition sha_next :: "w32 list \<Rightarrow> w32" where
  "sha_next ws =
     (let w2 = ws ! 1; w7 = ws ! 6; w15 = ws ! 14; w16 = ws ! 15;
          s0 = ror 7 w15 XOR ror 18 w15 XOR drop_bit 3 w15;
          s1 = ror 17 w2 XOR ror 19 w2 XOR drop_bit 10 w2
      in w16 + s0 + w7 + s1)"

fun sha_extend :: "nat \<Rightarrow> w32 list \<Rightarrow> w32 list" where
  "sha_extend 0 ws = ws"
| "sha_extend (Suc n) ws = sha_extend n (sha_next ws # ws)"

definition sha_round :: "w32 \<times> w32 \<Rightarrow> sha_state \<Rightarrow> sha_state" where
  "sha_round kw s =
     (case (kw, s) of ((k, w), (a, b, c, d, e, f, g, h)) \<Rightarrow>
        let s1 = ror 6 e XOR ror 11 e XOR ror 25 e;
            ch = (e AND f) XOR (NOT e AND g);
            t1 = h + s1 + ch + k + w;
            s0 = ror 2 a XOR ror 13 a XOR ror 22 a;
            maj = (a AND b) XOR (a AND c) XOR (b AND c);
            t2 = s0 + maj
        in (t1 + t2, a, b, c, d + t1, e, f, g))"

definition sha_add :: "sha_state \<Rightarrow> sha_state \<Rightarrow> sha_state" where
  "sha_add s t =
     (case (s, t) of ((a, b, c, d, e, f, g, h), (a', b', c', d', e', f', g', h')) \<Rightarrow>
        (a + a', b + b', c + c', d + d', e + e', f + f', g + g', h + h'))"

definition sha_block :: "bytes \<Rightarrow> sha_state \<Rightarrow> sha_state" where
  "sha_block blk s = sha_add s (fold sha_round (zip sha_k (rev (sha_extend 48 (rev (words_be blk))))) s)"

definition sha_pad :: "bytes \<Rightarrow> bytes" where
  "sha_pad m =
     (let n = length m; z = (119 - n mod 64) mod 64; bits = 8 * int n in
      m @ CHR 0x80 # replicate z (CHR 0x00) @ map (\<lambda>i. char_of (bits div 256 ^ i)) [7,6,5,4,3,2,1,0])"

fun sha_blocks :: "nat \<Rightarrow> bytes \<Rightarrow> sha_state \<Rightarrow> sha_state" where
  "sha_blocks 0 m s = s"
| "sha_blocks (Suc n) m s = sha_blocks n (drop 64 m) (sha_block (take 64 m) s)"

definition sha_digest :: "sha_state \<Rightarrow> bytes" where
  "sha_digest s =
     (case s of (a, b, c, d, e, f, g, h) \<Rightarrow>
        be32 a @ be32 b @ be32 c @ be32 d @ be32 e @ be32 f @ be32 g @ be32 h)"

definition sha256 :: "bytes \<Rightarrow> bytes" where
  "sha256 m = (let p = sha_pad m in sha_digest (sha_blocks (length p div 64) p sha_init))"

section \<open>HMAC-SHA256\<close>

definition hmac_key :: "bytes \<Rightarrow> bytes" where
  "hmac_key k = (let k' = (if 64 < length k then sha256 k else k) in k' @ replicate (64 - length k') (CHR 0x00))"

definition xor_pad :: "int \<Rightarrow> bytes \<Rightarrow> bytes" where
  "xor_pad p k = map (\<lambda>c. char_of (of_char c XOR p)) k"

definition hmac_sha256 :: "bytes \<Rightarrow> bytes \<Rightarrow> bytes" where
  "hmac_sha256 k m =
     (let kk = hmac_key k in sha256 (xor_pad 0x5c kk @ sha256 (xor_pad 0x36 kk @ m)))"

section \<open>Facts\<close>

lemma length_be32 [simp]: "length (be32 x) = 4"
  by (simp add: be32_def)

lemma length_sha_digest [simp]: "length (sha_digest s) = 32"
  by (simp add: sha_digest_def split: prod.split)

lemma length_sha256 [simp]: "length (sha256 m) = 32"
  by (simp add: sha256_def Let_def)

lemma length_hmac_sha256 [simp]: "length (hmac_sha256 k m) = 32"
  by (simp add: hmac_sha256_def Let_def)

end
