(* ===== verification/GoTime.thy ===== *)
theory GoTime
  imports GoStrings
begin

text \<open>
  Go's \<open>time\<close> package as the code uses it.  A \<open>time.Time\<close> is the number of nanoseconds since
  the Unix epoch, a \<open>time.Duration\<close> a number of nanoseconds; the zero \<open>time.Time\<close>, which the
  code uses for "no clock", is \<open>None\<close> where it can occur.
\<close>

type_synonym time = int
type_synonym duration = int

definition second :: duration where "second = 10 ^ 9"
definition minute :: duration where "minute = 60 * second"
definition hour :: duration where "hour = 60 * minute"
definition day :: duration where "day = 24 * hour"

definition Unix :: "time \<Rightarrow> int" where
  "Unix t = t div second"

definition from_unix :: "int \<Rightarrow> time" where
  "from_unix s = s * second"

text \<open>\<open>Duration.Seconds\<close> converted to an integer: the code only converts whole, non-negative durations.\<close>

definition Seconds :: "duration \<Rightarrow> int" where
  "Seconds d = d div second"

section \<open>Calendar\<close>

text \<open>Year, month and day of a day number counted from the epoch (proleptic Gregorian).\<close>

definition civil_from_days :: "int \<Rightarrow> int \<times> int \<times> int" where
  "civil_from_days z =
     (let z' = z + 719468;
          era = z' div 146097;
          doe = z' mod 146097;
          yoe = (doe - doe div 1460 + doe div 36524 - doe div 146096) div 365;
          doy = doe - (365 * yoe + yoe div 4 - yoe div 100);
          mp = (5 * doy + 2) div 153;
          d = doy - (153 * mp + 2) div 5 + 1;
          m = (if mp < 10 then mp + 3 else mp - 9);
          y = yoe + era * 400 + (if m \<le> 2 then 1 else 0)
      in (y, m, d))"

definition pad_to :: "nat \<Rightarrow> string \<Rightarrow> string" where
  "pad_to n s = replicate (n - length s) (CHR ''0'') @ s"

text \<open>\<open>t.UTC().Format(time.RFC3339)\<close>.\<close>

definition rfc3339 :: "time \<Rightarrow> string" where
  "rfc3339 t =
     (let s = Unix t; (y, m, d) = civil_from_days (s div 86400); r = s mod 86400 in
      pad_to 4 (FormatInt y) @ ''-'' @ pad_to 2 (FormatInt m) @ ''-'' @ pad_to 2 (FormatInt d) @ ''T'' @
      pad_to 2 (FormatInt (r div 3600)) @ '':'' @ pad_to 2 (FormatInt (r div 60 mod 60)) @ '':'' @
      pad_to 2 (FormatInt (r mod 60)) @ ''Z'')"

lemmas time_units = second_def minute_def hour_def day_def

section \<open>Facts\<close>

lemma second_pos [simp]: "0 < second" "second \<noteq> 0"
  by (simp_all add: second_def)

lemma day_pos [simp]: "0 < day"
  by (simp add: time_units)

lemma Unix_from_unix [simp]: "Unix (from_unix s) = s"
  by (simp add: Unix_def from_unix_def)

lemma from_unix_Unix_le: "from_unix (Unix t) \<le> t"
  using pos_mod_sign [of second t] by (simp add: Unix_def from_unix_def minus_mod_eq_div_mult [symmetric])

lemma from_unix_Unix_gt: "t < from_unix (Unix t) + second"
  using pos_mod_bound [of second t] by (simp add: Unix_def from_unix_def minus_mod_eq_div_mult [symmetric])

lemma from_unix_mono [simp]: "from_unix a \<le> from_unix b \<longleftrightarrow> a \<le> b"
  by (simp add: from_unix_def)

lemma Unix_mono: "a \<le> b \<Longrightarrow> Unix a \<le> Unix b"
  by (simp add: Unix_def zdiv_mono1)

lemma less_from_unix_iff: "t < from_unix s \<longleftrightarrow> Unix t < s"
proof
  assume "t < from_unix s"
  then have "from_unix (Unix t) < from_unix s"
    using from_unix_Unix_le [of t] by linarith
  then show "Unix t < s" by (metis from_unix_mono not_le)
next
  assume "Unix t < s"
  then have "from_unix (Unix t + 1) \<le> from_unix s" by simp
  then show "t < from_unix s"
    using from_unix_Unix_gt [of t] by (simp add: from_unix_def algebra_simps)
qed

section \<open>Durations\<close>

text \<open>
  \<open>time.ParseDuration\<close>.  The magnitude is accumulated in a 64-bit unsigned integer and refused above
  \<open>2^63\<close>; the fraction of a unit, which Go computes in floating point, is taken exactly and rounded
  down.
\<close>

definition duration_unit :: "string \<Rightarrow> int option" where
  "duration_unit u = map_of
     [(''ns'', 1), (''us'', 10 ^ 3), ([CHR 0xC2, CHR 0xB5, CHR ''s''], 10 ^ 3), ([CHR 0xCE, CHR 0xBC, CHR ''s''], 10 ^ 3),
      (''ms'', 10 ^ 6), (''s'', 10 ^ 9), (''m'', 60 * 10 ^ 9), (''h'', 3600 * 10 ^ 9)] u"

definition is_digit :: "char \<Rightarrow> bool" where
  "is_digit c \<longleftrightarrow> digit_val c \<noteq> None"

text \<open>\<open>leadingInt\<close>: \<open>None\<close> is the overflow of \<open>2^63\<close>.\<close>

fun leadingInt :: "int \<Rightarrow> string \<Rightarrow> (int \<times> string) option" where
  "leadingInt x [] = Some (x, [])"
| "leadingInt x (c # cs) =
     (case digit_val c of
        None \<Rightarrow> Some (x, c # cs)
      | Some d \<Rightarrow>
          if x > 2 ^ 63 div 10 then None
          else if x * 10 + int d > 2 ^ 63 then None else leadingInt (x * 10 + int d) cs)"

text \<open>\<open>leadingFraction\<close>: digits past the precision are skipped.  The result is the digits, the scale and the rest.\<close>

fun leadingFraction :: "int \<Rightarrow> int \<Rightarrow> bool \<Rightarrow> string \<Rightarrow> int \<times> int \<times> string" where
  "leadingFraction x scale full [] = (x, scale, [])"
| "leadingFraction x scale full (c # cs) =
     (case digit_val c of
        None \<Rightarrow> (x, scale, c # cs)
      | Some d \<Rightarrow>
          if full \<or> x > (2 ^ 63 - 1) div 10 \<or> x * 10 + int d > 2 ^ 63 then leadingFraction x scale True cs
          else leadingFraction (x * 10 + int d) (scale * 10) False cs)"

definition duration_part :: "string \<Rightarrow> (int \<times> string) option" where
  "duration_part s =
     (if s = [] \<or> \<not> (hd s = CHR ''.'' \<or> is_digit (hd s)) then None
      else (case leadingInt 0 s of
              None \<Rightarrow> None
            | Some (v, s1) \<Rightarrow>
                (let pre = (length s1 \<noteq> length s);
                     dot = (s1 \<noteq> [] \<and> hd s1 = CHR ''.'');
                     fr = (if dot then leadingFraction 0 1 False (tl s1) else (0, 1, s1));
                     s2 = snd (snd fr);
                     post = (dot \<and> length s2 \<noteq> length (tl s1)) in
                 if \<not> pre \<and> \<not> post then None
                 else (let u = takeWhile (\<lambda>c. \<not> (c = CHR ''.'' \<or> is_digit c)) s2; s3 = drop (length u) s2 in
                       if u = [] then None
                       else (case duration_unit u of
                               None \<Rightarrow> None
                             | Some m \<Rightarrow>
                                 if v > 2 ^ 63 div m then None
                                 else (let w = v * m + (if fst fr > 0 then fst fr * m div fst (snd fr) else 0) in
                                       if w > 2 ^ 63 then None else Some (w, s3)))))))"

text \<open>Every part consumes at least its unit, so the length of the text is fuel enough.\<close>

fun duration_parts :: "nat \<Rightarrow> int \<Rightarrow> string \<Rightarrow> int option" where
  "duration_parts n d [] = Some d"
| "duration_parts 0 d (c # cs) = None"
| "duration_parts (Suc n) d (c # cs) =
     (case duration_part (c # cs) of
        None \<Rightarrow> None
      | Some (v, s) \<Rightarrow> if d + v > 2 ^ 63 then None else duration_parts n (d + v) s)"

definition ParseDuration :: "string \<Rightarrow> duration option" where
  "ParseDuration s =
     (case strip_sign s of
        (neg, s) \<Rightarrow>
          if s = ''0'' then Some 0
          else if s = [] then None
          else (case duration_parts (length s) 0 s of
                  None \<Rightarrow> None
                | Some d \<Rightarrow> if neg then Some (- d) else if d > 2 ^ 63 - 1 then None else Some d))"

end
