(* ===== verification/L402.thy ===== *)
theory L402
  imports GoSha256 GoCodec GoTime "HOL-Library.Char_ord" "HOL-Library.List_Lexorder"
begin

text \<open>
  The package \<open>lib/l402\<close>: token identifiers, macaroons with their HMAC chain and V2 binary
  form, caveat verification, and the Authorization and WWW-Authenticate header values.  The hash
  and the MAC are the functions of theory \<open>GoSha256\<close>, so a minted token is a concrete byte
  string.  Errors are the branches of the code, one constructor per message.
\<close>

datatype l402_error =
    BadIdentifierLength | UnsupportedVersion
  | BadFieldType | BadLengthVarint | FieldPastEnd | SectionPastEnd
  | NotV2 | InvalidHeader | ThirdPartyCaveat | CaveatMissingIdentifier | InvalidSignatureField | TrailingBytes
  | SignatureMismatch | BadPreimage | PreimageMismatch
  | MalformedCaveat | ServicesWidened | ServiceNotCovered | CapabilitiesWidened | CapabilityNotPermitted
  | BadValidUntil | ValidUntilWidened | TokenExpired | NoServicesCaveat | NoCapabilitiesCaveat
  | MalformedParameter | MissingParameter | MacaroonNotBase64 | MalformedCredential | PreimageNotHex

section \<open>Identifiers\<close>

definition IdentifierVersion :: nat where
  "IdentifierVersion = 0"

definition identifierSize :: nat where
  "identifierSize = 66"

record Identifier =
  id_Version :: nat
  id_PaymentHash :: bytes
  id_TokenID :: bytes

definition Identifier_Encode :: "Identifier \<Rightarrow> bytes" where
  "Identifier_Encode i = PutUint16 (id_Version i) @ id_PaymentHash i @ id_TokenID i"

definition DecodeIdentifier :: "bytes \<Rightarrow> (l402_error, Identifier) result" where
  "DecodeIdentifier raw =
     (if length raw \<noteq> identifierSize then Inl BadIdentifierLength
      else if Uint16 raw \<noteq> IdentifierVersion then Inl UnsupportedVersion
      else Inr \<lparr>id_Version = Uint16 raw, id_PaymentHash = take 32 (drop 2 raw), id_TokenID = take 32 (drop 34 raw)\<rparr>)"

definition StorageKey :: "Identifier \<Rightarrow> bytes" where
  "StorageKey i = sha256 (Identifier_Encode i)"

text \<open>The invariant of the Go type: a 16-bit version and two arrays of 32 bytes.\<close>

definition wf_Identifier :: "Identifier \<Rightarrow> bool" where
  "wf_Identifier i \<longleftrightarrow> id_Version i < 65536 \<and> length (id_PaymentHash i) = 32 \<and> length (id_TokenID i) = 32"

section \<open>Macaroons\<close>

record Macaroon =
  mac_Location :: string
  mac_ID :: bytes
  mac_Caveats :: "string list"
  mac_Signature :: bytes

definition Macaroon_Identifier :: "Macaroon \<Rightarrow> (l402_error, Identifier) result" where
  "Macaroon_Identifier m = DecodeIdentifier (mac_ID m)"

definition chain :: "bytes \<Rightarrow> bytes \<Rightarrow> string list \<Rightarrow> bytes" where
  "chain rootKey i caveats = foldl hmac_sha256 (hmac_sha256 rootKey i) caveats"

definition Mint :: "bytes \<Rightarrow> Identifier \<Rightarrow> string list \<Rightarrow> Macaroon" where
  "Mint rootKey i caveats =
     \<lparr>mac_Location = [], mac_ID = Identifier_Encode i, mac_Caveats = caveats,
      mac_Signature = chain rootKey (Identifier_Encode i) caveats\<rparr>"

definition Attenuate :: "Macaroon \<Rightarrow> string \<Rightarrow> Macaroon" where
  "Attenuate m caveat =
     m\<lparr>mac_Signature := hmac_sha256 (mac_Signature m) caveat, mac_Caveats := mac_Caveats m @ [caveat]\<rparr>"

definition VerifySignature :: "Macaroon \<Rightarrow> bytes \<Rightarrow> bool" where
  "VerifySignature m rootKey \<longleftrightarrow> chain rootKey (mac_ID m) (mac_Caveats m) = mac_Signature m"

section \<open>Binary form\<close>

definition fieldEOS :: nat where "fieldEOS = 0"
definition fieldLocation :: nat where "fieldLocation = 1"
definition fieldIdentifier :: nat where "fieldIdentifier = 2"
definition fieldSignature :: nat where "fieldSignature = 6"

lemmas field_codes = fieldEOS_def fieldLocation_def fieldIdentifier_def fieldSignature_def

definition appendVarint :: "bytes \<Rightarrow> nat \<Rightarrow> bytes" where
  "appendVarint buf n = buf @ PutUvarint n"

definition appendPacket :: "bytes \<Rightarrow> nat \<Rightarrow> bytes \<Rightarrow> bytes" where
  "appendPacket buf fieldType data = appendVarint (appendVarint buf fieldType) (length data) @ data"

definition MarshalBinary :: "Macaroon \<Rightarrow> bytes" where
  "MarshalBinary m =
     (let buf = [CHR 0x02];
          buf = (if mac_Location m \<noteq> [] then appendPacket buf fieldLocation (mac_Location m) else buf);
          buf = appendPacket buf fieldIdentifier (mac_ID m);
          buf = buf @ [char_of fieldEOS];
          buf = foldl (\<lambda>b cav. appendPacket b fieldIdentifier cav @ [char_of fieldEOS]) buf (mac_Caveats m);
          buf = buf @ [char_of fieldEOS]
      in appendPacket buf fieldSignature (mac_Signature m))"

record packet =
  pk_fieldType :: nat
  pk_data :: bytes

definition parsePacket :: "bytes \<Rightarrow> (l402_error, bytes \<times> packet) result" where
  "parsePacket data =
     (case Uvarint data of
        None \<Rightarrow> Inl BadFieldType
      | Some (ft, data) \<Rightarrow>
          if ft = fieldEOS then Inr (data, \<lparr>pk_fieldType = ft, pk_data = []\<rparr>)
          else (case Uvarint data of
                  None \<Rightarrow> Inl BadLengthVarint
                | Some (len, data) \<Rightarrow>
                    if len > length data then Inl FieldPastEnd
                    else Inr (drop len data, \<lparr>pk_fieldType = ft, pk_data = take len data\<rparr>)))"

lemma parsePacket_shorter: "parsePacket data = Inr (rest, p) \<Longrightarrow> length rest < length data"
  by (fastforce simp: parsePacket_def split: option.splits if_splits dest!: Uvarint_shorter)

text \<open>The loops of \<open>parseSection\<close> and of the caveat list; both shorten the buffer.\<close>

function parseSection :: "bytes \<Rightarrow> packet list \<Rightarrow> (l402_error, bytes \<times> packet list) result" where
  "parseSection data packets =
     (if data = [] then Inl SectionPastEnd
      else (case parsePacket data of
              Inl e \<Rightarrow> Inl e
            | Inr (rest, p) \<Rightarrow>
                if pk_fieldType p = fieldEOS then Inr (rest, packets)
                else parseSection rest (packets @ [p])))"
  by pat_completeness auto
termination by (relation "measure (length \<circ> fst)") (auto dest: parsePacket_shorter)

declare parseSection.simps [simp del]

lemma parseSection_shorter: "parseSection data ps = Inr (rest, ps') \<Longrightarrow> length rest < length data"
proof (induction data ps rule: parseSection.induct)
  case (1 data packets)
  from "1.prems" obtain r p where r: "data \<noteq> []" "parsePacket data = Inr (r, p)"
    by (subst (asm) parseSection.simps) (auto split: if_splits sum.splits)
  show ?case
  proof (cases "pk_fieldType p = fieldEOS")
    case True
    with "1.prems" r show ?thesis by (simp add: parseSection.simps [of data] parsePacket_shorter)
  next
    case False
    with "1.prems" r have "parseSection r (packets @ [p]) = Inr (rest, ps')"
      by (simp add: parseSection.simps [of data])
    with "1.IH" [OF r(1) r(2) refl False] parsePacket_shorter [OF r(2)] show ?thesis by simp
  qed
qed

function parseCaveats :: "bytes \<Rightarrow> string list \<Rightarrow> (l402_error, bytes \<times> string list) result" where
  "parseCaveats data cavs =
     (case parseSection data [] of
        Inl e \<Rightarrow> Inl e
      | Inr (rest, section) \<Rightarrow>
          (case section of
             [] \<Rightarrow> Inr (rest, cavs)
           | p # ps \<Rightarrow>
               if pk_fieldType p = fieldLocation then Inl ThirdPartyCaveat
               else if pk_fieldType p \<noteq> fieldIdentifier then Inl CaveatMissingIdentifier
               else if ps \<noteq> [] then Inl ThirdPartyCaveat
               else parseCaveats rest (cavs @ [pk_data p])))"
  by pat_completeness auto
termination by (relation "measure (length \<circ> fst)") (auto dest: parseSection_shorter)

declare parseCaveats.simps [simp del]

definition parseSignature :: "Macaroon \<Rightarrow> bytes \<Rightarrow> (l402_error, Macaroon) result" where
  "parseSignature m data =
     (case parsePacket data of
        Inl e \<Rightarrow> Inl e
      | Inr (data, sg) \<Rightarrow>
          if pk_fieldType sg \<noteq> fieldSignature \<or> length (pk_data sg) \<noteq> 32 then Inl InvalidSignatureField
          else if data \<noteq> [] then Inl TrailingBytes
          else Inr (m\<lparr>mac_Signature := pk_data sg\<rparr>))"

definition UnmarshalBinary :: "bytes \<Rightarrow> (l402_error, Macaroon) result" where
  "UnmarshalBinary raw =
     (case raw of
        [] \<Rightarrow> Inl NotV2
      | v # data \<Rightarrow>
          if v \<noteq> CHR 0x02 then Inl NotV2
          else (case parseSection data [] of
                  Inl e \<Rightarrow> Inl e
                | Inr (data, header) \<Rightarrow>
                    (let (loc, header) =
                       (case header of
                          [] \<Rightarrow> ([], [])
                        | h # hs \<Rightarrow> if pk_fieldType h = fieldLocation then (pk_data h, hs) else ([], header))
                     in case header of
                          [h] \<Rightarrow>
                            if pk_fieldType h \<noteq> fieldIdentifier then Inl InvalidHeader
                            else (case parseCaveats data [] of
                                    Inl e \<Rightarrow> Inl e
                                  | Inr (data, cavs) \<Rightarrow>
                                      parseSignature
                                        \<lparr>mac_Location = loc, mac_ID = pk_data h, mac_Caveats = cavs,
                                         mac_Signature = replicate 32 (CHR 0x00)\<rparr> data)
                        | _ \<Rightarrow> Inl InvalidHeader)))"

section \<open>Caveats\<close>

definition CaveatServices :: string where "CaveatServices = ''services''"
definition CaveatValidUntilSfx :: string where "CaveatValidUntilSfx = ''_valid_until''"
definition CaveatCapsSfx :: string where "CaveatCapsSfx = ''_capabilities''"
definition CaveatCreditAccount :: string where "CaveatCreditAccount = ''credit_account''"

lemmas caveat_names = CaveatServices_def CaveatValidUntilSfx_def CaveatCapsSfx_def CaveatCreditAccount_def

definition ServicesCaveat :: "string \<Rightarrow> int \<Rightarrow> string" where
  "ServicesCaveat service tier = CaveatServices @ ''='' @ service @ '':'' @ FormatInt tier"

definition ValidUntilCaveat :: "string \<Rightarrow> time \<Rightarrow> string" where
  "ValidUntilCaveat service t = service @ CaveatValidUntilSfx @ ''='' @ FormatInt (Unix t)"

definition CapabilitiesCaveat :: "string \<Rightarrow> string list \<Rightarrow> string" where
  "CapabilitiesCaveat service caps = service @ CaveatCapsSfx @ ''='' @ Join caps '',''"

record VerifyOptions =
  vo_Service :: string
  vo_Capability :: string
  vo_Now :: "time option"

text \<open>\<open>parseList\<close> builds a map; its callers only test membership of a name and replace whole maps.\<close>

definition parseList :: "string \<Rightarrow> string \<rightharpoonup> string" where
  "parseList val =
     fold (\<lambda>item out.
             let item = TrimSpace item in
             if item = [] then out else (case Cut item (CHR '':'') of (name, tier, _) \<Rightarrow> out(name \<mapsto> tier)))
          (Split val (CHR '','')) Map.empty"

text \<open>The keys of that map as a list, so that the loops over \<open>range cur\<close> are executable.\<close>

definition list_names :: "string \<Rightarrow> string list" where
  "list_names val =
     map (\<lambda>item. fst (Cut item (CHR '':'')))
         (filter (\<lambda>item. item \<noteq> []) (map TrimSpace (Split val (CHR '',''))))"

fun attenuates :: "(string \<rightharpoonup> string) \<Rightarrow> string list \<Rightarrow> (string \<rightharpoonup> string) option" where
  "attenuates prev [] = Some prev"
| "attenuates prev (v # vs) =
     (if list_all (\<lambda>name. prev name \<noteq> None) (list_names v) then attenuates (parseList v) vs else None)"

definition verifyServicesChain :: "string list \<Rightarrow> string \<Rightarrow> (l402_error, unit) result" where
  "verifyServicesChain vals service =
     (case attenuates (parseList (hd vals)) (tl vals) of
        None \<Rightarrow> Inl ServicesWidened
      | Some prev \<Rightarrow> if prev service = None then Inl ServiceNotCovered else Inr ())"

definition verifyCapsChain :: "string list \<Rightarrow> string \<Rightarrow> VerifyOptions \<Rightarrow> (l402_error, unit) result" where
  "verifyCapsChain vals svc opts =
     (case attenuates (parseList (hd vals)) (tl vals) of
        None \<Rightarrow> Inl CapabilitiesWidened
      | Some prev \<Rightarrow>
          if vo_Capability opts \<noteq> [] \<and> svc = vo_Service opts \<and> prev (vo_Capability opts) = None
          then Inl CapabilityNotPermitted else Inr ())"

text \<open>The loop of \<open>verifyValidUntilChain\<close>; \<open>None\<close> as previous value is the first iteration.\<close>

fun until_loop :: "int option \<Rightarrow> string list \<Rightarrow> (l402_error, int) result" where
  "until_loop prev [] = Inr (opt_default 0 prev)"
| "until_loop prev (v # vs) =
     (case ParseInt (TrimSpace v) of
        None \<Rightarrow> Inl BadValidUntil
      | Some ts \<Rightarrow>
          if (case prev of None \<Rightarrow> False | Some p \<Rightarrow> ts > p) then Inl ValidUntilWidened
          else until_loop (Some ts) vs)"

definition verifyValidUntilChain :: "string list \<Rightarrow> time \<Rightarrow> (l402_error, unit) result" where
  "verifyValidUntilChain vals now =
     (case until_loop None vals of
        Inl e \<Rightarrow> Inl e
      | Inr prev \<Rightarrow> if \<not> now < from_unix prev then Inl TokenExpired else Inr ())"

fun split_caveats :: "string list \<Rightarrow> (l402_error, (string \<times> string) list) result" where
  "split_caveats [] = Inr []"
| "split_caveats (cav # cavs) =
     (case Cut cav (CHR ''='') of
        (cond, val, ok) \<Rightarrow>
          if \<not> ok then Inl MalformedCaveat
          else (case split_caveats cavs of Inl e \<Rightarrow> Inl e | Inr gs \<Rightarrow> Inr ((cond, val) # gs)))"

text \<open>\<open>groups[cond]\<close>, and one turn of the \<open>switch\<close> for a condition with its values.\<close>

definition group_vals :: "(string \<times> string) list \<Rightarrow> string \<Rightarrow> string list" where
  "group_vals gs cond = map snd (filter (\<lambda>(c, v). c = cond) gs)"

definition verify_condition :: "VerifyOptions \<Rightarrow> time \<Rightarrow> string \<Rightarrow> string list \<Rightarrow> (l402_error, unit) result" where
  "verify_condition opts now cond vals =
     (if cond = CaveatServices then verifyServicesChain vals (vo_Service opts)
      else if HasSuffix cond CaveatValidUntilSfx then verifyValidUntilChain vals now
      else if HasSuffix cond CaveatCapsSfx then verifyCapsChain vals (TrimSuffix cond CaveatCapsSfx) opts
      else Inr ())"

definition is_caps_of :: "string \<Rightarrow> string \<Rightarrow> bool" where
  "is_caps_of service cond \<longleftrightarrow>
     cond \<noteq> CaveatServices \<and> \<not> HasSuffix cond CaveatValidUntilSfx \<and> HasSuffix cond CaveatCapsSfx \<and>
     TrimSuffix cond CaveatCapsSfx = service"

fun verify_conditions ::
  "VerifyOptions \<Rightarrow> time \<Rightarrow> (string \<times> string) list \<Rightarrow> string list \<Rightarrow> (l402_error, unit) result" where
  "verify_conditions opts now gs [] = Inr ()"
| "verify_conditions opts now gs (c # cs) =
     (case verify_condition opts now c (group_vals gs c) of
        Inl e \<Rightarrow> Inl e
      | Inr _ \<Rightarrow> verify_conditions opts now gs cs)"

definition verifyCaveats :: "time \<Rightarrow> string list \<Rightarrow> VerifyOptions \<Rightarrow> (l402_error, unit) result" where
  "verifyCaveats clock caveats opts =
     (let now = opt_default clock (vo_Now opts) in
      case split_caveats caveats of
        Inl e \<Rightarrow> Inl e
      | Inr gs \<Rightarrow>
          (let order = sort (remdups (map fst gs)) in
           case verify_conditions opts now gs order of
             Inl e \<Rightarrow> Inl e
           | Inr _ \<Rightarrow>
               if vo_Service opts \<noteq> [] \<and> CaveatServices \<notin> set order then Inl NoServicesCaveat
               else if vo_Capability opts \<noteq> [] \<and> \<not> list_ex (is_caps_of (vo_Service opts)) order
               then Inl NoCapabilitiesCaveat
               else Inr ()))"

definition VerifyToken ::
  "time \<Rightarrow> bytes \<Rightarrow> Macaroon \<Rightarrow> string \<Rightarrow> VerifyOptions \<Rightarrow> (l402_error, unit) result" where
  "VerifyToken clock rootKey m preimageHex opts =
     (if \<not> VerifySignature m rootKey then Inl SignatureMismatch
      else (case Macaroon_Identifier m of
              Inl e \<Rightarrow> Inl e
            | Inr i \<Rightarrow>
                (case hex_decode preimageHex of
                   None \<Rightarrow> Inl BadPreimage
                 | Some preimage \<Rightarrow>
                     if length preimage \<noteq> 32 then Inl BadPreimage
                     else if sha256 preimage \<noteq> id_PaymentHash i then Inl PreimageMismatch
                     else verifyCaveats clock (mac_Caveats m) opts)))"

section \<open>Header values\<close>

definition SchemeL402 :: string where "SchemeL402 = ''L402''"
definition SchemeLSAT :: string where "SchemeLSAT = ''LSAT''"

definition challenge_value :: "string \<Rightarrow> string \<Rightarrow> string \<Rightarrow> string" where
  "challenge_value scheme b64 invoice =
     scheme @ '' macaroon='' @ [CHR 0x22] @ b64 @ [CHR 0x22] @ '', invoice='' @ [CHR 0x22] @ invoice @ [CHR 0x22]"

text \<open>The two header lines that \<open>WriteChallenge\<close> adds, in order.\<close>

definition WriteChallenge :: "Macaroon \<Rightarrow> string \<Rightarrow> (string \<times> string) list" where
  "WriteChallenge mac invoice =
     (let b64 = b64_encode (MarshalBinary mac) in
      [(''WWW-Authenticate'', challenge_value SchemeLSAT b64 invoice),
       (''WWW-Authenticate'', challenge_value SchemeL402 b64 invoice)])"

definition AuthorizationValue :: "Macaroon \<Rightarrow> string \<Rightarrow> string" where
  "AuthorizationValue mac preimageHex = SchemeL402 @ '' '' @ b64_encode (MarshalBinary mac) @ '':'' @ preimageHex"

record Challenge =
  ch_Scheme :: string
  ch_MacaroonB64 :: string
  ch_Macaroon :: Macaroon
  ch_Invoice :: string

fun challenge_params :: "string list \<Rightarrow> string \<times> string \<Rightarrow> (l402_error, string \<times> string) result" where
  "challenge_params [] mi = Inr mi"
| "challenge_params (part # parts) mi =
     (case Cut (TrimSpace part) (CHR ''='') of
        (key, val, found) \<Rightarrow>
          if \<not> found then Inl MalformedParameter
          else (let val = trim_by (\<lambda>c. c = CHR 0x22) val; key = ToLower key in
                challenge_params parts
                  (if key = ''macaroon'' then (val, snd mi)
                   else if key = ''invoice'' then (fst mi, val) else mi)))"

text \<open>\<open>None\<close> is the result \<open>ok = false\<close>: not an L402 challenge at all.\<close>

definition ParseChallenge :: "string \<Rightarrow> (l402_error, Challenge) result option" where
  "ParseChallenge value =
     (case Cut (TrimSpace value) (CHR '' '') of
        (scheme, params, found) \<Rightarrow>
          if \<not> found then None
          else (let scheme = ToUpper scheme in
                if scheme \<noteq> SchemeL402 \<and> scheme \<noteq> SchemeLSAT then None
                else Some (case challenge_params (Split params (CHR '','')) ([], []) of
                             Inl e \<Rightarrow> Inl e
                           | Inr (mb64, invoice) \<Rightarrow>
                               if mb64 = [] \<or> invoice = [] then Inl MissingParameter
                               else (case b64_decode mb64 of
                                       None \<Rightarrow> Inl MacaroonNotBase64
                                     | Some raw \<Rightarrow>
                                         (case UnmarshalBinary raw of
                                            Inl e \<Rightarrow> Inl e
                                          | Inr m \<Rightarrow> Inr \<lparr>ch_Scheme = scheme, ch_MacaroonB64 = mb64,
                                                           ch_Macaroon = m, ch_Invoice = invoice\<rparr>)))))"

text \<open>\<open>Inr None\<close>: no challenge among the values and no error.\<close>

fun FindChallenge_from :: "l402_error option \<Rightarrow> string list \<Rightarrow> (l402_error, Challenge option) result" where
  "FindChallenge_from firstErr [] = (case firstErr of None \<Rightarrow> Inr None | Some e \<Rightarrow> Inl e)"
| "FindChallenge_from firstErr (v # vs) =
     (case ParseChallenge v of
        None \<Rightarrow> FindChallenge_from firstErr vs
      | Some (Inl e) \<Rightarrow> FindChallenge_from (if firstErr = None then Some e else firstErr) vs
      | Some (Inr ch) \<Rightarrow> Inr (Some ch))"

definition FindChallenge :: "string list \<Rightarrow> (l402_error, Challenge option) result" where
  "FindChallenge values = FindChallenge_from None values"

fun parse_macaroons :: "string list \<Rightarrow> (l402_error, Macaroon list) result" where
  "parse_macaroons [] = Inr []"
| "parse_macaroons (b64 # bs) =
     (case b64_decode b64 of
        None \<Rightarrow> Inl MacaroonNotBase64
      | Some raw \<Rightarrow>
          (case UnmarshalBinary raw of
             Inl e \<Rightarrow> Inl e
           | Inr m \<Rightarrow> (case parse_macaroons bs of Inl e \<Rightarrow> Inl e | Inr ms \<Rightarrow> Inr (m # ms))))"

definition ParseAuthorization :: "string \<Rightarrow> (l402_error, Macaroon list \<times> string) result option" where
  "ParseAuthorization value =
     (case Fields (TrimSpace value) of
        [kw, credential] \<Rightarrow>
          if ToUpper kw \<noteq> SchemeL402 \<and> ToUpper kw \<noteq> SchemeLSAT then None
          else Some (case Cut credential (CHR '':'') of
                 (macPart, preimage, found) \<Rightarrow>
                   if \<not> found \<or> macPart = [] \<or> preimage = [] then Inl MalformedCredential
                   else if hex_decode preimage = None then Inl PreimageNotHex
                   else (case parse_macaroons (Split macPart (CHR '','')) of
                           Inl e \<Rightarrow> Inl e
                         | Inr macs \<Rightarrow> Inr (macs, preimage)))
      | _ \<Rightarrow> None)"

section \<open>Round trips\<close>

lemma PutUint16_Uint16: "v < 65536 \<Longrightarrow> Uint16 (PutUint16 v @ xs) = v"
  by (rule Uint16_Put)

lemma DecodeIdentifier_Encode:
  assumes "wf_Identifier i"
  shows "DecodeIdentifier (Identifier_Encode i) =
    (if id_Version i = IdentifierVersion then Inr i else Inl UnsupportedVersion)"
proof -
  have l: "length (Identifier_Encode i) = identifierSize"
    using assms by (simp add: Identifier_Encode_def wf_Identifier_def identifierSize_def)
  have v: "Uint16 (Identifier_Encode i) = id_Version i"
    using assms by (simp add: Identifier_Encode_def wf_Identifier_def)
  have p: "drop 2 (Identifier_Encode i) = id_PaymentHash i @ id_TokenID i"
    by (simp add: Identifier_Encode_def)
  then have "drop 34 (Identifier_Encode i) = drop 32 (id_PaymentHash i @ id_TokenID i)"
    by (metis (no_types) drop_drop numeral_plus_numeral add_num_simps(1) add_num_simps(2) semiring_norm(2,3,4,5))
  then have t: "take 32 (drop 34 (Identifier_Encode i)) = id_TokenID i"
    using assms by (simp add: wf_Identifier_def)
  have h: "take 32 (drop 2 (Identifier_Encode i)) = id_PaymentHash i"
    using p assms by (simp add: wf_Identifier_def)
  have "\<lparr>id_Version = id_Version i, id_PaymentHash = id_PaymentHash i, id_TokenID = id_TokenID i\<rparr> = i"
    by (cases i) simp
  then show ?thesis unfolding DecodeIdentifier_def v h t by (simp add: l)
qed

lemma parsePacket_append:
  assumes "0 < ft" and "ft < 2 ^ 63" and "length d < 2 ^ 63"
  shows "parsePacket (appendPacket [] ft d @ rest) = Inr (rest, \<lparr>pk_fieldType = ft, pk_data = d\<rparr>)"
  using assms by (simp add: parsePacket_def appendPacket_def appendVarint_def fieldEOS_def)

lemma appendPacket_buf: "appendPacket buf ft d = buf @ appendPacket [] ft d"
  by (simp add: appendPacket_def appendVarint_def)

lemma PutUvarint_not_nil [simp]: "PutUvarint n \<noteq> []"
  by (subst PutUvarint.simps) simp

lemma appendPacket_not_nil [simp]: "appendPacket [] ft d \<noteq> []"
  by (simp add: appendPacket_def appendVarint_def)

lemma parsePacket_EOS: "parsePacket (char_of fieldEOS # rest) = Inr (rest, \<lparr>pk_fieldType = fieldEOS, pk_data = []\<rparr>)"
  using Uvarint_Put [of 0 rest] by (simp add: parsePacket_def fieldEOS_def PutUvarint.simps [of 0])

lemma parseSection_EOS: "parseSection (char_of fieldEOS # rest) ps = Inr (rest, ps)"
  by (subst parseSection.simps) (simp add: parsePacket_EOS)

lemma parseSection_packet:
  assumes "0 < ft" and "ft < 2 ^ 63" and "length d < 2 ^ 63"
  shows "parseSection (appendPacket [] ft d @ rest) ps =
    parseSection rest (ps @ [\<lparr>pk_fieldType = ft, pk_data = d\<rparr>])"
  using assms by (subst parseSection.simps) (simp add: parsePacket_append fieldEOS_def)

text \<open>The bytes of the caveat list, as one string.\<close>

definition caveat_bytes :: "string list \<Rightarrow> bytes" where
  "caveat_bytes cavs = concat (map (\<lambda>c. appendPacket [] fieldIdentifier c @ [char_of fieldEOS]) cavs)"

lemma foldl_caveats:
  "foldl (\<lambda>b cav. appendPacket b fieldIdentifier cav @ [char_of fieldEOS]) buf cavs = buf @ caveat_bytes cavs"
proof (induction cavs arbitrary: buf)
  case (Cons c cavs)
  then show ?case using appendPacket_buf [of buf fieldIdentifier c] by (simp add: caveat_bytes_def)
qed (simp add: caveat_bytes_def)

lemma parseCaveats_bytes:
  assumes "\<forall>c\<in>set cavs. length c < 2 ^ 63"
  shows "parseCaveats (caveat_bytes cavs @ char_of fieldEOS # rest) acc = Inr (rest, acc @ cavs)"
  using assms
proof (induction cavs arbitrary: acc)
  case Nil
  then show ?case by (subst parseCaveats.simps) (simp add: caveat_bytes_def parseSection_EOS)
next
  case (Cons c cavs)
  have "parseSection (caveat_bytes (c # cavs) @ char_of fieldEOS # rest) [] =
      Inr (caveat_bytes cavs @ char_of fieldEOS # rest, [\<lparr>pk_fieldType = fieldIdentifier, pk_data = c\<rparr>])"
    using Cons.prems by (simp add: caveat_bytes_def parseSection_packet parseSection_EOS fieldIdentifier_def)
  with Cons show ?case
    by (subst parseCaveats.simps) (simp add: fieldIdentifier_def fieldLocation_def)
qed

text \<open>What fits in memory, with a signature of 32 bytes.\<close>

definition wf_Macaroon :: "Macaroon \<Rightarrow> bool" where
  "wf_Macaroon m \<longleftrightarrow> length (mac_Location m) < 2 ^ 63 \<and> length (mac_ID m) < 2 ^ 63 \<and>
     list_all (\<lambda>c. length c < 2 ^ 63) (mac_Caveats m) \<and> length (mac_Signature m) = 32"

lemma MarshalBinary_eq:
  "MarshalBinary m = CHR 0x02 # (if mac_Location m \<noteq> [] then appendPacket [] fieldLocation (mac_Location m) else []) @
     appendPacket [] fieldIdentifier (mac_ID m) @ char_of fieldEOS # caveat_bytes (mac_Caveats m) @
     char_of fieldEOS # appendPacket [] fieldSignature (mac_Signature m)"
  unfolding MarshalBinary_def Let_def foldl_caveats
  using appendPacket_buf [of "[CHR 0x02]" fieldLocation]
    appendPacket_buf [of "CHR 0x02 # appendPacket [] fieldLocation (mac_Location m)" fieldIdentifier]
    appendPacket_buf [of "[CHR 0x02]" fieldIdentifier]
  by (subst appendPacket_buf) auto

lemma UnmarshalBinary_Marshal:
  assumes "wf_Macaroon m"
  shows "UnmarshalBinary (MarshalBinary m) = Inr m"
proof -
  let ?loc = "if mac_Location m = [] then [] else [\<lparr>pk_fieldType = fieldLocation, pk_data = mac_Location m\<rparr>]"
  let ?tail = "caveat_bytes (mac_Caveats m) @ char_of fieldEOS # appendPacket [] fieldSignature (mac_Signature m)"
  have sec: "parseSection (tl (MarshalBinary m)) [] =
      Inr (?tail, ?loc @ [\<lparr>pk_fieldType = fieldIdentifier, pk_data = mac_ID m\<rparr>])"
    using assms
    by (simp add: MarshalBinary_eq parseSection_packet parseSection_EOS wf_Macaroon_def fieldIdentifier_def
        fieldLocation_def)
  have cav: "parseCaveats ?tail [] = Inr (appendPacket [] fieldSignature (mac_Signature m), mac_Caveats m)"
    using assms by (simp add: parseCaveats_bytes wf_Macaroon_def list_all_iff)
  have "parsePacket (appendPacket [] fieldSignature (mac_Signature m)) =
      Inr ([], \<lparr>pk_fieldType = fieldSignature, pk_data = mac_Signature m\<rparr>)"
    using assms parsePacket_append [of fieldSignature "mac_Signature m" "[]"]
    by (simp add: wf_Macaroon_def fieldSignature_def)
  then have sig: "parseSignature m' (appendPacket [] fieldSignature (mac_Signature m)) =
      Inr (m'\<lparr>mac_Signature := mac_Signature m\<rparr>)" for m'
    using assms by (simp add: parseSignature_def wf_Macaroon_def)
  have "MarshalBinary m = CHR 0x02 # tl (MarshalBinary m)" by (simp add: MarshalBinary_eq)
  with sec cav sig show ?thesis
    by (cases m) (auto simp: UnmarshalBinary_def fieldIdentifier_def fieldLocation_def split: list.splits)
qed

lemma hex_decode_chars: "hex_decode s = Some b \<Longrightarrow> c \<in> set s \<Longrightarrow> hex_val c \<noteq> None"
proof (induction s arbitrary: b rule: hex_decode.induct)
  case (3 x y r)
  then show ?case by (auto split: option.splits)
qed auto

lemma hex_val_not [simp]:
  "hex_val (CHR '':'') = None" "hex_val (CHR '' '') = None" "is_space c \<Longrightarrow> hex_val c = None"
  by (auto simp: hex_val_def Let_def is_space_def)

lemma b64_encode_not [simp]:
  "CHR '':'' \<notin> set (b64_encode bs)" "CHR '','' \<notin> set (b64_encode bs)" "CHR 0x22 \<notin> set (b64_encode bs)"
  using b64_text_chars [OF b64_text_encode [of bs]] by blast+

lemma b64_encode_no_space: "c \<in> set (b64_encode bs) \<Longrightarrow> \<not> is_space c"
  using b64_text_chars [OF b64_text_encode [of bs]] by blast

lemma MarshalBinary_not_nil [simp]: "MarshalBinary m \<noteq> []"
  by (simp add: MarshalBinary_eq)

lemma parse_macaroons_single: "wf_Macaroon m \<Longrightarrow> parse_macaroons [b64_encode (MarshalBinary m)] = Inr [m]"
  by (simp add: UnmarshalBinary_Marshal)

lemma Fields_two:
  assumes "\<forall>c\<in>set a. \<not> is_space c" and "\<forall>c\<in>set b. \<not> is_space c" and "a \<noteq> []" and "b \<noteq> []"
  shows "Fields (TrimSpace (a @ CHR '' '' # b)) = [a, b]"
proof -
  have "TrimSpace (a @ CHR '' '' # b) = a @ CHR '' '' # b"
    unfolding TrimSpace_def using assms by (intro trim_by_id) auto
  moreover have "split_by is_space (a @ CHR '' '' # b) = [a, b]"
    using assms by (subst split_by_append) (simp_all add: is_space_def split_by_none)
  ultimately show ?thesis using assms(3,4) by (simp add: Fields_def)
qed

lemma ParseAuthorization_value:
  assumes "wf_Macaroon m" and "hex_decode pre = Some b" and "pre \<noteq> []"
  shows "ParseAuthorization (AuthorizationValue m pre) = Some (Inr ([m], pre))"
proof -
  let ?b64 = "b64_encode (MarshalBinary m)"
  have pre: "\<not> is_space c \<and> c \<noteq> CHR '':''" if "c \<in> set pre" for c
    using hex_decode_chars [OF assms(2) that] by auto
  have f: "Fields (TrimSpace (AuthorizationValue m pre)) = [SchemeL402, ?b64 @ CHR '':'' # pre]"
    unfolding AuthorizationValue_def
    using Fields_two [of SchemeL402 "?b64 @ CHR '':'' # pre"] pre b64_encode_no_space
    by (auto simp: SchemeL402_def is_space_def)
  have u: "ToUpper SchemeL402 = SchemeL402" by (simp add: SchemeL402_def ToUpper_def upper_char_def Let_def)
  have c: "Cut (?b64 @ CHR '':'' # pre) (CHR '':'') = (?b64, pre, True)" by (simp add: Cut_append)
  have s: "Split ?b64 (CHR '','') = [?b64]" by (simp add: Split_single)
  show ?thesis
    unfolding ParseAuthorization_def f list.case u c prod.case s parse_macaroons_single [OF assms(1)] sum.case
    using assms by simp
qed

lemma trim_quotes:
  "CHR 0x22 \<notin> set s \<Longrightarrow> trim_by (\<lambda>c. c = CHR 0x22) (CHR 0x22 # s @ [CHR 0x22]) = s"
  using trim_by_id [of s "\<lambda>c. c = CHR 0x22"]
proof (cases s)
  case (Cons x xs)
  assume q: "CHR 0x22 \<notin> set s"
  then have "dropWhile (\<lambda>c. c = CHR 0x22) (CHR 0x22 # s @ [CHR 0x22]) = s @ [CHR 0x22]"
    using Cons by auto
  moreover have "dropWhile (\<lambda>c. c = CHR 0x22) (rev (s @ [CHR 0x22])) = rev s"
    using q by (cases "rev s") auto
  ultimately show ?thesis by (simp add: trim_by_def)
qed (simp add: trim_by_def)

lemma challenge_params_value:
  assumes "CHR 0x22 \<notin> set invoice" and "CHR '','' \<notin> set invoice"
  shows "challenge_params
      (Split (''macaroon='' @ [CHR 0x22] @ b64_encode bs @ [CHR 0x22] @ '', invoice='' @ [CHR 0x22] @ invoice @ [CHR 0x22])
         (CHR '','')) ([], []) = Inr (b64_encode bs, invoice)"
proof -
  let ?q = "[CHR 0x22]"
  let ?m = "''macaroon='' @ ?q @ b64_encode bs @ ?q"
  let ?i = "'' invoice='' @ ?q @ invoice @ ?q"
  have "Split (?m @ CHR '','' # ?i) (CHR '','') = [?m, ?i]"
    using assms by (subst Split_append) (auto intro: Split_single)
  then have s: "Split (''macaroon='' @ ?q @ b64_encode bs @ ?q @ '', invoice='' @ ?q @ invoice @ ?q) (CHR '','') = [?m, ?i]"
    by simp
  have tm: "TrimSpace ?m = ''macaroon'' @ CHR ''='' # (CHR 0x22 # b64_encode bs @ ?q)"
    using trim_by_id [of ?m is_space] by (simp add: TrimSpace_def is_space_def)
  have "TrimSpace ?i = trim_by is_space (''invoice='' @ ?q @ invoice @ ?q)"
    by (simp add: TrimSpace_def trim_by_def is_space_def)
  also have "\<dots> = ''invoice'' @ CHR ''='' # (CHR 0x22 # invoice @ ?q)"
    using trim_by_id [of "''invoice='' @ ?q @ invoice @ ?q" is_space] by (simp add: is_space_def)
  finally have ti: "TrimSpace ?i = ''invoice'' @ CHR ''='' # (CHR 0x22 # invoice @ ?q)" .
  have cm: "Cut (TrimSpace ?m) (CHR ''='') = (''macaroon'', CHR 0x22 # b64_encode bs @ ?q, True)"
    unfolding tm by (rule Cut_append) simp
  have ci: "Cut (TrimSpace ?i) (CHR ''='') = (''invoice'', CHR 0x22 # invoice @ ?q, True)"
    unfolding ti by (rule Cut_append) simp
  have qm: "trim_by (\<lambda>c. c = CHR 0x22) (CHR 0x22 # b64_encode bs @ ?q) = b64_encode bs"
    by (rule trim_quotes) simp
  have lm: "ToLower ''macaroon'' = ''macaroon''" "ToLower ''invoice'' = ''invoice''"
    by (simp_all add: ToLower_def lower_char_def Let_def)
  show ?thesis
    unfolding s challenge_params.simps cm ci prod.case Let_def qm trim_quotes [OF assms(1)] lm by simp
qed

lemma ParseChallenge_value:
  assumes "wf_Macaroon m" and "CHR 0x22 \<notin> set invoice" and "CHR '','' \<notin> set invoice" and "invoice \<noteq> []"
    and "scheme = SchemeLSAT \<or> scheme = SchemeL402"
  shows "ParseChallenge (challenge_value scheme (b64_encode (MarshalBinary m)) invoice) =
    Some (Inr \<lparr>ch_Scheme = scheme, ch_MacaroonB64 = b64_encode (MarshalBinary m), ch_Macaroon = m, ch_Invoice = invoice\<rparr>)"
proof -
  let ?v = "challenge_value scheme (b64_encode (MarshalBinary m)) invoice"
  let ?p = "''macaroon='' @ [CHR 0x22] @ b64_encode (MarshalBinary m) @ [CHR 0x22] @ '', invoice='' @ [CHR 0x22] @
    invoice @ [CHR 0x22]"
  have v: "?v = scheme @ CHR '' '' # ?p" by (simp add: challenge_value_def)
  have "TrimSpace ?v = ?v"
    unfolding TrimSpace_def v using assms(5)
    by (intro trim_by_id) (auto simp: SchemeLSAT_def SchemeL402_def is_space_def)
  moreover have "Cut ?v (CHR '' '') = (scheme, ?p, True)"
    unfolding v using assms(5) by (intro Cut_append) (auto simp: SchemeLSAT_def SchemeL402_def)
  ultimately have c: "Cut (TrimSpace ?v) (CHR '' '') = (scheme, ?p, True)" by simp
  have u: "ToUpper scheme = scheme"
    using assms(5) by (auto simp: SchemeLSAT_def SchemeL402_def ToUpper_def upper_char_def Let_def)
  show ?thesis
    unfolding ParseChallenge_def c prod.case Let_def u challenge_params_value [OF assms(2,3)] sum.case
    using assms by (auto simp: UnmarshalBinary_Marshal)
qed

text \<open>
  C14: a client reads back the challenge a server writes: \<open>FindChallenge\<close> on the two
  WWW-Authenticate values of \<open>WriteChallenge\<close> returns the LSAT line with the same macaroon and
  invoice, and the credential the client then renders with \<open>AuthorizationValue\<close> is parsed by the
  server to that macaroon and preimage.
\<close>

theorem challenge_credential_roundtrip:
  assumes "wf_Macaroon m" and "CHR 0x22 \<notin> set invoice" and "CHR '','' \<notin> set invoice" and "invoice \<noteq> []"
    and "hex_decode pre = Some b" and "pre \<noteq> []"
  shows "FindChallenge (map snd (WriteChallenge m invoice)) =
      Inr (Some \<lparr>ch_Scheme = SchemeLSAT, ch_MacaroonB64 = b64_encode (MarshalBinary m), ch_Macaroon = m,
        ch_Invoice = invoice\<rparr>) \<and>
    ParseAuthorization (AuthorizationValue m pre) = Some (Inr ([m], pre))"
  using ParseChallenge_value [OF assms(1-4), of SchemeLSAT] ParseAuthorization_value [OF assms(1,5,6)]
  by (simp add: WriteChallenge_def FindChallenge_def Let_def)

definition sample_macaroon :: Macaroon where
  "sample_macaroon = \<lparr>mac_Location = [], mac_ID = ''id'', mac_Caveats = [''services=api:0''],
     mac_Signature = replicate 32 (CHR ''s'')\<rparr>"

theorem challenge_credential_roundtrip_witness:
  "FindChallenge (map snd (WriteChallenge sample_macaroon ''lndcr1'')) =
      Inr (Some \<lparr>ch_Scheme = SchemeLSAT, ch_MacaroonB64 = b64_encode (MarshalBinary sample_macaroon),
        ch_Macaroon = sample_macaroon, ch_Invoice = ''lndcr1''\<rparr>) \<and>
    ParseAuthorization (AuthorizationValue sample_macaroon (hex_encode ''k'')) =
      Some (Inr ([sample_macaroon], hex_encode ''k''))"
  by (rule challenge_credential_roundtrip [OF _ _ _ _ hex_decode_encode])
    (simp_all add: wf_Macaroon_def sample_macaroon_def)

section \<open>Signatures\<close>

lemma length_foldl_hmac: "length s = 32 \<Longrightarrow> length (foldl hmac_sha256 s cs) = 32"
  by (induction cs arbitrary: s) simp_all

lemma length_chain [simp]: "length (chain rk i cs) = 32"
  by (simp add: chain_def length_foldl_hmac)

lemma VerifySignature_Mint [simp]: "VerifySignature (Mint rk i cs) rk"
  by (simp add: VerifySignature_def Mint_def)

lemma VerifySignature_Attenuate: "VerifySignature m rk \<Longrightarrow> VerifySignature (Attenuate m c) rk"
  by (simp add: VerifySignature_def Attenuate_def chain_def)

lemma Attenuate_Mint: "Attenuate (Mint rk i cs) c = Mint rk i (cs @ [c])"
  by (simp add: Attenuate_def Mint_def chain_def)

section \<open>Caveat verification\<close>

lemma verify_conditions_ok:
  "verify_conditions opts now gs cs = Inr () \<longleftrightarrow>
     (\<forall>c\<in>set cs. verify_condition opts now c (group_vals gs c) = Inr ())"
  by (induction cs) (auto split: sum.splits)

lemma verifyCaveats_ok_iff:
  "verifyCaveats clock cs opts = Inr () \<longleftrightarrow>
     (\<exists>gs. split_caveats cs = Inr gs \<and>
        (\<forall>c\<in>fst ` set gs. verify_condition opts (opt_default clock (vo_Now opts)) c (group_vals gs c) = Inr ()) \<and>
        (vo_Service opts \<noteq> [] \<longrightarrow> CaveatServices \<in> fst ` set gs) \<and>
        (vo_Capability opts \<noteq> [] \<longrightarrow> (\<exists>c\<in>fst ` set gs. is_caps_of (vo_Service opts) c)))"
proof (cases "split_caveats cs")
  case (Inr gs)
  let ?now = "opt_default clock (vo_Now opts)"
  have "verify_conditions opts ?now gs (sort (remdups (map fst gs))) = Inr () \<longleftrightarrow>
      (\<forall>c\<in>fst ` set gs. verify_condition opts ?now c (group_vals gs c) = Inr ())"
    by (simp add: verify_conditions_ok)
  with Inr show ?thesis
    by (cases "verify_conditions opts ?now gs (sort (remdups (map fst gs)))")
      (simp_all add: verifyCaveats_def Let_def list_ex_iff)
qed (simp add: verifyCaveats_def Let_def)

lemma split_caveats_append:
  "split_caveats (xs @ ys) =
     (case split_caveats xs of
        Inl e \<Rightarrow> Inl e
      | Inr a \<Rightarrow> (case split_caveats ys of Inl e \<Rightarrow> Inl e | Inr b \<Rightarrow> Inr (a @ b)))"
  by (induction xs) (auto split: sum.splits prod.splits)

lemma group_vals_append: "group_vals (xs @ ys) c = group_vals xs c @ group_vals ys c"
  by (simp add: group_vals_def)

lemma group_vals_Nil_iff: "group_vals gs c = [] \<longleftrightarrow> c \<notin> fst ` set gs"
  by (force simp: group_vals_def filter_empty_conv)

lemma parseList_dom: "parseList v n \<noteq> None \<longleftrightarrow> n \<in> set (list_names v)"
proof -
  have "fold (\<lambda>item out. let item = TrimSpace item in
          if item = [] then out else (case Cut item (CHR '':'') of (name, tier, _) \<Rightarrow> out(name \<mapsto> tier))) xs out n \<noteq> None
      \<longleftrightarrow> out n \<noteq> None \<or> n \<in> set (map (\<lambda>item. fst (Cut item (CHR '':'')))
            (filter (\<lambda>item. item \<noteq> []) (map TrimSpace xs)))" for xs and out :: "string \<rightharpoonup> string"
    by (induction xs arbitrary: out) (auto simp: Let_def split: prod.splits)
  then show ?thesis by (simp add: parseList_def list_names_def)
qed

lemma attenuates_snoc:
  "attenuates prev (vs @ [v]) =
     (case attenuates prev vs of
        None \<Rightarrow> None
      | Some p \<Rightarrow> if list_all (\<lambda>n. p n \<noteq> None) (list_names v) then Some (parseList v) else None)"
  by (induction vs arbitrary: prev) auto

lemma attenuates_prefix:
  assumes "attenuates prev (vs @ [v]) = Some q"
  shows "\<exists>p. attenuates prev vs = Some p \<and> (\<forall>n. q n \<noteq> None \<longrightarrow> p n \<noteq> None)"
  using assms parseList_dom [of v]
  by (auto simp: attenuates_snoc list_all_iff split: option.splits if_splits)

lemma until_loop_snoc:
  "until_loop prev (vs @ [v]) = Inr t \<Longrightarrow> vs \<noteq> [] \<or> prev \<noteq> None \<Longrightarrow>
   \<exists>p. until_loop prev vs = Inr p \<and> t \<le> p"
  by (induction vs arbitrary: prev) (auto split: option.splits if_splits)

text \<open>One more value for a condition that already has one only narrows what it allows.\<close>

lemma verify_condition_prefix:
  assumes "verify_condition opts now c (vs @ [v]) = Inr ()" and "vs \<noteq> []"
  shows "verify_condition opts now c vs = Inr ()"
proof -
  obtain w ws where vs: "vs = w # ws" using assms(2) by (cases vs) auto
  have until: "verifyValidUntilChain vs now = Inr ()" if "verifyValidUntilChain (vs @ [v]) now = Inr ()"
  proof -
    from that obtain t where t: "until_loop None (vs @ [v]) = Inr t" "now < from_unix t"
      by (auto simp: verifyValidUntilChain_def split: sum.splits if_splits)
    with until_loop_snoc [OF t(1)] assms(2) obtain p where "until_loop None vs = Inr p" "t \<le> p" by auto
    moreover from \<open>t \<le> p\<close> t(2) have "now < from_unix p"
      using from_unix_mono [of t p] by linarith
    ultimately show ?thesis by (simp add: verifyValidUntilChain_def)
  qed
  show ?thesis
    using assms(1) until vs attenuates_prefix [of "parseList w" ws v]
    by (fastforce simp: verify_condition_def verifyServicesChain_def verifyCapsChain_def
        split: if_splits option.splits)
qed

definition has_condition :: "(string \<Rightarrow> bool) \<Rightarrow> string list \<Rightarrow> bool" where
  "has_condition P cs \<longleftrightarrow> list_ex (\<lambda>c. P (fst (Cut c (CHR ''='')))) cs"

lemma split_caveats_conditions:
  "split_caveats cs = Inr gs \<Longrightarrow> (\<exists>c\<in>fst ` set gs. P c) \<longleftrightarrow> has_condition P cs"
  by (induction cs arbitrary: gs) (auto simp: has_condition_def split: prod.splits if_splits sum.splits)

lemma verifyCaveats_prefix:
  assumes "verifyCaveats clock (cs @ [c]) opts = Inr ()"
    and "vo_Service opts \<noteq> [] \<longrightarrow> has_condition (\<lambda>x. x = CaveatServices) cs"
    and "vo_Capability opts \<noteq> [] \<longrightarrow> has_condition (is_caps_of (vo_Service opts)) cs"
  shows "verifyCaveats clock cs opts = Inr ()"
proof -
  let ?now = "opt_default clock (vo_Now opts)"
  from assms(1) obtain gs where gs: "split_caveats (cs @ [c]) = Inr gs"
    and ok: "\<And>x. x \<in> fst ` set gs \<Longrightarrow> verify_condition opts ?now x (group_vals gs x) = Inr ()"
    by (auto simp: verifyCaveats_ok_iff)
  from gs obtain as k v where a: "split_caveats cs = Inr as" "gs = as @ [(k, v)]"
    by (auto simp: split_caveats_append split: sum.splits prod.splits if_splits)
  have "verify_condition opts ?now x (group_vals as x) = Inr ()" if x: "x \<in> fst ` set as" for x
  proof (cases "x = k")
    case True
    then have "group_vals gs x = group_vals as x @ [v]" using a(2) by (simp add: group_vals_def)
    moreover have "group_vals as x \<noteq> []" using x by (simp add: group_vals_Nil_iff)
    ultimately show ?thesis using ok [of x] x a(2) verify_condition_prefix by auto
  next
    case False
    then have "group_vals gs x = group_vals as x" using a(2) by (simp add: group_vals_def)
    with ok [of x] x a(2) show ?thesis by auto
  qed
  then show ?thesis
    using a(1) assms(2,3) split_caveats_conditions [OF a(1), of "\<lambda>x. x = CaveatServices"]
      split_caveats_conditions [OF a(1), of "is_caps_of (vo_Service opts)"]
    by (auto simp: verifyCaveats_ok_iff)
qed

lemma VerifyToken_ok_iff:
  "VerifyToken clock rk m pre opts = Inr () \<longleftrightarrow>
     VerifySignature m rk \<and>
     (\<exists>i p. Macaroon_Identifier m = Inr i \<and> hex_decode pre = Some p \<and> length p = 32 \<and>
        sha256 p = id_PaymentHash i) \<and>
     verifyCaveats clock (mac_Caveats m) opts = Inr ()"
  by (auto simp: VerifyToken_def split: sum.splits option.splits)

text \<open>
  C13: attenuation never widens.  If a genuine token already carries a services caveat and, for a
  capability request, a capabilities caveat of the service, then whatever caveat the holder
  appends, every request the longer token authorizes was authorized by the token before.
\<close>

theorem attenuation_never_widens:
  assumes "VerifySignature m rk"
    and "has_condition (\<lambda>x. x = CaveatServices) (mac_Caveats m)"
    and "vo_Capability opts \<noteq> [] \<longrightarrow> has_condition (is_caps_of (vo_Service opts)) (mac_Caveats m)"
    and "VerifyToken clock rk (Attenuate m c) pre opts = Inr ()"
  shows "VerifyToken clock rk m pre opts = Inr ()"
  using assms verifyCaveats_prefix [of clock "mac_Caveats m" c opts]
  by (auto simp: VerifyToken_ok_iff Attenuate_def Macaroon_Identifier_def)

definition sample_options :: VerifyOptions where
  "sample_options = \<lparr>vo_Service = ''api'', vo_Capability = ''read'', vo_Now = Some 0\<rparr>"

definition sample_identifier :: "bytes \<Rightarrow> Identifier" where
  "sample_identifier pre = \<lparr>id_Version = 0, id_PaymentHash = sha256 pre, id_TokenID = replicate 32 (CHR ''t'')\<rparr>"

lemma Macaroon_Identifier_Mint:
  "wf_Identifier i \<Longrightarrow> id_Version i = IdentifierVersion \<Longrightarrow> Macaroon_Identifier (Mint rk i cs) = Inr i"
  by (simp add: Macaroon_Identifier_def Mint_def DecodeIdentifier_Encode)

lemma mac_Caveats_Mint [simp]: "mac_Caveats (Mint rk i cs) = cs"
  by (simp add: Mint_def)

lemma VerifyToken_Mint:
  assumes "wf_Identifier i" and "id_Version i = IdentifierVersion" and "length pre = 32"
    and "sha256 pre = id_PaymentHash i"
  shows "VerifyToken clock rk (Mint rk i cs) (hex_encode pre) opts = verifyCaveats clock cs opts"
  using assms by (simp add: VerifyToken_def Macaroon_Identifier_Mint)

lemma wf_sample_identifier [simp]:
  "wf_Identifier (sample_identifier pre)" "id_Version (sample_identifier pre) = IdentifierVersion"
  "id_PaymentHash (sample_identifier pre) = sha256 pre"
  by (simp_all add: wf_Identifier_def sample_identifier_def IdentifierVersion_def)

lemmas caveat_eval = verifyCaveats_def has_condition_def is_caps_of_def verify_condition_def group_vals_def
  verifyServicesChain_def verifyCapsChain_def verifyValidUntilChain_def parseList_def list_names_def Let_def
  Cut_def Split_def TrimSpace_def trim_by_def is_space_def HasSuffix_def TrimSuffix_def caveat_names

theorem attenuation_never_widens_witness:
  "VerifyToken 0 (replicate 32 (CHR ''k''))
     (Mint (replicate 32 (CHR ''k'')) (sample_identifier (replicate 32 (CHR ''p'')))
        [''services=api:0'', ''api_capabilities=read,write''])
     (hex_encode (replicate 32 (CHR ''p''))) sample_options = Inr ()"
proof (rule attenuation_never_widens [where c = "''api_capabilities=read''"])
  show "VerifyToken 0 (replicate 32 (CHR ''k''))
     (Attenuate (Mint (replicate 32 (CHR ''k'')) (sample_identifier (replicate 32 (CHR ''p'')))
        [''services=api:0'', ''api_capabilities=read,write'']) ''api_capabilities=read'')
     (hex_encode (replicate 32 (CHR ''p''))) sample_options = Inr ()"
    unfolding Attenuate_Mint by (simp add: VerifyToken_Mint caveat_eval sample_options_def)
qed (simp_all add: caveat_eval sample_options_def)



end
