(* ===== verification/GoSql.thy ===== *)
theory GoSql
  imports Prelude
begin

text \<open>
  The part of \<open>database/sql\<close> over SQLite that the stores use: single statements, and
  transactions with a deferred rollback.  A connection is the database value with a schedule of
  faults, one entry per driver call (\<open>BeginTx\<close>, a statement, \<open>RowsAffected\<close>, a query,
  \<open>Commit\<close>); a call whose entry is true returns an error and changes nothing, an exhausted
  schedule means that nothing fails any more.  SQLite's documented guarantee is what
  \<open>transaction\<close> states: a body that returns early, or a commit that fails, leaves the database as
  it was when the transaction began.  The single writer connection makes every operation atomic
  with respect to the others.
\<close>

record 'db conn =
  cn_db :: 'db
  cn_faults :: "bool list"

type_synonym ('db, 'e, 'a) sql = "'db conn \<Rightarrow> ('e, 'a) result \<times> 'db conn"

definition driver :: "'e \<Rightarrow> ('db, 'e, unit) sql" where
  "driver e c =
     (case cn_faults c of
        [] \<Rightarrow> (Inr (), c)
      | b # bs \<Rightarrow> (if b then Inl e else Inr (), c\<lparr>cn_faults := bs\<rparr>))"

definition ret :: "'a \<Rightarrow> ('db, 'e, 'a) sql" where
  "ret x c = (Inr x, c)"

definition throw :: "'e \<Rightarrow> ('db, 'e, 'a) sql" where
  "throw e c = (Inl e, c)"

definition andThen :: "('db, 'e, 'a) sql \<Rightarrow> ('a \<Rightarrow> ('db, 'e, 'b) sql) \<Rightarrow> ('db, 'e, 'b) sql" where
  "andThen m k c = (case m c of (Inl e, c') \<Rightarrow> (Inl e, c') | (Inr x, c') \<Rightarrow> k x c')"

text \<open>A statement: one driver call, then its effect on the database and its result.\<close>

definition stmt :: "'e \<Rightarrow> ('db \<Rightarrow> 'a \<times> 'db) \<Rightarrow> ('db, 'e, 'a) sql" where
  "stmt e f = andThen (driver e) (\<lambda>_ c. case f (cn_db c) of (x, db) \<Rightarrow> (Inr x, c\<lparr>cn_db := db\<rparr>))"

definition query :: "'e \<Rightarrow> ('db \<Rightarrow> 'a) \<Rightarrow> ('db, 'e, 'a) sql" where
  "query e f = stmt e (\<lambda>db. (f db, db))"

definition transaction :: "'e \<Rightarrow> ('db, 'e, 'a) sql \<Rightarrow> ('db, 'e, 'a) sql" where
  "transaction e body =
     andThen (driver e) (\<lambda>_ c.
       case andThen body (\<lambda>x. andThen (driver e) (\<lambda>_. ret x)) c of
         (Inl err, c') \<Rightarrow> (Inl err, c'\<lparr>cn_db := cn_db c\<rparr>)
       | (Inr x, c') \<Rightarrow> (Inr x, c'))"

section \<open>Facts\<close>

lemmas sql_defs = ret_def throw_def andThen_def stmt_def query_def

lemma driver_db: "driver e c = (r, c') \<Longrightarrow> cn_db c' = cn_db c"
  by (auto simp: driver_def split: list.splits)

lemma driver_cases:
  obtains c' where "driver e c = (Inl e, c')" "cn_db c' = cn_db c"
    | c' where "driver e c = (Inr (), c')" "cn_db c' = cn_db c"
proof (cases "cn_faults c")
  case Nil
  then show ?thesis using that(2) [of c] by (simp add: driver_def)
next
  case (Cons b bs)
  then show ?thesis
    using that(1) [of "c\<lparr>cn_faults := bs\<rparr>"] that(2) [of "c\<lparr>cn_faults := bs\<rparr>"]
    by (cases b) (simp_all add: driver_def)
qed

lemma andThen_Inr:
  "andThen m k c = (Inr y, c') \<longleftrightarrow> (\<exists>x c1. m c = (Inr x, c1) \<and> k x c1 = (Inr y, c'))"
  by (auto simp: andThen_def split: prod.splits sum.splits)

lemma andThen_InrE:
  assumes "andThen m k c = (Inr y, c')"
  obtains x c1 where "m c = (Inr x, c1)" "k x c1 = (Inr y, c')"
  using assms andThen_Inr by metis

lemma andThen_Inl:
  "andThen m k c = (Inl e, c') \<longleftrightarrow>
     m c = (Inl e, c') \<or> (\<exists>x c1. m c = (Inr x, c1) \<and> k x c1 = (Inl e, c'))"
  by (auto simp: andThen_def split: prod.splits sum.splits)

lemma andThen_InlE:
  assumes "andThen m k c = (Inl e, c')" and m: "\<And>e c'. m c = (Inl e, c') \<Longrightarrow> e = err" and "e \<noteq> err"
  obtains x c1 where "m c = (Inr x, c1)" "k x c1 = (Inl e, c')"
proof -
  from assms(1) have "m c = (Inl e, c') \<or> (\<exists>x c1. m c = (Inr x, c1) \<and> k x c1 = (Inl e, c'))"
    by (simp only: andThen_Inl)
  then show thesis
  proof
    assume "m c = (Inl e, c')"
    from m [OF this] assms(3) show thesis by simp
  next
    assume "\<exists>x c1. m c = (Inr x, c1) \<and> k x c1 = (Inl e, c')"
    then obtain x c1 where "m c = (Inr x, c1)" "k x c1 = (Inl e, c')" by auto
    then show thesis by (rule that)
  qed
qed

lemma driver_Inl: "driver e c = (Inl e', c') \<Longrightarrow> e' = e"
  by (cases rule: driver_cases [of e c]) simp_all

lemma ret_Inr [simp]: "ret x c = (Inr y, c') \<longleftrightarrow> y = x \<and> c' = c"
  by (auto simp: ret_def)

lemma ret_Inl [simp]: "ret x c \<noteq> (Inl e, c')"
  by (simp add: ret_def)

lemma throw_Inr [simp]: "throw e c \<noteq> (Inr y, c')"
  by (simp add: throw_def)

lemma throw_Inl [simp]: "throw e c = (Inl e', c') \<longleftrightarrow> e' = e \<and> c' = c"
  by (auto simp: throw_def)

lemma stmt_Inr:
  "stmt e f c = (Inr x, c') \<Longrightarrow> f (cn_db c) = (x, cn_db c')"
  by (rule driver_cases [of e c]; cases "f (cn_db c)") (auto simp: stmt_def andThen_def)

lemma stmt_Inl: "stmt e f c = (Inl e', c') \<Longrightarrow> e' = e \<and> cn_db c' = cn_db c"
  by (rule driver_cases [of e c]) (auto simp: stmt_def andThen_def split: prod.splits)

lemma query_Inr: "query e f c = (Inr x, c') \<Longrightarrow> x = f (cn_db c) \<and> cn_db c' = cn_db c"
  unfolding query_def by (drule stmt_Inr) auto

lemma query_Inl: "query e f c = (Inl e', c') \<Longrightarrow> e' = e \<and> cn_db c' = cn_db c"
  unfolding query_def by (rule stmt_Inl)

text \<open>The two facts every transactional operation rests on.\<close>

lemma transaction_Inl: "transaction e body c = (Inl err, c') \<Longrightarrow> cn_db c' = cn_db c"
  by (rule driver_cases [of e c])
    (auto simp: transaction_def andThen_def split: prod.splits sum.splits)

lemma transaction_Inr:
  assumes "transaction e body c = (Inr x, c')"
  shows "\<exists>c1 c2. cn_db c1 = cn_db c \<and> body c1 = (Inr x, c2) \<and> cn_db c' = cn_db c2"
proof -
  let ?body = "andThen body (\<lambda>x. andThen (driver e) (\<lambda>_. ret x))"
  from assms obtain c1 where c1: "driver e c = (Inr (), c1)"
    and "(case ?body c1 of (Inl err, c') \<Rightarrow> (Inl err, c'\<lparr>cn_db := cn_db c1\<rparr>) | (Inr x, c') \<Rightarrow> (Inr x, c')) = (Inr x, c')"
    unfolding transaction_def andThen_Inr by auto
  then have t: "?body c1 = (Inr x, c')"
    by (cases "?body c1"; cases "fst (?body c1)") auto
  from t obtain c2 c3 where "body c1 = (Inr x, c2)" "driver e c2 = (Inr (), c3)" "c' = c3"
    by (auto simp: andThen_Inr)
  with c1 show ?thesis using driver_db by metis
qed

lemma transaction_Inl_body:
  assumes "transaction e body c = (Inl err, c')"
  shows "err = e \<or> (\<exists>c1 c2. cn_db c1 = cn_db c \<and> body c1 = (Inl err, c2))"
proof (rule driver_cases [of e c])
  fix c1 assume "driver e c = (Inl e, c1)"
  with assms show ?thesis by (simp add: transaction_def andThen_def)
next
  fix c1 assume c1: "driver e c = (Inr (), c1)" "cn_db c1 = cn_db c"
  obtain r c2 where b: "body c1 = (r, c2)" by (cases "body c1")
  show ?thesis
  proof (cases r)
    case (Inl x)
    with assms c1 b show ?thesis by (auto simp: transaction_def andThen_def)
  next
    case (Inr x)
    with assms c1 b show ?thesis
      by (cases rule: driver_cases [of e c2]) (auto simp: transaction_def andThen_def ret_def)
  qed
qed

text \<open>With nothing failing, a transaction is its body.\<close>

lemma driver_ok [simp]: "cn_faults c = [] \<Longrightarrow> driver e c = (Inr (), c)"
  by (simp add: driver_def)

lemma stmt_ok:
  "cn_faults c = [] \<Longrightarrow> stmt e f c = (case f (cn_db c) of (x, db) \<Rightarrow> (Inr x, c\<lparr>cn_db := db\<rparr>))"
  by (simp add: stmt_def andThen_def)

lemma query_ok: "cn_faults c = [] \<Longrightarrow> query e f c = (Inr (f (cn_db c)), c)"
  by (simp add: query_def stmt_ok)

end
