(* ===== verification/Ledger.thy ===== *)
theory Ledger
  imports GoSql GoTime
begin

text \<open>
  The package \<open>lib/ledger\<close>: prepaid credit accounts.  \<open>Memory\<close> and \<open>SQLite\<close> implement the
  interface \<open>Ledger\<close>, a record of operations over a state.  The abstract state \<open>credit\<close> (total
  balances, the grants by reference, the charge keys already used) and the two relations
  \<open>grant_spec\<close> and \<open>charge_spec\<close> are the contract; the locale \<open>ledger\<close> states it as laws and
  derives what clients rely on, and both implementations interpret it.  Balances are 64-bit.
\<close>

datatype ledger_error =
    GrantNotPositive
  | RefRequired
  | ChargeNotPositive
  | InsufficientBalance int int
  | LedgerSql

definition Shortfall :: "int \<Rightarrow> int \<Rightarrow> int" where
  "Shortfall balance required = sub64 required balance"

section \<open>The interface\<close>

record 'l Ledger_ops =
  lg_Grant :: "string \<Rightarrow> string \<Rightarrow> int \<Rightarrow> string \<Rightarrow> bytes \<Rightarrow> time \<Rightarrow> 'l \<Rightarrow> (ledger_error, int \<times> bool) result \<times> 'l"
  lg_Charge :: "string \<Rightarrow> string \<Rightarrow> int \<Rightarrow> string \<Rightarrow> string \<Rightarrow> time \<Rightarrow> 'l \<Rightarrow> (ledger_error, int) result \<times> 'l"
  lg_Balance :: "string \<Rightarrow> 'l \<Rightarrow> (ledger_error, int) result \<times> 'l"

section \<open>Memory\<close>

record ledger_mem =
  lm_balances :: "string \<Rightarrow> int"
  lm_grants :: "string \<rightharpoonup> string \<times> int"
  lm_charged :: "string \<Rightarrow> bool"

definition NewMemory :: ledger_mem where
  "NewMemory = \<lparr>lm_balances = \<lambda>_. 0, lm_grants = Map.empty, lm_charged = \<lambda>_. False\<rparr>"

definition Memory_Grant ::
  "string \<Rightarrow> string \<Rightarrow> int \<Rightarrow> string \<Rightarrow> bytes \<Rightarrow> time \<Rightarrow> ledger_mem \<Rightarrow> (ledger_error, int \<times> bool) result \<times> ledger_mem" where
  "Memory_Grant accountID rail amountAtoms externalRef receipt at m =
     (if amountAtoms \<le> 0 then (Inl GrantNotPositive, m)
      else if externalRef = [] then (Inl RefRequired, m)
      else (case lm_grants m externalRef of
              Some prev \<Rightarrow> (Inr (lm_balances m (fst prev), True), m)
            | None \<Rightarrow>
                (let m = m\<lparr>lm_grants := (lm_grants m)(externalRef \<mapsto> (accountID, amountAtoms))\<rparr>;
                     m = m\<lparr>lm_balances := (lm_balances m)(accountID := add64 (lm_balances m accountID) amountAtoms)\<rparr>
                 in (Inr (lm_balances m accountID, False), m))))"

definition charge_key :: "string \<Rightarrow> string \<Rightarrow> string" where
  "charge_key accountID idemKey = accountID @ CHR 0x00 # idemKey"

definition Memory_Charge ::
  "string \<Rightarrow> string \<Rightarrow> int \<Rightarrow> string \<Rightarrow> string \<Rightarrow> time \<Rightarrow> ledger_mem \<Rightarrow> (ledger_error, int) result \<times> ledger_mem" where
  "Memory_Charge accountID tool amountAtoms requestRef idemKey at m =
     (if amountAtoms \<le> 0 then (Inl ChargeNotPositive, m)
      else if idemKey \<noteq> [] \<and> lm_charged m (charge_key accountID idemKey)
      then (Inr (lm_balances m accountID), m)
      else (let balance = lm_balances m accountID in
            if balance < amountAtoms then (Inl (InsufficientBalance balance amountAtoms), m)
            else (let m = m\<lparr>lm_balances := (lm_balances m)(accountID := sub64 balance amountAtoms)\<rparr>;
                      m = (if idemKey \<noteq> []
                           then m\<lparr>lm_charged := (lm_charged m)(charge_key accountID idemKey := True)\<rparr> else m)
                  in (Inr (lm_balances m accountID), m))))"

definition Memory_Balance :: "string \<Rightarrow> ledger_mem \<Rightarrow> (ledger_error, int) result \<times> ledger_mem" where
  "Memory_Balance accountID m = (Inr (lm_balances m accountID), m)"

definition MemoryLedger :: "ledger_mem Ledger_ops" where
  "MemoryLedger = \<lparr>lg_Grant = Memory_Grant, lg_Charge = Memory_Charge, lg_Balance = Memory_Balance\<rparr>"

section \<open>SQLite\<close>

text \<open>The three tables.  Rows of \<open>grants\<close> and \<open>charges\<close> are kept in insertion order.\<close>

record account_row =
  ar_balance :: int
  ar_created :: int
  ar_last_seen :: int

record grant_row =
  gr_ref :: string
  gr_account :: string
  gr_rail :: string
  gr_amount :: int
  gr_receipt :: bytes
  gr_created :: int

record charge_row =
  cr_account :: string
  cr_tool :: string
  cr_amount :: int
  cr_request_ref :: string
  cr_idem_key :: "string option"
  cr_created :: int

record ledger_db =
  db_accounts :: "string \<rightharpoonup> account_row"
  db_grants :: "grant_row list"
  db_charges :: "charge_row list"

definition empty_ledger_db :: ledger_db where
  "empty_ledger_db = \<lparr>db_accounts = Map.empty, db_grants = [], db_charges = []\<rparr>"

definition grant_by_ref :: "string \<Rightarrow> ledger_db \<Rightarrow> grant_row option" where
  "grant_by_ref ref db = find (\<lambda>g. gr_ref g = ref) (db_grants db)"

text \<open>\<open>INSERT INTO grants ... ON CONFLICT(external_ref) DO NOTHING\<close>, returning \<open>RowsAffected\<close>.\<close>

definition insert_grant :: "grant_row \<Rightarrow> ledger_db \<Rightarrow> int \<times> ledger_db" where
  "insert_grant g db =
     (if grant_by_ref (gr_ref g) db \<noteq> None then (0, db)
      else (1, db\<lparr>db_grants := db_grants db @ [g]\<rparr>))"

text \<open>The upsert of \<open>accounts\<close> that credits a grant.\<close>

definition upsert_account :: "string \<Rightarrow> int \<Rightarrow> int \<Rightarrow> ledger_db \<Rightarrow> unit \<times> ledger_db" where
  "upsert_account a n at db =
     ((), db\<lparr>db_accounts := (db_accounts db)(a \<mapsto>
        (case db_accounts db a of
           None \<Rightarrow> \<lparr>ar_balance = n, ar_created = at, ar_last_seen = at\<rparr>
         | Some r \<Rightarrow> r\<lparr>ar_balance := ar_balance r + n, ar_last_seen := at\<rparr>))\<rparr>)"

text \<open>
  \<open>SELECT balance_atoms\<close> scanned into an \<open>int64\<close>.  A sum beyond 64 bits has become a floating
  point value in SQLite, which the scan refuses.
\<close>

definition select_balance :: "string \<Rightarrow> (ledger_db, ledger_error, int option) sql" where
  "select_balance a =
     andThen (query LedgerSql (\<lambda>db. map_option ar_balance (db_accounts db a)))
       (\<lambda>b. case b of None \<Rightarrow> ret None | Some n \<Rightarrow> if in_int64 n then ret (Some n) else throw LedgerSql)"

text \<open>\<open>sql.ErrNoRows\<close> as an error.\<close>

definition must_row :: "'a option \<Rightarrow> ('db, ledger_error, 'a) sql" where
  "must_row x = (case x of None \<Rightarrow> throw LedgerSql | Some v \<Rightarrow> ret v)"

text \<open>The account a grant answers with: the original owner of a repeated reference.\<close>

definition grant_owner :: "string \<Rightarrow> int \<Rightarrow> string \<Rightarrow> time \<Rightarrow> int \<Rightarrow> (ledger_db, ledger_error, string) sql" where
  "grant_owner accountID amountAtoms externalRef at inserted =
     (if inserted = 0
      then andThen (query LedgerSql (\<lambda>db. map_option gr_account (grant_by_ref externalRef db))) must_row
      else andThen (stmt LedgerSql (upsert_account accountID amountAtoms (Unix at))) (\<lambda>_. ret accountID))"

definition grant_body ::
  "string \<Rightarrow> string \<Rightarrow> int \<Rightarrow> string \<Rightarrow> bytes \<Rightarrow> time \<Rightarrow> (ledger_db, ledger_error, int \<times> bool) sql" where
  "grant_body accountID rail amountAtoms externalRef receipt at =
     andThen (stmt LedgerSql (insert_grant
         \<lparr>gr_ref = externalRef, gr_account = accountID, gr_rail = rail, gr_amount = amountAtoms,
          gr_receipt = receipt, gr_created = Unix at\<rparr>)) (\<lambda>inserted.
     andThen (driver LedgerSql) (\<lambda>_.
     andThen (grant_owner accountID amountAtoms externalRef at inserted) (\<lambda>owner.
     andThen (andThen (select_balance owner) must_row) (\<lambda>balance.
     ret (balance, inserted = 0)))))"

definition SQLite_Grant ::
  "string \<Rightarrow> string \<Rightarrow> int \<Rightarrow> string \<Rightarrow> bytes \<Rightarrow> time \<Rightarrow> (ledger_db, ledger_error, int \<times> bool) sql" where
  "SQLite_Grant accountID rail amountAtoms externalRef receipt at =
     (if amountAtoms \<le> 0 then throw GrantNotPositive
      else if externalRef = [] then throw RefRequired
      else transaction LedgerSql (grant_body accountID rail amountAtoms externalRef receipt at))"

text \<open>The unique index over \<open>(account_id, idem_key)\<close>, in which a null key equals no other.\<close>

definition insert_charge :: "charge_row \<Rightarrow> ledger_db \<Rightarrow> int \<times> ledger_db" where
  "insert_charge r db =
     (if cr_idem_key r \<noteq> None \<and>
         list_ex (\<lambda>x. cr_account x = cr_account r \<and> cr_idem_key x = cr_idem_key r) (db_charges db)
      then (0, db) else (1, db\<lparr>db_charges := db_charges db @ [r]\<rparr>))"

definition debit_account :: "string \<Rightarrow> int \<Rightarrow> int \<Rightarrow> ledger_db \<Rightarrow> int \<times> ledger_db" where
  "debit_account a n at db =
     (case db_accounts db a of
        None \<Rightarrow> (0, db)
      | Some r \<Rightarrow>
          if ar_balance r \<ge> n
          then (1, db\<lparr>db_accounts := (db_accounts db)(a \<mapsto> r\<lparr>ar_balance := ar_balance r - n, ar_last_seen := at\<rparr>)\<rparr>)
          else (0, db))"

definition debit_body :: "string \<Rightarrow> int \<Rightarrow> time \<Rightarrow> (ledger_db, ledger_error, int) sql" where
  "debit_body accountID amountAtoms at =
     andThen (stmt LedgerSql (debit_account accountID amountAtoms (Unix at))) (\<lambda>n.
     andThen (driver LedgerSql) (\<lambda>_.
     if n = 0
     then andThen (select_balance accountID) (\<lambda>b. throw (InsufficientBalance (opt_default 0 b) amountAtoms))
     else andThen (select_balance accountID) must_row))"

definition charge_body ::
  "string \<Rightarrow> string \<Rightarrow> int \<Rightarrow> string \<Rightarrow> string \<Rightarrow> time \<Rightarrow> (ledger_db, ledger_error, int) sql" where
  "charge_body accountID tool amountAtoms requestRef idemKey at =
     andThen (stmt LedgerSql (insert_charge
         \<lparr>cr_account = accountID, cr_tool = tool, cr_amount = amountAtoms, cr_request_ref = requestRef,
          cr_idem_key = (if idemKey \<noteq> [] then Some idemKey else None), cr_created = Unix at\<rparr>)) (\<lambda>inserted.
     andThen (driver LedgerSql) (\<lambda>_.
     if inserted = 0 then andThen (select_balance accountID) (\<lambda>b. ret (opt_default 0 b))
     else debit_body accountID amountAtoms at))"

definition SQLite_Charge ::
  "string \<Rightarrow> string \<Rightarrow> int \<Rightarrow> string \<Rightarrow> string \<Rightarrow> time \<Rightarrow> (ledger_db, ledger_error, int) sql" where
  "SQLite_Charge accountID tool amountAtoms requestRef idemKey at =
     (if amountAtoms \<le> 0 then throw ChargeNotPositive
      else transaction LedgerSql (charge_body accountID tool amountAtoms requestRef idemKey at))"

definition SQLite_Balance :: "string \<Rightarrow> (ledger_db, ledger_error, int) sql" where
  "SQLite_Balance accountID = andThen (select_balance accountID) (\<lambda>b. ret (opt_default 0 b))"

definition SQLiteLedger :: "ledger_db conn Ledger_ops" where
  "SQLiteLedger = \<lparr>lg_Grant = SQLite_Grant, lg_Charge = SQLite_Charge, lg_Balance = SQLite_Balance\<rparr>"

section \<open>The contract\<close>

record credit =
  cd_balance :: "string \<Rightarrow> int"
  cd_grants :: "string \<rightharpoonup> string \<times> int"
  cd_charged :: "(string \<times> string) set"

definition grant_spec :: "credit \<Rightarrow> string \<Rightarrow> int \<Rightarrow> string \<Rightarrow> (ledger_error, int \<times> bool) result \<Rightarrow> credit \<Rightarrow> bool" where
  "grant_spec c a n ref r c' \<longleftrightarrow>
     (case r of
        Inl e \<Rightarrow> c' = c
      | Inr (b, already) \<Rightarrow>
          0 < n \<and> ref \<noteq> [] \<and>
          (case cd_grants c ref of
             Some (owner, _) \<Rightarrow> already \<and> c' = c \<and> b = cd_balance c owner
           | None \<Rightarrow> \<not> already \<and> b = cd_balance c' a \<and>
               c' = c\<lparr>cd_balance := (cd_balance c)(a := cd_balance c a + n),
                      cd_grants := (cd_grants c)(ref \<mapsto> (a, n))\<rparr>))"

definition charge_spec :: "credit \<Rightarrow> string \<Rightarrow> int \<Rightarrow> string \<Rightarrow> (ledger_error, int) result \<Rightarrow> credit \<Rightarrow> bool" where
  "charge_spec c a n key r c' \<longleftrightarrow>
     (case r of
        Inl (InsufficientBalance b req) \<Rightarrow> c' = c \<and> b = cd_balance c a \<and> req = n \<and> b < n
      | Inl _ \<Rightarrow> c' = c
      | Inr b \<Rightarrow>
          0 < n \<and> b = cd_balance c' a \<and>
          (if key \<noteq> [] \<and> (a, key) \<in> cd_charged c then c' = c
           else n \<le> cd_balance c a \<and>
             c' = c\<lparr>cd_balance := (cd_balance c)(a := cd_balance c a - n),
                    cd_charged := (if key \<noteq> [] then insert (a, key) (cd_charged c) else cd_charged c)\<rparr>))"

text \<open>Account ids are hexadecimal token ids; all the contract needs is that they hold no NUL byte.\<close>

definition account_ok :: "string \<Rightarrow> bool" where
  "account_ok a \<longleftrightarrow> CHR 0x00 \<notin> set a"

datatype ledger_op =
    OpGrant string string int string bytes time
  | OpCharge string string int string string time

fun ledger_step :: "'l Ledger_ops \<Rightarrow> ledger_op \<Rightarrow> 'l \<Rightarrow> 'l" where
  "ledger_step ops (OpGrant a rail n ref rc at) s = snd (lg_Grant ops a rail n ref rc at s)"
| "ledger_step ops (OpCharge a tool n rr key at) s = snd (lg_Charge ops a tool n rr key at s)"

definition ledger_run :: "'l Ledger_ops \<Rightarrow> ledger_op list \<Rightarrow> 'l \<Rightarrow> 'l" where
  "ledger_run ops xs s = fold (ledger_step ops) xs s"

text \<open>An upper bound of what a sequence of operations can credit.\<close>

fun op_credit :: "ledger_op \<Rightarrow> int" where
  "op_credit (OpGrant a rail n ref rc at) = max 0 n"
| "op_credit (OpCharge a tool n rr key at) = 0"

fun op_ok :: "ledger_op \<Rightarrow> bool" where
  "op_ok (OpGrant a rail n ref rc at) = True"
| "op_ok (OpCharge a tool n rr key at) = account_ok a"

definition run_credit :: "ledger_op list \<Rightarrow> int" where
  "run_credit xs = sum_list (map op_credit xs)"

lemma op_credit_nonneg [simp]: "0 \<le> op_credit x"
  by (cases x) auto

lemma run_credit_nonneg [simp]: "0 \<le> run_credit xs"
  unfolding run_credit_def by (rule sum_list_nonneg) auto

lemma run_credit_Cons [simp]: "run_credit (x # xs) = op_credit x + run_credit xs"
  by (simp add: run_credit_def)

lemma ledger_run_Cons [simp]: "ledger_run ops (x # xs) s = ledger_run ops xs (ledger_step ops x s)"
  by (simp add: ledger_run_def)

lemma ledger_run_Nil [simp]: "ledger_run ops [] s = s"
  by (simp add: ledger_run_def)

text \<open>What survives every step: references stay granted with their owner, used keys stay used.\<close>

definition credit_extends :: "credit \<Rightarrow> credit \<Rightarrow> bool" where
  "credit_extends c c' \<longleftrightarrow> cd_grants c \<subseteq>\<^sub>m cd_grants c' \<and> cd_charged c \<subseteq> cd_charged c'"

lemma credit_extends_refl [simp]: "credit_extends c c"
  by (simp add: credit_extends_def)

lemma credit_extends_trans: "credit_extends a b \<Longrightarrow> credit_extends b c \<Longrightarrow> credit_extends a c"
  unfolding credit_extends_def using map_le_trans by blast

lemma grant_spec_extends: "grant_spec c a n ref r c' \<Longrightarrow> credit_extends c c'"
  by (auto simp: grant_spec_def credit_extends_def map_le_def split: sum.splits option.splits)

lemma charge_spec_extends: "charge_spec c a n key r c' \<Longrightarrow> credit_extends c c'"
  by (auto simp: charge_spec_def credit_extends_def split: sum.splits ledger_error.splits if_splits)

lemma grant_spec_balance:
  "grant_spec c a n ref r c' \<Longrightarrow> cd_balance c' x \<le> cd_balance c x + max 0 n"
  by (auto simp: grant_spec_def split: sum.splits option.splits if_splits)

lemma charge_spec_balance: "charge_spec c a n key r c' \<Longrightarrow> cd_balance c' x \<le> cd_balance c x"
  by (auto simp: charge_spec_def split: sum.splits ledger_error.splits if_splits)

locale ledger =
  fixes ops :: "'l Ledger_ops" and abs :: "'l \<Rightarrow> credit" and inv :: "'l \<Rightarrow> bool"
  assumes grant_law: "inv s \<Longrightarrow> cd_balance (abs s) a + n \<le> int64_max \<Longrightarrow>
      lg_Grant ops a rail n ref rc at s = (r, s') \<Longrightarrow> inv s' \<and> grant_spec (abs s) a n ref r (abs s')"
    and charge_law: "inv s \<Longrightarrow> account_ok a \<Longrightarrow>
      lg_Charge ops a tool n rr key at s = (r', s') \<Longrightarrow> inv s' \<and> charge_spec (abs s) a n key r' (abs s')"
    and balance_law: "inv s \<Longrightarrow> lg_Balance ops a s = (r', s') \<Longrightarrow>
      inv s' \<and> abs s' = abs s \<and> (case r' of Inl e \<Rightarrow> True | Inr b \<Rightarrow> b = cd_balance (abs s) a)"
    and inv_nonneg: "inv s \<Longrightarrow> 0 \<le> cd_balance (abs s) a"
begin

lemma step_law:
  assumes "inv s" and "op_ok x" and "\<And>a. cd_balance (abs s) a + op_credit x \<le> int64_max"
  shows "inv (ledger_step ops x s) \<and> credit_extends (abs s) (abs (ledger_step ops x s)) \<and>
    (\<forall>a. cd_balance (abs (ledger_step ops x s)) a \<le> cd_balance (abs s) a + op_credit x)"
proof (cases x)
  case (OpGrant a rail n ref rc at)
  obtain r s' where g: "lg_Grant ops a rail n ref rc at s = (r, s')" by (cases "lg_Grant ops a rail n ref rc at s")
  have "cd_balance (abs s) a + n \<le> int64_max" using assms(3) [of a] OpGrant by simp
  from grant_law [OF assms(1) this g] g OpGrant show ?thesis
    by (auto dest: grant_spec_extends grant_spec_balance)
next
  case (OpCharge a tool n rr key at)
  obtain r s' where g: "lg_Charge ops a tool n rr key at s = (r, s')" by (cases "lg_Charge ops a tool n rr key at s")
  from charge_law [OF assms(1) _ g] g OpCharge assms(2) show ?thesis
    by (auto dest: charge_spec_extends charge_spec_balance)
qed

lemma run_law:
  assumes "inv s" and "list_all op_ok xs" and "\<And>a. cd_balance (abs s) a + run_credit xs \<le> int64_max"
  shows "inv (ledger_run ops xs s) \<and> credit_extends (abs s) (abs (ledger_run ops xs s)) \<and>
    (\<forall>a. cd_balance (abs (ledger_run ops xs s)) a \<le> cd_balance (abs s) a + run_credit xs)"
  using assms
proof (induction xs arbitrary: s)
  case (Cons x xs)
  let ?s = "ledger_step ops x s"
  have "cd_balance (abs s) a + op_credit x \<le> int64_max" for a
    using Cons.prems(3) [of a] run_credit_nonneg [of xs] unfolding run_credit_Cons by linarith
  with Cons.prems have st: "inv ?s" "credit_extends (abs s) (abs ?s)"
      "\<And>a. cd_balance (abs ?s) a \<le> cd_balance (abs s) a + op_credit x"
    using step_law [of s x] by auto
  have le: "cd_balance (abs ?s) a + run_credit xs \<le> int64_max" for a
    using st(3) [of a] Cons.prems(3) [of a] unfolding run_credit_Cons by linarith
  from Cons.IH [OF st(1) _ le] Cons.prems(2) have ih: "inv (ledger_run ops xs ?s)"
      "credit_extends (abs ?s) (abs (ledger_run ops xs ?s))"
      "\<And>a. cd_balance (abs (ledger_run ops xs ?s)) a \<le> cd_balance (abs ?s) a + run_credit xs"
    by auto
  have "cd_balance (abs (ledger_run ops xs ?s)) a \<le> cd_balance (abs s) a + (op_credit x + run_credit xs)" for a
    using ih(3) [of a] st(3) [of a] by linarith
  with ih(1) credit_extends_trans [OF st(2) ih(2)] show ?case by simp
qed simp

text \<open>A granted reference is never credited again, whatever happened in between.\<close>

lemma grant_once:
  assumes "inv s" and "cd_grants (abs s) ref = Some (owner, m)" and "cd_balance (abs s) a + n \<le> int64_max"
    and "lg_Grant ops a rail n ref rc at s = (r, s')"
  shows "abs s' = abs s \<and> (case r of Inl e \<Rightarrow> True | Inr (b, already) \<Rightarrow> already \<and> b = cd_balance (abs s) owner)"
  using grant_law [OF assms(1,3,4)] assms(2) by (auto simp: grant_spec_def split: sum.splits option.splits)

lemma charge_once:
  assumes "inv s" and "account_ok a" and "(a, key) \<in> cd_charged (abs s)" and "key \<noteq> []"
    and "lg_Charge ops a tool n rr key at s = (r, s')"
  shows "abs s' = abs s"
  using charge_law [OF assms(1,2,5)] assms(3,4)
  by (auto simp: charge_spec_def split: sum.splits ledger_error.splits if_splits)

lemma grant_once_after:
  assumes "inv s" and "cd_balance (abs s) a + n \<le> int64_max"
    and g: "lg_Grant ops a rail n ref rc at s = (Inr (b, al), s1)"
    and xs: "list_all op_ok xs" "\<And>x. cd_balance (abs s1) x + run_credit xs + max 0 n' \<le> int64_max"
    and g': "lg_Grant ops a' rail' n' ref rc' at' (ledger_run ops xs s1) = (r, s2)"
  shows "abs s2 = abs (ledger_run ops xs s1) \<and> (case r of Inl e \<Rightarrow> True | Inr (b, already) \<Rightarrow> already)"
proof -
  from grant_law [OF assms(1,2) g] have i1: "inv s1" and "grant_spec (abs s) a n ref (Inr (b, al)) (abs s1)" by auto
  then obtain ow where "cd_grants (abs s1) ref = Some ow"
    by (auto simp: grant_spec_def split: option.splits)
  moreover have le: "cd_balance (abs s1) x + run_credit xs \<le> int64_max" for x
    using xs(2) [of x] by linarith
  note rl = run_law [OF i1 xs(1) le]
  ultimately have "cd_grants (abs (ledger_run ops xs s1)) ref = Some ow"
    by (auto simp: credit_extends_def map_le_def dom_def)
  moreover have "cd_balance (abs (ledger_run ops xs s1)) a' + n' \<le> int64_max"
  proof -
    have "cd_balance (abs (ledger_run ops xs s1)) a' \<le> cd_balance (abs s1) a' + run_credit xs" using rl by blast
    with xs(2) [of a'] show ?thesis by linarith
  qed
  ultimately show ?thesis
    using grant_once [of "ledger_run ops xs s1" ref "fst ow" "snd ow" a' n' rail' rc' at' r s2] rl g'
    by (auto split: sum.splits)
qed

end

section \<open>Memory meets the contract\<close>

definition mem_credit :: "ledger_mem \<Rightarrow> credit" where
  "mem_credit m = \<lparr>cd_balance = lm_balances m, cd_grants = lm_grants m,
     cd_charged = {(a, k). account_ok a \<and> k \<noteq> [] \<and> lm_charged m (charge_key a k)}\<rparr>"

definition mem_inv :: "ledger_mem \<Rightarrow> bool" where
  "mem_inv m \<longleftrightarrow> (\<forall>a. 0 \<le> lm_balances m a \<and> lm_balances m a \<le> int64_max)"

lemma charge_key_inject:
  "account_ok a \<Longrightarrow> account_ok b \<Longrightarrow> charge_key a k = charge_key b l \<longleftrightarrow> a = b \<and> k = l"
  unfolding charge_key_def account_ok_def by (metis Cut_append prod.inject)

lemma mem_inv_upd: "mem_inv s \<Longrightarrow> 0 \<le> b \<Longrightarrow> b \<le> int64_max \<Longrightarrow> mem_inv (s\<lparr>lm_balances := (lm_balances s)(a := b)\<rparr>)"
  by (simp add: mem_inv_def)

lemma mem_grant_law:
  assumes inv: "mem_inv s" and le: "cd_balance (mem_credit s) a + n \<le> int64_max"
    and g: "Memory_Grant a rail n ref rc at s = (r, s')"
  shows "mem_inv s' \<and> grant_spec (mem_credit s) a n ref r (mem_credit s')"
proof -
  consider "n \<le> 0 \<or> ref = []" | p where "0 < n" "ref \<noteq> []" "lm_grants s ref = Some p"
    | "0 < n" "ref \<noteq> []" "lm_grants s ref = None"
    by (metis not_le not_None_eq)
  then show ?thesis
  proof cases
    case 1
    with g inv show ?thesis by (auto simp: Memory_Grant_def grant_spec_def split: if_splits)
  next
    case 2
    with g inv show ?thesis
      by (cases p) (auto simp: Memory_Grant_def grant_spec_def mem_credit_def)
  next
    case 3
    let ?s = "s\<lparr>lm_grants := (lm_grants s)(ref \<mapsto> (a, n))\<rparr>"
    have b: "0 \<le> lm_balances s a" using inv by (simp add: mem_inv_def)
    have w: "add64 (lm_balances s a) n = lm_balances s a + n"
      using b le 3(1) by (intro wrap64_id) (simp add: mem_credit_def int64_defs)
    with g 3 have s': "s' = ?s\<lparr>lm_balances := (lm_balances ?s)(a := lm_balances s a + n)\<rparr>"
      and r: "r = Inr (lm_balances s a + n, False)"
      by (auto simp: Memory_Grant_def Let_def)
    have "mem_inv s'" unfolding s'
      using inv b le 3(1) by (intro mem_inv_upd) (simp_all add: mem_inv_def mem_credit_def)
    moreover have "grant_spec (mem_credit s) a n ref r (mem_credit s')"
      using 3 unfolding s' r by (simp add: grant_spec_def mem_credit_def)
    ultimately show ?thesis by simp
  qed
qed

lemma mem_charge_law:
  assumes inv: "mem_inv s" and a: "account_ok a" and c: "Memory_Charge a tool n rr key at s = (r, s')"
  shows "mem_inv s' \<and> charge_spec (mem_credit s) a n key r (mem_credit s')"
proof -
  let ?b = "lm_balances s a" and ?used = "key \<noteq> [] \<and> lm_charged s (charge_key a key)"
  consider "n \<le> 0" | "0 < n" ?used | "0 < n" "\<not> ?used" "?b < n" | "0 < n" "\<not> ?used" "n \<le> ?b"
    by linarith
  then show ?thesis
  proof cases
    case 1
    with c inv show ?thesis by (auto simp: Memory_Charge_def charge_spec_def)
  next
    case 2
    with c inv a show ?thesis by (auto simp: Memory_Charge_def charge_spec_def mem_credit_def)
  next
    case 3
    with c inv show ?thesis by (auto simp: Memory_Charge_def charge_spec_def mem_credit_def)
  next
    case 4
    let ?s = "s\<lparr>lm_balances := (lm_balances s)(a := ?b - n)\<rparr>"
    let ?s2 = "if key \<noteq> [] then ?s\<lparr>lm_charged := (lm_charged ?s)(charge_key a key := True)\<rparr> else ?s"
    have rng: "0 \<le> ?b" "?b \<le> int64_max" using inv by (simp_all add: mem_inv_def)
    have "sub64 ?b n = ?b - n" using rng 4 by (intro sub64_id) (simp_all add: int64_defs)
    with c 4 have s': "s' = ?s2" and r: "r = Inr (?b - n)"
      by (auto simp: Memory_Charge_def Let_def split: if_splits)
    have "mem_inv ?s" using inv rng 4 by (intro mem_inv_upd) simp_all
    then have "mem_inv s'" unfolding s' by (simp add: mem_inv_def)
    moreover have "charge_spec (mem_credit s) a n key r (mem_credit s')"
      using 4 a charge_key_inject [OF _ a] unfolding s' r
      by (auto simp: charge_spec_def mem_credit_def)
    ultimately show ?thesis by simp
  qed
qed

interpretation mem_ledger: ledger MemoryLedger mem_credit mem_inv
proof
  fix s a n rail ref rc at r s'
  assume "mem_inv s" "cd_balance (mem_credit s) a + n \<le> int64_max" "lg_Grant MemoryLedger a rail n ref rc at s = (r, s')"
  then show "mem_inv s' \<and> grant_spec (mem_credit s) a n ref r (mem_credit s')"
    using mem_grant_law by (simp add: MemoryLedger_def)
next
  fix s a tool n rr key at r s'
  assume "mem_inv s" "account_ok a" "lg_Charge MemoryLedger a tool n rr key at s = (r, s')"
  then show "mem_inv s' \<and> charge_spec (mem_credit s) a n key r (mem_credit s')"
    using mem_charge_law by (simp add: MemoryLedger_def)
next
  fix s a r s'
  assume "mem_inv s" "lg_Balance MemoryLedger a s = (r, s')"
  then show "mem_inv s' \<and> mem_credit s' = mem_credit s \<and>
      (case r of Inl e \<Rightarrow> True | Inr b \<Rightarrow> b = cd_balance (mem_credit s) a)"
    by (auto simp: MemoryLedger_def Memory_Balance_def mem_credit_def)
next
  fix s a
  assume "mem_inv s"
  then show "0 \<le> cd_balance (mem_credit s) a" by (simp add: mem_inv_def mem_credit_def)
qed

section \<open>SQLite meets the contract\<close>

definition balance_of :: "ledger_db \<Rightarrow> string \<Rightarrow> int" where
  "balance_of db a = (case db_accounts db a of None \<Rightarrow> 0 | Some r \<Rightarrow> ar_balance r)"

definition granted_to :: "ledger_db \<Rightarrow> string \<Rightarrow> int" where
  "granted_to db a = sum_list (map gr_amount (filter (\<lambda>g. gr_account g = a) (db_grants db)))"

definition charged_to :: "ledger_db \<Rightarrow> string \<Rightarrow> int" where
  "charged_to db a = sum_list (map cr_amount (filter (\<lambda>r. cr_account r = a) (db_charges db)))"

text \<open>The books: every balance is the sum of its grants less the sum of its charges.\<close>

definition books_balance :: "ledger_db \<Rightarrow> bool" where
  "books_balance db \<longleftrightarrow> (\<forall>a. balance_of db a = granted_to db a - charged_to db a)"

definition db_inv :: "ledger_db \<Rightarrow> bool" where
  "db_inv db \<longleftrightarrow> books_balance db \<and> (\<forall>a. 0 \<le> balance_of db a \<and> balance_of db a \<le> int64_max)"

definition db_credit :: "ledger_db \<Rightarrow> credit" where
  "db_credit db = \<lparr>cd_balance = balance_of db,
     cd_grants = (\<lambda>ref. map_option (\<lambda>g. (gr_account g, gr_amount g)) (grant_by_ref ref db)),
     cd_charged = {(a, k). \<exists>r\<in>set (db_charges db). cr_account r = a \<and> cr_idem_key r = Some k}\<rparr>"

lemma opt_default_balance: "opt_default 0 (map_option ar_balance (db_accounts db a)) = balance_of db a"
  by (simp add: balance_of_def split: option.split)

lemma select_balance_Inr:
  assumes "select_balance a c = (Inr x, c')"
  shows "x = map_option ar_balance (db_accounts (cn_db c) a) \<and> cn_db c' = cn_db c"
proof -
  from assms obtain y c1 where y: "query LedgerSql (\<lambda>db. map_option ar_balance (db_accounts db a)) c = (Inr y, c1)"
    and k: "(case y of None \<Rightarrow> ret None | Some n \<Rightarrow> if in_int64 n then ret (Some n) else throw LedgerSql) c1 = (Inr x, c')"
    unfolding select_balance_def by (rule andThen_InrE)
  from k have "x = y \<and> c' = c1" by (cases y) (auto split: if_splits)
  with query_Inr [OF y] show ?thesis by simp
qed

lemma select_balance_Inl: "select_balance a c = (Inl e, c') \<Longrightarrow> e = LedgerSql"
  unfolding select_balance_def andThen_Inl
  by (auto dest: query_Inl split: option.splits if_splits)

lemma select_balance_keeps: "select_balance a c = (Inl e, c') \<Longrightarrow> cn_db c' = cn_db c"
  unfolding select_balance_def andThen_Inl
  by (auto dest!: query_Inl query_Inr split: option.splits if_splits)

lemma must_row_Inl: "must_row x c = (Inl e, c') \<Longrightarrow> e = LedgerSql"
  by (auto simp: must_row_def split: option.splits)

lemma must_row_Inr [simp]: "must_row x c = (Inr v, c') \<longleftrightarrow> x = Some v \<and> c' = c"
  by (auto simp: must_row_def split: option.splits)

lemma select_row_Inr:
  assumes "andThen (select_balance a) must_row c = (Inr b, c')"
  shows "b = balance_of (cn_db c) a \<and> cn_db c' = cn_db c"
proof -
  from assms obtain x c1 where x: "select_balance a c = (Inr x, c1)" "must_row x c1 = (Inr b, c')" by (rule andThen_InrE)
  from select_balance_Inr [OF x(1)] x(2) opt_default_balance [of "cn_db c" a] show ?thesis by auto
qed

lemma select_default_Inr:
  assumes "andThen (select_balance a) (\<lambda>b. ret (opt_default 0 b)) c = (Inr b, c')"
  shows "b = balance_of (cn_db c) a \<and> cn_db c' = cn_db c"
proof -
  from assms obtain x c1 where x: "select_balance a c = (Inr x, c1)"
      "(ret (opt_default 0 x) :: (ledger_db, ledger_error, int) sql) c1 = (Inr b, c')"
    by (rule andThen_InrE)
  from select_balance_Inr [OF x(1)] x(2) opt_default_balance [of "cn_db c" a] show ?thesis by auto
qed

lemma grant_owner_Inr:
  assumes "grant_owner a n ref at ins c = (Inr o', c')"
  shows "if ins = 0 then cn_db c' = cn_db c \<and> map_option gr_account (grant_by_ref ref (cn_db c)) = Some o'
    else o' = a \<and> cn_db c' = snd (upsert_account a n (Unix at) (cn_db c))"
proof (cases "ins = 0")
  case True
  from assms True obtain x c1 where
    x: "query LedgerSql (\<lambda>db. map_option gr_account (grant_by_ref ref db)) c = (Inr x, c1)" "must_row x c1 = (Inr o', c')"
    unfolding grant_owner_def by (auto elim: andThen_InrE)
  from query_Inr [OF x(1)] x(2) True show ?thesis by auto
next
  case False
  from assms False obtain x c1 where
    x: "stmt LedgerSql (upsert_account a n (Unix at)) c = (Inr x, c1)"
      "(ret a :: (ledger_db, ledger_error, string) sql) c1 = (Inr o', c')"
    unfolding grant_owner_def by (auto elim: andThen_InrE)
  from stmt_Inr [OF x(1)] x(2) False show ?thesis by auto
qed

text \<open>What a committed grant did.\<close>

lemma grant_body_Inr:
  assumes "grant_body a rail n ref rc at c = (Inr (b, already), c')"
  defines "g \<equiv> \<lparr>gr_ref = ref, gr_account = a, gr_rail = rail, gr_amount = n, gr_receipt = rc, gr_created = Unix at\<rparr>"
  shows "case grant_by_ref ref (cn_db c) of
       Some o' \<Rightarrow> already \<and> cn_db c' = cn_db c \<and> b = balance_of (cn_db c) (gr_account o')
     | None \<Rightarrow> \<not> already \<and> b = balance_of (cn_db c') a \<and>
         cn_db c' = snd (upsert_account a n (Unix at) (snd (insert_grant g (cn_db c))))"
proof -
  let ?rest = "\<lambda>inserted owner. andThen (andThen (select_balance owner) must_row) (\<lambda>balance. ret (balance, inserted = 0))"
  from assms(1) obtain ins d1 where ins: "stmt LedgerSql (insert_grant g) c = (Inr ins, d1)"
    and k1: "andThen (driver LedgerSql) (\<lambda>_. andThen (grant_owner a n ref at ins) (?rest ins)) d1 = (Inr (b, already), c')"
    unfolding grant_body_def g_def by (rule andThen_InrE)
  from k1 obtain u d2 where d2: "driver LedgerSql d1 = (Inr u, d2)"
    and k2: "andThen (grant_owner a n ref at ins) (?rest ins) d2 = (Inr (b, already), c')" by (rule andThen_InrE)
  from k2 obtain o' d3 where own: "grant_owner a n ref at ins d2 = (Inr o', d3)"
    and k3: "?rest ins o' d3 = (Inr (b, already), c')" by (rule andThen_InrE)
  from k3 obtain b' d4 where sel: "andThen (select_balance o') must_row d3 = (Inr b', d4)"
    and k4: "(ret (b', ins = 0) :: (ledger_db, ledger_error, int \<times> bool) sql) d4 = (Inr (b, already), c')" by (rule andThen_InrE)
  have ig: "insert_grant g (cn_db c) = (ins, cn_db d2)"
    using stmt_Inr [OF ins] driver_db [OF d2] by simp
  have bal: "b = balance_of (cn_db d3) o'" "cn_db c' = cn_db d3" "already = (ins = 0)"
    using select_row_Inr [OF sel] k4 by auto
  show ?thesis
  proof (cases "grant_by_ref ref (cn_db c)")
    case None
    then have "ins = 1" using ig by (simp add: insert_grant_def g_def)
    moreover have "cn_db d2 = snd (insert_grant g (cn_db c))" using ig by simp
    moreover note grant_owner_Inr [OF own]
    ultimately show ?thesis using None bal by simp
  next
    case (Some o1)
    then have "ins = 0" "cn_db d2 = cn_db c" using ig by (auto simp: insert_grant_def g_def)
    with grant_owner_Inr [OF own] Some bal show ?thesis by simp
  qed
qed

subsection \<open>Effects of the statements\<close>

lemma balance_of_upsert:
  "balance_of (snd (upsert_account a n t db)) = (balance_of db)(a := balance_of db a + n)"
  by (rule ext) (simp add: balance_of_def upsert_account_def split: option.splits)

lemma upsert_keeps [simp]:
  "db_grants (snd (upsert_account a n t db)) = db_grants db"
  "db_charges (snd (upsert_account a n t db)) = db_charges db"
  by (simp_all add: upsert_account_def)

lemma insert_grant_keeps [simp]:
  "db_accounts (snd (insert_grant g db)) = db_accounts db" "db_charges (snd (insert_grant g db)) = db_charges db"
  by (simp_all add: insert_grant_def)

lemma insert_grant_new:
  "grant_by_ref (gr_ref g) db = None \<Longrightarrow> db_grants (snd (insert_grant g db)) = db_grants db @ [g]"
  by (simp add: insert_grant_def)

lemma find_snoc: "find P (xs @ [x]) = (case find P xs of None \<Rightarrow> if P x then Some x else None | Some y \<Rightarrow> Some y)"
  by (induction xs) auto

lemma balance_of_accounts: "db_accounts db = db_accounts db' \<Longrightarrow> balance_of db = balance_of db'"
  by (rule ext) (simp add: balance_of_def)

lemma db_grant_effect:
  fixes t :: int
  assumes "grant_by_ref (gr_ref g) db = None"
  defines "db' \<equiv> snd (upsert_account (gr_account g) (gr_amount g) t (snd (insert_grant g db)))"
  shows "balance_of db' = (balance_of db)(gr_account g := balance_of db (gr_account g) + gr_amount g)"
    and "db_credit db' = (db_credit db)\<lparr>
        cd_balance := (cd_balance (db_credit db))(gr_account g := cd_balance (db_credit db) (gr_account g) + gr_amount g),
        cd_grants := (cd_grants (db_credit db))(gr_ref g \<mapsto> (gr_account g, gr_amount g))\<rparr>"
    and "books_balance db \<Longrightarrow> books_balance db'"
proof -
  have gr: "db_grants db' = db_grants db @ [g]" and ch: "db_charges db' = db_charges db"
    using assms by (simp_all add: insert_grant_new)
  show bal: "balance_of db' = (balance_of db)(gr_account g := balance_of db (gr_account g) + gr_amount g)"
    unfolding db'_def balance_of_upsert using balance_of_accounts [of "snd (insert_grant g db)" db] by simp
  have "grant_by_ref r db' = (if r = gr_ref g then Some g else grant_by_ref r db)" for r
    using assms(1) gr by (auto simp: grant_by_ref_def find_snoc split: option.splits)
  then have "cd_grants (db_credit db') = (cd_grants (db_credit db))(gr_ref g \<mapsto> (gr_account g, gr_amount g))"
    by (auto simp: db_credit_def)
  with bal ch show "db_credit db' = (db_credit db)\<lparr>
        cd_balance := (cd_balance (db_credit db))(gr_account g := cd_balance (db_credit db) (gr_account g) + gr_amount g),
        cd_grants := (cd_grants (db_credit db))(gr_ref g \<mapsto> (gr_account g, gr_amount g))\<rparr>"
    by (simp add: db_credit_def)
  assume "books_balance db"
  then show "books_balance db'"
    using bal gr ch by (simp add: books_balance_def granted_to_def charged_to_def)
qed

lemma sq_grant_law:
  assumes inv: "db_inv (cn_db s)" and le: "cd_balance (db_credit (cn_db s)) a + n \<le> int64_max"
    and g: "SQLite_Grant a rail n ref rc at s = (r, s')"
  shows "db_inv (cn_db s') \<and> grant_spec (db_credit (cn_db s)) a n ref r (db_credit (cn_db s'))"
proof (cases r)
  case (Inl e)
  have "cn_db s' = cn_db s"
    using g Inl by (auto simp: SQLite_Grant_def throw_def split: if_splits dest: transaction_Inl)
  with inv Inl show ?thesis by (simp add: grant_spec_def)
next
  case (Inr x)
  obtain b already where x: "x = (b, already)" by (cases x)
  have pos: "0 < n" "ref \<noteq> []" using g Inr by (auto simp: SQLite_Grant_def throw_def split: if_splits)
  with g Inr x have "transaction LedgerSql (grant_body a rail n ref rc at) s = (Inr (b, already), s')"
    by (simp add: SQLite_Grant_def)
  from transaction_Inr [OF this] obtain c1 c2 where c: "cn_db c1 = cn_db s" "cn_db s' = cn_db c2"
    and "grant_body a rail n ref rc at c1 = (Inr (b, already), c2)" by blast
  note body = grant_body_Inr [OF this(3)]
  define gr where "gr = \<lparr>gr_ref = ref, gr_account = a, gr_rail = rail, gr_amount = n, gr_receipt = rc, gr_created = Unix at\<rparr>"
  have gr_sel: "gr_ref gr = ref" "gr_account gr = a" "gr_amount gr = n" by (simp_all add: gr_def)
  show ?thesis
  proof (cases "grant_by_ref ref (cn_db s)")
    case (Some o')
    with body c Inr x inv pos show ?thesis by (simp add: grant_spec_def db_credit_def)
  next
    case None
    with body c have b: "\<not> already" "b = balance_of (cn_db s') a"
      and db': "cn_db s' = snd (upsert_account a n (Unix at) (snd (insert_grant gr (cn_db s))))"
      by (simp_all add: gr_def)
    note eff = db_grant_effect [of gr "cn_db s" "Unix at", unfolded gr_sel, folded db', OF None]
    have "db_inv (cn_db s')"
      using inv le eff(1,3) pos by (simp add: db_inv_def db_credit_def)
    moreover have "grant_spec (db_credit (cn_db s)) a n ref r (db_credit (cn_db s'))"
      using None Inr x b pos eff(2) by (simp add: grant_spec_def db_credit_def)
    ultimately show ?thesis by simp
  qed
qed

lemma debit_account_effect:
  assumes "debit_account a n t db = (k, db')" and "0 < n"
  shows "db_charges db' = db_charges db \<and> db_grants db' = db_grants db \<and>
    (if k = 0 then db' = db \<and> balance_of db a < n
     else n \<le> balance_of db a \<and> balance_of db' = (balance_of db)(a := balance_of db a - n))"
proof (cases "db_accounts db a")
  case None
  with assms show ?thesis by (auto simp: debit_account_def balance_of_def)
next
  case (Some r)
  show ?thesis
  proof (cases "n \<le> ar_balance r")
    case True
    with assms Some have "k = 1"
      and db': "db' = db\<lparr>db_accounts := (db_accounts db)(a \<mapsto> r\<lparr>ar_balance := ar_balance r - n, ar_last_seen := t\<rparr>)\<rparr>"
      by (simp_all add: debit_account_def)
    moreover have "balance_of db' = (balance_of db)(a := balance_of db a - n)"
      unfolding db' using Some by (intro ext) (simp add: balance_of_def)
    ultimately show ?thesis using True Some by (simp add: balance_of_def)
  next
    case False
    with assms Some show ?thesis by (auto simp: debit_account_def balance_of_def)
  qed
qed

lemma debit_body_Inr:
  assumes "debit_body a n at c = (Inr b, c')" and "0 < n"
  shows "n \<le> balance_of (cn_db c) a \<and> b = balance_of (cn_db c') a \<and>
    balance_of (cn_db c') = (balance_of (cn_db c))(a := balance_of (cn_db c) a - n) \<and>
    db_charges (cn_db c') = db_charges (cn_db c) \<and> db_grants (cn_db c') = db_grants (cn_db c)"
proof -
  let ?k = "\<lambda>k. if k = 0
     then andThen (select_balance a) (\<lambda>b. throw (InsufficientBalance (opt_default 0 b) n))
     else andThen (select_balance a) must_row"
  from assms(1) obtain k d1 where k: "stmt LedgerSql (debit_account a n (Unix at)) c = (Inr k, d1)"
    and k1: "andThen (driver LedgerSql) (\<lambda>_. ?k k) d1 = (Inr b, c')"
    unfolding debit_body_def by (rule andThen_InrE)
  from k1 obtain u d2 where d2: "driver LedgerSql d1 = (Inr u, d2)" and k2: "?k k d2 = (Inr b, c')" by (rule andThen_InrE)
  have nz: "k \<noteq> 0"
  proof
    assume "k = 0"
    with k2 have "andThen (select_balance a) (\<lambda>b. throw (InsufficientBalance (opt_default 0 b) n)) d2 = (Inr b, c')" by simp
    then show False by (auto simp: andThen_Inr)
  qed
  with k2 have "andThen (select_balance a) must_row d2 = (Inr b, c')" by simp
  from select_row_Inr [OF this] driver_db [OF d2] have "b = balance_of (cn_db c') a" "cn_db c' = cn_db d1" by auto
  with debit_account_effect [OF stmt_Inr [OF k] assms(2)] nz show ?thesis by simp
qed

lemma debit_body_Insufficient:
  assumes "debit_body a n at c = (Inl (InsufficientBalance b req), c')" and "0 < n"
  shows "req = n \<and> b = balance_of (cn_db c) a \<and> b < n"
proof -
  let ?k = "\<lambda>k. if k = 0
     then andThen (select_balance a) (\<lambda>b. throw (InsufficientBalance (opt_default 0 b) n))
     else andThen (select_balance a) must_row"
  let ?e = "InsufficientBalance b req"
  from assms(1) obtain k d1 where k: "stmt LedgerSql (debit_account a n (Unix at)) c = (Inr k, d1)"
    and k1: "andThen (driver LedgerSql) (\<lambda>_. ?k k) d1 = (Inl ?e, c')"
    unfolding debit_body_def by (rule andThen_InlE [where err = LedgerSql]) (auto dest: stmt_Inl)
  from k1 obtain u d2 where d2: "driver LedgerSql d1 = (Inr u, d2)" and k2: "?k k d2 = (Inl ?e, c')"
    by (rule andThen_InlE [where err = LedgerSql]) (auto dest: driver_Inl)
  have z: "k = 0"
  proof (rule ccontr)
    assume "k \<noteq> 0"
    with k2 have "andThen (select_balance a) must_row d2 = (Inl ?e, c')" by simp
    then obtain x :: "int option" and c1 where "must_row x c1 = (Inl ?e, c')"
      by (rule andThen_InlE [where err = LedgerSql]) (auto dest: select_balance_Inl)
    then show False by (auto dest: must_row_Inl)
  qed
  with k2 have "andThen (select_balance a) (\<lambda>b. throw (InsufficientBalance (opt_default 0 b) n)) d2 =
      (Inl ?e :: ledger_error + int, c')" by simp
  then obtain x d3 where x: "select_balance a d2 = (Inr x, d3)"
      "(throw (InsufficientBalance (opt_default 0 x) n) :: (ledger_db, ledger_error, int) sql) d3 = (Inl ?e, c')"
    by (rule andThen_InlE [where err = LedgerSql]) (auto dest: select_balance_Inl)
  have "b = balance_of (cn_db d1) a" "req = n"
    using select_balance_Inr [OF x(1)] x(2) driver_db [OF d2] opt_default_balance by simp_all
  with debit_account_effect [OF stmt_Inr [OF k] assms(2)] z show ?thesis by auto
qed

text \<open>Whether the unique index already holds the key of a charge.\<close>

definition key_used :: "ledger_db \<Rightarrow> string \<Rightarrow> string \<Rightarrow> bool" where
  "key_used db a key \<longleftrightarrow> key \<noteq> [] \<and> (a, key) \<in> cd_charged (db_credit db)"

definition charge_of :: "string \<Rightarrow> string \<Rightarrow> int \<Rightarrow> string \<Rightarrow> string \<Rightarrow> time \<Rightarrow> charge_row" where
  "charge_of a tool n rr key at = \<lparr>cr_account = a, cr_tool = tool, cr_amount = n, cr_request_ref = rr,
     cr_idem_key = (if key \<noteq> [] then Some key else None), cr_created = Unix at\<rparr>"

lemma insert_charge_effect:
  assumes "insert_charge (charge_of a tool n rr key at) db = (k, db')"
  shows "if key_used db a key then k = 0 \<and> db' = db
    else k = 1 \<and> db' = db\<lparr>db_charges := db_charges db @ [charge_of a tool n rr key at]\<rparr>"
proof -
  have "key_used db a key \<longleftrightarrow> cr_idem_key (charge_of a tool n rr key at) \<noteq> None \<and>
      list_ex (\<lambda>x. cr_account x = cr_account (charge_of a tool n rr key at) \<and>
        cr_idem_key x = cr_idem_key (charge_of a tool n rr key at)) (db_charges db)"
    by (auto simp: key_used_def db_credit_def charge_of_def list_ex_iff)
  with assms show ?thesis by (simp add: insert_charge_def split: if_splits)
qed

lemma charge_body_steps:
  assumes "charge_body a tool n rr key at c = (r, c')" and "r \<noteq> Inl LedgerSql"
  obtains d where "cn_db d = (if key_used (cn_db c) a key then cn_db c
      else (cn_db c)\<lparr>db_charges := db_charges (cn_db c) @ [charge_of a tool n rr key at]\<rparr>)"
    and "(if key_used (cn_db c) a key then andThen (select_balance a) (\<lambda>b. ret (opt_default 0 b))
      else debit_body a n at) d = (r, c')"
proof -
  let ?st = "stmt LedgerSql (insert_charge (charge_of a tool n rr key at))"
  let ?k = "\<lambda>i. if i = 0 then andThen (select_balance a) (\<lambda>b. ret (opt_default 0 b)) else debit_body a n at"
  have cb: "charge_body a tool n rr key at = andThen ?st (\<lambda>i. andThen (driver LedgerSql) (\<lambda>_. ?k i))"
    by (simp add: charge_body_def charge_of_def)
  obtain x d1 where st: "?st c = (x, d1)" by (cases "?st c")
  show thesis
  proof (cases x)
    case (Inl e)
    with st stmt_Inl [of LedgerSql _ c e d1] assms cb show thesis by (auto simp: andThen_def)
  next
    case (Inr i)
    note eff = insert_charge_effect [OF stmt_Inr [OF st [unfolded Inr]]]
    obtain y d2 where dr: "driver LedgerSql d1 = (y, d2)" by (cases "driver LedgerSql d1")
    show thesis
    proof (cases y)
      case (Inl e)
      with st Inr dr driver_Inl [of LedgerSql d1 e d2] assms cb show thesis by (auto simp: andThen_def)
    next
      case (Inr u)
      with st \<open>x = Inr i\<close> dr assms cb have "?k i d2 = (r, c')" by (simp add: andThen_def)
      then show thesis
        using that [of d2] eff driver_db [OF dr] by (auto split: if_splits)
    qed
  qed
qed

lemma charged_to_snoc:
  "db_charges db' = db_charges db @ [r] \<Longrightarrow>
   charged_to db' = (charged_to db)(cr_account r := charged_to db (cr_account r) + cr_amount r)"
  by (rule ext) (simp add: charged_to_def)

lemma sq_charge_law:
  assumes inv: "db_inv (cn_db s)" and ch: "SQLite_Charge a tool n rr key at s = (r, s')"
  shows "db_inv (cn_db s') \<and> charge_spec (db_credit (cn_db s)) a n key r (db_credit (cn_db s'))"
proof (cases r)
  case (Inl e)
  have same: "cn_db s' = cn_db s"
    using ch Inl by (auto simp: SQLite_Charge_def throw_def split: if_splits dest: transaction_Inl)
  show ?thesis
  proof (cases e)
    case (InsufficientBalance b req)
    with ch Inl have pos: "0 < n"
      and "transaction LedgerSql (charge_body a tool n rr key at) s = (Inl (InsufficientBalance b req), s')"
      by (auto simp: SQLite_Charge_def throw_def split: if_splits)
    from transaction_Inl_body [OF this(2)] obtain c1 c2 where c1: "cn_db c1 = cn_db s"
      and "charge_body a tool n rr key at c1 = (Inl (InsufficientBalance b req), c2)" by blast
    from charge_body_steps [OF this(2)] obtain d where
      d: "cn_db d = (if key_used (cn_db c1) a key then cn_db c1
          else (cn_db c1)\<lparr>db_charges := db_charges (cn_db c1) @ [charge_of a tool n rr key at]\<rparr>)"
      and k: "(if key_used (cn_db c1) a key then andThen (select_balance a) (\<lambda>b. ret (opt_default 0 b))
          else debit_body a n at) d = (Inl (InsufficientBalance b req), c2)" by blast
    have "\<not> key_used (cn_db c1) a key"
      using k by (auto simp: andThen_Inl dest: select_balance_Inl)
    with k d debit_body_Insufficient [OF _ pos, of a at d b req c2] c1
    have "req = n \<and> b = balance_of (cn_db s) a \<and> b < n"
      using balance_of_accounts [of "cn_db d" "cn_db s"] by auto
    with Inl InsufficientBalance same inv show ?thesis by (simp add: charge_spec_def db_credit_def)
  qed (use Inl same inv in \<open>simp_all add: charge_spec_def\<close>)
next
  case (Inr b)
  with ch have pos: "0 < n" and "transaction LedgerSql (charge_body a tool n rr key at) s = (Inr b, s')"
    by (auto simp: SQLite_Charge_def throw_def split: if_splits)
  from transaction_Inr [OF this(2)] obtain c1 c2 where c: "cn_db c1 = cn_db s" "cn_db s' = cn_db c2"
    and "charge_body a tool n rr key at c1 = (Inr b, c2)" by blast
  from charge_body_steps [OF this(3)] obtain d where
    d: "cn_db d = (if key_used (cn_db c1) a key then cn_db c1
        else (cn_db c1)\<lparr>db_charges := db_charges (cn_db c1) @ [charge_of a tool n rr key at]\<rparr>)"
    and k: "(if key_used (cn_db c1) a key then andThen (select_balance a) (\<lambda>b. ret (opt_default 0 b))
        else debit_body a n at) d = (Inr b, c2)" by blast
  show ?thesis
  proof (cases "key_used (cn_db s) a key")
    case True
    with k c have "andThen (select_balance a) (\<lambda>b. ret (opt_default 0 b)) d = (Inr b :: ledger_error + int, c2)" by simp
    from select_default_Inr [OF this] True c d have "cn_db s' = cn_db s" "b = balance_of (cn_db s) a" by simp_all
    with True Inr inv pos show ?thesis by (auto simp: charge_spec_def db_credit_def key_used_def)
  next
    case False
    with k c have "debit_body a n at d = (Inr b, c2)" by simp
    note deb = debit_body_Inr [OF this pos]
    have bd: "balance_of (cn_db d) = balance_of (cn_db s)"
      using d False c by (intro balance_of_accounts) simp
    have rows: "db_charges (cn_db s') = db_charges (cn_db s) @ [charge_of a tool n rr key at]"
      "db_grants (cn_db s') = db_grants (cn_db s)"
      using deb d False c by simp_all
    have bal: "balance_of (cn_db s') = (balance_of (cn_db s))(a := balance_of (cn_db s) a - n)"
      and ok: "n \<le> balance_of (cn_db s) a" "b = balance_of (cn_db s') a"
      using deb bd c by simp_all
    have sel: "cr_account (charge_of a tool n rr key at) = a" "cr_amount (charge_of a tool n rr key at) = n"
      by (simp_all add: charge_of_def)
    have rng: "balance_of (cn_db s) x \<le> int64_max" for x using inv by (simp add: db_inv_def)
    have up: "balance_of (cn_db s') x \<le> int64_max" for x
      using rng [of x] bal pos by (cases "x = a") auto
    have low: "0 \<le> balance_of (cn_db s') x" for x
      using inv ok(1) bal by (cases "x = a") (auto simp: db_inv_def)
    have "books_balance (cn_db s')"
      using inv bal rows(2) charged_to_snoc [OF rows(1)]
      by (simp add: db_inv_def books_balance_def granted_to_def sel)
    with low up have "db_inv (cn_db s')" by (simp add: db_inv_def)
    moreover have "charge_spec (db_credit (cn_db s)) a n key r (db_credit (cn_db s'))"
    proof -
      have "cd_charged (db_credit (cn_db s')) =
          (if key \<noteq> [] then insert (a, key) (cd_charged (db_credit (cn_db s))) else cd_charged (db_credit (cn_db s)))"
        using rows(1) by (auto simp: db_credit_def charge_of_def)
      moreover have "cd_balance (db_credit (cn_db s')) = (balance_of (cn_db s))(a := balance_of (cn_db s) a - n)"
        "cd_balance (db_credit (cn_db s)) = balance_of (cn_db s)"
        using bal by (simp_all add: db_credit_def)
      moreover have "cd_grants (db_credit (cn_db s')) = cd_grants (db_credit (cn_db s))"
        using rows(2) by (simp add: db_credit_def grant_by_ref_def)
      ultimately show ?thesis
        using Inr pos ok bal False by (auto simp: charge_spec_def key_used_def intro!: credit.equality)
    qed
    ultimately show ?thesis by simp
  qed
qed

interpretation sq_ledger: ledger SQLiteLedger "\<lambda>s. db_credit (cn_db s)" "\<lambda>s. db_inv (cn_db s)"
proof
  fix s a n rail ref rc at r s'
  assume "db_inv (cn_db s)" "cd_balance (db_credit (cn_db s)) a + n \<le> int64_max"
    "lg_Grant SQLiteLedger a rail n ref rc at s = (r, s')"
  then show "db_inv (cn_db s') \<and> grant_spec (db_credit (cn_db s)) a n ref r (db_credit (cn_db s'))"
    using sq_grant_law by (simp add: SQLiteLedger_def)
next
  fix s a tool n rr key at r s'
  assume "db_inv (cn_db s)" "account_ok a" "lg_Charge SQLiteLedger a tool n rr key at s = (r, s')"
  then show "db_inv (cn_db s') \<and> charge_spec (db_credit (cn_db s)) a n key r (db_credit (cn_db s'))"
    using sq_charge_law by (simp add: SQLiteLedger_def)
next
  fix s a r s'
  assume inv: "db_inv (cn_db s)" and "lg_Balance SQLiteLedger a s = (r, s')"
  then have b: "andThen (select_balance a) (\<lambda>b. ret (opt_default 0 b)) s = (r, s')"
    by (simp add: SQLiteLedger_def SQLite_Balance_def)
  have "cn_db s' = cn_db s \<and> (case r of Inl e \<Rightarrow> True | Inr b \<Rightarrow> b = cd_balance (db_credit (cn_db s)) a)"
  proof (cases r)
    case (Inl e)
    then have "select_balance a s = (Inl e, s')" using b by (auto simp: andThen_Inl)
    then show ?thesis using Inl select_balance_keeps by auto
  next
    case (Inr x)
    with b select_default_Inr show ?thesis by (auto simp: db_credit_def)
  qed
  with inv show "db_inv (cn_db s') \<and> db_credit (cn_db s') = db_credit (cn_db s) \<and>
      (case r of Inl e \<Rightarrow> True | Inr b \<Rightarrow> b = cd_balance (db_credit (cn_db s)) a)" by simp
next
  fix s a
  assume "db_inv (cn_db s)"
  then show "0 \<le> cd_balance (db_credit (cn_db s)) a" by (simp add: db_inv_def db_credit_def)
qed

section \<open>Properties\<close>

definition sqlite_ledger :: "bool list \<Rightarrow> ledger_db conn" where
  "sqlite_ledger faults = \<lparr>cn_db = empty_ledger_db, cn_faults = faults\<rparr>"

lemma empty_db_inv [simp]: "db_inv empty_ledger_db"
  by (simp add: db_inv_def books_balance_def empty_ledger_db_def balance_of_def granted_to_def charged_to_def
      int64_defs)

lemma balance_of_empty [simp]: "balance_of empty_ledger_db a = 0"
  by (simp add: balance_of_def empty_ledger_db_def)

lemma empty_db_balance [simp]: "cd_balance (db_credit empty_ledger_db) a = 0"
  by (simp add: db_credit_def balance_of_def empty_ledger_db_def)

text \<open>
  C7: the SQLite ledger conserves credits.  Whatever grants and charges run, in whatever order and
  whichever driver calls fail on the way, every account balance is the sum of its committed grants
  less the sum of its committed charges and is never negative; as long as the amounts granted in
  total fit 64 bits.
\<close>

theorem ledger_conserves_credit:
  assumes "list_all op_ok xs" and "run_credit xs \<le> int64_max"
  shows "let db = cn_db (ledger_run SQLiteLedger xs (sqlite_ledger faults)) in
    \<forall>a. balance_of db a = granted_to db a - charged_to db a \<and> 0 \<le> balance_of db a \<and> balance_of db a \<le> run_credit xs"
proof -
  let ?s = "sqlite_ledger faults" let ?db = "cn_db (ledger_run SQLiteLedger xs ?s)"
  have z: "cd_balance (db_credit (cn_db ?s)) a = 0" for a by (simp add: sqlite_ledger_def)
  have "db_inv (cn_db ?s)" by (simp add: sqlite_ledger_def)
  from sq_ledger.run_law [OF this assms(1)] assms(2) z have inv: "db_inv ?db"
    and up: "\<And>a. cd_balance (db_credit ?db) a \<le> run_credit xs" by simp_all
  have "balance_of ?db a \<le> run_credit xs" for a using up [of a] by (simp add: db_credit_def)
  with inv show ?thesis unfolding Let_def db_inv_def books_balance_def by blast
qed

definition sample_ops :: "ledger_op list" where
  "sample_ops = [OpGrant ''aa'' ''lightning'' 500 ''ln:01'' [] 0, OpCharge ''aa'' ''t'' 200 [] ''k1'' 0,
     OpCharge ''aa'' ''t'' 200 [] ''k1'' 0, OpGrant ''aa'' ''lightning'' 500 ''ln:01'' [] 0]"

theorem ledger_conserves_credit_witness:
  "\<forall>a. balance_of (cn_db (ledger_run SQLiteLedger sample_ops (sqlite_ledger [False, True]))) a =
     granted_to (cn_db (ledger_run SQLiteLedger sample_ops (sqlite_ledger [False, True]))) a -
     charged_to (cn_db (ledger_run SQLiteLedger sample_ops (sqlite_ledger [False, True]))) a"
proof -
  have "list_all op_ok sample_ops" "run_credit sample_ops \<le> int64_max"
    by (simp_all add: sample_ops_def run_credit_def account_ok_def int64_defs)
  from ledger_conserves_credit [OF this, of "[False, True]"] show ?thesis unfolding Let_def by blast
qed

text \<open>
  C9: a settlement reference is credited once.  After the SQLite ledger accepted a grant, any
  further operations may run; a grant that repeats its reference (even for another account or
  amount, and whichever driver calls fail) then changes no balance and, if it succeeds, is
  answered as a repetition.
\<close>

theorem grant_credited_once:
  assumes "list_all op_ok xs" and "0 < n'"
    and "db_inv (cn_db s)" and "\<And>x. balance_of (cn_db s) x + n + run_credit xs + n' \<le> int64_max"
    and "SQLite_Grant a rail n ref rc at s = (Inr (b, al), s1)"
    and "SQLite_Grant a' rail' n' ref rc' at' (ledger_run SQLiteLedger xs s1) = (r, s2)"
  shows "balance_of (cn_db s2) = balance_of (cn_db (ledger_run SQLiteLedger xs s1)) \<and>
    (case r of Inl e \<Rightarrow> True | Inr (b, already) \<Rightarrow> already)"
proof -
  have cs: "lg_Grant SQLiteLedger = SQLite_Grant" by (simp add: SQLiteLedger_def)
  have cb: "cd_balance (db_credit db) = balance_of db" for db by (simp add: db_credit_def)
  have le: "balance_of (cn_db s) a + n \<le> int64_max"
    using assms(2) assms(4) [of a] run_credit_nonneg [of xs] by linarith
  then have sp: "grant_spec (db_credit (cn_db s)) a n ref (Inr (b, al)) (db_credit (cn_db s1))"
    using sq_grant_law [OF assms(3) _ assms(5)] cb by simp
  then have "0 < n" by (simp add: grant_spec_def)
  then have "balance_of (cn_db s1) x + run_credit xs + max 0 n' \<le> int64_max" for x
    using grant_spec_balance [OF sp, of x] assms(2) assms(4) [of x] unfolding cb by linarith
  then have "db_credit (cn_db s2) = db_credit (cn_db (ledger_run SQLiteLedger xs s1)) \<and>
      (case r of Inl e \<Rightarrow> True | Inr (b, already) \<Rightarrow> already)"
    using sq_ledger.grant_once_after [of s a n rail ref rc at b al s1 xs n' a' rail' rc' at' r s2] assms le
    unfolding cs cb by blast
  then show ?thesis by (metis cb)
qed

lemma sqlite_grant_fresh:
  assumes "cn_faults s = []" and "db_accounts (cn_db s) a = None" and "grant_by_ref ref (cn_db s) = None"
    and "0 < n" and "n \<le> int64_max" and "ref \<noteq> []"
  shows "\<exists>s1. SQLite_Grant a rail n ref rc at s = (Inr (n, False), s1) \<and> cn_faults s1 = []"
  using assms
  by (simp add: SQLite_Grant_def transaction_def andThen_def grant_body_def grant_owner_def stmt_ok insert_grant_def
      upsert_account_def select_balance_def query_ok must_row_def ret_def in_int64_def int64_min_def)

theorem grant_credited_once_witness:
  "\<exists>s1 s2 r. SQLite_Grant ''aa'' ''lightning'' 500 ''ln:01'' [] 0 (sqlite_ledger []) = (Inr (500, False), s1) \<and>
     SQLite_Grant ''bb'' ''lightning'' 900 ''ln:01'' [] 0 (ledger_run SQLiteLedger sample_ops s1) = (r, s2) \<and>
     balance_of (cn_db s2) = balance_of (cn_db (ledger_run SQLiteLedger sample_ops s1))"
proof -
  obtain s1 where s1: "SQLite_Grant ''aa'' ''lightning'' 500 ''ln:01'' [] 0 (sqlite_ledger []) = (Inr (500, False), s1)"
    using sqlite_grant_fresh [of "sqlite_ledger []" "''aa''" "''ln:01''" 500 "''lightning''" "[]" 0]
    by (auto simp: sqlite_ledger_def empty_ledger_db_def grant_by_ref_def int64_defs)
  obtain r s2 where s2: "SQLite_Grant ''bb'' ''lightning'' 900 ''ln:01'' [] 0 (ledger_run SQLiteLedger sample_ops s1) = (r, s2)"
    by (cases "SQLite_Grant ''bb'' ''lightning'' 900 ''ln:01'' [] 0 (ledger_run SQLiteLedger sample_ops s1)")
  have "list_all op_ok sample_ops" "(0::int) < 900" "db_inv (cn_db (sqlite_ledger []))"
    "\<And>x. balance_of (cn_db (sqlite_ledger [])) x + 500 + run_credit sample_ops + 900 \<le> int64_max"
    by (simp_all add: sample_ops_def run_credit_def account_ok_def int64_defs sqlite_ledger_def balance_of_empty)
  from grant_credited_once [OF this s1 s2] s1 s2 show ?thesis by blast
qed

end
