(* ===== verification/GateStore.thy ===== *)
theory GateStore
  imports GoSql GoTime
begin

text \<open>
  The package \<open>lib/store\<close>: challenge records, consume-once settlements and root keys, with the
  in-memory and the SQLite implementation of the interface \<open>Store\<close>.  The interface is a record
  of operations over a state; its contract is the locale \<open>gate_store\<close> over an abstract state of
  four maps.  The two implementations differ where a key is written twice: memory overwrites,
  SQLite keeps the first row (\<open>ON CONFLICT DO NOTHING\<close>), so the contract speaks of fresh keys;
  and SQLite keeps times to the second.  Copying a stored 32-byte blob into a \<open>[32]byte\<close> is the
  identity.
\<close>

datatype store_error = ErrNotFound | StoreSql

record StoreChallenge =
  sc_PaymentHash :: bytes
  sc_Invoice :: string
  sc_MacaroonB64 :: string
  sc_RootKeyID :: bytes
  sc_Requirements :: bytes
  sc_Resource :: string
  sc_AmountAtoms :: int
  sc_CreatedAt :: time
  sc_ExpiresAt :: time

record OnchainChallenge =
  oc_Address :: string
  oc_Requirements :: bytes
  oc_Resource :: string
  oc_AmountAtoms :: int
  oc_Confirmations :: int
  oc_MacaroonB64 :: string
  oc_RootKeyID :: bytes
  oc_CredentialPreimage :: string
  oc_CreatedAt :: time
  oc_ExpiresAt :: time

section \<open>The interface\<close>

record 's Store_ops =
  st_PutChallenge :: "StoreChallenge \<Rightarrow> 's \<Rightarrow> (store_error, unit) result \<times> 's"
  st_GetChallenge :: "bytes \<Rightarrow> 's \<Rightarrow> (store_error, StoreChallenge) result \<times> 's"
  st_PutOnchainChallenge :: "OnchainChallenge \<Rightarrow> 's \<Rightarrow> (store_error, unit) result \<times> 's"
  st_GetOnchainChallenge :: "string \<Rightarrow> 's \<Rightarrow> (store_error, OnchainChallenge) result \<times> 's"
  st_Settle :: "bytes \<Rightarrow> bytes \<Rightarrow> time \<Rightarrow> 's \<Rightarrow> (store_error, bytes \<times> bool) result \<times> 's"
  st_Settled :: "bytes \<Rightarrow> 's \<Rightarrow> (store_error, bool) result \<times> 's"
  st_PutRootKey :: "bytes \<Rightarrow> bytes \<Rightarrow> 's \<Rightarrow> (store_error, unit) result \<times> 's"
  st_GetRootKey :: "bytes \<Rightarrow> 's \<Rightarrow> (store_error, bytes) result \<times> 's"
  st_DeleteRootKey :: "bytes \<Rightarrow> 's \<Rightarrow> (store_error, unit) result \<times> 's"

section \<open>Memory\<close>

record store_mem =
  sm_challenges :: "bytes \<rightharpoonup> StoreChallenge"
  sm_onchain :: "string \<rightharpoonup> OnchainChallenge"
  sm_settlements :: "bytes \<rightharpoonup> bytes"
  sm_rootKeys :: "bytes \<rightharpoonup> bytes"

definition NewMemoryStore :: store_mem where
  "NewMemoryStore = \<lparr>sm_challenges = Map.empty, sm_onchain = Map.empty, sm_settlements = Map.empty,
     sm_rootKeys = Map.empty\<rparr>"

definition found :: "'a option \<Rightarrow> (store_error, 'a) result" where
  "found x = (case x of None \<Rightarrow> Inl ErrNotFound | Some v \<Rightarrow> Inr v)"

definition Mem_PutChallenge :: "StoreChallenge \<Rightarrow> store_mem \<Rightarrow> (store_error, unit) result \<times> store_mem" where
  "Mem_PutChallenge c m = (Inr (), m\<lparr>sm_challenges := (sm_challenges m)(sc_PaymentHash c \<mapsto> c)\<rparr>)"

definition Mem_GetChallenge :: "bytes \<Rightarrow> store_mem \<Rightarrow> (store_error, StoreChallenge) result \<times> store_mem" where
  "Mem_GetChallenge hash m = (found (sm_challenges m hash), m)"

definition Mem_PutOnchainChallenge :: "OnchainChallenge \<Rightarrow> store_mem \<Rightarrow> (store_error, unit) result \<times> store_mem" where
  "Mem_PutOnchainChallenge c m = (Inr (), m\<lparr>sm_onchain := (sm_onchain m)(oc_Address c \<mapsto> c)\<rparr>)"

definition Mem_GetOnchainChallenge :: "string \<Rightarrow> store_mem \<Rightarrow> (store_error, OnchainChallenge) result \<times> store_mem" where
  "Mem_GetOnchainChallenge address m = (found (sm_onchain m address), m)"

definition Mem_Settle :: "bytes \<Rightarrow> bytes \<Rightarrow> time \<Rightarrow> store_mem \<Rightarrow> (store_error, bytes \<times> bool) result \<times> store_mem" where
  "Mem_Settle hash response at m =
     (case sm_settlements m hash of
        Some prev \<Rightarrow> (Inr (prev, True), m)
      | None \<Rightarrow> (Inr (response, False), m\<lparr>sm_settlements := (sm_settlements m)(hash \<mapsto> response)\<rparr>))"

definition Mem_Settled :: "bytes \<Rightarrow> store_mem \<Rightarrow> (store_error, bool) result \<times> store_mem" where
  "Mem_Settled hash m = (Inr (sm_settlements m hash \<noteq> None), m)"

definition Mem_PutRootKey :: "bytes \<Rightarrow> bytes \<Rightarrow> store_mem \<Rightarrow> (store_error, unit) result \<times> store_mem" where
  "Mem_PutRootKey keyID rootKey m = (Inr (), m\<lparr>sm_rootKeys := (sm_rootKeys m)(keyID \<mapsto> rootKey)\<rparr>)"

definition Mem_GetRootKey :: "bytes \<Rightarrow> store_mem \<Rightarrow> (store_error, bytes) result \<times> store_mem" where
  "Mem_GetRootKey keyID m = (found (sm_rootKeys m keyID), m)"

definition Mem_DeleteRootKey :: "bytes \<Rightarrow> store_mem \<Rightarrow> (store_error, unit) result \<times> store_mem" where
  "Mem_DeleteRootKey keyID m = (Inr (), m\<lparr>sm_rootKeys := (sm_rootKeys m)(keyID := None)\<rparr>)"

definition MemoryStore :: "store_mem Store_ops" where
  "MemoryStore = \<lparr>st_PutChallenge = Mem_PutChallenge, st_GetChallenge = Mem_GetChallenge,
     st_PutOnchainChallenge = Mem_PutOnchainChallenge, st_GetOnchainChallenge = Mem_GetOnchainChallenge,
     st_Settle = Mem_Settle, st_Settled = Mem_Settled, st_PutRootKey = Mem_PutRootKey,
     st_GetRootKey = Mem_GetRootKey, st_DeleteRootKey = Mem_DeleteRootKey\<rparr>"

section \<open>SQLite\<close>

text \<open>The four tables; a row keeps its times as Unix seconds.\<close>

record challenge_cols =
  cc_invoice :: string
  cc_macaroon_b64 :: string
  cc_root_key_id :: bytes
  cc_requirements :: bytes
  cc_resource :: string
  cc_amount_atoms :: int
  cc_created_at :: int
  cc_expires_at :: int

record onchain_cols =
  xc_requirements :: bytes
  xc_resource :: string
  xc_amount_atoms :: int
  xc_confirmations :: int
  xc_macaroon_b64 :: string
  xc_root_key_id :: bytes
  xc_credential_preimage :: string
  xc_created_at :: int
  xc_expires_at :: int

record store_db =
  tb_challenges :: "bytes \<rightharpoonup> challenge_cols"
  tb_onchain :: "string \<rightharpoonup> onchain_cols"
  tb_settlements :: "bytes \<rightharpoonup> int \<times> bytes"
  tb_root_keys :: "bytes \<rightharpoonup> bytes \<times> int"

definition OpenSQLiteStore :: store_db where
  "OpenSQLiteStore = \<lparr>tb_challenges = Map.empty, tb_onchain = Map.empty, tb_settlements = Map.empty,
     tb_root_keys = Map.empty\<rparr>"

text \<open>\<open>INSERT ... ON CONFLICT DO NOTHING\<close>: the first row of a key stays; the result is \<open>RowsAffected\<close>.\<close>

definition insert_new :: "'k \<Rightarrow> 'v \<Rightarrow> ('k \<rightharpoonup> 'v) \<Rightarrow> int \<times> ('k \<rightharpoonup> 'v)" where
  "insert_new k v t = (if t k = None then (1, t(k \<mapsto> v)) else (0, t))"

definition Sq_PutChallenge :: "StoreChallenge \<Rightarrow> (store_db, store_error, unit) sql" where
  "Sq_PutChallenge c =
     stmt StoreSql (\<lambda>db. ((), db\<lparr>tb_challenges := snd (insert_new (sc_PaymentHash c)
        \<lparr>cc_invoice = sc_Invoice c, cc_macaroon_b64 = sc_MacaroonB64 c, cc_root_key_id = sc_RootKeyID c,
         cc_requirements = sc_Requirements c, cc_resource = sc_Resource c, cc_amount_atoms = sc_AmountAtoms c,
         cc_created_at = Unix (sc_CreatedAt c), cc_expires_at = Unix (sc_ExpiresAt c)\<rparr> (tb_challenges db))\<rparr>))"

definition challenge_of :: "bytes \<Rightarrow> challenge_cols \<Rightarrow> StoreChallenge" where
  "challenge_of hash r =
     \<lparr>sc_PaymentHash = hash, sc_Invoice = cc_invoice r, sc_MacaroonB64 = cc_macaroon_b64 r,
      sc_RootKeyID = cc_root_key_id r, sc_Requirements = cc_requirements r, sc_Resource = cc_resource r,
      sc_AmountAtoms = cc_amount_atoms r, sc_CreatedAt = from_unix (cc_created_at r),
      sc_ExpiresAt = from_unix (cc_expires_at r)\<rparr>"

definition row_or_missing :: "'a option \<Rightarrow> ('db, store_error, 'a) sql" where
  "row_or_missing x = (case x of None \<Rightarrow> throw ErrNotFound | Some v \<Rightarrow> ret v)"

definition Sq_GetChallenge :: "bytes \<Rightarrow> (store_db, store_error, StoreChallenge) sql" where
  "Sq_GetChallenge hash =
     andThen (query StoreSql (\<lambda>db. map_option (challenge_of hash) (tb_challenges db hash))) row_or_missing"

definition Sq_PutOnchainChallenge :: "OnchainChallenge \<Rightarrow> (store_db, store_error, unit) sql" where
  "Sq_PutOnchainChallenge c =
     stmt StoreSql (\<lambda>db. ((), db\<lparr>tb_onchain := snd (insert_new (oc_Address c)
        \<lparr>xc_requirements = oc_Requirements c, xc_resource = oc_Resource c, xc_amount_atoms = oc_AmountAtoms c,
         xc_confirmations = oc_Confirmations c, xc_macaroon_b64 = oc_MacaroonB64 c, xc_root_key_id = oc_RootKeyID c,
         xc_credential_preimage = oc_CredentialPreimage c, xc_created_at = Unix (oc_CreatedAt c),
         xc_expires_at = Unix (oc_ExpiresAt c)\<rparr> (tb_onchain db))\<rparr>))"

definition onchain_of :: "string \<Rightarrow> onchain_cols \<Rightarrow> OnchainChallenge" where
  "onchain_of address r =
     \<lparr>oc_Address = address, oc_Requirements = xc_requirements r, oc_Resource = xc_resource r,
      oc_AmountAtoms = xc_amount_atoms r, oc_Confirmations = xc_confirmations r, oc_MacaroonB64 = xc_macaroon_b64 r,
      oc_RootKeyID = xc_root_key_id r, oc_CredentialPreimage = xc_credential_preimage r,
      oc_CreatedAt = from_unix (xc_created_at r), oc_ExpiresAt = from_unix (xc_expires_at r)\<rparr>"

definition Sq_GetOnchainChallenge :: "string \<Rightarrow> (store_db, store_error, OnchainChallenge) sql" where
  "Sq_GetOnchainChallenge address =
     andThen (query StoreSql (\<lambda>db. map_option (onchain_of address) (tb_onchain db address))) row_or_missing"

definition insert_settlement :: "bytes \<Rightarrow> int \<Rightarrow> bytes \<Rightarrow> store_db \<Rightarrow> int \<times> store_db" where
  "insert_settlement hash at response db =
     (case insert_new hash (at, response) (tb_settlements db) of (n, t) \<Rightarrow> (n, db\<lparr>tb_settlements := t\<rparr>))"

definition settle_body :: "bytes \<Rightarrow> bytes \<Rightarrow> time \<Rightarrow> (store_db, store_error, bytes \<times> bool) sql" where
  "settle_body hash response at =
     andThen (stmt StoreSql (insert_settlement hash (Unix at) response)) (\<lambda>inserted.
     andThen (driver StoreSql) (\<lambda>_.
     andThen (query StoreSql (\<lambda>db. map_option snd (tb_settlements db hash))) (\<lambda>row.
     case row of None \<Rightarrow> throw StoreSql | Some stored \<Rightarrow> ret (stored, inserted = 0))))"

definition Sq_Settle :: "bytes \<Rightarrow> bytes \<Rightarrow> time \<Rightarrow> (store_db, store_error, bytes \<times> bool) sql" where
  "Sq_Settle hash response at = transaction StoreSql (settle_body hash response at)"

definition Sq_Settled :: "bytes \<Rightarrow> (store_db, store_error, bool) sql" where
  "Sq_Settled hash = query StoreSql (\<lambda>db. tb_settlements db hash \<noteq> None)"

text \<open>\<open>clock\<close> is the \<open>time.Now\<close> of the \<open>created_at\<close> column.\<close>

definition Sq_PutRootKey :: "time \<Rightarrow> bytes \<Rightarrow> bytes \<Rightarrow> (store_db, store_error, unit) sql" where
  "Sq_PutRootKey clock keyID rootKey =
     stmt StoreSql (\<lambda>db. ((), db\<lparr>tb_root_keys := snd (insert_new keyID (rootKey, Unix clock) (tb_root_keys db))\<rparr>))"

definition Sq_GetRootKey :: "bytes \<Rightarrow> (store_db, store_error, bytes) sql" where
  "Sq_GetRootKey keyID =
     andThen (query StoreSql (\<lambda>db. map_option fst (tb_root_keys db keyID))) row_or_missing"

definition Sq_DeleteRootKey :: "bytes \<Rightarrow> (store_db, store_error, unit) sql" where
  "Sq_DeleteRootKey keyID = stmt StoreSql (\<lambda>db. ((), db\<lparr>tb_root_keys := (tb_root_keys db)(keyID := None)\<rparr>))"

definition SQLiteStore :: "time \<Rightarrow> store_db conn Store_ops" where
  "SQLiteStore clock = \<lparr>st_PutChallenge = Sq_PutChallenge, st_GetChallenge = Sq_GetChallenge,
     st_PutOnchainChallenge = Sq_PutOnchainChallenge, st_GetOnchainChallenge = Sq_GetOnchainChallenge,
     st_Settle = Sq_Settle, st_Settled = Sq_Settled, st_PutRootKey = Sq_PutRootKey clock,
     st_GetRootKey = Sq_GetRootKey, st_DeleteRootKey = Sq_DeleteRootKey\<rparr>"

section \<open>The contract\<close>

record store_view =
  sv_challenges :: "bytes \<rightharpoonup> StoreChallenge"
  sv_onchain :: "string \<rightharpoonup> OnchainChallenge"
  sv_settlements :: "bytes \<rightharpoonup> bytes"
  sv_rootKeys :: "bytes \<rightharpoonup> bytes"

definition trunc_challenge :: "StoreChallenge \<Rightarrow> StoreChallenge" where
  "trunc_challenge c = c\<lparr>sc_CreatedAt := from_unix (Unix (sc_CreatedAt c)), sc_ExpiresAt := from_unix (Unix (sc_ExpiresAt c))\<rparr>"

definition trunc_onchain :: "OnchainChallenge \<Rightarrow> OnchainChallenge" where
  "trunc_onchain c = c\<lparr>oc_CreatedAt := from_unix (Unix (oc_CreatedAt c)), oc_ExpiresAt := from_unix (Unix (oc_ExpiresAt c))\<rparr>"

datatype store_op =
    OpPutChallenge StoreChallenge
  | OpPutOnchain OnchainChallenge
  | OpSettle bytes bytes time
  | OpPutRootKey bytes bytes
  | OpDeleteRootKey bytes

fun store_step :: "'s Store_ops \<Rightarrow> store_op \<Rightarrow> 's \<Rightarrow> 's" where
  "store_step ops (OpPutChallenge c) s = snd (st_PutChallenge ops c s)"
| "store_step ops (OpPutOnchain c) s = snd (st_PutOnchainChallenge ops c s)"
| "store_step ops (OpSettle h resp at) s = snd (st_Settle ops h resp at s)"
| "store_step ops (OpPutRootKey k key) s = snd (st_PutRootKey ops k key s)"
| "store_step ops (OpDeleteRootKey k) s = snd (st_DeleteRootKey ops k s)"

definition store_run :: "'s Store_ops \<Rightarrow> store_op list \<Rightarrow> 's \<Rightarrow> 's" where
  "store_run ops xs s = fold (store_step ops) xs s"

lemma store_run_simps [simp]:
  "store_run ops [] s = s" "store_run ops (x # xs) s = store_run ops xs (store_step ops x s)"
  by (simp_all add: store_run_def)

locale gate_store =
  fixes ops :: "'s Store_ops" and view :: "'s \<Rightarrow> store_view"
  assumes put_challenge: "st_PutChallenge ops c s = (r, s') \<Longrightarrow>
      (case r of Inl e \<Rightarrow> view s' = view s
       | Inr _ \<Rightarrow> \<exists>c'. view s' = (view s)\<lparr>sv_challenges := (sv_challenges (view s))(sc_PaymentHash c \<mapsto> c')\<rparr> \<and>
           (sv_challenges (view s) (sc_PaymentHash c) = None \<longrightarrow> c' = c \<or> c' = trunc_challenge c) \<and>
           (sv_challenges (view s) (sc_PaymentHash c) \<noteq> None \<longrightarrow> c' = c \<or> Some c' = sv_challenges (view s) (sc_PaymentHash c)))"
    and get_challenge: "st_GetChallenge ops h s = (rc, s') \<Longrightarrow>
      view s' = view s \<and> (case rc of Inl e \<Rightarrow> e = ErrNotFound \<longrightarrow> sv_challenges (view s) h = None
        | Inr c \<Rightarrow> sv_challenges (view s) h = Some c)"
    and put_onchain: "st_PutOnchainChallenge ops oc s = (r, s') \<Longrightarrow>
      (case r of Inl e \<Rightarrow> view s' = view s
       | Inr _ \<Rightarrow> \<exists>c'. view s' = (view s)\<lparr>sv_onchain := (sv_onchain (view s))(oc_Address oc \<mapsto> c')\<rparr> \<and>
           (sv_onchain (view s) (oc_Address oc) = None \<longrightarrow> c' = oc \<or> c' = trunc_onchain oc) \<and>
           (sv_onchain (view s) (oc_Address oc) \<noteq> None \<longrightarrow> c' = oc \<or> Some c' = sv_onchain (view s) (oc_Address oc)))"
    and get_onchain: "st_GetOnchainChallenge ops ad s = (ro, s') \<Longrightarrow>
      view s' = view s \<and> (case ro of Inl e \<Rightarrow> e = ErrNotFound \<longrightarrow> sv_onchain (view s) ad = None
        | Inr c \<Rightarrow> sv_onchain (view s) ad = Some c)"
    and settle: "st_Settle ops h resp at s = (rs, s') \<Longrightarrow>
      (case rs of Inl e \<Rightarrow> view s' = view s
       | Inr (stored, already) \<Rightarrow>
           (case sv_settlements (view s) h of
              Some prev \<Rightarrow> already \<and> stored = prev \<and> view s' = view s
            | None \<Rightarrow> \<not> already \<and> stored = resp \<and>
                view s' = (view s)\<lparr>sv_settlements := (sv_settlements (view s))(h \<mapsto> resp)\<rparr>))"
    and settled: "st_Settled ops h s = (rb, s') \<Longrightarrow>
      view s' = view s \<and> (case rb of Inl e \<Rightarrow> True | Inr b \<Rightarrow> b \<longleftrightarrow> sv_settlements (view s) h \<noteq> None)"
    and put_root: "st_PutRootKey ops k key s = (r, s') \<Longrightarrow>
      (case r of Inl e \<Rightarrow> view s' = view s
       | Inr _ \<Rightarrow> \<exists>key'. view s' = (view s)\<lparr>sv_rootKeys := (sv_rootKeys (view s))(k \<mapsto> key')\<rparr> \<and>
           (sv_rootKeys (view s) k = None \<longrightarrow> key' = key) \<and>
           (sv_rootKeys (view s) k \<noteq> None \<longrightarrow> key' = key \<or> Some key' = sv_rootKeys (view s) k))"
    and get_root: "st_GetRootKey ops k s = (rk, s') \<Longrightarrow>
      view s' = view s \<and> (case rk of Inl e \<Rightarrow> e = ErrNotFound \<longrightarrow> sv_rootKeys (view s) k = None
        | Inr key \<Rightarrow> sv_rootKeys (view s) k = Some key)"
    and delete_root: "st_DeleteRootKey ops k s = (r, s') \<Longrightarrow>
      view s' = (case r of Inl e \<Rightarrow> view s | Inr _ \<Rightarrow> (view s)\<lparr>sv_rootKeys := (sv_rootKeys (view s))(k := None)\<rparr>)"

begin

text \<open>No operation forgets or changes a settlement.\<close>

lemma step_keeps_settlements: "sv_settlements (view s) \<subseteq>\<^sub>m sv_settlements (view (store_step ops x s))"
proof (cases x)
  case (OpPutChallenge c)
  obtain r s' where "st_PutChallenge ops c s = (r, s')" by (cases "st_PutChallenge ops c s")
  with put_challenge [OF this] OpPutChallenge show ?thesis by (auto split: sum.splits)
next
  case (OpPutOnchain c)
  obtain r s' where "st_PutOnchainChallenge ops c s = (r, s')" by (cases "st_PutOnchainChallenge ops c s")
  with put_onchain [OF this] OpPutOnchain show ?thesis by (auto split: sum.splits)
next
  case (OpSettle h resp at)
  obtain r s' where "st_Settle ops h resp at s = (r, s')" by (cases "st_Settle ops h resp at s")
  with settle [OF this] OpSettle show ?thesis
    by (auto simp: map_le_def split: sum.splits option.splits)
next
  case (OpPutRootKey k key)
  obtain r s' where "st_PutRootKey ops k key s = (r, s')" by (cases "st_PutRootKey ops k key s")
  with put_root [OF this] OpPutRootKey show ?thesis by (auto split: sum.splits)
next
  case (OpDeleteRootKey k)
  obtain r s' where "st_DeleteRootKey ops k s = (r, s')" by (cases "st_DeleteRootKey ops k s")
  with delete_root [OF this] OpDeleteRootKey show ?thesis by (auto split: sum.splits)
qed

lemma run_keeps_settlements: "sv_settlements (view s) \<subseteq>\<^sub>m sv_settlements (view (store_run ops xs s))"
proof (induction xs arbitrary: s)
  case (Cons x xs)
  then show ?case using map_le_trans step_keeps_settlements by fastforce
qed simp

lemma settle_records:
  "st_Settle ops h resp at s = (Inr (stored, already), s') \<Longrightarrow> sv_settlements (view s') h = Some stored"
  using settle [of h resp at s "Inr (stored, already)" s'] by (auto split: option.splits)

text \<open>Consume once: after a settlement, any later one of the same key returns the same bytes as a repetition.\<close>

lemma settle_once:
  assumes "st_Settle ops h resp at s = (Inr (stored, already), s1)"
    and "st_Settle ops h resp' at' (store_run ops xs s1) = (Inr (stored', already'), s2)"
  shows "already' \<and> stored' = stored \<and> view s2 = view (store_run ops xs s1)"
proof -
  have "sv_settlements (view (store_run ops xs s1)) h = Some stored"
    using settle_records [OF assms(1)] run_keeps_settlements [of s1 xs] by (auto simp: map_le_def dom_def)
  with settle [OF assms(2)] show ?thesis by simp
qed

end

section \<open>Memory meets the contract\<close>

definition mem_view :: "store_mem \<Rightarrow> store_view" where
  "mem_view m = \<lparr>sv_challenges = sm_challenges m, sv_onchain = sm_onchain m, sv_settlements = sm_settlements m,
     sv_rootKeys = sm_rootKeys m\<rparr>"

lemmas mem_store_defs = MemoryStore_def Mem_PutChallenge_def Mem_GetChallenge_def Mem_PutOnchainChallenge_def
  Mem_GetOnchainChallenge_def Mem_Settle_def Mem_Settled_def Mem_PutRootKey_def Mem_GetRootKey_def
  Mem_DeleteRootKey_def found_def mem_view_def

interpretation mem_store: gate_store MemoryStore mem_view
  by unfold_locales (auto simp: mem_store_defs split: option.splits)

section \<open>SQLite meets the contract\<close>

definition rows_view :: "('k \<Rightarrow> 'r \<Rightarrow> 'v) \<Rightarrow> ('k \<rightharpoonup> 'r) \<Rightarrow> 'k \<rightharpoonup> 'v" where
  "rows_view f t k = map_option (f k) (t k)"

definition db_view :: "store_db conn \<Rightarrow> store_view" where
  "db_view c = \<lparr>sv_challenges = rows_view challenge_of (tb_challenges (cn_db c)),
     sv_onchain = rows_view onchain_of (tb_onchain (cn_db c)),
     sv_settlements = rows_view (\<lambda>_. snd) (tb_settlements (cn_db c)),
     sv_rootKeys = rows_view (\<lambda>_. fst) (tb_root_keys (cn_db c))\<rparr>"

lemma db_view_cong: "cn_db c = cn_db c' \<Longrightarrow> db_view c = db_view c'"
  by (simp add: db_view_def)

lemma rows_view_upd: "rows_view f (t(k \<mapsto> v)) = (rows_view f t)(k \<mapsto> f k v)"
  by (rule ext) (simp add: rows_view_def)

lemma rows_view_del: "rows_view f (t(k := None)) = (rows_view f t)(k := None)"
  by (rule ext) (simp add: rows_view_def)

lemma rows_view_None [simp]: "rows_view f t k = None \<longleftrightarrow> t k = None"
  by (simp add: rows_view_def)

lemma insert_new_view:
  "\<exists>v'. rows_view f (snd (insert_new k v t)) = (rows_view f t)(k \<mapsto> v') \<and>
     (rows_view f t k = None \<longrightarrow> v' = f k v) \<and> (rows_view f t k \<noteq> None \<longrightarrow> Some v' = rows_view f t k)"
proof (cases "t k")
  case None
  then show ?thesis by (auto simp: insert_new_def rows_view_upd)
next
  case (Some w)
  then have "rows_view f t k = Some (f k w)" by (simp add: rows_view_def)
  moreover from this have "(rows_view f t)(k \<mapsto> f k w) = rows_view f t" by (intro ext) simp
  ultimately show ?thesis using Some by (auto simp: insert_new_def)
qed

lemma query_row:
  assumes "andThen (query StoreSql f) row_or_missing c = (r, c')"
  shows "db_view c' = db_view c \<and> (case r of Inl e \<Rightarrow> e = ErrNotFound \<longrightarrow> f (cn_db c) = None | Inr v \<Rightarrow> f (cn_db c) = Some v)"
proof -
  obtain q c1 where q: "query StoreSql f c = (q, c1)" by (cases "query StoreSql f c")
  show ?thesis
  proof (cases q)
    case (Inl e)
    with q have e: "e = StoreSql" "cn_db c1 = cn_db c" using query_Inl [of StoreSql f c e c1] by simp_all
    from q Inl assms have "r = Inl e" "c' = c1" by (simp_all add: andThen_def)
    with e db_view_cong [of c1 c] show ?thesis by simp
  next
    case (Inr x)
    with q have x: "x = f (cn_db c)" "cn_db c1 = cn_db c" using query_Inr [of StoreSql f c x c1] by simp_all
    from q Inr assms have "row_or_missing x c1 = (r, c')" by (simp add: andThen_def)
    with x db_view_cong [of c1 c] show ?thesis
      by (cases "f (cn_db c)") (auto simp: row_or_missing_def throw_def ret_def)
  qed
qed

lemma challenge_of_row:
  "challenge_of (sc_PaymentHash c)
     \<lparr>cc_invoice = sc_Invoice c, cc_macaroon_b64 = sc_MacaroonB64 c, cc_root_key_id = sc_RootKeyID c,
      cc_requirements = sc_Requirements c, cc_resource = sc_Resource c, cc_amount_atoms = sc_AmountAtoms c,
      cc_created_at = Unix (sc_CreatedAt c), cc_expires_at = Unix (sc_ExpiresAt c)\<rparr> = trunc_challenge c"
  by (simp add: challenge_of_def trunc_challenge_def)

lemma onchain_of_row:
  "onchain_of (oc_Address c)
     \<lparr>xc_requirements = oc_Requirements c, xc_resource = oc_Resource c, xc_amount_atoms = oc_AmountAtoms c,
      xc_confirmations = oc_Confirmations c, xc_macaroon_b64 = oc_MacaroonB64 c, xc_root_key_id = oc_RootKeyID c,
      xc_credential_preimage = oc_CredentialPreimage c, xc_created_at = Unix (oc_CreatedAt c),
      xc_expires_at = Unix (oc_ExpiresAt c)\<rparr> = trunc_onchain c"
  by (simp add: onchain_of_def trunc_onchain_def)

lemma settle_body_Inr:
  assumes "settle_body h resp at c = (Inr (stored, already), c')"
  shows "case tb_settlements (cn_db c) h of
      Some row \<Rightarrow> already \<and> stored = snd row \<and> cn_db c' = cn_db c
    | None \<Rightarrow> \<not> already \<and> stored = resp \<and>
        cn_db c' = (cn_db c)\<lparr>tb_settlements := (tb_settlements (cn_db c))(h \<mapsto> (Unix at, resp))\<rparr>"
proof -
  let ?q = "query StoreSql (\<lambda>db. map_option snd (tb_settlements db h))"
  let ?k = "\<lambda>i row. case row of None \<Rightarrow> throw StoreSql | Some stored \<Rightarrow> ret (stored, i = (0 :: int))"
  from assms obtain i d1 where i: "stmt StoreSql (insert_settlement h (Unix at) resp) c = (Inr i, d1)"
    and k1: "andThen (driver StoreSql) (\<lambda>_. andThen ?q (?k i)) d1 = (Inr (stored, already), c')"
    unfolding settle_body_def by (rule andThen_InrE)
  from k1 obtain u d2 where d2: "driver StoreSql d1 = (Inr u, d2)" and k2: "andThen ?q (?k i) d2 = (Inr (stored, already), c')"
    by (rule andThen_InrE)
  from k2 obtain row d3 where row: "?q d2 = (Inr row, d3)" and k3: "?k i row d3 = (Inr (stored, already) :: store_error + bytes \<times> bool, c')"
    by (rule andThen_InrE)
  have "row = Some stored" "already = (i = 0)" "c' = d3" using k3 by (auto split: option.splits)
  moreover have "row = map_option snd (tb_settlements (cn_db d1) h)" "cn_db d3 = cn_db d1"
    using query_Inr [OF row] driver_db [OF d2] by simp_all
  moreover have ins: "insert_settlement h (Unix at) resp (cn_db c) = (i, cn_db d1)" using stmt_Inr [OF i] .
  moreover have "cn_db d1 = snd (insert_settlement h (Unix at) resp (cn_db c))" "i = fst (insert_settlement h (Unix at) resp (cn_db c))"
    using ins by simp_all
  ultimately show ?thesis
    by (cases "tb_settlements (cn_db c) h") (auto simp: insert_settlement_def insert_new_def)
qed

lemma stmt_view:
  assumes "stmt StoreSql f c = (r, c')"
  shows "case r of Inl e \<Rightarrow> db_view c' = db_view c | Inr x \<Rightarrow> f (cn_db c) = (x, cn_db c')"
proof (cases r)
  case (Inl e)
  with assms stmt_Inl [of StoreSql f c e c'] db_view_cong [of c' c] show ?thesis by simp
next
  case (Inr x)
  with assms stmt_Inr [of StoreSql f c x c'] show ?thesis by simp
qed

lemma sq_put_challenge:
  assumes "Sq_PutChallenge c s = (r, s')"
  shows "case r of Inl e \<Rightarrow> db_view s' = db_view s
     | Inr _ \<Rightarrow> \<exists>c'. db_view s' = (db_view s)\<lparr>sv_challenges := (sv_challenges (db_view s))(sc_PaymentHash c \<mapsto> c')\<rparr> \<and>
         (sv_challenges (db_view s) (sc_PaymentHash c) = None \<longrightarrow> c' = c \<or> c' = trunc_challenge c) \<and>
         (sv_challenges (db_view s) (sc_PaymentHash c) \<noteq> None \<longrightarrow> c' = c \<or> Some c' = sv_challenges (db_view s) (sc_PaymentHash c))"
proof (cases r)
  case (Inl e)
  with stmt_view [OF assms [unfolded Sq_PutChallenge_def]] show ?thesis by simp
next
  case (Inr u)
  with stmt_view [OF assms [unfolded Sq_PutChallenge_def]]
  have db: "cn_db s' = (cn_db s)\<lparr>tb_challenges := snd (insert_new (sc_PaymentHash c)
        \<lparr>cc_invoice = sc_Invoice c, cc_macaroon_b64 = sc_MacaroonB64 c, cc_root_key_id = sc_RootKeyID c,
         cc_requirements = sc_Requirements c, cc_resource = sc_Resource c, cc_amount_atoms = sc_AmountAtoms c,
         cc_created_at = Unix (sc_CreatedAt c), cc_expires_at = Unix (sc_ExpiresAt c)\<rparr> (tb_challenges (cn_db s)))\<rparr>" by simp
  from insert_new_view [of challenge_of "sc_PaymentHash c" _ "tb_challenges (cn_db s)"] db Inr show ?thesis
    unfolding db_view_def by (fastforce simp: challenge_of_row)
qed

lemma sq_put_onchain:
  assumes "Sq_PutOnchainChallenge c s = (r, s')"
  shows "case r of Inl e \<Rightarrow> db_view s' = db_view s
     | Inr _ \<Rightarrow> \<exists>c'. db_view s' = (db_view s)\<lparr>sv_onchain := (sv_onchain (db_view s))(oc_Address c \<mapsto> c')\<rparr> \<and>
         (sv_onchain (db_view s) (oc_Address c) = None \<longrightarrow> c' = c \<or> c' = trunc_onchain c) \<and>
         (sv_onchain (db_view s) (oc_Address c) \<noteq> None \<longrightarrow> c' = c \<or> Some c' = sv_onchain (db_view s) (oc_Address c))"
proof (cases r)
  case (Inl e)
  with stmt_view [OF assms [unfolded Sq_PutOnchainChallenge_def]] show ?thesis by simp
next
  case (Inr u)
  with stmt_view [OF assms [unfolded Sq_PutOnchainChallenge_def]]
  have db: "cn_db s' = (cn_db s)\<lparr>tb_onchain := snd (insert_new (oc_Address c)
        \<lparr>xc_requirements = oc_Requirements c, xc_resource = oc_Resource c, xc_amount_atoms = oc_AmountAtoms c,
         xc_confirmations = oc_Confirmations c, xc_macaroon_b64 = oc_MacaroonB64 c, xc_root_key_id = oc_RootKeyID c,
         xc_credential_preimage = oc_CredentialPreimage c, xc_created_at = Unix (oc_CreatedAt c),
         xc_expires_at = Unix (oc_ExpiresAt c)\<rparr> (tb_onchain (cn_db s)))\<rparr>" by simp
  from insert_new_view [of onchain_of "oc_Address c" _ "tb_onchain (cn_db s)"] db Inr show ?thesis
    unfolding db_view_def by (fastforce simp: onchain_of_row)
qed

lemma sq_put_root:
  assumes "Sq_PutRootKey clock k key s = (r, s')"
  shows "case r of Inl e \<Rightarrow> db_view s' = db_view s
     | Inr _ \<Rightarrow> \<exists>key'. db_view s' = (db_view s)\<lparr>sv_rootKeys := (sv_rootKeys (db_view s))(k \<mapsto> key')\<rparr> \<and>
         (sv_rootKeys (db_view s) k = None \<longrightarrow> key' = key) \<and>
         (sv_rootKeys (db_view s) k \<noteq> None \<longrightarrow> key' = key \<or> Some key' = sv_rootKeys (db_view s) k)"
proof (cases r)
  case (Inl e)
  with stmt_view [OF assms [unfolded Sq_PutRootKey_def]] show ?thesis by simp
next
  case (Inr u)
  with stmt_view [OF assms [unfolded Sq_PutRootKey_def]]
  have db: "cn_db s' = (cn_db s)\<lparr>tb_root_keys := snd (insert_new k (key, Unix clock) (tb_root_keys (cn_db s)))\<rparr>" by simp
  from insert_new_view [of "\<lambda>_. fst" k "(key, Unix clock)" "tb_root_keys (cn_db s)"] obtain key' where
    "rows_view (\<lambda>_. fst) (snd (insert_new k (key, Unix clock) (tb_root_keys (cn_db s)))) =
       (rows_view (\<lambda>_. fst) (tb_root_keys (cn_db s)))(k \<mapsto> key')"
    "rows_view (\<lambda>_. fst) (tb_root_keys (cn_db s)) k = None \<longrightarrow> key' = key"
    "rows_view (\<lambda>_. fst) (tb_root_keys (cn_db s)) k \<noteq> None \<longrightarrow> Some key' = rows_view (\<lambda>_. fst) (tb_root_keys (cn_db s)) k"
    by auto
  with db Inr show ?thesis by (auto simp: db_view_def)
qed

lemma sq_settle:
  assumes "Sq_Settle h resp at s = (r, s')"
  shows "case r of Inl e \<Rightarrow> db_view s' = db_view s
     | Inr (stored, already) \<Rightarrow>
         (case sv_settlements (db_view s) h of
            Some prev \<Rightarrow> already \<and> stored = prev \<and> db_view s' = db_view s
          | None \<Rightarrow> \<not> already \<and> stored = resp \<and>
              db_view s' = (db_view s)\<lparr>sv_settlements := (sv_settlements (db_view s))(h \<mapsto> resp)\<rparr>)"
proof (cases r)
  case (Inl e)
  have "cn_db s' = cn_db s" by (rule transaction_Inl [OF assms [unfolded Sq_Settle_def Inl]])
  with Inl db_view_cong [of s' s] show ?thesis by simp
next
  case (Inr x)
  obtain stored already where x: "x = (stored, already)" by (cases x)
  from transaction_Inr [OF assms [unfolded Sq_Settle_def Inr x]] obtain c1 c2 where
    c: "cn_db c1 = cn_db s" "cn_db s' = cn_db c2" and b: "settle_body h resp at c1 = (Inr (stored, already), c2)" by blast
  show ?thesis
  proof (cases "tb_settlements (cn_db s) h")
    case None
    then have n: "sv_settlements (db_view s) h = None" by (simp add: db_view_def)
    from None settle_body_Inr [OF b] c have "\<not> already" "stored = resp"
      and "cn_db s' = (cn_db s)\<lparr>tb_settlements := (tb_settlements (cn_db s))(h \<mapsto> (Unix at, resp))\<rparr>" by simp_all
    then have "\<not> already" "stored = resp"
      "db_view s' = (db_view s)\<lparr>sv_settlements := (sv_settlements (db_view s))(h \<mapsto> resp)\<rparr>"
      by (simp_all add: db_view_def rows_view_upd)
    with n Inr x show ?thesis by simp
  next
    case (Some row)
    with settle_body_Inr [OF b] c Inr x db_view_cong [of s' s] show ?thesis by (simp add: db_view_def rows_view_def)
  qed
qed

lemma sq_get_challenge:
  assumes "Sq_GetChallenge h s = (r, s')"
  shows "db_view s' = db_view s \<and> (case r of Inl e \<Rightarrow> e = ErrNotFound \<longrightarrow> sv_challenges (db_view s) h = None
      | Inr c \<Rightarrow> sv_challenges (db_view s) h = Some c)"
  using query_row [OF assms [unfolded Sq_GetChallenge_def]] by (cases r) (auto simp: db_view_def rows_view_def)

lemma sq_get_onchain:
  assumes "Sq_GetOnchainChallenge h s = (r, s')"
  shows "db_view s' = db_view s \<and> (case r of Inl e \<Rightarrow> e = ErrNotFound \<longrightarrow> sv_onchain (db_view s) h = None
      | Inr c \<Rightarrow> sv_onchain (db_view s) h = Some c)"
  using query_row [OF assms [unfolded Sq_GetOnchainChallenge_def]] by (cases r) (auto simp: db_view_def rows_view_def)

lemma sq_get_root:
  assumes "Sq_GetRootKey h s = (r, s')"
  shows "db_view s' = db_view s \<and> (case r of Inl e \<Rightarrow> e = ErrNotFound \<longrightarrow> sv_rootKeys (db_view s) h = None
      | Inr c \<Rightarrow> sv_rootKeys (db_view s) h = Some c)"
  using query_row [OF assms [unfolded Sq_GetRootKey_def]] by (cases r) (auto simp: db_view_def rows_view_def)

lemma sq_settled:
  assumes "Sq_Settled h s = (r, s')"
  shows "db_view s' = db_view s \<and> (case r of Inl e \<Rightarrow> True | Inr b \<Rightarrow> b \<longleftrightarrow> sv_settlements (db_view s) h \<noteq> None)"
proof (cases r)
  case (Inl e)
  with query_Inl [OF assms [unfolded Sq_Settled_def Inl]] db_view_cong [of s' s] show ?thesis by simp
next
  case (Inr b)
  with query_Inr [OF assms [unfolded Sq_Settled_def Inr]] db_view_cong [of s' s] show ?thesis by (simp add: db_view_def)
qed

lemma sq_delete_root:
  assumes "Sq_DeleteRootKey k s = (r, s')"
  shows "db_view s' = (case r of Inl e \<Rightarrow> db_view s | Inr _ \<Rightarrow> (db_view s)\<lparr>sv_rootKeys := (sv_rootKeys (db_view s))(k := None)\<rparr>)"
proof (cases r)
  case (Inl e)
  with stmt_view [OF assms [unfolded Sq_DeleteRootKey_def]] show ?thesis by simp
next
  case (Inr u)
  with stmt_view [OF assms [unfolded Sq_DeleteRootKey_def]]
  have "cn_db s' = (cn_db s)\<lparr>tb_root_keys := (tb_root_keys (cn_db s))(k := None)\<rparr>" by simp
  with Inr show ?thesis by (simp add: db_view_def rows_view_del)
qed

lemmas sq_laws = sq_put_challenge sq_put_onchain sq_put_root sq_settle sq_get_challenge sq_get_onchain sq_get_root
  sq_settled sq_delete_root

interpretation sq_store: gate_store "SQLiteStore clock" db_view for clock
  by unfold_locales (unfold SQLiteStore_def Store_ops.simps, (erule sq_laws)+)

section \<open>Properties\<close>

text \<open>
  C8: settlement is consume-once in both stores.  After a settlement of a key returned, any store
  operations may follow; settling the key again reports a repetition, returns byte for byte the
  response recorded first and changes nothing, also when SQLite statements failed in between.
\<close>

theorem settlement_consumed_once:
  assumes "Sq_Settle h resp at s = (Inr (stored, already), s1)"
    and "Sq_Settle h resp' at' (store_run (SQLiteStore clock) xs s1) = (Inr (stored', already'), s2)"
    and "Mem_Settle h resp at m = (Inr (mstored, malready), m1)"
    and "Mem_Settle h resp' at' (store_run MemoryStore xs m1) = (Inr (mstored', malready'), m2)"
  shows "already' \<and> stored' = stored \<and> db_view s2 = db_view (store_run (SQLiteStore clock) xs s1) \<and>
    malready' \<and> mstored' = mstored \<and> mem_view m2 = mem_view (store_run MemoryStore xs m1)"
  using sq_store.settle_once [of clock h resp at s stored already s1 resp' at' xs stored' already' s2]
    mem_store.settle_once [of h resp at m mstored malready m1 resp' at' xs mstored' malready' m2] assms
  by (simp add: SQLiteStore_def MemoryStore_def)

definition sqlite_store :: "bool list \<Rightarrow> store_db conn" where
  "sqlite_store faults = \<lparr>cn_db = OpenSQLiteStore, cn_faults = faults\<rparr>"

theorem settlement_consumed_once_witness:
  "\<exists>s1 m1 s2 m2.
     Sq_Settle ''h'' ''first'' 0 (sqlite_store []) = (Inr (''first'', False), s1) \<and>
     Mem_Settle ''h'' ''first'' 0 NewMemoryStore = (Inr (''first'', False), m1) \<and>
     Sq_Settle ''h'' ''second'' 0 (store_run (SQLiteStore 0) [OpDeleteRootKey ''k''] s1) = (Inr (''first'', True), s2) \<and>
     Mem_Settle ''h'' ''second'' 0 (store_run MemoryStore [OpDeleteRootKey ''k''] m1) = (Inr (''first'', True), m2)"
proof -
  have ok: "\<exists>s1 st al. Sq_Settle h r at s = (Inr (st, al), s1) \<and> cn_faults s1 = []" if "cn_faults s = []" for h r at s
    using that by (auto simp: Sq_Settle_def transaction_def andThen_def settle_body_def stmt_ok query_ok
        insert_settlement_def insert_new_def ret_def throw_def split: option.splits)
  obtain s1 where s1: "Sq_Settle ''h'' ''first'' 0 (sqlite_store []) = (Inr (''first'', False), s1)" "cn_faults s1 = []"
    by (simp add: Sq_Settle_def transaction_def andThen_def settle_body_def stmt_ok query_ok
        insert_settlement_def insert_new_def ret_def sqlite_store_def OpenSQLiteStore_def)
  obtain m1 where m1: "Mem_Settle ''h'' ''first'' 0 NewMemoryStore = (Inr (''first'', False), m1)"
    by (simp add: Mem_Settle_def NewMemoryStore_def)
  let ?s = "store_run (SQLiteStore 0) [OpDeleteRootKey ''k''] s1"
  let ?m = "store_run MemoryStore [OpDeleteRootKey ''k''] m1"
  have "cn_faults ?s = []" using s1(2) by (simp add: SQLiteStore_def Sq_DeleteRootKey_def stmt_ok)
  then obtain st al s2 where s2: "Sq_Settle ''h'' ''second'' 0 ?s = (Inr (st, al), s2)" using ok by blast
  obtain ms ma m2 where m2: "Mem_Settle ''h'' ''second'' 0 ?m = (Inr (ms, ma), m2)"
    by (cases "sm_settlements ?m ''h''") (auto simp: Mem_Settle_def)
  from settlement_consumed_once [OF s1(1) s2 m1 m2] s1(1) s2 m1 m2 show ?thesis by auto
qed

end
