(* ===== verification/Gate.thy ===== *)
theory Gate
  imports X402 L402 GateStore Ledger
begin

text \<open>
  The embeddable payment gate (\<open>lib\<close>, package \<open>dcr402\<close>), first part: networks, backends,
  configuration, the offer-receipt and payment-identifier extensions, and the building of a
  challenge (\<open>network.go\<close>, \<open>backend.go\<close>, \<open>errors.go\<close>, \<open>offerreceipt.go\<close>,
  \<open>paymentid.go\<close>, \<open>challenge.go\<close>, parts of \<open>gate.go\<close>).

  A gate works on a \<open>world\<close>: the states of its store, ledger, Lightning node and wallet, and the
  number of random reads so far.  The node and the wallet are other programs: their interfaces
  are records of operations the configuration carries, as are the invoice decoder \<open>zpay32.Decode\<close>,
  the Ed25519 signer and the source of randomness.  One request is handled at one instant, the
  argument \<open>now\<close>.
\<close>

section \<open>Networks, backends, errors\<close>

record Network =
  nw_Name :: string
  nw_CAIP2 :: string
  nw_HRP :: string

definition Mainnet :: Network where
  "Mainnet = \<lparr>nw_Name = ''mainnet'', nw_CAIP2 = ''bip122:298e5cc3d985bfe7f81dc135f360abe0'', nw_HRP = ''lndcr''\<rparr>"

definition Testnet3 :: Network where
  "Testnet3 = \<lparr>nw_Name = ''testnet3'', nw_CAIP2 = ''bip122:a649dce53918caf422e9c711c858837e'', nw_HRP = ''lntdcr''\<rparr>"

definition Simnet :: Network where
  "Simnet = \<lparr>nw_Name = ''simnet'', nw_CAIP2 = ''bip122:6bef82c645999585f7255cb02672921a'', nw_HRP = ''lnsdcr''\<rparr>"

record InvoiceStatus =
  is_Settled :: bool
  is_AmtPaidMAtoms :: int

record DepositStatus =
  ds_Found :: bool
  ds_Confirmations :: int
  ds_AmountToAddressAtoms :: int

text \<open>Interfaces of the node and the wallet; the error carries no structure the gate looks at.\<close>

record 'b Invoice_ops =
  ib_CreateInvoice :: "int \<Rightarrow> string \<Rightarrow> duration \<Rightarrow> 'b \<Rightarrow> (unit, string \<times> bytes) result \<times> 'b"
  ib_LookupInvoice :: "bytes \<Rightarrow> 'b \<Rightarrow> (unit, InvoiceStatus) result \<times> 'b"

record 'o Onchain_ops =
  ob_NewDepositAddress :: "'o \<Rightarrow> (unit, string) result \<times> 'o"
  ob_LookupDeposit :: "string \<Rightarrow> string \<Rightarrow> 'o \<Rightarrow> (unit, DepositStatus) result \<times> 'o"

text \<open>What \<open>zpay32.Decode\<close> returns of an invoice; nil pointers are \<open>None\<close>.\<close>

record Invoice =
  iv_PaymentHash :: "bytes option"
  iv_Destination :: "bytes option"
  iv_MilliAt :: "int option"
  iv_Timestamp :: time
  iv_Expiry :: duration

record VerifyError =
  ve_Reason :: string
  ve_Detail :: string

definition VerifyError_Error :: "VerifyError \<Rightarrow> string" where
  "VerifyError_Error e = (if ve_Detail e = [] then ve_Reason e else ve_Reason e @ '': '' @ ve_Detail e)"

definition verifyErrf :: "string \<Rightarrow> string \<Rightarrow> VerifyError" where
  "verifyErrf reason detail = \<lparr>ve_Reason = reason, ve_Detail = detail\<rparr>"

definition ReasonInvalidVersion :: string where "ReasonInvalidVersion = ''invalid_x402_version''"
definition ReasonInvalidScheme :: string where "ReasonInvalidScheme = ''invalid_scheme''"
definition ReasonInvalidNetwork :: string where "ReasonInvalidNetwork = ''invalid_network''"
definition ReasonInvalidRequirements :: string where "ReasonInvalidRequirements = ''invalid_payment_requirements''"
definition ReasonInvalidPayload :: string where "ReasonInvalidPayload = ''invalid_payload''"
definition ReasonPreimageMismatch :: string where
  "ReasonPreimageMismatch = ''invalid_exact_decred_payload_preimage_mismatch''"
definition ReasonInvoiceDecode :: string where "ReasonInvoiceDecode = ''invalid_exact_decred_invoice_decode''"
definition ReasonInvoiceNetwork :: string where
  "ReasonInvoiceNetwork = ''invalid_exact_decred_invoice_network_mismatch''"
definition ReasonInvoiceHash :: string where "ReasonInvoiceHash = ''invalid_exact_decred_invoice_hash_mismatch''"
definition ReasonInvoiceDestination :: string where
  "ReasonInvoiceDestination = ''invalid_exact_decred_invoice_destination_mismatch''"
definition ReasonInvoiceAmount :: string where "ReasonInvoiceAmount = ''invalid_exact_decred_invoice_amount_mismatch''"
definition ReasonInvoiceExpired :: string where "ReasonInvoiceExpired = ''invalid_exact_decred_invoice_expired''"
definition ReasonUnknownPaymentHash :: string where
  "ReasonUnknownPaymentHash = ''invalid_exact_decred_unknown_payment_hash''"
definition ReasonPaymentHashReused :: string where
  "ReasonPaymentHashReused = ''invalid_exact_decred_payment_hash_reused''"
definition ReasonAddressMismatch :: string where "ReasonAddressMismatch = ''invalid_exact_decred_address_mismatch''"
definition ReasonAmountMismatch :: string where "ReasonAmountMismatch = ''invalid_exact_decred_amount_mismatch''"
definition ReasonTxidReused :: string where "ReasonTxidReused = ''invalid_exact_decred_txid_reused''"
definition ReasonInsufficientConfs :: string where "ReasonInsufficientConfs = ''insufficient_confirmations''"
definition ReasonUnexpectedVerify :: string where "ReasonUnexpectedVerify = ''unexpected_verify_error''"
definition ReasonUnexpectedSettle :: string where "ReasonUnexpectedSettle = ''unexpected_settle_error''"

section \<open>Requests and configuration\<close>

record HttpRequest =
  hr_Method :: string
  hr_Host :: string
  hr_TLS :: bool
  hr_Path :: string
  hr_Header :: "(string \<times> string) list"
  hr_Form :: "(string \<times> string) list"

text \<open>\<open>http.Header.Get\<close>: the first value under the name, names compared without regard to case.\<close>

definition header_get :: "(string \<times> string) list \<Rightarrow> string \<Rightarrow> string" where
  "header_get hs name = (case find (\<lambda>(k, v). EqualFold k name) hs of None \<Rightarrow> [] | Some (k, v) \<Rightarrow> v)"

definition FormValue :: "HttpRequest \<Rightarrow> string \<Rightarrow> string" where
  "FormValue r name = opt_default [] (map_of (hr_Form r) name)"

text \<open>A signing key: the public key and the signature function.\<close>

record SigningKey =
  sk_Public :: bytes
  sk_Sign :: "bytes \<Rightarrow> bytes"

record ('s, 'l, 'b, 'o) GateConfig =
  gc_Backend :: "'b Invoice_ops"
  gc_Onchain :: "'o Onchain_ops option"
  gc_Ledger :: "'l Ledger_ops option"
  gc_TopupPath :: string
  gc_Store :: "'s Store_ops"
  gc_Network :: Network
  gc_PayTo :: string
  gc_Service :: string
  gc_Tier :: int
  gc_Capabilities :: "string list"
  gc_TokenTTL :: duration
  gc_ChallengeTTL :: duration
  gc_Resource :: "(HttpRequest \<Rightarrow> ResourceInfo) option"
  gc_DiscoveryExtension :: "(HttpRequest \<Rightarrow> string \<Rightarrow> Extension option) option"
  gc_MCPDiscovery :: "(string \<Rightarrow> Extension option) option"
  gc_MCPServerURL :: string
  gc_PaymentIDEnabled :: bool
  gc_PaymentIDRequired :: bool
  gc_OfferReceiptKey :: "SigningKey option"
  gc_Rand :: "nat \<Rightarrow> bytes option"
  gc_Decode :: "string \<Rightarrow> Network \<Rightarrow> Invoice option"

record ('s, 'l, 'b, 'o) world =
  w_store :: 's
  w_ledger :: 'l
  w_backend :: 'b
  w_onchain :: 'o
  w_reads :: nat

text \<open>One call of \<open>rand.Read\<close> on 32 bytes; \<open>None\<close> is its error.\<close>

definition rand_read ::
  "('s, 'l, 'b, 'o) GateConfig \<Rightarrow> ('s, 'l, 'b, 'o) world \<Rightarrow> bytes option \<times> ('s, 'l, 'b, 'o) world" where
  "rand_read g w = (gc_Rand g (w_reads w), w\<lparr>w_reads := Suc (w_reads w)\<rparr>)"

section \<open>Map literals\<close>

definition jmap :: "(string \<times> json) list \<Rightarrow> json" where
  "jmap kvs = JObj (mmap kvs)"

section \<open>Offer and receipt\<close>

definition ExtensionOfferReceipt :: string where
  "ExtensionOfferReceipt = ''offer-receipt''"

definition b58alphabet :: string where
  "b58alphabet = ''123456789ABCDEFGHJKLMNPQRSTUVWXYZabcdefghijkmnopqrstuvwxyz''"

text \<open>
  The inner loop of \<open>base58btc\<close> at position \<open>j = k - 1\<close>; running off the front of the buffer would
  be a panic, which is \<open>None\<close>.
\<close>

fun b58_inner :: "nat \<Rightarrow> int \<Rightarrow> nat \<Rightarrow> nat list \<Rightarrow> (int \<times> nat list) option" where
  "b58_inner k high carry buf =
     (if int k - 1 > high \<or> carry \<noteq> 0 then
        (case k of
           0 \<Rightarrow> None
         | Suc j \<Rightarrow> (let c = carry + 256 * (buf ! j) in b58_inner j high (c div 58) (buf[j := c mod 58])))
      else Some (int k - 1, buf))"

declare b58_inner.simps [simp del]

fun b58_outer :: "nat \<Rightarrow> bytes \<Rightarrow> int \<Rightarrow> nat list \<Rightarrow> nat list option" where
  "b58_outer sz [] high buf = Some buf"
| "b58_outer sz (c # cs) high buf =
     (case b58_inner sz high (byte c) buf of
        None \<Rightarrow> None
      | Some (j, buf) \<Rightarrow> b58_outer sz cs j buf)"

definition base58btc :: "bytes \<Rightarrow> string option" where
  "base58btc input =
     (let zeros = length (takeWhile (\<lambda>c. c = CHR 0x00) input);
          sz = (length input - zeros) * 138 div 100 + 1 in
      case b58_outer sz (drop zeros input) (int sz - 1) (replicate sz 0) of
        None \<Rightarrow> None
      | Some buf \<Rightarrow>
          Some (replicate zeros (CHR ''1'') @ map (\<lambda>d. b58alphabet ! d) (dropWhile (\<lambda>d. d = 0) buf)))"

definition didKeyEd25519 :: "bytes \<Rightarrow> string option" where
  "didKeyEd25519 pub = map_option (\<lambda>s. ''did:key:z'' @ s) (base58btc (CHR 0xed # CHR 0x01 # pub))"

text \<open>\<open>base64.RawURLEncoding\<close>: the URL alphabet without padding.\<close>

definition b64url :: "bytes \<Rightarrow> string" where
  "b64url b = map (\<lambda>c. if c = CHR ''+'' then CHR ''-'' else if c = CHR ''/'' then CHR ''_'' else c)
     (filter (\<lambda>c. c \<noteq> CHR ''='') (b64_encode b))"

definition signJWS :: "SigningKey \<Rightarrow> string \<Rightarrow> json \<Rightarrow> string" where
  "signJWS key kid payload =
     (let hdr = json_print (jmap [(''alg'', JStr ''EdDSA''), (''kid'', JStr kid)]);
          signing = b64url hdr @ ''.'' @ b64url (json_print payload)
      in signing @ ''.'' @ b64url (sk_Sign key signing))"

definition signedObject :: "string \<Rightarrow> string \<Rightarrow> int option \<Rightarrow> json" where
  "signedObject fmt sig idx =
     JObj ([(''format'', JStr fmt), (''signature'', JStr sig)] @
       (case idx of None \<Rightarrow> [] | Some i \<Rightarrow> [(''acceptIndex'', enc_int i)]))"

definition offer_payload :: "string \<Rightarrow> int \<Rightarrow> PaymentRequirements \<Rightarrow> json" where
  "offer_payload resourceURL validUntilUnix a =
     jmap [(''version'', enc_int 1), (''resourceUrl'', JStr resourceURL), (''scheme'', JStr (pr_Scheme a)),
       (''network'', JStr (pr_Network a)), (''asset'', JStr (pr_Asset a)), (''payTo'', JStr (pr_PayTo a)),
       (''amount'', JStr (pr_Amount a)), (''validUntil'', enc_int validUntilUnix)]"

text \<open>\<open>None\<close>: no key configured (the second result is false).\<close>

definition offerExtension ::
  "('s, 'l, 'b, 'o) GateConfig \<Rightarrow> string \<Rightarrow> PaymentRequirements list \<Rightarrow> int \<Rightarrow> Extension option" where
  "offerExtension g resourceURL accepts validUntilUnix =
     (case gc_OfferReceiptKey g of
        None \<Rightarrow> None
      | Some key \<Rightarrow>
          (let kid = opt_default [] (didKeyEd25519 (sk_Public key));
               offers = map (\<lambda>(i, a). signedObject ''jws''
                          (signJWS key kid (offer_payload resourceURL validUntilUnix a)) (Some (int i)))
                          (enumerate 0 accepts)
           in Some \<lparr>ext_Info = Some (jmap [(''kid'', JStr kid), (''offers'', JArr offers)]), ext_Schema = None\<rparr>))"

definition receiptExtension ::
  "('s, 'l, 'b, 'o) GateConfig \<Rightarrow> string \<Rightarrow> string \<Rightarrow> string \<Rightarrow> string \<Rightarrow> int \<Rightarrow> Extension option" where
  "receiptExtension g resourceURL network payer txn issuedAtUnix =
     (case gc_OfferReceiptKey g of
        None \<Rightarrow> None
      | Some key \<Rightarrow>
          (let kid = opt_default [] (didKeyEd25519 (sk_Public key));
               payload = jmap [(''version'', enc_int 1), (''network'', JStr network),
                 (''resourceUrl'', JStr resourceURL), (''payer'', JStr payer),
                 (''issuedAt'', enc_int issuedAtUnix), (''transaction'', JStr txn)];
               receipt = signedObject ''jws'' (signJWS key kid payload) None
           in Some \<lparr>ext_Info = Some (jmap [(''kid'', JStr kid), (''receipt'', receipt)]), ext_Schema = None\<rparr>))"

section \<open>Payment identifiers\<close>

definition ExtensionPaymentID :: string where
  "ExtensionPaymentID = ''payment-identifier''"

definition paymentIDSchema :: json where
  "paymentIDSchema = JObj [(''$schema'', JStr ''https://json-schema.org/draft/2020-12/schema''), (''type'', JStr ''object''),
     (''properties'', JObj [(''required'', JObj [(''type'', JStr ''boolean'')]),
       (''id'', JObj [(''type'', JStr ''string''), (''minLength'', JNum ''16''), (''maxLength'', JNum ''128''),
         (''pattern'', JStr ''^[A-Za-z0-9_-]+$'')])])]"

definition buildPaymentIDAdvert :: "bool \<Rightarrow> Extension" where
  "buildPaymentIDAdvert required =
     \<lparr>ext_Info = Some (jmap [(''required'', JBool required)]), ext_Schema = Some paymentIDSchema\<rparr>"

definition extractPaymentID :: "PaymentPayload \<Rightarrow> string option" where
  "extractPaymentID pp =
     (case map_of (pp_Extensions pp) ExtensionPaymentID of
        None \<Rightarrow> None
      | Some ext \<Rightarrow>
          (case unmarshal_into [] (dec_fields [(''id'', \<lambda>v m. dec_string m v)]) (ext_Info ext) of
             None \<Rightarrow> None
           | Some i \<Rightarrow> if i = [] then None else Some i))"

definition payment_id_char :: "char \<Rightarrow> bool" where
  "payment_id_char c \<longleftrightarrow>
     (let n = byte c in 65 \<le> n \<and> n \<le> 90 \<or> 97 \<le> n \<and> n \<le> 122 \<or> 48 \<le> n \<and> n \<le> 57) \<or> c = CHR ''_'' \<or> c = CHR ''-''"

definition validPaymentID :: "string \<Rightarrow> bool" where
  "validPaymentID i \<longleftrightarrow> 16 \<le> length i \<and> length i \<le> 128 \<and> list_all payment_id_char i"

section \<open>Challenges\<close>

definition ExtensionL402 :: string where
  "ExtensionL402 = ''l402''"

definition ExtensionBazaar :: string where
  "ExtensionBazaar = ''bazaar''"

definition l402AdvertSchema :: json where
  "l402AdvertSchema = JObj [(''$schema'', JStr ''https://json-schema.org/draft/2020-12/schema''), (''type'', JStr ''object''),
     (''properties'', JObj [(''tokenTtlSeconds'', JObj [(''type'', JStr ''integer''), (''minimum'', JNum ''0'')])]),
     (''required'', JArr [JStr ''tokenTtlSeconds''])]"

definition l402DeliverSchema :: json where
  "l402DeliverSchema = JObj [(''$schema'', JStr ''https://json-schema.org/draft/2020-12/schema''), (''type'', JStr ''object''),
     (''properties'', JObj [(''authorization'', JObj [(''type'', JStr ''string'')]),
       (''validUntil'', JObj [(''type'', JStr ''integer'')])]),
     (''required'', JArr [JStr ''authorization''])]"

record challengeArtifacts =
  ca_PaymentRequired :: PaymentRequired
  ca_Macaroon :: Macaroon
  ca_Invoice :: string

datatype gate_error =
    AmountNotPositive | CreateInvoiceFailed | RandFailed | StoreRootKeyFailed | StoreChallengeFailed
  | NewAddressFailed | StoreOnchainFailed

definition mint_caveats :: "('s, 'l, 'b, 'o) GateConfig \<Rightarrow> time \<Rightarrow> string list" where
  "mint_caveats g now =
     [ServicesCaveat (gc_Service g) (gc_Tier g)] @
     (if gc_Capabilities g \<noteq> [] then [CapabilitiesCaveat (gc_Service g) (gc_Capabilities g)] else []) @
     [ValidUntilCaveat (gc_Service g) (now + gc_TokenTTL g)]"

definition mintCredential ::
  "('s, 'l, 'b, 'o) GateConfig \<Rightarrow> bytes \<Rightarrow> bytes \<Rightarrow> time \<Rightarrow> ('s, 'l, 'b, 'o) world \<Rightarrow>
   (gate_error, Macaroon \<times> string) result \<times> ('s, 'l, 'b, 'o) world" where
  "mintCredential g paymentHash tokenID now w =
     (case rand_read g w of
        (None, w) \<Rightarrow> (Inl RandFailed, w)
      | (Some rootKey, w) \<Rightarrow>
          (let i = \<lparr>id_Version = IdentifierVersion, id_PaymentHash = paymentHash, id_TokenID = tokenID\<rparr>;
               mac = Mint rootKey i (mint_caveats g now) in
           case st_PutRootKey (gc_Store g) (StorageKey i) rootKey (w_store w) of
             (Inl e, s) \<Rightarrow> (Inl StoreRootKeyFailed, w\<lparr>w_store := s\<rparr>)
           | (Inr _, s) \<Rightarrow> (Inr (mac, b64_encode (MarshalBinary mac)), w\<lparr>w_store := s\<rparr>)))"

definition lightning_entry :: "('s, 'l, 'b, 'o) GateConfig \<Rightarrow> int \<Rightarrow> string \<Rightarrow> bytes \<Rightarrow> PaymentRequirements" where
  "lightning_entry g amountAtoms invoice paymentHash =
     \<lparr>pr_Scheme = SchemeExact, pr_Network = nw_CAIP2 (gc_Network g), pr_Amount = FormatInt amountAtoms,
      pr_Asset = AssetDCR, pr_PayTo = gc_PayTo g, pr_MaxTimeoutSeconds = Seconds (gc_ChallengeTTL g),
      pr_Extra = Some (json_LightningExtra \<lparr>le_AssetTransferMethod = MethodLightning, le_Invoice = invoice,
        le_PaymentHash = hex_encode paymentHash\<rparr>)\<rparr>"

definition lightning_record ::
  "('s, 'l, 'b, 'o) GateConfig \<Rightarrow> int \<Rightarrow> string \<Rightarrow> string \<Rightarrow> bytes \<Rightarrow> Macaroon \<Rightarrow> string \<Rightarrow> time \<Rightarrow> StoreChallenge" where
  "lightning_record g amountAtoms bind invoice paymentHash mac macB64 now =
     \<lparr>sc_PaymentHash = paymentHash, sc_Invoice = invoice, sc_MacaroonB64 = macB64, sc_RootKeyID = sha256 (mac_ID mac),
      sc_Requirements = json_print (json_PaymentRequirements (lightning_entry g amountAtoms invoice paymentHash)),
      sc_Resource = bind, sc_AmountAtoms = amountAtoms, sc_CreatedAt = now, sc_ExpiresAt = now + gc_ChallengeTTL g\<rparr>"

definition l402_advert :: "('s, 'l, 'b, 'o) GateConfig \<Rightarrow> Extension" where
  "l402_advert g = \<lparr>ext_Info = Some (jmap [(''tokenTtlSeconds'', enc_int (Seconds (gc_TokenTTL g)))]),
     ext_Schema = Some l402AdvertSchema\<rparr>"

definition challenge_extensions ::
  "('s, 'l, 'b, 'o) GateConfig \<Rightarrow> string \<Rightarrow> PaymentRequirements \<Rightarrow> time \<Rightarrow> Extension gomap \<Rightarrow> Extension gomap" where
  "challenge_extensions g resourceURL entry now extra =
     (let exts = [(ExtensionL402, l402_advert g)];
          exts = fold (\<lambda>(k, v) m. mput k v m) extra exts;
          exts = (if gc_PaymentIDEnabled g
                  then mput ExtensionPaymentID (buildPaymentIDAdvert (gc_PaymentIDRequired g)) exts else exts)
      in case offerExtension g resourceURL [entry] (Unix (now + gc_ChallengeTTL g)) of
           None \<Rightarrow> exts
         | Some ext \<Rightarrow> mput ExtensionOfferReceipt ext exts)"

definition buildChallenge ::
  "('s, 'l, 'b, 'o) GateConfig \<Rightarrow> time \<Rightarrow> ResourceInfo \<Rightarrow> string \<Rightarrow> int \<Rightarrow> Extension gomap \<Rightarrow>
   ('s, 'l, 'b, 'o) world \<Rightarrow> (gate_error, challengeArtifacts) result \<times> ('s, 'l, 'b, 'o) world" where
  "buildChallenge g now resource bind amountAtoms extra w =
     (if amountAtoms \<le> 0 then (Inl AmountNotPositive, w)
      else (let bind = (if bind = [] then ri_URL resource else bind);
                memo = gc_Service g @ '' '' @ bind in
            case ib_CreateInvoice (gc_Backend g) amountAtoms memo (gc_ChallengeTTL g) (w_backend w) of
              (Inl e, b) \<Rightarrow> (Inl CreateInvoiceFailed, w\<lparr>w_backend := b\<rparr>)
            | (Inr (invoice, paymentHash), b) \<Rightarrow>
                (case rand_read g (w\<lparr>w_backend := b\<rparr>) of
                   (None, w) \<Rightarrow> (Inl RandFailed, w)
                 | (Some tokenID, w) \<Rightarrow>
                     (case mintCredential g paymentHash tokenID now w of
                        (Inl e, w) \<Rightarrow> (Inl e, w)
                      | (Inr (mac, macB64), w) \<Rightarrow>
                          (let entry = lightning_entry g amountAtoms invoice paymentHash in
                           case st_PutChallenge (gc_Store g)
                                  (lightning_record g amountAtoms bind invoice paymentHash mac macB64 now) (w_store w) of
                             (Inl e, s) \<Rightarrow> (Inl StoreChallengeFailed, w\<lparr>w_store := s\<rparr>)
                           | (Inr _, s) \<Rightarrow>
                               (Inr \<lparr>ca_PaymentRequired =
                                       \<lparr>rq_X402Version = Version, rq_Error = ''Payment required'', rq_Resource = resource,
                                        rq_Accepts = [entry],
                                        rq_Extensions = challenge_extensions g (ri_URL resource) entry now extra\<rparr>,
                                     ca_Macaroon = mac, ca_Invoice = invoice\<rparr>,
                                w\<lparr>w_store := s\<rparr>))))))"

definition ChallengeBound ::
  "('s, 'l, 'b, 'o) GateConfig \<Rightarrow> time \<Rightarrow> ResourceInfo \<Rightarrow> string \<Rightarrow> int \<Rightarrow> Extension gomap \<Rightarrow>
   ('s, 'l, 'b, 'o) world \<Rightarrow> (gate_error, PaymentRequired) result \<times> ('s, 'l, 'b, 'o) world" where
  "ChallengeBound g now resource bind amountAtoms extra w =
     (case buildChallenge g now resource bind amountAtoms extra w of
        (Inl e, w) \<Rightarrow> (Inl e, w)
      | (Inr art, w) \<Rightarrow> (Inr (ca_PaymentRequired art), w))"

definition Gate_Challenge ::
  "('s, 'l, 'b, 'o) GateConfig \<Rightarrow> time \<Rightarrow> ResourceInfo \<Rightarrow> int \<Rightarrow> Extension gomap \<Rightarrow>
   ('s, 'l, 'b, 'o) world \<Rightarrow> (gate_error, PaymentRequired) result \<times> ('s, 'l, 'b, 'o) world" where
  "Gate_Challenge g now resource amountAtoms extra w = ChallengeBound g now resource [] amountAtoms extra w"

section \<open>Credentials\<close>

definition resourceFor :: "('s, 'l, 'b, 'o) GateConfig \<Rightarrow> HttpRequest \<Rightarrow> ResourceInfo" where
  "resourceFor g r =
     (case gc_Resource g of
        Some f \<Rightarrow> f r
      | None \<Rightarrow> zero_ResourceInfo\<lparr>ri_URL := (if hr_TLS r then ''https'' else ''http'') @ ''://'' @ hr_Host r @ hr_Path r\<rparr>)"

definition discoveryExtensions :: "('s, 'l, 'b, 'o) GateConfig \<Rightarrow> HttpRequest \<Rightarrow> Extension gomap" where
  "discoveryExtensions g r =
     (case gc_DiscoveryExtension g of
        None \<Rightarrow> []
      | Some f \<Rightarrow> (case f r (hr_Method r) of None \<Rightarrow> [] | Some ext \<Rightarrow> [(ExtensionBazaar, ext)]))"

text \<open>The account id of a valid credential; every failure is one error for the callers.\<close>

definition authorizeToken ::
  "('s, 'l, 'b, 'o) GateConfig \<Rightarrow> time \<Rightarrow> Macaroon list \<Rightarrow> string \<Rightarrow> ('s, 'l, 'b, 'o) world \<Rightarrow>
   string option \<times> ('s, 'l, 'b, 'o) world" where
  "authorizeToken g now macs preimageHex w =
     (case macs of
        [] \<Rightarrow> (None, w)
      | mac # _ \<Rightarrow>
          (case Macaroon_Identifier mac of
             Inl e \<Rightarrow> (None, w)
           | Inr i \<Rightarrow>
               (case st_GetRootKey (gc_Store g) (StorageKey i) (w_store w) of
                  (Inl e, s) \<Rightarrow> (None, w\<lparr>w_store := s\<rparr>)
                | (Inr rootKey, s) \<Rightarrow>
                    (case VerifyToken now rootKey mac preimageHex
                            \<lparr>vo_Service = gc_Service g, vo_Capability = [], vo_Now = Some now\<rparr> of
                       Inl e \<Rightarrow> (None, w\<lparr>w_store := s\<rparr>)
                     | Inr _ \<Rightarrow> (Some (hex_encode (id_TokenID i)), w\<lparr>w_store := s\<rparr>)))))"

end
