(* ===== verification/GateVerify.thy ===== *)
theory GateVerify
  imports Gate
begin

text \<open>
  Verification and settlement of payment proofs, \<open>lib/verify.go\<close>: the stateless lightning proof
  shared with the facilitator, the challenge correlation of the embedded gate for both methods,
  and \<open>settleFull\<close>, which records a settlement once.  The detail text of an error that wraps a
  library error keeps only the gate's own part.
\<close>

section \<open>The envelope\<close>

definition CheckEnvelope :: "PaymentPayload \<Rightarrow> Network \<Rightarrow> VerifyError option" where
  "CheckEnvelope pp net =
     (if pp_X402Version pp \<noteq> Version
      then Some (verifyErrf ReasonInvalidVersion (''x402Version '' @ FormatInt (pp_X402Version pp)))
      else if pr_Scheme (pp_Accepted pp) \<noteq> SchemeExact
      then Some (verifyErrf ReasonInvalidScheme (''scheme '' @ Quote (pr_Scheme (pp_Accepted pp))))
      else if pr_Network (pp_Accepted pp) \<noteq> nw_CAIP2 net
      then Some (verifyErrf ReasonInvalidNetwork (''network '' @ Quote (pr_Network (pp_Accepted pp))))
      else None)"

definition envelopeChecks :: "('s, 'l, 'b, 'o) GateConfig \<Rightarrow> PaymentPayload \<Rightarrow> VerifyError option" where
  "envelopeChecks g pp = CheckEnvelope pp (gc_Network g)"

section \<open>The lightning proof\<close>

definition zero_LightningExtra :: LightningExtra where
  "zero_LightningExtra = \<lparr>le_AssetTransferMethod = [], le_Invoice = [], le_PaymentHash = []\<rparr>"

definition zero_LightningPayload :: LightningPayload where
  "zero_LightningPayload = \<lparr>lp_Preimage = [], lp_PaymentHash = []\<rparr>"

definition zero_OnchainExtra :: OnchainExtra where
  "zero_OnchainExtra = \<lparr>oe_AssetTransferMethod = [], oe_Confirmations = 0, oe_Credential = []\<rparr>"

definition zero_OnchainPayload :: OnchainPayload where
  "zero_OnchainPayload = \<lparr>op_TxID = []\<rparr>"

text \<open>\<open>hex.DecodeString\<close> of exactly 32 bytes.\<close>

definition hex32 :: "string \<Rightarrow> bytes option" where
  "hex32 s = (case hex_decode s of None \<Rightarrow> None | Some b \<Rightarrow> if length b = 32 then Some b else None)"

text \<open>Rules 5, 6 and 7, on the decoded invoice.\<close>

definition check_invoice ::
  "Invoice \<Rightarrow> PaymentRequirements \<Rightarrow> time option \<Rightarrow> VerifyError option" where
  "check_invoice iv acc now =
     (case iv_Destination iv of
        None \<Rightarrow> Some (verifyErrf ReasonInvoiceDestination ''invoice has no destination'')
      | Some d \<Rightarrow>
          (let dest = hex_encode d in
           if \<not> EqualFold dest (pr_PayTo acc)
           then Some (verifyErrf ReasonInvoiceDestination (''invoice destination '' @ dest @ '' != payTo''))
           else (case ParseInt (pr_Amount acc) of
                   None \<Rightarrow> Some (verifyErrf ReasonInvalidRequirements (''amount '' @ Quote (pr_Amount acc)))
                 | Some amountAtoms \<Rightarrow>
                     if amountAtoms \<le> 0
                     then Some (verifyErrf ReasonInvalidRequirements (''amount '' @ Quote (pr_Amount acc)))
                     else (case iv_MilliAt iv of
                             None \<Rightarrow> Some (verifyErrf ReasonInvoiceAmount ''invoice carries no amount'')
                           | Some m \<Rightarrow>
                               if wrap64 m \<noteq> mul64 amountAtoms 1000
                               then Some (verifyErrf ReasonInvoiceAmount (''invoice m-atoms '' @ FormatInt (wrap64 m) @
                                       '' != amount '' @ FormatInt amountAtoms @ '' x 1000''))
                               else (case now of
                                       None \<Rightarrow> None
                                     | Some t \<Rightarrow>
                                         (let expiresAt = iv_Timestamp iv + iv_Expiry iv in
                                          if t > expiresAt
                                          then Some (verifyErrf ReasonInvoiceExpired
                                                 (''invoice expired at '' @ rfc3339 expiresAt))
                                          else None))))))"

definition VerifyLightningProof ::
  "(string \<Rightarrow> Network \<Rightarrow> Invoice option) \<Rightarrow> PaymentPayload \<Rightarrow> PaymentRequirements \<Rightarrow> Network \<Rightarrow> time option \<Rightarrow>
   (VerifyError, LightningPayload) result" where
  "VerifyLightningProof decode pp offered net now =
     (let acc = pp_Accepted pp in
      case unmarshal_into zero_LightningExtra dec_LightningExtra (pr_Extra acc) of
        None \<Rightarrow> Inl (verifyErrf ReasonInvalidPayload ''malformed lightning extra'')
      | Some extra \<Rightarrow>
          if le_Invoice extra = [] \<or> le_PaymentHash extra = []
          then Inl (verifyErrf ReasonInvalidPayload ''malformed lightning extra'')
          else (case unmarshal_into zero_LightningPayload dec_LightningPayload (pp_Payload pp) of
                  None \<Rightarrow> Inl (verifyErrf ReasonInvalidPayload ''malformed lightning payload'')
                | Some pay \<Rightarrow>
                    if lp_Preimage pay = [] \<or> lp_PaymentHash pay = []
                    then Inl (verifyErrf ReasonInvalidPayload ''malformed lightning payload'')
                    else (case hex32 (le_PaymentHash extra) of
                            None \<Rightarrow> Inl (verifyErrf ReasonInvalidPayload ''paymentHash is not 32 hex bytes'')
                          | Some claimedHash \<Rightarrow>
                              (case hex32 (lp_Preimage pay) of
                                 None \<Rightarrow> Inl (verifyErrf ReasonInvalidPayload ''preimage is not 32 hex bytes'')
                               | Some preimage \<Rightarrow>
                                   if \<not> EqualFold (lp_PaymentHash pay) (le_PaymentHash extra) \<or> sha256 preimage \<noteq> claimedHash
                                   then Inl (verifyErrf ReasonPreimageMismatch ''sha256(preimage) does not match payment hash'')
                                   else if \<not> EqualSemantic acc offered
                                   then Inl (verifyErrf ReasonInvalidRequirements ''accepted does not match the offered entry'')
                                   else if \<not> HasPrefix (le_Invoice extra) (nw_HRP net)
                                   then Inl (verifyErrf ReasonInvoiceNetwork (''invoice prefix does not match '' @ nw_CAIP2 net))
                                   else (case decode (le_Invoice extra) net of
                                           None \<Rightarrow> Inl (verifyErrf ReasonInvoiceDecode [])
                                         | Some iv \<Rightarrow>
                                             if iv_PaymentHash iv \<noteq> Some claimedHash
                                             then Inl (verifyErrf ReasonInvoiceHash ''invoice p field differs from extra.paymentHash'')
                                             else (case check_invoice iv acc now of
                                                     Some e \<Rightarrow> Inl e
                                                   | None \<Rightarrow> Inr pay))))))"

section \<open>The embedded gate\<close>

text \<open>Rule 8, mint of record.\<close>

definition check_node_settled ::
  "('s, 'l, 'b, 'o) GateConfig \<Rightarrow> bytes \<Rightarrow> ('s, 'l, 'b, 'o) world \<Rightarrow>
   VerifyError option \<times> ('s, 'l, 'b, 'o) world" where
  "check_node_settled g paymentHash w =
     (case ib_LookupInvoice (gc_Backend g) paymentHash (w_backend w) of
        (Inl e, b) \<Rightarrow> (Some (verifyErrf ReasonUnexpectedVerify ''invoice lookup''), w\<lparr>w_backend := b\<rparr>)
      | (Inr st, b) \<Rightarrow>
          (if \<not> is_Settled st
           then Some (verifyErrf ReasonUnexpectedVerify ''valid preimage but invoice not settled on the payee node'')
           else None, w\<lparr>w_backend := b\<rparr>))"

text \<open>The branch taken for a challenge past its window; an error of \<open>Settled\<close> counts as not settled.\<close>

definition expired_reason ::
  "('s, 'l, 'b, 'o) GateConfig \<Rightarrow> bytes \<Rightarrow> ('s, 'l, 'b, 'o) world \<Rightarrow> VerifyError \<times> ('s, 'l, 'b, 'o) world" where
  "expired_reason g paymentHash w =
     (case st_Settled (gc_Store g) paymentHash (w_store w) of
        (r, s) \<Rightarrow>
          (if r = Inr True then verifyErrf ReasonPaymentHashReused ''payment hash already consumed''
           else verifyErrf ReasonInvoiceExpired ''challenge expired'', w\<lparr>w_store := s\<rparr>))"

definition verifyLightning ::
  "('s, 'l, 'b, 'o) GateConfig \<Rightarrow> time \<Rightarrow> PaymentPayload \<Rightarrow> ('s, 'l, 'b, 'o) world \<Rightarrow>
   (VerifyError, StoreChallenge \<times> LightningPayload) result \<times> ('s, 'l, 'b, 'o) world" where
  "verifyLightning g now pp w =
     (case unmarshal_into zero_LightningExtra dec_LightningExtra (pr_Extra (pp_Accepted pp)) of
        None \<Rightarrow> (Inl (verifyErrf ReasonInvalidPayload ''malformed lightning extra''), w)
      | Some extra \<Rightarrow>
          if le_PaymentHash extra = [] then (Inl (verifyErrf ReasonInvalidPayload ''malformed lightning extra''), w)
          else (case hex32 (le_PaymentHash extra) of
                  None \<Rightarrow> (Inl (verifyErrf ReasonInvalidPayload ''paymentHash is not 32 hex bytes''), w)
                | Some paymentHash \<Rightarrow>
                    (case st_GetChallenge (gc_Store g) paymentHash (w_store w) of
                       (Inl e, s) \<Rightarrow>
                         (Inl (if e = ErrNotFound then verifyErrf ReasonUnknownPaymentHash ''no challenge record''
                               else verifyErrf ReasonUnexpectedVerify ''challenge lookup''), w\<lparr>w_store := s\<rparr>)
                     | (Inr ch, s) \<Rightarrow>
                         (let w = w\<lparr>w_store := s\<rparr> in
                          if now > sc_ExpiresAt ch
                          then (case expired_reason g paymentHash w of (e, w) \<Rightarrow> (Inl e, w))
                          else (case unmarshal_into zero_PaymentRequirements dec_PaymentRequirements
                                       (json_unmarshal (sc_Requirements ch)) of
                                  None \<Rightarrow> (Inl (verifyErrf ReasonUnexpectedVerify ''stored requirements''), w)
                                | Some offered \<Rightarrow>
                                    (case VerifyLightningProof (gc_Decode g) pp offered (gc_Network g) None of
                                       Inl ve \<Rightarrow> (Inl ve, w)
                                     | Inr pay \<Rightarrow>
                                         (case check_node_settled g paymentHash w of
                                            (Some ve, w) \<Rightarrow> (Inl ve, w)
                                          | (None, w) \<Rightarrow> (Inr (ch, pay), w))))))))"

text \<open>Rules 9 to 11, on the wallet's view of the deposit.\<close>

definition check_deposit :: "DepositStatus \<Rightarrow> OnchainChallenge \<Rightarrow> time \<Rightarrow> VerifyError option" where
  "check_deposit dep oc now =
     (if \<not> ds_Found dep then
        (if now > oc_ExpiresAt oc then Some (verifyErrf ReasonInvoiceExpired ''challenge expired with no deposit'')
         else Some (verifyErrf ReasonInsufficientConfs ''transaction not (yet) known to the wallet''))
      else if ds_AmountToAddressAtoms dep = 0
      then Some (verifyErrf ReasonAddressMismatch ''transaction pays no output to payTo'')
      else if ds_AmountToAddressAtoms dep \<noteq> oc_AmountAtoms oc
      then Some (verifyErrf ReasonAmountMismatch (''outputs to payTo sum to '' @ FormatInt (ds_AmountToAddressAtoms dep) @
              '' atoms, want '' @ FormatInt (oc_AmountAtoms oc)))
      else if ds_Confirmations dep < oc_Confirmations oc
      then Some (verifyErrf ReasonInsufficientConfs (FormatInt (ds_Confirmations dep) @ '' of '' @
              FormatInt (oc_Confirmations oc) @ '' confirmations''))
      else None)"

definition verifyOnchain ::
  "('s, 'l, 'b, 'o) GateConfig \<Rightarrow> time \<Rightarrow> PaymentPayload \<Rightarrow> ('s, 'l, 'b, 'o) world \<Rightarrow>
   (VerifyError, OnchainChallenge \<times> OnchainPayload) result \<times> ('s, 'l, 'b, 'o) world" where
  "verifyOnchain g now pp w =
     (let acc = pp_Accepted pp in
      case unmarshal_into zero_OnchainExtra dec_OnchainExtra (pr_Extra acc) of
        None \<Rightarrow> (Inl (verifyErrf ReasonInvalidPayload ''malformed onchain extra''), w)
      | Some extra \<Rightarrow>
          (case unmarshal_into zero_OnchainPayload dec_OnchainPayload (pp_Payload pp) of
             None \<Rightarrow> (Inl (verifyErrf ReasonInvalidPayload ''malformed onchain payload''), w)
           | Some pay \<Rightarrow>
               if op_TxID pay = [] then (Inl (verifyErrf ReasonInvalidPayload ''malformed onchain payload''), w)
               else if hex32 (op_TxID pay) = None
               then (Inl (verifyErrf ReasonInvalidPayload ''txid is not 32 hex bytes''), w)
               else (case st_GetOnchainChallenge (gc_Store g) (pr_PayTo acc) (w_store w) of
                       (Inl e, s) \<Rightarrow>
                         (Inl (if e = ErrNotFound
                               then verifyErrf ReasonInvalidRequirements ''no challenge was issued for this payTo''
                               else verifyErrf ReasonUnexpectedVerify ''challenge lookup''), w\<lparr>w_store := s\<rparr>)
                     | (Inr oc, s) \<Rightarrow>
                         (let w = w\<lparr>w_store := s\<rparr> in
                          case unmarshal_into zero_PaymentRequirements dec_PaymentRequirements
                                 (json_unmarshal (oc_Requirements oc)) of
                            None \<Rightarrow> (Inl (verifyErrf ReasonUnexpectedVerify ''stored requirements''), w)
                          | Some offered \<Rightarrow>
                              if \<not> EqualSemantic acc offered
                              then (Inl (verifyErrf ReasonInvalidRequirements ''accepted does not match the offered entry''), w)
                              else (case gc_Onchain g of
                                      None \<Rightarrow> (Inl (verifyErrf ReasonUnexpectedVerify ''gate has no onchain backend configured''), w)
                                    | Some ob \<Rightarrow>
                                        (case ob_LookupDeposit ob (op_TxID pay) (oc_Address oc) (w_onchain w) of
                                           (Inl e, c) \<Rightarrow> (Inl (verifyErrf ReasonUnexpectedVerify ''deposit lookup''), w\<lparr>w_onchain := c\<rparr>)
                                         | (Inr dep, c) \<Rightarrow>
                                             (case check_deposit dep oc now of
                                                Some ve \<Rightarrow> (Inl ve, w\<lparr>w_onchain := c\<rparr>)
                                              | None \<Rightarrow> (Inr (oc, pay), w\<lparr>w_onchain := c\<rparr>))))))))"

section \<open>Credentials of record\<close>

definition accountFromMacaroon :: "string \<Rightarrow> string option" where
  "accountFromMacaroon macB64 =
     (case b64_decode macB64 of
        None \<Rightarrow> None
      | Some raw \<Rightarrow>
          (case UnmarshalBinary raw of
             Inl e \<Rightarrow> None
           | Inr mac \<Rightarrow>
               (case Macaroon_Identifier mac of
                  Inl e \<Rightarrow> None
                | Inr i \<Rightarrow> Some (hex_encode (id_TokenID i)))))"

text \<open>The loop over the caveats keeps the last expiry that parses.\<close>

definition valid_until_of :: "string \<Rightarrow> string list \<Rightarrow> int" where
  "valid_until_of prefix caveats =
     fold (\<lambda>cav v. if HasPrefix cav prefix
                    then (case ParseInt (TrimPrefix cav prefix) of None \<Rightarrow> v | Some ts \<Rightarrow> ts) else v) caveats 0"

definition credentialFor :: "string \<Rightarrow> string \<Rightarrow> string \<Rightarrow> (string \<times> int) option" where
  "credentialFor macB64 preimageHex service =
     (case b64_decode macB64 of
        None \<Rightarrow> None
      | Some raw \<Rightarrow>
          (case UnmarshalBinary raw of
             Inl e \<Rightarrow> None
           | Inr mac \<Rightarrow>
               Some (SchemeL402 @ '' '' @ macB64 @ '':'' @ preimageHex,
                     valid_until_of (service @ CaveatValidUntilSfx @ ''='') (mac_Caveats mac))))"

section \<open>Settlement\<close>

record settleOutcome =
  so_Response :: SettlementResponse
  so_Already :: bool
  so_AccountID :: string
  so_Rail :: string
  so_ExternalRef :: string
  so_AmountAtoms :: int
  so_Receipt :: bytes

definition failureResponse :: "('s, 'l, 'b, 'o) GateConfig \<Rightarrow> VerifyError \<Rightarrow> SettlementResponse" where
  "failureResponse g vErr =
     zero_SettlementResponse\<lparr>sr_ErrorReason := ve_Reason vErr, sr_Network := nw_CAIP2 (gc_Network g)\<rparr>"

text \<open>
  What the two branches of \<open>settleFull\<close> prepare: the key that is consumed, the outcome so far and
  the credential.
\<close>

record settle_prep =
  sp_Key :: bytes
  sp_Out :: settleOutcome
  sp_Cred :: "(string \<times> int) option"

definition prep_lightning ::
  "('s, 'l, 'b, 'o) GateConfig \<Rightarrow> time \<Rightarrow> StoreChallenge \<Rightarrow> LightningPayload \<Rightarrow> (VerifyError, settle_prep) result" where
  "prep_lightning g now ch pay =
     (case accountFromMacaroon (sc_MacaroonB64 ch) of
        None \<Rightarrow> Inl (verifyErrf ReasonUnexpectedSettle ''derive account id'')
      | Some acct \<Rightarrow>
          Inr \<lparr>sp_Key = sc_PaymentHash ch,
               sp_Out = \<lparr>so_Response = zero_SettlementResponse\<lparr>sr_Success := True,
                            sr_Transaction := hex_encode (sc_PaymentHash ch), sr_Network := nw_CAIP2 (gc_Network g),
                            sr_Amount := FormatInt (sc_AmountAtoms ch)\<rparr>,
                         so_Already = False, so_AccountID = acct, so_Rail = MethodLightning,
                         so_ExternalRef = ''ln:'' @ hex_encode (sc_PaymentHash ch),
                         so_AmountAtoms = sc_AmountAtoms ch,
                         so_Receipt = json_print (jmap [(''invoice'', JStr (sc_Invoice ch)), (''preimage'', JStr (lp_Preimage pay)),
                            (''settledAt'', JStr (rfc3339 now)), (''amount'', JStr (FormatInt (sc_AmountAtoms ch)))])\<rparr>,
               sp_Cred = credentialFor (sc_MacaroonB64 ch) (lp_Preimage pay) (gc_Service g)\<rparr>)"

definition prep_onchain ::
  "('s, 'l, 'b, 'o) GateConfig \<Rightarrow> time \<Rightarrow> OnchainChallenge \<Rightarrow> OnchainPayload \<Rightarrow> (VerifyError, settle_prep) result" where
  "prep_onchain g now oc pay =
     (case accountFromMacaroon (oc_MacaroonB64 oc) of
        None \<Rightarrow> Inl (verifyErrf ReasonUnexpectedSettle ''derive account id'')
      | Some acct \<Rightarrow>
          Inr \<lparr>sp_Key = sha256 (''dcr402/onchain/'' @ op_TxID pay @ ''/'' @ oc_Address oc),
               sp_Out = \<lparr>so_Response = zero_SettlementResponse\<lparr>sr_Success := True,
                            sr_Transaction := op_TxID pay, sr_Network := nw_CAIP2 (gc_Network g),
                            sr_Amount := FormatInt (oc_AmountAtoms oc)\<rparr>,
                         so_Already = False, so_AccountID = acct, so_Rail = MethodOnchain,
                         so_ExternalRef = ''onchain:'' @ op_TxID pay @ '':'' @ oc_Address oc,
                         so_AmountAtoms = oc_AmountAtoms oc,
                         so_Receipt = json_print (jmap [(''txid'', JStr (op_TxID pay)), (''payTo'', JStr (oc_Address oc)),
                            (''settledAt'', JStr (rfc3339 now)), (''amount'', JStr (FormatInt (oc_AmountAtoms oc)))])\<rparr>,
               sp_Cred = credentialFor (oc_MacaroonB64 oc) (oc_CredentialPreimage oc) (gc_Service g)\<rparr>)"

definition settle_prepare ::
  "('s, 'l, 'b, 'o) GateConfig \<Rightarrow> time \<Rightarrow> PaymentPayload \<Rightarrow> ('s, 'l, 'b, 'o) world \<Rightarrow>
   (VerifyError, settle_prep) result \<times> ('s, 'l, 'b, 'o) world" where
  "settle_prepare g now pp w =
     (let m = TransferMethod (pp_Accepted pp) in
      if m = MethodLightning then
        (case verifyLightning g now pp w of
           (Inl ve, w) \<Rightarrow> (Inl ve, w)
         | (Inr (ch, pay), w) \<Rightarrow> (prep_lightning g now ch pay, w))
      else if m = MethodOnchain then
        (case verifyOnchain g now pp w of
           (Inl ve, w) \<Rightarrow> (Inl ve, w)
         | (Inr (oc, pay), w) \<Rightarrow> (prep_onchain g now oc pay, w))
      else (Inl (verifyErrf ReasonInvalidPayload ''unknown assetTransferMethod''), w))"

definition deliver_extension :: "(string \<times> int) \<Rightarrow> Extension" where
  "deliver_extension cred =
     \<lparr>ext_Info = Some (jmap ((''authorization'', JStr (fst cred)) #
        (if snd cred > 0 then [(''validUntil'', enc_int (snd cred))] else []))),
      ext_Schema = Some l402DeliverSchema\<rparr>"

text \<open>The response with the credential and, when a key is configured, the signed receipt.\<close>

definition finish_response ::
  "('s, 'l, 'b, 'o) GateConfig \<Rightarrow> time \<Rightarrow> PaymentPayload \<Rightarrow> settle_prep \<Rightarrow> SettlementResponse" where
  "finish_response g now pp p =
     (let resp = so_Response (sp_Out p);
          resp = (case sp_Cred p of None \<Rightarrow> resp
                  | Some cred \<Rightarrow> resp\<lparr>sr_Extensions := [(ExtensionL402, deliver_extension cred)]\<rparr>);
          resURL = (case pp_Resource pp of None \<Rightarrow> [] | Some r \<Rightarrow> ri_URL r)
      in case receiptExtension g resURL (sr_Network resp) (sr_Payer resp) (sr_Transaction resp) (Unix now) of
           None \<Rightarrow> resp
         | Some ext \<Rightarrow> resp\<lparr>sr_Extensions := mput ExtensionOfferReceipt ext (sr_Extensions resp)\<rparr>)"

definition settleFull ::
  "('s, 'l, 'b, 'o) GateConfig \<Rightarrow> time \<Rightarrow> PaymentPayload \<Rightarrow> int \<Rightarrow> ('s, 'l, 'b, 'o) world \<Rightarrow>
   (VerifyError, settleOutcome) result \<times> ('s, 'l, 'b, 'o) world" where
  "settleFull g now pp requiredAtoms w =
     (case envelopeChecks g pp of
        Some ve \<Rightarrow> (Inl ve, w)
      | None \<Rightarrow>
          (case settle_prepare g now pp w of
             (Inl ve, w) \<Rightarrow> (Inl ve, w)
           | (Inr p, w) \<Rightarrow>
               if requiredAtoms > 0 \<and> so_AmountAtoms (sp_Out p) < requiredAtoms
               then (Inl (verifyErrf ReasonInvalidRequirements (''settled amount '' @ FormatInt (so_AmountAtoms (sp_Out p)) @
                       '' is below the '' @ FormatInt requiredAtoms @ '' required for this resource'')), w)
               else (let resp = finish_response g now pp p in
                     case st_Settle (gc_Store g) (sp_Key p) (json_print (json_SettlementResponse resp)) now (w_store w) of
                       (Inl e, s) \<Rightarrow> (Inl (verifyErrf ReasonUnexpectedSettle ''settle''), w\<lparr>w_store := s\<rparr>)
                     | (Inr (stored, already), s) \<Rightarrow>
                         (case unmarshal_into resp dec_SettlementResponse (json_unmarshal stored) of
                            None \<Rightarrow> (Inl (verifyErrf ReasonUnexpectedSettle ''stored response''), w\<lparr>w_store := s\<rparr>)
                          | Some r \<Rightarrow> (Inr ((sp_Out p)\<lparr>so_Response := r, so_Already := already\<rparr>), w\<lparr>w_store := s\<rparr>)))))"

definition Gate_Settle ::
  "('s, 'l, 'b, 'o) GateConfig \<Rightarrow> time \<Rightarrow> PaymentPayload \<Rightarrow> int \<Rightarrow> ('s, 'l, 'b, 'o) world \<Rightarrow>
   (VerifyError, SettlementResponse \<times> bool) result \<times> ('s, 'l, 'b, 'o) world" where
  "Gate_Settle g now pp requiredAtoms w =
     (case settleFull g now pp requiredAtoms w of
        (Inl ve, w) \<Rightarrow> (Inl ve, w)
      | (Inr out, w) \<Rightarrow> (Inr (so_Response out, so_Already out), w))"

end
