(* ===== verification/GateServe.thy ===== *)
theory GateServe
  imports GateVerify
begin

text \<open>
  The HTTP side of the gate, \<open>lib/gate.go\<close>: \<open>Require\<close> with the precedence of credentials over
  payment proofs over bare requests, the challenge and failure responses.  What a handler writes
  is an \<open>HttpOut\<close>: the status, the header lines, the body, and whether the protected handler
  (\<open>next.ServeHTTP\<close>) was run, in which case status and body are the handler's own.
\<close>

datatype http_body = NoBody | JsonBody json | TextBody string

record HttpOut =
  ho_Status :: int
  ho_Header :: "(string \<times> string) list"
  ho_Body :: http_body
  ho_Next :: bool

definition StatusOK :: int where "StatusOK = 200"
definition StatusBadRequest :: int where "StatusBadRequest = 400"
definition StatusUnauthorized :: int where "StatusUnauthorized = 401"
definition StatusPaymentRequired :: int where "StatusPaymentRequired = 402"
definition StatusInternalServerError :: int where "StatusInternalServerError = 500"

lemmas status_defs = StatusOK_def StatusBadRequest_def StatusUnauthorized_def StatusPaymentRequired_def
  StatusInternalServerError_def

definition header_set :: "string \<Rightarrow> string \<Rightarrow> (string \<times> string) list \<Rightarrow> (string \<times> string) list" where
  "header_set k v hs = filter (\<lambda>(k', _). \<not> EqualFold k' k) hs @ [(k, v)]"

definition http_json :: "int \<Rightarrow> (string \<times> string) list \<Rightarrow> json \<Rightarrow> HttpOut" where
  "http_json status hs body =
     \<lparr>ho_Status = status, ho_Header = header_set ''Content-Type'' ''application/json'' hs, ho_Body = JsonBody body,
      ho_Next = False\<rparr>"

definition http_error :: "string \<Rightarrow> int \<Rightarrow> HttpOut" where
  "http_error msg status = \<lparr>ho_Status = status, ho_Header = [], ho_Body = TextBody msg, ho_Next = False\<rparr>"

definition run_next :: "(string \<times> string) list \<Rightarrow> HttpOut" where
  "run_next hs = \<lparr>ho_Status = 0, ho_Header = hs, ho_Body = NoBody, ho_Next = True\<rparr>"

section \<open>Responses\<close>

definition writeChallengeHeaders :: "challengeArtifacts \<Rightarrow> (string \<times> string) list \<Rightarrow> (string \<times> string) list" where
  "writeChallengeHeaders art hs =
     header_set HeaderPaymentRequired (EncodeHeader (json_PaymentRequired (ca_PaymentRequired art)))
       (hs @ WriteChallenge (ca_Macaroon art) (ca_Invoice art))"

definition respondChallenge ::
  "('s, 'l, 'b, 'o) GateConfig \<Rightarrow> time \<Rightarrow> HttpRequest \<Rightarrow> int \<Rightarrow> int \<Rightarrow> string \<Rightarrow>
   ('s, 'l, 'b, 'o) world \<Rightarrow> HttpOut \<times> ('s, 'l, 'b, 'o) world" where
  "respondChallenge g now r amountAtoms status note w =
     (case buildChallenge g now (resourceFor g r) [] amountAtoms (discoveryExtensions g r) w of
        (Inl e, w) \<Rightarrow> (http_error ''building payment challenge'' StatusInternalServerError, w)
      | (Inr art, w) \<Rightarrow>
          (http_json status (writeChallengeHeaders art [])
             (jmap [(''error'', JStr ''payment_required''), (''detail'', JStr note),
                    (''amount'', JStr (pr_Amount (hd (rq_Accepts (ca_PaymentRequired art))))), (''asset'', JStr AssetDCR)]), w))"

definition respondPaymentFailure ::
  "('s, 'l, 'b, 'o) GateConfig \<Rightarrow> time \<Rightarrow> HttpRequest \<Rightarrow> int \<Rightarrow> VerifyError \<Rightarrow>
   ('s, 'l, 'b, 'o) world \<Rightarrow> HttpOut \<times> ('s, 'l, 'b, 'o) world" where
  "respondPaymentFailure g now r amountAtoms vErr w =
     (let hs = header_set HeaderPaymentResponse (EncodeHeader (json_SettlementResponse (failureResponse g vErr))) [] in
      if ve_Reason vErr = ReasonInsufficientConfs
      then (http_json StatusPaymentRequired hs
              (jmap [(''status'', JStr ''pending''), (''reason'', JStr (ve_Reason vErr)), (''detail'', JStr (ve_Detail vErr))]), w)
      else (case buildChallenge g now (resourceFor g r) [] amountAtoms (discoveryExtensions g r) w of
              (art, w) \<Rightarrow>
                (http_json StatusPaymentRequired (case art of Inl e \<Rightarrow> hs | Inr a \<Rightarrow> writeChallengeHeaders a hs)
                   (jmap [(''error'', JStr ''payment_verification_failed''), (''reason'', JStr (ve_Reason vErr))]), w)))"

section \<open>Serving\<close>

definition servePayment ::
  "('s, 'l, 'b, 'o) GateConfig \<Rightarrow> time \<Rightarrow> HttpRequest \<Rightarrow> int \<Rightarrow> string \<Rightarrow>
   ('s, 'l, 'b, 'o) world \<Rightarrow> HttpOut \<times> ('s, 'l, 'b, 'o) world" where
  "servePayment g now r amountAtoms sig w =
     (case DecodeHeader zero_PaymentPayload dec_PaymentPayload sig of
        Inl e \<Rightarrow> respondPaymentFailure g now r amountAtoms (verifyErrf ReasonInvalidPayload ''PAYMENT-SIGNATURE'') w
      | Inr pp \<Rightarrow>
          if gc_PaymentIDEnabled g \<and> (case extractPaymentID pp of Some i \<Rightarrow> \<not> validPaymentID i | None \<Rightarrow> False)
          then respondPaymentFailure g now r amountAtoms (verifyErrf ReasonInvalidPayload ''payment-identifier id is malformed'') w
          else if gc_PaymentIDEnabled g \<and> extractPaymentID pp = None \<and> gc_PaymentIDRequired g
          then (http_json StatusBadRequest []
                  (jmap [(''error'', JStr ''payment_identifier_required''),
                         (''detail'', JStr ''this resource requires the payment-identifier extension id'')]), w)
          else (case Gate_Settle g now pp amountAtoms w of
                  (Inl vErr, w) \<Rightarrow> respondPaymentFailure g now r amountAtoms vErr w
                | (Inr (resp, already), w) \<Rightarrow>
                    (let hs = header_set HeaderPaymentResponse (EncodeHeader (json_SettlementResponse resp)) [] in
                     if already
                     then (http_json StatusOK hs
                             (jmap [(''status'', JStr ''already_settled''),
                                    (''hint'', JStr ''present the L402 credential from extensions.l402 for access'')]), w)
                     else (run_next hs, w))))"

text \<open>The first part of \<open>serve\<close>: whether a credential was presented, and whether it is good.\<close>

datatype credential_status = NoCredential | GoodCredential | BadCredential

definition check_credential ::
  "('s, 'l, 'b, 'o) GateConfig \<Rightarrow> time \<Rightarrow> HttpRequest \<Rightarrow> ('s, 'l, 'b, 'o) world \<Rightarrow>
   credential_status \<times> ('s, 'l, 'b, 'o) world" where
  "check_credential g now r w =
     (let authz = header_get (hr_Header r) ''Authorization'' in
      if authz = [] then (NoCredential, w)
      else (case ParseAuthorization authz of
              None \<Rightarrow> (NoCredential, w)
            | Some (Inl perr) \<Rightarrow> (BadCredential, w)
            | Some (Inr (macs, preimage)) \<Rightarrow>
                (case authorizeToken g now macs preimage w of
                   (None, w) \<Rightarrow> (BadCredential, w)
                 | (Some account, w) \<Rightarrow> (GoodCredential, w))))"

definition gate_serve ::
  "('s, 'l, 'b, 'o) GateConfig \<Rightarrow> time \<Rightarrow> HttpRequest \<Rightarrow> int \<Rightarrow>
   ('s, 'l, 'b, 'o) world \<Rightarrow> HttpOut \<times> ('s, 'l, 'b, 'o) world" where
  "gate_serve g now r amountAtoms w =
     (let sig = header_get (hr_Header r) HeaderPaymentSignature in
      case check_credential g now r w of
        (GoodCredential, w) \<Rightarrow> (run_next [], w)
      | (BadCredential, w) \<Rightarrow>
          (if sig = [] then respondChallenge g now r amountAtoms StatusUnauthorized ''invalid or expired L402 credential'' w
           else servePayment g now r amountAtoms sig w)
      | (NoCredential, w) \<Rightarrow>
          (if sig \<noteq> [] then servePayment g now r amountAtoms sig w
           else respondChallenge g now r amountAtoms StatusPaymentRequired ''payment required'' w))"

end
