(* ===== verification/GateSafety.thy ===== *)
theory GateSafety
  imports GateServe
begin

text \<open>
  What the gate guarantees.  The locale \<open>payment_gate\<close> is a gate over any store that meets the
  store contract; it is interpreted on the SQLite and on the in-memory store.  Its lemmas follow
  one request through the code: what every operation keeps of the store, what a successful
  verification has established, and when the protected handler runs.
\<close>

section \<open>What successful checks establish\<close>

lemma hex32_Some: "hex32 s = Some b \<longleftrightarrow> hex_decode s = Some b \<and> length b = 32"
  by (auto simp: hex32_def split: option.splits)

lemma check_invoice_ok:
  "check_invoice iv acc now = None \<Longrightarrow>
   \<exists>d a m. iv_Destination iv = Some d \<and> EqualFold (hex_encode d) (pr_PayTo acc) \<and>
     ParseInt (pr_Amount acc) = Some a \<and> 0 < a \<and> iv_MilliAt iv = Some m \<and> wrap64 m = mul64 a 1000 \<and>
     (\<forall>t. now = Some t \<longrightarrow> t \<le> iv_Timestamp iv + iv_Expiry iv)"
  by (auto simp: check_invoice_def Let_def split: option.splits if_splits)

text \<open>A proof that passes \<open>VerifyLightningProof\<close>, spelled out.\<close>

definition proof_ok ::
  "(string \<Rightarrow> Network \<Rightarrow> Invoice option) \<Rightarrow> PaymentPayload \<Rightarrow> PaymentRequirements \<Rightarrow> Network \<Rightarrow> time option \<Rightarrow>
   LightningExtra \<Rightarrow> LightningPayload \<Rightarrow> bool" where
  "proof_ok decode pp offered net now extra pay \<longleftrightarrow>
     unmarshal_into zero_LightningExtra dec_LightningExtra (pr_Extra (pp_Accepted pp)) = Some extra \<and>
     unmarshal_into zero_LightningPayload dec_LightningPayload (pp_Payload pp) = Some pay \<and>
     EqualSemantic (pp_Accepted pp) offered \<and>
     (\<exists>hash preimage iv. hex_decode (le_PaymentHash extra) = Some hash \<and> length hash = 32 \<and>
        hex_decode (lp_Preimage pay) = Some preimage \<and> length preimage = 32 \<and> sha256 preimage = hash \<and>
        HasPrefix (le_Invoice extra) (nw_HRP net) \<and> decode (le_Invoice extra) net = Some iv \<and>
        iv_PaymentHash iv = Some hash \<and> check_invoice iv (pp_Accepted pp) now = None)"

lemma VerifyLightningProof_ok:
  "VerifyLightningProof decode pp offered net now = Inr pay \<Longrightarrow> \<exists>extra. proof_ok decode pp offered net now extra pay"
  unfolding VerifyLightningProof_def proof_ok_def Let_def
  by (auto simp: hex32_Some split: option.splits if_splits)

lemma verifyLightning_Inr:
  assumes "verifyLightning g now pp w = (Inr (ch, pay), w')"
  shows "\<exists>extra hash s offered.
    unmarshal_into zero_LightningExtra dec_LightningExtra (pr_Extra (pp_Accepted pp)) = Some extra \<and>
    hex32 (le_PaymentHash extra) = Some hash \<and>
    st_GetChallenge (gc_Store g) hash (w_store w) = (Inr ch, s) \<and> now \<le> sc_ExpiresAt ch \<and>
    unmarshal_into zero_PaymentRequirements dec_PaymentRequirements (json_unmarshal (sc_Requirements ch)) = Some offered \<and>
    VerifyLightningProof (gc_Decode g) pp offered (gc_Network g) None = Inr pay \<and>
    check_node_settled g hash (w\<lparr>w_store := s\<rparr>) = (None, w')"
  using assms unfolding verifyLightning_def Let_def
  by (auto split: option.splits if_splits prod.splits sum.splits)

lemma check_node_settled_None:
  "check_node_settled g h w = (None, w') \<Longrightarrow>
   \<exists>st b. ib_LookupInvoice (gc_Backend g) h (w_backend w) = (Inr st, b) \<and> is_Settled st \<and> w' = w\<lparr>w_backend := b\<rparr>"
  by (auto simp: check_node_settled_def split: prod.splits sum.splits if_splits)

lemma check_node_settled_store: "check_node_settled g h w = (r, w') \<Longrightarrow> w_store w' = w_store w"
  by (auto simp: check_node_settled_def split: prod.splits sum.splits if_splits)

lemma check_deposit_ok:
  "check_deposit dep oc now = None \<Longrightarrow>
   ds_Found dep \<and> ds_AmountToAddressAtoms dep = oc_AmountAtoms oc \<and> ds_AmountToAddressAtoms dep \<noteq> 0 \<and>
   oc_Confirmations oc \<le> ds_Confirmations dep"
  by (auto simp: check_deposit_def split: if_splits)

lemma verifyOnchain_Inr:
  assumes "verifyOnchain g now pp w = (Inr (oc, pay), w')"
  shows "\<exists>s offered ob dep c.
    unmarshal_into zero_OnchainPayload dec_OnchainPayload (pp_Payload pp) = Some pay \<and> op_TxID pay \<noteq> [] \<and>
    st_GetOnchainChallenge (gc_Store g) (pr_PayTo (pp_Accepted pp)) (w_store w) = (Inr oc, s) \<and>
    unmarshal_into zero_PaymentRequirements dec_PaymentRequirements (json_unmarshal (oc_Requirements oc)) = Some offered \<and>
    EqualSemantic (pp_Accepted pp) offered \<and> gc_Onchain g = Some ob \<and>
    ob_LookupDeposit ob (op_TxID pay) (oc_Address oc) (w_onchain w) = (Inr dep, c) \<and>
    check_deposit dep oc now = None \<and> w' = w\<lparr>w_store := s, w_onchain := c\<rparr>"
  using assms unfolding verifyOnchain_def Let_def
  by (auto split: option.splits if_splits prod.splits sum.splits)

text \<open>
  The facts a settlement rests on, over the store contents \<open>V\<close> and the node and wallet states
  before the request.
\<close>

definition lightning_paid ::
  "('s, 'l, 'b, 'o) GateConfig \<Rightarrow> store_view \<Rightarrow> time \<Rightarrow> PaymentPayload \<Rightarrow> 'b \<Rightarrow> StoreChallenge \<Rightarrow> bool" where
  "lightning_paid g V now pp node ch \<longleftrightarrow>
     (\<exists>extra pay hash offered st b.
        proof_ok (gc_Decode g) pp offered (gc_Network g) None extra pay \<and>
        hex_decode (le_PaymentHash extra) = Some hash \<and> sv_challenges V hash = Some ch \<and> now \<le> sc_ExpiresAt ch \<and>
        unmarshal_into zero_PaymentRequirements dec_PaymentRequirements (json_unmarshal (sc_Requirements ch)) = Some offered \<and>
        ib_LookupInvoice (gc_Backend g) hash node = (Inr st, b) \<and> is_Settled st)"

definition onchain_paid ::
  "('s, 'l, 'b, 'o) GateConfig \<Rightarrow> store_view \<Rightarrow> PaymentPayload \<Rightarrow> 'o \<Rightarrow> OnchainChallenge \<Rightarrow> string \<Rightarrow> bool" where
  "onchain_paid g V pp wallet oc txid \<longleftrightarrow>
     (\<exists>offered ob dep c.
        sv_onchain V (pr_PayTo (pp_Accepted pp)) = Some oc \<and>
        unmarshal_into zero_PaymentRequirements dec_PaymentRequirements (json_unmarshal (oc_Requirements oc)) = Some offered \<and>
        EqualSemantic (pp_Accepted pp) offered \<and> gc_Onchain g = Some ob \<and>
        ob_LookupDeposit ob txid (oc_Address oc) wallet = (Inr dep, c) \<and>
        ds_Found dep \<and> ds_AmountToAddressAtoms dep = oc_AmountAtoms oc \<and> oc_Confirmations oc \<le> ds_Confirmations dep)"

definition credential_valid :: "('s, 'l, 'b, 'o) GateConfig \<Rightarrow> store_view \<Rightarrow> time \<Rightarrow> string \<Rightarrow> bool" where
  "credential_valid g V now authz \<longleftrightarrow>
     (\<exists>mac ms pre i rk. ParseAuthorization authz = Some (Inr (mac # ms, pre)) \<and> Macaroon_Identifier mac = Inr i \<and>
        sv_rootKeys V (StorageKey i) = Some rk \<and>
        VerifyToken now rk mac pre \<lparr>vo_Service = gc_Service g, vo_Capability = [], vo_Now = Some now\<rparr> = Inr ())"

section \<open>What the operations keep of the store\<close>

locale payment_gate = gate_store "gc_Store g" view
  for g :: "('s, 'l, 'b, 'o) GateConfig" and view :: "'s \<Rightarrow> store_view"
begin

lemma expired_reason_view: "expired_reason g h w = (e, w') \<Longrightarrow> view (w_store w') = view (w_store w)"
  by (auto simp: expired_reason_def split: prod.splits dest: settled)

lemma verifyLightning_view: "verifyLightning g now pp w = (r, w') \<Longrightarrow> view (w_store w') = view (w_store w)"
  unfolding verifyLightning_def Let_def
  by (auto split: option.splits if_splits prod.splits sum.splits
      dest!: get_challenge expired_reason_view check_node_settled_store)

lemma verifyOnchain_view: "verifyOnchain g now pp w = (r, w') \<Longrightarrow> view (w_store w') = view (w_store w)"
  unfolding verifyOnchain_def Let_def
  by (auto split: option.splits if_splits prod.splits sum.splits dest!: get_onchain)

lemma settle_prepare_view: "settle_prepare g now pp w = (r, w') \<Longrightarrow> view (w_store w') = view (w_store w)"
  unfolding settle_prepare_def Let_def
  by (auto split: if_splits prod.splits sum.splits dest: verifyLightning_view verifyOnchain_view)

lemma authorizeToken_view: "authorizeToken g now macs pre w = (r, w') \<Longrightarrow> view (w_store w') = view (w_store w)"
  unfolding authorizeToken_def
  by (auto split: list.splits sum.splits prod.splits dest!: get_root)

lemma check_credential_view: "check_credential g now r w = (c, w') \<Longrightarrow> view (w_store w') = view (w_store w)"
  unfolding check_credential_def Let_def
  by (auto split: if_splits option.splits sum.splits prod.splits dest: authorizeToken_view)

lemma mintCredential_settlements:
  "mintCredential g h t now w = (r, w') \<Longrightarrow> sv_settlements (view (w_store w')) = sv_settlements (view (w_store w))"
  unfolding mintCredential_def Let_def rand_read_def
  by (auto split: option.splits sum.splits prod.splits dest!: put_root)

lemma buildChallenge_settlements:
  "buildChallenge g now res bind n extra w = (r, w') \<Longrightarrow>
   sv_settlements (view (w_store w')) = sv_settlements (view (w_store w))"
  unfolding buildChallenge_def Let_def rand_read_def
  by (auto split: if_splits option.splits sum.splits prod.splits dest!: put_challenge mintCredential_settlements)

text \<open>A settlement that succeeds consumes its key; one that fails consumes nothing.\<close>

lemma settleFull_cases:
  assumes "settleFull g now pp req w = (r, w')"
  shows "case r of
      Inl ve \<Rightarrow> view (w_store w') = view (w_store w) \<or>
        (\<exists>p w1 stored already. settle_prepare g now pp w = (Inr p, w1) \<and>
           st_Settle (gc_Store g) (sp_Key p) (json_print (json_SettlementResponse (finish_response g now pp p))) now (w_store w1)
             = (Inr (stored, already), w_store w') \<and>
           unmarshal_into (finish_response g now pp p) dec_SettlementResponse (json_unmarshal stored) = None)
    | Inr out \<Rightarrow>
        (\<exists>p w1 stored. envelopeChecks g pp = None \<and> settle_prepare g now pp w = (Inr p, w1) \<and>
           (0 < req \<longrightarrow> req \<le> so_AmountAtoms (sp_Out p)) \<and>
           st_Settle (gc_Store g) (sp_Key p) (json_print (json_SettlementResponse (finish_response g now pp p))) now (w_store w1)
             = (Inr (stored, so_Already out), w_store w') \<and>
           so_AmountAtoms out = so_AmountAtoms (sp_Out p) \<and> so_ExternalRef out = so_ExternalRef (sp_Out p) \<and>
           so_AccountID out = so_AccountID (sp_Out p) \<and>
           unmarshal_into (finish_response g now pp p) dec_SettlementResponse (json_unmarshal stored) = Some (so_Response out))"
proof (cases "envelopeChecks g pp")
  case (Some ve)
  with assms show ?thesis by (auto simp: settleFull_def)
next
  case None
  obtain q w1 where q: "settle_prepare g now pp w = (q, w1)" by (cases "settle_prepare g now pp w")
  note v = settle_prepare_view [OF q]
  show ?thesis
  proof (cases q)
    case (Inl ve)
    with assms None q v show ?thesis by (auto simp: settleFull_def)
  next
    case (Inr p)
    let ?resp = "finish_response g now pp p"
    obtain x s where x: "st_Settle (gc_Store g) (sp_Key p) (json_print (json_SettlementResponse ?resp)) now (w_store w1) = (x, s)"
      by (cases "st_Settle (gc_Store g) (sp_Key p) (json_print (json_SettlementResponse ?resp)) now (w_store w1)")
    show ?thesis
    proof (cases "0 < req \<and> so_AmountAtoms (sp_Out p) < req")
      case True
      with assms None q Inr v show ?thesis by (auto simp: settleFull_def)
    next
      case False
      show ?thesis
      proof (cases x)
        case (Inl e)
        with settle [OF x] have "view s = view (w_store w1)" by simp
        with assms None q \<open>q = Inr p\<close> False x Inl v show ?thesis by (auto simp: settleFull_def Let_def split: if_splits)
      next
        case (Inr y)
        obtain stored already where y: "y = (stored, already)" by (cases y)
        with assms None q \<open>q = Inr p\<close> False x Inr have
          "(r, w') = (case unmarshal_into ?resp dec_SettlementResponse (json_unmarshal stored) of
              None \<Rightarrow> (Inl (verifyErrf ReasonUnexpectedSettle ''stored response''), w1\<lparr>w_store := s\<rparr>)
            | Some r \<Rightarrow> (Inr ((sp_Out p)\<lparr>so_Response := r, so_Already := already\<rparr>), w1\<lparr>w_store := s\<rparr>))"
          by (auto simp: settleFull_def Let_def split: if_splits)
        with None q \<open>q = Inr p\<close> False x Inr y show ?thesis
          by (cases "unmarshal_into ?resp dec_SettlementResponse (json_unmarshal stored)") auto
      qed
    qed
  qed
qed

lemma settleFull_consumes:
  assumes "settleFull g now pp req w = (Inr out, w')"
  shows "\<exists>p w1. settle_prepare g now pp w = (Inr p, w1) \<and> (0 < req \<longrightarrow> req \<le> so_AmountAtoms (sp_Out p)) \<and>
    (if so_Already out then sv_settlements (view (w_store w)) (sp_Key p) \<noteq> None \<and> view (w_store w') = view (w_store w)
     else sv_settlements (view (w_store w)) (sp_Key p) = None \<and>
       sv_settlements (view (w_store w')) = (sv_settlements (view (w_store w)))(sp_Key p \<mapsto>
         json_print (json_SettlementResponse (finish_response g now pp p))))"
proof -
  from settleFull_cases [OF assms] obtain p w1 stored where
    p: "settle_prepare g now pp w = (Inr p, w1)" "0 < req \<longrightarrow> req \<le> so_AmountAtoms (sp_Out p)"
    and s: "st_Settle (gc_Store g) (sp_Key p) (json_print (json_SettlementResponse (finish_response g now pp p))) now (w_store w1)
       = (Inr (stored, so_Already out), w_store w')" by auto
  from settle [OF s] settle_prepare_view [OF p(1)] p show ?thesis
    by (cases "sv_settlements (view (w_store w)) (sp_Key p)") auto
qed

lemma settleFull_touches:
  assumes "settleFull g now pp req w = (Inr out, w')"
  shows "\<exists>m. view (w_store w') = (view (w_store w))\<lparr>sv_settlements := m\<rparr>"
proof -
  from settleFull_cases [OF assms] obtain p w1 stored where
    p: "settle_prepare g now pp w = (Inr p, w1)"
    and s: "st_Settle (gc_Store g) (sp_Key p) (json_print (json_SettlementResponse (finish_response g now pp p))) now (w_store w1)
       = (Inr (stored, so_Already out), w_store w')" by auto
  have "\<exists>m. x = x\<lparr>sv_settlements := m\<rparr>" for x :: store_view by (rule exI [of _ "sv_settlements x"]) simp
  with settle [OF s] settle_prepare_view [OF p] show ?thesis
    by (cases "sv_settlements (view (w_store w)) (sp_Key p)") auto
qed

lemma settle_settlements:
  assumes "st_Settle (gc_Store g) h resp at s = (r, s')"
  shows "sv_settlements (view s) \<subseteq>\<^sub>m sv_settlements (view s')"
  using settle [OF assms] by (auto simp: map_le_def split: sum.splits option.splits)

lemma settleFull_settlements:
  assumes "settleFull g now pp req w = (r, w')"
  shows "sv_settlements (view (w_store w)) \<subseteq>\<^sub>m sv_settlements (view (w_store w'))"
proof (cases r)
  case (Inl ve)
  from settleFull_cases [OF assms] Inl show ?thesis
    using settle_settlements settle_prepare_view by fastforce
next
  case (Inr out)
  from settleFull_consumes [OF assms [unfolded Inr]] show ?thesis
    by (auto simp: map_le_def split: if_splits)
qed

text \<open>When the handler runs.\<close>

lemma respond_not_next:
  "respondChallenge g now r n st note w = (out, w') \<Longrightarrow> \<not> ho_Next out"
  "respondPaymentFailure g now r n ve w = (out, w') \<Longrightarrow> \<not> ho_Next out"
  by (auto simp: respondChallenge_def respondPaymentFailure_def http_json_def http_error_def Let_def
      split: prod.splits sum.splits if_splits)

lemma respond_settlements:
  "respondChallenge g now r n st note w = (out, w') \<Longrightarrow> sv_settlements (view (w_store w')) = sv_settlements (view (w_store w))"
  "respondPaymentFailure g now r n ve w = (out, w') \<Longrightarrow> sv_settlements (view (w_store w')) = sv_settlements (view (w_store w))"
  by (auto simp: respondChallenge_def respondPaymentFailure_def Let_def
      split: prod.splits sum.splits if_splits dest!: buildChallenge_settlements)

lemma servePayment_split:
  assumes "servePayment g now r n sig w = (out, w')"
  obtains (bad) ve where "respondPaymentFailure g now r n ve w = (out, w')"
    | (missing) "w' = w" "\<not> ho_Next out"
    | (failed) pp ve w1 where "settleFull g now pp n w = (Inl ve, w1)" "respondPaymentFailure g now r n ve w1 = (out, w')"
    | (ok) pp so where "DecodeHeader zero_PaymentPayload dec_PaymentPayload sig = Inr pp"
        "settleFull g now pp n w = (Inr so, w')" "ho_Next out \<longrightarrow> \<not> so_Already so"
proof (cases "DecodeHeader zero_PaymentPayload dec_PaymentPayload sig")
  case (Inl e)
  then have "respondPaymentFailure g now r n (verifyErrf ReasonInvalidPayload ''PAYMENT-SIGNATURE'') w = (out, w')"
    using assms by (simp add: servePayment_def)
  then show thesis by (rule bad)
next
  case (Inr pp)
  obtain q w1 where q: "settleFull g now pp n w = (q, w1)" by (cases "settleFull g now pp n w")
  consider ve where "respondPaymentFailure g now r n ve w = (out, w')" | "w' = w" "\<not> ho_Next out"
    | ve where "q = Inl ve" "respondPaymentFailure g now r n ve w1 = (out, w')"
    | so where "q = Inr so" "w' = w1" "ho_Next out \<longrightarrow> \<not> so_Already so"
    using assms Inr q
    by (auto simp: servePayment_def Gate_Settle_def Let_def http_json_def run_next_def
        split: if_splits sum.splits prod.splits)
  then show thesis
  proof cases
    case 1
    then show thesis by (rule bad)
  next
    case 2
    then show thesis by (rule missing)
  next
    case 3
    then show thesis using failed q by blast
  next
    case 4
    then show thesis using ok [OF Inr] q by blast
  qed
qed

lemma servePayment_cases:
  assumes "servePayment g now r n sig w = (out, w')"
  shows "sv_settlements (view (w_store w)) \<subseteq>\<^sub>m sv_settlements (view (w_store w')) \<and>
    (ho_Next out \<longrightarrow> (\<exists>pp so. DecodeHeader zero_PaymentPayload dec_PaymentPayload sig = Inr pp \<and>
       settleFull g now pp n w = (Inr so, w') \<and> \<not> so_Already so))"
  using assms
proof (cases rule: servePayment_split)
  case bad
  then show ?thesis using respond_not_next(2) respond_settlements(2) by fastforce
next
  case missing
  then show ?thesis by simp
next
  case failed
  then show ?thesis using respond_not_next(2) respond_settlements(2) settleFull_settlements by fastforce
next
  case ok
  then show ?thesis using settleFull_settlements by blast
qed

lemma gate_serve_cases:
  assumes "gate_serve g now r n w = (out, w')"
  shows "sv_settlements (view (w_store w)) \<subseteq>\<^sub>m sv_settlements (view (w_store w')) \<and>
    (ho_Next out \<longrightarrow>
       check_credential g now r w = (GoodCredential, w') \<and> ho_Header out = [] \<or>
       (\<exists>pp w1 so. DecodeHeader zero_PaymentPayload dec_PaymentPayload (header_get (hr_Header r) HeaderPaymentSignature) = Inr pp \<and>
          view (w_store w1) = view (w_store w) \<and> w_backend w1 = w_backend w \<and> w_onchain w1 = w_onchain w \<and>
          settleFull g now pp n w1 = (Inr so, w') \<and> \<not> so_Already so))"
proof -
  obtain c w1 where c: "check_credential g now r w = (c, w1)" by (cases "check_credential g now r w")
  note v = check_credential_view [OF c]
  have same: "w_backend w1 = w_backend w \<and> w_onchain w1 = w_onchain w"
    using c by (auto simp: check_credential_def authorizeToken_def Let_def
        split: if_splits option.splits sum.splits prod.splits list.splits)
  let ?sig = "header_get (hr_Header r) HeaderPaymentSignature"
  consider "c = GoodCredential" "out = run_next []" "w' = w1"
    | "servePayment g now r n ?sig w1 = (out, w')"
    | st nt where "respondChallenge g now r n st nt w1 = (out, w')"
    using assms c by (cases c) (auto simp: gate_serve_def Let_def split: if_splits)
  then show ?thesis
  proof cases
    case 1
    then show ?thesis using c v by (simp add: run_next_def)
  next
    case 2
    from servePayment_cases [OF 2] v same show ?thesis by fastforce
  next
    case 3
    then show ?thesis using respond_not_next(1) respond_settlements(1) v by fastforce
  qed
qed

text \<open>One request settles at most one new key.\<close>

lemma settle_grows:
  "st_Settle (gc_Store g) h resp at s = (r, s') \<Longrightarrow> dom (sv_settlements (view s')) \<subseteq> insert h (dom (sv_settlements (view s)))"
  using settle [of h resp at s r s'] by (auto split: sum.splits option.splits)

lemma settleFull_grows:
  assumes "settleFull g now pp req w = (r, w')"
  shows "\<exists>k. dom (sv_settlements (view (w_store w'))) \<subseteq> insert k (dom (sv_settlements (view (w_store w))))"
proof (cases r)
  case (Inl ve)
  then show ?thesis
    using settleFull_cases [OF assms] settle_grows settle_prepare_view by (auto, metis)
next
  case (Inr out)
  from settleFull_consumes [OF assms [unfolded Inr]] show ?thesis by (auto split: if_splits)
qed

lemma gate_serve_grows:
  assumes "gate_serve g now r n w = (out, w')"
  shows "\<exists>k. dom (sv_settlements (view (w_store w'))) \<subseteq> insert k (dom (sv_settlements (view (w_store w))))"
proof -
  obtain c w1 where c: "check_credential g now r w = (c, w1)" by (cases "check_credential g now r w")
  note v = check_credential_view [OF c]
  let ?sig = "header_get (hr_Header r) HeaderPaymentSignature"
  consider "w' = w1" | "servePayment g now r n ?sig w1 = (out, w')"
    | st nt where "respondChallenge g now r n st nt w1 = (out, w')"
    using assms c by (cases c) (auto simp: gate_serve_def Let_def split: if_splits)
  then show ?thesis
  proof cases
    case 1
    then show ?thesis using v by auto
  next
    case 3
    then show ?thesis using respond_settlements(1) v by fastforce
  next
    case 2
    then show ?thesis
    proof (cases rule: servePayment_split)
      case bad
      then show ?thesis using respond_settlements(2) v by fastforce
    next
      case missing
      then show ?thesis using v by auto
    next
      case (failed pp ve w2)
      then show ?thesis using settleFull_grows [OF failed(1)] respond_settlements(2) [OF failed(2)] v by simp
    next
      case (ok pp so)
      then show ?thesis using settleFull_grows [OF ok(2)] v by simp
    qed
  qed
qed

text \<open>What stands behind a prepared settlement, and so behind a request that reached the handler by payment.\<close>

lemma settle_prepare_proved:
  assumes "settle_prepare g now pp w = (Inr p, w1)"
  shows "(\<exists>ch. sp_Key p = sc_PaymentHash ch \<and> lightning_paid g (view (w_store w)) now pp (w_backend w) ch \<and>
        so_AmountAtoms (sp_Out p) = sc_AmountAtoms ch \<and> accountFromMacaroon (sc_MacaroonB64 ch) = Some (so_AccountID (sp_Out p))) \<or>
     (\<exists>oc txid. sp_Key p = sha256 (''dcr402/onchain/'' @ txid @ ''/'' @ oc_Address oc) \<and>
        onchain_paid g (view (w_store w)) pp (w_onchain w) oc txid \<and> so_AmountAtoms (sp_Out p) = oc_AmountAtoms oc \<and>
        accountFromMacaroon (oc_MacaroonB64 oc) = Some (so_AccountID (sp_Out p)))"
proof -
  consider (ln) ch pay where "verifyLightning g now pp w = (Inr (ch, pay), w1)" "prep_lightning g now ch pay = Inr p"
    | (oc) oc pay where "verifyOnchain g now pp w = (Inr (oc, pay), w1)" "prep_onchain g now oc pay = Inr p"
    using assms unfolding settle_prepare_def Let_def by (auto split: if_splits prod.splits sum.splits)
  then show ?thesis
  proof cases
    case ln
    from verifyLightning_Inr [OF ln(1)] obtain extra hash s offered where
      v: "unmarshal_into zero_LightningExtra dec_LightningExtra (pr_Extra (pp_Accepted pp)) = Some extra"
        "hex32 (le_PaymentHash extra) = Some hash" "st_GetChallenge (gc_Store g) hash (w_store w) = (Inr ch, s)"
        "now \<le> sc_ExpiresAt ch"
        "unmarshal_into zero_PaymentRequirements dec_PaymentRequirements (json_unmarshal (sc_Requirements ch)) = Some offered"
        "VerifyLightningProof (gc_Decode g) pp offered (gc_Network g) None = Inr pay"
        "check_node_settled g hash (w\<lparr>w_store := s\<rparr>) = (None, w1)" by blast
    from VerifyLightningProof_ok [OF v(6)] v(1) have "proof_ok (gc_Decode g) pp offered (gc_Network g) None extra pay"
      by (auto simp: proof_ok_def)
    moreover from check_node_settled_None [OF v(7)] obtain st b where
      "ib_LookupInvoice (gc_Backend g) hash (w_backend w) = (Inr st, b)" "is_Settled st" by auto
    moreover have "sv_challenges (view (w_store w)) hash = Some ch" using get_challenge [OF v(3)] by simp
    ultimately have "lightning_paid g (view (w_store w)) now pp (w_backend w) ch"
      using v(2,4,5) unfolding lightning_paid_def hex32_Some by blast
    moreover have "sp_Key p = sc_PaymentHash ch" "so_AmountAtoms (sp_Out p) = sc_AmountAtoms ch"
      "accountFromMacaroon (sc_MacaroonB64 ch) = Some (so_AccountID (sp_Out p))"
      using ln(2) by (auto simp: prep_lightning_def split: option.splits)
    ultimately show ?thesis by blast
  next
    case oc
    from verifyOnchain_Inr [OF oc(1)] obtain s offered ob dep c where
      v: "st_GetOnchainChallenge (gc_Store g) (pr_PayTo (pp_Accepted pp)) (w_store w) = (Inr oc, s)"
        "unmarshal_into zero_PaymentRequirements dec_PaymentRequirements (json_unmarshal (oc_Requirements oc)) = Some offered"
        "EqualSemantic (pp_Accepted pp) offered" "gc_Onchain g = Some ob"
        "ob_LookupDeposit ob (op_TxID pay) (oc_Address oc) (w_onchain w) = (Inr dep, c)"
        "check_deposit dep oc now = None" by blast
    have "sv_onchain (view (w_store w)) (pr_PayTo (pp_Accepted pp)) = Some oc" using get_onchain [OF v(1)] by simp
    with v check_deposit_ok [OF v(6)] have "onchain_paid g (view (w_store w)) pp (w_onchain w) oc (op_TxID pay)"
      unfolding onchain_paid_def by blast
    moreover have "sp_Key p = sha256 (''dcr402/onchain/'' @ op_TxID pay @ ''/'' @ oc_Address oc)"
      "so_AmountAtoms (sp_Out p) = oc_AmountAtoms oc" "accountFromMacaroon (oc_MacaroonB64 oc) = Some (so_AccountID (sp_Out p))"
      using oc(2) by (auto simp: prep_onchain_def split: option.splits)
    ultimately show ?thesis by blast
  qed
qed

lemma settleFull_proved:
  assumes "settleFull g now pp req w = (Inr so, w')" and "\<not> so_Already so"
  shows "\<exists>key. sv_settlements (view (w_store w)) key = None \<and> sv_settlements (view (w_store w')) key \<noteq> None \<and>
    ((\<exists>ch. key = sc_PaymentHash ch \<and> lightning_paid g (view (w_store w)) now pp (w_backend w) ch \<and>
        (0 < req \<longrightarrow> req \<le> sc_AmountAtoms ch)) \<or>
     (\<exists>oc txid. key = sha256 (''dcr402/onchain/'' @ txid @ ''/'' @ oc_Address oc) \<and>
        onchain_paid g (view (w_store w)) pp (w_onchain w) oc txid \<and> (0 < req \<longrightarrow> req \<le> oc_AmountAtoms oc)))"
proof -
  from settleFull_consumes [OF assms(1)] assms(2) obtain p w1 where
    p: "settle_prepare g now pp w = (Inr p, w1)" "0 < req \<longrightarrow> req \<le> so_AmountAtoms (sp_Out p)"
    and k: "sv_settlements (view (w_store w)) (sp_Key p) = None" "sv_settlements (view (w_store w')) (sp_Key p) \<noteq> None" by auto
  from settle_prepare_proved [OF p(1)] k p(2) show ?thesis by metis
qed

lemma check_credential_good:
  assumes "check_credential g now r w = (GoodCredential, w')"
  shows "credential_valid g (view (w_store w)) now (header_get (hr_Header r) ''Authorization'')"
  using assms unfolding check_credential_def authorizeToken_def Let_def credential_valid_def
  by (auto split: if_splits option.splits sum.splits prod.splits list.splits dest!: get_root)

end

section \<open>One proof, one key\<close>

text \<open>The key a payload settles: the payment hash, or the hash of transaction and address.\<close>

definition settle_key :: "PaymentPayload \<Rightarrow> bytes" where
  "settle_key pp =
     (if TransferMethod (pp_Accepted pp) = MethodLightning
      then opt_default [] (hex_decode (le_PaymentHash (opt_default zero_LightningExtra
             (unmarshal_into zero_LightningExtra dec_LightningExtra (pr_Extra (pp_Accepted pp))))))
      else sha256 (''dcr402/onchain/'' @ op_TxID (opt_default zero_OnchainPayload
             (unmarshal_into zero_OnchainPayload dec_OnchainPayload (pp_Payload pp))) @ ''/'' @ pr_PayTo (pp_Accepted pp)))"

text \<open>
  What happens at a gate between two requests: the store is written by other operations, and the
  node and the wallet move on.
\<close>

record ('b, 'o) gate_event =
  ev_Store :: "store_op list"
  ev_Backend :: 'b
  ev_Onchain :: 'o
  ev_Now :: time
  ev_Request :: HttpRequest
  ev_Amount :: int

definition gate_event_step ::
  "('s, 'l, 'b, 'o) GateConfig \<Rightarrow> ('b, 'o) gate_event \<Rightarrow> ('s, 'l, 'b, 'o) world \<Rightarrow> HttpOut \<times> ('s, 'l, 'b, 'o) world" where
  "gate_event_step g e w =
     gate_serve g (ev_Now e) (ev_Request e) (ev_Amount e)
       (w\<lparr>w_store := store_run (gc_Store g) (ev_Store e) (w_store w), w_backend := ev_Backend e, w_onchain := ev_Onchain e\<rparr>)"

fun gate_run ::
  "('s, 'l, 'b, 'o) GateConfig \<Rightarrow> ('b, 'o) gate_event list \<Rightarrow> ('s, 'l, 'b, 'o) world \<Rightarrow> (HttpRequest \<times> HttpOut) list" where
  "gate_run g [] w = []"
| "gate_run g (e # es) w = (case gate_event_step g e w of (out, w') \<Rightarrow> (ev_Request e, out) # gate_run g es w')"

text \<open>A request served on a settlement rather than on a credential, by a proof of key \<open>k\<close>.\<close>

definition served_by :: "bytes \<Rightarrow> HttpRequest \<times> HttpOut \<Rightarrow> bool" where
  "served_by k x = (case x of (r, out) \<Rightarrow>
     ho_Next out \<and> ho_Header out \<noteq> [] \<and>
     (case DecodeHeader zero_PaymentPayload dec_PaymentPayload (header_get (hr_Header r) HeaderPaymentSignature) of
        Inl _ \<Rightarrow> False | Inr pp \<Rightarrow> settle_key pp = k))"

lemma map_le_None: "m \<subseteq>\<^sub>m m' \<Longrightarrow> m' k = None \<Longrightarrow> m k = None"
  by (auto simp: map_le_def dom_def)

locale keyed_gate = payment_gate g view for g :: "('s, 'l, 'b, 'o) GateConfig" and view +
  assumes challenge_key: "st_GetChallenge (gc_Store g) h s = (Inr c, s') \<Longrightarrow> sc_PaymentHash c = h"
    and onchain_key: "st_GetOnchainChallenge (gc_Store g) a s = (Inr oc, s') \<Longrightarrow> oc_Address oc = a"
begin

lemma settle_prepare_key:
  assumes "settle_prepare g now pp w = (Inr p, w1)"
  shows "sp_Key p = settle_key pp"
proof (cases "TransferMethod (pp_Accepted pp) = MethodLightning")
  case True
  with assms obtain ch pay where v: "verifyLightning g now pp w = (Inr (ch, pay), w1)" "prep_lightning g now ch pay = Inr p"
    by (auto simp: settle_prepare_def split: prod.splits sum.splits)
  from verifyLightning_Inr [OF v(1)] v(2) True show ?thesis
    by (auto simp: settle_key_def prep_lightning_def hex32_Some split: option.splits dest: challenge_key)
next
  case False
  with assms obtain oc pay where v: "verifyOnchain g now pp w = (Inr (oc, pay), w1)" "prep_onchain g now oc pay = Inr p"
    by (auto simp: settle_prepare_def Let_def split: prod.splits sum.splits if_splits)
  from verifyOnchain_Inr [OF v(1)] v(2) False show ?thesis
    by (auto simp: settle_key_def prep_onchain_def split: option.splits dest!: onchain_key)
qed

lemma event_keeps:
  assumes "gate_event_step g e w = (out, w')"
  shows "sv_settlements (view (w_store w)) \<subseteq>\<^sub>m sv_settlements (view (w_store w'))"
  using map_le_trans [OF run_keeps_settlements [of "w_store w" "ev_Store e"]] gate_serve_cases [OF assms [unfolded gate_event_step_def]]
  by simp

lemma served_by_fresh:
  assumes "gate_event_step g e w = (out, w')" and "served_by k (ev_Request e, out)"
  shows "sv_settlements (view (w_store w)) k = None \<and> sv_settlements (view (w_store w')) k \<noteq> None"
proof -
  from assms(2) obtain pp where pp: "ho_Next out" "ho_Header out \<noteq> []"
      "DecodeHeader zero_PaymentPayload dec_PaymentPayload (header_get (hr_Header (ev_Request e)) HeaderPaymentSignature) = Inr pp"
      "settle_key pp = k"
    unfolding served_by_def prod.case by (elim conjE) (cases "DecodeHeader zero_PaymentPayload dec_PaymentPayload
      (header_get (hr_Header (ev_Request e)) HeaderPaymentSignature)"; simp)
  let ?s = "store_run (gc_Store g) (ev_Store e) (w_store w)"
  from gate_serve_cases [OF assms(1) [unfolded gate_event_step_def]] pp(1-3) obtain w1 so where
    w1: "view (w_store w1) = view ?s" "settleFull g (ev_Now e) pp (ev_Amount e) w1 = (Inr so, w')" "\<not> so_Already so"
    by (elim conjE impE disjE exE) simp_all
  from settleFull_consumes [OF w1(2)] w1(3) obtain p w2 where
    p: "settle_prepare g (ev_Now e) pp w1 = (Inr p, w2)" "sv_settlements (view (w_store w1)) (sp_Key p) = None"
      "sv_settlements (view (w_store w')) (sp_Key p) \<noteq> None" by auto
  with settle_prepare_key [OF p(1)] pp(4) w1(1) have "sv_settlements (view ?s) k = None" "sv_settlements (view (w_store w')) k \<noteq> None"
    by simp_all
  then show ?thesis using map_le_None [OF run_keeps_settlements [of "w_store w" "ev_Store e"]] by simp
qed

lemma served_by_never_again:
  assumes "sv_settlements (view (w_store w)) k \<noteq> None"
  shows "filter (served_by k) (gate_run g es w) = []"
  using assms
proof (induction es arbitrary: w)
  case (Cons e es)
  obtain out w' where s: "gate_event_step g e w = (out, w')" by (cases "gate_event_step g e w")
  have "sv_settlements (view (w_store w')) k \<noteq> None"
    by (rule contrapos_nn [OF Cons.prems]) (rule map_le_None [OF event_keeps [OF s]])
  moreover have "\<not> served_by k (ev_Request e, out)" using served_by_fresh [OF s, of k] Cons.prems by (cases "served_by k (ev_Request e, out)") simp_all
  ultimately show ?case using Cons.IH s by simp
qed simp

lemma served_by_once: "length (filter (served_by k) (gate_run g es w)) \<le> 1"
proof (induction es arbitrary: w)
  case (Cons e es)
  obtain out w' where s: "gate_event_step g e w = (out, w')" by (cases "gate_event_step g e w")
  show ?case
  proof (cases "served_by k (ev_Request e, out)")
    case True
    with served_by_never_again [of w' k es] served_by_fresh [OF s] s show ?thesis by simp
  next
    case False
    then show ?thesis using Cons.IH s by simp
  qed
qed simp

end

section \<open>Both stores\<close>

text \<open>A configuration keeps its other fields when its store is named.\<close>

interpretation mem_gate: payment_gate "g\<lparr>gc_Store := MemoryStore\<rparr>" mem_view for g :: "(store_mem, 'l, 'b, 'o) GateConfig"
  by (simp add: payment_gate_def mem_store.gate_store_axioms)

interpretation sq_gate: payment_gate "g\<lparr>gc_Store := SQLiteStore clock\<rparr>" db_view
  for g :: "(store_db conn, 'l, 'b, 'o) GateConfig" and clock
  by (simp add: payment_gate_def sq_store.gate_store_axioms)

lemma Sq_GetChallenge_key:
  assumes "Sq_GetChallenge h s = (Inr c, s')"
  shows "sc_PaymentHash c = h"
  using sq_get_challenge [OF assms] by (auto simp: db_view_def rows_view_def challenge_of_def)

lemma Sq_GetOnchain_key:
  assumes "Sq_GetOnchainChallenge a s = (Inr oc, s')"
  shows "oc_Address oc = a"
  using sq_get_onchain [OF assms] by (auto simp: db_view_def rows_view_def onchain_of_def)

interpretation sq_keyed: keyed_gate "g\<lparr>gc_Store := SQLiteStore clock\<rparr>" db_view
  for g :: "(store_db conn, 'l, 'b, 'o) GateConfig" and clock
  by unfold_locales (auto simp: SQLiteStore_def dest: Sq_GetChallenge_key Sq_GetOnchain_key)

end
