(* ===== verification/GateComplete.thy ===== *)
theory GateComplete
  imports GateSafety
begin

text \<open>
  The buyer's side of the contract: an honest payment is accepted.  A payload that names the offered
  entry, with the preimage of an invoice the node reports settled, settles; the credential the
  settlement delivers is accepted by the same gate until it expires.
\<close>

section \<open>Decoding what the gate wrote\<close>

lemma unmarshal_LightningExtra [simp]:
  "unmarshal_into zero_LightningExtra dec_LightningExtra (Some (json_LightningExtra e)) = Some e"
  by (cases e) (simp add: unmarshal_into_def dec_LightningExtra_def json_LightningExtra_def zero_LightningExtra_def field_defs)

lemma unmarshal_LightningPayload [simp]:
  "unmarshal_into zero_LightningPayload dec_LightningPayload (Some (json_LightningPayload p)) = Some p"
  by (cases p) (simp add: unmarshal_into_def dec_LightningPayload_def json_LightningPayload_def zero_LightningPayload_def field_defs)

lemma unmarshal_PaymentRequirements [simp]:
  "in_int64 (pr_MaxTimeoutSeconds p) \<Longrightarrow>
   unmarshal_into zero_PaymentRequirements dec_PaymentRequirements (Some (json_PaymentRequirements p)) = Some p"
  by (simp add: unmarshal_into_def)

lemma TransferMethod_lightning [simp]:
  "pr_Extra p = Some (json_LightningExtra e) \<Longrightarrow> TransferMethod p = le_AssetTransferMethod e"
  by (simp add: TransferMethod_def unmarshal_into_def json_LightningExtra_def field_defs)

lemma EqualSemantic_refl: "pr_Extra p = Some j \<Longrightarrow> decode_any j \<noteq> None \<Longrightarrow> EqualSemantic p p"
  by (auto simp: EqualSemantic_def jsonValueEqual_iff)

lemma wf_json_LightningExtra [simp]: "wf_json (json_LightningExtra e)"
  by (simp add: json_LightningExtra_def)

lemma wf_json_LightningPayload [simp]: "wf_json (json_LightningPayload e)"
  by (simp add: json_LightningPayload_def)

lemma wf_members_mput: "wf_members m \<Longrightarrow> wf_json v \<Longrightarrow> wf_members (mput k v m)"
proof (induction m)
  case (Cons kv m)
  then show ?case by (cases kv) auto
qed simp

lemma wf_members_fold_mput:
  "wf_members kvs \<Longrightarrow> wf_members m \<Longrightarrow> wf_members (fold (\<lambda>(k, v) m. mput k v m) kvs m)"
proof (induction kvs arbitrary: m)
  case (Cons kv kvs)
  then show ?case by (cases kv) (auto simp: wf_members_mput)
qed simp

lemma wf_json_jmap [simp]: "wf_members kvs \<Longrightarrow> wf_json (jmap kvs)"
  by (simp add: jmap_def mmap_def wf_members_fold_mput)

lemma mput_same: "sorted_keys m \<Longrightarrow> (k, v) \<in> set m \<Longrightarrow> mput k v m = m"
proof (induction m)
  case (Cons kv m)
  then show ?case by (cases kv) (force simp: sorted_keys_def)
qed simp

lemma fold_mput_same:
  "sorted_keys m \<Longrightarrow> set kvs \<subseteq> set m \<Longrightarrow> fold (\<lambda>(k, v) m. mput k v m) kvs m = m"
proof (induction kvs)
  case (Cons kv kvs)
  then show ?case by (cases kv) (auto simp: mput_same)
qed simp

lemma dec_Extensions_self [simp]:
  assumes "wf_Extensions m"
  shows "dec_Extensions m (json_Extensions m) = (m, True)"
proof -
  have e: "dec_Extension zero_Extension (json_Extension e) = (e, True)" if "(k, e) \<in> set m" for k e
    using assms that by (auto simp: wf_Extensions_def wf_Extension_def list_all_iff intro!: dec_Extension_json)
  have "fold (\<lambda>(k, v) acc. mput k (fst (dec_Extension zero_Extension v)) acc) (map (\<lambda>(k, x). (k, json_Extension x)) kvs) acc
      = fold (\<lambda>(k, v) m. mput k v m) kvs acc" if "set kvs \<subseteq> set m" for kvs acc
    using that e by (induction kvs arbitrary: acc) auto
  then show ?thesis
    using assms e fold_mput_same [of m m]
    by (force simp: dec_Extensions_def dec_map_def json_Extensions_def wf_Extensions_def list_all_iff)
qed

lemma dec_SettlementResponse_over [simp]:
  "wf_Extensions (sr_Extensions r) \<Longrightarrow> dec_SettlementResponse r (json_SettlementResponse r) = (r, True)"
  by (cases r) (auto simp: dec_SettlementResponse_def json_SettlementResponse_def field_defs)

text \<open>\<open>settleFull\<close> decodes the stored bytes over the response it built; the first time, they are the same.\<close>

lemma dec_SettlementResponse_self:
  "wf_Extensions (sr_Extensions r) \<Longrightarrow>
   unmarshal_into r dec_SettlementResponse (json_unmarshal (json_print (json_SettlementResponse r))) = Some r"
  by (simp add: unmarshal_into_def)

section \<open>An honest lightning proof verifies\<close>

text \<open>What the node promises of an invoice it created for \<open>n\<close> atoms and the preimage \<open>pre\<close>.\<close>

definition good_invoice :: "('s, 'l, 'b, 'o) GateConfig \<Rightarrow> int \<Rightarrow> string \<Rightarrow> bytes \<Rightarrow> bool" where
  "good_invoice g n invoice pre \<longleftrightarrow>
     length pre = 32 \<and> invoice \<noteq> [] \<and> HasPrefix invoice (nw_HRP (gc_Network g)) \<and>
     (\<exists>iv d. gc_Decode g invoice (gc_Network g) = Some iv \<and> iv_PaymentHash iv = Some (sha256 pre) \<and>
        iv_Destination iv = Some d \<and> EqualFold (hex_encode d) (gc_PayTo g) \<and> iv_MilliAt iv = Some (n * 1000))"

definition lightning_proof :: "bytes \<Rightarrow> json" where
  "lightning_proof pre = json_LightningPayload \<lparr>lp_Preimage = hex_encode pre, lp_PaymentHash = hex_encode (sha256 pre)\<rparr>"

lemma sha256_not_Nil [simp]: "sha256 m \<noteq> []"
  by (metis length_0_conv length_sha256 zero_neq_numeral)

lemma hex32_encode [simp]: "length b = 32 \<Longrightarrow> hex32 (hex_encode b) = Some b"
  by (simp add: hex32_def)

lemma VerifyLightningProof_complete:
  assumes "good_invoice g n invoice pre" and "0 < n" and "in_int64 n"
    and "pp_Accepted pp = lightning_entry g n invoice (sha256 pre)" and "pp_Payload pp = Some (lightning_proof pre)"
  shows "VerifyLightningProof (gc_Decode g) pp (lightning_entry g n invoice (sha256 pre)) (gc_Network g) None =
    Inr \<lparr>lp_Preimage = hex_encode pre, lp_PaymentHash = hex_encode (sha256 pre)\<rparr>"
proof -
  let ?e = "lightning_entry g n invoice (sha256 pre)"
  from assms(1) obtain iv d where iv: "gc_Decode g invoice (gc_Network g) = Some iv" "iv_PaymentHash iv = Some (sha256 pre)"
    "iv_Destination iv = Some d" "EqualFold (hex_encode d) (gc_PayTo g)" "iv_MilliAt iv = Some (n * 1000)"
    "length pre = 32" "invoice \<noteq> []" "HasPrefix invoice (nw_HRP (gc_Network g))"
    unfolding good_invoice_def by blast
  have "EqualSemantic ?e ?e" by (rule EqualSemantic_refl, simp add: lightning_entry_def) (simp add: json_LightningExtra_def)
  moreover have "check_invoice iv ?e None = None"
    using iv assms(2,3) by (simp add: check_invoice_def lightning_entry_def)
  moreover have "pre \<noteq> []" using iv(6) by auto
  ultimately show ?thesis
    using iv assms(4,5) by (simp add: VerifyLightningProof_def lightning_entry_def lightning_proof_def Let_def)
qed

section \<open>An honest payment settles\<close>

lemma accountFromMacaroon_marshal:
  "wf_Macaroon m \<Longrightarrow> Macaroon_Identifier m = Inr i \<Longrightarrow>
   accountFromMacaroon (b64_encode (MarshalBinary m)) = Some (hex_encode (id_TokenID i))"
  by (simp add: accountFromMacaroon_def UnmarshalBinary_Marshal)

lemma credentialFor_marshal:
  "wf_Macaroon m \<Longrightarrow> credentialFor (b64_encode (MarshalBinary m)) pre service =
     Some (AuthorizationValue m pre, valid_until_of (service @ CaveatValidUntilSfx @ ''='') (mac_Caveats m))"
  by (simp add: credentialFor_def UnmarshalBinary_Marshal AuthorizationValue_def)

lemma verifyLightning_complete:
  assumes "good_invoice g n invoice pre" and "0 < n" and "in_int64 n" and "in_int64 (Seconds (gc_ChallengeTTL g))"
    and "pp_Accepted pp = lightning_entry g n invoice (sha256 pre)" and "pp_Payload pp = Some (lightning_proof pre)"
    and "st_GetChallenge (gc_Store g) (sha256 pre) (w_store w) = (Inr ch, s)" and "now \<le> sc_ExpiresAt ch"
    and "sc_Requirements ch = json_print (json_PaymentRequirements (lightning_entry g n invoice (sha256 pre)))"
    and "ib_LookupInvoice (gc_Backend g) (sha256 pre) (w_backend w) = (Inr st, b)" and "is_Settled st"
  shows "verifyLightning g now pp w =
    (Inr (ch, \<lparr>lp_Preimage = hex_encode pre, lp_PaymentHash = hex_encode (sha256 pre)\<rparr>), w\<lparr>w_store := s, w_backend := b\<rparr>)"
proof -
  let ?e = "lightning_entry g n invoice (sha256 pre)"
  have x: "pr_Extra ?e = Some (json_LightningExtra \<lparr>le_AssetTransferMethod = MethodLightning, le_Invoice = invoice,
      le_PaymentHash = hex_encode (sha256 pre)\<rparr>)" and m: "pr_MaxTimeoutSeconds ?e = Seconds (gc_ChallengeTTL g)"
    by (simp_all add: lightning_entry_def)
  have "json_unmarshal (sc_Requirements ch) = Some (json_PaymentRequirements ?e)"
    using assms(9) x by (simp add: wf_raw_def)
  with x show ?thesis
    using assms m VerifyLightningProof_complete [OF assms(1-3,5,6)]
    by (simp add: verifyLightning_def check_node_settled_def Let_def)
qed

lemma wf_Extension_deliver [simp]: "wf_Extension (deliver_extension c)"
  by (simp add: deliver_extension_def wf_Extension_def wf_raw_def l402DeliverSchema_def)

lemma wf_Extension_receipt: "receiptExtension g u nw p t i = Some e \<Longrightarrow> wf_Extension e"
  by (auto simp: receiptExtension_def wf_Extension_def wf_raw_def signedObject_def Let_def split: option.splits)

lemma wf_Extensions_mput: "wf_Extensions m \<Longrightarrow> wf_Extension e \<Longrightarrow> wf_Extensions (mput k e m)"
proof -
  have "list_all (\<lambda>(k, e). wf_Extension e) m \<Longrightarrow> wf_Extension e \<Longrightarrow> list_all (\<lambda>(k, e). wf_Extension e) (mput k e m)"
    by (induction m) auto
  then show "wf_Extensions m \<Longrightarrow> wf_Extension e \<Longrightarrow> wf_Extensions (mput k e m)"
    by (simp add: wf_Extensions_def sorted_keys_mput)
qed

lemma wf_finish_response:
  assumes "sr_Extensions (so_Response (sp_Out p)) = []"
  shows "wf_Extensions (sr_Extensions (finish_response g now pp p))"
proof -
  have "wf_Extensions []" "wf_Extensions [(k, deliver_extension c)]" for k c
    by (simp_all add: wf_Extensions_def sorted_keys_def)
  then show ?thesis
    using assms by (auto simp: finish_response_def Let_def simp del: mput.simps split: option.splits
        intro!: wf_Extensions_mput dest: wf_Extension_receipt)
qed

lemma prep_lightning_extensions: "prep_lightning g now ch pay = Inr p \<Longrightarrow> sr_Extensions (so_Response (sp_Out p)) = []"
  by (auto simp: prep_lightning_def zero_SettlementResponse_def split: option.splits)

text \<open>The world after the honest settlement, and the headers it answers with.\<close>

lemma settleFull_complete:
  assumes "good_invoice g n invoice pre" and "0 < n" and "in_int64 n" and "in_int64 (Seconds (gc_ChallengeTTL g))"
    and pp: "pp_Accepted pp = lightning_entry g n invoice (sha256 pre)" "pp_Payload pp = Some (lightning_proof pre)"
      "pp_X402Version pp = Version"
    and ch: "st_GetChallenge (gc_Store g) (sha256 pre) (w_store w) = (Inr ch, s)" "now \<le> sc_ExpiresAt ch"
      "sc_Requirements ch = json_print (json_PaymentRequirements (lightning_entry g n invoice (sha256 pre)))"
      "sc_MacaroonB64 ch = b64_encode (MarshalBinary mac)" "wf_Macaroon mac" "Macaroon_Identifier mac = Inr i"
      "sc_PaymentHash ch = sha256 pre" "req \<le> sc_AmountAtoms ch"
    and node: "ib_LookupInvoice (gc_Backend g) (sha256 pre) (w_backend w) = (Inr st, b)" "is_Settled st"
    and fresh: "\<And>resp. \<exists>s'. st_Settle (gc_Store g) (sha256 pre) resp now s = (Inr (resp, False), s')"
  shows "\<exists>p w'. prep_lightning g now ch \<lparr>lp_Preimage = hex_encode pre, lp_PaymentHash = hex_encode (sha256 pre)\<rparr> = Inr p \<and>
    settleFull g now pp req w = (Inr ((sp_Out p)\<lparr>so_Response := finish_response g now pp p, so_Already := False\<rparr>), w')"
proof -
  let ?pay = "\<lparr>lp_Preimage = hex_encode pre, lp_PaymentHash = hex_encode (sha256 pre)\<rparr>"
  obtain p where p: "prep_lightning g now ch ?pay = Inr p" "so_AmountAtoms (sp_Out p) = sc_AmountAtoms ch"
      "sp_Key p = sha256 pre"
    using ch accountFromMacaroon_marshal [OF ch(5,6)] by (simp add: prep_lightning_def)
  have env: "envelopeChecks g pp = None"
    using pp by (simp add: envelopeChecks_def CheckEnvelope_def lightning_entry_def)
  have "TransferMethod (pp_Accepted pp) = MethodLightning"
    using pp by (simp add: lightning_entry_def TransferMethod_lightning)
  then have prep: "settle_prepare g now pp w = (Inr p, w\<lparr>w_store := s, w_backend := b\<rparr>)"
    using p verifyLightning_complete [OF assms(1-6) ch(1-3) node] by (simp add: settle_prepare_def)
  obtain s' where "st_Settle (gc_Store g) (sha256 pre) (json_print (json_SettlementResponse (finish_response g now pp p))) now s =
      (Inr (json_print (json_SettlementResponse (finish_response g now pp p)), False), s')" using fresh by blast
  then show ?thesis
    using env prep p ch(8) dec_SettlementResponse_self [OF wf_finish_response [OF prep_lightning_extensions [OF p(1)], of g now pp]]
    by (auto simp: settleFull_def Let_def)
qed

section \<open>The credential works until it expires\<close>

text \<open>Service names the caveat syntax can carry.\<close>

definition clean_name :: "string \<Rightarrow> bool" where
  "clean_name s \<longleftrightarrow> s \<noteq> [] \<and> (\<forall>c\<in>set s. c \<noteq> CHR ''='' \<and> c \<noteq> CHR '':'' \<and> c \<noteq> CHR '','' \<and> \<not> is_space c)"

definition mint_groups :: "('s, 'l, 'b, 'o) GateConfig \<Rightarrow> time \<Rightarrow> (string \<times> string) list" where
  "mint_groups g now =
     [(CaveatServices, gc_Service g @ '':'' @ FormatInt (gc_Tier g))] @
     (if gc_Capabilities g \<noteq> [] then [(gc_Service g @ CaveatCapsSfx, Join (gc_Capabilities g) '','')] else []) @
     [(gc_Service g @ CaveatValidUntilSfx, FormatInt (Unix (now + gc_TokenTTL g)))]"

lemma show_nat_chars: "c \<in> set (show_nat n) \<Longrightarrow> 48 \<le> byte c \<and> byte c \<le> 57"
proof (induction n rule: show_nat.induct)
  case (1 n)
  then show ?case by (subst (asm) show_nat.simps) (auto simp: digit_chr_def split: if_splits)
qed

lemma FormatInt_chars: "c \<in> set (FormatInt v) \<Longrightarrow> c = CHR ''-'' \<or> 48 \<le> byte c \<and> byte c \<le> 57"
  by (auto simp: FormatInt_def split: if_splits dest!: show_nat_chars)

lemma FormatInt_plain:
  "c \<in> set (FormatInt v) \<Longrightarrow> c \<noteq> CHR '','' \<and> c \<noteq> CHR '':'' \<and> c \<noteq> CHR ''='' \<and> \<not> is_space c"
  using FormatInt_chars [of c v] by (auto simp: is_space_def)

lemma split_caveats_Cons:
  "CHR ''='' \<notin> set a \<Longrightarrow> split_caveats cs = Inr gs \<Longrightarrow> split_caveats ((a @ ''='' @ b) # cs) = Inr ((a, b) # gs)"
  by (simp add: Cut_append)

lemma split_mint_caveats: "clean_name (gc_Service g) \<Longrightarrow> split_caveats (mint_caveats g now) = Inr (mint_groups g now)"
proof -
  assume "clean_name (gc_Service g)"
  then have n: "CHR ''='' \<notin> set (gc_Service g @ CaveatCapsSfx)" "CHR ''='' \<notin> set (gc_Service g @ CaveatValidUntilSfx)"
    "CHR ''='' \<notin> set CaveatServices"
    by (auto simp: clean_name_def caveat_names)
  have u: "split_caveats [ValidUntilCaveat (gc_Service g) (now + gc_TokenTTL g)] =
      Inr [(gc_Service g @ CaveatValidUntilSfx, FormatInt (Unix (now + gc_TokenTTL g)))]"
    using split_caveats_Cons [OF n(2), of "[]" "[]"] by (simp add: ValidUntilCaveat_def)
  show ?thesis
    using split_caveats_Cons [OF n(1) u] split_caveats_Cons [OF n(3)] u
    by (simp add: mint_caveats_def mint_groups_def CapabilitiesCaveat_def ServicesCaveat_def del: split_caveats.simps)
qed

lemma parseList_tier:
  assumes "clean_name s"
  shows "parseList (s @ '':'' @ FormatInt t) s \<noteq> None"
proof -
  let ?v = "s @ CHR '':'' # FormatInt t"
  have colon: "\<not> is_space (CHR '':'')" "CHR '','' \<noteq> CHR '':''" by (simp_all add: is_space_def)
  have s: "CHR '':'' \<notin> set s" "CHR '','' \<notin> set s" "\<forall>c\<in>set s. \<not> is_space c"
    using assms unfolding clean_name_def by blast+
  have f: "CHR '','' \<notin> set (FormatInt t)" "\<forall>c\<in>set (FormatInt t). \<not> is_space c" using FormatInt_plain by blast+
  have v: "CHR '','' \<notin> set ?v" "\<forall>c\<in>set ?v. \<not> is_space c"
    using s f colon by (simp_all only: set_append list.set Un_iff insert_iff ball_Un ball_simps not_False_eq_True) simp_all
  have "list_names ?v = [s]"
    unfolding list_names_def Split_single [OF v(1)] by (simp add: TrimSpace_id [OF v(2)] Cut_append [OF s(1)])
  then have "s \<in> set (list_names ?v)" by simp
  then show ?thesis using parseList_dom [of ?v s] by simp
qed

lemma suffix_names:
  "\<not> HasSuffix CaveatServices CaveatValidUntilSfx" "\<not> HasSuffix CaveatServices CaveatCapsSfx"
  "HasSuffix (s @ CaveatValidUntilSfx) CaveatValidUntilSfx" "HasSuffix (s @ CaveatCapsSfx) CaveatCapsSfx"
  "s @ CaveatValidUntilSfx \<noteq> CaveatServices" "s @ CaveatCapsSfx \<noteq> CaveatServices"
  "\<not> HasSuffix (s @ CaveatCapsSfx) CaveatValidUntilSfx" "s @ CaveatCapsSfx \<noteq> s' @ CaveatValidUntilSfx"
  "CaveatValidUntilSfx \<noteq> CaveatCapsSfx"
proof -
  have "length (s @ CaveatValidUntilSfx) > length CaveatServices" "length (s @ CaveatCapsSfx) > length CaveatServices" for s
    by (simp_all add: caveat_names)
  then show "s @ CaveatValidUntilSfx \<noteq> CaveatServices" "s @ CaveatCapsSfx \<noteq> CaveatServices" by (metis less_irrefl)+
  have ends: "last (s @ CaveatCapsSfx) = CHR ''s''" "last (s @ CaveatValidUntilSfx) = CHR ''l''" "CHR ''s'' \<noteq> CHR ''l''" for s
    by (simp_all add: caveat_names)
  have last_s: "last t = CHR ''l''" if "HasSuffix t CaveatValidUntilSfx" for t
    using that ends(2) unfolding HasSuffix_def by (metis append_take_drop_id)
  from ends show "s @ CaveatCapsSfx \<noteq> s' @ CaveatValidUntilSfx" "\<not> HasSuffix (s @ CaveatCapsSfx) CaveatValidUntilSfx"
    using last_s by metis+
qed (simp_all add: HasSuffix_def caveat_names)

lemma mint_caveats_valid:
  assumes "clean_name (gc_Service g)" and "in_int64 (Unix (t + gc_TokenTTL g))"
  shows "verifyCaveats clock (mint_caveats g t) \<lparr>vo_Service = gc_Service g, vo_Capability = [], vo_Now = Some now\<rparr> = Inr () \<longleftrightarrow>
    now < from_unix (Unix (t + gc_TokenTTL g))"
proof -
  let ?o = "\<lparr>vo_Service = gc_Service g, vo_Capability = [], vo_Now = Some now\<rparr>" and ?gs = "mint_groups g t"
  have sv: "verify_condition ?o now CaveatServices (group_vals ?gs CaveatServices) = Inr ()"
    using parseList_tier [OF assms(1)] suffix_names(5,6) [of "gc_Service g", symmetric]
    by (auto simp: mint_groups_def group_vals_def verify_condition_def verifyServicesChain_def suffix_names)
  have cp: "verify_condition ?o now (gc_Service g @ CaveatCapsSfx) (group_vals ?gs (gc_Service g @ CaveatCapsSfx)) = Inr ()"
    if "gc_Capabilities g \<noteq> []"
    using that suffix_names(5,6) [of "gc_Service g", symmetric] by (auto simp: mint_groups_def group_vals_def verify_condition_def verifyCapsChain_def suffix_names)
  have "TrimSpace (FormatInt (Unix (t + gc_TokenTTL g))) = FormatInt (Unix (t + gc_TokenTTL g))"
    using FormatInt_plain by (intro TrimSpace_id) blast
  then have vu: "verify_condition ?o now (gc_Service g @ CaveatValidUntilSfx) (group_vals ?gs (gc_Service g @ CaveatValidUntilSfx)) = Inr ()
      \<longleftrightarrow> now < from_unix (Unix (t + gc_TokenTTL g))"
    using assms(2) suffix_names(8) [of "gc_Service g" "gc_Service g"] suffix_names(5,6) [of "gc_Service g", symmetric]
    by (auto simp: mint_groups_def group_vals_def verify_condition_def verifyValidUntilChain_def suffix_names(1-6))
  have names: "fst ` set ?gs = {CaveatServices, gc_Service g @ CaveatValidUntilSfx} \<union>
      (if gc_Capabilities g \<noteq> [] then {gc_Service g @ CaveatCapsSfx} else {})"
    by (auto simp: mint_groups_def)
  have "verifyCaveats clock (mint_caveats g t) ?o = Inr () \<longleftrightarrow>
      (\<forall>c\<in>fst ` set ?gs. verify_condition ?o now c (group_vals ?gs c) = Inr ()) \<and> CaveatServices \<in> fst ` set ?gs"
    unfolding verifyCaveats_ok_iff split_mint_caveats [OF assms(1)] using assms(1) by (auto simp: clean_name_def)
  also have "\<dots> \<longleftrightarrow> now < from_unix (Unix (t + gc_TokenTTL g))"
    unfolding names using sv cp vu by auto
  finally show ?thesis .
qed

section \<open>From the challenge to the credential\<close>

text \<open>The macaroon a challenge minted at \<open>now\<close> carries.\<close>

definition minted :: "('s, 'l, 'b, 'o) GateConfig \<Rightarrow> time \<Rightarrow> bytes \<Rightarrow> bytes \<Rightarrow> bytes \<Rightarrow> Macaroon" where
  "minted g now rk hash tok = Mint rk \<lparr>id_Version = IdentifierVersion, id_PaymentHash = hash, id_TokenID = tok\<rparr> (mint_caveats g now)"

definition fits :: "('s, 'l, 'b, 'o) GateConfig \<Rightarrow> time \<Rightarrow> bool" where
  "fits g now \<longleftrightarrow> list_all (\<lambda>c. length c < 2 ^ 63) (mint_caveats g now)"

lemma minted_Identifier:
  "length hash = 32 \<Longrightarrow> length tok = 32 \<Longrightarrow>
   Macaroon_Identifier (minted g now rk hash tok) =
     Inr \<lparr>id_Version = IdentifierVersion, id_PaymentHash = hash, id_TokenID = tok\<rparr>"
  unfolding minted_def by (rule Macaroon_Identifier_Mint) (simp_all add: wf_Identifier_def IdentifierVersion_def)

lemma wf_minted:
  "fits g now \<Longrightarrow> length hash = 32 \<Longrightarrow> length tok = 32 \<Longrightarrow> wf_Macaroon (minted g now rk hash tok)"
  by (simp add: wf_Macaroon_def minted_def Mint_def fits_def Identifier_Encode_def)

lemma minted_valid:
  assumes "length pre = 32" and "length tok = 32" and "clean_name (gc_Service g)" and "in_int64 (Unix (t + gc_TokenTTL g))"
  shows "VerifyToken now rk (minted g t rk (sha256 pre) tok) (hex_encode pre)
      \<lparr>vo_Service = gc_Service g, vo_Capability = [], vo_Now = Some now\<rparr> = Inr () \<longleftrightarrow>
    now < from_unix (Unix (t + gc_TokenTTL g))"
  unfolding minted_def using assms
  by (subst VerifyToken_Mint) (simp_all add: mint_caveats_valid wf_Identifier_def IdentifierVersion_def)

text \<open>On any store that hands out the root key, the credential is accepted exactly until it expires.\<close>

lemma credential_accepted:
  assumes "length pre = 32" and "length tok = 32" and "clean_name (gc_Service g)" and "in_int64 (Unix (t + gc_TokenTTL g))"
    and "fits g t" and "header_get (hr_Header r) ''Authorization'' = AuthorizationValue (minted g t rk (sha256 pre) tok) (hex_encode pre)"
    and "st_GetRootKey (gc_Store g) (StorageKey \<lparr>id_Version = IdentifierVersion, id_PaymentHash = sha256 pre, id_TokenID = tok\<rparr>) (w_store w)
           = (Inr rk, s)"
  shows "fst (check_credential g now r w) = GoodCredential \<longleftrightarrow> now < from_unix (Unix (t + gc_TokenTTL g))"
proof -
  let ?m = "minted g t rk (sha256 pre) tok" and ?o = "\<lparr>vo_Service = gc_Service g, vo_Capability = [], vo_Now = Some now\<rparr>"
  have "ParseAuthorization (AuthorizationValue ?m (hex_encode pre)) = Some (Inr ([?m], hex_encode pre))"
    using assms by (intro ParseAuthorization_value wf_minted) auto
  moreover have "AuthorizationValue ?m (hex_encode pre) \<noteq> []" by (simp add: AuthorizationValue_def SchemeL402_def)
  moreover have "fst (authorizeToken g now [?m] (hex_encode pre) w) \<noteq> None \<longleftrightarrow> now < from_unix (Unix (t + gc_TokenTTL g))"
    using assms(7) minted_Identifier [OF length_sha256 assms(2), of g t rk pre]
      minted_valid [OF assms(1-4), of now rk]
    by (auto simp: authorizeToken_def split: sum.splits)
  ultimately show ?thesis using assms(6)
    by (auto simp: check_credential_def Let_def split: prod.splits option.splits)
qed

lemma buildChallenge_complete:
  fixes g :: "(store_mem, 'l, 'b, 'o) GateConfig" and now :: time
  assumes "gc_Store g = MemoryStore" and "0 < n"
    and "ib_CreateInvoice (gc_Backend g) n (gc_Service g @ '' '' @ (if bind = [] then ri_URL res else bind)) (gc_ChallengeTTL g)
      (w_backend w) = (Inr (invoice, hash), b)"
    and "gc_Rand g (w_reads w) = Some tok" and "gc_Rand g (Suc (w_reads w)) = Some rk"
  defines "mac \<equiv> minted g now rk hash tok"
  shows "\<exists>art w1. buildChallenge g now res bind n exts w = (Inr art, w1) \<and>
    rq_Accepts (ca_PaymentRequired art) = [lightning_entry g n invoice hash] \<and> ca_Macaroon art = mac \<and> ca_Invoice art = invoice \<and>
    sm_challenges (w_store w1) hash = Some (lightning_record g n (if bind = [] then ri_URL res else bind) invoice hash mac
      (b64_encode (MarshalBinary mac)) now) \<and>
    sm_rootKeys (w_store w1) (StorageKey \<lparr>id_Version = IdentifierVersion, id_PaymentHash = hash, id_TokenID = tok\<rparr>) = Some rk \<and>
    sm_settlements (w_store w1) = sm_settlements (w_store w)"
  using assms
  by (simp add: buildChallenge_def mintCredential_def rand_read_def Let_def mem_store_defs minted_def lightning_record_def)

text \<open>The request an honest buyer sends once the invoice is paid.\<close>

definition honest_request :: "HttpRequest \<Rightarrow> PaymentRequirements \<Rightarrow> bytes \<Rightarrow> bool" where
  "honest_request r entry pre \<longleftrightarrow>
     header_get (hr_Header r) ''Authorization'' = [] \<and>
     (\<exists>pp. header_get (hr_Header r) HeaderPaymentSignature = EncodeHeader (json_PaymentPayload pp) \<and> wf_PaymentPayload pp \<and>
        pp_X402Version pp = Version \<and> pp_Accepted pp = entry \<and> pp_Payload pp = Some (lightning_proof pre))"

lemma finish_response_credential:
  assumes "sp_Cred p = Some cred" and "sr_Extensions (so_Response (sp_Out p)) = []"
  shows "map_of (sr_Extensions (finish_response g now pp p)) ExtensionL402 = Some (deliver_extension cred)"
  using assms by (auto simp: finish_response_def Let_def ExtensionL402_def ExtensionOfferReceipt_def split: option.splits)

text \<open>What the answer to the honest request tells the buyer.\<close>

definition delivers :: "HttpOut \<Rightarrow> string \<Rightarrow> bool" where
  "delivers out authz \<longleftrightarrow>
     (\<exists>resp u. DecodeHeader zero_SettlementResponse dec_SettlementResponse (header_get (ho_Header out) HeaderPaymentResponse) = Inr resp \<and>
        sr_Success resp \<and> map_of (sr_Extensions resp) ExtensionL402 = Some (deliver_extension (authz, u)))"

lemma EncodeHeader_not_Nil [simp]: "EncodeHeader (json_PaymentPayload p) \<noteq> []"
  by (simp add: EncodeHeader_def json_PaymentPayload_def)

lemma header_set_single: "header_set k v [] = [(k, v)]"
  by (simp add: header_set_def)

lemma serve_complete:
  assumes id: "\<not> gc_PaymentIDEnabled g"
    and inv: "good_invoice g n invoice pre" "0 < n" "in_int64 n" "in_int64 (Seconds (gc_ChallengeTTL g))"
    and mac: "wf_Macaroon mac" "Macaroon_Identifier mac = Inr i"
    and ch: "st_GetChallenge (gc_Store g) (sha256 pre) (w_store w) = (Inr ch, s)" "t \<le> sc_ExpiresAt ch"
      "sc_Requirements ch = json_print (json_PaymentRequirements (lightning_entry g n invoice (sha256 pre)))"
      "sc_MacaroonB64 ch = b64_encode (MarshalBinary mac)" "sc_PaymentHash ch = sha256 pre" "req \<le> sc_AmountAtoms ch"
    and fresh: "\<And>resp. \<exists>s'. st_Settle (gc_Store g) (sha256 pre) resp t s = (Inr (resp, False), s')"
    and node: "ib_LookupInvoice (gc_Backend g) (sha256 pre) (w_backend w) = (Inr st, b)" "is_Settled st"
    and req: "honest_request r (lightning_entry g n invoice (sha256 pre)) pre"
  shows "\<exists>pp so out w'. settleFull g t pp req w = (Inr so, w') \<and> \<not> so_Already so \<and> gate_serve g t r req w = (out, w') \<and>
    ho_Next out \<and> delivers out (AuthorizationValue mac (hex_encode pre))"
proof -
  from req obtain pp where pp: "header_get (hr_Header r) HeaderPaymentSignature = EncodeHeader (json_PaymentPayload pp)"
      "wf_PaymentPayload pp" "pp_X402Version pp = Version" "pp_Accepted pp = lightning_entry g n invoice (sha256 pre)"
      "pp_Payload pp = Some (lightning_proof pre)" and no: "header_get (hr_Header r) ''Authorization'' = []"
    unfolding honest_request_def by blast
  obtain p w' where p: "prep_lightning g t ch \<lparr>lp_Preimage = hex_encode pre, lp_PaymentHash = hex_encode (sha256 pre)\<rparr> = Inr p"
    and s: "settleFull g t pp req w = (Inr ((sp_Out p)\<lparr>so_Response := finish_response g t pp p, so_Already := False\<rparr>), w')"
    using settleFull_complete [OF inv pp(4,5,3) ch(1-4) mac ch(5,6) node fresh] by blast
  have wf: "wf_Extensions (sr_Extensions (finish_response g t pp p))"
    using prep_lightning_extensions [OF p] by (rule wf_finish_response)
  have "sp_Cred p = Some (AuthorizationValue mac (hex_encode pre),
      valid_until_of (gc_Service g @ CaveatValidUntilSfx @ ''='') (mac_Caveats mac))" and suc: "sr_Success (finish_response g t pp p)"
    using p by (auto simp: prep_lightning_def ch(4) credentialFor_marshal [OF mac(1)] finish_response_def Let_def
        split: option.splits)
  note cred = finish_response_credential [OF this(1) prep_lightning_extensions [OF p], of g t pp]
  have "delivers (run_next (header_set HeaderPaymentResponse (EncodeHeader (json_SettlementResponse (finish_response g t pp p))) []))
      (AuthorizationValue mac (hex_encode pre))"
    using wf cred suc DecodeHeader_EncodeHeader [of "json_SettlementResponse (finish_response g t pp p)"
        dec_SettlementResponse zero_SettlementResponse "finish_response g t pp p"]
    by (auto simp: delivers_def run_next_def header_set_single header_get_def)
  moreover have "gate_serve g t r req w = (run_next (header_set HeaderPaymentResponse
      (EncodeHeader (json_SettlementResponse (finish_response g t pp p))) []), w')"
    using no pp(1,2) id s
      DecodeHeader_EncodeHeader [of "json_PaymentPayload pp" dec_PaymentPayload zero_PaymentPayload pp]
    by (simp add: gate_serve_def check_credential_def servePayment_def Gate_Settle_def Let_def)
  ultimately show ?thesis using s by (intro exI [of _ pp]) (simp add: run_next_def)
qed

end
