(* ===== verification/GateProps.thy ===== *)
theory GateProps
  imports GateComplete
begin

text \<open>
  The properties of the payment gate as a whole, over both stores: when the protected handler runs,
  how often one proof can run it, what an honest buyer gets, and what a refused request is told.
\<close>

section \<open>A sample gate\<close>

text \<open>
  A gate with one invoice: its node hands out the same invoice every time and reports it settled.
  The witnesses run on it; the preimage hash stays symbolic.
\<close>

definition sample_preimage :: bytes where
  "sample_preimage = replicate 32 (CHR ''p'')"

definition sample_node :: "unit Invoice_ops" where
  "sample_node = \<lparr>ib_CreateInvoice = (\<lambda>_ _ _ b. (Inr (''lnsdcr1'', sha256 sample_preimage), b)),
     ib_LookupInvoice = (\<lambda>_ b. (Inr \<lparr>is_Settled = True, is_AmtPaidMAtoms = 5000\<rparr>, b))\<rparr>"

definition sample_invoice :: Invoice where
  "sample_invoice = \<lparr>iv_PaymentHash = Some (sha256 sample_preimage), iv_Destination = Some ''node'',
     iv_MilliAt = Some 5000, iv_Timestamp = 0, iv_Expiry = hour\<rparr>"

definition sample_gate :: "'s Store_ops \<Rightarrow> ('s, 'l, unit, 'o) GateConfig" where
  "sample_gate store =
     \<lparr>gc_Backend = sample_node, gc_Onchain = None, gc_Ledger = None, gc_TopupPath = ''/topup'', gc_Store = store,
      gc_Network = Simnet, gc_PayTo = hex_encode ''node'', gc_Service = ''api'', gc_Tier = 0, gc_Capabilities = [],
      gc_TokenTTL = day, gc_ChallengeTTL = hour, gc_Resource = None, gc_DiscoveryExtension = None, gc_MCPDiscovery = None,
      gc_MCPServerURL = [], gc_PaymentIDEnabled = False, gc_PaymentIDRequired = False, gc_OfferReceiptKey = None,
      gc_Rand = (\<lambda>_. Some (replicate 32 (CHR ''r''))), gc_Decode = (\<lambda>_ _. Some sample_invoice)\<rparr>"

definition sample_world :: "'s \<Rightarrow> ('s, unit, unit, unit) world" where
  "sample_world s = \<lparr>w_store = s, w_ledger = (), w_backend = (), w_onchain = (), w_reads = 0\<rparr>"

definition sample_entry :: PaymentRequirements where
  "sample_entry = lightning_entry (sample_gate MemoryStore :: (store_mem, unit, unit, unit) GateConfig) 5 ''lnsdcr1'' (sha256 sample_preimage)"

definition proof_request :: "PaymentRequirements \<Rightarrow> bytes \<Rightarrow> HttpRequest" where
  "proof_request entry pre =
     \<lparr>hr_Method = ''GET'', hr_Host = ''h'', hr_TLS = False, hr_Path = ''/x'',
      hr_Header = [(HeaderPaymentSignature, EncodeHeader (json_PaymentPayload
        \<lparr>pp_X402Version = Version, pp_Resource = None, pp_Accepted = entry, pp_Payload = Some (lightning_proof pre), pp_Extensions = []\<rparr>))],
      hr_Form = []\<rparr>"

lemma proof_request_honest:
  "wf_PaymentRequirements entry \<Longrightarrow> honest_request (proof_request entry pre) entry pre"
  by (auto simp: honest_request_def proof_request_def header_get_def EqualFold_def ToLower_def lower_char_def Let_def
      HeaderPaymentSignature_def lightning_proof_def wf_PaymentPayload_def wf_raw_def wf_Extensions_def sorted_keys_def
      Version_def int64_defs)

lemma good_sample_invoice: "good_invoice (sample_gate store) 5 ''lnsdcr1'' sample_preimage"
  by (simp add: good_invoice_def sample_gate_def sample_invoice_def sample_preimage_def Simnet_def HasPrefix_def)

lemma sample_gate_simps [simp]:
  "gc_Store (sample_gate store) = store" "\<not> gc_PaymentIDEnabled (sample_gate store)" "gc_Backend (sample_gate store) = sample_node"
  "gc_ChallengeTTL (sample_gate store) = hour" "gc_TokenTTL (sample_gate store) = day" "gc_Service (sample_gate store) = ''api''"
  "gc_Rand (sample_gate store) n = Some (replicate 32 (CHR ''r''))"
  by (simp_all add: sample_gate_def)

lemma sample_lightning_entry: "lightning_entry (sample_gate store) 5 ''lnsdcr1'' (sha256 sample_preimage) = sample_entry"
  by (simp add: lightning_entry_def sample_gate_def sample_entry_def)

lemma wf_sample_entry [simp]: "wf_PaymentRequirements sample_entry"
  by (simp add: sample_entry_def lightning_entry_def wf_PaymentRequirements_def wf_raw_def Seconds_def time_units int64_defs)

lemma sample_clean [simp]: "clean_name ''api''"
  by (simp add: clean_name_def is_space_def)

lemma length_FormatInt: "length (FormatInt v) \<le> nat \<bar>v\<bar> + 2"
proof -
  have "length (show_nat n) \<le> Suc n" for n
    by (induction n rule: show_nat.induct) (subst show_nat.simps, auto)
  from this [of "nat \<bar>v\<bar>"] show ?thesis by (auto simp: FormatInt_def abs_if)
qed

lemma fits_sample: "fits (sample_gate store) 0"
  using length_FormatInt [of 0] length_FormatInt [of "Unix day"]
  by (simp add: fits_def mint_caveats_def sample_gate_def ServicesCaveat_def ValidUntilCaveat_def caveat_names Unix_def time_units)

section \<open>An honest buyer is served\<close>


lemma sample_challenge:
  fixes g :: "(store_mem, unit, unit, unit) GateConfig"
  assumes "g = sample_gate MemoryStore"
  shows "\<exists>art w1. buildChallenge g 0 zero_ResourceInfo ''/x'' 5 [] (sample_world NewMemoryStore) = (Inr art, w1) \<and>
    rq_Accepts (ca_PaymentRequired art) = [sample_entry]"
  using buildChallenge_complete [where g = g and n = 5 and w = "sample_world NewMemoryStore" and bind = "''/x''" and
      res = zero_ResourceInfo and invoice = "''lnsdcr1''" and hash = "sha256 sample_preimage" and b = "()" and
      tok = "replicate 32 (CHR ''r'')" and rk = "replicate 32 (CHR ''r'')" and now = 0 and exts = "[]"] assms
  by (auto simp: sample_node_def sample_lightning_entry)


section \<open>When the handler runs\<close>

text \<open>
  C1: the protected handler runs only for a valid credential or for a payment that was just
  consumed.  On a gate over the SQLite store, whatever statements of it fail, a request that
  reaches the handler either carried a credential that verifies against the stored root key, or
  a proof whose settlement key was not consumed before and is now; and behind that key stands a
  stored challenge whose invoice the payee node reports settled (or whose address the wallet saw
  the exact deposit for, with enough confirmations), for at least the price of this request.
\<close>
theorem handler_runs_only_when_paid:
  assumes "gc_Store g = SQLiteStore clock" and "gate_serve g now r n w = (out, w')" and "ho_Next out" and "0 < n"
  shows "credential_valid g (db_view (w_store w)) now (header_get (hr_Header r) ''Authorization'') \<or>
    (\<exists>pp key. DecodeHeader zero_PaymentPayload dec_PaymentPayload (header_get (hr_Header r) HeaderPaymentSignature) = Inr pp \<and>
       sv_settlements (db_view (w_store w)) key = None \<and> sv_settlements (db_view (w_store w')) key \<noteq> None \<and>
       ((\<exists>ch. key = sc_PaymentHash ch \<and> lightning_paid g (db_view (w_store w)) now pp (w_backend w) ch \<and> n \<le> sc_AmountAtoms ch) \<or>
        (\<exists>oc txid. key = sha256 (''dcr402/onchain/'' @ txid @ ''/'' @ oc_Address oc) \<and>
           onchain_paid g (db_view (w_store w)) pp (w_onchain w) oc txid \<and> n \<le> oc_AmountAtoms oc)))"
proof -
  have g: "g\<lparr>gc_Store := SQLiteStore clock\<rparr> = g" using assms(1) by (cases g) simp
  note cases = sq_gate.gate_serve_cases [of clock g, unfolded g, OF assms(2)]
  note good = sq_gate.check_credential_good [of clock g, unfolded g]
  note proved = sq_gate.settleFull_proved [of clock g, unfolded g]
  show ?thesis
  proof (cases "check_credential g now r w = (GoodCredential, w')")
    case True
    then show ?thesis using good by blast
  next
    case False
    with cases assms(3) obtain pp w1 so where
      p: "DecodeHeader zero_PaymentPayload dec_PaymentPayload (header_get (hr_Header r) HeaderPaymentSignature) = Inr pp"
        "db_view (w_store w1) = db_view (w_store w)" "w_backend w1 = w_backend w" "w_onchain w1 = w_onchain w"
        "settleFull g now pp n w1 = (Inr so, w')" "\<not> so_Already so" by blast
    from proved [OF p(5,6)] p(1-4) assms(4) show ?thesis by auto
  qed
qed

text \<open>The sample gate over SQLite, with one issued challenge in the table.\<close>

definition sample_macaroon_rk :: Macaroon where
  "sample_macaroon_rk = minted (sample_gate MemoryStore :: (store_mem, unit, unit, unit) GateConfig) 0 (replicate 32 (CHR ''r''))
     (sha256 sample_preimage) (replicate 32 (CHR ''r''))"

definition sample_sq :: "store_db conn" where
  "sample_sq = \<lparr>cn_db = OpenSQLiteStore\<lparr>tb_challenges := [sha256 sample_preimage \<mapsto>
      \<lparr>cc_invoice = ''lnsdcr1'', cc_macaroon_b64 = b64_encode (MarshalBinary sample_macaroon_rk), cc_root_key_id = [],
       cc_requirements = json_print (json_PaymentRequirements sample_entry), cc_resource = ''/x'', cc_amount_atoms = 5,
       cc_created_at = 0, cc_expires_at = 3600\<rparr>]\<rparr>, cn_faults = []\<rparr>"

lemma sample_mac:
  "wf_Macaroon sample_macaroon_rk"
  "Macaroon_Identifier sample_macaroon_rk =
     Inr \<lparr>id_Version = IdentifierVersion, id_PaymentHash = sha256 sample_preimage, id_TokenID = replicate 32 (CHR ''r'')\<rparr>"
  unfolding sample_macaroon_rk_def using fits_sample by (auto intro!: wf_minted minted_Identifier)

lemma sample_sq_served:
  fixes g :: "(store_db conn, unit, unit, unit) GateConfig"
  assumes "g = sample_gate (SQLiteStore 0)"
  shows "\<exists>out w'. gate_serve g 0 (proof_request sample_entry sample_preimage) 5 (sample_world sample_sq) = (out, w') \<and>
    ho_Next out \<and> delivers out (AuthorizationValue sample_macaroon_rk (hex_encode sample_preimage))"
proof -
  let ?w = "sample_world sample_sq"
  obtain ch where get: "st_GetChallenge (gc_Store g) (sha256 sample_preimage) (w_store ?w) = (Inr ch, sample_sq)"
    and ch: "0 \<le> sc_ExpiresAt ch" "sc_Requirements ch = json_print (json_PaymentRequirements sample_entry)"
      "sc_MacaroonB64 ch = b64_encode (MarshalBinary sample_macaroon_rk)" "sc_PaymentHash ch = sha256 sample_preimage"
      "5 \<le> sc_AmountAtoms ch"
    using assms by (simp add: SQLiteStore_def Sq_GetChallenge_def andThen_def query_ok sample_sq_def row_or_missing_def ret_def
        sample_world_def challenge_of_def from_unix_def second_def)
  have set: "\<exists>s'. st_Settle (gc_Store g) (sha256 sample_preimage) resp 0 sample_sq = (Inr (resp, False), s')" for resp
    using assms by (simp add: SQLiteStore_def Sq_Settle_def transaction_def andThen_def settle_body_def stmt_ok query_ok
        insert_settlement_def insert_new_def ret_def sample_sq_def OpenSQLiteStore_def)
  have look: "ib_LookupInvoice (gc_Backend g) (sha256 sample_preimage) (w_backend ?w) =
      (Inr \<lparr>is_Settled = True, is_AmtPaidMAtoms = 5000\<rparr>, ())"
    using assms by (simp add: sample_node_def)
  have nums: "(0 :: int) < 5" "in_int64 (5 :: int)" "in_int64 (Seconds (gc_ChallengeTTL g))"
    using assms by (simp_all add: int64_defs Seconds_def time_units)
  have e: "lightning_entry g 5 ''lnsdcr1'' (sha256 sample_preimage) = sample_entry"
    using assms by (simp add: sample_lightning_entry)
  have "\<exists>pp so out w'. settleFull g 0 pp 5 ?w = (Inr so, w') \<and> \<not> so_Already so \<and>
      gate_serve g 0 (proof_request sample_entry sample_preimage) 5 ?w = (out, w') \<and> ho_Next out \<and>
      delivers out (AuthorizationValue sample_macaroon_rk (hex_encode sample_preimage))"
  proof (rule serve_complete [OF _ _ nums sample_mac get ch(1) _ ch(3-5) set look])
    show "good_invoice g 5 ''lnsdcr1'' sample_preimage" using assms by (simp add: good_sample_invoice)
    show "sc_Requirements ch = json_print (json_PaymentRequirements (lightning_entry g 5 ''lnsdcr1'' (sha256 sample_preimage)))"
      using ch e by simp
    show "honest_request (proof_request sample_entry sample_preimage) (lightning_entry g 5 ''lnsdcr1'' (sha256 sample_preimage)) sample_preimage"
      using e by (simp add: proof_request_honest)
  qed (simp_all add: assms)
  then show ?thesis by blast
qed

theorem handler_runs_only_when_paid_witness:
  "\<exists>out w' (g :: (store_db conn, unit, unit, unit) GateConfig).
     gate_serve g 0 (proof_request sample_entry sample_preimage) 5 (sample_world sample_sq) = (out, w') \<and> ho_Next out \<and>
     (\<exists>key. sv_settlements (db_view sample_sq) key = None \<and> sv_settlements (db_view (w_store w')) key \<noteq> None)"
proof -
  define g :: "(store_db conn, unit, unit, unit) GateConfig" where "g = sample_gate (SQLiteStore 0)"
  obtain out w' where s: "gate_serve g 0 (proof_request sample_entry sample_preimage) 5 (sample_world sample_sq) = (out, w')" "ho_Next out"
    using sample_sq_served [OF g_def] by blast
  have st: "gc_Store g = SQLiteStore 0" by (simp add: g_def)
  have "\<not> credential_valid g (db_view (w_store (sample_world sample_sq))) 0
      (header_get (hr_Header (proof_request sample_entry sample_preimage)) ''Authorization'')"
    by (auto simp: credential_valid_def sample_world_def sample_sq_def db_view_def rows_view_def OpenSQLiteStore_def)
  with handler_runs_only_when_paid [OF st s] have
    "\<exists>key. sv_settlements (db_view (w_store (sample_world sample_sq))) key = None \<and> sv_settlements (db_view (w_store w')) key \<noteq> None"
    by auto
  then show ?thesis using s by (intro exI [of _ out] exI [of _ w'] exI [of _ g]) (simp add: sample_world_def)
qed

text \<open>
  C3: one proof serves one request.  In any history of a gate over the SQLite store (any requests
  by anyone, any other writes to the store between them, any behaviour of the node and the wallet,
  any failing statements), at most one request is served on a proof of the same settlement key,
  which is the payment hash of a lightning proof and the transaction and address of an on-chain one.
\<close>
theorem proof_serves_once:
  "length (filter (served_by k) (gate_run (g\<lparr>gc_Store := SQLiteStore clock\<rparr>) es w)) \<le> 1"
  by (rule sq_keyed.served_by_once)

section \<open>What a refused request is told\<close>

lemma respondChallenge_status:
  "respondChallenge g now r n st nt w = (out, w') \<Longrightarrow> ho_Status out = st \<or> ho_Status out = 500"
  by (auto simp: respondChallenge_def http_error_def http_json_def status_defs split: prod.splits sum.splits)

text \<open>
  C18: the status tells the client what to do next.  Without a proof, a request whose Authorization
  header is an L402 credential that is malformed, revoked, expired or forged is answered 401 and
  never 402 (an agent would pay again), one without a credential 402, and the only other answer is
  500 when no challenge can be built; with a good credential nothing of the kind is sent.
\<close>
theorem credential_statuses:
  assumes "gate_serve g now r n w = (out, w')" and "header_get (hr_Header r) HeaderPaymentSignature = []"
  shows "ho_Next out \<and> fst (check_credential g now r w) = GoodCredential \<or>
    \<not> ho_Next out \<and> fst (check_credential g now r w) = BadCredential \<and> ho_Status out \<in> {401, 500} \<or>
    \<not> ho_Next out \<and> fst (check_credential g now r w) = NoCredential \<and> ho_Status out \<in> {402, 500}"
proof -
  obtain c w1 where c: "check_credential g now r w = (c, w1)" by (cases "check_credential g now r w")
  have nn: "\<not> ho_Next out" if "respondChallenge g now r n st nt w1 = (out, w')" for st nt
    using that by (auto simp: respondChallenge_def http_json_def http_error_def split: prod.splits sum.splits)
  show ?thesis
    using assms c nn respondChallenge_status [of g now r n _ _ w1 out w']
    by (cases c) (auto simp: gate_serve_def Let_def run_next_def status_defs dest!: respondChallenge_status)
qed

theorem credential_statuses_witness:
  "let r = (proof_request sample_entry sample_preimage)\<lparr>hr_Header := []\<rparr> in
   fst (check_credential (sample_gate MemoryStore) 0 r (sample_world NewMemoryStore)) = NoCredential \<and>
   ho_Status (fst (gate_serve (sample_gate MemoryStore) 0 r 5 (sample_world NewMemoryStore))) \<in> {402, 500}"
proof -
  let ?r = "(proof_request sample_entry sample_preimage)\<lparr>hr_Header := []\<rparr>"
  let ?g = "sample_gate MemoryStore :: (store_mem, unit, unit, unit) GateConfig" and ?w = "sample_world NewMemoryStore"
  obtain out w' where s: "gate_serve ?g 0 ?r 5 ?w = (out, w')" by (cases "gate_serve ?g 0 ?r 5 ?w")
  have c: "fst (check_credential ?g 0 ?r ?w) = NoCredential" by (simp add: check_credential_def header_get_def)
  have "header_get (hr_Header ?r) HeaderPaymentSignature = []" by (simp add: header_get_def)
  from credential_statuses [OF s this] c s show ?thesis by (simp add: Let_def)
qed

end
