(* ===== verification/Sha256KAT.thy ===== *)
theory Sha256KAT
  imports GoSha256
begin

text \<open>
  A known answer: the definition of \<open>sha256\<close>, evaluated by the kernel, gives the digest of the
  standard's one-block test message.
\<close>

lemma sha256_abc:
  "hex_encode (sha256 ''abc'') = ''ba7816bf8f01cfea414140de5dae2223b00361a396177a9cb410ff61f20015ad''"
  by code_simp

end
