(* ===== verification/Policy.thy ===== *)
theory Policy
  imports GoTime GoJson
begin

text \<open>
  The agent's spending policy, \<open>agent/policy/policy.go\<close>: amounts, the compilation of the policy
  file, domain patterns and the rule pipeline \<open>Evaluate\<close>.  The YAML decoder is a library: what it
  returns is a \<open>policy_file\<close> or an error, an argument of \<open>Parse\<close>.  The engine keeps the last policy
  that compiled.  The long dash of one trace detail is its three UTF-8 bytes.
\<close>

section \<open>Values\<close>

datatype Outcome = Allow | Deny | Escalate

datatype DestKind = DestDomain | DestLNNode | DestDCRAddress | DestOther string

definition ModeDefaultDeny :: string where "ModeDefaultDeny = ''default-deny''"
definition ModeDefaultAllow :: string where "ModeDefaultAllow = ''default-allow''"
definition ChannelBisonRelay :: string where "ChannelBisonRelay = ''bisonrelay''"
definition ChannelWeb :: string where "ChannelWeb = ''web''"
definition ChannelBoth :: string where "ChannelBoth = ''both''"

lemmas policy_consts = ModeDefaultDeny_def ModeDefaultAllow_def ChannelBisonRelay_def ChannelWeb_def ChannelBoth_def

record policy_Attempt =
  pa_Tool :: string
  pa_Rail :: string
  pa_DestKind :: DestKind
  pa_Dest :: string
  pa_AmountAtoms :: int
  pa_Memo :: string

record policy_Usage =
  us_DayAtoms :: int
  us_WeekAtoms :: int
  us_HourCount :: int

record RuleResult =
  rr_Rule :: string
  rr_Pass :: bool
  rr_Detail :: string

record Decision =
  de_Outcome :: Outcome
  de_Trace :: "RuleResult list"
  de_Reason :: string
  de_RemainingDayAtoms :: int
  de_RemainingWeekAtoms :: int
  de_ApprovalTTL :: duration
  de_ApprovalChannel :: string

record policy_file =
  pf_Mode :: string
  pf_MaxPerPayment :: string
  pf_DailyBudget :: string
  pf_WeeklyBudget :: string
  pf_MaxPaymentsPerHour :: int
  pf_Threshold :: string
  pf_TTL :: string
  pf_Channel :: string
  pf_AllowDomains :: "string list"
  pf_AllowLNNodes :: "string list"
  pf_AllowDCRAddresses :: "string list"
  pf_DenyDomains :: "string list"
  pf_MemoRequired :: bool

record Policy =
  po_Mode :: string
  po_MaxPerPaymentAtoms :: int
  po_DailyBudgetAtoms :: int
  po_WeeklyBudgetAtoms :: int
  po_MaxPaymentsPerHour :: int
  po_ThresholdAtoms :: int
  po_ApprovalTTL :: duration
  po_ApprovalChannel :: string
  po_AllowDomains :: "string list"
  po_DenyDomains :: "string list"
  po_AllowLNNodes :: "string list"
  po_AllowDCRAddresses :: "string list"
  po_MemoRequired :: bool

section \<open>Amounts\<close>

definition atomsPerDCR :: int where "atomsPerDCR = 100000000"

text \<open>\<open>None\<close> is the error.\<close>

definition ParseAmount :: "string \<Rightarrow> int option" where
  "ParseAmount s =
     (let s = TrimSpace (TrimSuffix (TrimSpace s) ''DCR'') in
      if s = [] then Some 0
      else (case Cut s (CHR ''.'') of
              (whole, frac, hasFrac) \<Rightarrow>
                (case ParseInt (if whole = [] then ''0'' else whole) of
                   None \<Rightarrow> None
                 | Some w \<Rightarrow>
                     if w < 0 then None
                     else (case (if \<not> hasFrac then Some 0
                                 else if frac = [] \<or> length frac > 8 then None
                                 else (case ParseInt (frac @ replicate (8 - length frac) (CHR ''0'')) of
                                         None \<Rightarrow> None
                                       | Some f \<Rightarrow> if f < 0 then None else Some f)) of
                             None \<Rightarrow> None
                           | Some f \<Rightarrow>
                               if w > (2 ^ 63 - 1) div atomsPerDCR - 1 then None
                               else Some (add64 (mul64 w atomsPerDCR) f)))))"

section \<open>Compiling a policy\<close>

datatype policy_error = PolicyYAML | UnknownMode string | BadAmount | BadTTL | UnknownChannel string | PolicyRead

definition compile_policy :: "policy_file \<Rightarrow> (policy_error, Policy) result" where
  "compile_policy f =
     (let mode = (if pf_Mode f = [] then ModeDefaultDeny else pf_Mode f) in
      if mode \<noteq> ModeDefaultDeny \<and> mode \<noteq> ModeDefaultAllow then Inl (UnknownMode mode)
      else (case (ParseAmount (pf_MaxPerPayment f), ParseAmount (pf_DailyBudget f), ParseAmount (pf_WeeklyBudget f),
                  ParseAmount (pf_Threshold f)) of
              (Some m, Some d, Some w, Some t) \<Rightarrow>
                (case (if pf_TTL f = [] then Some 0 else ParseDuration (pf_TTL f)) of
                   None \<Rightarrow> Inl BadTTL
                 | Some ttl \<Rightarrow>
                     (let ch = (if pf_Channel f = [] then ChannelWeb else pf_Channel f) in
                      if ch \<noteq> ChannelBisonRelay \<and> ch \<noteq> ChannelWeb \<and> ch \<noteq> ChannelBoth then Inl (UnknownChannel ch)
                      else Inr \<lparr>po_Mode = mode, po_MaxPerPaymentAtoms = m, po_DailyBudgetAtoms = d, po_WeeklyBudgetAtoms = w,
                             po_MaxPaymentsPerHour = pf_MaxPaymentsPerHour f, po_ThresholdAtoms = t,
                             po_ApprovalTTL = (if ttl \<le> 0 then 15 * minute else ttl), po_ApprovalChannel = ch,
                             po_AllowDomains = map (\<lambda>d. ToLower (TrimSpace d)) (pf_AllowDomains f),
                             po_DenyDomains = map (\<lambda>d. ToLower (TrimSpace d)) (pf_DenyDomains f),
                             po_AllowLNNodes = map (\<lambda>d. ToLower (TrimSpace d)) (pf_AllowLNNodes f),
                             po_AllowDCRAddresses = map TrimSpace (pf_AllowDCRAddresses f),
                             po_MemoRequired = pf_MemoRequired f\<rparr>))
            | _ \<Rightarrow> Inl BadAmount))"

definition Parse :: "(bytes \<Rightarrow> policy_file option) \<Rightarrow> bytes \<Rightarrow> (policy_error, Policy) result" where
  "Parse yaml raw = (case yaml raw of None \<Rightarrow> Inl PolicyYAML | Some f \<Rightarrow> compile_policy f)"

text \<open>
  \<open>Engine.Reload\<close>: the file as the operating system returns it (\<open>None\<close>: it cannot be read), and the
  policy in force before and after.
\<close>

definition Reload :: "(bytes \<Rightarrow> policy_file option) \<Rightarrow> bytes option \<Rightarrow> Policy option \<Rightarrow> policy_error option \<times> Policy option" where
  "Reload yaml file cur =
     (case file of
        None \<Rightarrow> (Some PolicyRead, cur)
      | Some raw \<Rightarrow> (case Parse yaml raw of Inl e \<Rightarrow> (Some e, cur) | Inr p \<Rightarrow> (None, Some p)))"

section \<open>The rule pipeline\<close>

definition matchDomain :: "string \<Rightarrow> string \<Rightarrow> bool" where
  "matchDomain pattern host =
     (let host = ToLower host in
      case CutPrefix pattern ''*.'' of
        (rest, ok) \<Rightarrow> if ok then HasSuffix host (''.'' @ rest) \<or> host = rest else host = pattern)"

definition matchAny :: "string list \<Rightarrow> string \<Rightarrow> string option" where
  "matchAny patterns host = find (\<lambda>p. matchDomain p host) patterns"

definition max64 :: "int \<Rightarrow> int \<Rightarrow> int" where
  "max64 a b = (if a > b then a else b)"

text \<open>The state of \<open>Evaluate\<close> while the rules pass is the trace; a failing rule ends it with a decision.\<close>

type_synonym rule_step = "RuleResult list \<Rightarrow> (Decision, RuleResult list) result"

definition rule_pass :: "string \<Rightarrow> string \<Rightarrow> rule_step" where
  "rule_pass rule detail tr = Inr (tr @ [\<lparr>rr_Rule = rule, rr_Pass = True, rr_Detail = detail\<rparr>])"

definition rule_fail :: "Policy \<Rightarrow> policy_Usage \<Rightarrow> string \<Rightarrow> string \<Rightarrow> rule_step" where
  "rule_fail p u rule detail tr =
     Inl \<lparr>de_Outcome = Deny, de_Trace = tr @ [\<lparr>rr_Rule = rule, rr_Pass = False, rr_Detail = detail\<rparr>],
          de_Reason = rule @ '': '' @ detail,
          de_RemainingDayAtoms = max64 0 (sub64 (po_DailyBudgetAtoms p) (us_DayAtoms u)),
          de_RemainingWeekAtoms = max64 0 (sub64 (po_WeeklyBudgetAtoms p) (us_WeekAtoms u)),
          de_ApprovalTTL = 0, de_ApprovalChannel = []\<rparr>"

definition rule_memo :: "Policy \<Rightarrow> policy_Attempt \<Rightarrow> policy_Usage \<Rightarrow> rule_step" where
  "rule_memo p a u tr =
     (if po_MemoRequired p then
        (if TrimSpace (pa_Memo a) = [] then rule_fail p u ''memo_required'' ''every payment must carry a reason string'' tr
         else rule_pass ''memo_required'' [] tr)
      else Inr tr)"

definition rule_destination :: "Policy \<Rightarrow> policy_Attempt \<Rightarrow> policy_Usage \<Rightarrow> rule_step" where
  "rule_destination p a u tr =
     (case pa_DestKind a of
        DestDomain \<Rightarrow>
          (let host = ToLower (pa_Dest a) in
           case matchAny (po_DenyDomains p) host of
             Some pat \<Rightarrow> rule_fail p u ''deny_domain'' (host @ '' matches denylist '' @ pat) tr
           | None \<Rightarrow>
               if po_Mode p = ModeDefaultDeny then
                 (case matchAny (po_AllowDomains p) host of
                    None \<Rightarrow> rule_fail p u ''allow_domain'' (host @ '' is not on the domain allowlist (default-deny)'') tr
                  | Some pat \<Rightarrow> rule_pass ''allow_domain'' (''matches '' @ pat) tr)
               else rule_pass ''allow_domain'' ''default-allow'' tr)
      | DestLNNode \<Rightarrow>
          (if po_Mode p = ModeDefaultDeny then
             (if ToLower (pa_Dest a) \<notin> set (po_AllowLNNodes p)
              then rule_fail p u ''allow_ln_node'' ''destination node is not on the allowlist (default-deny)'' tr
              else rule_pass ''allow_ln_node'' ''pinned'' tr)
           else rule_pass ''allow_ln_node'' ''default-allow'' tr)
      | DestDCRAddress \<Rightarrow>
          (if po_Mode p = ModeDefaultDeny then
             (if pa_Dest a \<notin> set (po_AllowDCRAddresses p)
              then rule_fail p u ''allow_dcr_address'' ''address is not on the allowlist (default-deny)'' tr
              else rule_pass ''allow_dcr_address'' ''pinned'' tr)
           else rule_pass ''allow_dcr_address'' ''default-allow'' tr)
      | DestOther k \<Rightarrow> rule_fail p u ''destination'' (''unknown destination kind '' @ Quote k) tr)"

definition rule_cap :: "Policy \<Rightarrow> policy_Attempt \<Rightarrow> policy_Usage \<Rightarrow> rule_step" where
  "rule_cap p a u tr =
     (if po_MaxPerPaymentAtoms p > 0 then
        (if pa_AmountAtoms a > po_MaxPerPaymentAtoms p
         then rule_fail p u ''max_per_payment''
                (FormatInt (pa_AmountAtoms a) @ '' > '' @ FormatInt (po_MaxPerPaymentAtoms p) @ '' atoms'') tr
         else rule_pass ''max_per_payment''
                (FormatInt (pa_AmountAtoms a) @ '' <= '' @ FormatInt (po_MaxPerPaymentAtoms p) @ '' atoms'') tr)
      else Inr tr)"

definition rule_velocity :: "Policy \<Rightarrow> policy_Attempt \<Rightarrow> policy_Usage \<Rightarrow> rule_step" where
  "rule_velocity p a u tr =
     (if po_MaxPaymentsPerHour p > 0 then
        (if us_HourCount u \<ge> po_MaxPaymentsPerHour p
         then rule_fail p u ''max_payments_per_hour''
                (FormatInt (us_HourCount u) @ '' payments in the last hour (limit '' @ FormatInt (po_MaxPaymentsPerHour p) @ '')'') tr
         else rule_pass ''max_payments_per_hour''
                (FormatInt (us_HourCount u) @ ''/'' @ FormatInt (po_MaxPaymentsPerHour p)) tr)
      else Inr tr)"

definition rule_budget :: "Policy \<Rightarrow> policy_Attempt \<Rightarrow> policy_Usage \<Rightarrow> string \<Rightarrow> int \<Rightarrow> int \<Rightarrow> rule_step" where
  "rule_budget p a u rule budget used tr =
     (if budget > 0 then
        (if add64 used (pa_AmountAtoms a) > budget
         then rule_fail p u rule
                (FormatInt used @ '' + '' @ FormatInt (pa_AmountAtoms a) @ '' exceeds '' @ FormatInt budget @ '' atoms'') tr
         else rule_pass rule (FormatInt (add64 used (pa_AmountAtoms a)) @ ''/'' @ FormatInt budget @ '' after'') tr)
      else Inr tr)"

text \<open>The steps before the threshold, in the order of the code, and the closing decision.\<close>

definition rule_pipeline :: "Policy \<Rightarrow> policy_Attempt \<Rightarrow> policy_Usage \<Rightarrow> rule_step list" where
  "rule_pipeline p a u =
     [rule_memo p a u, rule_destination p a u, rule_cap p a u, rule_velocity p a u,
      rule_budget p a u ''daily_budget'' (po_DailyBudgetAtoms p) (us_DayAtoms u),
      rule_budget p a u ''weekly_budget'' (po_WeeklyBudgetAtoms p) (us_WeekAtoms u)]"

fun run_rules :: "rule_step list \<Rightarrow> rule_step" where
  "run_rules [] tr = Inr tr"
| "run_rules (r # rs) tr = (case r tr of Inl d \<Rightarrow> Inl d | Inr tr \<Rightarrow> run_rules rs tr)"

definition em_dash :: string where
  "em_dash = [CHR 0xE2, CHR 0x80, CHR 0x94]"

definition finish_decision :: "Policy \<Rightarrow> policy_Attempt \<Rightarrow> policy_Usage \<Rightarrow> RuleResult list \<Rightarrow> Decision" where
  "finish_decision p a u tr =
     (let d = \<lparr>de_Outcome = Allow, de_Trace = tr, de_Reason = [],
                de_RemainingDayAtoms = max64 0 (sub64 (sub64 (po_DailyBudgetAtoms p) (us_DayAtoms u)) (pa_AmountAtoms a)),
                de_RemainingWeekAtoms = max64 0 (sub64 (sub64 (po_WeeklyBudgetAtoms p) (us_WeekAtoms u)) (pa_AmountAtoms a)),
                de_ApprovalTTL = 0, de_ApprovalChannel = []\<rparr>;
          entry = (\<lambda>detail. \<lparr>rr_Rule = ''approval_threshold'', rr_Pass = True, rr_Detail = detail\<rparr>) in
      if po_ThresholdAtoms p > 0 \<and> pa_AmountAtoms a \<ge> po_ThresholdAtoms p
      then d\<lparr>de_Outcome := Escalate,
             de_Trace := tr @ [entry (FormatInt (pa_AmountAtoms a) @ '' >= '' @ FormatInt (po_ThresholdAtoms p) @ '' atoms '' @
               em_dash @ '' owner approval required'')],
             de_ApprovalTTL := po_ApprovalTTL p, de_ApprovalChannel := po_ApprovalChannel p\<rparr>
      else if po_ThresholdAtoms p > 0
      then d\<lparr>de_Trace := tr @ [entry (FormatInt (pa_AmountAtoms a) @ '' < '' @ FormatInt (po_ThresholdAtoms p) @ '' atoms'')]\<rparr>
      else d)"

definition Evaluate :: "Policy \<Rightarrow> policy_Attempt \<Rightarrow> policy_Usage \<Rightarrow> Decision" where
  "Evaluate p a u = (case run_rules (rule_pipeline p a u) [] of Inl d \<Rightarrow> d | Inr tr \<Rightarrow> finish_decision p a u tr)"

section \<open>What the pipeline decides\<close>

text \<open>The policy over unbounded integers, as the owner reads it.\<close>

definition destination_allowed :: "Policy \<Rightarrow> policy_Attempt \<Rightarrow> bool" where
  "destination_allowed p a =
     (case pa_DestKind a of
        DestDomain \<Rightarrow> \<not> (\<exists>pat\<in>set (po_DenyDomains p). matchDomain pat (pa_Dest a)) \<and>
          (po_Mode p = ModeDefaultDeny \<longrightarrow> (\<exists>pat\<in>set (po_AllowDomains p). matchDomain pat (pa_Dest a)))
      | DestLNNode \<Rightarrow> po_Mode p = ModeDefaultDeny \<longrightarrow> ToLower (pa_Dest a) \<in> set (po_AllowLNNodes p)
      | DestDCRAddress \<Rightarrow> po_Mode p = ModeDefaultDeny \<longrightarrow> pa_Dest a \<in> set (po_AllowDCRAddresses p)
      | DestOther k \<Rightarrow> False)"

definition within_limits :: "Policy \<Rightarrow> policy_Attempt \<Rightarrow> policy_Usage \<Rightarrow> bool" where
  "within_limits p a u \<longleftrightarrow>
     (po_MaxPerPaymentAtoms p > 0 \<longrightarrow> pa_AmountAtoms a \<le> po_MaxPerPaymentAtoms p) \<and>
     (po_MaxPaymentsPerHour p > 0 \<longrightarrow> us_HourCount u < po_MaxPaymentsPerHour p) \<and>
     (po_DailyBudgetAtoms p > 0 \<longrightarrow> us_DayAtoms u + pa_AmountAtoms a \<le> po_DailyBudgetAtoms p) \<and>
     (po_WeeklyBudgetAtoms p > 0 \<longrightarrow> us_WeekAtoms u + pa_AmountAtoms a \<le> po_WeeklyBudgetAtoms p)"

definition permitted :: "Policy \<Rightarrow> policy_Attempt \<Rightarrow> policy_Usage \<Rightarrow> bool" where
  "permitted p a u \<longleftrightarrow> (po_MemoRequired p \<longrightarrow> TrimSpace (pa_Memo a) \<noteq> []) \<and> destination_allowed p a \<and> within_limits p a u"

lemma ToLower_idem [simp]: "ToLower (ToLower s) = ToLower s"
  by (simp add: ToLower_def lower_char_def Let_def)

lemma matchDomain_lower [simp]: "matchDomain pat (ToLower h) = matchDomain pat h"
  by (simp add: matchDomain_def)

lemma matchAny_None: "matchAny ps h = None \<longleftrightarrow> \<not> (\<exists>p\<in>set ps. matchDomain p h)"
  by (auto simp: matchAny_def find_None_iff)

text \<open>Each rule either adds one passing entry at most, or ends with its denial.\<close>

definition denies :: "RuleResult list \<Rightarrow> Decision \<Rightarrow> bool" where
  "denies tr d \<longleftrightarrow> de_Outcome d = Deny \<and>
     (\<exists>rule detail. de_Trace d = tr @ [\<lparr>rr_Rule = rule, rr_Pass = False, rr_Detail = detail\<rparr>] \<and>
        de_Reason d = rule @ '': '' @ detail)"

definition good_rule :: "rule_step \<Rightarrow> bool \<Rightarrow> bool" where
  "good_rule r ok \<longleftrightarrow> (\<forall>tr. if ok then (\<exists>tr'. r tr = Inr (tr @ tr') \<and> list_all rr_Pass tr') else (\<exists>d. r tr = Inl d \<and> denies tr d))"

lemma rule_pass_good: "(\<exists>tr'. rule_pass r d tr = Inr (tr @ tr') \<and> list_all rr_Pass tr')"
  by (simp add: rule_pass_def)

lemma rule_fail_denies: "(\<exists>d. rule_fail p u r x tr = Inl d \<and> denies tr d)"
  by (simp add: rule_fail_def denies_def)

lemmas good_simps = good_rule_def rule_pass_good rule_fail_denies

lemma good_memo: "good_rule (rule_memo p a u) (po_MemoRequired p \<longrightarrow> TrimSpace (pa_Memo a) \<noteq> [])"
  by (simp add: rule_memo_def good_simps)

lemma good_destination: "good_rule (rule_destination p a u) (destination_allowed p a)"
proof (cases "pa_DestKind a")
  case DestDomain
  show ?thesis
  proof (cases "matchAny (po_DenyDomains p) (ToLower (pa_Dest a))")
    case None
    with DestDomain matchAny_None [of "po_DenyDomains p" "ToLower (pa_Dest a)"]
      matchAny_None [of "po_AllowDomains p" "ToLower (pa_Dest a)"]
    show ?thesis
      by (cases "matchAny (po_AllowDomains p) (ToLower (pa_Dest a))")
        (auto simp: rule_destination_def destination_allowed_def good_simps Let_def)
  next
    case (Some pat)
    then have "\<exists>p\<in>set (po_DenyDomains p). matchDomain p (pa_Dest a)"
      using matchAny_None [of "po_DenyDomains p" "ToLower (pa_Dest a)"] by auto
    with Some DestDomain show ?thesis by (simp add: rule_destination_def destination_allowed_def good_simps Let_def)
  qed
qed (simp_all add: rule_destination_def destination_allowed_def good_simps)

lemma good_cap: "good_rule (rule_cap p a u) (po_MaxPerPaymentAtoms p > 0 \<longrightarrow> pa_AmountAtoms a \<le> po_MaxPerPaymentAtoms p)"
  by (auto simp: rule_cap_def good_simps)

lemma good_velocity:
  "good_rule (rule_velocity p a u) (po_MaxPaymentsPerHour p > 0 \<longrightarrow> us_HourCount u < po_MaxPaymentsPerHour p)"
  by (auto simp: rule_velocity_def good_simps)

lemma good_budget: "good_rule (rule_budget p a u r b x) (b > 0 \<longrightarrow> add64 x (pa_AmountAtoms a) \<le> b)"
  by (auto simp: rule_budget_def good_simps)

lemma run_rules_good:
  assumes "list_all2 good_rule rs oks"
  shows "if list_all id oks then (\<exists>tr'. run_rules rs tr = Inr (tr @ tr') \<and> list_all rr_Pass tr')
    else (\<exists>d tr'. run_rules rs tr = Inl d \<and> list_all rr_Pass tr' \<and> denies (tr @ tr') d)"
  using assms
proof (induction rs oks arbitrary: tr rule: list_all2_induct)
  case (Cons r rs b oks)
  show ?case
  proof (cases b)
    case True
    with Cons.hyps obtain t where t: "r tr = Inr (tr @ t)" "list_all rr_Pass t" unfolding good_rule_def by metis
    with Cons.IH [of "tr @ t"] True show ?thesis
      by (auto split: if_splits) (metis append_assoc list_all_append)+
  next
    case False
    with Cons.hyps obtain d where "r tr = Inl d" "denies tr d" unfolding good_rule_def by metis
    with False show ?thesis by (intro if_not_P [THEN iffD2] exI [of _ d] exI [of _ "[]"]) simp_all
  qed
qed simp

text \<open>The verdicts of the pipeline, with the code's own 64-bit sums.\<close>

definition rule_verdicts :: "Policy \<Rightarrow> policy_Attempt \<Rightarrow> policy_Usage \<Rightarrow> bool list" where
  "rule_verdicts p a u =
     [po_MemoRequired p \<longrightarrow> TrimSpace (pa_Memo a) \<noteq> [], destination_allowed p a,
      po_MaxPerPaymentAtoms p > 0 \<longrightarrow> pa_AmountAtoms a \<le> po_MaxPerPaymentAtoms p,
      po_MaxPaymentsPerHour p > 0 \<longrightarrow> us_HourCount u < po_MaxPaymentsPerHour p,
      po_DailyBudgetAtoms p > 0 \<longrightarrow> add64 (us_DayAtoms u) (pa_AmountAtoms a) \<le> po_DailyBudgetAtoms p,
      po_WeeklyBudgetAtoms p > 0 \<longrightarrow> add64 (us_WeekAtoms u) (pa_AmountAtoms a) \<le> po_WeeklyBudgetAtoms p]"

lemma pipeline_good: "list_all2 good_rule (rule_pipeline p a u) (rule_verdicts p a u)"
  by (simp add: rule_pipeline_def rule_verdicts_def good_memo good_destination good_cap good_velocity good_budget)

lemma Evaluate_cases:
  obtains (denied) d tr where "\<not> list_all id (rule_verdicts p a u)" "Evaluate p a u = d" "list_all rr_Pass tr" "denies tr d"
    | (passed) tr where "list_all id (rule_verdicts p a u)" "Evaluate p a u = finish_decision p a u tr" "list_all rr_Pass tr"
  using run_rules_good [OF pipeline_good, of p a u "[]"]
  by (auto simp: Evaluate_def split: if_splits)

lemma finish_outcome:
  "de_Outcome (finish_decision p a u tr) = (if po_ThresholdAtoms p > 0 \<and> pa_AmountAtoms a \<ge> po_ThresholdAtoms p then Escalate else Allow)"
  by (simp add: finish_decision_def Let_def)

lemma Evaluate_outcome:
  "de_Outcome (Evaluate p a u) =
    (if \<not> list_all id (rule_verdicts p a u) then Deny
     else if po_ThresholdAtoms p > 0 \<and> pa_AmountAtoms a \<ge> po_ThresholdAtoms p then Escalate else Allow)"
  by (cases rule: Evaluate_cases [of p a u]) (auto simp: finish_outcome denies_def)

lemma Evaluate_escalates:
  assumes "de_Outcome (Evaluate p a u) = Escalate"
  shows "de_ApprovalChannel (Evaluate p a u) = po_ApprovalChannel p \<and> de_ApprovalTTL (Evaluate p a u) = po_ApprovalTTL p"
  using assms by (cases rule: Evaluate_cases [of p a u]) (auto simp: denies_def finish_decision_def Let_def)

lemma verdicts_permitted:
  "in_int64 (us_DayAtoms u + pa_AmountAtoms a) \<Longrightarrow> in_int64 (us_WeekAtoms u + pa_AmountAtoms a) \<Longrightarrow>
   list_all id (rule_verdicts p a u) \<longleftrightarrow> permitted p a u"
  by (auto simp: rule_verdicts_def permitted_def within_limits_def wrap64_id)

section \<open>Properties\<close>

text \<open>
  C10: the policy engine implements the policy: as long as the two sums of spent and asked atoms
  fit 64 bits, \<open>Evaluate\<close> denies exactly the payments the policy, read over unbounded integers, does
  not permit, escalates exactly the permitted ones at or above a set threshold, and allows the
  other permitted ones.
\<close>
theorem Evaluate_implements_policy:
  assumes "in_int64 (us_DayAtoms u + pa_AmountAtoms a)" and "in_int64 (us_WeekAtoms u + pa_AmountAtoms a)"
  shows "de_Outcome (Evaluate p a u) =
    (if \<not> permitted p a u then Deny
     else if po_ThresholdAtoms p > 0 \<and> pa_AmountAtoms a \<ge> po_ThresholdAtoms p then Escalate else Allow)"
  unfolding Evaluate_outcome verdicts_permitted [OF assms] ..

definition sample_policy :: Policy where
  "sample_policy = \<lparr>po_Mode = ModeDefaultAllow, po_MaxPerPaymentAtoms = 0, po_DailyBudgetAtoms = 100000000,
     po_WeeklyBudgetAtoms = 0, po_MaxPaymentsPerHour = 0, po_ThresholdAtoms = 50000000, po_ApprovalTTL = 15 * minute,
     po_ApprovalChannel = ChannelWeb, po_AllowDomains = [], po_DenyDomains = [''*.evil.example''], po_AllowLNNodes = [],
     po_AllowDCRAddresses = [], po_MemoRequired = False\<rparr>"

definition sample_attempt :: "DestKind \<Rightarrow> string \<Rightarrow> int \<Rightarrow> policy_Attempt" where
  "sample_attempt k d n = \<lparr>pa_Tool = ''fetch_paid'', pa_Rail = ''ln'', pa_DestKind = k, pa_Dest = d, pa_AmountAtoms = n, pa_Memo = []\<rparr>"

theorem Evaluate_implements_policy_witness:
  "de_Outcome (Evaluate sample_policy (sample_attempt DestLNNode ''node'' 50000000)
     \<lparr>us_DayAtoms = 50000000, us_WeekAtoms = 0, us_HourCount = 9\<rparr>) = Escalate"
  using Evaluate_implements_policy [of "\<lparr>us_DayAtoms = 50000000, us_WeekAtoms = 0, us_HourCount = 9\<rparr>"
      "sample_attempt DestLNNode ''node'' 50000000" sample_policy]
  by (simp add: int64_defs sample_attempt_def sample_policy_def permitted_def destination_allowed_def within_limits_def policy_consts)

text \<open>
  The denylist wins in every mode and without any condition on the numbers: a payment to a
  domain that matches a denied pattern, in any letter case, is denied, and the trace that is
  recorded ends with the failed rule while all entries before it passed.
\<close>
theorem denylist_wins:
  assumes "pa_DestKind a = DestDomain" and "pat \<in> set (po_DenyDomains p)" and "matchDomain pat (pa_Dest a)"
  shows "de_Outcome (Evaluate p a u) = Deny \<and>
    (\<exists>tr r. de_Trace (Evaluate p a u) = tr @ [r] \<and> list_all rr_Pass tr \<and> \<not> rr_Pass r \<and>
       de_Reason (Evaluate p a u) = rr_Rule r @ '': '' @ rr_Detail r)"
proof -
  have "\<not> destination_allowed p a" using assms by (auto simp: destination_allowed_def)
  then have "\<not> list_all id (rule_verdicts p a u)" by (simp add: rule_verdicts_def)
  then show ?thesis by (cases rule: Evaluate_cases [of p a u]) (auto simp: denies_def)
qed

theorem denylist_wins_witness:
  "de_Outcome (Evaluate sample_policy (sample_attempt DestDomain ''PAY.evil.example'' 1) \<lparr>us_DayAtoms = 0, us_WeekAtoms = 0, us_HourCount = 0\<rparr>) = Deny"
proof -
  have "matchDomain ''*.evil.example'' ''PAY.evil.example''" by code_simp
  with denylist_wins [of "sample_attempt DestDomain ''PAY.evil.example'' 1" "''*.evil.example''" sample_policy]
  show ?thesis by (simp add: sample_attempt_def sample_policy_def)
qed


subsection \<open>Amounts\<close>

lemma ParseInt_Some_bounds: "ParseInt s = Some v \<Longrightarrow> - (2 ^ 63) \<le> v \<and> v < 2 ^ 63"
  using ParseInt_in_int64 [of s v] by (simp add: int64_defs)

text \<open>\<open>n\<close> characters read as digits stay below \<open>10 ^ n\<close>.\<close>

lemma digits_val_bound: "digits_val acc s = Some n \<Longrightarrow> n < (acc + 1) * 10 ^ length s"
proof (induction s arbitrary: acc)
  case (Cons c cs)
  then obtain d where d: "digit_val c = Some d" "digits_val (10 * acc + d) cs = Some n" by (auto split: option.splits)
  then have "d \<le> 9" by (auto simp: digit_val_def Let_def split: if_splits)
  have "n < (10 * acc + d + 1) * 10 ^ length cs" using Cons.IH [OF d(2)] .
  also have "\<dots> \<le> (10 * (acc + 1)) * 10 ^ length cs" using \<open>d \<le> 9\<close> by (intro mult_right_mono) auto
  finally show ?case by (simp add: algebra_simps)
qed simp

lemma ParseInt_digits_bound: "ParseInt s = Some v \<Longrightarrow> v < 10 ^ length s"
proof -
  assume p: "ParseInt s = Some v"
  obtain neg ds where s: "strip_sign s = (neg, ds)" by (cases "strip_sign s")
  with p obtain n where n: "digits_val 0 ds = Some n" "v = (if neg then - int n else int n)"
    by (auto simp: ParseInt_def Let_def split: if_splits option.splits)
  have "length ds \<le> length s" using s by (cases s) (auto split: if_splits)
  then have "(10 :: nat) ^ length ds \<le> 10 ^ length s" by (simp add: power_increasing)
  have "n < 10 ^ length ds" using digits_val_bound [OF n(1)] by simp
  from less_le_trans [OF this \<open>10 ^ length ds \<le> 10 ^ length s\<close>] have "n < 10 ^ length s" .
  then have "int n < 10 ^ length s" by (metis of_nat_less_iff of_nat_numeral of_nat_power)
  with n(2) show ?thesis by (auto intro: order.strict_trans1 [of _ 0])
qed

text \<open>
  An amount the parser accepts is never negative and never wraps: every string either is
  refused or denotes between 0 and \<open>2^63 - 1\<close> atoms, and the 64-bit sum and product that compute it
  are exact.
\<close>
theorem ParseAmount_bounds:
  assumes "ParseAmount s = Some v"
  shows "0 \<le> v \<and> v < 2 ^ 63 \<and> (\<exists>w f. v = w * atomsPerDCR + f \<and> 0 \<le> w \<and> 0 \<le> f \<and> f < atomsPerDCR)"
proof (cases "TrimSpace (TrimSuffix (TrimSpace s) ''DCR'') = []")
  case True
  with assms have "v = 0" by (simp add: ParseAmount_def)
  then show ?thesis by (auto simp: atomsPerDCR_def intro!: exI [of _ "0 :: int"])
next
  case False
  obtain whole frac hasFrac where c: "Cut (TrimSpace (TrimSuffix (TrimSpace s) ''DCR'')) (CHR ''.'') = (whole, frac, hasFrac)"
    by (cases "Cut (TrimSpace (TrimSuffix (TrimSpace s) ''DCR'')) (CHR ''.'')")
  let ?lim = "(2 ^ 63 - 1) div atomsPerDCR - 1"
  define fr where "fr = (if \<not> hasFrac then Some 0 else if frac = [] \<or> length frac > 8 then None
    else (case ParseInt (frac @ replicate (8 - length frac) (CHR ''0'')) of None \<Rightarrow> None | Some f \<Rightarrow> if f < 0 then None else Some f))"
  obtain w where pw: "ParseInt (if whole = [] then ''0'' else whole) = Some w"
    using assms by (simp add: ParseAmount_def Let_def c False split: option.splits)
  then have "(if w < 0 then None else case fr of None \<Rightarrow> None
      | Some f \<Rightarrow> if w > ?lim then None else Some (add64 (mul64 w atomsPerDCR) f)) = Some v"
    using assms unfolding fr_def by (simp only: ParseAmount_def Let_def c False pw prod.case option.case if_False)
  then obtain f where w: "0 \<le> w" "w \<le> ?lim" and fr: "fr = Some f" and v: "v = add64 (mul64 w atomsPerDCR) f"
    by (auto split: if_splits option.splits)
  have f: "0 \<le> f" and f': "f = 0 \<or> length frac \<le> 8 \<and> ParseInt (frac @ replicate (8 - length frac) (CHR ''0'')) = Some f"
    using fr by (auto simp: fr_def split: if_splits option.splits)
  have "f < 10 ^ 8"
    using f' ParseInt_digits_bound [of "frac @ replicate (8 - length frac) (CHR ''0'')" f] by auto
  then have "v = w * atomsPerDCR + f" and "v < 2 ^ 63"
    using w f unfolding v by (simp_all add: wrap64_id int64_defs atomsPerDCR_def)
  then show ?thesis using w(1) f \<open>f < 10 ^ 8\<close> by (auto simp: atomsPerDCR_def)
qed

theorem ParseAmount_bounds_witness:
  "ParseAmount '' DCR'' = Some 0 \<and> (0 :: int) \<le> 0"
proof -
  have "ParseAmount '' DCR'' = Some 0" by code_simp
  with ParseAmount_bounds [OF this] show ?thesis by blast
qed

lemma ParseAmount_parts:
  assumes "TrimSpace (TrimSuffix (TrimSpace s) ''DCR'') = t" and "t \<noteq> []" and "Cut t (CHR ''.'') = (wh, fr, True)"
    and "wh \<noteq> []" and "ParseInt wh = Some w" and "0 \<le> w" and "w \<le> (2 ^ 63 - 1) div atomsPerDCR - 1"
    and "fr \<noteq> []" and "length fr \<le> 8" and "ParseInt (fr @ replicate (8 - length fr) (CHR ''0'')) = Some f" and "0 \<le> f"
  shows "ParseAmount s = Some (add64 (mul64 w atomsPerDCR) f)"
  using assms by (simp add: ParseAmount_def Let_def)

lemma digits_val_zeros [simp]: "digits_val 0 (replicate k (CHR ''0'') @ s) = digits_val 0 s"
  by (induction k) (simp_all add: digit_val_def)

lemma length_show_nat: "n < 10 ^ Suc k \<Longrightarrow> length (show_nat n) \<le> Suc k"
proof (induction k arbitrary: n)
  case (Suc k)
  then have "n div 10 < 10 ^ Suc k" by (simp add: less_mult_imp_div_less)
  from Suc.IH [OF this] show ?case by (subst show_nat.simps) simp
qed (simp add: show_nat.simps)

lemma pad_chars: "c \<in> set (pad_to k (show_nat n)) \<Longrightarrow> 48 \<le> byte c \<and> byte c \<le> 57"
  by (auto simp: pad_to_def split: if_splits dest!: show_nat_digits)

lemma ParseInt_pad: "n < 10 ^ 8 \<Longrightarrow> ParseInt (pad_to 8 (show_nat n)) = Some (int n)"
proof -
  assume n: "n < 10 ^ 8"
  let ?s = "pad_to 8 (show_nat n)"
  have "?s \<noteq> []" by (simp add: pad_to_def)
  then have "strip_sign ?s = (False, ?s)" using pad_chars [of "hd ?s" 8 n] by (cases ?s) auto
  moreover have "digits_val 0 ?s = Some n" by (simp add: pad_to_def digits_val_show_nat)
  ultimately show ?thesis using n \<open>?s \<noteq> []\<close> by (simp add: ParseInt_def int64_defs)
qed

lemma digit_not_space: "48 \<le> byte c \<Longrightarrow> byte c \<le> 57 \<Longrightarrow> \<not> is_space c \<and> c \<noteq> CHR ''.'' \<and> c \<noteq> CHR ''R''"
  by (auto simp: is_space_def)

text \<open>
  C20: the exact decimal of an amount is read back as that amount: whole coins, a point and all
  eight decimals, for every amount up to the largest the parser takes.
\<close>
theorem ParseAmount_exact:
  assumes "0 \<le> v" and "v div atomsPerDCR \<le> (2 ^ 63 - 1) div atomsPerDCR - 1"
  shows "ParseAmount (FormatInt (v div atomsPerDCR) @ ''.'' @ pad_to 8 (show_nat (nat (v mod atomsPerDCR)))) = Some v"
proof -
  let ?w = "v div atomsPerDCR" and ?b = "nat (v mod atomsPerDCR)"
  let ?s = "FormatInt ?w @ ''.'' @ pad_to 8 (show_nat ?b)"
  have b: "?b < 10 ^ 8" "int ?b = v mod atomsPerDCR" by (simp_all add: atomsPerDCR_def)
  have w: "0 \<le> ?w" "in_int64 ?w" using assms by (auto simp: atomsPerDCR_def int64_defs)
  have fw: "FormatInt ?w = show_nat (nat ?w)" using w(1) by (simp add: FormatInt_def)
  have dw: "\<forall>c\<in>set (FormatInt ?w). 48 \<le> byte c \<and> byte c \<le> 57" unfolding fw using show_nat_digits by blast
  have db: "\<forall>c\<in>set (pad_to 8 (show_nat ?b)). 48 \<le> byte c \<and> byte c \<le> 57" using pad_chars by blast
  have "\<not> is_space (CHR ''.'')" by (simp add: is_space_def)
  then have sp: "TrimSpace ?s = ?s" using dw db digit_not_space by (intro TrimSpace_id) auto
  have ne: "pad_to 8 (show_nat ?b) \<noteq> []" by (simp add: pad_to_def)
  have "last ?s = last (pad_to 8 (show_nat ?b))" using ne by (simp add: last_append)
  then have "last ?s \<noteq> CHR ''R''" using db ne digit_not_space last_in_set by metis
  moreover have "last t = CHR ''R''" if "HasSuffix t ''DCR''" for t
    using that unfolding HasSuffix_iff by auto
  ultimately have "\<not> HasSuffix ?s ''DCR''" by blast
  then have "TrimSuffix ?s ''DCR'' = ?s" by (simp only: TrimSuffix_def if_False)
  then have tr: "TrimSpace (TrimSuffix (TrimSpace ?s) ''DCR'') = ?s" using sp by simp
  have "CHR ''.'' \<notin> set (FormatInt ?w)" using dw digit_not_space by blast
  then have cut: "Cut ?s (CHR ''.'') = (FormatInt ?w, pad_to 8 (show_nat ?b), True)" using Cut_append by simp
  have len: "length (pad_to 8 (show_nat ?b)) = 8" using length_show_nat [of ?b 7] b(1) by (simp add: pad_to_def)
  have "ParseAmount ?s = Some (add64 (mul64 ?w atomsPerDCR) (int ?b))"
  proof (rule ParseAmount_parts [OF tr _ cut _ _ w(1) assms(2) ne])
    show "ParseInt (pad_to 8 (show_nat ?b) @ replicate (8 - length (pad_to 8 (show_nat ?b))) (CHR ''0'')) = Some (int ?b)"
      unfolding len using ParseInt_pad [OF b(1)] by simp
  qed (use w len in simp_all)
  moreover have "?w * atomsPerDCR + int ?b = v" unfolding b(2) by simp
  moreover have "in_int64 (?w * atomsPerDCR)" "in_int64 v"
    using assms b(2) by (auto simp: int64_defs atomsPerDCR_def)
  ultimately show ?thesis by (simp add: wrap64_id)
qed

theorem ParseAmount_exact_witness: "ParseAmount ''7.00000042'' = Some 700000042"
proof -
  have "FormatInt 7 = ''7''" "pad_to 8 (show_nat 42) = ''00000042''" by code_simp+
  moreover have "(700000042 :: int) div 100000000 = 7" "nat ((700000042 :: int) mod 100000000) = 42" by simp_all
  ultimately show ?thesis using ParseAmount_exact [of 700000042] by (simp add: atomsPerDCR_def)
qed

text \<open>
  A sign inside an amount is not refused.  \<open>-0.5\<close> reads as half a coin (the sign belongs to the
  whole part, which is zero), and a plus sign may stand in front of the decimals.
\<close>
theorem ParseAmount_signs:
  "ParseAmount ''-0.5'' = Some 50000000 \<and> ParseAmount ''0.+5'' = Some 5000000"
proof
  have t: "TrimSpace (TrimSuffix (TrimSpace ''-0.5'') ''DCR'') = ''-0.5''" "TrimSpace (TrimSuffix (TrimSpace ''0.+5'') ''DCR'') = ''0.+5''"
    and c: "Cut ''-0.5'' (CHR ''.'') = (''-0'', ''5'', True)" "Cut ''0.+5'' (CHR ''.'') = (''0'', ''+5'', True)"
    and z: "''5'' @ replicate (8 - length ''5'') (CHR ''0'') = ''50000000''" "''+5'' @ replicate (8 - length ''+5'') (CHR ''0'') = ''+5000000''"
    by code_simp+
  have i: "ParseInt ''-0'' = Some 0" "ParseInt ''0'' = Some 0" "ParseInt ''50000000'' = Some 50000000" "ParseInt ''+5000000'' = Some 5000000"
    by (simp_all add: ParseInt_def digit_val_def int64_defs)
  show "ParseAmount ''-0.5'' = Some 50000000"
    using ParseAmount_parts [OF t(1) _ c(1) _ i(1) _ _ _ _ _, of 50000000] i(3) z(1) by (simp add: atomsPerDCR_def wrap64_def)
  show "ParseAmount ''0.+5'' = Some 5000000"
    using ParseAmount_parts [OF t(2) _ c(2) _ i(2) _ _ _ _ _, of 5000000] i(4) z(2) by (simp add: atomsPerDCR_def wrap64_def)
qed

end
