(* ===== verification/AgentStore.thy ===== *)
theory AgentStore
  imports GoSql GoTime GoJson "HOL-Library.AList"
begin

text \<open>
  The agent's audit ledger and state, package \<open>agent/store\<close>: attempts, payments, cached tokens,
  approvals and daemon state, with the in-memory and the SQLite implementation of the interface
  \<open>Store\<close>, and its contract, the locale \<open>agent_store\<close>.  Row identifiers of the two append-only
  tables are positions.  A row of the SQLite tables is the record with its times at whole seconds,
  as they are read back; the columns are \<open>Unix\<close> of them.  Go's map iteration order, which the
  code exposes in two lists of the in-memory store, is taken to be the order of insertion.
\<close>

datatype agent_store_error = AgentNotFound | AgentSql

datatype StoreDecision = DecisionAllow | DecisionDeny | DecisionEscalate

datatype ApprovalStatus = ApprovalPending | ApprovalApproved | ApprovalDenied | ApprovalExpired

record Attempt =
  at_ID :: int
  at_Tool :: string
  at_Rail :: string
  at_Destination :: string
  at_AmountAtoms :: int
  at_Memo :: string
  at_Decision :: StoreDecision
  at_RuleTrace :: "json option"
  at_CreatedAt :: time

record Payment =
  py_ID :: int
  py_AttemptID :: int
  py_Rail :: string
  py_AmountAtoms :: int
  py_FeeAtoms :: int
  py_Invoice :: string
  py_Preimage :: string
  py_TxID :: string
  py_L402Service :: string
  py_Receipt :: "json option"
  py_CreatedAt :: time

record Token =
  tk_ServiceHost :: string
  tk_Authorization :: string
  tk_ValidUntil :: int
  tk_PaidAtoms :: int
  tk_CreatedAt :: time
  tk_LastUsed :: time

record Approval =
  ap_ID :: string
  ap_AttemptID :: int
  ap_Channel :: string
  ap_Status :: ApprovalStatus
  ap_Responder :: string
  ap_CreatedAt :: time
  ap_ExpiresAt :: time
  ap_ResolvedAt :: "time option"

record StoreUsage =
  su_DayAtoms :: int
  su_WeekAtoms :: int
  su_HourCount :: int

section \<open>Calendar windows\<close>

definition DayStart :: "time \<Rightarrow> time" where
  "DayStart t = t div day * day"

text \<open>The first of January 1970 was a Thursday; Sunday is 0.\<close>

definition Weekday :: "time \<Rightarrow> int" where
  "Weekday t = (t div day + 4) mod 7"

definition WeekStart :: "time \<Rightarrow> time" where
  "WeekStart t =
     (let d = DayStart t; wd = Weekday d; wd = (if wd = 0 then 7 else wd) in d - (wd - 1) * day)"

section \<open>The interface\<close>

type_synonym ('s, 'a) agent_op = "'s \<Rightarrow> (agent_store_error, 'a) result \<times> 's"

record 's AgentStore_ops =
  as_RecordAttempt :: "Attempt \<Rightarrow> ('s, int) agent_op"
  as_GetAttempt :: "int \<Rightarrow> ('s, Attempt) agent_op"
  as_ListAttempts :: "int \<Rightarrow> int \<Rightarrow> ('s, Attempt list) agent_op"
  as_RecordPayment :: "Payment \<Rightarrow> ('s, int) agent_op"
  as_GetPayment :: "int \<Rightarrow> ('s, Payment) agent_op"
  as_ListPayments :: "int \<Rightarrow> int \<Rightarrow> ('s, Payment list) agent_op"
  as_Usage :: "time \<Rightarrow> ('s, StoreUsage) agent_op"
  as_PutToken :: "Token \<Rightarrow> ('s, unit) agent_op"
  as_GetToken :: "string \<Rightarrow> ('s, Token) agent_op"
  as_TouchToken :: "string \<Rightarrow> time \<Rightarrow> ('s, unit) agent_op"
  as_DeleteToken :: "string \<Rightarrow> ('s, unit) agent_op"
  as_CreateApproval :: "Approval \<Rightarrow> ('s, unit) agent_op"
  as_GetApproval :: "string \<Rightarrow> ('s, Approval) agent_op"
  as_ResolveApproval :: "string \<Rightarrow> ApprovalStatus \<Rightarrow> string \<Rightarrow> time \<Rightarrow> ('s, bool) agent_op"
  as_ListPendingApprovals :: "time \<Rightarrow> ('s, Approval list) agent_op"
  as_ExpireApprovals :: "time \<Rightarrow> ('s, Approval list) agent_op"
  as_GetState :: "string \<Rightarrow> ('s, string) agent_op"
  as_SetState :: "string \<Rightarrow> string \<Rightarrow> ('s, unit) agent_op"

section \<open>Memory\<close>

record agent_mem =
  am_attempts :: "Attempt list"
  am_payments :: "Payment list"
  am_tokens :: "string \<rightharpoonup> Token"
  am_approvals :: "(string \<times> Approval) list"
  am_state :: "string \<rightharpoonup> string"

definition NewAgentMemory :: agent_mem where
  "NewAgentMemory = \<lparr>am_attempts = [], am_payments = [], am_tokens = Map.empty, am_approvals = [], am_state = Map.empty\<rparr>"

definition found_in :: "'a option \<Rightarrow> (agent_store_error, 'a) result" where
  "found_in x = (case x of None \<Rightarrow> Inl AgentNotFound | Some v \<Rightarrow> Inr v)"

definition nth_row :: "'a list \<Rightarrow> int \<Rightarrow> 'a option" where
  "nth_row xs i = (if i < 1 \<or> i > int (length xs) then None else Some (xs ! nat (i - 1)))"

definition AMem_RecordAttempt :: "Attempt \<Rightarrow> (agent_mem, int) agent_op" where
  "AMem_RecordAttempt a m =
     (let i = int (length (am_attempts m) + 1) in (Inr i, m\<lparr>am_attempts := am_attempts m @ [a\<lparr>at_ID := i\<rparr>]\<rparr>))"

definition AMem_GetAttempt :: "int \<Rightarrow> (agent_mem, Attempt) agent_op" where
  "AMem_GetAttempt i m = (found_in (nth_row (am_attempts m) i), m)"

text \<open>The loop from the newest row down, which stops at the limit and skips rows from \<open>beforeID\<close> on.\<close>

fun list_rows :: "('a \<Rightarrow> int) \<Rightarrow> int \<Rightarrow> int \<Rightarrow> int \<Rightarrow> 'a list \<Rightarrow> 'a list" where
  "list_rows rid limit beforeID n [] = []"
| "list_rows rid limit beforeID n (x # xs) =
     (if n \<ge> limit then []
      else if beforeID > 0 \<and> rid x \<ge> beforeID then list_rows rid limit beforeID n xs
      else x # list_rows rid limit beforeID (n + 1) xs)"

definition AMem_ListAttempts :: "int \<Rightarrow> int \<Rightarrow> (agent_mem, Attempt list) agent_op" where
  "AMem_ListAttempts limit beforeID m = (Inr (list_rows at_ID limit beforeID 0 (rev (am_attempts m))), m)"

definition AMem_RecordPayment :: "Payment \<Rightarrow> (agent_mem, int) agent_op" where
  "AMem_RecordPayment p m =
     (let i = int (length (am_payments m) + 1) in (Inr i, m\<lparr>am_payments := am_payments m @ [p\<lparr>py_ID := i\<rparr>]\<rparr>))"

definition AMem_GetPayment :: "int \<Rightarrow> (agent_mem, Payment) agent_op" where
  "AMem_GetPayment i m = (found_in (nth_row (am_payments m) i), m)"

definition AMem_ListPayments :: "int \<Rightarrow> int \<Rightarrow> (agent_mem, Payment list) agent_op" where
  "AMem_ListPayments limit beforeID m = (Inr (list_rows py_ID limit beforeID 0 (rev (am_payments m))), m)"

definition usage_step :: "time \<Rightarrow> time \<Rightarrow> time \<Rightarrow> Payment \<Rightarrow> StoreUsage \<Rightarrow> StoreUsage" where
  "usage_step dayT week hourAgo p u =
     (let u = (if \<not> py_CreatedAt p < dayT then u\<lparr>su_DayAtoms := add64 (su_DayAtoms u) (py_AmountAtoms p)\<rparr> else u);
          u = (if \<not> py_CreatedAt p < week then u\<lparr>su_WeekAtoms := add64 (su_WeekAtoms u) (py_AmountAtoms p)\<rparr> else u)
      in if py_CreatedAt p > hourAgo then u\<lparr>su_HourCount := add64 (su_HourCount u) 1\<rparr> else u)"

definition AMem_Usage :: "time \<Rightarrow> (agent_mem, StoreUsage) agent_op" where
  "AMem_Usage now m =
     (Inr (fold (usage_step (DayStart now) (WeekStart now) (now - hour)) (am_payments m)
        \<lparr>su_DayAtoms = 0, su_WeekAtoms = 0, su_HourCount = 0\<rparr>), m)"

definition AMem_PutToken :: "Token \<Rightarrow> (agent_mem, unit) agent_op" where
  "AMem_PutToken t m = (Inr (), m\<lparr>am_tokens := (am_tokens m)(tk_ServiceHost t \<mapsto> t)\<rparr>)"

definition AMem_GetToken :: "string \<Rightarrow> (agent_mem, Token) agent_op" where
  "AMem_GetToken host m = (found_in (am_tokens m host), m)"

definition AMem_TouchToken :: "string \<Rightarrow> time \<Rightarrow> (agent_mem, unit) agent_op" where
  "AMem_TouchToken host at m =
     (Inr (), case am_tokens m host of
                None \<Rightarrow> m
              | Some t \<Rightarrow> m\<lparr>am_tokens := (am_tokens m)(host \<mapsto> t\<lparr>tk_LastUsed := at\<rparr>)\<rparr>)"

definition AMem_DeleteToken :: "string \<Rightarrow> (agent_mem, unit) agent_op" where
  "AMem_DeleteToken host m = (Inr (), m\<lparr>am_tokens := (am_tokens m)(host := None)\<rparr>)"

definition AMem_CreateApproval :: "Approval \<Rightarrow> (agent_mem, unit) agent_op" where
  "AMem_CreateApproval a m = (Inr (), m\<lparr>am_approvals := AList.update (ap_ID a) a (am_approvals m)\<rparr>)"

definition AMem_GetApproval :: "string \<Rightarrow> (agent_mem, Approval) agent_op" where
  "AMem_GetApproval i m = (found_in (map_of (am_approvals m) i), m)"

definition AMem_ResolveApproval ::
  "string \<Rightarrow> ApprovalStatus \<Rightarrow> string \<Rightarrow> time \<Rightarrow> (agent_mem, bool) agent_op" where
  "AMem_ResolveApproval i status responder at m =
     (case map_of (am_approvals m) i of
        None \<Rightarrow> (Inr False, m)
      | Some a \<Rightarrow>
          if ap_Status a \<noteq> ApprovalPending \<or> at > ap_ExpiresAt a then (Inr False, m)
          else (Inr True, m\<lparr>am_approvals := AList.update i
                  (a\<lparr>ap_Status := status, ap_Responder := responder, ap_ResolvedAt := Some at\<rparr>) (am_approvals m)\<rparr>))"

definition AMem_ListPendingApprovals :: "time \<Rightarrow> (agent_mem, Approval list) agent_op" where
  "AMem_ListPendingApprovals now m =
     (Inr (sort_key ap_CreatedAt
        (filter (\<lambda>a. ap_Status a = ApprovalPending \<and> \<not> now > ap_ExpiresAt a) (map snd (am_approvals m)))), m)"

definition expire :: "time \<Rightarrow> Approval \<Rightarrow> Approval" where
  "expire now a = a\<lparr>ap_Status := ApprovalExpired, ap_ResolvedAt := Some now\<rparr>"

definition AMem_ExpireApprovals :: "time \<Rightarrow> (agent_mem, Approval list) agent_op" where
  "AMem_ExpireApprovals now m =
     (let due = (\<lambda>a. ap_Status a = ApprovalPending \<and> now > ap_ExpiresAt a) in
      (Inr (map (expire now) (filter due (map snd (am_approvals m)))),
       m\<lparr>am_approvals := map (\<lambda>(i, a). (i, if due a then expire now a else a)) (am_approvals m)\<rparr>))"

definition AMem_GetState :: "string \<Rightarrow> (agent_mem, string) agent_op" where
  "AMem_GetState k m = (found_in (am_state m k), m)"

definition AMem_SetState :: "string \<Rightarrow> string \<Rightarrow> (agent_mem, unit) agent_op" where
  "AMem_SetState k v m = (Inr (), m\<lparr>am_state := (am_state m)(k \<mapsto> v)\<rparr>)"

definition AgentMemory :: "agent_mem AgentStore_ops" where
  "AgentMemory = \<lparr>as_RecordAttempt = AMem_RecordAttempt, as_GetAttempt = AMem_GetAttempt,
     as_ListAttempts = AMem_ListAttempts, as_RecordPayment = AMem_RecordPayment, as_GetPayment = AMem_GetPayment,
     as_ListPayments = AMem_ListPayments, as_Usage = AMem_Usage, as_PutToken = AMem_PutToken, as_GetToken = AMem_GetToken,
     as_TouchToken = AMem_TouchToken, as_DeleteToken = AMem_DeleteToken, as_CreateApproval = AMem_CreateApproval,
     as_GetApproval = AMem_GetApproval, as_ResolveApproval = AMem_ResolveApproval,
     as_ListPendingApprovals = AMem_ListPendingApprovals, as_ExpireApprovals = AMem_ExpireApprovals,
     as_GetState = AMem_GetState, as_SetState = AMem_SetState\<rparr>"

section \<open>SQLite\<close>

record agent_db =
  ad_attempts :: "Attempt list"
  ad_payments :: "Payment list"
  ad_tokens :: "string \<rightharpoonup> Token"
  ad_approvals :: "(string \<times> Approval) list"
  ad_state :: "string \<rightharpoonup> string"

definition OpenAgentSQLite :: agent_db where
  "OpenAgentSQLite = \<lparr>ad_attempts = [], ad_payments = [], ad_tokens = Map.empty, ad_approvals = [], ad_state = Map.empty\<rparr>"

definition whole_second :: "time \<Rightarrow> time" where
  "whole_second t = from_unix (Unix t)"

definition attempt_row :: "Attempt \<Rightarrow> Attempt" where
  "attempt_row a = a\<lparr>at_CreatedAt := whole_second (at_CreatedAt a)\<rparr>"

definition payment_row :: "Payment \<Rightarrow> Payment" where
  "payment_row p = p\<lparr>py_CreatedAt := whole_second (py_CreatedAt p)\<rparr>"

definition token_row :: "Token \<Rightarrow> Token" where
  "token_row t = t\<lparr>tk_CreatedAt := whole_second (tk_CreatedAt t), tk_LastUsed := whole_second (tk_LastUsed t)\<rparr>"

text \<open>The column \<open>resolved_at\<close> is read back only when it is positive.\<close>

definition resolved_row :: "time \<Rightarrow> time option" where
  "resolved_row t = (if Unix t > 0 then Some (whole_second t) else None)"

definition approval_row :: "Approval \<Rightarrow> Approval" where
  "approval_row a = a\<lparr>ap_CreatedAt := whole_second (ap_CreatedAt a), ap_ExpiresAt := whole_second (ap_ExpiresAt a), ap_ResolvedAt := None\<rparr>"

type_synonym 'a agent_sql = "(agent_db, agent_store_error, 'a) sql"

definition agent_row :: "'a option \<Rightarrow> 'a agent_sql" where
  "agent_row x = (case x of None \<Rightarrow> throw AgentNotFound | Some v \<Rightarrow> ret v)"

text \<open>An \<open>INSERT\<close> that a constraint may refuse (\<open>None\<close>), after the driver call.\<close>

definition checked :: "(agent_db \<Rightarrow> ('a \<times> agent_db) option) \<Rightarrow> 'a agent_sql" where
  "checked f = andThen (driver AgentSql) (\<lambda>_ c. case f (cn_db c) of
     None \<Rightarrow> (Inl AgentSql, c) | Some (x, db) \<Rightarrow> (Inr x, c\<lparr>cn_db := db\<rparr>))"

text \<open>\<open>RowsAffected\<close> and \<open>LastInsertId\<close>, which may fail on their own after the statement took effect.\<close>

definition result_of :: "'a agent_sql \<Rightarrow> 'a agent_sql" where
  "result_of m = andThen m (\<lambda>x. andThen (driver AgentSql) (\<lambda>_. ret x))"

definition ASq_RecordAttempt :: "Attempt \<Rightarrow> int agent_sql" where
  "ASq_RecordAttempt a =
     result_of (checked (\<lambda>db. if at_RuleTrace a = None then None
       else (let i = int (length (ad_attempts db) + 1) in
             Some (i, db\<lparr>ad_attempts := ad_attempts db @ [(attempt_row a)\<lparr>at_ID := i\<rparr>]\<rparr>))))"

definition ASq_GetAttempt :: "int \<Rightarrow> Attempt agent_sql" where
  "ASq_GetAttempt i = andThen (query AgentSql (\<lambda>db. find (\<lambda>a. at_ID a = i) (ad_attempts db))) agent_row"

text \<open>\<open>LIMIT\<close>: a negative limit is none.\<close>

definition sql_limit :: "int \<Rightarrow> 'a list \<Rightarrow> 'a list" where
  "sql_limit n xs = (if n < 0 then xs else take (nat n) xs)"

definition ASq_ListAttempts :: "int \<Rightarrow> int \<Rightarrow> Attempt list agent_sql" where
  "ASq_ListAttempts limit beforeID =
     result_of (query AgentSql (\<lambda>db. sql_limit limit
       (filter (\<lambda>a. beforeID > 0 \<longrightarrow> at_ID a < beforeID) (rev (ad_attempts db)))))"

definition ASq_RecordPayment :: "Payment \<Rightarrow> int agent_sql" where
  "ASq_RecordPayment p =
     result_of (checked (\<lambda>db. let i = int (length (ad_payments db) + 1) in
       Some (i, db\<lparr>ad_payments := ad_payments db @ [(payment_row p)\<lparr>py_ID := i\<rparr>]\<rparr>)))"

definition ASq_GetPayment :: "int \<Rightarrow> Payment agent_sql" where
  "ASq_GetPayment i = andThen (query AgentSql (\<lambda>db. find (\<lambda>a. py_ID a = i) (ad_payments db))) agent_row"

definition ASq_ListPayments :: "int \<Rightarrow> int \<Rightarrow> Payment list agent_sql" where
  "ASq_ListPayments limit beforeID =
     result_of (query AgentSql (\<lambda>db. sql_limit limit
       (filter (\<lambda>a. beforeID > 0 \<longrightarrow> py_ID a < beforeID) (rev (ad_payments db)))))"

text \<open>SQLite's \<open>SUM\<close> over integers fails when it overflows at any point.\<close>

definition sql_sum :: "int list \<Rightarrow> int option" where
  "sql_sum xs = fold (\<lambda>x acc. case acc of None \<Rightarrow> None | Some s \<Rightarrow> if in_int64 (s + x) then Some (s + x) else None) xs (Some 0)"

definition usage_query :: "time \<Rightarrow> Payment list \<Rightarrow> StoreUsage option" where
  "usage_query now ps =
     (let dayT = Unix (DayStart now); week = Unix (WeekStart now); hourAgo = Unix (now - hour);
          sum_from = (\<lambda>t. sql_sum (map py_AmountAtoms (filter (\<lambda>p. Unix (py_CreatedAt p) \<ge> t) ps))) in
      case (sum_from dayT, sum_from week) of
        (Some d, Some w) \<Rightarrow>
          Some \<lparr>su_DayAtoms = d, su_WeekAtoms = w, su_HourCount = wrap64 (int (length (filter (\<lambda>p. Unix (py_CreatedAt p) > hourAgo) ps)))\<rparr>
      | _ \<Rightarrow> None)"

definition ASq_Usage :: "time \<Rightarrow> StoreUsage agent_sql" where
  "ASq_Usage now =
     andThen (query AgentSql (\<lambda>db. usage_query now (ad_payments db)))
       (\<lambda>u. case u of None \<Rightarrow> throw AgentSql | Some u \<Rightarrow> ret u)"

definition ASq_PutToken :: "Token \<Rightarrow> unit agent_sql" where
  "ASq_PutToken t = stmt AgentSql (\<lambda>db. ((), db\<lparr>ad_tokens := (ad_tokens db)(tk_ServiceHost t \<mapsto> token_row t)\<rparr>))"

definition ASq_GetToken :: "string \<Rightarrow> Token agent_sql" where
  "ASq_GetToken host = andThen (query AgentSql (\<lambda>db. ad_tokens db host)) agent_row"

definition ASq_TouchToken :: "string \<Rightarrow> time \<Rightarrow> unit agent_sql" where
  "ASq_TouchToken host at = stmt AgentSql (\<lambda>db. ((), case ad_tokens db host of
     None \<Rightarrow> db
   | Some t \<Rightarrow> db\<lparr>ad_tokens := (ad_tokens db)(host \<mapsto> t\<lparr>tk_LastUsed := whole_second at\<rparr>)\<rparr>))"

definition ASq_DeleteToken :: "string \<Rightarrow> unit agent_sql" where
  "ASq_DeleteToken host = stmt AgentSql (\<lambda>db. ((), db\<lparr>ad_tokens := (ad_tokens db)(host := None)\<rparr>))"

text \<open>The primary key refuses an identifier that is already there.\<close>

definition ASq_CreateApproval :: "Approval \<Rightarrow> unit agent_sql" where
  "ASq_CreateApproval a =
     checked (\<lambda>db. if map_of (ad_approvals db) (ap_ID a) \<noteq> None then None
       else Some ((), db\<lparr>ad_approvals := ad_approvals db @ [(ap_ID a, approval_row a)]\<rparr>))"

definition ASq_GetApproval :: "string \<Rightarrow> Approval agent_sql" where
  "ASq_GetApproval i = andThen (query AgentSql (\<lambda>db. map_of (ad_approvals db) i)) agent_row"

text \<open>The guarded \<open>UPDATE\<close>; its count is 0 or 1, the identifier being the primary key.\<close>

definition resolve_update :: "string \<Rightarrow> ApprovalStatus \<Rightarrow> string \<Rightarrow> time \<Rightarrow> agent_db \<Rightarrow> int \<times> agent_db" where
  "resolve_update i status responder at db =
     (case map_of (ad_approvals db) i of
        None \<Rightarrow> (0, db)
      | Some a \<Rightarrow>
          if ap_Status a = ApprovalPending \<and> Unix (ap_ExpiresAt a) \<ge> Unix at
          then (1, db\<lparr>ad_approvals := AList.update i
                 (a\<lparr>ap_Status := status, ap_Responder := responder, ap_ResolvedAt := resolved_row at\<rparr>) (ad_approvals db)\<rparr>)
          else (0, db))"

definition ASq_ResolveApproval :: "string \<Rightarrow> ApprovalStatus \<Rightarrow> string \<Rightarrow> time \<Rightarrow> bool agent_sql" where
  "ASq_ResolveApproval i status responder at =
     andThen (result_of (stmt AgentSql (resolve_update i status responder at))) (\<lambda>n. ret (n = 1))"

definition ASq_ListPendingApprovals :: "time \<Rightarrow> Approval list agent_sql" where
  "ASq_ListPendingApprovals now =
     result_of (query AgentSql (\<lambda>db. sort_key (\<lambda>a. Unix (ap_CreatedAt a))
       (filter (\<lambda>a. ap_Status a = ApprovalPending \<and> Unix (ap_ExpiresAt a) \<ge> Unix now) (map snd (ad_approvals db)))))"

definition expire_update :: "time \<Rightarrow> string \<Rightarrow> agent_db \<Rightarrow> unit \<times> agent_db" where
  "expire_update now i db =
     ((), case map_of (ad_approvals db) i of
            None \<Rightarrow> db
          | Some a \<Rightarrow>
              if ap_Status a = ApprovalPending
              then db\<lparr>ad_approvals := AList.update i
                     (a\<lparr>ap_Status := ApprovalExpired, ap_ResolvedAt := resolved_row now\<rparr>) (ad_approvals db)\<rparr>
              else db)"

text \<open>One \<open>UPDATE\<close> for each row of the result; the first that fails ends the loop.\<close>

fun expire_each :: "time \<Rightarrow> Approval list \<Rightarrow> Approval list agent_sql" where
  "expire_each now [] = ret []"
| "expire_each now (a # as) =
     andThen (stmt AgentSql (expire_update now (ap_ID a))) (\<lambda>_.
     andThen (expire_each now as) (\<lambda>rest. ret (expire now a # rest)))"

definition ASq_ExpireApprovals :: "time \<Rightarrow> Approval list agent_sql" where
  "ASq_ExpireApprovals now =
     andThen (result_of (query AgentSql (\<lambda>db.
       filter (\<lambda>a. ap_Status a = ApprovalPending \<and> Unix (ap_ExpiresAt a) < Unix now) (map snd (ad_approvals db)))))
     (expire_each now)"

definition ASq_GetState :: "string \<Rightarrow> string agent_sql" where
  "ASq_GetState k = andThen (query AgentSql (\<lambda>db. ad_state db k)) agent_row"

definition ASq_SetState :: "string \<Rightarrow> string \<Rightarrow> unit agent_sql" where
  "ASq_SetState k v = stmt AgentSql (\<lambda>db. ((), db\<lparr>ad_state := (ad_state db)(k \<mapsto> v)\<rparr>))"

definition AgentSQLite :: "agent_db conn AgentStore_ops" where
  "AgentSQLite = \<lparr>as_RecordAttempt = ASq_RecordAttempt, as_GetAttempt = ASq_GetAttempt,
     as_ListAttempts = ASq_ListAttempts, as_RecordPayment = ASq_RecordPayment, as_GetPayment = ASq_GetPayment,
     as_ListPayments = ASq_ListPayments, as_Usage = ASq_Usage, as_PutToken = ASq_PutToken, as_GetToken = ASq_GetToken,
     as_TouchToken = ASq_TouchToken, as_DeleteToken = ASq_DeleteToken, as_CreateApproval = ASq_CreateApproval,
     as_GetApproval = ASq_GetApproval, as_ResolveApproval = ASq_ResolveApproval,
     as_ListPendingApprovals = ASq_ListPendingApprovals, as_ExpireApprovals = ASq_ExpireApprovals,
     as_GetState = ASq_GetState, as_SetState = ASq_SetState\<rparr>"

section \<open>The contract\<close>

record agent_view =
  av_attempts :: "Attempt list"
  av_payments :: "Payment list"
  av_approvals :: "string \<rightharpoonup> Approval"
  av_state :: "string \<rightharpoonup> string"

text \<open>What a store may change of a record: its identifier and the fraction of a second.\<close>

definition stored_time :: "time \<Rightarrow> time \<Rightarrow> bool" where
  "stored_time t t' \<longleftrightarrow> t' = t \<or> t' = whole_second t"

definition attempt_stored :: "Attempt \<Rightarrow> Attempt \<Rightarrow> bool" where
  "attempt_stored a a' \<longleftrightarrow> a'\<lparr>at_ID := at_ID a, at_CreatedAt := at_CreatedAt a\<rparr> = a \<and> stored_time (at_CreatedAt a) (at_CreatedAt a')"

definition payment_stored :: "Payment \<Rightarrow> Payment \<Rightarrow> bool" where
  "payment_stored p p' \<longleftrightarrow> p'\<lparr>py_ID := py_ID p, py_CreatedAt := py_CreatedAt p\<rparr> = p \<and> stored_time (py_CreatedAt p) (py_CreatedAt p')"

definition approval_stored :: "Approval \<Rightarrow> Approval \<Rightarrow> bool" where
  "approval_stored a a' \<longleftrightarrow>
     a'\<lparr>ap_CreatedAt := ap_CreatedAt a, ap_ExpiresAt := ap_ExpiresAt a, ap_ResolvedAt := ap_ResolvedAt a\<rparr> = a \<and>
     stored_time (ap_ExpiresAt a) (ap_ExpiresAt a')"

definition spent_since :: "time \<Rightarrow> Payment list \<Rightarrow> int" where
  "spent_since t ps = sum_list (map py_AmountAtoms (filter (\<lambda>p. t \<le> py_CreatedAt p) ps))"

definition count_since :: "time \<Rightarrow> Payment list \<Rightarrow> int" where
  "count_since t ps = int (length (filter (\<lambda>p. t \<le> py_CreatedAt p) ps))"

definition expires_only :: "(string \<rightharpoonup> Approval) \<Rightarrow> (string \<rightharpoonup> Approval) \<Rightarrow> bool" where
  "expires_only m m' \<longleftrightarrow> (\<forall>i. m' i = m i \<or>
     (\<exists>a r. m i = Some a \<and> ap_Status a = ApprovalPending \<and> m' i = Some (a\<lparr>ap_Status := ApprovalExpired, ap_ResolvedAt := r\<rparr>)))"

text \<open>A pending approval, not more than a second past its expiry, takes the verdict.\<close>

definition approval_won :: "agent_view \<Rightarrow> string \<Rightarrow> ApprovalStatus \<Rightarrow> string \<Rightarrow> time \<Rightarrow> agent_view \<Rightarrow> bool" where
  "approval_won V i st resp at V' \<longleftrightarrow>
     (\<exists>ap x. av_approvals V i = Some ap \<and> ap_Status ap = ApprovalPending \<and> at < ap_ExpiresAt ap + second \<and>
        V' = V\<lparr>av_approvals := (av_approvals V)(i \<mapsto> ap\<lparr>ap_Status := st, ap_Responder := resp, ap_ResolvedAt := x\<rparr>)\<rparr>)"

locale agent_store =
  fixes ops :: "'s AgentStore_ops" and view :: "'s \<Rightarrow> agent_view"
  assumes record_attempt: "as_RecordAttempt ops a s = (ri, s') \<Longrightarrow>
      (\<exists>a'. view s' = (view s)\<lparr>av_attempts := av_attempts (view s) @ [a']\<rparr> \<and> attempt_stored a a' \<and>
         (\<forall>i. ri = Inr i \<longrightarrow> at_ID a' = i \<and> i = int (length (av_attempts (view s)) + 1))) \<or>
      (\<exists>e. ri = Inl e) \<and> view s' = view s"
    and record_payment: "as_RecordPayment ops p s = (ri, s') \<Longrightarrow>
      (\<exists>p'. view s' = (view s)\<lparr>av_payments := av_payments (view s) @ [p']\<rparr> \<and> payment_stored p p' \<and>
         (\<forall>i. ri = Inr i \<longrightarrow> py_ID p' = i)) \<or>
      (\<exists>e. ri = Inl e) \<and> view s' = view s"
    and usage: "as_Usage ops now s = (ru, s') \<Longrightarrow>
      view s' = view s \<and>
      (\<forall>u. ru = Inr u \<longrightarrow>
         su_DayAtoms u = wrap64 (spent_since (DayStart now) (av_payments (view s))) \<and>
         su_WeekAtoms u = wrap64 (spent_since (WeekStart now) (av_payments (view s))) \<and>
         (\<exists>h. now - hour < h \<and> h \<le> now - hour + second \<and> su_HourCount u = wrap64 (count_since h (av_payments (view s)))))"
    and create_approval: "as_CreateApproval ops ap s = (rc, s') \<Longrightarrow>
      (case rc of Inl e \<Rightarrow> view s' = view s
       | Inr _ \<Rightarrow> \<exists>ap'. view s' = (view s)\<lparr>av_approvals := (av_approvals (view s))(ap_ID ap \<mapsto> ap')\<rparr> \<and> approval_stored ap ap')"
    and resolve_approval: "as_ResolveApproval ops i st resp at s = (rb, s') \<Longrightarrow>
      rb = Inr True \<and> approval_won (view s) i st resp at (view s') \<or>
      rb = Inr False \<and> view s' = view s \<or>
      (\<exists>e. rb = Inl e) \<and> (view s' = view s \<or> approval_won (view s) i st resp at (view s'))"
    and expire_approvals: "as_ExpireApprovals ops now s = (rl, s') \<Longrightarrow>
      \<exists>m. view s' = (view s)\<lparr>av_approvals := m\<rparr> \<and> expires_only (av_approvals (view s)) m"
    and get_state: "as_GetState ops k s = (rs, s') \<Longrightarrow>
      view s' = view s \<and> (case rs of Inl e \<Rightarrow> e = AgentNotFound \<longrightarrow> av_state (view s) k = None
        | Inr v \<Rightarrow> av_state (view s) k = Some v)"
    and set_state: "as_SetState ops k v s = (rc, s') \<Longrightarrow>
      view s' = (case rc of Inl e \<Rightarrow> view s | Inr _ \<Rightarrow> (view s)\<lparr>av_state := (av_state (view s))(k \<mapsto> v)\<rparr>)"
    and token_ops: "view (snd (as_GetToken ops h s)) = view s" "view (snd (as_PutToken ops t s)) = view s"
      "view (snd (as_TouchToken ops h now s)) = view s" "view (snd (as_DeleteToken ops h s)) = view s"

section \<open>Memory meets the contract\<close>

definition mem_agent_view :: "agent_mem \<Rightarrow> agent_view" where
  "mem_agent_view m = \<lparr>av_attempts = am_attempts m, av_payments = am_payments m, av_approvals = map_of (am_approvals m),
     av_state = am_state m\<rparr>"

lemma stored_refl [simp]: "stored_time t t"
  by (simp add: stored_time_def)

lemma add64_wrap [simp]: "add64 (wrap64 a) b = wrap64 (a + b)" "wrap64 (wrap64 a) = wrap64 a"
  by (simp_all add: wrap64_def mod_simps algebra_simps)

lemma usage_fold:
  "fold (usage_step d w h) ps u =
     \<lparr>su_DayAtoms = (if \<exists>p\<in>set ps. d \<le> py_CreatedAt p then add64 (su_DayAtoms u) (spent_since d ps) else su_DayAtoms u),
      su_WeekAtoms = (if \<exists>p\<in>set ps. w \<le> py_CreatedAt p then add64 (su_WeekAtoms u) (spent_since w ps) else su_WeekAtoms u),
      su_HourCount = (if \<exists>p\<in>set ps. h + 1 \<le> py_CreatedAt p then add64 (su_HourCount u) (count_since (h + 1) ps) else su_HourCount u)\<rparr>"
proof (induction ps arbitrary: u)
  case (Cons p ps)
  have none: "spent_since t ps = 0" "count_since t ps = 0" if "\<not> (\<exists>p\<in>set ps. t \<le> py_CreatedAt p)" for t
    using that by (simp_all add: spent_since_def count_since_def filter_empty_conv)
  have hp: "h < py_CreatedAt p \<longleftrightarrow> h + 1 \<le> py_CreatedAt p" by arith
  show ?case
    unfolding fold_simps comp_def Cons.IH using none [of d] none [of w] none(2) [of "h + 1"]
    by (auto simp: usage_step_def Let_def spent_since_def count_since_def hp algebra_simps not_less)
qed simp

lemma mem_usage:
  assumes "AMem_Usage now m = (ru, m')"
  shows "m' = m \<and> (\<forall>u. ru = Inr u \<longrightarrow>
     su_DayAtoms u = wrap64 (spent_since (DayStart now) (am_payments m)) \<and>
     su_WeekAtoms u = wrap64 (spent_since (WeekStart now) (am_payments m)) \<and>
     su_HourCount u = wrap64 (count_since (now - hour + 1) (am_payments m)))"
proof -
  have none: "spent_since t ps = 0" "count_since t ps = 0" if "\<not> (\<exists>p\<in>set ps. t \<le> py_CreatedAt p)" for t ps
    using that by (simp_all add: spent_since_def count_since_def filter_empty_conv)
  have "wrap64 0 = 0" by (simp add: wrap64_def)
  with assms none show ?thesis by (auto simp: AMem_Usage_def usage_fold)
qed

lemma map_of_map_val: "map_of (map (\<lambda>(k, v). (k, f v)) xs) k = map_option f (map_of xs k)"
  by (induction xs) auto

lemmas agent_mem_defs = AgentMemory_def AMem_RecordAttempt_def AMem_RecordPayment_def AMem_CreateApproval_def
  AMem_ResolveApproval_def AMem_ExpireApprovals_def AMem_GetState_def AMem_SetState_def AMem_GetToken_def AMem_PutToken_def
  AMem_TouchToken_def AMem_DeleteToken_def found_in_def mem_agent_view_def

lemma mem_resolve:
  assumes "AMem_ResolveApproval i st resp at s = (rb, s')"
  shows "rb = Inr True \<and> approval_won (mem_agent_view s) i st resp at (mem_agent_view s') \<or> rb = Inr False \<and> s' = s"
proof (cases "map_of (am_approvals s) i")
  case (Some ap)
  show ?thesis
  proof (cases "ap_Status ap \<noteq> ApprovalPending \<or> at > ap_ExpiresAt ap")
    case False
    moreover have "at < ap_ExpiresAt ap + second" using False by (simp add: second_def)
    ultimately show ?thesis using assms Some
      by (auto simp: AMem_ResolveApproval_def mem_agent_view_def approval_won_def update_conv')
  qed (use assms Some in \<open>auto simp: AMem_ResolveApproval_def\<close>)
qed (use assms in \<open>auto simp: AMem_ResolveApproval_def\<close>)

lemma mem_expire:
  assumes "AMem_ExpireApprovals now s = (rl, s')"
  shows "\<exists>m. mem_agent_view s' = (mem_agent_view s)\<lparr>av_approvals := m\<rparr> \<and> expires_only (map_of (am_approvals s)) m"
proof -
  let ?f = "\<lambda>a. if ap_Status a = ApprovalPending \<and> now > ap_ExpiresAt a then expire now a else a"
  let ?l = "am_approvals s"
  have "map_option ?f (map_of ?l i) = map_of ?l i \<or> (\<exists>a r. map_of ?l i = Some a \<and> ap_Status a = ApprovalPending \<and>
      map_option ?f (map_of ?l i) = Some (a\<lparr>ap_Status := ApprovalExpired, ap_ResolvedAt := r\<rparr>))" for i
    by (cases "map_of ?l i") (auto simp: expire_def)
  then have "expires_only (map_of ?l) (\<lambda>i. map_option ?f (map_of ?l i))" unfolding expires_only_def by blast
  moreover have "map_of (map (\<lambda>(i, a). (i, ?f a)) ?l) = (\<lambda>i. map_option ?f (map_of ?l i))"
    by (rule ext) (rule map_of_map_val)
  ultimately show ?thesis using assms
    by (intro exI [of _ "\<lambda>i. map_option ?f (map_of ?l i)"]) (auto simp: AMem_ExpireApprovals_def mem_agent_view_def Let_def)
qed

interpretation agent_mem: agent_store AgentMemory mem_agent_view
proof unfold_locales
  fix now s ru s' assume "as_Usage AgentMemory now s = (ru, s')"
  then have u: "AMem_Usage now s = (ru, s')" by (simp add: AgentMemory_def)
  show "mem_agent_view s' = mem_agent_view s \<and> (\<forall>u. ru = Inr u \<longrightarrow>
      su_DayAtoms u = wrap64 (spent_since (DayStart now) (av_payments (mem_agent_view s))) \<and>
      su_WeekAtoms u = wrap64 (spent_since (WeekStart now) (av_payments (mem_agent_view s))) \<and>
      (\<exists>h. now - hour < h \<and> h \<le> now - hour + second \<and> su_HourCount u = wrap64 (count_since h (av_payments (mem_agent_view s)))))"
    using mem_usage [OF u] by (auto simp: mem_agent_view_def second_def intro!: exI [of _ "now - hour + 1"])
next
  fix i st resp at s rb s' assume "as_ResolveApproval AgentMemory i st resp at s = (rb, s')"
  then have "AMem_ResolveApproval i st resp at s = (rb, s')" by (simp add: AgentMemory_def)
  from mem_resolve [OF this] show "rb = Inr True \<and> approval_won (mem_agent_view s) i st resp at (mem_agent_view s') \<or>
      rb = Inr False \<and> mem_agent_view s' = mem_agent_view s \<or>
      (\<exists>e. rb = Inl e) \<and> (mem_agent_view s' = mem_agent_view s \<or> approval_won (mem_agent_view s) i st resp at (mem_agent_view s'))"
    by blast
next
  fix now s rl s' assume "as_ExpireApprovals AgentMemory now s = (rl, s')"
  then have "AMem_ExpireApprovals now s = (rl, s')" by (simp add: AgentMemory_def)
  from mem_expire [OF this] show "\<exists>m. mem_agent_view s' = (mem_agent_view s)\<lparr>av_approvals := m\<rparr> \<and>
      expires_only (av_approvals (mem_agent_view s)) m"
    by (simp add: mem_agent_view_def)
qed (auto simp: agent_mem_defs attempt_stored_def payment_stored_def approval_stored_def update_conv' Let_def split: option.splits)

section \<open>SQLite meets the contract\<close>

definition sql_agent_view :: "agent_db conn \<Rightarrow> agent_view" where
  "sql_agent_view c = \<lparr>av_attempts = ad_attempts (cn_db c), av_payments = ad_payments (cn_db c),
     av_approvals = map_of (ad_approvals (cn_db c)), av_state = ad_state (cn_db c)\<rparr>"

lemma sql_view_cong: "cn_db c = cn_db c' \<Longrightarrow> sql_agent_view c = sql_agent_view c'"
  by (simp add: sql_agent_view_def)

lemma checked_cases:
  assumes "checked f c = (r, c')"
  obtains e where "r = Inl e" "cn_db c' = cn_db c" | x where "r = Inr x" "f (cn_db c) = Some (x, cn_db c')"
  using assms by (cases rule: driver_cases [of AgentSql c])
    (auto simp: checked_def andThen_def split: option.splits prod.splits)

lemma result_of_cases:
  assumes "result_of m c = (r, c')"
  shows "\<exists>r1 c1. m c = (r1, c1) \<and> cn_db c' = cn_db c1 \<and> (\<forall>x. r = Inr x \<longrightarrow> r1 = Inr x) \<and> (\<forall>e. r1 = Inl e \<longrightarrow> r = Inl e)"
proof -
  obtain r1 c1 where m: "m c = (r1, c1)" by (cases "m c")
  show ?thesis
  proof (cases r1)
    case (Inl e)
    then have "result_of m c = (Inl e, c1)" using m by (simp add: result_of_def andThen_def)
    then show ?thesis using assms m Inl by simp
  next
    case (Inr x)
    have "cn_db c' = cn_db c1 \<and> (\<forall>y. r = Inr y \<longrightarrow> y = x)"
      using assms m Inr
      by (cases rule: driver_cases [of AgentSql c1]) (auto simp: result_of_def andThen_def ret_def)
    then show ?thesis using m Inr by simp
  qed
qed

lemma insert_cases:
  assumes "result_of (checked f) c = (r, c')"
  shows "(\<exists>e. r = Inl e) \<and> cn_db c' = cn_db c \<or> (\<exists>x. f (cn_db c) = Some (x, cn_db c') \<and> (\<forall>y. r = Inr y \<longrightarrow> y = x))"
proof -
  obtain r1 c1 where r: "checked f c = (r1, c1)" "cn_db c' = cn_db c1" "\<forall>x. r = Inr x \<longrightarrow> r1 = Inr x" "\<forall>e. r1 = Inl e \<longrightarrow> r = Inl e"
    using result_of_cases [OF assms] by (elim exE conjE)
  show ?thesis by (rule checked_cases [OF r(1)]) (use r(2-) in auto)
qed

lemma sql_record_attempt:
  assumes "ASq_RecordAttempt a s = (ri, s')"
  shows "(\<exists>a'. sql_agent_view s' = (sql_agent_view s)\<lparr>av_attempts := av_attempts (sql_agent_view s) @ [a']\<rparr> \<and> attempt_stored a a' \<and>
       (\<forall>i. ri = Inr i \<longrightarrow> at_ID a' = i \<and> i = int (length (av_attempts (sql_agent_view s)) + 1))) \<or>
    (\<exists>e. ri = Inl e) \<and> sql_agent_view s' = sql_agent_view s"
  using insert_cases [OF assms [unfolded ASq_RecordAttempt_def]]
proof (elim disjE exE conjE)
  fix x assume f: "(if at_RuleTrace a = None then None
      else let i = int (length (ad_attempts (cn_db s)) + 1) in
        Some (i, (cn_db s)\<lparr>ad_attempts := ad_attempts (cn_db s) @ [(attempt_row a)\<lparr>at_ID := i\<rparr>]\<rparr>)) = Some (x, cn_db s')"
    and ri: "\<forall>y. ri = Inr y \<longrightarrow> y = x"
  let ?a = "(attempt_row a)\<lparr>at_ID := x\<rparr>"
  have x: "x = int (length (ad_attempts (cn_db s)) + 1)" and
    s': "cn_db s' = (cn_db s)\<lparr>ad_attempts := ad_attempts (cn_db s) @ [?a]\<rparr>"
    using f by (auto simp: Let_def split: if_splits)
  have "attempt_stored a ?a" by (simp add: attempt_stored_def attempt_row_def stored_time_def)
  moreover have "sql_agent_view s' = (sql_agent_view s)\<lparr>av_attempts := av_attempts (sql_agent_view s) @ [?a]\<rparr>"
    by (simp add: sql_agent_view_def s')
  moreover have "\<forall>i. ri = Inr i \<longrightarrow> at_ID ?a = i \<and> i = int (length (av_attempts (sql_agent_view s)) + 1)"
    using ri by (simp add: sql_agent_view_def x)
  ultimately show ?thesis by blast
qed (blast intro: sql_view_cong)

lemma sql_record_payment:
  assumes "ASq_RecordPayment p s = (ri, s')"
  shows "(\<exists>p'. sql_agent_view s' = (sql_agent_view s)\<lparr>av_payments := av_payments (sql_agent_view s) @ [p']\<rparr> \<and> payment_stored p p' \<and>
       (\<forall>i. ri = Inr i \<longrightarrow> py_ID p' = i)) \<or>
    (\<exists>e. ri = Inl e) \<and> sql_agent_view s' = sql_agent_view s"
  using insert_cases [OF assms [unfolded ASq_RecordPayment_def]]
proof (elim disjE exE conjE)
  fix x assume f: "(let i = int (length (ad_payments (cn_db s)) + 1) in
        Some (i, (cn_db s)\<lparr>ad_payments := ad_payments (cn_db s) @ [(payment_row p)\<lparr>py_ID := i\<rparr>]\<rparr>)) = Some (x, cn_db s')"
    and ri: "\<forall>y. ri = Inr y \<longrightarrow> y = x"
  let ?p = "(payment_row p)\<lparr>py_ID := x\<rparr>"
  have s': "cn_db s' = (cn_db s)\<lparr>ad_payments := ad_payments (cn_db s) @ [?p]\<rparr>"
    using f by (auto simp: Let_def)
  have "payment_stored p ?p" by (simp add: payment_stored_def payment_row_def stored_time_def)
  moreover have "sql_agent_view s' = (sql_agent_view s)\<lparr>av_payments := av_payments (sql_agent_view s) @ [?p]\<rparr>"
    by (simp add: sql_agent_view_def s')
  moreover have "\<forall>i. ri = Inr i \<longrightarrow> py_ID ?p = i" using ri by simp
  ultimately show ?thesis by blast
qed (blast intro: sql_view_cong)

lemma fold_sum_None: "fold (\<lambda>x acc. case acc of None \<Rightarrow> None | Some s \<Rightarrow> if in_int64 (s + x) then Some (s + x) else None) xs None = None"
  by (induction xs) simp_all

lemma fold_sum_Some:
  "fold (\<lambda>x acc. case acc of None \<Rightarrow> None | Some s \<Rightarrow> if in_int64 (s + x) then Some (s + x) else None) xs (Some a) = Some v \<Longrightarrow>
   v = a + sum_list xs \<and> (xs = [] \<or> in_int64 v)"
proof (induction xs arbitrary: a)
  case (Cons x xs)
  show ?case
  proof (cases "in_int64 (a + x)")
    case True
    with Cons.prems Cons.IH [of "a + x"] show ?thesis by auto
  qed (use Cons.prems in \<open>simp add: fold_sum_None\<close>)
qed simp

lemma sql_sum_Some: "sql_sum xs = Some v \<Longrightarrow> v = sum_list xs \<and> in_int64 v"
  using fold_sum_Some [of xs 0 v] by (auto simp: sql_sum_def int64_defs)

lemma Unix_ge: "k \<le> Unix t \<longleftrightarrow> from_unix k \<le> t"
  using less_from_unix_iff [of t k] by (meson not_le)

lemma Unix_day: "from_unix (Unix (DayStart t)) = DayStart t"
proof -
  have "DayStart t = (t div day * 86400) * second" by (simp add: DayStart_def time_units)
  then show ?thesis by (simp add: Unix_def from_unix_def)
qed

lemma Unix_week: "from_unix (Unix (WeekStart t)) = WeekStart t"
proof -
  have "WeekStart t = ((t div day - ((if Weekday (DayStart t) = 0 then 7 else Weekday (DayStart t)) - 1)) * 86400) * second"
    by (simp add: WeekStart_def DayStart_def Let_def time_units algebra_simps)
  then show ?thesis by (simp add: Unix_def from_unix_def)
qed

lemma sql_usage:
  assumes "ASq_Usage now s = (ru, s')"
  shows "cn_db s' = cn_db s \<and> (\<forall>u. ru = Inr u \<longrightarrow>
     su_DayAtoms u = wrap64 (spent_since (DayStart now) (ad_payments (cn_db s))) \<and>
     su_WeekAtoms u = wrap64 (spent_since (WeekStart now) (ad_payments (cn_db s))) \<and>
     su_HourCount u = wrap64 (count_since (from_unix (Unix (now - hour) + 1)) (ad_payments (cn_db s))))"
proof -
  obtain q c1 where q: "query AgentSql (\<lambda>db. usage_query now (ad_payments db)) s = (q, c1)"
    by (cases "query AgentSql (\<lambda>db. usage_query now (ad_payments db)) s")
  have c1: "cn_db c1 = cn_db s" "\<And>x. q = Inr x \<Longrightarrow> x = usage_query now (ad_payments (cn_db s))"
    using q by (cases q; auto dest: query_Inl query_Inr)+
  have s': "cn_db s' = cn_db s" "\<And>u. ru = Inr u \<Longrightarrow> usage_query now (ad_payments (cn_db s)) = Some u"
    using assms q c1 by (auto simp: ASq_Usage_def andThen_def ret_def throw_def split: sum.splits option.splits)
  have "su_DayAtoms u = wrap64 (spent_since (DayStart now) ps) \<and> su_WeekAtoms u = wrap64 (spent_since (WeekStart now) ps) \<and>
      su_HourCount u = wrap64 (count_since (from_unix (Unix (now - hour) + 1)) ps)" if u: "usage_query now ps = Some u" for u ps
  proof -
    have hr: "Unix (now - hour) < Unix t \<longleftrightarrow> from_unix (Unix (now - hour) + 1) \<le> t" for t
      using Unix_ge [of "Unix (now - hour) + 1" t] by linarith
    from u show ?thesis
      by (auto simp: usage_query_def Let_def spent_since_def count_since_def Unix_ge Unix_day Unix_week hr wrap64_id
          split: option.splits dest!: sql_sum_Some)
  qed
  with s' show ?thesis by blast
qed

lemma expires_only_refl: "expires_only m m"
  by (simp add: expires_only_def)

lemma expires_only_trans:
  assumes "expires_only m1 m2" "expires_only m2 m3" shows "expires_only m1 m3"
  unfolding expires_only_def
proof
  fix i
  from assms(2) have "m3 i = m2 i \<or> (\<exists>a r. m2 i = Some a \<and> ap_Status a = ApprovalPending \<and> m3 i = Some (a\<lparr>ap_Status := ApprovalExpired, ap_ResolvedAt := r\<rparr>))"
    unfolding expires_only_def by blast
  moreover from assms(1) have "m2 i = m1 i \<or> (\<exists>a r. m1 i = Some a \<and> ap_Status a = ApprovalPending \<and> m2 i = Some (a\<lparr>ap_Status := ApprovalExpired, ap_ResolvedAt := r\<rparr>))"
    unfolding expires_only_def by blast
  ultimately show "m3 i = m1 i \<or> (\<exists>a r. m1 i = Some a \<and> ap_Status a = ApprovalPending \<and> m3 i = Some (a\<lparr>ap_Status := ApprovalExpired, ap_ResolvedAt := r\<rparr>))"
    by auto
qed

text \<open>A statement that succeeded or failed left the other tables alone.\<close>

lemma stmt_cases:
  assumes "stmt e f c = (r, c')"
  shows "r = Inl e \<and> cn_db c' = cn_db c \<or> (\<exists>x. r = Inr x \<and> f (cn_db c) = (x, cn_db c'))"
  using assms stmt_Inl [of e f c] stmt_Inr [of e f c] by (cases r) blast+

lemma query_row_cases:
  assumes "andThen (query e f) agent_row c = (r, c')"
  shows "cn_db c' = cn_db c \<and>
    (case r of Inl e' \<Rightarrow> e' = e \<or> e' = AgentNotFound \<and> f (cn_db c) = None | Inr v \<Rightarrow> f (cn_db c) = Some v)"
proof -
  obtain q c1 where q: "query e f c = (q, c1)" by (cases "query e f c")
  show ?thesis
  proof (cases q)
    case (Inl x)
    with assms q query_Inl [OF q [unfolded Inl]] show ?thesis by (auto simp: andThen_def)
  next
    case (Inr y)
    from query_Inr [OF q [unfolded Inr]] have y: "y = f (cn_db c)" and c1: "cn_db c1 = cn_db c" by simp_all
    show ?thesis
      by (cases "f (cn_db c)") (use assms q Inr y c1 in \<open>auto simp: andThen_def agent_row_def ret_def throw_def\<close>)
  qed
qed

lemma query_db: "query e f c = (r, c') \<Longrightarrow> cn_db c' = cn_db c"
  using query_Inl [of e f c] query_Inr [of e f c] by (cases r) blast+

lemma sql_create_approval:
  assumes "ASq_CreateApproval ap s = (rc, s')"
  shows "case rc of Inl e \<Rightarrow> sql_agent_view s' = sql_agent_view s
     | Inr _ \<Rightarrow> \<exists>ap'. sql_agent_view s' = (sql_agent_view s)\<lparr>av_approvals := (av_approvals (sql_agent_view s))(ap_ID ap \<mapsto> ap')\<rparr> \<and>
         approval_stored ap ap'"
  using assms [unfolded ASq_CreateApproval_def]
proof (cases rule: checked_cases)
  case (1 e)
  from sql_view_cong [OF 1(2)] show ?thesis by (simp only: 1(1) sum.case)
next
  case (2 x)
  have new: "map_of (ad_approvals (cn_db s)) (ap_ID ap) = None"
    using 2(2) by (simp only: split: if_splits) simp_all
  have s': "cn_db s' = (cn_db s)\<lparr>ad_approvals := ad_approvals (cn_db s) @ [(ap_ID ap, approval_row ap)]\<rparr>"
    using 2(2) by (simp add: new)
  have "map_of (ad_approvals (cn_db s) @ [(ap_ID ap, approval_row ap)]) = (map_of (ad_approvals (cn_db s)))(ap_ID ap \<mapsto> approval_row ap)"
    using new by (auto simp: map_add_def split: option.splits)
  then have "sql_agent_view s' = (sql_agent_view s)\<lparr>av_approvals := (av_approvals (sql_agent_view s))(ap_ID ap \<mapsto> approval_row ap)\<rparr>"
    by (simp add: sql_agent_view_def s')
  moreover have "approval_stored ap (approval_row ap)"
    by (simp add: approval_stored_def approval_row_def stored_time_def)
  ultimately show ?thesis unfolding 2(1) by (simp only: sum.case) blast
qed

lemma resolve_update_cases:
  assumes "resolve_update i st resp at (cn_db s) = (n, cn_db s')"
  shows "n = 0 \<and> sql_agent_view s' = sql_agent_view s \<or> n = 1 \<and> approval_won (sql_agent_view s) i st resp at (sql_agent_view s')"
proof (cases "map_of (ad_approvals (cn_db s)) i")
  case (Some a)
  show ?thesis
  proof (cases "ap_Status a = ApprovalPending \<and> Unix (ap_ExpiresAt a) \<ge> Unix at")
    case True
    have "at div second \<le> ap_ExpiresAt a div second" using True by (simp add: Unix_def)
    then have "at < ap_ExpiresAt a + second" by (simp add: time_units)
    moreover have "n = 1" and s': "cn_db s' = (cn_db s)\<lparr>ad_approvals := AList.update i
        (a\<lparr>ap_Status := st, ap_Responder := resp, ap_ResolvedAt := resolved_row at\<rparr>) (ad_approvals (cn_db s))\<rparr>"
      using True assms Some by (auto simp: resolve_update_def)
    ultimately show ?thesis using True Some
      by (auto simp: approval_won_def sql_agent_view_def update_conv' s')
  qed (use assms Some in \<open>auto simp: resolve_update_def sql_agent_view_def\<close>)
qed (use assms in \<open>auto simp: resolve_update_def sql_agent_view_def\<close>)

lemma sql_resolve:
  assumes "ASq_ResolveApproval i st resp at s = (rb, s')"
  shows "rb = Inr True \<and> approval_won (sql_agent_view s) i st resp at (sql_agent_view s') \<or>
    rb = Inr False \<and> sql_agent_view s' = sql_agent_view s \<or>
    (\<exists>e. rb = Inl e) \<and> (sql_agent_view s' = sql_agent_view s \<or> approval_won (sql_agent_view s) i st resp at (sql_agent_view s'))"
proof -
  let ?m = "result_of (stmt AgentSql (resolve_update i st resp at))"
  obtain r c where m: "?m s = (r, c)" by (cases "?m s")
  have fin: "cn_db s' = cn_db c" "rb = (case r of Inl e \<Rightarrow> Inl e | Inr n \<Rightarrow> Inr (n = 1))"
    using assms m by (auto simp: ASq_ResolveApproval_def andThen_def ret_def split: sum.splits)
  have V: "sql_agent_view s' = sql_agent_view c" by (rule sql_view_cong) (rule fin)
  obtain r1 c1 where r: "stmt AgentSql (resolve_update i st resp at) s = (r1, c1)" "cn_db c = cn_db c1"
      "\<forall>x. r = Inr x \<longrightarrow> r1 = Inr x" "\<forall>e. r1 = Inl e \<longrightarrow> r = Inl e"
    using result_of_cases [OF m] by (elim exE conjE)
  have V1: "sql_agent_view c = sql_agent_view c1" by (rule sql_view_cong) (rule r)
  from stmt_cases [OF r(1)] show ?thesis
  proof (elim disjE exE conjE)
    assume "r1 = Inl AgentSql" "cn_db c1 = cn_db s"
    then show ?thesis using fin r V V1 sql_view_cong [of c1 s] by simp
  next
    fix n assume "r1 = Inr n" "resolve_update i st resp at (cn_db s) = (n, cn_db c1)"
    with resolve_update_cases [of i st resp at s n c1] fin r V V1 show ?thesis by (cases r) auto
  qed
qed

lemma expire_update_only: "expires_only (map_of (ad_approvals db)) (map_of (ad_approvals (snd (expire_update now i db))))"
  by (auto simp: expire_update_def expires_only_def update_conv' split: option.splits)

text \<open>The tables the contract sees, other than the approvals.\<close>

definition other_tables :: "agent_db \<Rightarrow> Attempt list \<times> Payment list \<times> (string \<rightharpoonup> string)" where
  "other_tables db = (ad_attempts db, ad_payments db, ad_state db)"

lemma expire_update_other: "other_tables (snd (expire_update now i db)) = other_tables db"
  by (simp add: expire_update_def other_tables_def split: option.splits)

lemma expire_each_only:
  "expire_each now as c = (r, c') \<Longrightarrow>
   other_tables (cn_db c') = other_tables (cn_db c) \<and>
   expires_only (map_of (ad_approvals (cn_db c))) (map_of (ad_approvals (cn_db c')))"
proof (induction as arbitrary: c r)
  case Nil
  then show ?case by (auto simp: ret_def expires_only_refl)
next
  case (Cons a as)
  obtain r1 c1 where s: "stmt AgentSql (expire_update now (ap_ID a)) c = (r1, c1)"
    by (cases "stmt AgentSql (expire_update now (ap_ID a)) c")
  from stmt_cases [OF s] show ?case
  proof (elim disjE exE conjE)
    assume "r1 = Inl AgentSql" "cn_db c1 = cn_db c"
    then show ?thesis using Cons.prems s by (simp add: andThen_def expires_only_refl)
  next
    fix x assume x: "r1 = Inr x" "expire_update now (ap_ID a) (cn_db c) = (x, cn_db c1)"
    obtain r2 where e: "expire_each now as c1 = (r2, c')"
      using Cons.prems s x(1) by (auto simp: andThen_def ret_def split: prod.splits sum.splits)
    have "other_tables (cn_db c1) = other_tables (cn_db c)"
      "expires_only (map_of (ad_approvals (cn_db c))) (map_of (ad_approvals (cn_db c1)))"
      using expire_update_other [of now "ap_ID a" "cn_db c"] expire_update_only [of "cn_db c" now "ap_ID a"] x(2) by simp_all
    with Cons.IH [OF e] show ?thesis using expires_only_trans by (metis (no_types))
  qed
qed

lemma sql_expire:
  assumes "ASq_ExpireApprovals now s = (rl, s')"
  shows "\<exists>m. sql_agent_view s' = (sql_agent_view s)\<lparr>av_approvals := m\<rparr> \<and> expires_only (av_approvals (sql_agent_view s)) m"
proof -
  let ?q = "query AgentSql (\<lambda>db. filter (\<lambda>a. ap_Status a = ApprovalPending \<and> Unix (ap_ExpiresAt a) < Unix now) (map snd (ad_approvals db)))"
  obtain r c where m: "result_of ?q s = (r, c)" by (cases "result_of ?q s")
  obtain r1 c1 where q: "?q s = (r1, c1)" "cn_db c = cn_db c1" using result_of_cases [OF m] by (elim exE conjE)
  have c: "cn_db c = cn_db s" using q(2) query_db [OF q(1)] by simp
  have "other_tables (cn_db s') = other_tables (cn_db s) \<and>
      expires_only (map_of (ad_approvals (cn_db s))) (map_of (ad_approvals (cn_db s')))"
  proof (cases r)
    case (Inl e)
    then have "s' = c" using assms m unfolding ASq_ExpireApprovals_def andThen_def by simp
    then show ?thesis by (simp add: c expires_only_refl)
  next
    case (Inr as)
    then have "expire_each now as c = (rl, s')" using assms m unfolding ASq_ExpireApprovals_def andThen_def by simp
    from expire_each_only [OF this] show ?thesis by (simp add: c)
  qed
  then have "sql_agent_view s' = (sql_agent_view s)\<lparr>av_approvals := map_of (ad_approvals (cn_db s'))\<rparr>"
      "expires_only (av_approvals (sql_agent_view s)) (map_of (ad_approvals (cn_db s')))"
    by (simp_all add: sql_agent_view_def other_tables_def)
  then show ?thesis by blast
qed

lemma sql_get_state:
  assumes "ASq_GetState k s = (rs, s')"
  shows "sql_agent_view s' = sql_agent_view s \<and> (case rs of Inl e \<Rightarrow> e = AgentNotFound \<longrightarrow> av_state (sql_agent_view s) k = None
        | Inr v \<Rightarrow> av_state (sql_agent_view s) k = Some v)"
proof -
  from query_row_cases [OF assms [unfolded ASq_GetState_def]] have
    "cn_db s' = cn_db s" "case rs of Inl e' \<Rightarrow> e' = AgentSql \<or> e' = AgentNotFound \<and> ad_state (cn_db s) k = None | Inr v \<Rightarrow> ad_state (cn_db s) k = Some v"
    by simp_all
  then show ?thesis by (auto simp: sql_agent_view_def split: sum.splits)
qed

lemma sql_set_state:
  assumes "ASq_SetState k v s = (rc, s')"
  shows "sql_agent_view s' = (case rc of Inl e \<Rightarrow> sql_agent_view s
    | Inr _ \<Rightarrow> (sql_agent_view s)\<lparr>av_state := (av_state (sql_agent_view s))(k \<mapsto> v)\<rparr>)"
proof -
  consider "rc = Inl AgentSql" "cn_db s' = cn_db s"
    | "rc = Inr ()" "cn_db s' = (cn_db s)\<lparr>ad_state := (ad_state (cn_db s))(k \<mapsto> v)\<rparr>"
    using stmt_cases [OF assms [unfolded ASq_SetState_def]] by fastforce
  then show ?thesis by cases (simp_all add: sql_agent_view_def)
qed

lemma stmt_token_view:
  assumes "stmt AgentSql (\<lambda>db. ((), db\<lparr>ad_tokens := f db\<rparr>)) s = (rc, s')" shows "sql_agent_view s' = sql_agent_view s"
proof -
  consider "cn_db s' = cn_db s" | "cn_db s' = (cn_db s)\<lparr>ad_tokens := f (cn_db s)\<rparr>"
    using stmt_cases [OF assms] by fastforce
  then show ?thesis by cases (simp_all add: sql_agent_view_def)
qed

lemma sql_token_ops:
  "sql_agent_view (snd (ASq_GetToken h s)) = sql_agent_view s"
  "sql_agent_view (snd (ASq_PutToken t s)) = sql_agent_view s"
  "sql_agent_view (snd (ASq_TouchToken h now s)) = sql_agent_view s"
  "sql_agent_view (snd (ASq_DeleteToken h s)) = sql_agent_view s"
proof -
  show "sql_agent_view (snd (ASq_GetToken h s)) = sql_agent_view s"
    unfolding ASq_GetToken_def by (rule sql_view_cong, rule query_row_cases [OF surjective_pairing, THEN conjunct1])
  show "sql_agent_view (snd (ASq_PutToken t s)) = sql_agent_view s"
    "sql_agent_view (snd (ASq_DeleteToken h s)) = sql_agent_view s"
    unfolding ASq_PutToken_def ASq_DeleteToken_def by (rule stmt_token_view [OF surjective_pairing])+
  have e: "(\<lambda>db. ((), case ad_tokens db h of None \<Rightarrow> db | Some t \<Rightarrow> db\<lparr>ad_tokens := (ad_tokens db)(h \<mapsto> t\<lparr>tk_LastUsed := whole_second now\<rparr>)\<rparr>)) =
    (\<lambda>db. ((), db\<lparr>ad_tokens := case ad_tokens db h of None \<Rightarrow> ad_tokens db | Some t \<Rightarrow> (ad_tokens db)(h \<mapsto> t\<lparr>tk_LastUsed := whole_second now\<rparr>)\<rparr>))"
    by (rule ext) (simp split: option.splits)
  show "sql_agent_view (snd (ASq_TouchToken h now s)) = sql_agent_view s"
    unfolding ASq_TouchToken_def e by (rule stmt_token_view [OF surjective_pairing])
qed

lemma sql_usage_contract:
  assumes "ASq_Usage now s = (ru, s')"
  shows "sql_agent_view s' = sql_agent_view s \<and> (\<forall>u. ru = Inr u \<longrightarrow>
      su_DayAtoms u = wrap64 (spent_since (DayStart now) (av_payments (sql_agent_view s))) \<and>
      su_WeekAtoms u = wrap64 (spent_since (WeekStart now) (av_payments (sql_agent_view s))) \<and>
      (\<exists>h. now - hour < h \<and> h \<le> now - hour + second \<and> su_HourCount u = wrap64 (count_since h (av_payments (sql_agent_view s)))))"
proof -
  let ?h = "from_unix (Unix (now - hour) + 1)"
  have h: "now - hour < ?h \<and> ?h \<le> now - hour + second"
    by (simp add: from_unix_def Unix_def time_units) linarith
  show ?thesis
    using sql_usage [OF assms] h by (auto simp: sql_agent_view_def)
qed

interpretation agent_sql: agent_store AgentSQLite sql_agent_view
  unfolding AgentSQLite_def
  by (rule agent_store.intro; simp only: AgentStore_ops.select_convs sql_token_ops;
      rule sql_usage_contract sql_record_attempt sql_record_payment sql_create_approval sql_resolve sql_expire
        sql_get_state sql_set_state; assumption)

section \<open>Without faults\<close>

lemma result_of_ok: "cn_faults c = [] \<Longrightarrow> (\<And>r c'. m c = (r, c') \<Longrightarrow> cn_faults c' = []) \<Longrightarrow> result_of m c = m c"
  by (cases "m c"; cases "fst (m c)") (auto simp: result_of_def andThen_def ret_def)

lemma checked_ok:
  "cn_faults c = [] \<Longrightarrow> checked f c = (case f (cn_db c) of None \<Rightarrow> (Inl AgentSql, c) | Some (x, db) \<Rightarrow> (Inr x, c\<lparr>cn_db := db\<rparr>))"
  by (simp add: checked_def andThen_def)

named_theorems sql_run \<open>the operations of the SQLite store on a connection that no longer fails\<close>

lemma run_GetState [sql_run]:
  "cn_faults c = [] \<Longrightarrow> ASq_GetState k c = (case ad_state (cn_db c) k of None \<Rightarrow> Inl AgentNotFound | Some v \<Rightarrow> Inr v, c)"
  by (simp add: ASq_GetState_def andThen_def query_ok agent_row_def ret_def throw_def split: option.splits)

lemma run_SetState [sql_run]:
  "cn_faults c = [] \<Longrightarrow> ASq_SetState k v c = (Inr (), c\<lparr>cn_db := (cn_db c)\<lparr>ad_state := (ad_state (cn_db c))(k \<mapsto> v)\<rparr>\<rparr>)"
  by (simp add: ASq_SetState_def stmt_ok)

lemma run_RecordAttempt [sql_run]:
  "cn_faults c = [] \<Longrightarrow> at_RuleTrace a \<noteq> None \<Longrightarrow> ASq_RecordAttempt a c =
     (let i = int (length (ad_attempts (cn_db c)) + 1) in
      (Inr i, c\<lparr>cn_db := (cn_db c)\<lparr>ad_attempts := ad_attempts (cn_db c) @ [(attempt_row a)\<lparr>at_ID := i\<rparr>]\<rparr>\<rparr>))"
  unfolding ASq_RecordAttempt_def by (subst result_of_ok) (auto simp: checked_ok Let_def)

lemma run_RecordPayment [sql_run]:
  "cn_faults c = [] \<Longrightarrow> ASq_RecordPayment p c =
     (let i = int (length (ad_payments (cn_db c)) + 1) in
      (Inr i, c\<lparr>cn_db := (cn_db c)\<lparr>ad_payments := ad_payments (cn_db c) @ [(payment_row p)\<lparr>py_ID := i\<rparr>]\<rparr>\<rparr>))"
  unfolding ASq_RecordPayment_def by (subst result_of_ok) (auto simp: checked_ok Let_def)

lemma run_Usage [sql_run]:
  "cn_faults c = [] \<Longrightarrow> ASq_Usage now c = (case usage_query now (ad_payments (cn_db c)) of None \<Rightarrow> Inl AgentSql | Some u \<Rightarrow> Inr u, c)"
  by (simp add: ASq_Usage_def andThen_def query_ok ret_def throw_def split: option.splits)

lemma run_CreateApproval [sql_run]:
  "cn_faults c = [] \<Longrightarrow> ASq_CreateApproval a c =
     (if map_of (ad_approvals (cn_db c)) (ap_ID a) \<noteq> None then (Inl AgentSql, c)
      else (Inr (), c\<lparr>cn_db := (cn_db c)\<lparr>ad_approvals := ad_approvals (cn_db c) @ [(ap_ID a, approval_row a)]\<rparr>\<rparr>))"
  by (simp add: ASq_CreateApproval_def checked_ok)

lemma run_ResolveApproval [sql_run]:
  "cn_faults c = [] \<Longrightarrow> ASq_ResolveApproval i st resp at c =
     (case resolve_update i st resp at (cn_db c) of (n, db) \<Rightarrow> (Inr (n = 1), c\<lparr>cn_db := db\<rparr>))"
proof -
  assume "cn_faults c = []"
  moreover then have "result_of (stmt AgentSql (resolve_update i st resp at)) c = stmt AgentSql (resolve_update i st resp at) c"
    by (intro result_of_ok) (auto simp: stmt_ok split: prod.splits)
  ultimately show ?thesis by (simp add: ASq_ResolveApproval_def andThen_def ret_def stmt_ok split: prod.splits)
qed

end
