(* ===== verification/GoUrl.thy ===== *)
theory GoUrl
  imports GoStrings GoCodec
begin

text \<open>
  The parts of \<open>net/netip\<close>, \<open>net\<close> and \<open>net/url\<close> that the code uses: addresses and their text,
  the classes of internal addresses, \<open>url.Parse\<close> with the strict host rules of Go 1.26, and the
  accessors of a parsed URL.  Addresses are byte lists of length 4 or 16.
\<close>

section \<open>Addresses\<close>

definition all_digits :: "string \<Rightarrow> bool" where
  "all_digits s \<longleftrightarrow> list_all (\<lambda>c. digit_val c \<noteq> None) s"

definition ipv4_field :: "string \<Rightarrow> nat option" where
  "ipv4_field s =
     (if s = [] \<or> \<not> all_digits s \<or> (length s > 1 \<and> hd s = CHR ''0'') then None
      else (case digits_val 0 s of None \<Rightarrow> None | Some n \<Rightarrow> if n > 255 then None else Some n))"

definition parseIPv4 :: "string \<Rightarrow> nat list option" where
  "parseIPv4 s =
     (case map ipv4_field (Split s (CHR ''.'')) of
        [Some a, Some b, Some c, Some d] \<Rightarrow> Some [a, b, c, d]
      | _ \<Rightarrow> None)"

text \<open>At most four hexadecimal digits in front of a text: their value and the rest.\<close>

fun hex_group :: "nat \<Rightarrow> nat \<Rightarrow> string \<Rightarrow> (nat \<times> nat \<times> string) option" where
  "hex_group n acc [] = Some (n, acc, [])"
| "hex_group n acc (c # s) =
     (case hex_val c of
        None \<Rightarrow> Some (n, acc, c # s)
      | Some v \<Rightarrow> if n > 3 then None else hex_group (Suc n) (16 * acc + v) s)"

text \<open>
  The loop of \<open>parseIPv6\<close>: the bytes so far, the position of the ellipsis, and the text left;
  \<open>fuel\<close> bounds the eight groups.  It returns the bytes and the ellipsis.
\<close>

fun ipv6_groups :: "nat \<Rightarrow> nat list \<Rightarrow> nat option \<Rightarrow> string \<Rightarrow> (nat list \<times> nat option) option" where
  "ipv6_groups 0 ip el s = (if s = [] then Some (ip, el) else None)"
| "ipv6_groups (Suc fuel) ip el s =
     (case hex_group 0 0 s of
        None \<Rightarrow> None
      | Some (n, acc, rest) \<Rightarrow>
          if n = 0 then None
          else if rest \<noteq> [] \<and> hd rest = CHR ''.'' then
            (if el = None \<and> length ip \<noteq> 12 \<or> length ip + 4 > 16 then None
             else map_option (\<lambda>v4. (ip @ v4, el)) (parseIPv4 s))
          else (let ip = ip @ [acc div 256, acc mod 256] in
                case rest of
                  [] \<Rightarrow> Some (ip, el)
                | [c] \<Rightarrow> None
                | c # d # rest' \<Rightarrow>
                    if c \<noteq> CHR '':'' then None
                    else if d \<noteq> CHR '':'' then ipv6_groups fuel ip el (d # rest')
                    else if el \<noteq> None then None
                    else if rest' = [] then Some (ip, Some (length ip))
                    else ipv6_groups fuel ip (Some (length ip)) rest'))"

definition expand_ellipsis :: "nat list \<Rightarrow> nat option \<Rightarrow> nat list option" where
  "expand_ellipsis ip el =
     (case el of
        None \<Rightarrow> if length ip = 16 then Some ip else None
      | Some k \<Rightarrow> if length ip < 16 then Some (take k ip @ replicate (16 - length ip) 0 @ drop k ip) else None)"

text \<open>The zone, without its percent sign, comes second.\<close>

definition parseIPv6 :: "string \<Rightarrow> (nat list \<times> string) option" where
  "parseIPv6 s =
     (case Cut s (CHR ''%'') of
        (a, zone, hasZone) \<Rightarrow>
          if hasZone \<and> zone = [] then None
          else if a = ''::'' then Some (replicate 16 0, zone)
          else (case (if HasPrefix a ''::'' then ipv6_groups 8 [] (Some 0) (drop 2 a) else ipv6_groups 8 [] None a) of
                  None \<Rightarrow> None
                | Some (ip, el) \<Rightarrow> map_option (\<lambda>b. (b, zone)) (expand_ellipsis ip el)))"

definition ParseAddr :: "string \<Rightarrow> (nat list \<times> string) option" where
  "ParseAddr s =
     (case find (\<lambda>c. c \<in> {CHR ''.'', CHR '':'', CHR ''%''}) s of
        None \<Rightarrow> None
      | Some c \<Rightarrow>
          if c = CHR ''.'' then map_option (\<lambda>b. (b, [])) (parseIPv4 s)
          else if c = CHR '':'' then parseIPv6 s else None)"

text \<open>\<open>net.ParseIP\<close>: no zones.\<close>

definition ParseIP :: "string \<Rightarrow> nat list option" where
  "ParseIP s = (case ParseAddr s of Some (b, []) \<Rightarrow> Some b | _ \<Rightarrow> None)"

text \<open>\<open>net.IP.To4\<close>: an IPv4 address, also in its IPv6 form.\<close>

definition To4 :: "nat list \<Rightarrow> nat list option" where
  "To4 ip =
     (if length ip = 4 then Some ip
      else if length ip = 16 \<and> take 12 ip = replicate 10 0 @ [255, 255] then Some (drop 12 ip)
      else None)"

definition IsLoopback :: "nat list \<Rightarrow> bool" where
  "IsLoopback ip = (case To4 ip of Some b \<Rightarrow> b ! 0 = 127 | None \<Rightarrow> ip = replicate 15 0 @ [1])"

definition IsPrivate :: "nat list \<Rightarrow> bool" where
  "IsPrivate ip =
     (case To4 ip of
        Some b \<Rightarrow> b ! 0 = 10 \<or> b ! 0 = 172 \<and> b ! 1 div 16 = 1 \<or> b ! 0 = 192 \<and> b ! 1 = 168
      | None \<Rightarrow> length ip = 16 \<and> ip ! 0 div 2 = 126)"

definition IsLinkLocalUnicast :: "nat list \<Rightarrow> bool" where
  "IsLinkLocalUnicast ip =
     (case To4 ip of
        Some b \<Rightarrow> b ! 0 = 169 \<and> b ! 1 = 254
      | None \<Rightarrow> length ip = 16 \<and> ip ! 0 = 254 \<and> ip ! 1 div 64 = 2)"

definition IsLinkLocalMulticast :: "nat list \<Rightarrow> bool" where
  "IsLinkLocalMulticast ip =
     (case To4 ip of
        Some b \<Rightarrow> b ! 0 = 224 \<and> b ! 1 = 0 \<and> b ! 2 = 0
      | None \<Rightarrow> length ip = 16 \<and> ip ! 0 = 255 \<and> ip ! 1 mod 16 = 2)"

definition IsUnspecified :: "nat list \<Rightarrow> bool" where
  "IsUnspecified ip = (case To4 ip of Some b \<Rightarrow> b = [0, 0, 0, 0] | None \<Rightarrow> ip = replicate 16 0)"

section \<open>Escapes\<close>

datatype encoding = encodeHost | encodeZone | encodePath | encodeUserPassword | encodeFragment

definition letter :: "char \<Rightarrow> bool" where
  "letter c \<longleftrightarrow> 97 \<le> byte c \<and> byte c \<le> 122 \<or> 65 \<le> byte c \<and> byte c \<le> 90"

definition alnum :: "char \<Rightarrow> bool" where
  "alnum c \<longleftrightarrow> letter c \<or> digit_val c \<noteq> None"

text \<open>The negation of \<open>shouldEscape\<close> for a byte of a host or a zone.\<close>

definition host_char :: "char \<Rightarrow> bool" where
  "host_char c \<longleftrightarrow> alnum c \<or> c \<in> set ''!$&()*+,;=:[]<>-_.~'' \<or> c = CHR 0x27 \<or> c = CHR 0x22"

fun unescape :: "encoding \<Rightarrow> string \<Rightarrow> string option" where
  "unescape m [] = Some []"
| "unescape m (c # s) =
     (if c = CHR ''%'' then
        (case s of
           a # b # r \<Rightarrow>
             (case (hex_val a, hex_val b) of
                (Some x, Some y) \<Rightarrow>
                  (let v = char_of (16 * x + y); pct = (a = CHR ''2'' \<and> b = CHR ''5'') in
                   if m = encodeHost \<and> x < 8 \<and> \<not> pct then None
                   else if m = encodeZone \<and> \<not> pct \<and> v \<noteq> CHR '' '' \<and> \<not> host_char v then None
                   else map_option (Cons v) (unescape m r))
              | _ \<Rightarrow> None)
         | _ \<Rightarrow> None)
      else if (m = encodeHost \<or> m = encodeZone) \<and> of_char c < (128::nat) \<and> \<not> host_char c then None
      else map_option (Cons c) (unescape m s))"

section \<open>Parsing\<close>

record URL =
  ur_Scheme :: string
  ur_Opaque :: string
  ur_User :: "(string \<times> string option) option"
  ur_Host :: string
  ur_Path :: string
  ur_RawQuery :: string
  ur_Fragment :: string

definition ctl_byte :: "char \<Rightarrow> bool" where
  "ctl_byte c \<longleftrightarrow> (of_char c :: nat) < 32 \<or> (of_char c :: nat) = 127"

definition scheme_char :: "char \<Rightarrow> bool" where
  "scheme_char c \<longleftrightarrow> alnum c \<or> c = CHR ''+'' \<or> c = CHR ''-'' \<or> c = CHR ''.''"

text \<open>\<open>None\<close> is the error of a missing scheme.\<close>

definition getScheme :: "string \<Rightarrow> (string \<times> string) option" where
  "getScheme s =
     (let pre = takeWhile scheme_char s; rest = dropWhile scheme_char s in
      case rest of
        [] \<Rightarrow> Some ([], s)
      | c # r \<Rightarrow>
          if pre = [] then (if c = CHR '':'' then None else Some ([], s))
          else if \<not> letter (hd pre) \<or> c \<noteq> CHR '':'' then Some ([], s)
          else Some (pre, r))"

definition validOptionalPort :: "string \<Rightarrow> bool" where
  "validOptionalPort p \<longleftrightarrow> p = [] \<or> hd p = CHR '':'' \<and> all_digits (tl p)"

text \<open>The texts before and after the last occurrence of a character.\<close>

definition cut_last :: "char \<Rightarrow> string \<Rightarrow> (string \<times> string) option" where
  "cut_last c s =
     (if c \<in> set s then
        (let r = takeWhile (\<lambda>x. x \<noteq> c) (rev s) in Some (take (length s - length r - 1) s, rev r))
      else None)"

fun cut_zone :: "string \<Rightarrow> (string \<times> string) option" where
  "cut_zone [] = None"
| "cut_zone (c # s) = (if HasPrefix (c # s) ''%25'' then Some ([], c # s)
     else map_option (\<lambda>(a, b). (c # a, b)) (cut_zone s))"

definition parseHost :: "string \<Rightarrow> string \<Rightarrow> string option" where
  "parseHost scheme h =
     (case cut_last (CHR ''['') h of
        Some (before, inner) \<Rightarrow>
          (if before \<noteq> [] then None
           else (case cut_last (CHR '']'') inner of
                   None \<Rightarrow> None
                 | Some (name, port) \<Rightarrow>
                     if \<not> validOptionalPort port then None
                     else (case (case cut_zone name of
                                   Some (a, z) \<Rightarrow> (case (unescape encodeHost a, unescape encodeZone z) of
                                      (Some x, Some y) \<Rightarrow> Some (x @ y) | _ \<Rightarrow> None)
                                 | None \<Rightarrow> unescape encodeHost name) of
                             None \<Rightarrow> None
                           | Some addr \<Rightarrow>
                               (case ParseAddr addr of
                                  None \<Rightarrow> None
                                | Some (ip, zone) \<Rightarrow>
                                    if length ip = 4 then None else Some (''['' @ addr @ '']'' @ port)))))
      | None \<Rightarrow>
          (let first = dropWhile (\<lambda>c. c \<noteq> CHR '':'') h in
           if first = [] then unescape encodeHost h
           else (let colonPort = (if scheme = ''postgresql'' \<or> scheme = ''postgres''
                                  then (case cut_last (CHR '':'') h of None \<Rightarrow> [] | Some (a, p) \<Rightarrow> CHR '':'' # p) else first) in
                 if validOptionalPort colonPort then unescape encodeHost h else None)))"

definition userinfo_char :: "char \<Rightarrow> bool" where
  "userinfo_char c \<longleftrightarrow> alnum c \<or> c \<in> set ''-._:~!$&()*+,;=%@'' \<or> c = CHR 0x27"

definition parse_userinfo :: "string \<Rightarrow> (string \<times> string option) option" where
  "parse_userinfo s =
     (if \<not> list_all userinfo_char s then None
      else (case Cut s (CHR '':'') of
              (name, pass, hasPass) \<Rightarrow>
                (case (unescape encodeUserPassword name, unescape encodeUserPassword pass) of
                   (Some n, Some p) \<Rightarrow> Some (n, if hasPass then Some p else None)
                 | _ \<Rightarrow> None)))"

definition parseAuthority :: "string \<Rightarrow> string \<Rightarrow> ((string \<times> string option) option \<times> string) option" where
  "parseAuthority scheme a =
     (case cut_last (CHR ''@'') a of
        None \<Rightarrow> map_option (\<lambda>h. (None, h)) (parseHost scheme a)
      | Some (ui, h) \<Rightarrow>
          (case (parseHost scheme h, parse_userinfo ui) of
             (Some h, Some u) \<Rightarrow> Some (Some u, h)
           | _ \<Rightarrow> None))"

definition parse_url :: "string \<Rightarrow> URL option" where
  "parse_url raw =
     (if list_ex ctl_byte raw then None
      else if raw = ''*'' then
        Some \<lparr>ur_Scheme = [], ur_Opaque = [], ur_User = None, ur_Host = [], ur_Path = ''*'', ur_RawQuery = [], ur_Fragment = []\<rparr>
      else (case getScheme raw of
              None \<Rightarrow> None
            | Some (sch, rest) \<Rightarrow>
                (let scheme = ToLower sch in
                 case (if HasSuffix rest ''?'' \<and> length (filter (\<lambda>c. c = CHR ''?'') rest) = 1
                       then (butlast rest, []) else (case Cut rest (CHR ''?'') of (a, b, _) \<Rightarrow> (a, b))) of
                   (rest, query) \<Rightarrow>
                     (let u = \<lparr>ur_Scheme = scheme, ur_Opaque = [], ur_User = None, ur_Host = [], ur_Path = [],
                               ur_RawQuery = query, ur_Fragment = []\<rparr> in
                      if \<not> HasPrefix rest ''/'' \<and> scheme \<noteq> [] then Some (u\<lparr>ur_Opaque := rest\<rparr>)
                      else if \<not> HasPrefix rest ''/'' \<and> CHR '':'' \<in> set (takeWhile (\<lambda>c. c \<noteq> CHR ''/'') rest) then None
                      else if (scheme \<noteq> [] \<or> \<not> HasPrefix rest ''///'') \<and> HasPrefix rest ''//'' then
                        (let auth = takeWhile (\<lambda>c. c \<noteq> CHR ''/'') (drop 2 rest);
                             path = dropWhile (\<lambda>c. c \<noteq> CHR ''/'') (drop 2 rest) in
                         case (parseAuthority scheme auth, unescape encodePath path) of
                           (Some (ui, h), Some p) \<Rightarrow> Some (u\<lparr>ur_User := ui, ur_Host := h, ur_Path := p\<rparr>)
                         | _ \<Rightarrow> None)
                      else map_option (\<lambda>p. u\<lparr>ur_Path := p\<rparr>) (unescape encodePath rest)))))"

definition url_Parse :: "string \<Rightarrow> URL option" where
  "url_Parse raw =
     (case Cut raw (CHR ''#'') of
        (u, frag, _) \<Rightarrow>
          (case (parse_url u, unescape encodeFragment frag) of
             (Some url, Some f) \<Rightarrow> Some (url\<lparr>ur_Fragment := f\<rparr>)
           | _ \<Rightarrow> None))"

definition strip_brackets :: "string \<Rightarrow> string" where
  "strip_brackets h = (if HasPrefix h ''['' \<and> HasSuffix h '']'' then butlast (tl h) else h)"

definition splitHostPort :: "string \<Rightarrow> string \<times> string" where
  "splitHostPort hp =
     (case cut_last (CHR '':'') hp of
        Some (h, p) \<Rightarrow> if all_digits p then (strip_brackets h, p) else (strip_brackets hp, [])
      | None \<Rightarrow> (strip_brackets hp, []))"

definition Hostname :: "URL \<Rightarrow> string" where
  "Hostname u = fst (splitHostPort (ur_Host u))"

definition Port :: "URL \<Rightarrow> string" where
  "Port u = snd (splitHostPort (ur_Host u))"

text \<open>A token of RFC 7230, the methods \<open>http.NewRequest\<close> accepts.\<close>

definition validMethod :: "string \<Rightarrow> bool" where
  "validMethod m \<longleftrightarrow> m \<noteq> [] \<and> list_all (\<lambda>c. alnum c \<or> c \<in> set ''!#$%&*+-.^_|~'' \<or> c = CHR 0x27 \<or> c = CHR 0x60) m"

section \<open>Known answers\<close>

lemma url_examples:
  "map_option (\<lambda>u. (ur_Scheme u, ur_Host u, Hostname u, Port u, ur_Path u, ur_RawQuery u))
     (url_Parse ''HTTPS://Pay.example:8443/a%20b?x=1#f'') =
   Some (''https'', ''Pay.example:8443'', ''Pay.example'', ''8443'', ''/a b'', ''x=1'')"
  "map_option Hostname (url_Parse ''http://[::1]:80/'') = Some ''::1''"
  "url_Parse ''http://a:b:80/'' = None" "url_Parse ''http://[1.2.3.4]/'' = None" "url_Parse ''http://a b/'' = None"
  "map_option ur_User (url_Parse ''http://u:p@h/'') = Some (Some (''u'', Some ''p''))"
  "ParseIP ''1.2.3.4'' = Some [1, 2, 3, 4]" "ParseIP ''01.2.3.4'' = None"
  "map_option (drop 12) (ParseIP ''::7:10.0.0.1'') = Some [10, 0, 0, 1]" "ParseIP ''1::2::3'' = None"
  by code_simp+

end
