(* ===== verification/GoFmt.thy ===== *)
theory GoFmt
  imports GoJson
begin

text \<open>
  \<open>fmt\<close>'s verb \<open>%.8g\<close> on an amount of DCR, \<open>float64(atoms) / 1e8\<close>: the conversion and the division
  round to the nearest double, the digits are the eight of the double's exact value, rounded half
  to even, without trailing zeros, in the form with an exponent below \<open>10^-4\<close> and from \<open>10^8\<close> on.
\<close>

text \<open>The double nearest to a ratio, as a fraction again.\<close>

definition dyadic :: "int \<times> int \<Rightarrow> nat \<times> nat" where
  "dyadic me = (case me of (m, e) \<Rightarrow> if e \<ge> 0 then (nat m * 2 ^ nat e, 1) else (nat m, 2 ^ nat (- e)))"

definition float_ratio :: "nat \<Rightarrow> nat \<Rightarrow> nat \<times> nat" where
  "float_ratio n d = (case f64_of_ratio n d of None \<Rightarrow> (n, d) | Some me \<Rightarrow> dyadic me)"

text \<open>A positive fraction divided by a power of ten, rounded half to even.\<close>

definition scaled :: "nat \<times> nat \<Rightarrow> int \<Rightarrow> nat \<times> nat" where
  "scaled q k = (case q of (n, d) \<Rightarrow> if k \<ge> 0 then (n, d * 10 ^ nat k) else (n * 10 ^ nat (- k), d))"

definition round_ratio :: "nat \<times> nat \<Rightarrow> nat" where
  "round_ratio q = (case q of (n, d) \<Rightarrow>
     (let f = n div d; r = n mod d in if 2 * r > d \<or> (2 * r = d \<and> odd f) then f + 1 else f))"

text \<open>The decimal exponent of the first digit, found by counting.\<close>

fun ratio_exp :: "nat \<Rightarrow> nat \<times> nat \<Rightarrow> int \<Rightarrow> int" where
  "ratio_exp 0 q k = k"
| "ratio_exp (Suc fuel) q k =
     (case scaled q k of (n, d) \<Rightarrow>
        if n < d then ratio_exp fuel q (k - 1) else if n \<ge> 10 * d then ratio_exp fuel q (k + 1) else k)"

definition strip_zeros :: "string \<Rightarrow> string" where
  "strip_zeros s = rev (dropWhile (\<lambda>c. c = CHR ''0'') (rev s))"

definition g8 :: "nat \<times> nat \<Rightarrow> string" where
  "g8 q =
     (if fst q = 0 then ''0''
      else (let x = ratio_exp 40 q 0; m = round_ratio (scaled q (x - 7));
                (m, x) = (if m \<ge> 10 ^ 8 then (10 ^ 7, x + 1) else (m, x));
                ds = strip_zeros (show_nat m); len = length ds in
            if x < -4 \<or> x \<ge> 8 then
              take 1 ds @ (if len > 1 then ''.'' @ drop 1 ds else []) @ ''e'' @ (if x < 0 then ''-'' else ''+'') @
              (if \<bar>x\<bar> < 10 then ''0'' else []) @ show_nat (nat \<bar>x\<bar>)
            else if x < 0 then ''0.'' @ replicate (nat (- x) - 1) (CHR ''0'') @ ds
            else if len \<le> nat x + 1 then ds @ replicate (nat x + 1 - len) (CHR ''0'')
            else take (nat x + 1) ds @ ''.'' @ drop (nat x + 1) ds))"

definition format_dcr :: "int \<Rightarrow> string" where
  "format_dcr atoms =
     (let (n, d) = float_ratio (nat \<bar>atoms\<bar>) 1; q = float_ratio n (d * 10 ^ 8) in
      (if atoms < 0 then ''-'' else []) @ g8 (if n = 0 then (0, 1) else q))"

end
