(* ===== verification/Payclient.thy ===== *)
theory Payclient
  imports Gate GoUrl AgentStore Policy "HOL-Library.Signed_Division"
begin

text \<open>
  The paid-HTTP client of the agent, package \<open>agent/payclient\<close>, with the invoice decoder of
  \<open>agent/rails/ln\<close> on top of \<open>zpay32.Decode\<close>.  The client is parametric in the state \<open>'w\<close> its
  dependencies act on: the Lightning rail, the credential cache, the policy hook and the HTTP
  transport are operations on it.  The transport covers \<open>http.Client.Do\<close> and the reading of the
  body; the request it receives is the one the code builds.  One fetch happens at one instant.
\<close>

section \<open>The invoice decoder\<close>

record zpay32_Invoice = Invoice +
  iv_Description :: "string option"

record ln_Invoice =
  li_AmountAtoms :: int
  li_AmountMAtoms :: int
  li_Destination :: string
  li_PaymentHash :: string
  li_Description :: string
  li_Timestamp :: time
  li_Expiry :: duration

type_synonym zpay32_decoder = "string \<Rightarrow> Network \<Rightarrow> zpay32_Invoice option"

definition ln_DecodeInvoice :: "zpay32_decoder \<Rightarrow> string \<Rightarrow> Network \<Rightarrow> ln_Invoice option" where
  "ln_DecodeInvoice zdecode invoice params =
     (case zdecode invoice params of
        None \<Rightarrow> None
      | Some dec \<Rightarrow>
          (let mAtoms = (case iv_MilliAt dec of None \<Rightarrow> 0 | Some m \<Rightarrow> wrap64 m) in
           Some \<lparr>li_AmountAtoms = mAtoms sdiv 1000, li_AmountMAtoms = mAtoms,
                 li_Destination = (case iv_Destination dec of None \<Rightarrow> [] | Some d \<Rightarrow> hex_encode d),
                 li_PaymentHash = (case iv_PaymentHash dec of None \<Rightarrow> [] | Some h \<Rightarrow> hex_encode h),
                 li_Description = opt_default [] (iv_Description dec),
                 li_Timestamp = iv_Timestamp dec, li_Expiry = iv_Expiry dec\<rparr>))"

section \<open>Configuration\<close>

type_synonym 'w ln_pay = "string \<Rightarrow> int \<Rightarrow> duration \<Rightarrow> 'w \<Rightarrow> (string, string \<times> int) result \<times> 'w"

record 'w TokenStore =
  ts_GetToken :: "string \<Rightarrow> 'w \<Rightarrow> (agent_store_error, Token) result \<times> 'w"
  ts_PutToken :: "Token \<Rightarrow> 'w \<Rightarrow> (agent_store_error, unit) result \<times> 'w"
  ts_TouchToken :: "string \<Rightarrow> time \<Rightarrow> 'w \<Rightarrow> (agent_store_error, unit) result \<times> 'w"
  ts_DeleteToken :: "string \<Rightarrow> 'w \<Rightarrow> (agent_store_error, unit) result \<times> 'w"

type_synonym ('w, 'e) Gatekeeper = "policy_Attempt \<Rightarrow> 'w \<Rightarrow> ('e, int) result \<times> 'w"

record OutRequest =
  or_Method :: string
  or_URL :: string
  or_Header :: "(string \<times> string) list"
  or_Body :: bytes

record InResponse =
  in_StatusCode :: int
  in_Header :: "(string \<times> string) list"
  in_Body :: bytes

text \<open>A nil dependency is \<open>None\<close>.\<close>

record ('w, 'e) client_Config =
  cc_LN :: "'w ln_pay option"
  cc_Network :: "Network option"
  cc_Tokens :: "'w TokenStore option"
  cc_Gate :: "('w, 'e) Gatekeeper option"
  cc_HTTP :: "OutRequest \<Rightarrow> 'w \<Rightarrow> (string, InResponse) result \<times> 'w"
  cc_FeeLimitAtoms :: int
  cc_PayTimeout :: duration
  cc_Decode :: zpay32_decoder

record ('w, 'e) Client =
  cl_LN :: "'w ln_pay"
  cl_Network :: Network
  cl_Tokens :: "'w TokenStore"
  cl_Gate :: "('w, 'e) Gatekeeper option"
  cl_HTTP :: "OutRequest \<Rightarrow> 'w \<Rightarrow> (string, InResponse) result \<times> 'w"
  cl_FeeLimitAtoms :: int
  cl_PayTimeout :: duration
  cl_Decode :: zpay32_decoder

definition client_New :: "('w, 'e) client_Config \<Rightarrow> (string, ('w, 'e) Client) result" where
  "client_New cfg =
     (case (cc_LN cfg, cc_Tokens cfg) of
        (Some ln, Some tokens) \<Rightarrow>
          (case cc_Network cfg of
             None \<Rightarrow> Inl ''payclient: Network is required''
           | Some net \<Rightarrow>
               Inr \<lparr>cl_LN = ln, cl_Network = net, cl_Tokens = tokens, cl_Gate = cc_Gate cfg, cl_HTTP = cc_HTTP cfg,
                    cl_FeeLimitAtoms = (if cc_FeeLimitAtoms cfg \<le> 0 then 10000 else cc_FeeLimitAtoms cfg),
                    cl_PayTimeout = (if cc_PayTimeout cfg \<le> 0 then 60 * second else cc_PayTimeout cfg),
                    cl_Decode = cc_Decode cfg\<rparr>)
      | _ \<Rightarrow> Inl ''payclient: LN and Tokens are required'')"

definition SetGate :: "('w, 'e) Gatekeeper \<Rightarrow> ('w, 'e) Client \<Rightarrow> ('w, 'e) Client" where
  "SetGate g c = c\<lparr>cl_Gate := Some g\<rparr>"

definition RailFree :: string where "RailFree = ''free''"
definition RailCached :: string where "RailCached = ''cached''"
definition RailX402 :: string where "RailX402 = ''x402''"
definition RailL402 :: string where "RailL402 = ''l402''"

lemmas rail_consts = RailFree_def RailCached_def RailX402_def RailL402_def

record FetchOptions =
  fo_Method :: string
  fo_Body :: bytes
  fo_ContentType :: string
  fo_Memo :: string
  fo_MaxAmountAtoms :: int
  fo_ForceLegacy :: bool

record fetch_Result =
  re_Status :: int
  re_Header :: "(string \<times> string) list"
  re_Body :: bytes
  re_Rail :: string
  re_PaidAtoms :: int
  re_FeeAtoms :: int
  re_Invoice :: string
  re_Preimage :: string
  re_Receipt :: "json option"
  re_AttemptID :: int
  re_TokenCached :: bool

record fetch_challenge =
  fc_rail :: string
  fc_invoice :: string
  fc_amountAtoms :: int
  fc_destination :: string
  fc_paymentHash :: string
  fc_description :: string
  fc_entry :: PaymentRequirements
  fc_resource :: "ResourceInfo option"
  fc_extensions :: "Extension gomap"
  fc_macaroonB64 :: string

datatype challenge_error =
    BadL402 l402_error | NoChallenge | InvoiceDecode | NoAmount | BadHeader | BadVersion int | NetworkMismatch string
  | BadExtra | BadChallengeAmount string | HashMismatch | PayToMismatch | AmountMismatch int int | NoLightningEntry

datatype 'e fetch_error =
    InvalidURL | Transport string | UnexpectedStatus int | ChallengeError challenge_error | AboveGuard int int
  | NoGate | GateError 'e | PaymentFailed string | PaidRetry string | PaidButStatus int

section \<open>Challenges\<close>

text \<open>\<open>http.Header.Values\<close>.\<close>

definition header_values :: "(string \<times> string) list \<Rightarrow> string \<Rightarrow> string list" where
  "header_values hs name = map snd (filter (\<lambda>(k, v). EqualFold k name) hs)"

definition zero_LightningExtra :: LightningExtra where
  "zero_LightningExtra = \<lparr>le_AssetTransferMethod = [], le_Invoice = [], le_PaymentHash = []\<rparr>"

text \<open>The checks of one Lightning entry against its locally decoded invoice.\<close>

definition parse_entry ::
  "zpay32_decoder \<Rightarrow> Network \<Rightarrow> PaymentRequired \<Rightarrow> PaymentRequirements \<Rightarrow> (challenge_error, fetch_challenge) result" where
  "parse_entry zdecode net pr entry =
     (if pr_Network entry \<noteq> nw_CAIP2 net then Inl (NetworkMismatch (pr_Network entry))
      else (case unmarshal_into zero_LightningExtra dec_LightningExtra (pr_Extra entry) of
              None \<Rightarrow> Inl BadExtra
            | Some extra \<Rightarrow>
                (case ln_DecodeInvoice zdecode (le_Invoice extra) net of
                   None \<Rightarrow> Inl InvoiceDecode
                 | Some dec \<Rightarrow>
                     (case ParseInt (pr_Amount entry) of
                        None \<Rightarrow> Inl (BadChallengeAmount (pr_Amount entry))
                      | Some amount \<Rightarrow>
                          if amount \<le> 0 then Inl (BadChallengeAmount (pr_Amount entry))
                          else if \<not> EqualFold (li_PaymentHash dec) (le_PaymentHash extra) then Inl HashMismatch
                          else if \<not> EqualFold (li_Destination dec) (pr_PayTo entry) then Inl PayToMismatch
                          else if li_AmountMAtoms dec \<noteq> mul64 amount 1000 then Inl (AmountMismatch amount (li_AmountMAtoms dec))
                          else Inr \<lparr>fc_rail = RailX402, fc_invoice = le_Invoice extra, fc_amountAtoms = amount,
                                 fc_destination = li_Destination dec, fc_paymentHash = le_PaymentHash extra,
                                 fc_description = li_Description dec, fc_entry = entry, fc_resource = Some (rq_Resource pr),
                                 fc_extensions = rq_Extensions pr, fc_macaroonB64 = []\<rparr>))))"

fun parse_entries ::
  "zpay32_decoder \<Rightarrow> Network \<Rightarrow> PaymentRequired \<Rightarrow> PaymentRequirements list \<Rightarrow> (challenge_error, fetch_challenge) result" where
  "parse_entries zdecode net pr [] = Inl NoLightningEntry"
| "parse_entries zdecode net pr (entry # es) =
     (if TransferMethod entry \<noteq> MethodLightning then parse_entries zdecode net pr es
      else parse_entry zdecode net pr entry)"

definition parseX402 :: "('w, 'e) Client \<Rightarrow> string \<Rightarrow> (challenge_error, fetch_challenge) result" where
  "parseX402 c h =
     (case DecodeHeader zero_PaymentRequired dec_PaymentRequired h of
        Inl e \<Rightarrow> Inl BadHeader
      | Inr pr \<Rightarrow>
          if rq_X402Version pr \<noteq> Version then Inl (BadVersion (rq_X402Version pr))
          else parse_entries (cl_Decode c) (cl_Network c) pr (rq_Accepts pr))"

definition parse_l402 :: "('w, 'e) Client \<Rightarrow> string list \<Rightarrow> (challenge_error, fetch_challenge) result" where
  "parse_l402 c values =
     (case FindChallenge values of
        Inl e \<Rightarrow> Inl (BadL402 e)
      | Inr None \<Rightarrow> Inl NoChallenge
      | Inr (Some l4) \<Rightarrow>
          (case ln_DecodeInvoice (cl_Decode c) (ch_Invoice l4) (cl_Network c) of
             None \<Rightarrow> Inl InvoiceDecode
           | Some dec \<Rightarrow>
               if li_AmountAtoms dec \<le> 0 then Inl NoAmount
               else Inr \<lparr>fc_rail = RailL402, fc_invoice = ch_Invoice l4, fc_amountAtoms = li_AmountAtoms dec,
                      fc_destination = li_Destination dec, fc_paymentHash = li_PaymentHash dec,
                      fc_description = li_Description dec, fc_entry = zero_PaymentRequirements, fc_resource = None,
                      fc_extensions = [], fc_macaroonB64 = ch_MacaroonB64 l4\<rparr>))"

definition parseChallenge :: "('w, 'e) Client \<Rightarrow> InResponse \<Rightarrow> bool \<Rightarrow> (challenge_error, fetch_challenge) result" where
  "parseChallenge c resp forceLegacy =
     (let h = header_get (in_Header resp) HeaderPaymentRequired in
      if \<not> forceLegacy \<and> h \<noteq> [] then parseX402 c h
      else parse_l402 c (header_values (in_Header resp) ''WWW-Authenticate''))"

section \<open>Requests\<close>

text \<open>\<open>do\<close> and \<open>doRetry\<close>; the first sends no payment signature.\<close>

definition doRetry ::
  "('w, 'e) Client \<Rightarrow> FetchOptions \<Rightarrow> string \<Rightarrow> string \<Rightarrow> string \<Rightarrow> string \<Rightarrow> 'w \<Rightarrow> (string, InResponse) result \<times> 'w" where
  "doRetry c opt method rawURL authorization paymentSignature w =
     (if \<not> validMethod method then (Inl ''net/http: invalid method'', w)
      else (case cl_HTTP c
              \<lparr>or_Method = method, or_URL = rawURL,
               or_Header =
                 (if fo_ContentType opt \<noteq> [] then [(''Content-Type'', fo_ContentType opt)] else []) @
                 (if authorization \<noteq> [] then [(''Authorization'', authorization)] else []) @
                 (if paymentSignature \<noteq> [] then [(HeaderPaymentSignature, paymentSignature)] else []),
               or_Body = fo_Body opt\<rparr> w of
              (Inl e, w) \<Rightarrow> (Inl e, w)
            | (Inr resp, w) \<Rightarrow> (Inr (resp\<lparr>in_Body := take (32 * 2 ^ 20) (in_Body resp)\<rparr>), w)))"

definition client_do ::
  "('w, 'e) Client \<Rightarrow> string \<Rightarrow> string \<Rightarrow> FetchOptions \<Rightarrow> string \<Rightarrow> 'w \<Rightarrow> (string, InResponse) result \<times> 'w" where
  "client_do c method rawURL opt authorization w = doRetry c opt method rawURL authorization [] w"

definition plain_result :: "InResponse \<Rightarrow> string \<Rightarrow> fetch_Result" where
  "plain_result resp rail = \<lparr>re_Status = in_StatusCode resp, re_Header = in_Header resp, re_Body = in_Body resp, re_Rail = rail,
     re_PaidAtoms = 0, re_FeeAtoms = 0, re_Invoice = [], re_Preimage = [], re_Receipt = None, re_AttemptID = 0, re_TokenCached = False\<rparr>"

section \<open>A paid fetch\<close>

type_synonym 'e fetch_outcome = "fetch_Result option \<times> 'e fetch_error option"

definition cached_auth :: "('w, 'e) Client \<Rightarrow> string \<Rightarrow> time \<Rightarrow> 'w \<Rightarrow> string \<times> 'w" where
  "cached_auth c host now w =
     (case ts_GetToken (cl_Tokens c) host w of
        (Inl e, w) \<Rightarrow> ([], w)
      | (Inr tok, w) \<Rightarrow> (if tk_ValidUntil tok = 0 \<or> Unix now < tk_ValidUntil tok then tk_Authorization tok else [], w))"

text \<open>The first requests: an outcome of the whole fetch, or the response that is a 402.\<close>

definition fetch_probe ::
  "('w, 'e) Client \<Rightarrow> time \<Rightarrow> string \<Rightarrow> string \<Rightarrow> FetchOptions \<Rightarrow> 'w \<Rightarrow> ('e fetch_outcome, InResponse) result \<times> 'w" where
  "fetch_probe c now rawURL host opt w =
     (let unpaid = (\<lambda>resp w.
            if in_StatusCode resp \<noteq> 402
            then (Inl (Some (plain_result resp []), Some (UnexpectedStatus (in_StatusCode resp))), w)
            else (Inr resp, w)) in
      case cached_auth c host now w of
        (auth, w) \<Rightarrow>
          (case client_do c (fo_Method opt) rawURL opt auth w of
             (Inl e, w) \<Rightarrow> (Inl (None, Some (Transport e)), w)
           | (Inr resp, w) \<Rightarrow>
               if in_StatusCode resp < 300 then
                 (if auth \<noteq> [] then (Inl (Some (plain_result resp RailCached), None), snd (ts_TouchToken (cl_Tokens c) host now w))
                  else (Inl (Some (plain_result resp RailFree), None), w))
               else if auth \<noteq> [] \<and> (in_StatusCode resp = 401 \<or> in_StatusCode resp = 402) then
                 (case client_do c (fo_Method opt) rawURL opt [] (snd (ts_DeleteToken (cl_Tokens c) host w)) of
                    (Inl e, w) \<Rightarrow> (Inl (None, Some (Transport e)), w)
                  | (Inr resp, w) \<Rightarrow>
                      if in_StatusCode resp < 300 then (Inl (Some (plain_result resp RailFree), None), w)
                      else unpaid resp w)
               else unpaid resp w))"

definition fetch_attempt :: "string \<Rightarrow> FetchOptions \<Rightarrow> fetch_challenge \<Rightarrow> policy_Attempt" where
  "fetch_attempt host opt ch = \<lparr>pa_Tool = ''fetch_paid'', pa_Rail = ''ln'', pa_DestKind = DestDomain, pa_Dest = host,
     pa_AmountAtoms = fc_amountAtoms ch, pa_Memo = fo_Memo opt\<rparr>"

definition ln_receipt :: "string \<Rightarrow> string \<Rightarrow> time \<Rightarrow> int \<Rightarrow> json" where
  "ln_receipt invoice preimage now amount = jmap [(''invoice'', JStr invoice), (''preimage'', JStr preimage),
     (''settledAt'', JStr (rfc3339 now)), (''amount'', JStr (FormatInt amount))]"

text \<open>The proof of the retry: an authorization value and a payment signature.\<close>

definition retry_proof :: "fetch_challenge \<Rightarrow> string \<Rightarrow> string \<times> string" where
  "retry_proof ch preimage =
     (if fc_rail ch = RailX402 then
        ([], EncodeHeader (json_PaymentPayload
           \<lparr>pp_X402Version = Version, pp_Resource = fc_resource ch, pp_Accepted = fc_entry ch,
            pp_Payload = Some (json_LightningPayload \<lparr>lp_Preimage = preimage, lp_PaymentHash = fc_paymentHash ch\<rparr>),
            pp_Extensions = fc_extensions ch\<rparr>))
      else (SchemeL402 @ '' '' @ fc_macaroonB64 ch @ '':'' @ preimage, []))"

record credential_info =
  ci_Authorization :: string
  ci_ValidUntil :: int

definition dec_credential_info :: "credential_info decoder" where
  "dec_credential_info = dec_fields [
     (''authorization'', set_field ci_Authorization ci_Authorization_update dec_string),
     (''validUntil'', set_field ci_ValidUntil ci_ValidUntil_update dec_int)]"

definition delivered_credential :: "fetch_challenge \<Rightarrow> string \<Rightarrow> InResponse \<Rightarrow> string \<times> int" where
  "delivered_credential ch retryAuth resp =
     (if fc_rail ch = RailX402 then
        (let h = header_get (in_Header resp) HeaderPaymentResponse in
         if h = [] then ([], 0)
         else (case DecodeHeader zero_SettlementResponse dec_SettlementResponse h of
                 Inl e \<Rightarrow> ([], 0)
               | Inr settle \<Rightarrow>
                   (case map_of (sr_Extensions settle) ExtensionL402 of
                      None \<Rightarrow> ([], 0)
                    | Some ext \<Rightarrow>
                        (case unmarshal_into \<lparr>ci_Authorization = [], ci_ValidUntil = 0\<rparr> dec_credential_info (ext_Info ext) of
                           None \<Rightarrow> ([], 0)
                         | Some info \<Rightarrow> if ci_Authorization info \<noteq> [] then (ci_Authorization info, ci_ValidUntil info) else ([], 0)))))
      else (retryAuth, 0))"

text \<open>The retry and the caching of the credential, once the payment is made.\<close>

definition fetch_settled ::
  "('w, 'e) Client \<Rightarrow> time \<Rightarrow> string \<Rightarrow> string \<Rightarrow> FetchOptions \<Rightarrow> fetch_challenge \<Rightarrow> fetch_Result \<Rightarrow> 'w \<Rightarrow> 'e fetch_outcome \<times> 'w" where
  "fetch_settled c now rawURL host opt ch result w =
     (case retry_proof ch (re_Preimage result) of
        (retryAuth, retrySig) \<Rightarrow>
          (case doRetry c opt (fo_Method opt) rawURL retryAuth retrySig w of
             (Inl e, w) \<Rightarrow> ((Some result, Some (PaidRetry e)), w)
           | (Inr resp, w) \<Rightarrow>
               (let result = result\<lparr>re_Status := in_StatusCode resp, re_Header := in_Header resp, re_Body := in_Body resp\<rparr> in
                if in_StatusCode resp \<ge> 300 then ((Some result, Some (PaidButStatus (in_StatusCode resp))), w)
                else (case delivered_credential ch retryAuth resp of
                        (credential, validUntil) \<Rightarrow>
                          if credential = [] then ((Some result, None), w)
                          else (case ts_PutToken (cl_Tokens c) \<lparr>tk_ServiceHost = host, tk_Authorization = credential,
                                       tk_ValidUntil = validUntil, tk_PaidAtoms = fc_amountAtoms ch, tk_CreatedAt = now, tk_LastUsed = now\<rparr> w of
                                  (Inl e, w) \<Rightarrow> ((Some result, None), w)
                                | (Inr _, w) \<Rightarrow> ((Some (result\<lparr>re_TokenCached := True\<rparr>), None), w))))))"

definition fetch_pay ::
  "('w, 'e) Client \<Rightarrow> time \<Rightarrow> string \<Rightarrow> string \<Rightarrow> FetchOptions \<Rightarrow> fetch_challenge \<Rightarrow> 'w \<Rightarrow> 'e fetch_outcome \<times> 'w" where
  "fetch_pay c now rawURL host opt ch w =
     (case cl_Gate c of
        None \<Rightarrow> ((None, Some NoGate), w)
      | Some gate \<Rightarrow>
          (case gate (fetch_attempt host opt ch) w of
             (Inl e, w) \<Rightarrow> ((None, Some (GateError e)), w)
           | (Inr attemptID, w) \<Rightarrow>
               (case cl_LN c (fc_invoice ch) (cl_FeeLimitAtoms c) (cl_PayTimeout c) w of
                  (Inl e, w) \<Rightarrow> ((None, Some (PaymentFailed e)), w)
                | (Inr (preimage, fee), w) \<Rightarrow>
                    fetch_settled c now rawURL host opt ch
                      \<lparr>re_Status = 0, re_Header = [], re_Body = [], re_Rail = fc_rail ch, re_PaidAtoms = fc_amountAtoms ch,
                       re_FeeAtoms = fee, re_Invoice = fc_invoice ch, re_Preimage = preimage,
                       re_Receipt = Some (ln_receipt (fc_invoice ch) preimage now (fc_amountAtoms ch)),
                       re_AttemptID = attemptID, re_TokenCached = False\<rparr> w)))"

definition client_FetchPaid ::
  "('w, 'e) Client \<Rightarrow> time \<Rightarrow> string \<Rightarrow> FetchOptions \<Rightarrow> 'w \<Rightarrow> 'e fetch_outcome \<times> 'w" where
  "client_FetchPaid c now rawURL opt w =
     (case url_Parse rawURL of
        None \<Rightarrow> ((None, Some InvalidURL), w)
      | Some u \<Rightarrow>
          if ur_Host u = [] then ((None, Some InvalidURL), w)
          else (let host = Hostname u; opt = (if fo_Method opt = [] then opt\<lparr>fo_Method := ''GET''\<rparr> else opt) in
                case fetch_probe c now rawURL host opt w of
                  (Inl out, w) \<Rightarrow> (out, w)
                | (Inr resp, w) \<Rightarrow>
                    (case parseChallenge c resp (fo_ForceLegacy opt) of
                       Inl e \<Rightarrow> ((None, Some (ChallengeError e)), w)
                     | Inr ch \<Rightarrow>
                         if fo_MaxAmountAtoms opt > 0 \<and> fc_amountAtoms ch > fo_MaxAmountAtoms opt
                         then ((None, Some (AboveGuard (fc_amountAtoms ch) (fo_MaxAmountAtoms opt))), w)
                         else fetch_pay c now rawURL host opt ch w)))"

section \<open>Estimates\<close>

record Estimate =
  es_Kind :: string
  es_Rail :: string
  es_AmountAtoms :: int
  es_Destination :: string
  es_PaymentHash :: string
  es_Description :: string
  es_Host :: string

definition zero_FetchOptions :: FetchOptions where
  "zero_FetchOptions = \<lparr>fo_Method = [], fo_Body = [], fo_ContentType = [], fo_Memo = [], fo_MaxAmountAtoms = 0, fo_ForceLegacy = False\<rparr>"

definition client_Estimate :: "('w, 'e) Client \<Rightarrow> string \<Rightarrow> 'w \<Rightarrow> ('e fetch_error, Estimate) result \<times> 'w" where
  "client_Estimate c target w =
     (if HasPrefix (ToLower target) ''ln'' \<and> \<not> Contains target ''://'' then
        (case ln_DecodeInvoice (cl_Decode c) target (cl_Network c) of
           None \<Rightarrow> (Inl (ChallengeError InvoiceDecode), w)
         | Some dec \<Rightarrow>
             (Inr \<lparr>es_Kind = ''invoice'', es_Rail = ''ln'', es_AmountAtoms = li_AmountAtoms dec,
                   es_Destination = li_Destination dec, es_PaymentHash = li_PaymentHash dec,
                   es_Description = li_Description dec, es_Host = []\<rparr>, w))
      else (case url_Parse target of
              None \<Rightarrow> (Inl InvalidURL, w)
            | Some u \<Rightarrow>
                if ur_Host u = [] then (Inl InvalidURL, w)
                else (case client_do c ''GET'' target zero_FetchOptions [] w of
                        (Inl e, w) \<Rightarrow> (Inl (Transport e), w)
                      | (Inr resp, w) \<Rightarrow>
                          if in_StatusCode resp < 300 then
                            (Inr \<lparr>es_Kind = ''url'', es_Rail = RailFree, es_AmountAtoms = 0, es_Destination = [],
                                  es_PaymentHash = [], es_Description = [], es_Host = Hostname u\<rparr>, w)
                          else if in_StatusCode resp \<noteq> 402 then (Inl (UnexpectedStatus (in_StatusCode resp)), w)
                          else (case parseChallenge c resp False of
                                  Inl e \<Rightarrow> (Inl (ChallengeError e), w)
                                | Inr ch \<Rightarrow>
                                    (Inr \<lparr>es_Kind = ''url'', es_Rail = fc_rail ch, es_AmountAtoms = fc_amountAtoms ch,
                                          es_Destination = fc_destination ch, es_PaymentHash = fc_paymentHash ch,
                                          es_Description = fc_description ch, es_Host = Hostname u\<rparr>, w)))))"

section \<open>The course of a fetch\<close>

text \<open>Steps of the client that are not payments and not decisions: cached credentials and requests.\<close>

inductive idle_step :: "('w, 'e) Client \<Rightarrow> 'w \<Rightarrow> 'w \<Rightarrow> bool" for c where
  idle_get: "ts_GetToken (cl_Tokens c) h w = (r, w') \<Longrightarrow> idle_step c w w'"
| idle_put: "ts_PutToken (cl_Tokens c) t w = (r', w') \<Longrightarrow> idle_step c w w'"
| idle_touch: "ts_TouchToken (cl_Tokens c) h now w = (r', w') \<Longrightarrow> idle_step c w w'"
| idle_delete: "ts_DeleteToken (cl_Tokens c) h w = (r', w') \<Longrightarrow> idle_step c w w'"
| idle_http: "cl_HTTP c q w = (r'', w') \<Longrightarrow> idle_step c w w'"

abbreviation idle :: "('w, 'e) Client \<Rightarrow> 'w \<Rightarrow> 'w \<Rightarrow> bool" where
  "idle c \<equiv> (idle_step c)\<^sup>*\<^sup>*"

lemma idle_keeps:
  assumes "idle c w w'" and "\<And>v v'. idle_step c v v' \<Longrightarrow> f v' = f v" shows "f w' = f w"
  using assms(1) by induction (simp_all add: assms(2))

lemma idle_inv:
  assumes "idle c w w'" and "P w" and "\<And>v v'. idle_step c v v' \<Longrightarrow> P v \<Longrightarrow> P v'" shows "P w'"
  using assms(1) by induction (simp_all add: assms)

lemma cached_auth_idle: "cached_auth c host now w = (a, w') \<Longrightarrow> idle c w w'"
  by (auto simp: cached_auth_def split: prod.splits sum.splits intro!: r_into_rtranclp intro: idle_get)

lemma doRetry_idle: "doRetry c opt m u a s w = (r, w') \<Longrightarrow> idle c w w'"
  by (auto simp: doRetry_def split: prod.splits sum.splits if_splits intro!: r_into_rtranclp intro: idle_http)

lemma touch_idle: "idle c w (snd (ts_TouchToken (cl_Tokens c) h now w))"
  by (rule r_into_rtranclp) (rule idle_touch [OF surjective_pairing])

lemma delete_idle: "idle c w (snd (ts_DeleteToken (cl_Tokens c) h w))"
  by (rule r_into_rtranclp) (rule idle_delete [OF surjective_pairing])

text \<open>An outcome of a fetch that paid nothing.\<close>

definition unpaid_outcome :: "'e fetch_outcome \<Rightarrow> bool" where
  "unpaid_outcome out \<longleftrightarrow> (\<forall>r. fst out = Some r \<longrightarrow> re_PaidAtoms r = 0) \<and> (\<forall>e. snd out \<noteq> Some (GateError e))"

lemma unpaid_plain [simp]: "unpaid_outcome (Some (plain_result resp r), None)"
  "unpaid_outcome (Some (plain_result resp r), Some (UnexpectedStatus s))" "unpaid_outcome (None, Some (Transport e))"
  "unpaid_outcome (None, Some InvalidURL)" "unpaid_outcome (None, Some (ChallengeError ce))" "unpaid_outcome (None, Some (AboveGuard a b))"
  "unpaid_outcome (None, Some NoGate)"
  by (simp_all add: unpaid_outcome_def plain_result_def)

lemma probe_idle:
  assumes "fetch_probe c now rawURL host opt w = (r, w')"
  shows "idle c w w' \<and> (\<forall>out. r = Inl out \<longrightarrow> unpaid_outcome out)"
proof -
  obtain auth w1 where a: "cached_auth c host now w = (auth, w1)" by fastforce
  obtain r2 w2 where d: "client_do c (fo_Method opt) rawURL opt auth w1 = (r2, w2)" by fastforce
  let ?w3 = "snd (ts_DeleteToken (cl_Tokens c) host w2)"
  obtain r4 w4 where d2: "client_do c (fo_Method opt) rawURL opt [] ?w3 = (r4, w4)" by fastforce
  have i2: "idle c w w2"
    using cached_auth_idle [OF a] doRetry_idle [OF d [unfolded client_do_def]] by (rule rtranclp_trans)
  have i3: "idle c w (snd (ts_TouchToken (cl_Tokens c) host now w2))" using i2 touch_idle by (rule rtranclp_trans)
  have i4: "idle c w w4"
    using i2 rtranclp_trans [OF delete_idle doRetry_idle [OF d2 [unfolded client_do_def]]] by (rule rtranclp_trans)
  show ?thesis using assms i2 i3 i4
    by (auto simp: fetch_probe_def a d d2 Let_def split: sum.splits if_splits)
qed

text \<open>What the code has checked of a challenge it pays.\<close>

definition checked_challenge :: "('w, 'e) Client \<Rightarrow> fetch_challenge \<Rightarrow> bool" where
  "checked_challenge c ch \<longleftrightarrow> 0 < fc_amountAtoms ch \<and> (\<exists>dec. ln_DecodeInvoice (cl_Decode c) (fc_invoice ch) (cl_Network c) = Some dec \<and>
     fc_destination ch = li_Destination dec \<and> EqualFold (li_PaymentHash dec) (fc_paymentHash ch) \<and>
     (if fc_rail ch = RailX402
      then li_AmountMAtoms dec = mul64 (fc_amountAtoms ch) 1000 \<and> EqualFold (li_Destination dec) (pr_PayTo (fc_entry ch)) \<and>
        pr_Network (fc_entry ch) = nw_CAIP2 (cl_Network c)
      else li_AmountAtoms dec = fc_amountAtoms ch))"

lemma parse_entry_checked:
  "parse_entry (cl_Decode c) (cl_Network c) pr entry = Inr ch \<Longrightarrow> checked_challenge c ch"
  by (auto simp: parse_entry_def checked_challenge_def split: if_splits option.splits)

lemma parse_entries_checked:
  "parse_entries (cl_Decode c) (cl_Network c) pr es = Inr ch \<Longrightarrow> checked_challenge c ch"
  by (induction es) (auto split: if_splits intro: parse_entry_checked)

lemma parseChallenge_checked: "parseChallenge c resp legacy = Inr ch \<Longrightarrow> checked_challenge c ch"
  by (auto simp: parseChallenge_def parseX402_def parse_l402_def checked_challenge_def rail_consts Let_def
      split: if_splits option.splits sum.splits dest: parse_entries_checked [unfolded checked_challenge_def rail_consts])

lemma settled_idle:
  assumes "fetch_settled c now rawURL host opt ch res w = (out, w')"
  shows "idle c w w' \<and> (\<exists>r. fst out = Some r \<and> re_PaidAtoms r = re_PaidAtoms res \<and> re_FeeAtoms r = re_FeeAtoms res \<and>
     re_Rail r = re_Rail res \<and> re_Invoice r = re_Invoice res \<and> re_Preimage r = re_Preimage res \<and> re_Receipt r = re_Receipt res \<and>
     re_AttemptID r = re_AttemptID res) \<and> (\<forall>e. snd out \<noteq> Some (GateError e))"
proof -
  obtain ra rs where p: "retry_proof ch (re_Preimage res) = (ra, rs)" by fastforce
  obtain r1 w1 where d: "doRetry c opt (fo_Method opt) rawURL ra rs w = (r1, w1)" by fastforce
  have i1: "idle c w w1" by (rule doRetry_idle [OF d])
  have i2: "idle c w w2" if "ts_PutToken (cl_Tokens c) t w1 = (r2, w2)" for t r2 w2
    using i1 idle_put [OF that] by (rule rtranclp.rtrancl_into_rtrancl)
  show ?thesis using assms i1 i2
    by (auto simp: fetch_settled_def p d Let_def split: sum.splits if_splits prod.splits)
qed

text \<open>The four courses a fetch can take.\<close>

lemma client_FetchPaid_cases:
  assumes "client_FetchPaid c now rawURL opt w = (out, w')"
  obtains (unpaid) "idle c w w'" "unpaid_outcome out"
    | (refused) gate a w1 e where "cl_Gate c = Some gate" "idle c w w1" "gate a w1 = (Inl e, w')" "out = (None, Some (GateError e))"
        "pa_AmountAtoms a > 0"
    | (failed) gate a w1 ch aid w2 e where "cl_Gate c = Some gate" "idle c w w1" "gate a w1 = (Inr aid, w2)"
        "cl_LN c (fc_invoice ch) (cl_FeeLimitAtoms c) (cl_PayTimeout c) w2 = (Inl e, w')" "out = (None, Some (PaymentFailed e))"
        "pa_AmountAtoms a = fc_amountAtoms ch" "checked_challenge c ch"
        "fo_MaxAmountAtoms opt > 0 \<longrightarrow> fc_amountAtoms ch \<le> fo_MaxAmountAtoms opt"
    | (paid) gate a w1 ch aid w2 preimage fee w3 r where "cl_Gate c = Some gate" "idle c w w1" "gate a w1 = (Inr aid, w2)"
        "cl_LN c (fc_invoice ch) (cl_FeeLimitAtoms c) (cl_PayTimeout c) w2 = (Inr (preimage, fee), w3)" "idle c w3 w'"
        "fst out = Some r" "\<forall>e. snd out \<noteq> Some (GateError e)" "re_AttemptID r = aid" "re_PaidAtoms r = fc_amountAtoms ch"
        "re_Rail r = fc_rail ch"
        "re_FeeAtoms r = fee" "re_Invoice r = fc_invoice ch" "re_Preimage r = preimage"
        "re_Receipt r = Some (ln_receipt (fc_invoice ch) preimage now (fc_amountAtoms ch))"
        "pa_AmountAtoms a = fc_amountAtoms ch" "checked_challenge c ch"
        "fo_MaxAmountAtoms opt > 0 \<longrightarrow> fc_amountAtoms ch \<le> fo_MaxAmountAtoms opt"
proof (cases "\<exists>u. url_Parse rawURL = Some u \<and> ur_Host u \<noteq> []")
  case False
  with assms have "w' = w \<and> out = (None, Some InvalidURL)" by (auto simp: client_FetchPaid_def split: option.splits if_splits)
  then show thesis by (intro unpaid) simp_all
next
  case True
  then obtain u where u: "url_Parse rawURL = Some u" "ur_Host u \<noteq> []" by blast
  define host where "host = Hostname u"
  define opt' where "opt' = (if fo_Method opt = [] then opt\<lparr>fo_Method := ''GET''\<rparr> else opt)"
  have opt': "fo_MaxAmountAtoms opt' = fo_MaxAmountAtoms opt" by (simp add: opt'_def)
  obtain r1 w1 where p: "fetch_probe c now rawURL host opt' w = (r1, w1)" by fastforce
  note pi = probe_idle [OF p]
  show thesis
  proof (cases r1)
    case (Inl o1)
    with assms u p pi show thesis by (intro unpaid) (auto simp: client_FetchPaid_def host_def opt'_def Let_def)
  next
    case (Inr resp)
    show thesis
    proof (cases "parseChallenge c resp (fo_ForceLegacy opt')")
      case (Inl e)
      with assms u p pi Inr show thesis by (intro unpaid) (auto simp: client_FetchPaid_def host_def [symmetric] opt'_def [symmetric] Let_def)
    next
      case ch: (Inr ch)
      note chk = parseChallenge_checked [OF ch]
      show thesis
      proof (cases "(fo_MaxAmountAtoms opt' > 0 \<and> fc_amountAtoms ch > fo_MaxAmountAtoms opt') \<or> cl_Gate c = None")
        case True
        with assms u p pi Inr ch show thesis
          by (intro unpaid) (auto simp: client_FetchPaid_def host_def [symmetric] opt'_def [symmetric] Let_def fetch_pay_def split: if_splits)
      next
        case False
        then obtain gate where g: "cl_Gate c = Some gate" by auto
        have guard: "fo_MaxAmountAtoms opt > 0 \<longrightarrow> fc_amountAtoms ch \<le> fo_MaxAmountAtoms opt" using False opt' by auto
        have run: "fetch_pay c now rawURL host opt' ch w1 = (out, w')"
          using assms u p Inr ch False by (auto simp: client_FetchPaid_def host_def [symmetric] opt'_def [symmetric] Let_def)
        let ?a = "fetch_attempt host opt' ch"
        have am: "pa_AmountAtoms ?a = fc_amountAtoms ch" "pa_AmountAtoms ?a > 0"
          using chk by (simp_all add: fetch_attempt_def checked_challenge_def)
        obtain r2 w2 where ga: "gate ?a w1 = (r2, w2)" by fastforce
        show thesis
        proof (cases r2)
          case (Inl e)
          with run g ga pi am show thesis by (intro refused [of gate w1 ?a e]) (auto simp: fetch_pay_def)
        next
          case r2: (Inr aid)
          obtain r3 w3 where ln: "cl_LN c (fc_invoice ch) (cl_FeeLimitAtoms c) (cl_PayTimeout c) w2 = (r3, w3)" by fastforce
          show thesis
          proof (cases r3)
            case (Inl e)
            with run g ga r2 ln pi am chk guard show thesis
              by (intro failed [of gate w1 ?a aid w2 ch e]) (auto simp: fetch_pay_def)
          next
            case r3: (Inr pf)
            obtain preimage fee where pf: "pf = (preimage, fee)" by fastforce
            let ?res = "\<lparr>re_Status = 0, re_Header = [], re_Body = [], re_Rail = fc_rail ch, re_PaidAtoms = fc_amountAtoms ch,
                       re_FeeAtoms = fee, re_Invoice = fc_invoice ch, re_Preimage = preimage,
                       re_Receipt = Some (ln_receipt (fc_invoice ch) preimage now (fc_amountAtoms ch)),
                       re_AttemptID = aid, re_TokenCached = False\<rparr>"
            have "fetch_settled c now rawURL host opt' ch ?res w3 = (out, w')"
              using run g ga r2 ln r3 pf by (simp add: fetch_pay_def)
            from settled_idle [OF this] obtain r where "idle c w3 w'" "fst out = Some r" "\<forall>e. snd out \<noteq> Some (GateError e)"
              "re_PaidAtoms r = fc_amountAtoms ch" "re_FeeAtoms r = fee" "re_Rail r = fc_rail ch" "re_Invoice r = fc_invoice ch"
              "re_Preimage r = preimage" "re_Receipt r = Some (ln_receipt (fc_invoice ch) preimage now (fc_amountAtoms ch))"
              "re_AttemptID r = aid" by (elim conjE exE) simp
            with g ga r2 ln r3 pf pi am chk guard show thesis
              by (intro paid [of gate w1 ?a aid w2 ch preimage fee w3 r]) simp_all
          qed
        qed
      qed
    qed
  qed
qed

end
