(* ===== verification/Agent.thy ===== *)
theory Agent
  imports Payclient GoFmt
begin

text \<open>
  The policy-gated payment service of the agent: \<open>agent/service.go\<close>, \<open>agent/freeze.go\<close> and the
  approval registry \<open>agent/approve/approve.go\<close>.

  A service works on an \<open>agent_world\<close>: the audit store, the payment rails (Lightning node and
  wallet), the network (HTTP peers and approval channels), the policy in force, the registry's
  map of waiting continuations, the goroutines that were started and have not run yet, and the
  number of random reads.  A continuation is the closure the code parks, by its captured values.
  The mutex \<open>payMu\<close> serializes every spending operation, so an operation is one transition.
\<close>

section \<open>State\<close>

record 'n LN_ops =
  ln_Pay :: "'n ln_pay"
  ln_SpendableAtoms :: "'n \<Rightarrow> (string, int) result \<times> 'n"
  ln_Info :: "'n \<Rightarrow> (string, string \<times> bool) result \<times> 'n"
  ln_CreateInvoice :: "int \<Rightarrow> string \<Rightarrow> duration \<Rightarrow> 'n \<Rightarrow> (string, string \<times> string) result \<times> 'n"

record 'n Chain_ops =
  oc_BalanceAtoms :: "int \<Rightarrow> 'n \<Rightarrow> (string, int \<times> int) result \<times> 'n"
  oc_NewAddress :: "'n \<Rightarrow> (string, string) result \<times> 'n"
  oc_Send :: "string \<Rightarrow> int \<Rightarrow> 'n \<Rightarrow> (string, string) result \<times> 'n"

record ApprovalRequest =
  aq_ID :: string
  aq_Summary :: string
  aq_ExpiresAt :: time

text \<open>An approval channel; \<open>Notify\<close> returns whether the error was nil.\<close>

record 'h Approver =
  ar_Name :: string
  ar_Notify :: "ApprovalRequest \<Rightarrow> 'h \<Rightarrow> bool \<times> 'h"

definition WebApprover :: "'h Approver" where
  "WebApprover = \<lparr>ar_Name = ''web'', ar_Notify = \<lambda>q h. (True, h)\<rparr>"

record ('s, 'n, 'h) Service =
  sv_Store :: "'s AgentStore_ops"
  sv_LN :: "'n LN_ops"
  sv_Onchain :: "'n Chain_ops option"
  sv_Network :: Network
  sv_Decode :: zpay32_decoder
  sv_HTTP :: "OutRequest \<Rightarrow> 'h \<Rightarrow> (string, InResponse) result \<times> 'h"
  sv_Approvers :: "'h Approver list"
  sv_Rand :: "nat \<Rightarrow> bytes option"

definition feeLimitAtoms :: int where "feeLimitAtoms = 10000"
definition payTimeout :: duration where "payTimeout = 60 * second"

text \<open>The two direct payments, and the parked closures: a direct payment or a fetch with its ceiling.\<close>

datatype DirectPay = PayLN string ln_Invoice | PayChain string int

datatype Continuation = ContDirect int DirectPay | ContFetch string FetchOptions int

record ('s, 'n, 'h) agent_world =
  aw_store :: 's
  aw_rail :: 'n
  aw_net :: 'h
  aw_policy :: Policy
  aw_waiting :: "string \<rightharpoonup> Continuation"
  aw_running :: "(string \<times> Continuation \<times> bool) list"
  aw_reads :: nat

type_synonym ('s, 'n, 'h, 'e, 'a) agent_act =
  "('s, 'n, 'h) agent_world \<Rightarrow> ('e, 'a) result \<times> ('s, 'n, 'h) agent_world"

definition on_store :: "('s, 'a) agent_op \<Rightarrow> ('s, 'n, 'h, agent_store_error, 'a) agent_act" where
  "on_store f w = (case f (aw_store w) of (r, s) \<Rightarrow> (r, w\<lparr>aw_store := s\<rparr>))"

definition on_rail :: "('n \<Rightarrow> ('e, 'a) result \<times> 'n) \<Rightarrow> ('s, 'n, 'h, 'e, 'a) agent_act" where
  "on_rail f w = (case f (aw_rail w) of (r, n) \<Rightarrow> (r, w\<lparr>aw_rail := n\<rparr>))"

definition on_net :: "('h \<Rightarrow> ('e, 'a) result \<times> 'h) \<Rightarrow> ('s, 'n, 'h, 'e, 'a) agent_act" where
  "on_net f w = (case f (aw_net w) of (r, h) \<Rightarrow> (r, w\<lparr>aw_net := h\<rparr>))"

section \<open>Errors\<close>

record FreezeState =
  fz_Frozen :: bool
  fz_At :: string
  fz_By :: string
  fz_Reason :: string

datatype gate_refusal =
    GateStoreError agent_store_error
  | GateDenied Decision
  | GateNeedsApproval int Decision policy_Attempt

datatype service_error =
    StoreError agent_store_error
  | Frozen FreezeState
  | PolicyDenied Decision
  | Pending string time
  | Unreachable
  | RandError
  | InvoiceError
  | Amountless
  | AboveMaxAmount int int
  | OnchainDisabled
  | AmountNotPositive
  | RailError string
  | FetchError "gate_refusal fetch_error"

section \<open>The kill switch\<close>

definition freezeStateKey :: string where "freezeStateKey = ''frozen''"

definition zero_FreezeState :: FreezeState where
  "zero_FreezeState = \<lparr>fz_Frozen = False, fz_At = [], fz_By = [], fz_Reason = []\<rparr>"

definition json_FreezeState :: "FreezeState \<Rightarrow> json" where
  "json_FreezeState f = JObj ((''frozen'', JBool (fz_Frozen f)) #
     opt_field (fz_At f \<noteq> []) ''at'' (JStr (fz_At f)) @
     opt_field (fz_By f \<noteq> []) ''by'' (JStr (fz_By f)) @
     opt_field (fz_Reason f \<noteq> []) ''reason'' (JStr (fz_Reason f)))"

definition dec_FreezeState :: "FreezeState decoder" where
  "dec_FreezeState = dec_fields [
     (''frozen'', set_field fz_Frozen fz_Frozen_update dec_bool),
     (''at'', set_field fz_At fz_At_update dec_string),
     (''by'', set_field fz_By fz_By_update dec_string),
     (''reason'', set_field fz_Reason fz_Reason_update dec_string)]"

definition Freeze :: "('s, 'n, 'h) Service \<Rightarrow> time \<Rightarrow> string \<Rightarrow> string \<Rightarrow> ('s, 'n, 'h, agent_store_error, unit) agent_act" where
  "Freeze sv now who reason =
     on_store (as_SetState (sv_Store sv) freezeStateKey
       (json_print (json_FreezeState \<lparr>fz_Frozen = True, fz_At = rfc3339 now, fz_By = who, fz_Reason = reason\<rparr>)))"

definition Unfreeze :: "('s, 'n, 'h) Service \<Rightarrow> ('s, 'n, 'h, agent_store_error, unit) agent_act" where
  "Unfreeze sv = on_store (as_SetState (sv_Store sv) freezeStateKey [])"

definition read_freeze :: "string \<Rightarrow> FreezeState" where
  "read_freeze v = (if v = [] then zero_FreezeState
     else opt_default zero_FreezeState (unmarshal_into zero_FreezeState dec_FreezeState (json_unmarshal v)))"

definition FreezeStatus :: "('s, 'n, 'h) Service \<Rightarrow> ('s, 'n, 'h) agent_world \<Rightarrow> FreezeState \<times> ('s, 'n, 'h) agent_world" where
  "FreezeStatus sv w =
     (case on_store (as_GetState (sv_Store sv) freezeStateKey) w of
        (Inl e, w) \<Rightarrow> (zero_FreezeState, w)
      | (Inr v, w) \<Rightarrow> (read_freeze v, w))"

definition notFrozen :: "('s, 'n, 'h) Service \<Rightarrow> ('s, 'n, 'h, service_error, unit) agent_act" where
  "notFrozen sv w = (case FreezeStatus sv w of (st, w) \<Rightarrow> (if fz_Frozen st then Inl (Frozen st) else Inr (), w))"

section \<open>Approvals\<close>

fun notify_all :: "'h Approver list \<Rightarrow> string \<Rightarrow> ApprovalRequest \<Rightarrow> 'h \<Rightarrow> nat \<times> 'h" where
  "notify_all [] channel q h = (0, h)"
| "notify_all (a # as) channel q h =
     (if channel \<noteq> ''both'' \<and> ar_Name a \<noteq> channel then notify_all as channel q h
      else (case ar_Notify a q h of
              (ok, h) \<Rightarrow> (case notify_all as channel q h of (n, h) \<Rightarrow> (if ok then n + 1 else n, h))))"

definition take_waiting ::
  "string \<Rightarrow> ('s, 'n, 'h) agent_world \<Rightarrow> Continuation option \<times> ('s, 'n, 'h) agent_world" where
  "take_waiting i w = (aw_waiting w i, w\<lparr>aw_waiting := (aw_waiting w)(i := None)\<rparr>)"

definition registry_Escalate ::
  "('s, 'n, 'h) Service \<Rightarrow> time \<Rightarrow> int \<Rightarrow> string \<Rightarrow> duration \<Rightarrow> string \<Rightarrow> Continuation \<Rightarrow>
   ('s, 'n, 'h, service_error, Approval) agent_act" where
  "registry_Escalate sv now attemptID channel ttl summary cont w =
     (case sv_Rand sv (aw_reads w) of
        None \<Rightarrow> (Inl RandError, w\<lparr>aw_reads := Suc (aw_reads w)\<rparr>)
      | Some idBytes \<Rightarrow>
          (let w = w\<lparr>aw_reads := Suc (aw_reads w)\<rparr>;
               approval = \<lparr>ap_ID = hex_encode idBytes, ap_AttemptID = attemptID, ap_Channel = channel, ap_Status = ApprovalPending,
                 ap_Responder = [], ap_CreatedAt = now, ap_ExpiresAt = now + ttl, ap_ResolvedAt = None\<rparr> in
           case on_store (as_CreateApproval (sv_Store sv) approval) w of
             (Inl e, w) \<Rightarrow> (Inl (StoreError e), w)
           | (Inr _, w) \<Rightarrow>
               (let w = w\<lparr>aw_waiting := (aw_waiting w)(ap_ID approval \<mapsto> cont)\<rparr> in
                case notify_all (sv_Approvers sv) channel
                       \<lparr>aq_ID = ap_ID approval, aq_Summary = summary, aq_ExpiresAt = ap_ExpiresAt approval\<rparr> (aw_net w) of
                  (notified, h) \<Rightarrow>
                    (let w = w\<lparr>aw_net := h\<rparr> in
                     if notified = 0 then
                       (Inl Unreachable,
                        snd (on_store (as_ResolveApproval (sv_Store sv) (ap_ID approval) ApprovalDenied ''unreachable-channel'' now)
                          (snd (take_waiting (ap_ID approval) w))))
                     else (Inr approval, w)))))"

text \<open>The goroutine a resolution starts, when this process holds the continuation.\<close>

definition start_continuation ::
  "string \<Rightarrow> bool \<Rightarrow> ('s, 'n, 'h) agent_world \<Rightarrow> ('s, 'n, 'h) agent_world" where
  "start_continuation i approved w =
     (case take_waiting i w of
        (None, w) \<Rightarrow> w
      | (Some cont, w) \<Rightarrow> w\<lparr>aw_running := aw_running w @ [(i, cont, approved)]\<rparr>)"

definition registry_Resolve ::
  "('s, 'n, 'h) Service \<Rightarrow> time \<Rightarrow> string \<Rightarrow> bool \<Rightarrow> string \<Rightarrow> ('s, 'n, 'h, agent_store_error, bool) agent_act" where
  "registry_Resolve sv now i approved responder w =
     (case on_store (as_ResolveApproval (sv_Store sv) i (if approved then ApprovalApproved else ApprovalDenied) responder now) w of
        (Inl e, w) \<Rightarrow> (Inl e, w)
      | (Inr won, w) \<Rightarrow> if \<not> won then (Inr False, w) else (Inr True, start_continuation i approved w))"

text \<open>One tick of \<open>RunExpiry\<close>, and \<open>ExpireNow\<close>, which runs the continuations with a denial on the spot.\<close>

definition expiry_tick :: "('s, 'n, 'h) Service \<Rightarrow> time \<Rightarrow> ('s, 'n, 'h) agent_world \<Rightarrow> ('s, 'n, 'h) agent_world" where
  "expiry_tick sv now w =
     (case on_store (as_ExpireApprovals (sv_Store sv) now) w of
        (Inl e, w) \<Rightarrow> w
      | (Inr expired, w) \<Rightarrow> fold (\<lambda>a. start_continuation (ap_ID a) False) expired w)"

definition registry_Pending :: "('s, 'n, 'h) Service \<Rightarrow> time \<Rightarrow> ('s, 'n, 'h, agent_store_error, Approval list) agent_act" where
  "registry_Pending sv now = on_store (as_ListPendingApprovals (sv_Store sv) now)"

definition registry_Get :: "('s, 'n, 'h) Service \<Rightarrow> string \<Rightarrow> ('s, 'n, 'h, agent_store_error, Approval) agent_act" where
  "registry_Get sv i = on_store (as_GetApproval (sv_Store sv) i)"

section \<open>Policy and the ledger of attempts\<close>

definition service_usage :: "('s, 'n, 'h) Service \<Rightarrow> time \<Rightarrow> ('s, 'n, 'h, agent_store_error, policy_Usage) agent_act" where
  "service_usage sv now w =
     (case on_store (as_Usage (sv_Store sv) now) w of
        (Inl e, w) \<Rightarrow> (Inl e, w)
      | (Inr u, w) \<Rightarrow> (Inr \<lparr>us_DayAtoms = su_DayAtoms u, us_WeekAtoms = su_WeekAtoms u, us_HourCount = su_HourCount u\<rparr>, w))"

definition json_RuleResult :: "RuleResult \<Rightarrow> json" where
  "json_RuleResult r = JObj ([(''rule'', JStr (rr_Rule r)), (''pass'', JBool (rr_Pass r))] @
     opt_field (rr_Detail r \<noteq> []) ''detail'' (JStr (rr_Detail r)))"

definition store_decision :: "Outcome \<Rightarrow> StoreDecision" where
  "store_decision oc = (case oc of Allow \<Rightarrow> DecisionAllow | Deny \<Rightarrow> DecisionDeny | Escalate \<Rightarrow> DecisionEscalate)"

definition attempt_of :: "time \<Rightarrow> policy_Attempt \<Rightarrow> Decision \<Rightarrow> Attempt" where
  "attempt_of now a dec = \<lparr>at_ID = 0, at_Tool = pa_Tool a, at_Rail = pa_Rail a, at_Destination = pa_Dest a,
     at_AmountAtoms = pa_AmountAtoms a, at_Memo = pa_Memo a, at_Decision = store_decision (de_Outcome dec),
     at_RuleTrace = Some (if de_Trace dec = [] then JNull else JArr (map json_RuleResult (de_Trace dec))), at_CreatedAt = now\<rparr>"

definition service_record ::
  "('s, 'n, 'h) Service \<Rightarrow> time \<Rightarrow> policy_Attempt \<Rightarrow> Decision \<Rightarrow> ('s, 'n, 'h, agent_store_error, int) agent_act" where
  "service_record sv now a dec = on_store (as_RecordAttempt (sv_Store sv) (attempt_of now a dec))"

text \<open>\<open>evaluateAndRecord\<close>: the attempt's identifier and the decision.\<close>

definition evaluateAndRecord ::
  "('s, 'n, 'h) Service \<Rightarrow> time \<Rightarrow> policy_Attempt \<Rightarrow> ('s, 'n, 'h, agent_store_error, int \<times> Decision) agent_act" where
  "evaluateAndRecord sv now a w =
     (case service_usage sv now w of
        (Inl e, w) \<Rightarrow> (Inl e, w)
      | (Inr usage, w) \<Rightarrow>
          (let dec = Evaluate (aw_policy w) a usage in
           case service_record sv now a dec w of
             (Inl e, w) \<Rightarrow> (Inl e, w)
           | (Inr i, w) \<Rightarrow> (Inr (i, dec), w)))"

text \<open>The payclient's hook; the context carries the approved ceiling, if any.\<close>

definition service_gate ::
  "('s, 'n, 'h) Service \<Rightarrow> time \<Rightarrow> int option \<Rightarrow> policy_Attempt \<Rightarrow> ('s, 'n, 'h, gate_refusal, int) agent_act" where
  "service_gate sv now preApproved a w =
     (case evaluateAndRecord sv now a w of
        (Inl e, w) \<Rightarrow> (Inl (GateStoreError e), w)
      | (Inr (attemptID, dec), w) \<Rightarrow>
          (case de_Outcome dec of
             Allow \<Rightarrow> (Inr attemptID, w)
           | Deny \<Rightarrow> (Inl (GateDenied dec), w)
           | Escalate \<Rightarrow>
               (case preApproved of
                  Some maxAtoms \<Rightarrow>
                    if pa_AmountAtoms a > maxAtoms then
                      (Inl (GateDenied (dec\<lparr>de_Outcome := Deny,
                         de_Reason := ''challenge_changed: re-quoted '' @ FormatInt (pa_AmountAtoms a) @
                           '' atoms exceeds the approved '' @ FormatInt maxAtoms\<rparr>)), w)
                    else (Inr attemptID, w)
                | None \<Rightarrow> (Inl (GateNeedsApproval attemptID dec a), w))))"

definition summaryFor :: "policy_Attempt \<Rightarrow> Decision \<Rightarrow> string" where
  "summaryFor a dec =
     ''dcr402-agent approval: '' @ pa_Tool a @ '' wants to spend '' @ format_dcr (pa_AmountAtoms a) @ '' DCR to '' @
     Quote (pa_Dest a) @ ''. memo: '' @ Quote (pa_Memo a) @ ''. Reply \"yes <id>\" to approve or \"no <id>\" to deny; send \"freeze\" to halt all spending (\"unfreeze\" resumes). Remaining today: '' @ format_dcr (de_RemainingDayAtoms dec) @ '' DCR.''"

section \<open>Direct payments\<close>

record PayResult =
  yr_AttemptID :: int
  yr_PaymentID :: int
  yr_Rail :: string
  yr_AmountAtoms :: int
  yr_FeeAtoms :: int
  yr_Preimage :: string
  yr_TxID :: string

definition zero_Payment :: Payment where
  "zero_Payment = \<lparr>py_ID = 0, py_AttemptID = 0, py_Rail = [], py_AmountAtoms = 0, py_FeeAtoms = 0, py_Invoice = [], py_Preimage = [],
     py_TxID = [], py_L402Service = [], py_Receipt = None, py_CreatedAt = 0\<rparr>"

definition ln_payment :: "time \<Rightarrow> int \<Rightarrow> string \<Rightarrow> ln_Invoice \<Rightarrow> string \<Rightarrow> int \<Rightarrow> Payment" where
  "ln_payment now attemptID invoice dec preimage fee =
     zero_Payment\<lparr>py_AttemptID := attemptID, py_Rail := ''ln'', py_AmountAtoms := li_AmountAtoms dec, py_FeeAtoms := fee,
       py_Invoice := invoice, py_Preimage := preimage, py_CreatedAt := now,
       py_Receipt := Some (ln_receipt invoice preimage now (li_AmountAtoms dec))\<rparr>"

definition doLNPay ::
  "('s, 'n, 'h) Service \<Rightarrow> time \<Rightarrow> int \<Rightarrow> string \<Rightarrow> ln_Invoice \<Rightarrow> ('s, 'n, 'h, service_error, PayResult) agent_act" where
  "doLNPay sv now attemptID invoice dec w =
     (case on_rail (ln_Pay (sv_LN sv) invoice feeLimitAtoms payTimeout) w of
        (Inl e, w) \<Rightarrow> (Inl (RailError e), w)
      | (Inr (preimage, fee), w) \<Rightarrow>
          (case on_store (as_RecordPayment (sv_Store sv) (ln_payment now attemptID invoice dec preimage fee)) w of
             (Inl e, w) \<Rightarrow> (Inl (StoreError e), w)
           | (Inr pid, w) \<Rightarrow>
               (Inr \<lparr>yr_AttemptID = attemptID, yr_PaymentID = pid, yr_Rail = ''ln'', yr_AmountAtoms = li_AmountAtoms dec,
                     yr_FeeAtoms = fee, yr_Preimage = preimage, yr_TxID = []\<rparr>, w)))"

definition chain_payment :: "time \<Rightarrow> int \<Rightarrow> string \<Rightarrow> int \<Rightarrow> string \<Rightarrow> Payment" where
  "chain_payment now attemptID address amount txid =
     zero_Payment\<lparr>py_AttemptID := attemptID, py_Rail := ''onchain'', py_AmountAtoms := amount, py_TxID := txid, py_CreatedAt := now,
       py_Receipt := Some (jmap [(''txid'', JStr txid), (''payTo'', JStr address), (''settledAt'', JStr (rfc3339 now)),
         (''amount'', JStr (FormatInt amount))])\<rparr>"

text \<open>The rail is there whenever this runs; without it the call would be a nil dereference.\<close>

definition doOnchainPay ::
  "('s, 'n, 'h) Service \<Rightarrow> time \<Rightarrow> int \<Rightarrow> string \<Rightarrow> int \<Rightarrow> ('s, 'n, 'h, service_error, PayResult) agent_act" where
  "doOnchainPay sv now attemptID address amount w =
     (case sv_Onchain sv of
        None \<Rightarrow> (Inl OnchainDisabled, w)
      | Some oc \<Rightarrow>
          (case on_rail (oc_Send oc address amount) w of
             (Inl e, w) \<Rightarrow> (Inl (RailError e), w)
           | (Inr txid, w) \<Rightarrow>
               (case on_store (as_RecordPayment (sv_Store sv) (chain_payment now attemptID address amount txid)) w of
                  (Inl e, w) \<Rightarrow> (Inl (StoreError e), w)
                | (Inr pid, w) \<Rightarrow>
                    (Inr \<lparr>yr_AttemptID = attemptID, yr_PaymentID = pid, yr_Rail = ''onchain'', yr_AmountAtoms = amount,
                          yr_FeeAtoms = 0, yr_Preimage = [], yr_TxID = txid\<rparr>, w))))"

definition exec_direct ::
  "('s, 'n, 'h) Service \<Rightarrow> time \<Rightarrow> int \<Rightarrow> DirectPay \<Rightarrow> ('s, 'n, 'h, service_error, PayResult) agent_act" where
  "exec_direct sv now attemptID exec w =
     (case exec of
        PayLN invoice dec \<Rightarrow> doLNPay sv now attemptID invoice dec w
      | PayChain address amount \<Rightarrow> doOnchainPay sv now attemptID address amount w)"

definition executeOrEscalate ::
  "('s, 'n, 'h) Service \<Rightarrow> time \<Rightarrow> policy_Attempt \<Rightarrow> DirectPay \<Rightarrow> ('s, 'n, 'h, service_error, PayResult) agent_act" where
  "executeOrEscalate sv now a exec w =
     (case notFrozen sv w of
        (Inl e, w) \<Rightarrow> (Inl e, w)
      | (Inr _, w) \<Rightarrow>
          (case evaluateAndRecord sv now a w of
             (Inl e, w) \<Rightarrow> (Inl (StoreError e), w)
           | (Inr (attemptID, dec), w) \<Rightarrow>
               (case de_Outcome dec of
                  Allow \<Rightarrow> exec_direct sv now attemptID exec w
                | Deny \<Rightarrow> (Inl (PolicyDenied dec), w)
                | Escalate \<Rightarrow>
                    (case registry_Escalate sv now attemptID (de_ApprovalChannel dec) (de_ApprovalTTL dec) (summaryFor a dec)
                            (ContDirect attemptID exec) w of
                       (Inl e, w) \<Rightarrow> (Inl e, w)
                     | (Inr appr, w) \<Rightarrow> (Inl (Pending (ap_ID appr) (ap_ExpiresAt appr)), w)))))"

definition PayLNInvoice ::
  "('s, 'n, 'h) Service \<Rightarrow> time \<Rightarrow> string \<Rightarrow> string \<Rightarrow> int \<Rightarrow> ('s, 'n, 'h, service_error, PayResult) agent_act" where
  "PayLNInvoice sv now invoice memo maxAmountAtoms w =
     (case ln_DecodeInvoice (sv_Decode sv) invoice (sv_Network sv) of
        None \<Rightarrow> (Inl InvoiceError, w)
      | Some dec \<Rightarrow>
          if li_AmountAtoms dec \<le> 0 then (Inl Amountless, w)
          else if maxAmountAtoms > 0 \<and> li_AmountAtoms dec > maxAmountAtoms
          then (Inl (AboveMaxAmount (li_AmountAtoms dec) maxAmountAtoms), w)
          else executeOrEscalate sv now
                 \<lparr>pa_Tool = ''pay_ln_invoice'', pa_Rail = ''ln'', pa_DestKind = DestLNNode, pa_Dest = li_Destination dec,
                  pa_AmountAtoms = li_AmountAtoms dec, pa_Memo = memo\<rparr> (PayLN invoice dec) w)"

definition PayDCRAddress ::
  "('s, 'n, 'h) Service \<Rightarrow> time \<Rightarrow> string \<Rightarrow> int \<Rightarrow> string \<Rightarrow> ('s, 'n, 'h, service_error, PayResult) agent_act" where
  "PayDCRAddress sv now address amountAtoms memo w =
     (if sv_Onchain sv = None then (Inl OnchainDisabled, w)
      else if amountAtoms \<le> 0 then (Inl AmountNotPositive, w)
      else executeOrEscalate sv now
             \<lparr>pa_Tool = ''pay_dcr_address'', pa_Rail = ''onchain'', pa_DestKind = DestDCRAddress, pa_Dest = address,
              pa_AmountAtoms = amountAtoms, pa_Memo = memo\<rparr> (PayChain address amountAtoms) w)"

section \<open>Paid fetches\<close>

text \<open>The payclient as the daemon wires it: the agent's rails, store, network and hook.\<close>

definition service_client ::
  "('s, 'n, 'h) Service \<Rightarrow> time \<Rightarrow> int option \<Rightarrow> (('s, 'n, 'h) agent_world, gate_refusal) Client" where
  "service_client sv now preApproved =
     \<lparr>cl_LN = \<lambda>invoice fee timeout. on_rail (ln_Pay (sv_LN sv) invoice fee timeout), cl_Network = sv_Network sv,
      cl_Tokens = \<lparr>ts_GetToken = \<lambda>h. on_store (as_GetToken (sv_Store sv) h), ts_PutToken = \<lambda>t. on_store (as_PutToken (sv_Store sv) t),
        ts_TouchToken = \<lambda>h t. on_store (as_TouchToken (sv_Store sv) h t), ts_DeleteToken = \<lambda>h. on_store (as_DeleteToken (sv_Store sv) h)\<rparr>,
      cl_Gate = Some (service_gate sv now preApproved), cl_HTTP = \<lambda>q. on_net (sv_HTTP sv q),
      cl_FeeLimitAtoms = 10000, cl_PayTimeout = 60 * second, cl_Decode = sv_Decode sv\<rparr>"

fun cut_at :: "string \<Rightarrow> string \<Rightarrow> (string \<times> string) option" where
  "cut_at p [] = (if p = [] then Some ([], []) else None)"
| "cut_at p (c # s) = (if HasPrefix (c # s) p then Some ([], drop (length p) (c # s))
     else map_option (\<lambda>(a, b). (c # a, b)) (cut_at p s))"

definition hostOf :: "string \<Rightarrow> string" where
  "hostOf rawURL =
     (case cut_at ''://'' rawURL of
        None \<Rightarrow> rawURL
      | Some (a, rest) \<Rightarrow> takeWhile (\<lambda>c. c \<noteq> CHR ''/'' \<and> c \<noteq> CHR '':'') rest)"

definition fetch_payment :: "time \<Rightarrow> string \<Rightarrow> fetch_Result \<Rightarrow> Payment" where
  "fetch_payment now url r =
     zero_Payment\<lparr>py_AttemptID := re_AttemptID r, py_Rail := re_Rail r, py_AmountAtoms := re_PaidAtoms r, py_FeeAtoms := re_FeeAtoms r,
       py_Invoice := re_Invoice r, py_Preimage := re_Preimage r, py_L402Service := hostOf url, py_Receipt := re_Receipt r,
       py_CreatedAt := now\<rparr>"

text \<open>The Go pair of result and error; the context's ceiling is \<open>preApproved\<close>.\<close>

definition FetchPaid ::
  "('s, 'n, 'h) Service \<Rightarrow> time \<Rightarrow> int option \<Rightarrow> string \<Rightarrow> FetchOptions \<Rightarrow> ('s, 'n, 'h) agent_world \<Rightarrow>
   (fetch_Result option \<times> service_error option) \<times> ('s, 'n, 'h) agent_world" where
  "FetchPaid sv now preApproved url opt w =
     (case notFrozen sv w of
        (Inl e, w) \<Rightarrow> ((None, Some e), w)
      | (Inr _, w) \<Rightarrow>
          (case client_FetchPaid (service_client sv now preApproved) now url opt w of
             ((res, err), w) \<Rightarrow>
               (case err of
                  Some (GateError (GateNeedsApproval attemptID dec a)) \<Rightarrow>
                    (case registry_Escalate sv now attemptID (de_ApprovalChannel dec) (de_ApprovalTTL dec) (summaryFor a dec)
                            (ContFetch url opt (pa_AmountAtoms a)) w of
                       (Inl e, w) \<Rightarrow> ((None, Some e), w)
                     | (Inr appr, w) \<Rightarrow> ((None, Some (Pending (ap_ID appr) (ap_ExpiresAt appr))), w))
                | _ \<Rightarrow>
                    ((res, map_option FetchError err),
                     (case res of
                        None \<Rightarrow> w
                      | Some r \<Rightarrow> if re_PaidAtoms r > 0
                                  then snd (on_store (as_RecordPayment (sv_Store sv) (fetch_payment now url r)) w) else w)))))"

section \<open>The goroutine of a resolved approval\<close>

definition run_continuation ::
  "('s, 'n, 'h) Service \<Rightarrow> time \<Rightarrow> Continuation \<Rightarrow> bool \<Rightarrow> ('s, 'n, 'h) agent_world \<Rightarrow> ('s, 'n, 'h) agent_world" where
  "run_continuation sv now cont approved w =
     (if \<not> approved then w
      else (case cont of
              ContDirect attemptID exec \<Rightarrow> snd (exec_direct sv now attemptID exec w)
            | ContFetch url opt maxAtoms \<Rightarrow> snd (FetchPaid sv now (Some maxAtoms) url opt w)))"

definition ExpireNow :: "('s, 'n, 'h) Service \<Rightarrow> time \<Rightarrow> ('s, 'n, 'h) agent_world \<Rightarrow> ('s, 'n, 'h) agent_world" where
  "ExpireNow sv now w =
     (case on_store (as_ExpireApprovals (sv_Store sv) now) w of
        (Inl e, w) \<Rightarrow> w
      | (Inr expired, w) \<Rightarrow>
          fold (\<lambda>a w. case take_waiting (ap_ID a) w of
                        (None, w) \<Rightarrow> w
                      | (Some cont, w) \<Rightarrow> run_continuation sv now cont False w) expired w)"

section \<open>Read operations\<close>

definition page_limit :: "int \<Rightarrow> int" where
  "page_limit limit = (if limit \<le> 0 \<or> limit > 200 then 50 else limit)"

definition service_Payments :: "('s, 'n, 'h) Service \<Rightarrow> int \<Rightarrow> int \<Rightarrow> ('s, 'n, 'h, agent_store_error, Payment list) agent_act" where
  "service_Payments sv limit beforeID = on_store (as_ListPayments (sv_Store sv) (page_limit limit) beforeID)"

definition service_Attempts :: "('s, 'n, 'h) Service \<Rightarrow> int \<Rightarrow> int \<Rightarrow> ('s, 'n, 'h, agent_store_error, Attempt list) agent_act" where
  "service_Attempts sv limit beforeID = on_store (as_ListAttempts (sv_Store sv) (page_limit limit) beforeID)"

definition service_Receipt :: "('s, 'n, 'h) Service \<Rightarrow> int \<Rightarrow> ('s, 'n, 'h, agent_store_error, Payment) agent_act" where
  "service_Receipt sv i = on_store (as_GetPayment (sv_Store sv) i)"

definition service_Estimate ::
  "('s, 'n, 'h) Service \<Rightarrow> time \<Rightarrow> string \<Rightarrow> ('s, 'n, 'h, gate_refusal fetch_error, Estimate) agent_act" where
  "service_Estimate sv now target = client_Estimate (service_client sv now None) target"

definition GetReceiveAddress :: "('s, 'n, 'h) Service \<Rightarrow> ('s, 'n, 'h, service_error, string) agent_act" where
  "GetReceiveAddress sv w =
     (case sv_Onchain sv of
        None \<Rightarrow> (Inl OnchainDisabled, w)
      | Some oc \<Rightarrow> (case on_rail (oc_NewAddress oc) w of (Inl e, w) \<Rightarrow> (Inl (RailError e), w) | (Inr a, w) \<Rightarrow> (Inr a, w)))"

definition service_CreateInvoice ::
  "('s, 'n, 'h) Service \<Rightarrow> int \<Rightarrow> string \<Rightarrow> ('s, 'n, 'h, service_error, string \<times> string) agent_act" where
  "service_CreateInvoice sv amountAtoms memo w =
     (if amountAtoms \<le> 0 then (Inl AmountNotPositive, w)
      else (case on_rail (ln_CreateInvoice (sv_LN sv) amountAtoms memo hour) w of
              (Inl e, w) \<Rightarrow> (Inl (RailError e), w) | (Inr x, w) \<Rightarrow> (Inr x, w)))"

record Status =
  sx_Network :: string
  sx_NodePubkey :: string
  sx_Synced :: bool
  sx_LNSpendableAtoms :: int
  sx_OnchainAtoms :: int
  sx_OnchainEnabled :: bool
  sx_DayAtoms :: int
  sx_WeekAtoms :: int
  sx_HourCount :: int
  sx_PolicyMode :: string
  sx_DailyBudgetAtoms :: int
  sx_WeeklyBudgetAtoms :: int
  sx_MaxPerPaymentAtoms :: int
  sx_ThresholdAtoms :: int
  sx_PendingApprovals :: int
  sx_Frozen :: bool
  sx_FrozenReason :: string

text \<open>Every part of the snapshot that cannot be read keeps its zero value.\<close>

definition service_Status ::
  "('s, 'n, 'h) Service \<Rightarrow> time \<Rightarrow> string \<Rightarrow> ('s, 'n, 'h) agent_world \<Rightarrow> Status \<times> ('s, 'n, 'h) agent_world" where
  "service_Status sv now network w =
     (let (info, w) = on_rail (ln_Info (sv_LN sv)) w;
          (bal, w) = on_rail (ln_SpendableAtoms (sv_LN sv)) w;
          (coins, w) = (case sv_Onchain sv of None \<Rightarrow> (Inl [], w) | Some oc \<Rightarrow> on_rail (oc_BalanceAtoms oc 1) w);
          (u, w) = service_usage sv now w;
          (pending, w) = registry_Pending sv now w;
          (fz, w) = FreezeStatus sv w;
          p = aw_policy w in
      (\<lparr>sx_Network = network,
        sx_NodePubkey = (case info of Inl e \<Rightarrow> [] | Inr (pk, synced) \<Rightarrow> pk),
        sx_Synced = (case info of Inl e \<Rightarrow> False | Inr (pk, synced) \<Rightarrow> synced),
        sx_LNSpendableAtoms = (case bal of Inl e \<Rightarrow> 0 | Inr b \<Rightarrow> b),
        sx_OnchainAtoms = (case coins of Inl e \<Rightarrow> 0 | Inr (spendable, _) \<Rightarrow> spendable),
        sx_OnchainEnabled = (sv_Onchain sv \<noteq> None),
        sx_DayAtoms = (case u of Inl e \<Rightarrow> 0 | Inr u \<Rightarrow> us_DayAtoms u),
        sx_WeekAtoms = (case u of Inl e \<Rightarrow> 0 | Inr u \<Rightarrow> us_WeekAtoms u),
        sx_HourCount = (case u of Inl e \<Rightarrow> 0 | Inr u \<Rightarrow> us_HourCount u),
        sx_PolicyMode = po_Mode p, sx_DailyBudgetAtoms = po_DailyBudgetAtoms p, sx_WeeklyBudgetAtoms = po_WeeklyBudgetAtoms p,
        sx_MaxPerPaymentAtoms = po_MaxPerPaymentAtoms p, sx_ThresholdAtoms = po_ThresholdAtoms p,
        sx_PendingApprovals = (case pending of Inl e \<Rightarrow> 0 | Inr ps \<Rightarrow> int (length ps)),
        sx_Frozen = fz_Frozen fz, sx_FrozenReason = (if fz_Frozen fz then fz_Reason fz else [])\<rparr>, w))"

end
