(* ===== verification/AgentSafety.thy ===== *)
theory AgentSafety
  imports Agent
begin

text \<open>
  The agent as a transition system, and the invariants of its histories: the locale
  \<open>agent_service\<close> proves them once from the contract \<open>agent_store\<close>, and is interpreted on the
  in-memory and the SQLite store.
\<close>

section \<open>Transitions\<close>

datatype 'h agent_event =
    EvPayLN time string string int
  | EvPayDCR time string int string
  | EvFetch time string FetchOptions
  | EvResolve time string bool string
  | EvExpire time
  | EvExpireNow time
  | EvRun time string Continuation bool
  | EvFreeze time string string
  | EvUnfreeze
  | EvReload Policy
  | EvRestart
  | EvNet 'h

inductive agent_step ::
  "('s, 'n, 'h) Service \<Rightarrow> 'h agent_event \<Rightarrow> ('s, 'n, 'h) agent_world \<Rightarrow> ('s, 'n, 'h) agent_world \<Rightarrow> bool" for sv where
  step_pay_ln: "PayLNInvoice sv now invoice memo maxA w = (r, w') \<Longrightarrow> agent_step sv (EvPayLN now invoice memo maxA) w w'"
| step_pay_dcr: "PayDCRAddress sv now address amount memo w = (r, w') \<Longrightarrow> agent_step sv (EvPayDCR now address amount memo) w w'"
| step_fetch: "FetchPaid sv now None url opt w = (rf, w') \<Longrightarrow> agent_step sv (EvFetch now url opt) w w'"
| step_resolve: "registry_Resolve sv now i approved responder w = (rb, w') \<Longrightarrow> agent_step sv (EvResolve now i approved responder) w w'"
| step_expire: "agent_step sv (EvExpire now) w (expiry_tick sv now w)"
| step_expire_now: "agent_step sv (EvExpireNow now) w (ExpireNow sv now w)"
| step_run: "aw_running w = xs @ (i, cont, approved) # ys \<Longrightarrow>
    agent_step sv (EvRun now i cont approved) w (run_continuation sv now cont approved (w\<lparr>aw_running := xs @ ys\<rparr>))"
| step_freeze: "Freeze sv now who reason w = (ru, w') \<Longrightarrow> agent_step sv (EvFreeze now who reason) w w'"
| step_unfreeze: "Unfreeze sv w = (ru, w') \<Longrightarrow> agent_step sv EvUnfreeze w w'"
| step_reload: "agent_step sv (EvReload p) w (w\<lparr>aw_policy := p\<rparr>)"
| step_restart: "agent_step sv EvRestart w (w\<lparr>aw_waiting := Map.empty, aw_running := []\<rparr>)"
| step_net: "agent_step sv (EvNet h) w (w\<lparr>aw_net := h\<rparr>)"

inductive_cases agent_stepE: "agent_step sv e w w'"

fun past_id :: "'h agent_event \<Rightarrow> string list" where
  "past_id (EvRun now i cont approved) = [i]"
| "past_id e = []"

text \<open>A history of a process: the identifiers whose continuations past, in order, and the state now.\<close>

inductive agent_history ::
  "('s, 'n, 'h) Service \<Rightarrow> ('s, 'n, 'h) agent_world \<Rightarrow> string list \<Rightarrow> ('s, 'n, 'h) agent_world \<Rightarrow> bool" for sv w0 where
  history_start: "aw_waiting w0 = Map.empty \<Longrightarrow> aw_running w0 = [] \<Longrightarrow> agent_history sv w0 [] w0"
| history_step: "agent_history sv w0 past w \<Longrightarrow> agent_step sv e w w' \<Longrightarrow> agent_history sv w0 (past @ past_id e) w'"

text \<open>Identifiers that are still to be drawn.\<close>

definition undrawn :: "('s, 'n, 'h) Service \<Rightarrow> nat \<Rightarrow> string \<Rightarrow> bool" where
  "undrawn sv n i \<longleftrightarrow> (\<exists>k\<ge>n. \<exists>b. sv_Rand sv k = Some b \<and> i = hex_encode b)"

definition distinct_draws :: "('s, 'n, 'h) Service \<Rightarrow> bool" where
  "distinct_draws sv \<longleftrightarrow> (\<forall>k k' b. sv_Rand sv k = Some b \<longrightarrow> sv_Rand sv k' = Some b \<longrightarrow> k = k')"

section \<open>Lifted operations\<close>

lemma on_storeE:
  assumes "on_store f w = (r, w')" obtains s where "f (aw_store w) = (r, s)" "w' = w\<lparr>aw_store := s\<rparr>"
  using assms by (auto simp: on_store_def split: prod.splits)

lemma on_railE:
  assumes "on_rail f w = (r, w')" obtains n where "f (aw_rail w) = (r, n)" "w' = w\<lparr>aw_rail := n\<rparr>"
  using assms by (auto simp: on_rail_def split: prod.splits)

lemma on_netE:
  assumes "on_net f w = (r, w')" obtains n where "f (aw_net w) = (r, n)" "w' = w\<lparr>aw_net := n\<rparr>"
  using assms by (auto simp: on_net_def split: prod.splits)

lemma undrawn_Suc: "undrawn sv (Suc n) i \<Longrightarrow> undrawn sv n i"
  by (auto simp: undrawn_def intro: Suc_leD)

lemma undrawn_now: "sv_Rand sv n = Some b \<Longrightarrow> undrawn sv n (hex_encode b)"
  by (auto simp: undrawn_def)

lemma undrawn_fresh: "distinct_draws sv \<Longrightarrow> sv_Rand sv n = Some b \<Longrightarrow> \<not> undrawn sv (Suc n) (hex_encode b)"
  by (auto simp: undrawn_def distinct_draws_def hex_encode_inject) (metis Suc_n_not_le_n)

section \<open>Reading the ledger\<close>

text \<open>The usage the ledger of payments gives.\<close>

definition ledger_usage :: "time \<Rightarrow> Payment list \<Rightarrow> policy_Usage \<Rightarrow> bool" where
  "ledger_usage now ps u \<longleftrightarrow> us_DayAtoms u = wrap64 (spent_since (DayStart now) ps) \<and>
     us_WeekAtoms u = wrap64 (spent_since (WeekStart now) ps) \<and>
     (\<exists>h. now - hour < h \<and> h \<le> now - hour + second \<and> us_HourCount u = wrap64 (count_since h ps))"

fun direct_amount :: "DirectPay \<Rightarrow> int" where
  "direct_amount (PayLN invoice dec) = li_AmountAtoms dec"
| "direct_amount (PayChain address amount) = amount"

text \<open>What a payment leaves in the ledger.\<close>

definition paid :: "time \<Rightarrow> int \<Rightarrow> int \<Rightarrow> agent_view \<Rightarrow> agent_view \<Rightarrow> bool" where
  "paid now attemptID amount v v' \<longleftrightarrow> (\<exists>p p'. v' = v\<lparr>av_payments := av_payments v @ [p']\<rparr> \<and> payment_stored p p' \<and>
     py_AmountAtoms p = amount \<and> py_AttemptID p = attemptID \<and> py_CreatedAt p = now)"

lemma paid_books [simp]: "paid now i amount v v' \<Longrightarrow> av_approvals v' = av_approvals v" "paid now i amount v v' \<Longrightarrow> av_state v' = av_state v"
  by (auto simp: paid_def)

text \<open>The approvals the owner has granted.\<close>

definition approved_ids :: "(string \<rightharpoonup> Approval) \<Rightarrow> string set" where
  "approved_ids m = {i. \<exists>ap. m i = Some ap \<and> ap_Status ap = ApprovalApproved}"

lemma approved_ids_upd: "ap_Status ap \<noteq> ApprovalApproved \<Longrightarrow> approved_ids (m(i \<mapsto> ap)) \<subseteq> approved_ids m"
  by (auto simp: approved_ids_def split: if_splits)

section \<open>The service over a store that keeps the contract\<close>

locale agent_service = agent_store ops view for ops :: "'s AgentStore_ops" and view :: "'s \<Rightarrow> agent_view" +
  fixes sv :: "('s, 'n, 'h) Service"
  assumes store_ops: "sv_Store sv = ops"
begin

abbreviation V :: "('s, 'n, 'h) agent_world \<Rightarrow> agent_view" where "V w \<equiv> view (aw_store w)"

text \<open>What the approval side of the world looks like.\<close>

definition books :: "('s, 'n, 'h) agent_world \<Rightarrow> (string \<rightharpoonup> Approval) \<times> (string \<rightharpoonup> Continuation) \<times> (string \<times> Continuation \<times> bool) list \<times> nat" where
  "books w = (av_approvals (V w), aw_waiting w, aw_running w, aw_reads w)"

lemma FreezeStatus_cases:
  assumes "FreezeStatus sv w = (st, w')"
  shows "\<exists>s. w' = w\<lparr>aw_store := s\<rparr> \<and> view s = V w \<and>
    (st = zero_FreezeState \<or> (\<exists>v. av_state (V w) freezeStateKey = Some v \<and> st = read_freeze v))"
proof -
  obtain r s where g: "as_GetState ops freezeStateKey (aw_store w) = (r, s)" by fastforce
  from get_state [OF g] assms g show ?thesis
    by (cases r) (auto simp: FreezeStatus_def on_store_def store_ops)
qed

lemma notFrozen_cases:
  assumes "notFrozen sv w = (r, w')"
  obtains s where "w' = w\<lparr>aw_store := s\<rparr>" "view s = V w"
proof -
  obtain st w1 where "FreezeStatus sv w = (st, w1)" by fastforce
  with FreezeStatus_cases [OF this] assms that show thesis by (auto simp: notFrozen_def)
qed

lemma usage_cases:
  assumes "service_usage sv now w = (r, w')"
  obtains s where "w' = w\<lparr>aw_store := s\<rparr>" "view s = V w" "\<And>u. r = Inr u \<Longrightarrow> ledger_usage now (av_payments (V w)) u"
proof -
  obtain q s where g: "as_Usage ops now (aw_store w) = (q, s)" by fastforce
  note u = usage [OF g]
  show thesis using assms g u
    by (cases q) (auto simp: service_usage_def on_store_def store_ops ledger_usage_def intro!: that [of s])
qed

lemma evaluate_cases:
  assumes "evaluateAndRecord sv now a w = (r, w')"
  obtains (error) e s as where "r = Inl e" "w' = w\<lparr>aw_store := s\<rparr>" "view s = (V w)\<lparr>av_attempts := as\<rparr>"
    | (recorded) u i a' s where "r = Inr (i, Evaluate (aw_policy w) a u)" "w' = w\<lparr>aw_store := s\<rparr>"
        "ledger_usage now (av_payments (V w)) u"
        "view s = (V w)\<lparr>av_attempts := av_attempts (V w) @ [a']\<rparr>" "at_ID a' = i"
        "attempt_stored (attempt_of now a (Evaluate (aw_policy w) a u)) a'"
proof -
  obtain q w1 where u: "service_usage sv now w = (q, w1)" by fastforce
  obtain s1 where w1: "w1 = w\<lparr>aw_store := s1\<rparr>" "view s1 = V w" "\<And>u. q = Inr u \<Longrightarrow> ledger_usage now (av_payments (V w)) u"
    using usage_cases [OF u] by metis
  show thesis
  proof (cases q)
    case (Inl e)
    with assms u w1 show thesis by (intro error [of e s1 "av_attempts (V w)"]) (auto simp: evaluateAndRecord_def)
  next
    case (Inr us)
    let ?dec = "Evaluate (aw_policy w) a us"
    obtain ri s2 where rec: "as_RecordAttempt ops (attempt_of now a ?dec) s1 = (ri, s2)" by fastforce
    have pol: "aw_policy w1 = aw_policy w" by (simp add: w1)
    from record_attempt [OF rec] show thesis
    proof
      assume "\<exists>a'. view s2 = (view s1)\<lparr>av_attempts := av_attempts (view s1) @ [a']\<rparr> \<and> attempt_stored (attempt_of now a ?dec) a' \<and>
        (\<forall>i. ri = Inr i \<longrightarrow> at_ID a' = i \<and> i = int (length (av_attempts (view s1)) + 1))"
      then obtain a' where a': "view s2 = (V w)\<lparr>av_attempts := av_attempts (V w) @ [a']\<rparr>" "attempt_stored (attempt_of now a ?dec) a'"
        "\<forall>i. ri = Inr i \<longrightarrow> at_ID a' = i" using w1(2) by auto
      show thesis
      proof (cases ri)
        case (Inl e)
        with assms u w1 Inr rec pol a' show thesis
          by (intro error [of e s2 "av_attempts (V w) @ [a']"]) (auto simp: evaluateAndRecord_def service_record_def on_store_def store_ops Let_def)
      next
        case ri: (Inr i)
        with assms u w1 Inr rec pol a' show thesis
          by (intro recorded [of i us s2 a']) (auto simp: evaluateAndRecord_def service_record_def on_store_def store_ops Let_def)
      qed
    next
      assume "(\<exists>e. ri = Inl e) \<and> view s2 = view s1"
      then obtain e where "ri = Inl e" "view s2 = V w" using w1(2) by auto
      with assms u w1 Inr rec pol show thesis
        by (intro error [of e s2 "av_attempts (V w)"]) (auto simp: evaluateAndRecord_def service_record_def on_store_def store_ops Let_def)
    qed
  qed
qed


lemma record_payment_cases:
  assumes "on_store (as_RecordPayment (sv_Store sv) p) w = (r, w')" "py_AmountAtoms p = amount" "py_AttemptID p = i" "py_CreatedAt p = now"
  obtains s where "w' = w\<lparr>aw_store := s\<rparr>" "view s = V w \<or> paid now i amount (V w) (view s)"
    "\<And>x. r = Inr x \<Longrightarrow> paid now i amount (V w) (view s)"
proof (rule on_storeE [OF assms(1) [unfolded store_ops]])
  fix s assume g: "as_RecordPayment ops p (aw_store w) = (r, s)" "w' = w\<lparr>aw_store := s\<rparr>"
  from record_payment [OF g(1)] assms(2-) have "paid now i amount (V w) (view s) \<or> (\<exists>e. r = Inl e) \<and> view s = V w"
    unfolding paid_def by blast
  with g(2) that show thesis by blast
qed

lemma exec_direct_cases:
  assumes "exec_direct sv now attemptID exec w = (r, w')"
  obtains n s where "w' = w\<lparr>aw_rail := n, aw_store := s\<rparr>"
    "view s = V w \<or> paid now attemptID (direct_amount exec) (V w) (view s)"
    "\<And>x. r = Inr x \<Longrightarrow> paid now attemptID (direct_amount exec) (V w) (view s) \<and> yr_AmountAtoms x = direct_amount exec"
proof (cases exec)
  case (PayLN invoice dec)
  obtain q w1 where p: "on_rail (ln_Pay (sv_LN sv) invoice feeLimitAtoms payTimeout) w = (q, w1)" by fastforce
  obtain n where w1: "w1 = w\<lparr>aw_rail := n\<rparr>" using on_railE [OF p] by blast
  show thesis
  proof (cases q)
    case (Inl e)
    with assms p PayLN w1 show thesis by (intro that [where n = n and s = "aw_store w"]) (auto simp: exec_direct_def doLNPay_def)
  next
    case (Inr pf)
    obtain preimage fee where pf: "pf = (preimage, fee)" by fastforce
    obtain ri w2 where rec: "on_store (as_RecordPayment (sv_Store sv) (ln_payment now attemptID invoice dec preimage fee)) w1 = (ri, w2)" by fastforce
    obtain s where "w2 = w1\<lparr>aw_store := s\<rparr>" "V w1 = V w"
      "view s = V w1 \<or> paid now attemptID (li_AmountAtoms dec) (V w1) (view s)"
      "\<And>x. ri = Inr x \<Longrightarrow> paid now attemptID (li_AmountAtoms dec) (V w1) (view s)"
      using record_payment_cases [OF rec, of "li_AmountAtoms dec" attemptID now] by (auto simp: ln_payment_def zero_Payment_def w1)
    with assms p PayLN w1 Inr pf rec show thesis
      by (intro that [where n = n and s = s]) (auto simp: exec_direct_def doLNPay_def split: sum.splits)
  qed
next
  case (PayChain address amount)
  show thesis
  proof (cases "sv_Onchain sv")
    case None
    with assms PayChain show thesis by (intro that [where n = "aw_rail w" and s = "aw_store w"]) (auto simp: exec_direct_def doOnchainPay_def)
  next
    case (Some oc)
    obtain q w1 where p: "on_rail (oc_Send oc address amount) w = (q, w1)" by fastforce
    obtain n where w1: "w1 = w\<lparr>aw_rail := n\<rparr>" using on_railE [OF p] by blast
    show thesis
    proof (cases q)
      case (Inl e)
      with assms p PayChain Some w1 show thesis by (intro that [where n = n and s = "aw_store w"]) (auto simp: exec_direct_def doOnchainPay_def)
    next
      case (Inr txid)
      obtain ri w2 where rec: "on_store (as_RecordPayment (sv_Store sv) (chain_payment now attemptID address amount txid)) w1 = (ri, w2)" by fastforce
      obtain s where "w2 = w1\<lparr>aw_store := s\<rparr>" "V w1 = V w"
        "view s = V w1 \<or> paid now attemptID amount (V w1) (view s)"
        "\<And>x. ri = Inr x \<Longrightarrow> paid now attemptID amount (V w1) (view s)"
        using record_payment_cases [OF rec, of amount attemptID now] by (auto simp: chain_payment_def zero_Payment_def w1)
      with assms p PayChain Some w1 Inr rec show thesis
        by (intro that [where n = n and s = s]) (auto simp: exec_direct_def doOnchainPay_def split: sum.splits)
    qed
  qed
qed

text \<open>An escalation touches one identifier, drawn at this moment, and no rail.\<close>

definition escalated :: "('s, 'n, 'h) agent_world \<Rightarrow> ('s, 'n, 'h) agent_world \<Rightarrow> bool" where
  "escalated w w' \<longleftrightarrow> aw_rail w' = aw_rail w \<and> aw_running w' = aw_running w \<and> aw_policy w' = aw_policy w \<and> aw_reads w' = Suc (aw_reads w) \<and>
     av_payments (V w') = av_payments (V w) \<and> av_state (V w') = av_state (V w) \<and> av_attempts (V w') = av_attempts (V w) \<and>
     approved_ids (av_approvals (V w')) \<subseteq> approved_ids (av_approvals (V w)) \<and>
     (\<forall>j. (\<exists>b. sv_Rand sv (aw_reads w) = Some b \<and> j = hex_encode b) \<or>
        av_approvals (V w') j = av_approvals (V w) j \<and> aw_waiting w' j = aw_waiting w j)"

lemma escalate_cases:
  assumes "registry_Escalate sv now attemptID channel ttl summary cont w = (r, w')" shows "escalated w w'"
proof (cases "sv_Rand sv (aw_reads w)")
  case None
  with assms show ?thesis by (auto simp: registry_Escalate_def escalated_def)
next
  case (Some b)
  let ?i = "hex_encode b"
  define ap where "ap = \<lparr>ap_ID = ?i, ap_AttemptID = attemptID, ap_Channel = channel, ap_Status = ApprovalPending,
    ap_Responder = [], ap_CreatedAt = now, ap_ExpiresAt = now + ttl, ap_ResolvedAt = None\<rparr>"
  obtain rc s1 where c: "as_CreateApproval ops ap (aw_store w) = (rc, s1)" by fastforce
  note ca = create_approval [OF c]
  show ?thesis
  proof (cases rc)
    case (Inl e)
    with assms Some c ca show ?thesis
      by (auto simp: registry_Escalate_def escalated_def ap_def [symmetric] on_store_def store_ops Let_def)
  next
    case (Inr x)
    with ca obtain ap' where v1: "view s1 = (V w)\<lparr>av_approvals := (av_approvals (V w))(?i \<mapsto> ap')\<rparr>" and st: "approval_stored ap ap'"
      by (auto simp: ap_def)
    have "ap_Status ap' \<noteq> ApprovalApproved" using st by (cases ap') (auto simp: approval_stored_def ap_def)
    then have k1: "approved_ids (av_approvals (view s1)) \<subseteq> approved_ids (av_approvals (V w))"
      using approved_ids_upd by (simp add: v1)
    have id: "ap_ID ap = ?i" by (simp add: ap_def)
    obtain k h where nt: "notify_all (sv_Approvers sv) channel \<lparr>aq_ID = ?i, aq_Summary = summary, aq_ExpiresAt = ap_ExpiresAt ap\<rparr> (aw_net w) = (k, h)"
      by fastforce
    obtain rb s2 where d: "as_ResolveApproval ops ?i ApprovalDenied ''unreachable-channel'' now s1 = (rb, s2)" by fastforce
    have v2: "\<exists>m. view s2 = (view s1)\<lparr>av_approvals := m\<rparr> \<and> (\<forall>j. j \<noteq> ?i \<longrightarrow> m j = av_approvals (view s1) j)"
      using resolve_approval [OF d] by (elim disjE conjE exE) (auto simp: approval_won_def intro: exI [of _ "av_approvals (view s1)"])
    have "view s2 = view s1 \<or> approval_won (view s1) ?i ApprovalDenied ''unreachable-channel'' now (view s2)"
      using resolve_approval [OF d] by blast
    then have "approved_ids (av_approvals (view s2)) \<subseteq> approved_ids (av_approvals (view s1))"
      unfolding approval_won_def using approved_ids_upd by (elim disjE exE conjE) simp_all
    with k1 have k2: "approved_ids (av_approvals (view s2)) \<subseteq> approved_ids (av_approvals (V w))" by (rule subset_trans [rotated])
    show ?thesis
    proof (cases "k = 0")
      case True
      with assms Some c Inr v1 v2 nt d id k2 show ?thesis
        by (auto simp: registry_Escalate_def escalated_def ap_def [symmetric] on_store_def store_ops take_waiting_def Let_def)
    next
      case False
      with assms Some c Inr v1 nt id k1 show ?thesis
        by (auto simp: registry_Escalate_def escalated_def ap_def [symmetric] on_store_def store_ops Let_def)
    qed
  qed
qed

section \<open>Fetches\<close>

lemma idle_service:
  assumes "idle (service_client sv now pre) w w'"
  obtains s h where "w' = w\<lparr>aw_store := s, aw_net := h\<rparr>" "view s = V w"
proof -
  have st: "\<exists>s h. v' = v\<lparr>aw_store := s, aw_net := h\<rparr> \<and> view s = V v" if "idle_step (service_client sv now pre) v v'" for v v'
    using that
  proof cases
    case (idle_get h r)
    with token_ops(1) [of h "aw_store v"] show ?thesis
      by (auto simp: service_client_def on_store_def store_ops split: prod.splits intro!: exI [of _ "aw_net v"])
  next
    case (idle_put t r)
    with token_ops(2) [of t "aw_store v"] show ?thesis
      by (auto simp: service_client_def on_store_def store_ops split: prod.splits intro!: exI [of _ "aw_net v"])
  next
    case (idle_touch h now r)
    with token_ops(3) [of h now "aw_store v"] show ?thesis
      by (auto simp: service_client_def on_store_def store_ops split: prod.splits intro!: exI [of _ "aw_net v"])
  next
    case (idle_delete h r)
    with token_ops(4) [of h "aw_store v"] show ?thesis
      by (auto simp: service_client_def on_store_def store_ops split: prod.splits intro!: exI [of _ "aw_net v"])
  next
    case (idle_http q r)
    then show ?thesis
      by (auto simp: service_client_def on_net_def split: prod.splits intro!: exI [of _ "aw_store v"])
  qed
  from assms have "\<exists>s h. w' = w\<lparr>aw_store := s, aw_net := h\<rparr> \<and> view s = V w"
  proof (induction rule: rtranclp_induct)
    case base
    show ?case by (intro exI [of _ "aw_store w"] exI [of _ "aw_net w"]) simp
  next
    case (step x y)
    then obtain s h where x: "x = w\<lparr>aw_store := s, aw_net := h\<rparr>" "view s = V w" by blast
    from st [OF step.hyps(2)] obtain s' h' where y: "y = x\<lparr>aw_store := s', aw_net := h'\<rparr>" "view s' = V x" by blast
    then have "y = w\<lparr>aw_store := s', aw_net := h'\<rparr> \<and> view s' = V w" using x by simp
    then show ?case by blast
  qed
  with that show thesis by blast
qed

text \<open>Passing the hook: the policy allowed the attempt, or it escalated one within an approved ceiling.\<close>

lemma gate_cases:
  assumes "service_gate sv now pre a w = (r, w')"
  obtains (refused) e s as where "r = Inl e" "w' = w\<lparr>aw_store := s\<rparr>" "view s = (V w)\<lparr>av_attempts := as\<rparr>"
    | (passed) u i a' s where "r = Inr i" "w' = w\<lparr>aw_store := s\<rparr>" "ledger_usage now (av_payments (V w)) u"
        "view s = (V w)\<lparr>av_attempts := av_attempts (V w) @ [a']\<rparr>" "at_ID a' = i"
        "attempt_stored (attempt_of now a (Evaluate (aw_policy w) a u)) a'"
        "de_Outcome (Evaluate (aw_policy w) a u) = Allow \<or>
         de_Outcome (Evaluate (aw_policy w) a u) = Escalate \<and> (\<exists>m. pre = Some m \<and> pa_AmountAtoms a \<le> m)"
proof -
  obtain q w1 where e: "evaluateAndRecord sv now a w = (q, w1)" by fastforce
  from e show thesis
  proof (cases rule: evaluate_cases)
    case (error er s as)
    with assms e show thesis by (intro refused [of "GateStoreError er" s as]) (auto simp: service_gate_def)
  next
    case (recorded u i a' s)
    let ?d = "Evaluate (aw_policy w) a u"
    have "w' = w1" using assms e recorded(1) by (auto simp: service_gate_def split: Outcome.splits option.splits if_splits)
    show thesis
    proof (cases r)
      case (Inl er)
      with \<open>w' = w1\<close> recorded show thesis by (intro refused [of er s]) auto
    next
      case (Inr j)
      have "j = i" "de_Outcome ?d = Allow \<or> de_Outcome ?d = Escalate \<and> (\<exists>m. pre = Some m \<and> pa_AmountAtoms a \<le> m)"
        using assms e recorded(1) Inr by (auto simp: service_gate_def split: Outcome.splits option.splits if_splits)
      with Inr \<open>w' = w1\<close> recorded show thesis by (intro passed [where i = i and u = u and s = s and a' = a']) auto
    qed
  qed
qed


definition quiet :: "('s, 'n, 'h) agent_world \<Rightarrow> ('s, 'n, 'h) agent_world \<Rightarrow> bool" where
  "quiet w w' \<longleftrightarrow> (\<exists>s h as. w' = w\<lparr>aw_store := s, aw_net := h\<rparr> \<and> view s = (V w)\<lparr>av_attempts := as\<rparr>)"

lemma quietI: "w' = w\<lparr>aw_store := s, aw_net := h\<rparr> \<Longrightarrow> view s = (V w)\<lparr>av_attempts := as\<rparr> \<Longrightarrow> quiet w w'"
  unfolding quiet_def by blast

lemma quiet_trans:
  assumes "quiet a b" "quiet b c" shows "quiet a c"
proof -
  obtain s h as where b: "b = a\<lparr>aw_store := s, aw_net := h\<rparr>" "view s = (V a)\<lparr>av_attempts := as\<rparr>"
    using assms(1) unfolding quiet_def by blast
  obtain s' h' as' where c: "c = b\<lparr>aw_store := s', aw_net := h'\<rparr>" "view s' = (V b)\<lparr>av_attempts := as'\<rparr>"
    using assms(2) unfolding quiet_def by blast
  show ?thesis by (rule quietI [where s = s' and h = h' and as = as']) (simp_all add: b c)
qed

lemma quiet_store: "view s = (V w)\<lparr>av_attempts := as\<rparr> \<Longrightarrow> quiet w (w\<lparr>aw_store := s\<rparr>)"
  by (rule quietI [where s = s and h = "aw_net w" and as = as]) simp_all

lemma quiet_same: "view s = V w \<Longrightarrow> quiet w (w\<lparr>aw_store := s\<rparr>)"
  by (rule quiet_store [where as = "av_attempts (V w)"]) simp

lemma quiet_idle: "idle (service_client sv now pre) w w' \<Longrightarrow> quiet w w'"
  by (erule idle_service) (rule quietI [where as = "av_attempts (V w)"], assumption, simp)

text \<open>A call of the Lightning rail or the wallet had the policy's leave: allowed outright, or under the owner's ceiling.\<close>

definition cleared :: "time \<Rightarrow> int option \<Rightarrow> ('s, 'n, 'h) agent_world \<Rightarrow> policy_Attempt \<Rightarrow> Attempt \<Rightarrow> bool" where
  "cleared now pre w a a' \<longleftrightarrow> (\<exists>u. ledger_usage now (av_payments (V w)) u \<and>
     attempt_stored (attempt_of now a (Evaluate (aw_policy w) a u)) a' \<and>
     (de_Outcome (Evaluate (aw_policy w) a u) = Allow \<or>
      de_Outcome (Evaluate (aw_policy w) a u) = Escalate \<and> (\<exists>m. pre = Some m \<and> pa_AmountAtoms a \<le> m)))"

text \<open>The world after a cleared call: the rail moved, one attempt recorded, at most one payment of the amount.\<close>

definition spent :: "time \<Rightarrow> int option \<Rightarrow> policy_Attempt \<Rightarrow> ('s, 'n, 'h) agent_world \<Rightarrow> ('s, 'n, 'h) agent_world \<Rightarrow> bool" where
  "spent now pre a w w' \<longleftrightarrow> (\<exists>n s h a' vv. w' = w\<lparr>aw_rail := n, aw_store := s, aw_net := h\<rparr> \<and> cleared now pre w a a' \<and>
     vv = (V w)\<lparr>av_attempts := av_attempts (V w) @ [a']\<rparr> \<and>
     (view s = vv \<or> paid now (at_ID a') (pa_AmountAtoms a) vv (view s)))"

lemma spentI:
  "w' = w\<lparr>aw_rail := n, aw_store := s, aw_net := h\<rparr> \<Longrightarrow> cleared now pre w a a' \<Longrightarrow>
   vv = (V w)\<lparr>av_attempts := av_attempts (V w) @ [a']\<rparr> \<Longrightarrow> view s = vv \<or> paid now (at_ID a') (pa_AmountAtoms a) vv (view s) \<Longrightarrow>
   spent now pre a w w'"
  unfolding spent_def by blast

text \<open>The same with the payment on the ledger.\<close>

definition settled :: "time \<Rightarrow> int option \<Rightarrow> policy_Attempt \<Rightarrow> ('s, 'n, 'h) agent_world \<Rightarrow> ('s, 'n, 'h) agent_world \<Rightarrow> bool" where
  "settled now pre a w w' \<longleftrightarrow> (\<exists>n s h a'. w' = w\<lparr>aw_rail := n, aw_store := s, aw_net := h\<rparr> \<and> cleared now pre w a a' \<and>
     paid now (at_ID a') (pa_AmountAtoms a) ((V w)\<lparr>av_attempts := av_attempts (V w) @ [a']\<rparr>) (view s))"

lemma settledI:
  "w' = w\<lparr>aw_rail := n, aw_store := s, aw_net := h\<rparr> \<Longrightarrow> cleared now pre w a a' \<Longrightarrow>
   paid now (at_ID a') (pa_AmountAtoms a) ((V w)\<lparr>av_attempts := av_attempts (V w) @ [a']\<rparr>) (view s) \<Longrightarrow> settled now pre a w w'"
  unfolding settled_def by blast

lemma client_fetch_cases:
  assumes "client_FetchPaid (service_client sv now pre) now url opt w = (out, w')"
  obtains (no) "quiet w w'" "\<And>r. fst out = Some r \<Longrightarrow> re_PaidAtoms r = 0"
    | (tried) a n s h a' where "w' = w\<lparr>aw_rail := n, aw_store := s, aw_net := h\<rparr>"
        "view s = (V w)\<lparr>av_attempts := av_attempts (V w) @ [a']\<rparr>" "cleared now pre w a a'" "pa_AmountAtoms a > 0"
        "\<And>r. fst out = Some r \<Longrightarrow> re_PaidAtoms r = pa_AmountAtoms a \<and> re_AttemptID r = at_ID a'" "\<And>e. snd out \<noteq> Some (GateError e)"
  using assms
proof (cases rule: client_FetchPaid_cases)
  case unpaid
  show thesis by (rule no) (use unpaid quiet_idle in \<open>auto simp: unpaid_outcome_def\<close>)
next
  case (refused gate a w1 e)
  have "service_gate sv now pre a w1 = (Inl e, w')" using refused(1,3) by (simp add: service_client_def)
  then have "quiet w1 w'" by (cases rule: gate_cases) (use quiet_store in auto)
  with quiet_idle [OF refused(2)] have "quiet w w'" by (rule quiet_trans)
  with refused(4) show thesis by (intro no) simp_all
next
  case (failed gate a w1 ch aid w2 e)
  have g: "service_gate sv now pre a w1 = (Inr aid, w2)" using failed(1,3) by (simp add: service_client_def)
  obtain s1 h1 where w1: "w1 = w\<lparr>aw_store := s1, aw_net := h1\<rparr>" "view s1 = V w" using failed(2) by (rule idle_service)
  obtain n where w': "w' = w2\<lparr>aw_rail := n\<rparr>" using failed(4) by (auto simp: service_client_def elim: on_railE)
  from g show thesis
  proof (cases rule: gate_cases)
    case (passed u i a' s)
    have "cleared now pre w a a'" unfolding cleared_def using passed(3,6,7) w1 by auto
    moreover have "pa_AmountAtoms a > 0" using failed(6,7) by (simp add: checked_challenge_def)
    ultimately show thesis using failed(5) passed(2,4) w1 w' by (intro tried [where n = n and s = s and h = h1 and a = a and a' = a']) simp_all
  qed simp
next
  case (paid gate a w1 ch aid w2 preimage fee w3 r)
  have g: "service_gate sv now pre a w1 = (Inr aid, w2)" using paid(1,3) by (simp add: service_client_def)
  obtain s1 h1 where w1: "w1 = w\<lparr>aw_store := s1, aw_net := h1\<rparr>" "view s1 = V w" using paid(2) by (rule idle_service)
  obtain n where w3: "w3 = w2\<lparr>aw_rail := n\<rparr>" using paid(4) by (auto simp: service_client_def elim: on_railE)
  obtain s3 h3 where w': "w' = w3\<lparr>aw_store := s3, aw_net := h3\<rparr>" "view s3 = V w3" using paid(5) by (rule idle_service)
  from g show thesis
  proof (cases rule: gate_cases)
    case (passed u i a' s)
    have "cleared now pre w a a'" unfolding cleared_def using passed(3,6,7) w1 by auto
    moreover have "pa_AmountAtoms a > 0" using paid(15,16) by (simp add: checked_challenge_def)
    moreover have "aid = at_ID a'" using passed(1,5) by simp
    ultimately show thesis using paid(6-9,15) passed(2,4) w1 w3 w'
      by (intro tried [where n = n and s = s3 and h = h3 and a = a and a' = a']) simp_all
  qed simp
qed

lemma FetchPaid_cases:
  assumes "FetchPaid sv now pre url opt w = ((res, err), w')"
  obtains (quiet) "quiet w w'" "\<And>r. res = Some r \<Longrightarrow> re_PaidAtoms r = 0"
    | (parked) w1 where "quiet w w1" "escalated w1 w'" "res = None"
    | (spent) a where "spent now pre a w w'" "pa_AmountAtoms a > 0" "\<And>r. res = Some r \<Longrightarrow> re_PaidAtoms r = pa_AmountAtoms a"
proof -
  obtain rz w0 where z: "notFrozen sv w = (rz, w0)" by fastforce
  obtain s0 where w0: "w0 = w\<lparr>aw_store := s0\<rparr>" "view s0 = V w" using z by (rule notFrozen_cases)
  have q0: "quiet w w0" using w0 quiet_same by simp
  show thesis
  proof (cases rz)
    case (Inl e)
    with assms z q0 show thesis by (intro quiet) (auto simp: FetchPaid_def)
  next
    case (Inr x)
    obtain out w1 where c: "client_FetchPaid (service_client sv now pre) now url opt w0 = (out, w1)" by fastforce
    obtain r0 e0 where out: "out = (r0, e0)" by fastforce
    from c show thesis
    proof (cases rule: client_fetch_cases)
      case no
      have q1: "quiet w w1" using q0 no(1) by (rule quiet_trans)
      show thesis
      proof (cases "\<exists>i d a. e0 = Some (GateError (GateNeedsApproval i d a))")
        case True
        then obtain i d a where e0: "e0 = Some (GateError (GateNeedsApproval i d a))" by blast
        obtain re w2 where e: "registry_Escalate sv now i (de_ApprovalChannel d) (de_ApprovalTTL d) (summaryFor a d)
            (ContFetch url opt (pa_AmountAtoms a)) w1 = (re, w2)" by fastforce
        have "res = None" "w' = w2" using assms z Inr c out e0 e by (auto simp: FetchPaid_def split: sum.splits)
        with q1 escalate_cases [OF e] show thesis by (intro parked [of w1]) simp_all
      next
        case False
        have "res = r0" "w' = w1"
          using assms z Inr c out False no(2) by (auto simp: FetchPaid_def split: option.splits fetch_error.splits gate_refusal.splits if_splits)
        with q1 no(2) out show thesis by (intro quiet) simp_all
      qed
    next
      case (tried a n s h a')
      have ne: "\<forall>e. e0 \<noteq> Some (GateError e)" using tried(6) out by simp
      have cl: "cleared now pre w a a'" using tried(3) w0 by (simp add: cleared_def)
      let ?v = "(V w)\<lparr>av_attempts := av_attempts (V w) @ [a']\<rparr>"
      have v: "view s = ?v" using tried(2) w0 by simp
      show thesis
      proof (cases "\<exists>r. r0 = Some r")
        case False
        have "res = None" "w' = w1" using assms z Inr c out ne False
          by (auto simp: FetchPaid_def split: option.splits fetch_error.splits gate_refusal.splits if_splits)
        with tried(1,4) w0 v cl show thesis
          by (intro spent [of a] spentI [where n = n and s = s and h = h and a' = a' and vv = ?v]) simp_all
      next
        case True
        then obtain r where r0: "r0 = Some r" by blast
        have r: "re_PaidAtoms r = pa_AmountAtoms a" "re_AttemptID r = at_ID a'" using tried(5) out r0 by simp_all
        obtain rp w2 where rec: "on_store (as_RecordPayment (sv_Store sv) (fetch_payment now url r)) w1 = (rp, w2)" by fastforce
        have f: "res = Some r" "w' = w2" using assms z Inr c out ne r0 r tried(4) rec
          by (auto simp: FetchPaid_def split: option.splits fetch_error.splits gate_refusal.splits if_splits)
        obtain s2 where "w2 = w1\<lparr>aw_store := s2\<rparr>" "view s2 = V w1 \<or> paid now (at_ID a') (pa_AmountAtoms a) (V w1) (view s2)"
          using record_payment_cases [OF rec, of "pa_AmountAtoms a" "at_ID a'" now] r by (auto simp: fetch_payment_def zero_Payment_def)
        with f tried(1,4) w0 v cl r show thesis
          by (intro spent [of a] spentI [where n = n and s = s2 and h = h and a' = a' and vv = ?v]) simp_all
      qed
    qed
  qed
qed

lemma direct_cases:
  assumes "executeOrEscalate sv now a exec w = (r, w')" "direct_amount exec = pa_AmountAtoms a"
  obtains (quiet) "quiet w w'" "\<And>x. r \<noteq> Inr x"
    | (parked) w1 where "quiet w w1" "escalated w1 w'" "\<And>x. r \<noteq> Inr x"
    | (spent) "spent now None a w w'" "\<And>x. r = Inr x \<Longrightarrow> settled now None a w w' \<and> yr_AmountAtoms x = pa_AmountAtoms a"
proof -
  obtain rz w0 where z: "notFrozen sv w = (rz, w0)" by fastforce
  obtain s0 where w0: "w0 = w\<lparr>aw_store := s0\<rparr>" "view s0 = V w" using z by (rule notFrozen_cases)
  have q0: "quiet w w0" using w0 quiet_same by simp
  show thesis
  proof (cases rz)
    case (Inl e)
    with assms z q0 show thesis by (intro quiet) (auto simp: executeOrEscalate_def)
  next
    case (Inr x)
    obtain q w1 where e: "evaluateAndRecord sv now a w0 = (q, w1)" by fastforce
    from e show thesis
    proof (cases rule: evaluate_cases)
      case (error er s as)
      have "quiet w w1" using q0 quiet_store [OF error(3)] error(2) by (auto intro: quiet_trans)
      with assms z Inr e error(1) show thesis by (intro quiet) (auto simp: executeOrEscalate_def)
    next
      case (recorded u i a' s)
      let ?d = "Evaluate (aw_policy w0) a u"
      have q1: "quiet w w1" using q0 quiet_store [OF recorded(4)] recorded(2) by (auto intro: quiet_trans)
      show thesis
      proof (cases "de_Outcome ?d")
        case Deny
        with assms z Inr e recorded(1) q1 show thesis by (intro quiet) (auto simp: executeOrEscalate_def)
      next
        case Escalate
        obtain re w2 where es: "registry_Escalate sv now i (de_ApprovalChannel ?d) (de_ApprovalTTL ?d) (summaryFor a ?d)
            (ContDirect i exec) w1 = (re, w2)" by fastforce
        have "w' = w2" "\<forall>x. r \<noteq> Inr x" using assms z Inr e recorded(1) Escalate es by (auto simp: executeOrEscalate_def split: sum.splits)
        with q1 escalate_cases [OF es] show thesis by (intro parked [of w1]) simp_all
      next
        case Allow
        have x: "exec_direct sv now i exec w1 = (r, w')" using assms z Inr e recorded(1) Allow by (auto simp: executeOrEscalate_def)
        have cl: "cleared now None w a a'" unfolding cleared_def using recorded(3,6) Allow w0 by auto
        let ?v = "(V w)\<lparr>av_attempts := av_attempts (V w) @ [a']\<rparr>"
        have v: "V w1 = ?v" using recorded(2,4) w0 by simp
        from x show thesis
        proof (cases rule: exec_direct_cases)
          case (1 n s2)
          have w': "w' = w\<lparr>aw_rail := n, aw_store := s2, aw_net := aw_net w\<rparr>" using 1(1) recorded(2) w0 by simp
          have "spent now None a w w'"
            using 1(2) v recorded(5) assms(2) by (intro spentI [OF w' cl, where vv = ?v]) simp_all
          moreover have "settled now None a w w' \<and> yr_AmountAtoms x = pa_AmountAtoms a" if "r = Inr x" for x
            using 1(3) [OF that] v recorded(5) assms(2) by (auto intro!: settledI [OF w' cl])
          ultimately show thesis by (rule spent)
        qed
      qed
    qed
  qed
qed


section \<open>The books of approvals\<close>

definition is_approved :: "('s, 'n, 'h) agent_world \<Rightarrow> string \<Rightarrow> bool" where
  "is_approved w i \<longleftrightarrow> (\<exists>ap. av_approvals (V w) i = Some ap \<and> ap_Status ap = ApprovalApproved)"

text \<open>Identifiers whose continuation has run or is about to.\<close>

definition launched :: "string list \<Rightarrow> ('s, 'n, 'h) agent_world \<Rightarrow> string list" where
  "launched past w = past @ map fst (aw_running w)"

definition sound_books :: "string list \<Rightarrow> ('s, 'n, 'h) agent_world \<Rightarrow> bool" where
  "sound_books past w \<longleftrightarrow>
     (\<forall>i c. (i, c, True) \<in> set (aw_running w) \<longrightarrow> is_approved w i) \<and> distinct (launched past w) \<and>
     (\<forall>i\<in>set (launched past w). aw_waiting w i = None) \<and>
     (\<forall>i. undrawn sv (aw_reads w) i \<longrightarrow> av_approvals (V w) i = None \<and> aw_waiting w i = None \<and> i \<notin> set (launched past w))"

lemma sound_cong:
  assumes "sound_books past w" "av_approvals (V w') = av_approvals (V w)" "aw_waiting w' = aw_waiting w" "aw_running w' = aw_running w"
    "aw_reads w' = aw_reads w"
  shows "sound_books past w'"
  using assms unfolding sound_books_def is_approved_def launched_def by simp

lemma sound_quiet: "sound_books past w \<Longrightarrow> quiet w w' \<Longrightarrow> sound_books past w'"
  unfolding quiet_def by (elim exE conjE) (rule sound_cong, simp_all)

lemma sound_spent: "sound_books past w \<Longrightarrow> spent now pre a w w' \<Longrightarrow> sound_books past w'"
  unfolding spent_def by (elim exE conjE disjE) (rule sound_cong, simp_all)+

lemma sound_escalated:
  assumes "distinct_draws sv" "sound_books past w" "escalated w w'" shows "sound_books past w'"
proof -
  let ?new = "\<lambda>j. \<exists>b. sv_Rand sv (aw_reads w) = Some b \<and> j = hex_encode b"
  have run: "aw_running w' = aw_running w" and reads: "aw_reads w' = Suc (aw_reads w)"
    and same: "\<not> ?new j \<Longrightarrow> av_approvals (V w') j = av_approvals (V w) j \<and> aw_waiting w' j = aw_waiting w j" for j
    using assms(3) unfolding escalated_def by auto
  have new: "undrawn sv (aw_reads w) j \<and> \<not> undrawn sv (aw_reads w') j" if "?new j" for j
    using that undrawn_now undrawn_fresh [OF assms(1)] reads by auto
  have l: "launched past w' = launched past w" by (simp add: launched_def run)
  have old: "\<not> ?new i" if "i \<in> set (launched past w)" for i
    using that assms(2) new unfolding sound_books_def by blast
  show ?thesis unfolding sound_books_def
  proof (intro conjI allI impI ballI)
    fix i c assume r: "(i, c, True) \<in> set (aw_running w')"
    then have "i \<in> set (launched past w)" unfolding run launched_def by force
    with old same r assms(2) show "is_approved w' i" unfolding sound_books_def is_approved_def run by metis
  next
    show "distinct (launched past w')" using assms(2) l unfolding sound_books_def by simp
  next
    fix i assume "i \<in> set (launched past w')"
    then show "aw_waiting w' i = None" using old same assms(2) l unfolding sound_books_def by metis
  next
    fix i assume u: "undrawn sv (aw_reads w') i"
    then have "\<not> ?new i" "undrawn sv (aw_reads w) i" using new undrawn_Suc reads by auto
    then show "av_approvals (V w') i = None" "aw_waiting w' i = None" "i \<notin> set (launched past w')"
      using same assms(2) l unfolding sound_books_def by metis+
  qed
qed

text \<open>The store's own changes of an approval never touch an approved one and never create one.\<close>

definition keeps_approved :: "(string \<rightharpoonup> Approval) \<Rightarrow> (string \<rightharpoonup> Approval) \<Rightarrow> bool" where
  "keeps_approved m m' \<longleftrightarrow> (\<forall>i. (m i = None \<longrightarrow> m' i = None) \<and> (\<forall>ap. m i = Some ap \<longrightarrow> ap_Status ap = ApprovalApproved \<longrightarrow> m' i = Some ap))"

lemma keeps_refl [simp]: "keeps_approved m m"
  by (simp add: keeps_approved_def)

lemma keeps_expires: "expires_only m m' \<Longrightarrow> keeps_approved m m'"
  unfolding expires_only_def keeps_approved_def by (metis ApprovalStatus.distinct(1) option.distinct(1) option.inject)

lemma keeps_won: "approval_won v i st resp at v' \<Longrightarrow> keeps_approved (av_approvals v) (av_approvals v')"
  by (auto simp: approval_won_def keeps_approved_def)

lemma sound_store:
  assumes "sound_books past w" "keeps_approved (av_approvals (V w)) (av_approvals (view s))"
  shows "sound_books past (w\<lparr>aw_store := s\<rparr>)"
  using assms unfolding sound_books_def keeps_approved_def is_approved_def launched_def by simp blast

lemma sound_start:
  assumes "sound_books past w" "ok \<longrightarrow> is_approved w i"
  shows "sound_books past (start_continuation i ok w)"
proof (cases "aw_waiting w i")
  case None
  then have "start_continuation i ok w = w\<lparr>aw_waiting := (aw_waiting w)(i := None)\<rparr>" by (simp add: start_continuation_def take_waiting_def)
  moreover have "(aw_waiting w)(i := None) = aw_waiting w" using None by (metis fun_upd_triv)
  ultimately show ?thesis using assms(1) by simp
next
  case (Some c)
  let ?w = "start_continuation i ok w"
  have w: "?w = w\<lparr>aw_waiting := (aw_waiting w)(i := None), aw_running := aw_running w @ [(i, c, ok)]\<rparr>"
    using Some by (simp add: start_continuation_def take_waiting_def)
  have "i \<notin> set (launched past w)" "\<not> undrawn sv (aw_reads w) i" using assms(1) Some unfolding sound_books_def by auto
  then show ?thesis using assms unfolding w sound_books_def launched_def is_approved_def by auto
qed

lemma start_frame [simp]: "aw_store (start_continuation i ok w) = aw_store w" "aw_rail (start_continuation i ok w) = aw_rail w"
  "aw_policy (start_continuation i ok w) = aw_policy w"
  by (simp_all add: start_continuation_def take_waiting_def split: option.splits)

lemma sound_start_all: "sound_books past w \<Longrightarrow> sound_books past (fold (\<lambda>a. start_continuation (ap_ID a) False) as w)"
  by (induction as arbitrary: w) (simp_all add: sound_start)

lemma sound_drop: "sound_books past w \<Longrightarrow> sound_books past (w\<lparr>aw_waiting := (aw_waiting w)(i := None)\<rparr>)"
  by (auto simp: sound_books_def is_approved_def launched_def)

lemma expire_now_fold:
  "fold (\<lambda>a w. case take_waiting (ap_ID a) w of (None, w) \<Rightarrow> w | (Some cont, w) \<Rightarrow> run_continuation sv now cont False w) as w =
   fold (\<lambda>a w. w\<lparr>aw_waiting := (aw_waiting w)(ap_ID a := None)\<rparr>) as w"
  by (rule fold_cong) (auto simp: take_waiting_def run_continuation_def split: option.splits)

lemma sound_drop_all: "sound_books past w \<Longrightarrow> sound_books past (fold (\<lambda>a w. w\<lparr>aw_waiting := (aw_waiting w)(ap_ID a := None)\<rparr>) as w)"
  by (induction as arbitrary: w) (simp_all add: sound_drop)

lemma sound_run:
  assumes "sound_books past w" "aw_running w = xs @ (i, c, ok) # ys"
  shows "sound_books (past @ [i]) (w\<lparr>aw_running := xs @ ys\<rparr>)"
  using assms unfolding sound_books_def launched_def is_approved_def by auto

lemma resolve_cases:
  assumes "registry_Resolve sv now i approved responder w = (rb, w')"
  obtains s where "w' = w\<lparr>aw_store := s\<rparr>" "keeps_approved (av_approvals (V w)) (av_approvals (view s))" "rb \<noteq> Inr True"
    | s where "w' = start_continuation i approved (w\<lparr>aw_store := s\<rparr>)" "rb = Inr True"
        "approval_won (V w) i (if approved then ApprovalApproved else ApprovalDenied) responder now (view s)"
proof -
  let ?st = "if approved then ApprovalApproved else ApprovalDenied"
  obtain q s where g: "as_ResolveApproval ops i ?st responder now (aw_store w) = (q, s)" by fastforce
  have k: "view s = V w \<or> approval_won (V w) i ?st responder now (view s)" using resolve_approval [OF g] by auto
  then have keep: "keeps_approved (av_approvals (V w)) (av_approvals (view s))" using keeps_won by auto
  show thesis
  proof (cases "q = Inr True")
    case True
    then have "approval_won (V w) i ?st responder now (view s)" using resolve_approval [OF g] by auto
    moreover have "w' = start_continuation i approved (w\<lparr>aw_store := s\<rparr>)" "rb = Inr True"
      using assms g True by (auto simp: registry_Resolve_def on_store_def store_ops)
    ultimately show thesis by (intro that(2))
  next
    case False
    then have "w' = w\<lparr>aw_store := s\<rparr>" "rb \<noteq> Inr True"
      using assms g by (auto simp: registry_Resolve_def on_store_def store_ops split: sum.splits if_splits)
    with keep show thesis by (intro that(1)) auto
  qed
qed

lemma sound_fetch:
  assumes "distinct_draws sv" "FetchPaid sv now pre url opt w = (rf, w')" "sound_books past w" shows "sound_books past w'"
proof -
  obtain res err where rf: "rf = (res, err)" by fastforce
  show ?thesis using assms(2) [unfolded rf]
    by (cases rule: FetchPaid_cases) (use assms(1,3) sound_quiet sound_escalated sound_spent in blast)+
qed

lemma sound_direct:
  assumes "distinct_draws sv" "executeOrEscalate sv now a exec w = (r, w')" "direct_amount exec = pa_AmountAtoms a" "sound_books past w"
  shows "sound_books past w'"
  using assms(2,3) by (cases rule: direct_cases) (use assms(1,4) sound_quiet sound_escalated sound_spent in blast)+

lemma pay_ln_cases:
  assumes "PayLNInvoice sv now invoice memo maxA w = (r, w')"
  obtains e where "r = Inl e" "w' = w" | a exec where "executeOrEscalate sv now a exec w = (r, w')" "direct_amount exec = pa_AmountAtoms a"
    "pa_AmountAtoms a > 0" "maxA > 0 \<longrightarrow> pa_AmountAtoms a \<le> maxA"
  using assms by (auto simp: PayLNInvoice_def split: option.splits if_splits)

lemma pay_dcr_cases:
  assumes "PayDCRAddress sv now address amount memo w = (r, w')"
  obtains e where "r = Inl e" "w' = w" | a exec where "executeOrEscalate sv now a exec w = (r, w')" "direct_amount exec = pa_AmountAtoms a"
    "pa_AmountAtoms a > 0"
  using assms by (auto simp: PayDCRAddress_def split: if_splits)

lemma sound_continuation:
  assumes "distinct_draws sv" "sound_books past w" shows "sound_books past (run_continuation sv now cont ok w)"
proof (cases "ok")
  case False
  then show ?thesis using assms(2) by (simp add: run_continuation_def)
next
  case True
  show ?thesis
  proof (cases cont)
    case (ContDirect i exec)
    obtain r w' where x: "exec_direct sv now i exec w = (r, w')" by fastforce
    from x have "sound_books past w'"
      by (cases rule: exec_direct_cases) (rule sound_cong [OF assms(2)], auto)
    with True ContDirect x show ?thesis by (simp add: run_continuation_def)
  next
    case (ContFetch url opt m)
    obtain r w' where x: "FetchPaid sv now (Some m) url opt w = (r, w')" by fastforce
    from sound_fetch [OF assms(1) x assms(2)] True ContFetch x show ?thesis by (simp add: run_continuation_def)
  qed
qed

lemma state_frame:
  assumes "as_SetState ops k v (aw_store w) = (ru, s)" shows "av_approvals (view s) = av_approvals (V w)"
  using set_state [OF assms] by (cases ru) auto

lemma sound_step:
  assumes d: "distinct_draws sv" and "agent_step sv e w w'" "sound_books past w" shows "sound_books (past @ past_id e) w'"
  using assms(2)
proof cases
  case (step_pay_ln now invoice memo maxA r)
  from step_pay_ln(2) show ?thesis
    by (cases rule: pay_ln_cases) (use step_pay_ln(1) assms(3) sound_direct [OF d] in auto)
next
  case (step_pay_dcr now address amount memo r)
  from step_pay_dcr(2) show ?thesis
    by (cases rule: pay_dcr_cases) (use step_pay_dcr(1) assms(3) sound_direct [OF d] in auto)
next
  case (step_fetch now url opt rf)
  with sound_fetch [OF d step_fetch(2) assms(3)] show ?thesis by simp
next
  case (step_resolve now i approved responder rb)
  from step_resolve(2) have "sound_books past w'"
  proof (cases rule: resolve_cases)
    case (1 s)
    with sound_store [OF assms(3) 1(2)] show ?thesis by simp
  next
    case (2 s)
    have s: "sound_books past (w\<lparr>aw_store := s\<rparr>)" by (rule sound_store [OF assms(3) keeps_won [OF 2(3)]])
    have "approved \<longrightarrow> is_approved (w\<lparr>aw_store := s\<rparr>) i" using 2(3) by (auto simp: approval_won_def is_approved_def)
    from sound_start [OF s this] 2(1) show ?thesis by simp
  qed
  with step_resolve(1) show ?thesis by simp
next
  case (step_expire now)
  obtain q s where g: "as_ExpireApprovals ops now (aw_store w) = (q, s)" by fastforce
  obtain m where "view s = (V w)\<lparr>av_approvals := m\<rparr>" "expires_only (av_approvals (V w)) m" using expire_approvals [OF g] by blast
  then have "sound_books past (w\<lparr>aw_store := s\<rparr>)" using sound_store [OF assms(3)] keeps_expires by simp
  with step_expire g show ?thesis
    by (cases q) (simp_all add: expiry_tick_def on_store_def store_ops sound_start_all)
next
  case (step_expire_now now)
  obtain q s where g: "as_ExpireApprovals ops now (aw_store w) = (q, s)" by fastforce
  obtain m where "view s = (V w)\<lparr>av_approvals := m\<rparr>" "expires_only (av_approvals (V w)) m" using expire_approvals [OF g] by blast
  then have "sound_books past (w\<lparr>aw_store := s\<rparr>)" using sound_store [OF assms(3)] keeps_expires by simp
  with step_expire_now g show ?thesis
    by (cases q) (simp_all add: ExpireNow_def on_store_def store_ops expire_now_fold sound_drop_all)
next
  case (step_run xs i cont ok ys now)
  from sound_continuation [OF d sound_run [OF assms(3) step_run(3)]] step_run(1,2) show ?thesis by simp
next
  case (step_freeze now who reason ru)
  from step_freeze(2) have "sound_books past w'" unfolding Freeze_def
    by (elim on_storeE) (use sound_store [OF assms(3)] state_frame in \<open>auto simp: store_ops\<close>)
  with step_freeze(1) show ?thesis by simp
next
  case (step_unfreeze ru)
  from step_unfreeze(2) have "sound_books past w'" unfolding Unfreeze_def
    by (elim on_storeE) (use sound_store [OF assms(3)] state_frame in \<open>auto simp: store_ops\<close>)
  with step_unfreeze(1) show ?thesis by simp
next
  case (step_reload p)
  with sound_cong [OF assms(3)] show ?thesis by simp
next
  case step_restart
  with assms(3) show ?thesis by (auto simp: sound_books_def launched_def)
next
  case (step_net h)
  with sound_cong [OF assms(3)] show ?thesis by simp
qed

lemma history_sound:
  assumes "agent_history sv w0 past w" "distinct_draws sv"
    and "\<And>i. undrawn sv (aw_reads w0) i \<Longrightarrow> av_approvals (V w0) i = None"
  shows "sound_books past w"
  using assms(1)
proof induction
  case history_start
  then show ?case using assms(3) by (simp add: sound_books_def launched_def)
next
  case (history_step past w e w')
  show ?case by (rule sound_step [OF assms(2) history_step.hyps(2) history_step.IH])
qed

end

end
