(* ===== verification/AgentProps.thy ===== *)
theory AgentProps
  imports AgentSafety
begin

text \<open>
  Properties of the agent: what has to have happened before money moves, the single use of an
  approval, the kill switch, the budgets and the ledger of payments, over the SQLite store with
  arbitrary driver faults unless a property says otherwise.
\<close>

interpretation mem_agent: agent_service AgentMemory mem_agent_view "sv\<lparr>sv_Store := AgentMemory\<rparr>" for sv
  by unfold_locales simp

definition with_sqlite :: "(agent_db conn, 'n, 'h) Service \<Rightarrow> (agent_db conn, 'n, 'h) Service" where
  "with_sqlite sv = sv\<lparr>sv_Store := AgentSQLite\<rparr>"

interpretation sql_agent: agent_service AgentSQLite sql_agent_view "with_sqlite sv" for sv
  by unfold_locales (simp add: with_sqlite_def)

abbreviation ledger :: "(agent_db conn, 'n, 'h) agent_world \<Rightarrow> agent_view" where
  "ledger w \<equiv> sql_agent_view (aw_store w)"

fun spending_event :: "'h agent_event \<Rightarrow> time option" where
  "spending_event (EvPayLN now invoice memo maxA) = Some now"
| "spending_event (EvPayDCR now address amount memo) = Some now"
| "spending_event (EvFetch now url opt) = Some now"
| "spending_event e = None"

text \<open>No identifier still to be drawn names an approval of the ledger the process starts on.\<close>

definition fresh_ledger :: "(agent_db conn, 'n, 'h) Service \<Rightarrow> (agent_db conn, 'n, 'h) agent_world \<Rightarrow> bool" where
  "fresh_ledger sv w \<longleftrightarrow> (\<forall>i. undrawn sv (aw_reads w) i \<longrightarrow> av_approvals (ledger w) i = None)"

lemma sql_history:
  assumes "agent_history (with_sqlite sv) w0 past w" "distinct_draws (with_sqlite sv)" "fresh_ledger (with_sqlite sv) w0"
  shows "sql_agent.sound_books sv past w"
  using sql_agent.history_sound [OF assms(1,2)] assms(3) unfolding fresh_ledger_def by blast

lemma fold_rail: "(\<And>a w. aw_rail (f a w) = aw_rail w) \<Longrightarrow> aw_rail (fold f as w) = aw_rail w"
  by (induction as arbitrary: w) simp_all

lemma expiry_rail [simp]: "aw_rail (expiry_tick sv now w) = aw_rail w" "aw_rail (ExpireNow sv now w) = aw_rail w"
  by (auto simp: expiry_tick_def ExpireNow_def on_store_def take_waiting_def run_continuation_def start_continuation_def
      split: prod.splits sum.splits option.splits intro!: fold_rail trans [OF fold_rail])

lemma allowed_row: "attempt_stored (attempt_of now a dec) a' \<Longrightarrow> at_Decision a' = store_decision (de_Outcome dec) \<and> at_AmountAtoms a' = pa_AmountAtoms a \<and>
    at_Tool a' = pa_Tool a \<and> at_Destination a' = pa_Dest a"
  by (cases a') (simp add: attempt_stored_def attempt_of_def)

lemma spent_allowed:
  assumes "sql_agent.spent now None a w w'"
  shows "\<exists>u a'. ledger_usage now (av_payments (ledger w)) u \<and> de_Outcome (Evaluate (aw_policy w) a u) = Allow \<and>
    a' \<in> set (av_attempts (ledger w')) \<and> at_Decision a' = DecisionAllow \<and> at_AmountAtoms a' = pa_AmountAtoms a"
  using assms allowed_row
  by (fastforce simp: sql_agent.spent_def sql_agent.cleared_def paid_def store_decision_def)

section \<open>A store that does not fail\<close>

text \<open>\<open>ok\<close> states that no operation of the store fails any more.\<close>

locale reliable_agent = agent_service ops view sv
  for ops :: "'s AgentStore_ops" and view :: "'s \<Rightarrow> agent_view" and sv :: "('s, 'n, 'h) Service" +
  fixes ok :: "'s \<Rightarrow> bool"
  assumes ok_payment: "ok s \<Longrightarrow> as_RecordPayment ops p s = (rp, s') \<Longrightarrow> \<exists>i. rp = Inr i \<and> ok s'"
    and ok_attempt: "ok s \<Longrightarrow> ok (snd (as_RecordAttempt ops a s))"
    and ok_usage: "ok s \<Longrightarrow> ok (snd (as_Usage ops now s))"
    and ok_state: "ok s \<Longrightarrow> ok (snd (as_GetState ops k s))"
    and ok_tokens: "ok s \<Longrightarrow> ok (snd (as_GetToken ops h s))" "ok s \<Longrightarrow> ok (snd (as_PutToken ops t s))"
      "ok s \<Longrightarrow> ok (snd (as_TouchToken ops h now s))" "ok s \<Longrightarrow> ok (snd (as_DeleteToken ops h s))"
begin

lemma ok_on_store: "on_store f w = (r, w') \<Longrightarrow> ok (snd (f (aw_store w))) \<Longrightarrow> ok (aw_store w')"
  by (erule on_storeE) simp

lemma ok_notFrozen: "notFrozen sv w = (r, w') \<Longrightarrow> ok (aw_store w) \<Longrightarrow> ok (aw_store w')"
  using ok_state [of "aw_store w" freezeStateKey]
  by (auto simp: notFrozen_def FreezeStatus_def on_store_def store_ops split: prod.splits sum.splits)

lemma ok_evaluate:
  assumes "evaluateAndRecord sv now a w = (r, w')" "ok (aw_store w)" shows "ok (aw_store w')"
proof -
  obtain q s1 where u: "as_Usage ops now (aw_store w) = (q, s1)" by fastforce
  have s1: "ok s1" using ok_usage [OF assms(2), of now] u by simp
  show ?thesis
  proof (cases q)
    case (Inl e)
    with assms u s1 show ?thesis by (auto simp: evaluateAndRecord_def service_usage_def on_store_def store_ops)
  next
    case (Inr us)
    let ?a = "attempt_of now a (Evaluate (aw_policy w) a
      \<lparr>us_DayAtoms = su_DayAtoms us, us_WeekAtoms = su_WeekAtoms us, us_HourCount = su_HourCount us\<rparr>)"
    have "w' = w\<lparr>aw_store := snd (as_RecordAttempt ops ?a s1)\<rparr>"
      using assms(1) u Inr
      by (auto simp: evaluateAndRecord_def service_usage_def service_record_def on_store_def store_ops Let_def split: prod.splits sum.splits)
    with ok_attempt [OF s1] show ?thesis by simp
  qed
qed

lemma ok_gate: "service_gate sv now pre a w = (r, w') \<Longrightarrow> ok (aw_store w) \<Longrightarrow> ok (aw_store w')"
  using ok_evaluate [of now a w]
  by (auto simp: service_gate_def split: prod.splits sum.splits Outcome.splits option.splits if_splits)

lemma ok_idle: "idle (service_client sv now pre) w w' \<Longrightarrow> ok (aw_store w) \<Longrightarrow> ok (aw_store w')"
proof (erule idle_inv)
  fix v v' assume s: "idle_step (service_client sv now pre) v v'" and k: "ok (aw_store v)"
  from s show "ok (aw_store v')"
  proof cases
    case (idle_get h r)
    then show ?thesis using ok_tokens(1) [OF k, of h] by (auto simp: service_client_def store_ops on_store_def split: prod.splits)
  next
    case (idle_put t r)
    then show ?thesis using ok_tokens(2) [OF k, of t] by (auto simp: service_client_def store_ops on_store_def split: prod.splits)
  next
    case (idle_touch h at r)
    then show ?thesis using ok_tokens(3) [OF k, of h at] by (auto simp: service_client_def store_ops on_store_def split: prod.splits)
  next
    case (idle_delete h r)
    then show ?thesis using ok_tokens(4) [OF k, of h] by (auto simp: service_client_def store_ops on_store_def split: prod.splits)
  next
    case (idle_http q r)
    then show ?thesis using k by (auto simp: service_client_def on_net_def split: prod.splits)
  qed
qed

text \<open>The payment of a fetch is on the ledger, whatever the merchant answered afterwards.\<close>

lemma fetch_recorded:
  assumes "FetchPaid sv now pre url opt w = ((Some r, err), w')" "re_PaidAtoms r > 0" "ok (aw_store w)"
  shows "\<exists>a a' p. pa_AmountAtoms a = re_PaidAtoms r \<and> cleared now pre w a a' \<and>
    av_attempts (V w') = av_attempts (V w) @ [a'] \<and> av_payments (V w') = av_payments (V w) @ [p] \<and>
    py_AmountAtoms p = re_PaidAtoms r \<and> py_AttemptID p = at_ID a' \<and> py_Preimage p = re_Preimage r \<and> py_Invoice p = re_Invoice r \<and>
    ok (aw_store w')"
proof -
  obtain rz w0 where z: "notFrozen sv w = (rz, w0)" by fastforce
  obtain s0 where w0: "w0 = w\<lparr>aw_store := s0\<rparr>" "view s0 = V w" using z by (rule notFrozen_cases)
  obtain x where rz: "rz = Inr x" using assms(1) z by (cases rz) (auto simp: FetchPaid_def)
  obtain out w1 where c: "client_FetchPaid (service_client sv now pre) now url opt w0 = (out, w1)" by fastforce
  have ok1: "ok (aw_store w1)"
    using c
  proof (cases rule: client_FetchPaid_cases)
    case unpaid
    then show ?thesis using ok_idle ok_notFrozen [OF z assms(3)] by blast
  next
    case (refused gate a v e)
    then show ?thesis using ok_idle [OF refused(2) ok_notFrozen [OF z assms(3)]] ok_gate by (auto simp: service_client_def)
  next
    case (failed gate a v ch aid v2 e)
    have "ok (aw_store v2)" using ok_idle [OF failed(2) ok_notFrozen [OF z assms(3)]] ok_gate failed(1,3) by (auto simp: service_client_def)
    then show ?thesis using failed(4) by (auto simp: service_client_def elim: on_railE)
  next
    case (paid gate a v ch aid v2 preimage fee v3 r)
    have "ok (aw_store v2)" using ok_idle [OF paid(2) ok_notFrozen [OF z assms(3)]] ok_gate paid(1,3) by (auto simp: service_client_def)
    then have "ok (aw_store v3)" using paid(4) by (auto simp: service_client_def elim: on_railE)
    then show ?thesis using ok_idle paid(5) by blast
  qed
  obtain r0 e0 where out: "out = (r0, e0)" by fastforce
  have ne: "\<not> (\<exists>i d a. e0 = Some (GateError (GateNeedsApproval i d a)))"
    using assms(1) z rz c out by (auto simp: FetchPaid_def split: sum.splits prod.splits)
  have r0: "r0 = Some r" and w': "w' = snd (on_store (as_RecordPayment (sv_Store sv) (fetch_payment now url r)) w1)"
    using assms(1,2) z rz c out ne by (auto simp: FetchPaid_def split: option.splits fetch_error.splits gate_refusal.splits if_splits)
  from c show ?thesis
  proof (cases rule: client_fetch_cases)
    case no
    with out r0 assms(2) show ?thesis by simp
  next
    case (tried a n s h a')
    have am: "re_PaidAtoms r = pa_AmountAtoms a" "re_AttemptID r = at_ID a'" using tried(5) out r0 by simp_all
    have cl: "cleared now pre w a a'" using tried(3) w0 by (simp add: cleared_def)
    obtain rp s2 where rec: "as_RecordPayment ops (fetch_payment now url r) (aw_store w1) = (rp, s2)" by fastforce
    obtain i where rp: "rp = Inr i" "ok s2" using ok_payment [OF ok1 rec] by blast
    obtain p where p: "view s2 = (V w1)\<lparr>av_payments := av_payments (V w1) @ [p]\<rparr>" "payment_stored (fetch_payment now url r) p"
      using record_payment [OF rec] rp by blast
    have pf: "py_AmountAtoms p = re_PaidAtoms r" "py_AttemptID p = at_ID a'" "py_Preimage p = re_Preimage r" "py_Invoice p = re_Invoice r"
      using p(2) am by (cases p; simp add: payment_stored_def fetch_payment_def zero_Payment_def)+
    have "w' = w1\<lparr>aw_store := s2\<rparr>" using w' rec by (simp add: on_store_def store_ops)
    then show ?thesis using am(1) cl p(1) pf rp(2) tried(1,2) w0 by (intro exI [of _ a] exI [of _ a'] exI [of _ p]) simp
  qed
qed

end

interpretation mem_reliable: reliable_agent AgentMemory mem_agent_view "sv\<lparr>sv_Store := AgentMemory\<rparr>" "\<lambda>s. True" for sv
  by unfold_locales (simp_all add: AgentMemory_def AMem_RecordPayment_def Let_def)

definition never_fails :: "'a agent_sql \<Rightarrow> bool" where
  "never_fails m \<longleftrightarrow> (\<forall>c. cn_faults c = [] \<longrightarrow> cn_faults (snd (m c)) = [])"

lemma never_fails_basic: "never_fails (driver e)" "never_fails (ret x)" "never_fails (throw e)" "never_fails (stmt e f)" "never_fails (query e g)"
  by (auto simp: never_fails_def ret_def throw_def stmt_ok query_ok split: prod.splits)

lemma never_fails_then: "never_fails m \<Longrightarrow> (\<And>x. never_fails (k x)) \<Longrightarrow> never_fails (andThen m k)"
  unfolding never_fails_def andThen_def by (auto split: prod.splits sum.splits)

lemma never_fails_row: "never_fails (agent_row x)"
  by (cases x) (simp_all add: agent_row_def never_fails_basic)

lemma never_fails_checked: "never_fails (checked f)"
  by (auto simp: never_fails_def checked_def andThen_def split: option.splits prod.splits)

lemmas never_fails_intros = never_fails_basic never_fails_then never_fails_row never_fails_checked

lemma never_fails_ops: "never_fails (ASq_RecordAttempt a)" "never_fails (ASq_RecordPayment p)" "never_fails (ASq_Usage now)"
  "never_fails (ASq_GetState k)" "never_fails (ASq_GetToken h)" "never_fails (ASq_PutToken t)" "never_fails (ASq_TouchToken h now)"
  "never_fails (ASq_DeleteToken h)"
  by (auto simp: ASq_RecordAttempt_def ASq_RecordPayment_def ASq_Usage_def ASq_GetState_def ASq_GetToken_def ASq_PutToken_def
      ASq_TouchToken_def ASq_DeleteToken_def result_of_def intro!: never_fails_intros split: option.splits)

interpretation sql_reliable: reliable_agent AgentSQLite sql_agent_view "with_sqlite sv" "\<lambda>c. cn_faults c = []" for sv
proof unfold_locales
  fix s p rp s' assume "cn_faults s = []" "as_RecordPayment AgentSQLite p s = (rp, s')"
  then show "\<exists>i. rp = Inr i \<and> cn_faults s' = []"
    by (auto simp: AgentSQLite_def ASq_RecordPayment_def result_of_def checked_def andThen_def ret_def Let_def)
qed (use never_fails_ops in \<open>auto simp: AgentSQLite_def never_fails_def\<close>)

section \<open>Budgets\<close>

lemma whole_second_day: "DayStart now \<le> whole_second now" "WeekStart now \<le> whole_second now"
proof -
  have le: "from_unix (Unix t) \<le> from_unix (Unix now)" if "t \<le> now" for t
    using that by (simp add: from_unix_def Unix_def time_units zdiv_mono1)
  have d: "DayStart now \<le> now" by (simp add: DayStart_def time_units)
  have "Weekday (DayStart now) \<ge> 0" by (simp add: Weekday_def)
  then have "WeekStart now \<le> DayStart now" by (simp add: WeekStart_def Let_def time_units)
  with d have w: "WeekStart now \<le> now" by simp
  show "DayStart now \<le> whole_second now" "WeekStart now \<le> whole_second now"
    using le [OF d] le [OF w] by (simp_all add: whole_second_def Unix_day Unix_week)
qed

lemma spent_since_paid:
  assumes "payment_stored q q'" "t \<le> py_CreatedAt q" "t \<le> whole_second (py_CreatedAt q)"
  shows "spent_since t (ps @ [q']) = spent_since t ps + py_AmountAtoms q"
proof -
  have "py_AmountAtoms q' = py_AmountAtoms q" "t \<le> py_CreatedAt q'"
    using assms by (cases q; cases q'; auto simp: payment_stored_def stored_time_def)+
  then show ?thesis by (simp add: spent_since_def)
qed

text \<open>An allowed payment of the amount, added to the ledger, leaves every total within the policy.\<close>

lemma allowed_within:
  assumes u: "ledger_usage now ps u" and e: "de_Outcome (Evaluate pol a u) = Allow"
    and d: "in_int64 (spent_since (DayStart now) ps)" "in_int64 (spent_since (DayStart now) ps + pa_AmountAtoms a)"
    and w: "in_int64 (spent_since (WeekStart now) ps)" "in_int64 (spent_since (WeekStart now) ps + pa_AmountAtoms a)"
  shows "(po_DailyBudgetAtoms pol > 0 \<longrightarrow> spent_since (DayStart now) ps + pa_AmountAtoms a \<le> po_DailyBudgetAtoms pol) \<and>
    (po_WeeklyBudgetAtoms pol > 0 \<longrightarrow> spent_since (WeekStart now) ps + pa_AmountAtoms a \<le> po_WeeklyBudgetAtoms pol) \<and>
    (po_MaxPerPaymentAtoms pol > 0 \<longrightarrow> pa_AmountAtoms a \<le> po_MaxPerPaymentAtoms pol) \<and>
    (po_ThresholdAtoms pol > 0 \<longrightarrow> pa_AmountAtoms a < po_ThresholdAtoms pol)"
proof -
  have us: "us_DayAtoms u = spent_since (DayStart now) ps" "us_WeekAtoms u = spent_since (WeekStart now) ps"
    using u d(1) w(1) by (simp_all add: ledger_usage_def wrap64_id)
  have v: "list_all id (rule_verdicts pol a u)" "\<not> (po_ThresholdAtoms pol > 0 \<and> pa_AmountAtoms a \<ge> po_ThresholdAtoms pol)"
    using e by (auto simp: Evaluate_outcome split: if_splits)
  then have "permitted pol a u" using verdicts_permitted [of u a pol] us d(2) w(2) by simp
  with v(2) us show ?thesis by (auto simp: permitted_def within_limits_def)
qed

lemma settled_within:
  assumes "sql_agent.settled now None a w w'"
    and "in_int64 (spent_since (DayStart now) (av_payments (ledger w)))" "in_int64 (spent_since (DayStart now) (av_payments (ledger w)) + pa_AmountAtoms a)"
    and "in_int64 (spent_since (WeekStart now) (av_payments (ledger w)))" "in_int64 (spent_since (WeekStart now) (av_payments (ledger w)) + pa_AmountAtoms a)"
  shows "(po_DailyBudgetAtoms (aw_policy w) > 0 \<longrightarrow> spent_since (DayStart now) (av_payments (ledger w')) \<le> po_DailyBudgetAtoms (aw_policy w)) \<and>
    (po_WeeklyBudgetAtoms (aw_policy w) > 0 \<longrightarrow> spent_since (WeekStart now) (av_payments (ledger w')) \<le> po_WeeklyBudgetAtoms (aw_policy w)) \<and>
    (po_MaxPerPaymentAtoms (aw_policy w) > 0 \<longrightarrow> pa_AmountAtoms a \<le> po_MaxPerPaymentAtoms (aw_policy w)) \<and>
    (po_ThresholdAtoms (aw_policy w) > 0 \<longrightarrow> pa_AmountAtoms a < po_ThresholdAtoms (aw_policy w)) \<and>
    spent_since (DayStart now) (av_payments (ledger w')) = spent_since (DayStart now) (av_payments (ledger w)) + pa_AmountAtoms a"
proof -
  let ?ps = "av_payments (ledger w)"
  obtain a' q q' where c: "sql_agent.cleared now None w a a'" and q: "payment_stored q q'" "py_AmountAtoms q = pa_AmountAtoms a"
    "py_CreatedAt q = now" "av_payments (ledger w') = ?ps @ [q']"
    using assms(1) by (auto simp: sql_agent.settled_def paid_def)
  obtain u where u: "ledger_usage now ?ps u" "de_Outcome (Evaluate (aw_policy w) a u) = Allow"
    using c by (auto simp: sql_agent.cleared_def)
  have s: "spent_since (DayStart now) (av_payments (ledger w')) = spent_since (DayStart now) ?ps + pa_AmountAtoms a"
    "spent_since (WeekStart now) (av_payments (ledger w')) = spent_since (WeekStart now) ?ps + pa_AmountAtoms a"
    using spent_since_paid [OF q(1)] whole_second_day [of now] q(2-4) from_unix_Unix_le [of now]
    by (simp_all add: whole_second_def)
  show ?thesis using allowed_within [OF u assms(2-5)] s by simp
qed

end
