(* ===== verification/AgentClaims.thy ===== *)
theory AgentClaims
  imports AgentProps
begin

text \<open>
  The theorems about the agent, with a small concrete agent on which their hypotheses are met: a
  node that pays every invoice and counts, identifiers that are 256 different draws of eight bytes,
  the web channel, and a policy that allows small payments and escalates large ones.
\<close>

section \<open>A concrete agent\<close>

definition sample_agent_policy :: Policy where
  "sample_agent_policy = \<lparr>po_Mode = ModeDefaultAllow, po_MaxPerPaymentAtoms = 1000, po_DailyBudgetAtoms = 1500, po_WeeklyBudgetAtoms = 0,
     po_MaxPaymentsPerHour = 0, po_ThresholdAtoms = 500, po_ApprovalTTL = 15 * minute, po_ApprovalChannel = ''web'',
     po_AllowDomains = [], po_DenyDomains = [], po_AllowLNNodes = [], po_AllowDCRAddresses = [], po_MemoRequired = False\<rparr>"

text \<open>The invoice \<open>s\<close> asks for 1000 milli-atoms for each of its characters.\<close>

definition sample_zdecode :: zpay32_decoder where
  "sample_zdecode s net = Some \<lparr>iv_PaymentHash = Some s, iv_Destination = Some ''n'', iv_MilliAt = Some (1000 * 10 * int (length s)),
     iv_Timestamp = 0, iv_Expiry = hour, iv_Description = None\<rparr>"

definition sample_ln :: "int LN_ops" where
  "sample_ln = \<lparr>ln_Pay = \<lambda>invoice fee timeout n. (Inr (''00'', 1), n + 1), ln_SpendableAtoms = \<lambda>n. (Inr 0, n),
     ln_Info = \<lambda>n. (Inr (''n'', True), n), ln_CreateInvoice = \<lambda>amount memo expiry n. (Inr (''i'', ''h''), n)\<rparr>"

definition sample_agent :: "'s AgentStore_ops \<Rightarrow> ('s, int, unit) Service" where
  "sample_agent store = \<lparr>sv_Store = store, sv_LN = sample_ln, sv_Onchain = None, sv_Network = Simnet, sv_Decode = sample_zdecode,
     sv_HTTP = \<lambda>q h. (Inl ''no route'', h), sv_Approvers = [WebApprover],
     sv_Rand = \<lambda>k. if k < 256 then Some (replicate 7 (CHR 0x00) @ [char_of k]) else None\<rparr>"

definition sample_start :: "'s \<Rightarrow> ('s, int, unit) agent_world" where
  "sample_start store = \<lparr>aw_store = store, aw_rail = 0, aw_net = (), aw_policy = sample_agent_policy, aw_waiting = Map.empty,
     aw_running = [], aw_reads = 0\<rparr>"

definition sample_db :: "bool list \<Rightarrow> agent_db conn" where
  "sample_db faults = \<lparr>cn_db = OpenAgentSQLite, cn_faults = faults\<rparr>"

lemma sample_with [simp]: "with_sqlite (sample_agent AgentSQLite) = sample_agent AgentSQLite"
  by (simp add: with_sqlite_def sample_agent_def)

lemma sample_draws: "distinct_draws (sample_agent st)"
proof -
  have "k = k'" if "char_of k = (char_of k' :: char)" "k < 256" "k' < 256" for k k' :: nat
    using that char_of_eq_iff [of k "char_of k'"] by (simp add: take_bit_eq_mod)
  then show ?thesis by (auto simp: distinct_draws_def sample_agent_def split: if_splits)
qed

lemma sample_fresh: "fresh_ledger (sample_agent AgentSQLite) (sample_start (sample_db fs))"
  by (simp add: fresh_ledger_def sample_start_def sample_db_def sql_agent_view_def OpenAgentSQLite_def)

text \<open>A payment of 20 atoms, and one of 600 that needs the owner.\<close>

abbreviation sample_svc :: "(agent_db conn, int, unit) Service" where "sample_svc \<equiv> sample_agent AgentSQLite"
abbreviation sample_w0 :: "(agent_db conn, int, unit) agent_world" where "sample_w0 \<equiv> sample_start (sample_db [])"

lemma sample_agent_simps [simp]:
  "sv_Store (sample_agent st) = st" "sv_LN (sample_agent st) = sample_ln" "sv_Onchain (sample_agent st) = None"
  "sv_Network (sample_agent st) = Simnet" "sv_Decode (sample_agent st) = sample_zdecode" "sv_Approvers (sample_agent st) = [WebApprover]"
  "sv_Rand (sample_agent st) 0 = Some (replicate 8 (CHR 0x00))"
  by (simp_all add: sample_agent_def char_of_def numeral_eq_Suc)

lemmas service_defs = PayLNInvoice_def executeOrEscalate_def notFrozen_def FreezeStatus_def on_store_def on_rail_def evaluateAndRecord_def
  service_usage_def service_record_def exec_direct_def doLNPay_def

lemma attempt_trace [simp]: "at_RuleTrace (attempt_of now a d) \<noteq> None"
  by (simp add: attempt_of_def)

lemma unfrozen_zero [simp]: "\<not> fz_Frozen zero_FreezeState"
  by (simp add: zero_FreezeState_def)

lemma empty_usage: "usage_query now [] = Some \<lparr>su_DayAtoms = 0, su_WeekAtoms = 0, su_HourCount = 0\<rparr>"
  by (simp add: usage_query_def sql_sum_def Let_def wrap64_def)

lemma sample_outcome:
  "pa_DestKind a = DestLNNode \<Longrightarrow> pa_AmountAtoms a \<le> 1000 \<Longrightarrow> 0 < pa_AmountAtoms a \<Longrightarrow> 
   de_Outcome (Evaluate sample_agent_policy a \<lparr>us_DayAtoms = 0, us_WeekAtoms = 0, us_HourCount = 0\<rparr>) =
   (if pa_AmountAtoms a \<ge> 500 then Escalate else Allow)"
  by (simp add: Evaluate_outcome rule_verdicts_def sample_agent_policy_def destination_allowed_def ModeDefaultAllow_def ModeDefaultDeny_def wrap64_id int64_defs)

lemmas sample_run = service_defs ln_DecodeInvoice_def sample_zdecode_def sample_start_def sample_db_def AgentSQLite_def sql_run
  OpenAgentSQLite_def empty_usage sample_outcome sample_ln_def wrap64_id int64_defs

lemma sample_small:
  "aw_rail (snd (PayLNInvoice sample_svc 0 ''ln'' ''tea'' 0 sample_w0)) = 1"
  by (simp add: sample_run Let_def)


text \<open>A payment of 600 atoms, which waits for the owner, its approval, and its execution.\<close>

definition big_invoice :: string where "big_invoice = replicate 60 (CHR ''i'')"
definition big_id :: string where "big_id = hex_encode (replicate 8 (CHR 0x00))"
definition sample_w1 :: "(agent_db conn, int, unit) agent_world" where
  "sample_w1 = snd (PayLNInvoice sample_svc 0 big_invoice ''tea'' 0 sample_w0)"
definition sample_w2 :: "(agent_db conn, int, unit) agent_world" where
  "sample_w2 = snd (registry_Resolve sample_svc minute big_id True ''owner'' sample_w1)"

lemma sample_w1:
  "\<exists>db dec. aw_store sample_w1 = \<lparr>cn_db = db, cn_faults = []\<rparr> \<and> aw_rail sample_w1 = 0 \<and> aw_running sample_w1 = [] \<and>
     aw_waiting sample_w1 = [big_id \<mapsto> ContDirect 1 (PayLN big_invoice dec)] \<and> ad_payments db = [] \<and> li_AmountAtoms dec = 600 \<and> ad_state db = Map.empty \<and>
     (\<exists>ap. ad_approvals db = [(big_id, ap)] \<and> ap_Status ap = ApprovalPending \<and> ap_ExpiresAt ap = 15 * minute)"
proof -
  have ch: "de_ApprovalChannel (Evaluate sample_agent_policy a u) = ''web''" "de_ApprovalTTL (Evaluate sample_agent_policy a u) = 15 * minute"
    if "de_Outcome (Evaluate sample_agent_policy a u) = Escalate" for a u
    using Evaluate_escalates [OF that] by (simp_all add: sample_agent_policy_def)
  show ?thesis
    by (simp add: sample_w1_def sample_run big_invoice_def big_id_def registry_Escalate_def ch Let_def WebApprover_def on_store_def
        approval_row_def whole_second_def from_unix_def Unix_def time_units) (intro exI conjI, rule refl, simp)
qed

text \<open>C2: money moves only with authority.  In any history of the agent that starts with empty queues on a
  ledger whose approvals the random identifiers to come do not name, whatever fails in the SQLite store,
  a step that changes the state of the payment rails is either a payment request or a paid fetch whose
  attempt the policy in force allowed on the usage of the ledger at that moment, recorded as allowed,
  or the run of a continuation whose approval is stored as approved.\<close>
theorem money_needs_authority:
  assumes "agent_history (with_sqlite sv) w0 past w" and "distinct_draws (with_sqlite sv)" and "fresh_ledger (with_sqlite sv) w0"
    and "agent_step (with_sqlite sv) e w w'" and "aw_rail w' \<noteq> aw_rail w"
  shows "(\<exists>now a u a'. spending_event e = Some now \<and> ledger_usage now (av_payments (ledger w)) u \<and>
       de_Outcome (Evaluate (aw_policy w) a u) = Allow \<and> a' \<in> set (av_attempts (ledger w')) \<and> at_Decision a' = DecisionAllow \<and>
       at_AmountAtoms a' = pa_AmountAtoms a) \<or>
    (\<exists>now i cont ap. e = EvRun now i cont True \<and> av_approvals (ledger w) i = Some ap \<and> ap_Status ap = ApprovalApproved)"
proof -
  note sound = sql_history [OF assms(1-3)]
  have direct: "\<exists>a. sql_agent.spent now None a w w'"
    if "executeOrEscalate (with_sqlite sv) now a exec w = (r, w')" "direct_amount exec = pa_AmountAtoms a" for now a exec r
    using that by (cases rule: sql_agent.direct_cases) (use assms(5) in \<open>auto simp: sql_agent.quiet_def sql_agent.escalated_def\<close>)
  from assms(4) show ?thesis
  proof cases
    case (step_pay_ln now invoice memo maxA r)
    from step_pay_ln(2) obtain a where "sql_agent.spent now None a w w'"
      by (cases rule: sql_agent.pay_ln_cases) (use direct assms(5) in blast)+
    from spent_allowed [OF this] step_pay_ln(1) show ?thesis by (auto intro!: exI [of _ now])
  next
    case (step_pay_dcr now address amount memo r)
    from step_pay_dcr(2) obtain a where "sql_agent.spent now None a w w'"
      by (cases rule: sql_agent.pay_dcr_cases) (use direct assms(5) in blast)+
    from spent_allowed [OF this] step_pay_dcr(1) show ?thesis by (auto intro!: exI [of _ now])
  next
    case (step_fetch now url opt rf)
    obtain res err where "rf = (res, err)" by fastforce
    with step_fetch(2) have "FetchPaid (with_sqlite sv) now None url opt w = ((res, err), w')" by simp
    then obtain a where "sql_agent.spent now None a w w'"
      by (cases rule: sql_agent.FetchPaid_cases) (use assms(5) in \<open>auto simp: sql_agent.quiet_def sql_agent.escalated_def\<close>)
    from spent_allowed [OF this] step_fetch(1) show ?thesis by (auto intro!: exI [of _ now])
  next
    case (step_resolve now i approved responder rb)
    from step_resolve(2) have "aw_rail w' = aw_rail w" by (cases rule: sql_agent.resolve_cases) simp_all
    with assms(5) show ?thesis by simp
  next
    case (step_run xs i cont ok ys now)
    have ok: "ok" using assms(5) step_run(2) by (cases ok) (auto simp: run_continuation_def)
    have "(i, cont, True) \<in> set (aw_running w)" using step_run(3) ok by simp
    with sound obtain ap where "av_approvals (ledger w) i = Some ap" "ap_Status ap = ApprovalApproved"
      unfolding sql_agent.sound_books_def sql_agent.is_approved_def by blast
    with step_run(1) ok show ?thesis by blast
  qed (use assms(5) expiry_rail in \<open>auto simp: Freeze_def Unfreeze_def elim!: on_storeE\<close>)
qed

lemma sample_history: "agent_history (with_sqlite sample_svc) sample_w0 [] sample_w0"
  by (rule history_start) (simp_all add: sample_start_def)

lemma sample_hyps: "distinct_draws (with_sqlite sample_svc)" "fresh_ledger (with_sqlite sample_svc) sample_w0"
  using sample_draws sample_fresh by simp_all

theorem money_needs_authority_witness:
  "\<exists>w'. agent_step sample_svc (EvPayLN 0 ''ln'' ''tea'' 0) sample_w0 w' \<and> aw_rail w' \<noteq> aw_rail sample_w0 \<and>
     (\<exists>a'\<in>set (av_attempts (ledger w')). at_Decision a' = DecisionAllow)"
proof -
  obtain r w' where p: "PayLNInvoice sample_svc 0 ''ln'' ''tea'' 0 sample_w0 = (r, w')" by fastforce
  have s: "agent_step (with_sqlite sample_svc) (EvPayLN 0 ''ln'' ''tea'' 0) sample_w0 w'" using step_pay_ln [OF p] by simp
  have n: "aw_rail w' \<noteq> aw_rail sample_w0" using sample_small p by (simp add: sample_start_def)
  from money_needs_authority [OF sample_history sample_hyps s n] s n show ?thesis by auto
qed

text \<open>C6: an approval is used once.  In any such history no continuation of an approval runs twice, and none is both run and
  still queued: the identifiers of the continuations that ran, in order, followed by those queued, are distinct.\<close>
theorem approval_runs_once:
  assumes "agent_history (with_sqlite sv) w0 past w" and "distinct_draws (with_sqlite sv)" and "fresh_ledger (with_sqlite sv) w0"
  shows "distinct (past @ map fst (aw_running w))"
  using sql_history [OF assms] unfolding sql_agent.sound_books_def sql_agent.launched_def by blast

lemma sample_w2:
  "\<exists>db dec. aw_running sample_w2 = [(big_id, ContDirect 1 (PayLN big_invoice dec), True)] \<and> aw_rail sample_w2 = 0 \<and>
     aw_store sample_w2 = \<lparr>cn_db = db, cn_faults = []\<rparr> \<and> ad_payments db = [] \<and> li_AmountAtoms dec = 600 \<and> ad_state db = Map.empty \<and>
     agent_step sample_svc (EvResolve minute big_id True ''owner'') sample_w1 sample_w2"
proof -
  obtain db dec ap where w1: "aw_store sample_w1 = \<lparr>cn_db = db, cn_faults = []\<rparr>" "aw_rail sample_w1 = 0" "aw_running sample_w1 = []"
    "aw_waiting sample_w1 = [big_id \<mapsto> ContDirect 1 (PayLN big_invoice dec)]" "ad_payments db = []" "li_AmountAtoms dec = 600"
    "ad_state db = Map.empty" "ad_approvals db = [(big_id, ap)]" "ap_Status ap = ApprovalPending" "ap_ExpiresAt ap = 15 * minute"
    using sample_w1 by (elim exE conjE) simp
  let ?db = "db\<lparr>ad_approvals := AList.update big_id (ap\<lparr>ap_Status := ApprovalApproved, ap_Responder := ''owner'',
    ap_ResolvedAt := resolved_row minute\<rparr>) (ad_approvals db)\<rparr>"
  have "resolve_update big_id ApprovalApproved ''owner'' minute db = (1, ?db)"
    using w1 by (simp add: resolve_update_def Unix_def time_units)
  then have r: "registry_Resolve sample_svc minute big_id True ''owner'' sample_w1 = (Inr True, sample_w1\<lparr>aw_store := \<lparr>cn_db = ?db, cn_faults = []\<rparr>,
      aw_waiting := Map.empty, aw_running := [(big_id, ContDirect 1 (PayLN big_invoice dec), True)]\<rparr>)"
    using w1 by (simp add: registry_Resolve_def on_store_def AgentSQLite_def sql_run start_continuation_def take_waiting_def)
  then have w2: "sample_w2 = sample_w1\<lparr>aw_store := \<lparr>cn_db = ?db, cn_faults = []\<rparr>,
      aw_waiting := Map.empty, aw_running := [(big_id, ContDirect 1 (PayLN big_invoice dec), True)]\<rparr>" by (simp add: sample_w2_def)
  show ?thesis using w1 step_resolve [OF r] unfolding w2 by (intro exI [of _ ?db] exI [of _ dec]) simp
qed

lemma sample_history2:
  "\<exists>w3. agent_history (with_sqlite sample_svc) sample_w0 [big_id] w3 \<and> aw_rail w3 = 1"
proof -
  obtain db dec where w2: "aw_running sample_w2 = [(big_id, ContDirect 1 (PayLN big_invoice dec), True)]" "aw_rail sample_w2 = 0"
    "aw_store sample_w2 = \<lparr>cn_db = db, cn_faults = []\<rparr>"
    "agent_step sample_svc (EvResolve minute big_id True ''owner'') sample_w1 sample_w2"
    using sample_w2 by (elim exE conjE) simp
  obtain r1 where "PayLNInvoice sample_svc 0 big_invoice ''tea'' 0 sample_w0 = (r1, sample_w1)" unfolding sample_w1_def by (metis prod.collapse)
  then have "agent_step sample_svc (EvPayLN 0 big_invoice ''tea'' 0) sample_w0 sample_w1" by (rule step_pay_ln)
  from history_step [OF sample_history [unfolded sample_with] this] have h1: "agent_history sample_svc sample_w0 [] sample_w1" by simp
  from history_step [OF h1 w2(4)] have h2: "agent_history sample_svc sample_w0 [] sample_w2" by simp
  let ?w3 = "run_continuation sample_svc minute (ContDirect 1 (PayLN big_invoice dec)) True (sample_w2\<lparr>aw_running := []\<rparr>)"
  have "agent_step sample_svc (EvRun minute big_id (ContDirect 1 (PayLN big_invoice dec)) True) sample_w2 ?w3"
    using step_run [of sample_w2 "[]" big_id "ContDirect 1 (PayLN big_invoice dec)" True "[]" sample_svc minute] w2(1) by simp
  from history_step [OF h2 this] have "agent_history sample_svc sample_w0 [big_id] ?w3" by simp
  moreover have "aw_rail ?w3 = 1"
    using w2 by (simp add: run_continuation_def exec_direct_def doLNPay_def on_rail_def on_store_def sample_ln_def AgentSQLite_def sql_run Let_def)
  ultimately show ?thesis by auto
qed

theorem approval_runs_once_witness:
  "\<exists>w. agent_history (with_sqlite sample_svc) sample_w0 [big_id] w \<and> aw_rail w = 1 \<and> big_id \<notin> fst ` set (aw_running w)"
proof -
  obtain w where h: "agent_history (with_sqlite sample_svc) sample_w0 [big_id] w" "aw_rail w = 1" using sample_history2 by blast
  from approval_runs_once [OF h(1) sample_hyps] h show ?thesis by auto
qed

section \<open>The kill switch\<close>

lemma wf_FreezeState: "wf_json (json_FreezeState f)"
  by (simp add: json_FreezeState_def)

lemma read_freeze_print:
  "read_freeze (json_print (json_FreezeState f)) = f"
proof -
  have "json_print (json_FreezeState f) \<noteq> []" by (simp add: json_FreezeState_def)
  moreover have "unmarshal_into zero_FreezeState dec_FreezeState (Some (json_FreezeState f)) = Some f"
    by (cases f) (simp add: json_FreezeState_def dec_FreezeState_def dec_fields_def dec_defs set_field_def opt_field_def fold_keys zero_FreezeState_def)
  ultimately show ?thesis using wf_FreezeState by (simp add: read_freeze_def opt_default_def)
qed

lemma frozen_reads:
  assumes "Freeze (with_sqlite sv) now who reason w = (Inr (), w1)" and "cn_faults (aw_store w1) = []"
  shows "notFrozen (with_sqlite sv) w1 = (Inl (Frozen \<lparr>fz_Frozen = True, fz_At = rfc3339 now, fz_By = who, fz_Reason = reason\<rparr>), w1)"
proof -
  let ?f = "\<lparr>fz_Frozen = True, fz_At = rfc3339 now, fz_By = who, fz_Reason = reason\<rparr>"
  obtain s where s: "as_SetState AgentSQLite freezeStateKey (json_print (json_FreezeState ?f)) (aw_store w) = (Inr (), s)" "w1 = w\<lparr>aw_store := s\<rparr>"
    using assms(1) unfolding Freeze_def by (elim on_storeE) (auto simp: with_sqlite_def)
  have "av_state (sql_agent_view s) freezeStateKey = Some (json_print (json_FreezeState ?f))"
    using agent_sql.set_state [OF s(1)] by simp
  then have st: "ad_state (cn_db (aw_store w1)) freezeStateKey = Some (json_print (json_FreezeState ?f))" by (simp add: sql_agent_view_def s(2))
  have "as_GetState (sv_Store (with_sqlite sv)) freezeStateKey (aw_store w1) = (Inr (json_print (json_FreezeState ?f)), aw_store w1)"
    using run_GetState [OF assms(2), of freezeStateKey] by (simp add: with_sqlite_def AgentSQLite_def st)
  then have "FreezeStatus (with_sqlite sv) w1 = (?f, w1)" by (simp add: FreezeStatus_def on_store_def read_freeze_print)
  then show ?thesis by (simp add: notFrozen_def)
qed

text \<open>C11: the kill switch stops new spending.  Once a freeze is stored and as long as the store answers, a fetch and both direct
  payments leave the world exactly as it is; the fetch reports the freeze with who set it and why, and so do the direct payments
  that pass the checks of their arguments.\<close>
theorem freeze_stops_spending:
  assumes "Freeze (with_sqlite sv) now who reason w = (Inr (), w1)" and "cn_faults (aw_store w1) = []"
  shows "(\<exists>st. fz_Frozen st \<and> fz_By st = who \<and> fz_Reason st = reason \<and>
      FetchPaid (with_sqlite sv) t pre url opt w1 = ((None, Some (Frozen st)), w1) \<and>
      (fst (PayLNInvoice (with_sqlite sv) t invoice memo maxA w1) \<in> {Inl (Frozen st), Inl InvoiceError, Inl Amountless} \<or>
       (\<exists>x. fst (PayLNInvoice (with_sqlite sv) t invoice memo maxA w1) = Inl (AboveMaxAmount x maxA))) \<and>
      fst (PayDCRAddress (with_sqlite sv) t address amount memo w1) \<in> {Inl (Frozen st), Inl OnchainDisabled, Inl AmountNotPositive}) \<and>
    snd (PayLNInvoice (with_sqlite sv) t invoice memo maxA w1) = w1 \<and> snd (PayDCRAddress (with_sqlite sv) t address amount memo w1) = w1"
  using frozen_reads [OF assms]
  by (auto simp: FetchPaid_def PayLNInvoice_def PayDCRAddress_def executeOrEscalate_def split: option.splits
      intro!: exI [of _ "\<lparr>fz_Frozen = True, fz_At = rfc3339 now, fz_By = who, fz_Reason = reason\<rparr>"])

theorem freeze_stops_spending_witness:
  "\<exists>w1. Freeze (with_sqlite sample_svc) 0 ''owner'' ''lost phone'' sample_w0 = (Inr (), w1) \<and>
     snd (PayLNInvoice (with_sqlite sample_svc) minute ''ln'' ''tea'' 0 w1) = w1"
proof -
  let ?w1 = "snd (Freeze (with_sqlite sample_svc) 0 ''owner'' ''lost phone'' sample_w0)"
  have f: "Freeze (with_sqlite sample_svc) 0 ''owner'' ''lost phone'' sample_w0 = (Inr (), ?w1)" and n: "cn_faults (aw_store ?w1) = []"
    unfolding sample_with by (simp_all add: Freeze_def on_store_def sample_start_def sample_db_def AgentSQLite_def sql_run)
  from freeze_stops_spending [OF f n] f show ?thesis by blast
qed



section \<open>Budgets and the ledger\<close>

text \<open>C4: a payment that was made keeps the policy.  When \<open>pay_ln_invoice\<close> reports a payment, its amount is at most the caller's
  ceiling and the cap per payment and below the approval threshold, the ledger's total of the day has grown by exactly
  this amount, and the totals of the day and of the week are within their budgets, where these are set and the totals
  fit 64 bits.\<close>
theorem payment_within_policy:
  assumes "PayLNInvoice (with_sqlite sv) now invoice memo maxA w = (Inr r, w')"
    and "in_int64 (spent_since (DayStart now) (av_payments (ledger w)))" "in_int64 (spent_since (DayStart now) (av_payments (ledger w)) + yr_AmountAtoms r)"
    and "in_int64 (spent_since (WeekStart now) (av_payments (ledger w)))" "in_int64 (spent_since (WeekStart now) (av_payments (ledger w)) + yr_AmountAtoms r)"
  shows "(maxA > 0 \<longrightarrow> yr_AmountAtoms r \<le> maxA) \<and>
    (po_MaxPerPaymentAtoms (aw_policy w) > 0 \<longrightarrow> yr_AmountAtoms r \<le> po_MaxPerPaymentAtoms (aw_policy w)) \<and>
    (po_ThresholdAtoms (aw_policy w) > 0 \<longrightarrow> yr_AmountAtoms r < po_ThresholdAtoms (aw_policy w)) \<and>
    spent_since (DayStart now) (av_payments (ledger w')) = spent_since (DayStart now) (av_payments (ledger w)) + yr_AmountAtoms r \<and>
    (po_DailyBudgetAtoms (aw_policy w) > 0 \<longrightarrow> spent_since (DayStart now) (av_payments (ledger w')) \<le> po_DailyBudgetAtoms (aw_policy w)) \<and>
    (po_WeeklyBudgetAtoms (aw_policy w) > 0 \<longrightarrow> spent_since (WeekStart now) (av_payments (ledger w')) \<le> po_WeeklyBudgetAtoms (aw_policy w))"
proof -
  obtain a exec where x: "executeOrEscalate (with_sqlite sv) now a exec w = (Inr r, w')" "direct_amount exec = pa_AmountAtoms a"
    "maxA > 0 \<longrightarrow> pa_AmountAtoms a \<le> maxA"
    using assms(1) by (cases rule: sql_agent.pay_ln_cases) auto
  from x(1,2) have s: "sql_agent.settled now None a w w' \<and> yr_AmountAtoms r = pa_AmountAtoms a"
    by (cases rule: sql_agent.direct_cases) auto
  with settled_within [of now a w w'] assms(2-) x(3) show ?thesis by auto
qed

lemma sample_paid:
  "\<exists>r w'. PayLNInvoice (with_sqlite sample_svc) 0 ''ln'' ''tea'' 0 sample_w0 = (Inr r, w') \<and> yr_AmountAtoms r = 20 \<and>
     av_payments (ledger sample_w0) = []"
  unfolding sample_with by (simp add: sample_run Let_def sql_agent_view_def)

theorem payment_within_policy_witness:
  "\<exists>w' :: (agent_db conn, int, unit) agent_world. aw_rail w' \<noteq> aw_rail sample_w0 \<and>
     spent_since (DayStart 0) (av_payments (ledger w')) = 20"
proof -
  obtain r w' where p: "PayLNInvoice (with_sqlite sample_svc) 0 ''ln'' ''tea'' 0 sample_w0 = (Inr r, w')" "yr_AmountAtoms r = 20"
    "av_payments (ledger sample_w0) = []" using sample_paid by blast
  have "aw_rail w' \<noteq> aw_rail sample_w0" using p(1) sample_small by (simp add: sample_start_def)
  moreover have "spent_since (DayStart 0) (av_payments (ledger w')) = 20"
    using payment_within_policy [OF p(1)] p(2,3) by (simp add: spent_since_def int64_defs)
  ultimately show ?thesis by blast
qed

section \<open>Denials and prompts\<close>

lemma exec_not_denied: "fst (exec_direct sv now i exec w) \<noteq> Inl (PolicyDenied d)"
  by (auto simp: exec_direct_def doLNPay_def doOnchainPay_def split: DirectPay.splits option.splits prod.splits sum.splits)

lemma escalate_not_denied: "fst (registry_Escalate sv now i ch ttl s cont w) \<noteq> Inl (PolicyDenied d)"
  by (auto simp: registry_Escalate_def Let_def split: option.splits prod.splits sum.splits)

lemma direct_denied:
  assumes "executeOrEscalate (with_sqlite sv) now a exec w = (Inl (PolicyDenied d), w')"
  shows "\<exists>s a'. w' = w\<lparr>aw_store := s\<rparr> \<and> sql_agent_view s = (ledger w)\<lparr>av_attempts := av_attempts (ledger w) @ [a']\<rparr> \<and>
    attempt_stored (attempt_of now a d) a' \<and> de_Outcome d = Deny"
proof -
  obtain rz w0 where z: "notFrozen (with_sqlite sv) w = (rz, w0)" by fastforce
  obtain s0 where w0: "w0 = w\<lparr>aw_store := s0\<rparr>" "sql_agent_view s0 = ledger w" using z by (rule sql_agent.notFrozen_cases)
  obtain x where rz: "rz = Inr x" using assms z
    by (cases rz) (auto simp: executeOrEscalate_def notFrozen_def split: prod.splits if_splits)
  obtain q w1 where e: "evaluateAndRecord (with_sqlite sv) now a w0 = (q, w1)" by fastforce
  from e show ?thesis
  proof (cases rule: sql_agent.evaluate_cases)
    case (error er s as)
    with assms z rz e show ?thesis by (simp add: executeOrEscalate_def)
  next
    case (recorded u i a' s)
    let ?d = "Evaluate (aw_policy w0) a u"
    have "de_Outcome ?d = Deny \<and> d = ?d \<and> w' = w1"
      using assms z rz e recorded(1) exec_not_denied [of "with_sqlite sv" now i exec w1 d]
        escalate_not_denied [of "with_sqlite sv" now i "de_ApprovalChannel ?d" "de_ApprovalTTL ?d" "summaryFor a ?d" "ContDirect i exec" w1 d]
      by (cases "de_Outcome ?d") (auto simp: executeOrEscalate_def split: prod.splits sum.splits)
    with recorded w0 show ?thesis by (intro exI [of _ s] exI [of _ a']) simp
  qed
qed


definition huge_invoice :: string where "huge_invoice = replicate 120 (CHR ''i'')"

lemma sample_denied:
  "\<exists>d w'. PayLNInvoice (with_sqlite sample_svc) 0 huge_invoice ''tea'' 0 sample_w0 = (Inl (PolicyDenied d), w')"
proof -
  have "de_Outcome (Evaluate sample_agent_policy a \<lparr>us_DayAtoms = 0, us_WeekAtoms = 0, us_HourCount = 0\<rparr>) = Deny" if "pa_AmountAtoms a > 1000" for a
    using that by (simp add: Evaluate_outcome rule_verdicts_def sample_agent_policy_def)
  then show ?thesis
    unfolding sample_with by (simp add: sample_run Let_def huge_invoice_def)
qed


lemma digits_printable: "c \<in> set (show_nat n) \<Longrightarrow> 32 \<le> byte c"
  using show_nat_digits [of c n] by simp

lemma strip_zeros_subset: "set (strip_zeros s) \<subseteq> set s"
  unfolding strip_zeros_def using set_dropWhileD by fastforce

lemma format_dcr_printable: "c \<in> set (format_dcr n) \<Longrightarrow> 32 \<le> byte c"
proof -
  have ds: "32 \<le> byte c" if "c \<in> set (strip_zeros (show_nat m))" for m
    using that strip_zeros_subset digits_printable by blast
  have sub: "set (take k s) \<subseteq> set s" "set (drop k s) \<subseteq> set s" for k and s :: string
    by (rule set_take_subset, rule set_drop_subset)
  have g: "32 \<le> byte c" if "c \<in> set (g8 q)" for q
    using that ds digits_printable sub
    by (auto simp: g8_def Let_def split: if_splits prod.splits dest!: subsetD [OF sub(1)] subsetD [OF sub(2)])
  assume "c \<in> set (format_dcr n)"
  then show ?thesis by (auto simp: format_dcr_def Let_def split: if_splits prod.splits intro: g)
qed

lemma quote_char_printable: "c \<in> set (quote_char x) \<Longrightarrow> 32 \<le> byte c"
proof -
  have h: "32 \<le> byte (hex_chr n)" if "n < 16" for n using that by (simp add: hex_chr_def)
  have "byte x < 256" by (cases x) (simp add: of_char_def)
  then have "byte x div 16 < 16" "byte x mod 16 < 16" by simp_all
  then show "c \<in> set (quote_char x) \<Longrightarrow> 32 \<le> byte c" using h by (auto simp: quote_char_def Let_def split: if_splits)
qed

text \<open>C21: an approval prompt is one line: whatever destination and memo the driving agent chose, the text the owner is shown has no
  control character, so that it cannot forge a second prompt.\<close>
theorem approval_prompt_single_line:
  assumes "pa_Tool a \<in> {''pay_ln_invoice'', ''pay_dcr_address'', ''fetch_paid''}" and "c \<in> set (summaryFor a dec)"
  shows "32 \<le> byte c"
  using assms format_dcr_printable quote_char_printable by (auto simp: summaryFor_def Quote_def)

theorem approval_prompt_single_line_witness:
  "\<forall>dec. CHR 0x0A \<notin> set (summaryFor \<lparr>pa_Tool = ''fetch_paid'', pa_Rail = ''ln'', pa_DestKind = DestDomain, pa_Dest = ''a'' @ [CHR 0x0A],
     pa_AmountAtoms = 5, pa_Memo = []\<rparr> dec)"
  using approval_prompt_single_line [of "\<lparr>pa_Tool = ''fetch_paid'', pa_Rail = ''ln'', pa_DestKind = DestDomain, pa_Dest = ''a'' @ [CHR 0x0A],
     pa_AmountAtoms = 5, pa_Memo = []\<rparr>" "CHR 0x0A"] by auto

end
