(* ===== verification/Topup.thy ===== *)
theory Topup
  imports GateServe
begin

text \<open>
  The credit rails of the gate, \<open>lib/topup.go\<close>: the top-up challenge that offers Lightning and
  on-chain payment for one account, the settlement of a top-up into the ledger, and the handlers
  that charge a credential.  The configuration carries the ledger's operations and the world its
  state; \<open>None\<close> is a gate without a ledger.
\<close>

section \<open>Options\<close>

record TopupOptions =
  to_MinAtoms :: int
  to_MaxAtoms :: int
  to_DefaultAtoms :: int
  to_Confirmations :: int
  to_Resource :: "(HttpRequest \<Rightarrow> ResourceInfo) option"

definition topup_fill :: "TopupOptions \<Rightarrow> TopupOptions" where
  "topup_fill opts =
     \<lparr>to_MinAtoms = (if to_MinAtoms opts \<le> 0 then 100000 else to_MinAtoms opts),
      to_MaxAtoms = (if to_MaxAtoms opts \<le> 0 then 1000000000 else to_MaxAtoms opts),
      to_DefaultAtoms = (if to_DefaultAtoms opts \<le> 0 then 1000000 else to_DefaultAtoms opts),
      to_Confirmations = (if to_Confirmations opts \<le> 0 then 2 else to_Confirmations opts),
      to_Resource = to_Resource opts\<rparr>"

section \<open>The challenge\<close>

definition onchain_entry :: "('s, 'l, 'b, 'o) GateConfig \<Rightarrow> int \<Rightarrow> int \<Rightarrow> string \<Rightarrow> string \<Rightarrow> PaymentRequirements" where
  "onchain_entry g amountAtoms confirmations address macB64 =
     \<lparr>pr_Scheme = SchemeExact, pr_Network = nw_CAIP2 (gc_Network g), pr_Amount = FormatInt amountAtoms, pr_Asset = AssetDCR,
      pr_PayTo = address, pr_MaxTimeoutSeconds = Seconds (gc_ChallengeTTL g),
      pr_Extra = Some (json_OnchainExtra \<lparr>oe_AssetTransferMethod = MethodOnchain, oe_Confirmations = confirmations,
        oe_Credential = macB64\<rparr>)\<rparr>"

definition onchain_record ::
  "('s, 'l, 'b, 'o) GateConfig \<Rightarrow> int \<Rightarrow> int \<Rightarrow> string \<Rightarrow> string \<Rightarrow> Macaroon \<Rightarrow> string \<Rightarrow> bytes \<Rightarrow> time \<Rightarrow> OnchainChallenge" where
  "onchain_record g amountAtoms confirmations bind address mac macB64 credPre now =
     \<lparr>oc_Address = address, oc_Requirements = json_print (json_PaymentRequirements (onchain_entry g amountAtoms confirmations address macB64)),
      oc_Resource = bind, oc_AmountAtoms = amountAtoms, oc_Confirmations = confirmations, oc_MacaroonB64 = macB64,
      oc_RootKeyID = sha256 (mac_ID mac), oc_CredentialPreimage = hex_encode credPre, oc_CreatedAt = now,
      oc_ExpiresAt = now + gc_ChallengeTTL g\<rparr>"

text \<open>The on-chain half: a fresh address, a server-made preimage and a credential of the same account.\<close>

definition topup_onchain ::
  "('s, 'l, 'b, 'o) GateConfig \<Rightarrow> time \<Rightarrow> string \<Rightarrow> int \<Rightarrow> int \<Rightarrow> bytes \<Rightarrow> 'o Onchain_ops \<Rightarrow>
   ('s, 'l, 'b, 'o) world \<Rightarrow> (gate_error, PaymentRequirements) result \<times> ('s, 'l, 'b, 'o) world" where
  "topup_onchain g now bind amountAtoms confirmations tokenID ob w =
     (case ob_NewDepositAddress ob (w_onchain w) of
        (Inl e, c) \<Rightarrow> (Inl NewAddressFailed, w\<lparr>w_onchain := c\<rparr>)
      | (Inr address, c) \<Rightarrow>
          (case rand_read g (w\<lparr>w_onchain := c\<rparr>) of
             (None, w) \<Rightarrow> (Inl RandFailed, w)
           | (Some credPre, w) \<Rightarrow>
               (case mintCredential g (sha256 credPre) tokenID now w of
                  (Inl e, w) \<Rightarrow> (Inl e, w)
                | (Inr (macO, macOB64), w) \<Rightarrow>
                    (case st_PutOnchainChallenge (gc_Store g)
                            (onchain_record g amountAtoms confirmations bind address macO macOB64 credPre now) (w_store w) of
                       (Inl e, s) \<Rightarrow> (Inl StoreOnchainFailed, w\<lparr>w_store := s\<rparr>)
                     | (Inr _, s) \<Rightarrow> (Inr (onchain_entry g amountAtoms confirmations address macOB64), w\<lparr>w_store := s\<rparr>)))))"

definition topup_required ::
  "('s, 'l, 'b, 'o) GateConfig \<Rightarrow> ResourceInfo \<Rightarrow> PaymentRequirements list \<Rightarrow> PaymentRequired" where
  "topup_required g resource accepts =
     \<lparr>rq_X402Version = Version, rq_Error = ''Payment required'', rq_Resource = resource, rq_Accepts = accepts,
      rq_Extensions = [(ExtensionL402, l402_advert g)]\<rparr>"

definition buildTopupChallenge ::
  "('s, 'l, 'b, 'o) GateConfig \<Rightarrow> time \<Rightarrow> ResourceInfo \<Rightarrow> string \<Rightarrow> int \<Rightarrow> int \<Rightarrow>
   ('s, 'l, 'b, 'o) world \<Rightarrow> (gate_error, challengeArtifacts) result \<times> ('s, 'l, 'b, 'o) world" where
  "buildTopupChallenge g now resource bind amountAtoms confirmations w =
     (let bind = (if bind = [] then ri_URL resource else bind) in
      case rand_read g w of
        (None, w) \<Rightarrow> (Inl RandFailed, w)
      | (Some tokenID, w) \<Rightarrow>
          (case ib_CreateInvoice (gc_Backend g) amountAtoms (gc_Service g @ '' topup '' @ bind) (gc_ChallengeTTL g) (w_backend w) of
             (Inl e, b) \<Rightarrow> (Inl CreateInvoiceFailed, w\<lparr>w_backend := b\<rparr>)
           | (Inr (invoice, paymentHash), b) \<Rightarrow>
               (case mintCredential g paymentHash tokenID now (w\<lparr>w_backend := b\<rparr>) of
                  (Inl e, w) \<Rightarrow> (Inl e, w)
                | (Inr (macL, macLB64), w) \<Rightarrow>
                    (case st_PutChallenge (gc_Store g)
                            (lightning_record g amountAtoms bind invoice paymentHash macL macLB64 now) (w_store w) of
                       (Inl e, s) \<Rightarrow> (Inl StoreChallengeFailed, w\<lparr>w_store := s\<rparr>)
                     | (Inr _, s) \<Rightarrow>
                         (let w = w\<lparr>w_store := s\<rparr>;
                              entryL = lightning_entry g amountAtoms invoice paymentHash;
                              art = (\<lambda>accepts. \<lparr>ca_PaymentRequired = topup_required g resource accepts, ca_Macaroon = macL,
                                       ca_Invoice = invoice\<rparr>) in
                          case gc_Onchain g of
                            None \<Rightarrow> (Inr (art [entryL]), w)
                          | Some ob \<Rightarrow>
                              (case topup_onchain g now bind amountAtoms confirmations tokenID ob w of
                                 (Inl e, w) \<Rightarrow> (Inl e, w)
                               | (Inr entryO, w) \<Rightarrow> (Inr (art [entryL, entryO]), w)))))))"

definition TopupChallengeBound ::
  "('s, 'l, 'b, 'o) GateConfig \<Rightarrow> time \<Rightarrow> ResourceInfo \<Rightarrow> string \<Rightarrow> int \<Rightarrow> int \<Rightarrow>
   ('s, 'l, 'b, 'o) world \<Rightarrow> (gate_error, PaymentRequired) result \<times> ('s, 'l, 'b, 'o) world" where
  "TopupChallengeBound g now resource bind amountAtoms confirmations w =
     (case buildTopupChallenge g now resource bind amountAtoms (if confirmations \<le> 0 then 2 else confirmations) w of
        (Inl e, w) \<Rightarrow> (Inl e, w)
      | (Inr art, w) \<Rightarrow> (Inr (ca_PaymentRequired art), w))"

definition TopupChallenge ::
  "('s, 'l, 'b, 'o) GateConfig \<Rightarrow> time \<Rightarrow> ResourceInfo \<Rightarrow> int \<Rightarrow> int \<Rightarrow>
   ('s, 'l, 'b, 'o) world \<Rightarrow> (gate_error, PaymentRequired) result \<times> ('s, 'l, 'b, 'o) world" where
  "TopupChallenge g now resource amountAtoms confirmations = TopupChallengeBound g now resource [] amountAtoms confirmations"

section \<open>Settling a top-up\<close>

definition serveTopupSettlement ::
  "('s, 'l, 'b, 'o) GateConfig \<Rightarrow> 'l Ledger_ops \<Rightarrow> time \<Rightarrow> HttpRequest \<Rightarrow> string \<Rightarrow>
   ('s, 'l, 'b, 'o) world \<Rightarrow> HttpOut \<times> ('s, 'l, 'b, 'o) world" where
  "serveTopupSettlement g lg now r sig w =
     (case DecodeHeader zero_PaymentPayload dec_PaymentPayload sig of
        Inl e \<Rightarrow> respondPaymentFailure g now r 0 (verifyErrf ReasonInvalidPayload ''PAYMENT-SIGNATURE'') w
      | Inr pp \<Rightarrow>
          (case settleFull g now pp 0 w of
             (Inl vErr, w) \<Rightarrow>
               (http_json StatusPaymentRequired
                  (header_set HeaderPaymentResponse (EncodeHeader (json_SettlementResponse (failureResponse g vErr))) [])
                  (if ve_Reason vErr = ReasonInsufficientConfs
                   then jmap [(''status'', JStr ''pending''), (''reason'', JStr (ve_Reason vErr)), (''detail'', JStr (ve_Detail vErr))]
                   else jmap [(''error'', JStr ''payment_verification_failed''), (''reason'', JStr (ve_Reason vErr))]), w)
           | (Inr out, w) \<Rightarrow>
               (case lg_Grant lg (so_AccountID out) (so_Rail out) (so_AmountAtoms out) (so_ExternalRef out) (so_Receipt out) now (w_ledger w) of
                  (Inl e, l) \<Rightarrow>
                    (http_json StatusInternalServerError [] (jmap [(''error'', JStr ''ledger grant failed'')]), w\<lparr>w_ledger := l\<rparr>)
                | (Inr (balance, alreadyGranted), l) \<Rightarrow>
                    (http_json StatusOK
                       (header_set HeaderPaymentResponse (EncodeHeader (json_SettlementResponse (so_Response out))) [])
                       (jmap [(''status'', JStr (if so_Already out \<or> alreadyGranted then ''already_credited'' else ''credited'')),
                          (''rail'', JStr (so_Rail out)), (''grantedAtoms'', enc_int (so_AmountAtoms out)),
                          (''balanceAtoms'', enc_int balance), (''account'', JStr (so_AccountID out))]), w\<lparr>w_ledger := l\<rparr>))))"

text \<open>The amount a bare request asks for; \<open>None\<close> is an invalid parameter.\<close>

definition topup_atoms :: "TopupOptions \<Rightarrow> HttpRequest \<Rightarrow> int option" where
  "topup_atoms opts r =
     (let v = FormValue r ''atoms'' in
      if v = [] then Some (to_DefaultAtoms opts)
      else (case ParseInt v of None \<Rightarrow> None | Some parsed \<Rightarrow> if parsed \<le> 0 then None else Some parsed))"

definition gate_Topup ::
  "('s, 'l, 'b, 'o) GateConfig \<Rightarrow> TopupOptions \<Rightarrow> time \<Rightarrow> HttpRequest \<Rightarrow>
   ('s, 'l, 'b, 'o) world \<Rightarrow> HttpOut \<times> ('s, 'l, 'b, 'o) world" where
  "gate_Topup g options now r w =
     (let opts = topup_fill options; sig = header_get (hr_Header r) HeaderPaymentSignature in
      case gc_Ledger g of
        None \<Rightarrow> (http_error ''gate has no ledger configured'' StatusInternalServerError, w)
      | Some lg \<Rightarrow>
          if sig \<noteq> [] then serveTopupSettlement g lg now r sig w
          else (case topup_atoms opts r of
                  None \<Rightarrow> (http_json StatusBadRequest [] (jmap [(''error'', JStr ''invalid atoms parameter'')]), w)
                | Some atoms \<Rightarrow>
                    if atoms < to_MinAtoms opts \<or> atoms > to_MaxAtoms opts then
                      (http_json StatusBadRequest []
                         (jmap [(''error'', JStr ''amount out of bounds''), (''minAtoms'', enc_int (to_MinAtoms opts)),
                            (''maxAtoms'', enc_int (to_MaxAtoms opts))]), w)
                    else (let resource = (case to_Resource opts of None \<Rightarrow> resourceFor g r | Some f \<Rightarrow> f r) in
                          case buildTopupChallenge g now resource [] atoms (to_Confirmations opts) w of
                            (Inl e, w) \<Rightarrow> (http_error ''building top-up challenge'' StatusInternalServerError, w)
                          | (Inr art, w) \<Rightarrow>
                              (http_json StatusPaymentRequired (writeChallengeHeaders art [])
                                 (jmap [(''error'', JStr ''payment_required''),
                                    (''detail'', JStr ''pay any offered method; settlement credits your account and returns its credential''),
                                    (''atoms'', enc_int atoms),
                                    (''methods'', enc_int (int (length (rq_Accepts (ca_PaymentRequired art)))))]), w))))"

section \<open>Spending credits\<close>

datatype credit_error = NoLedger | ErrNoCredential | ErrInvalidCredential | LedgerFailed ledger_error

definition credentialAccount ::
  "('s, 'l, 'b, 'o) GateConfig \<Rightarrow> time \<Rightarrow> string \<Rightarrow> ('s, 'l, 'b, 'o) world \<Rightarrow>
   (credit_error, string) result \<times> ('s, 'l, 'b, 'o) world" where
  "credentialAccount g now authorization w =
     (if TrimSpace authorization = [] then (Inl ErrNoCredential, w)
      else (case ParseAuthorization authorization of
              None \<Rightarrow> (Inl ErrInvalidCredential, w)
            | Some (Inl perr) \<Rightarrow> (Inl ErrInvalidCredential, w)
            | Some (Inr (macs, preimage)) \<Rightarrow>
                (case authorizeToken g now macs preimage w of
                   (None, w) \<Rightarrow> (Inl ErrInvalidCredential, w)
                 | (Some account, w) \<Rightarrow> (Inr account, w))))"

definition ChargeCredential ::
  "('s, 'l, 'b, 'o) GateConfig \<Rightarrow> time \<Rightarrow> string \<Rightarrow> string \<Rightarrow> int \<Rightarrow> string \<Rightarrow> ('s, 'l, 'b, 'o) world \<Rightarrow>
   (credit_error, int) result \<times> ('s, 'l, 'b, 'o) world" where
  "ChargeCredential g now authorization tool amountAtoms idemKey w =
     (case gc_Ledger g of
        None \<Rightarrow> (Inl NoLedger, w)
      | Some lg \<Rightarrow>
          (case credentialAccount g now authorization w of
             (Inl e, w) \<Rightarrow> (Inl e, w)
           | (Inr account, w) \<Rightarrow>
               (case lg_Charge lg account tool amountAtoms tool idemKey now (w_ledger w) of
                  (Inl e, l) \<Rightarrow> (Inl (LedgerFailed e), w\<lparr>w_ledger := l\<rparr>)
                | (Inr balance, l) \<Rightarrow> (Inr balance, w\<lparr>w_ledger := l\<rparr>))))"

definition CredentialBalance ::
  "('s, 'l, 'b, 'o) GateConfig \<Rightarrow> time \<Rightarrow> string \<Rightarrow> ('s, 'l, 'b, 'o) world \<Rightarrow>
   (credit_error, string \<times> int) result \<times> ('s, 'l, 'b, 'o) world" where
  "CredentialBalance g now authorization w =
     (case gc_Ledger g of
        None \<Rightarrow> (Inl NoLedger, w)
      | Some lg \<Rightarrow>
          (case credentialAccount g now authorization w of
             (Inl e, w) \<Rightarrow> (Inl e, w)
           | (Inr account, w) \<Rightarrow>
               (case lg_Balance lg account (w_ledger w) of
                  (Inl e, l) \<Rightarrow> (Inl (LedgerFailed e), w\<lparr>w_ledger := l\<rparr>)
                | (Inr balance, l) \<Rightarrow> (Inr (account, balance), w\<lparr>w_ledger := l\<rparr>))))"

definition RequireCredits ::
  "('s, 'l, 'b, 'o) GateConfig \<Rightarrow> string \<Rightarrow> int \<Rightarrow> time \<Rightarrow> HttpRequest \<Rightarrow>
   ('s, 'l, 'b, 'o) world \<Rightarrow> HttpOut \<times> ('s, 'l, 'b, 'o) world" where
  "RequireCredits g tool amountAtoms now r w =
     (case ChargeCredential g now (header_get (hr_Header r) ''Authorization'') tool amountAtoms
             (header_get (hr_Header r) ''Idempotency-Key'') w of
        (Inr balance, w) \<Rightarrow> (run_next (header_set ''Dcr402-Balance'' (FormatInt balance) []), w)
      | (Inl ErrNoCredential, w) \<Rightarrow>
          (http_json StatusPaymentRequired []
             (jmap [(''error'', JStr ''payment_required''),
                (''detail'', JStr (''credit account required '' @ [CHR 0xE2, CHR 0x80, CHR 0x94] @ '' top up to obtain a credential'')),
                (''topup'', JStr (gc_TopupPath g))]), w)
      | (Inl ErrInvalidCredential, w) \<Rightarrow>
          (http_json StatusUnauthorized []
             (jmap [(''error'', JStr ''invalid or expired credential''), (''topup'', JStr (gc_TopupPath g))]), w)
      | (Inl (LedgerFailed (InsufficientBalance balance required)), w) \<Rightarrow>
          (http_json StatusPaymentRequired (header_set ''Dcr402-Balance'' (FormatInt balance) [])
             (jmap [(''error'', JStr ''insufficient_credits''), (''balanceAtoms'', enc_int balance),
                (''requiredAtoms'', enc_int required), (''shortfallAtoms'', enc_int (Shortfall balance required)),
                (''topup'', JStr (gc_TopupPath g))]), w)
      | (Inl _, w) \<Rightarrow> (http_error ''ledger charge failed'' StatusInternalServerError, w))"

end
