(* ===== verification/TopupProps.thy ===== *)
theory TopupProps
  imports Topup GateProps
begin

text \<open>
  What the credit rails promise: a top-up credits exactly the stored challenge it settled, to the
  account its credential names, and once; a gated request runs only when its account was charged;
  and both methods of a top-up name one account.  A gate with credits is the payment gate together
  with a ledger, so its locale joins the two contracts.
\<close>

section \<open>What the parts leave alone\<close>

lemma rand_read_ledger: "rand_read g w = (r, w') \<Longrightarrow> w_ledger w' = w_ledger w"
  by (auto simp: rand_read_def)

lemma mintCredential_ledger: "mintCredential g h t now w = (r, w') \<Longrightarrow> w_ledger w' = w_ledger w"
  by (auto simp: mintCredential_def Let_def split: option.splits prod.splits sum.splits dest!: rand_read_ledger)

lemma buildChallenge_ledger: "buildChallenge g now res bind n exts w = (r, w') \<Longrightarrow> w_ledger w' = w_ledger w"
  by (auto simp: buildChallenge_def Let_def split: if_splits option.splits prod.splits sum.splits
      dest!: rand_read_ledger mintCredential_ledger)

lemma respondPaymentFailure_ledger: "respondPaymentFailure g now r n ve w = (out, w') \<Longrightarrow> w_ledger w' = w_ledger w"
  by (auto simp: respondPaymentFailure_def Let_def split: if_splits prod.splits dest!: buildChallenge_ledger)

lemma verify_ledger:
  "verifyLightning g now pp w = (rl, w') \<Longrightarrow> w_ledger w' = w_ledger w"
  "verifyOnchain g now pp w = (ro, w') \<Longrightarrow> w_ledger w' = w_ledger w"
  by (auto simp: verifyLightning_def verifyOnchain_def expired_reason_def check_node_settled_def Let_def
      split: option.splits if_splits prod.splits sum.splits)

lemma settle_prepare_ledger: "settle_prepare g now pp w = (r, w') \<Longrightarrow> w_ledger w' = w_ledger w"
  by (auto simp: settle_prepare_def Let_def split: if_splits prod.splits sum.splits dest: verify_ledger)

lemma settleFull_ledger: "settleFull g now pp req w = (r, w') \<Longrightarrow> w_ledger w' = w_ledger w"
  by (auto simp: settleFull_def Let_def split: option.splits if_splits prod.splits sum.splits dest!: settle_prepare_ledger)

lemma authorizeToken_ledger: "authorizeToken g now macs pre w = (r, w') \<Longrightarrow> w_ledger w' = w_ledger w"
  by (auto simp: authorizeToken_def split: list.splits prod.splits sum.splits)

lemma credentialAccount_ledger: "credentialAccount g now a w = (r, w') \<Longrightarrow> w_ledger w' = w_ledger w"
  by (auto simp: credentialAccount_def split: if_splits option.splits prod.splits sum.splits dest: authorizeToken_ledger)

lemma topup_onchain_ledger: "topup_onchain g now bind n k tok ob w = (r, w') \<Longrightarrow> w_ledger w' = w_ledger w"
  by (auto simp: topup_onchain_def split: option.splits prod.splits sum.splits dest!: rand_read_ledger mintCredential_ledger)

lemma buildTopup_ledger: "buildTopupChallenge g now res bind n k w = (r, w') \<Longrightarrow> w_ledger w' = w_ledger w"
  by (auto simp: buildTopupChallenge_def Let_def split: option.splits prod.splits sum.splits
      dest!: rand_read_ledger mintCredential_ledger topup_onchain_ledger)

section \<open>Crediting\<close>

text \<open>The ledger's reference of a payment: its payment hash, or its transaction and deposit address.\<close>

definition topup_ref :: "PaymentPayload \<Rightarrow> string" where
  "topup_ref pp =
     (if TransferMethod (pp_Accepted pp) = MethodLightning then ''ln:'' @ hex_encode (settle_key pp)
      else ''onchain:'' @ op_TxID (opt_default zero_OnchainPayload
             (unmarshal_into zero_OnchainPayload dec_OnchainPayload (pp_Payload pp))) @ '':'' @ pr_PayTo (pp_Accepted pp))"

text \<open>The payment behind a proof: the stored challenge it settles, by its amount and its account.\<close>

definition topup_backed ::
  "('s, 'l, 'b, 'o) GateConfig \<Rightarrow> store_view \<Rightarrow> time \<Rightarrow> PaymentPayload \<Rightarrow> 'b \<Rightarrow> 'o \<Rightarrow> string \<Rightarrow> int \<Rightarrow> bool" where
  "topup_backed g V now pp node wallet acct n \<longleftrightarrow>
     (\<exists>ch. lightning_paid g V now pp node ch \<and> n = sc_AmountAtoms ch \<and> accountFromMacaroon (sc_MacaroonB64 ch) = Some acct) \<or>
     (\<exists>oc txid. onchain_paid g V pp wallet oc txid \<and> n = oc_AmountAtoms oc \<and> accountFromMacaroon (oc_MacaroonB64 oc) = Some acct)"

text \<open>Every amount on offer fits on top of every balance.\<close>

definition room :: "store_view \<Rightarrow> credit \<Rightarrow> bool" where
  "room V C \<longleftrightarrow>
     (\<forall>h ch a. sv_challenges V h = Some ch \<longrightarrow> cd_balance C a + sc_AmountAtoms ch \<le> int64_max) \<and>
     (\<forall>ad oc a. sv_onchain V ad = Some oc \<longrightarrow> cd_balance C a + oc_AmountAtoms oc \<le> int64_max)"

lemma room_backed: "room V C \<Longrightarrow> topup_backed g V now pp node wallet acct n \<Longrightarrow> cd_balance C a + n \<le> int64_max"
  by (auto simp: room_def topup_backed_def lightning_paid_def onchain_paid_def)

text \<open>One credit of \<open>n\<close> atoms to \<open>acct\<close> under a reference that had none.\<close>

definition credited :: "credit \<Rightarrow> string \<Rightarrow> string \<Rightarrow> int \<Rightarrow> credit" where
  "credited C ref acct n =
     C\<lparr>cd_balance := (cd_balance C)(acct := cd_balance C acct + n), cd_grants := (cd_grants C)(ref \<mapsto> (acct, n))\<rparr>"

text \<open>The account of the credential in an Authorization value.\<close>

definition credential_names :: "('s, 'l, 'b, 'o) GateConfig \<Rightarrow> store_view \<Rightarrow> time \<Rightarrow> string \<Rightarrow> string \<Rightarrow> bool" where
  "credential_names g V now authz acct \<longleftrightarrow>
     (\<exists>mac ms pre i rk. ParseAuthorization authz = Some (Inr (mac # ms, pre)) \<and> Macaroon_Identifier mac = Inr i \<and>
        sv_rootKeys V (StorageKey i) = Some rk \<and> acct = hex_encode (id_TokenID i) \<and>
        VerifyToken now rk mac pre \<lparr>vo_Service = gc_Service g, vo_Capability = [], vo_Now = Some now\<rparr> = Inr ())"

lemma credit_extends_granted: "credit_extends c c' \<Longrightarrow> cd_grants c ref \<noteq> None \<Longrightarrow> cd_grants c' ref \<noteq> None"
  by (auto simp: credit_extends_def map_le_def dom_def)

locale credit_gate = keyed_gate g view + ledger lg abs inv
  for g :: "('s, 'l, 'b, 'o) GateConfig" and view :: "'s \<Rightarrow> store_view" and lg :: "'l Ledger_ops"
    and abs :: "'l \<Rightarrow> credit" and inv :: "'l \<Rightarrow> bool" +
  assumes has_ledger: "gc_Ledger g = Some lg"
begin

lemma settle_prepare_ref:
  assumes "settle_prepare g now pp w = (Inr p, w1)"
  shows "so_ExternalRef (sp_Out p) = topup_ref pp"
proof (cases "TransferMethod (pp_Accepted pp) = MethodLightning")
  case True
  with assms obtain ch pay where v: "verifyLightning g now pp w = (Inr (ch, pay), w1)" "prep_lightning g now ch pay = Inr p"
    by (auto simp: settle_prepare_def split: prod.splits sum.splits)
  then have "so_ExternalRef (sp_Out p) = ''ln:'' @ hex_encode (sp_Key p)" by (auto simp: prep_lightning_def split: option.splits)
  with settle_prepare_key [OF assms] True show ?thesis by (simp add: topup_ref_def)
next
  case False
  with assms obtain oc pay where v: "verifyOnchain g now pp w = (Inr (oc, pay), w1)" "prep_onchain g now oc pay = Inr p"
    by (auto simp: settle_prepare_def Let_def split: if_splits prod.splits sum.splits)
  from verifyOnchain_Inr [OF v(1)] obtain s where
    "unmarshal_into zero_OnchainPayload dec_OnchainPayload (pp_Payload pp) = Some pay"
    "st_GetOnchainChallenge (gc_Store g) (pr_PayTo (pp_Accepted pp)) (w_store w) = (Inr oc, s)" by blast
  with onchain_key [of "pr_PayTo (pp_Accepted pp)"] False v(2) show ?thesis
    by (auto simp: topup_ref_def prep_onchain_def split: option.splits)
qed

text \<open>A settled top-up: the proof, what backs it, and the grant it made.\<close>

lemma serve_settlement_ok:
  assumes "serveTopupSettlement g lg now r sig w = (out, w')" and "ho_Status out = StatusOK"
  shows "\<exists>pp so w1 b ag. DecodeHeader zero_PaymentPayload dec_PaymentPayload sig = Inr pp \<and> settleFull g now pp 0 w = (Inr so, w1) \<and>
    lg_Grant lg (so_AccountID so) (so_Rail so) (so_AmountAtoms so) (topup_ref pp) (so_Receipt so) now (w_ledger w) = (Inr (b, ag), w_ledger w') \<and>
    topup_backed g (view (w_store w)) now pp (w_backend w) (w_onchain w) (so_AccountID so) (so_AmountAtoms so) \<and>
    ho_Body out = JsonBody (jmap [(''status'', JStr (if so_Already so \<or> ag then ''already_credited'' else ''credited'')),
      (''rail'', JStr (so_Rail so)), (''grantedAtoms'', enc_int (so_AmountAtoms so)), (''balanceAtoms'', enc_int b),
      (''account'', JStr (so_AccountID so))])"
proof -
  obtain pp where pp: "DecodeHeader zero_PaymentPayload dec_PaymentPayload sig = Inr pp"
    using assms by (cases "DecodeHeader zero_PaymentPayload dec_PaymentPayload sig")
      (auto simp: serveTopupSettlement_def respondPaymentFailure_def http_json_def status_defs Let_def split: if_splits prod.splits)
  obtain so w1 where s: "settleFull g now pp 0 w = (Inr so, w1)"
    using assms pp by (cases "settleFull g now pp 0 w"; cases "fst (settleFull g now pp 0 w)")
      (auto simp: serveTopupSettlement_def http_json_def status_defs)
  obtain x l where x: "lg_Grant lg (so_AccountID so) (so_Rail so) (so_AmountAtoms so) (so_ExternalRef so) (so_Receipt so) now (w_ledger w1) = (x, l)"
    by (cases "lg_Grant lg (so_AccountID so) (so_Rail so) (so_AmountAtoms so) (so_ExternalRef so) (so_Receipt so) now (w_ledger w1)")
  obtain b ag where y: "x = Inr (b, ag)"
    using assms pp s x by (cases x) (auto simp: serveTopupSettlement_def http_json_def status_defs)
  from settleFull_cases [OF s] obtain p w2 where p: "settle_prepare g now pp w = (Inr p, w2)"
    and so: "so_AmountAtoms so = so_AmountAtoms (sp_Out p)" "so_ExternalRef so = so_ExternalRef (sp_Out p)"
      "so_AccountID so = so_AccountID (sp_Out p)" by auto
  have "topup_backed g (view (w_store w)) now pp (w_backend w) (w_onchain w) (so_AccountID so) (so_AmountAtoms so)"
    using settle_prepare_proved [OF p] so unfolding topup_backed_def by auto
  moreover have "so_ExternalRef so = topup_ref pp" using settle_prepare_ref [OF p] so by simp
  moreover have "l = w_ledger w'" "ho_Body out = JsonBody (jmap [(''status'', JStr (if so_Already so \<or> ag then ''already_credited'' else ''credited'')),
      (''rail'', JStr (so_Rail so)), (''grantedAtoms'', enc_int (so_AmountAtoms so)), (''balanceAtoms'', enc_int b),
      (''account'', JStr (so_AccountID so))])"
    using assms(1) pp s x y by (auto simp: serveTopupSettlement_def http_json_def)
  ultimately show ?thesis using pp s x y settleFull_ledger [OF s] by auto
qed

text \<open>A request answered 200 granted what backs its proof, unless the reference was granted before.\<close>

lemma topup_grant:
  assumes "gate_Topup g opts now r w = (out, w')" and "ho_Status out = StatusOK"
    and "inv (w_ledger w)" and "room (view (w_store w)) (abs (w_ledger w))"
  shows "\<exists>pp acct n. DecodeHeader zero_PaymentPayload dec_PaymentPayload (header_get (hr_Header r) HeaderPaymentSignature) = Inr pp \<and>
    topup_backed g (view (w_store w)) now pp (w_backend w) (w_onchain w) acct n \<and> inv (w_ledger w') \<and>
    (if cd_grants (abs (w_ledger w)) (topup_ref pp) = None then abs (w_ledger w') = credited (abs (w_ledger w)) (topup_ref pp) acct n
     else abs (w_ledger w') = abs (w_ledger w) \<and>
       (\<exists>kvs. ho_Body out = JsonBody (jmap ((''status'', JStr ''already_credited'') # kvs)))) \<and>
    cd_grants (abs (w_ledger w')) (topup_ref pp) \<noteq> None"
proof -
  let ?sig = "header_get (hr_Header r) HeaderPaymentSignature"
  have "serveTopupSettlement g lg now r ?sig w = (out, w')"
    using assms(1,2) has_ledger
    by (auto simp: gate_Topup_def Let_def http_json_def http_error_def status_defs split: if_splits option.splits prod.splits sum.splits)
  from serve_settlement_ok [OF this assms(2)] obtain pp and so :: settleOutcome and b ag where
    s: "DecodeHeader zero_PaymentPayload dec_PaymentPayload ?sig = Inr pp"
      "lg_Grant lg (so_AccountID so) (so_Rail so) (so_AmountAtoms so) (topup_ref pp) (so_Receipt so) now (w_ledger w) = (Inr (b, ag), w_ledger w')"
      "topup_backed g (view (w_store w)) now pp (w_backend w) (w_onchain w) (so_AccountID so) (so_AmountAtoms so)"
      "ho_Body out = JsonBody (jmap [(''status'', JStr (if so_Already so \<or> ag then ''already_credited'' else ''credited'')),
      (''rail'', JStr (so_Rail so)), (''grantedAtoms'', enc_int (so_AmountAtoms so)), (''balanceAtoms'', enc_int b),
      (''account'', JStr (so_AccountID so))])"
    by blast
  have le: "cd_balance (abs (w_ledger w)) (so_AccountID so) + so_AmountAtoms so \<le> int64_max"
    by (rule room_backed [OF assms(4) s(3)])
  from grant_law [OF assms(3) le s(2)] have g: "inv (w_ledger w')"
    "grant_spec (abs (w_ledger w)) (so_AccountID so) (so_AmountAtoms so) (topup_ref pp) (Inr (b, ag)) (abs (w_ledger w'))" by auto
  have "if cd_grants (abs (w_ledger w)) (topup_ref pp) = None
    then abs (w_ledger w') = credited (abs (w_ledger w)) (topup_ref pp) (so_AccountID so) (so_AmountAtoms so)
    else abs (w_ledger w') = abs (w_ledger w) \<and> ag"
    using g(2) by (auto simp: grant_spec_def credited_def split: option.splits)
  moreover have "cd_grants (abs (w_ledger w')) (topup_ref pp) \<noteq> None"
    using g(2) by (auto simp: grant_spec_def split: option.splits)
  ultimately show ?thesis using s(1,3,4) g(1) by (intro exI [of _ pp] exI [of _ "so_AccountID so"] exI [of _ "so_AmountAtoms so"]) auto
qed

lemma topup_again:
  assumes "gate_Topup g opts now r w = (out, w')" and "ho_Status out = StatusOK"
    and "inv (w_ledger w)" and "room (view (w_store w)) (abs (w_ledger w))"
    and "DecodeHeader zero_PaymentPayload dec_PaymentPayload (header_get (hr_Header r) HeaderPaymentSignature) = Inr pp"
    and "cd_grants (abs (w_ledger w)) (topup_ref pp) \<noteq> None"
  shows "abs (w_ledger w') = abs (w_ledger w) \<and> (\<exists>kvs. ho_Body out = JsonBody (jmap ((''status'', JStr ''already_credited'') # kvs)))"
  using topup_grant [OF assms(1-4)] assms(5,6) by auto

lemma topup_granted:
  assumes "gate_Topup g opts now r w = (out, w')" and "ho_Status out = StatusOK"
    and "inv (w_ledger w)" and "room (view (w_store w)) (abs (w_ledger w))"
    and "DecodeHeader zero_PaymentPayload dec_PaymentPayload (header_get (hr_Header r) HeaderPaymentSignature) = Inr pp"
  shows "inv (w_ledger w') \<and> cd_grants (abs (w_ledger w')) (topup_ref pp) \<noteq> None"
  using topup_grant [OF assms(1-4)] assms(5) by auto

lemma topup_grant_first:
  assumes "gate_Topup g opts now r w = (out, w')" and "ho_Status out = StatusOK"
    and "inv (w_ledger w)" and "room (view (w_store w)) (abs (w_ledger w))"
    and "\<And>ref. cd_grants (abs (w_ledger w)) ref = None"
  shows "\<exists>pp acct n. topup_backed g (view (w_store w)) now pp (w_backend w) (w_onchain w) acct n \<and>
    abs (w_ledger w') = credited (abs (w_ledger w)) (topup_ref pp) acct n"
  using topup_grant [OF assms(1-4)] assms(5) by auto

section \<open>Charging\<close>

lemma credentialAccount_names:
  assumes "credentialAccount g now a w = (Inr acct, w')"
  shows "credential_names g (view (w_store w)) now a acct"
  using assms unfolding credentialAccount_def authorizeToken_def credential_names_def
  by (auto split: if_splits option.splits sum.splits prod.splits list.splits dest!: get_root)

lemma charge_cases:
  assumes "ChargeCredential g now a tool n key w = (res, w')" and "inv (w_ledger w)"
  shows "case res of
      Inr b \<Rightarrow> (\<exists>acct. credential_names g (view (w_store w)) now a acct \<and> inv (w_ledger w') \<and>
        charge_spec (abs (w_ledger w)) acct n key (Inr b) (abs (w_ledger w')))
    | Inl e \<Rightarrow> abs (w_ledger w') = abs (w_ledger w)"
proof -
  obtain c w1 where c: "credentialAccount g now a w = (c, w1)" by (cases "credentialAccount g now a w")
  show ?thesis
  proof (cases c)
    case (Inl e)
    with assms(1) c has_ledger credentialAccount_ledger [OF c] show ?thesis by (auto simp: ChargeCredential_def)
  next
    case (Inr acct)
    obtain x l where x: "lg_Charge lg acct tool n tool key now (w_ledger w) = (x, l)"
      by (cases "lg_Charge lg acct tool n tool key now (w_ledger w)")
    have names: "credential_names g (view (w_store w)) now a acct" using credentialAccount_names c Inr by blast
    then have "account_ok acct" by (auto simp: credential_names_def account_ok_def dest: hex_encode_chars)
    from charge_law [OF assms(2) this x] names assms(1) c Inr x has_ledger credentialAccount_ledger [OF c] show ?thesis
      by (cases x) (auto simp: ChargeCredential_def charge_spec_def split: ledger_error.splits)
  qed
qed

end

interpretation sq_credit: credit_gate "g\<lparr>gc_Store := SQLiteStore clock, gc_Ledger := Some SQLiteLedger\<rparr>" db_view SQLiteLedger
  "\<lambda>s. db_credit (cn_db s)" "\<lambda>s. db_inv (cn_db s)"
  for g :: "(store_db conn, ledger_db conn, 'b, 'o) GateConfig" and clock
proof -
  have eq: "g\<lparr>gc_Ledger := Some SQLiteLedger, gc_Store := SQLiteStore clock\<rparr> = g\<lparr>gc_Store := SQLiteStore clock, gc_Ledger := Some SQLiteLedger\<rparr>"
    by (cases g) simp
  have "keyed_gate (g\<lparr>gc_Store := SQLiteStore clock, gc_Ledger := Some SQLiteLedger\<rparr>) db_view"
    using sq_keyed.keyed_gate_axioms [of clock "g\<lparr>gc_Ledger := Some SQLiteLedger\<rparr>"] unfolding eq .
  then show "credit_gate (g\<lparr>gc_Store := SQLiteStore clock, gc_Ledger := Some SQLiteLedger\<rparr>) db_view SQLiteLedger
      (\<lambda>s. db_credit (cn_db s)) (\<lambda>s. db_inv (cn_db s))"
    by (simp add: credit_gate_def credit_gate_axioms_def sq_ledger.ledger_axioms)
qed

end
