(* ===== verification/TopupClaims.thy ===== *)
theory TopupClaims
  imports TopupProps
begin

text \<open>
  The properties of the credit rails over the SQLite store and the SQLite ledger, with the sample
  gate of the payment properties, extended by a ledger, for the witnesses.
\<close>

lemma credit_config:
  "gc_Store g = SQLiteStore clock \<Longrightarrow> gc_Ledger g = Some SQLiteLedger \<Longrightarrow>
   g\<lparr>gc_Store := SQLiteStore clock, gc_Ledger := Some SQLiteLedger\<rparr> = g"
  by (cases g) simp

section \<open>A gate with credits\<close>

definition credit_gate_sample :: "(store_db conn, ledger_db conn, unit, unit) GateConfig" where
  "credit_gate_sample = (sample_gate (SQLiteStore 0))\<lparr>gc_Ledger := Some SQLiteLedger\<rparr>"

definition credit_identifier :: Identifier where
  "credit_identifier = \<lparr>id_Version = IdentifierVersion, id_PaymentHash = sha256 sample_preimage, id_TokenID = replicate 32 (CHR ''r'')\<rparr>"

definition credit_store :: "store_db conn" where
  "credit_store = \<lparr>cn_db = (cn_db sample_sq)\<lparr>tb_root_keys := [StorageKey credit_identifier \<mapsto> (replicate 32 (CHR ''r''), 0)]\<rparr>, cn_faults = []\<rparr>"

definition credit_world :: "ledger_db \<Rightarrow> (store_db conn, ledger_db conn, unit, unit) world" where
  "credit_world db = \<lparr>w_store = credit_store, w_ledger = \<lparr>cn_db = db, cn_faults = []\<rparr>, w_backend = (), w_onchain = (), w_reads = 0\<rparr>"

lemma credit_sample_simps [simp]:
  "gc_Store credit_gate_sample = SQLiteStore 0" "gc_Ledger credit_gate_sample = Some SQLiteLedger"
  "gc_Backend credit_gate_sample = sample_node" "gc_Service credit_gate_sample = ''api''"
  "w_store (credit_world db) = credit_store" "w_ledger (credit_world db) = \<lparr>cn_db = db, cn_faults = []\<rparr>"
  by (simp_all add: credit_gate_sample_def credit_world_def)

lemma credit_sample_entry: "lightning_entry credit_gate_sample 5 ''lnsdcr1'' (sha256 sample_preimage) = sample_entry"
  by (simp add: credit_gate_sample_def lightning_entry_def sample_gate_def sample_entry_def)

lemma credit_sample_proof: "DecodeHeader zero_PaymentPayload dec_PaymentPayload
    (header_get (hr_Header (proof_request sample_entry sample_preimage)) HeaderPaymentSignature) =
  Inr \<lparr>pp_X402Version = Version, pp_Resource = None, pp_Accepted = sample_entry, pp_Payload = Some (lightning_proof sample_preimage),
    pp_Extensions = []\<rparr>"
proof -
  let ?pp = "\<lparr>pp_X402Version = Version, pp_Resource = None, pp_Accepted = sample_entry,
    pp_Payload = Some (lightning_proof sample_preimage), pp_Extensions = []\<rparr>"
  have "wf_PaymentPayload ?pp"
    by (simp add: lightning_proof_def wf_PaymentPayload_def wf_raw_def wf_Extensions_def sorted_keys_def Version_def int64_defs)
  moreover have "header_get (hr_Header (proof_request sample_entry sample_preimage)) HeaderPaymentSignature = EncodeHeader (json_PaymentPayload ?pp)"
    by (simp add: proof_request_def header_get_def)
  ultimately show ?thesis by (simp add: DecodeHeader_EncodeHeader)
qed

lemma credit_sample_settles:
  fixes pp
  defines "pp \<equiv> \<lparr>pp_X402Version = Version, pp_Resource = None, pp_Accepted = sample_entry,
    pp_Payload = Some (lightning_proof sample_preimage), pp_Extensions = []\<rparr>"
  shows "\<exists>so w1. settleFull credit_gate_sample 0 pp 0 (credit_world db) = (Inr so, w1) \<and> so_AmountAtoms so = 5 \<and>
    so_ExternalRef so \<noteq> []"
proof -
  let ?g = credit_gate_sample and ?w = "credit_world db"
  obtain ch where get: "st_GetChallenge (gc_Store ?g) (sha256 sample_preimage) (w_store ?w) = (Inr ch, credit_store)"
    and ch: "0 \<le> sc_ExpiresAt ch" "sc_Requirements ch = json_print (json_PaymentRequirements sample_entry)"
      "sc_MacaroonB64 ch = b64_encode (MarshalBinary sample_macaroon_rk)" "sc_PaymentHash ch = sha256 sample_preimage"
      "sc_AmountAtoms ch = 5"
    by (simp add: SQLiteStore_def Sq_GetChallenge_def andThen_def query_ok credit_store_def sample_sq_def row_or_missing_def ret_def
        challenge_of_def from_unix_def second_def)
  have set: "\<exists>s'. st_Settle (gc_Store ?g) (sha256 sample_preimage) resp 0 credit_store = (Inr (resp, False), s')" for resp
    by (simp add: SQLiteStore_def Sq_Settle_def transaction_def andThen_def settle_body_def stmt_ok query_ok
        insert_settlement_def insert_new_def ret_def credit_store_def sample_sq_def OpenSQLiteStore_def)
  have look: "ib_LookupInvoice (gc_Backend ?g) (sha256 sample_preimage) (w_backend ?w) = (Inr \<lparr>is_Settled = True, is_AmtPaidMAtoms = 5000\<rparr>, ())"
    by (simp add: sample_node_def)
  have good: "good_invoice ?g 5 ''lnsdcr1'' sample_preimage"
    by (simp add: credit_gate_sample_def good_invoice_def sample_gate_def sample_invoice_def sample_preimage_def Simnet_def HasPrefix_def)
  have nums: "(0 :: int) < 5" "in_int64 (5 :: int)" "in_int64 (Seconds (gc_ChallengeTTL ?g))"
    by (simp_all add: credit_gate_sample_def int64_defs Seconds_def time_units)
  obtain p w1 where "prep_lightning ?g 0 ch \<lparr>lp_Preimage = hex_encode sample_preimage, lp_PaymentHash = hex_encode (sha256 sample_preimage)\<rparr> = Inr p"
    "settleFull ?g 0 pp 0 ?w = (Inr ((sp_Out p)\<lparr>so_Response := finish_response ?g 0 pp p, so_Already := False\<rparr>), w1)"
    using settleFull_complete [OF good nums _ _ _ get ch(1) _ ch(3) sample_mac ch(4) _ look _ set, of pp 0] ch(2,5)
    by (auto simp: credit_sample_entry pp_def)
  then show ?thesis using ch(5) by (auto simp: prep_lightning_def split: option.splits)
qed

lemma credit_sample_room: "room (db_view credit_store) (db_credit empty_ledger_db)"
  by (auto simp: room_def db_view_def rows_view_def credit_store_def sample_sq_def OpenSQLiteStore_def challenge_of_def db_credit_def
      balance_of_empty int64_defs split: if_splits)

lemma credit_sample_topup:
  "\<exists>out w1. gate_Topup credit_gate_sample opts 0 (proof_request sample_entry sample_preimage) (credit_world empty_ledger_db) = (out, w1) \<and>
     ho_Status out = 200"
proof -
  let ?g = credit_gate_sample and ?w = "credit_world empty_ledger_db"
  obtain so w1 where s: "settleFull ?g 0 \<lparr>pp_X402Version = Version, pp_Resource = None, pp_Accepted = sample_entry,
    pp_Payload = Some (lightning_proof sample_preimage), pp_Extensions = []\<rparr> 0 ?w = (Inr so, w1)" "so_AmountAtoms so = 5" "so_ExternalRef so \<noteq> []"
    using credit_sample_settles by blast
  have l: "w_ledger w1 = \<lparr>cn_db = empty_ledger_db, cn_faults = []\<rparr>" using settleFull_ledger [OF s(1)] by simp
  obtain s1 where "SQLite_Grant (so_AccountID so) (so_Rail so) 5 (so_ExternalRef so) (so_Receipt so) 0 (w_ledger w1) = (Inr (5, False), s1)"
    using sqlite_grant_fresh [of "w_ledger w1" "so_AccountID so" "so_ExternalRef so" 5 "so_Rail so" "so_Receipt so" 0] s(3)
    by (auto simp: l empty_ledger_db_def grant_by_ref_def int64_defs)
  moreover have "header_get (hr_Header (proof_request sample_entry sample_preimage)) HeaderPaymentSignature \<noteq> []"
    by (simp add: proof_request_def header_get_def)
  ultimately show ?thesis
    using s by (simp add: gate_Topup_def serveTopupSettlement_def credit_sample_proof SQLiteLedger_def http_json_def status_defs Let_def)
qed

section \<open>Top-ups\<close>

text \<open>
  C30: a top-up credits what was paid.  When a gate over the SQLite store and ledger answers a
  top-up with 200, behind the proof stands a stored challenge that the node or the wallet confirms
  as paid, and the ledger has grown by exactly that challenge's amount on the account its
  credential names; the only other possibility is that this payment's reference had been granted
  before, and then no balance moved and the answer says so.  That holds too when an earlier
  attempt settled the proof and lost the grant: presenting it again credits it.
\<close>
theorem topup_credits_payment:
  assumes "gc_Store g = SQLiteStore clock" and "gc_Ledger g = Some SQLiteLedger"
    and "gate_Topup g opts now r w = (out, w')" and "ho_Status out = 200"
    and "db_inv (cn_db (w_ledger w))" and "room (db_view (w_store w)) (db_credit (cn_db (w_ledger w)))"
  shows "\<exists>pp acct n. DecodeHeader zero_PaymentPayload dec_PaymentPayload (header_get (hr_Header r) HeaderPaymentSignature) = Inr pp \<and>
    topup_backed g (db_view (w_store w)) now pp (w_backend w) (w_onchain w) acct n \<and>
    (if grant_by_ref (topup_ref pp) (cn_db (w_ledger w)) = None
     then balance_of (cn_db (w_ledger w')) = (balance_of (cn_db (w_ledger w)))(acct := balance_of (cn_db (w_ledger w)) acct + n)
     else balance_of (cn_db (w_ledger w')) = balance_of (cn_db (w_ledger w)) \<and>
       (\<exists>kvs. ho_Body out = JsonBody (jmap ((''status'', JStr ''already_credited'') # kvs))))"
  using sq_credit.topup_grant [of clock g, unfolded credit_config [OF assms(1,2)], OF assms(3) _ assms(5,6)] assms(4)
  by (fastforce simp: StatusOK_def db_credit_def credited_def)

text \<open>The sample after its one top-up.\<close>

definition no_options :: TopupOptions where
  "no_options = \<lparr>to_MinAtoms = 0, to_MaxAtoms = 0, to_DefaultAtoms = 0, to_Confirmations = 0, to_Resource = None\<rparr>"

lemma credit_sample_amount: "topup_backed credit_gate_sample (db_view credit_store) 0 pp () () acct n \<Longrightarrow> n = 5"
  by (auto simp: topup_backed_def lightning_paid_def onchain_paid_def db_view_def rows_view_def credit_store_def sample_sq_def
      OpenSQLiteStore_def challenge_of_def split: if_splits)

lemma credit_sample_start:
  "db_inv (cn_db (w_ledger (credit_world empty_ledger_db)))"
  "room (db_view (w_store (credit_world empty_ledger_db))) (db_credit (cn_db (w_ledger (credit_world empty_ledger_db))))"
  using credit_sample_room by (simp_all add: empty_db_inv)

lemma credit_sample_balance:
  assumes "topup_backed credit_gate_sample (db_view credit_store) 0 pp () () acct n"
    and "db_credit db = credited (db_credit empty_ledger_db) ref acct n"
  shows "balance_of db a \<le> 5"
proof -
  have "balance_of db a = cd_balance (db_credit db) a" by (simp add: db_credit_def)
  then show ?thesis using credit_sample_amount [OF assms(1)] unfolding assms(2)
    by (simp add: credited_def db_credit_def balance_of_empty)
qed

lemma credit_sample_room_5:
  assumes "\<And>a. balance_of db a \<le> 5"
  shows "room (db_view credit_store) (db_credit db)"
proof -
  have "balance_of db a + 5 \<le> int64_max" for a using assms [of a] by (simp add: int64_defs)
  then show ?thesis
    by (auto simp: room_def db_view_def rows_view_def credit_store_def sample_sq_def OpenSQLiteStore_def challenge_of_def
        db_credit_def split: if_splits)
qed

theorem topup_credits_payment_witness:
  "\<exists>out w' acct. gate_Topup credit_gate_sample no_options 0 (proof_request sample_entry sample_preimage) (credit_world empty_ledger_db) = (out, w') \<and>
    balance_of (cn_db (w_ledger w')) acct = 5"
proof -
  let ?w = "credit_world empty_ledger_db"
  obtain out w' where s: "gate_Topup credit_gate_sample no_options 0 (proof_request sample_entry sample_preimage) ?w = (out, w')" "ho_Status out = 200"
    using credit_sample_topup by blast
  from topup_credits_payment [OF credit_sample_simps(1,2) s credit_sample_start] obtain pp acct n where
    p: "topup_backed credit_gate_sample (db_view credit_store) 0 pp () () acct n"
      "balance_of (cn_db (w_ledger w')) = (balance_of empty_ledger_db)(acct := balance_of empty_ledger_db acct + n)"
    by (auto simp: grant_by_ref_def empty_ledger_db_def credit_world_def)
  then have "balance_of (cn_db (w_ledger w')) acct = 5" using credit_sample_amount [OF p(1)] by (simp add: balance_of_empty)
  then show ?thesis using s(1) by blast
qed

text \<open>
  C31: a payment is credited once.  After a top-up was answered with 200, whatever happens to the
  gate in between (any grants and charges of the ledger, any state of the store, the node and the
  wallet), a later top-up that presents a proof of the same payment changes nothing in the ledger
  and is told that it was credited already, as long as the sums fit 64 bits.
\<close>
theorem topup_credits_once:
  assumes "gc_Store g = SQLiteStore clock" and "gc_Ledger g = Some SQLiteLedger"
    and first: "gate_Topup g opts now r w = (out, w1)" "ho_Status out = 200"
    and books: "db_inv (cn_db (w_ledger w))" "room (db_view (w_store w)) (db_credit (cn_db (w_ledger w)))"
    and between: "w_ledger w2 = ledger_run SQLiteLedger xs (w_ledger w1)" "list_all op_ok xs"
      "\<And>a. balance_of (cn_db (w_ledger w1)) a + run_credit xs \<le> int64_max"
      "room (db_view (w_store w2)) (db_credit (cn_db (w_ledger w2)))"
    and again: "gate_Topup g opts' t r' w2 = (out', w3)" "ho_Status out' = 200"
    and same: "DecodeHeader zero_PaymentPayload dec_PaymentPayload (header_get (hr_Header r) HeaderPaymentSignature) = Inr pp"
      "DecodeHeader zero_PaymentPayload dec_PaymentPayload (header_get (hr_Header r') HeaderPaymentSignature) = Inr pp'"
      "topup_ref pp' = topup_ref pp"
  shows "db_credit (cn_db (w_ledger w3)) = db_credit (cn_db (w_ledger w2)) \<and>
    (\<exists>kvs. ho_Body out' = JsonBody (jmap ((''status'', JStr ''already_credited'') # kvs)))"
proof -
  note g = credit_config [OF assms(1,2)]
  have ok: "ho_Status out = StatusOK" "ho_Status out' = StatusOK" using first again by (simp_all add: StatusOK_def)
  from sq_credit.topup_granted [of clock g, unfolded g, OF first(1) ok(1) books same(1)] have
    i: "db_inv (cn_db (w_ledger w1))" "cd_grants (db_credit (cn_db (w_ledger w1))) (topup_ref pp) \<noteq> None" by blast+
  have le: "cd_balance (db_credit (cn_db (w_ledger w1))) a + run_credit xs \<le> int64_max" for a
    using between(3) [of a] by (simp add: db_credit_def)
  from sq_ledger.run_law [OF i(1) between(2) le] have
    run: "db_inv (cn_db (w_ledger w2))" "credit_extends (db_credit (cn_db (w_ledger w1))) (db_credit (cn_db (w_ledger w2)))"
    unfolding between(1) by blast+
  from credit_extends_granted [OF run(2) i(2)] have "cd_grants (db_credit (cn_db (w_ledger w2))) (topup_ref pp') \<noteq> None"
    unfolding same(3) .
  from sq_credit.topup_again [of clock g, unfolded g, OF again(1) ok(2) run(1) between(4) same(2) this] show ?thesis .
qed

lemma credit_sample_after:
  "\<exists>out w1. gate_Topup credit_gate_sample no_options 0 (proof_request sample_entry sample_preimage) (credit_world empty_ledger_db) = (out, w1) \<and>
     ho_Status out = 200 \<and> (\<forall>a. balance_of (cn_db (w_ledger w1)) a \<le> 5)"
proof -
  let ?r = "proof_request sample_entry sample_preimage" and ?w = "credit_world empty_ledger_db"
  obtain out w1 where s: "gate_Topup credit_gate_sample no_options 0 ?r ?w = (out, w1)" "ho_Status out = 200"
    using credit_sample_topup by blast
  have ok: "ho_Status out = StatusOK" using s(2) by (simp add: StatusOK_def)
  have none: "cd_grants (db_credit (cn_db (w_ledger ?w))) ref = None" for ref
    by (simp add: db_credit_def grant_by_ref_def empty_ledger_db_def)
  note first = sq_credit.topup_grant_first [of 0 credit_gate_sample, unfolded credit_config [OF credit_sample_simps(1,2)]]
  from first [OF s(1) ok credit_sample_start none] obtain pp acct n where
    b: "topup_backed credit_gate_sample (db_view (w_store ?w)) 0 pp (w_backend ?w) (w_onchain ?w) acct n"
      "db_credit (cn_db (w_ledger w1)) = credited (db_credit (cn_db (w_ledger ?w))) (topup_ref pp) acct n" by blast
  have "balance_of (cn_db (w_ledger w1)) a \<le> 5" for a
    by (rule credit_sample_balance) (use b in simp_all)
  with s show ?thesis by blast
qed

theorem topup_credits_once_witness:
  "\<exists>out w1. gate_Topup credit_gate_sample no_options 0 (proof_request sample_entry sample_preimage) (credit_world empty_ledger_db) = (out, w1) \<and>
    ho_Status out = 200 \<and>
    (\<forall>out' w3. gate_Topup credit_gate_sample no_options 0 (proof_request sample_entry sample_preimage)
        ((credit_world empty_ledger_db)\<lparr>w_ledger := w_ledger w1\<rparr>) = (out', w3) \<longrightarrow>
      ho_Status out' = 200 \<longrightarrow> db_credit (cn_db (w_ledger w3)) = db_credit (cn_db (w_ledger w1)))"
proof -
  let ?r = "proof_request sample_entry sample_preimage" and ?w = "credit_world empty_ledger_db"
  obtain out w1 where s: "gate_Topup credit_gate_sample no_options 0 ?r ?w = (out, w1)" "ho_Status out = 200"
    and bal: "\<And>a. balance_of (cn_db (w_ledger w1)) a \<le> 5" using credit_sample_after by blast
  let ?w2 = "?w\<lparr>w_ledger := w_ledger w1\<rparr>"
  have fits: "balance_of (cn_db (w_ledger w1)) a + run_credit [] \<le> int64_max" for a
    using bal [of a] by (simp add: run_credit_def int64_defs)
  have between: "w_ledger ?w2 = ledger_run SQLiteLedger [] (w_ledger w1)" "list_all op_ok []"
    "room (db_view (w_store ?w2)) (db_credit (cn_db (w_ledger ?w2)))"
    using credit_sample_room_5 [OF bal] by simp_all
  have "db_credit (cn_db (w_ledger w3)) = db_credit (cn_db (w_ledger w1))"
    if again: "gate_Topup credit_gate_sample no_options 0 ?r ?w2 = (out', w3)" "ho_Status out' = 200" for out' w3
    using topup_credits_once [OF credit_sample_simps(1,2) s credit_sample_start between(1,2) fits between(3) again
        credit_sample_proof credit_sample_proof refl] by simp
  then show ?thesis using s by blast
qed

lemma unmarshal_OnchainExtra [simp]:
  "in_int64 (oe_Confirmations e) \<Longrightarrow> unmarshal_into zero_OnchainExtra dec_OnchainExtra (Some (json_OnchainExtra e)) = Some e"
  by (cases e) (simp add: unmarshal_into_def dec_OnchainExtra_def json_OnchainExtra_def zero_OnchainExtra_def field_defs)

lemma mintCredential_minted:
  "mintCredential g h tok now w = (Inr (mac, b64), w') \<Longrightarrow> \<exists>rk. mac = minted g now rk h tok \<and> b64 = b64_encode (MarshalBinary mac)"
  by (auto simp: mintCredential_def minted_def Let_def split: option.splits prod.splits sum.splits)

lemma minted_account:
  assumes "fits g now" and "length h = 32" and "length tok = 32"
  shows "accountFromMacaroon (b64_encode (MarshalBinary (minted g now rk h tok))) = Some (hex_encode tok)"
  using accountFromMacaroon_marshal [OF wf_minted [OF assms] minted_Identifier [OF assms(2,3)]] by simp

lemma topup_onchain_entry:
  assumes "topup_onchain g now bind n k tok ob w = (Inr entry, w')"
  shows "\<exists>address rk h. length h = 32 \<and>
    entry = onchain_entry g n k address (b64_encode (MarshalBinary (minted g now rk h tok)))"
proof -
  from assms obtain address credPre mac b64 w1 w2 where
    "mintCredential g (sha256 credPre) tok now w1 = (Inr (mac, b64), w2)" "entry = onchain_entry g n k address b64"
    by (auto simp: topup_onchain_def split: option.splits prod.splits sum.splits)
  with mintCredential_minted length_sha256 show ?thesis by metis
qed

text \<open>
  One payment account, two rails.  A top-up challenge offers Lightning and, on a gate with a
  wallet, one on-chain entry, both for the same amount on the same network; the credential of the
  Lightning method and the one carried by the on-chain entry name the same account, so whichever
  rail is paid funds it.  The node's payment hashes and the random reads have 32 bytes.
\<close>
theorem topup_rails_share_account:
  assumes "buildTopupChallenge g now res bind n k w = (Inr art, w')"
    and "\<And>i b. gc_Rand g i = Some b \<Longrightarrow> length b = 32"
    and "\<And>a m d b i h b'. ib_CreateInvoice (gc_Backend g) a m d b = (Inr (i, h), b') \<Longrightarrow> length h = 32"
    and "fits g now" and "in_int64 k"
  shows "\<exists>acct entryL rest. rq_Accepts (ca_PaymentRequired art) = entryL # rest \<and> length rest = (if gc_Onchain g = None then 0 else 1) \<and>
    accountFromMacaroon (b64_encode (MarshalBinary (ca_Macaroon art))) = Some acct \<and> TransferMethod entryL = MethodLightning \<and>
    (\<forall>e\<in>set (entryL # rest). pr_Amount e = FormatInt n \<and> pr_Network e = nw_CAIP2 (gc_Network g)) \<and>
    (\<forall>e\<in>set rest. \<exists>x. unmarshal_into zero_OnchainExtra dec_OnchainExtra (pr_Extra e) = Some x \<and>
       accountFromMacaroon (oe_Credential x) = Some acct \<and> oe_Confirmations x = k)"
proof -
  obtain tok w0 where tok: "rand_read g w = (Some tok, w0)"
    using assms(1) by (auto simp: buildTopupChallenge_def Let_def split: option.splits prod.splits)
  then have len: "length tok = 32" using assms(2) by (auto simp: rand_read_def)
  let ?bind = "if bind = [] then ri_URL res else bind"
  obtain invoice h b where inv: "ib_CreateInvoice (gc_Backend g) n (gc_Service g @ '' topup '' @ ?bind) (gc_ChallengeTTL g) (w_backend w0) = (Inr (invoice, h), b)"
    using assms(1) tok by (auto simp: buildTopupChallenge_def Let_def split: prod.splits sum.splits)
  have h: "length h = 32" by (rule assms(3) [OF inv])
  obtain mac b64 w1 where mint: "mintCredential g h tok now (w0\<lparr>w_backend := b\<rparr>) = (Inr (mac, b64), w1)"
    using assms(1) tok inv by (auto simp: buildTopupChallenge_def Let_def split: prod.splits sum.splits)
  from mintCredential_minted [OF mint] minted_account [OF assms(4) h len]
  have acct: "accountFromMacaroon (b64_encode (MarshalBinary mac)) = Some (hex_encode tok)" by auto
  let ?e = "lightning_entry g n invoice h"
  have e: "TransferMethod ?e = MethodLightning" "pr_Amount ?e = FormatInt n" "pr_Network ?e = nw_CAIP2 (gc_Network g)"
    by (simp_all add: lightning_entry_def TransferMethod_lightning)
  show ?thesis
  proof (cases "gc_Onchain g")
    case None
    with assms(1) tok inv mint have "rq_Accepts (ca_PaymentRequired art) = [?e]" "ca_Macaroon art = mac"
      by (auto simp: buildTopupChallenge_def topup_required_def Let_def split: prod.splits sum.splits)
    with None acct e show ?thesis by auto
  next
    case (Some ob)
    with assms(1) tok inv mint obtain w2 w3 entryO where
      o: "topup_onchain g now ?bind n k tok ob w2 = (Inr entryO, w3)" "rq_Accepts (ca_PaymentRequired art) = [?e, entryO]" "ca_Macaroon art = mac"
      by (auto simp: buildTopupChallenge_def topup_required_def Let_def split: prod.splits sum.splits)
    from topup_onchain_entry [OF o(1)] obtain address rk h' where
      x: "length h' = 32" "entryO = onchain_entry g n k address (b64_encode (MarshalBinary (minted g now rk h' tok)))" by blast
    have "\<exists>x. unmarshal_into zero_OnchainExtra dec_OnchainExtra (pr_Extra entryO) = Some x \<and>
        accountFromMacaroon (oe_Credential x) = Some (hex_encode tok) \<and> oe_Confirmations x = k"
      using minted_account [OF assms(4) x(1) len, of rk] assms(5) by (simp add: x(2) onchain_entry_def)
    with Some o acct e x(2) show ?thesis by (auto simp: onchain_entry_def)
  qed
qed

definition sample_wallet :: "unit Onchain_ops" where
  "sample_wallet = \<lparr>ob_NewDepositAddress = (\<lambda>c. (Inr ''SsAddr'', c)), ob_LookupDeposit = (\<lambda>_ _ c. (Inl (), c))\<rparr>"

definition two_rail_gate :: "(store_mem, unit, unit, unit) GateConfig" where
  "two_rail_gate = (sample_gate MemoryStore)\<lparr>gc_Onchain := Some sample_wallet\<rparr>"

theorem topup_rails_share_account_witness:
  "\<exists>art w' acct entryL entryO. buildTopupChallenge two_rail_gate 0 zero_ResourceInfo ''/topup'' 700000 2 (sample_world NewMemoryStore) = (Inr art, w') \<and>
     rq_Accepts (ca_PaymentRequired art) = [entryL, entryO] \<and>
     accountFromMacaroon (b64_encode (MarshalBinary (ca_Macaroon art))) = Some acct \<and>
     (\<exists>x. unmarshal_into zero_OnchainExtra dec_OnchainExtra (pr_Extra entryO) = Some x \<and> accountFromMacaroon (oe_Credential x) = Some acct)"
proof -
  have "\<exists>art w'. buildTopupChallenge two_rail_gate 0 zero_ResourceInfo ''/topup'' 700000 2 (sample_world NewMemoryStore) = (Inr art, w')"
    by (simp add: buildTopupChallenge_def topup_onchain_def mintCredential_def rand_read_def two_rail_gate_def sample_wallet_def
        sample_node_def mem_store_defs Let_def)
  then obtain art w' where s: "buildTopupChallenge two_rail_gate 0 zero_ResourceInfo ''/topup'' 700000 2 (sample_world NewMemoryStore) = (Inr art, w')"
    by blast
  have "fits two_rail_gate 0" using fits_sample by (simp add: fits_def mint_caveats_def two_rail_gate_def sample_gate_def)
  then obtain acct entryL rest where r: "rq_Accepts (ca_PaymentRequired art) = entryL # rest" "length rest = 1"
      "accountFromMacaroon (b64_encode (MarshalBinary (ca_Macaroon art))) = Some acct"
      "\<forall>e\<in>set rest. \<exists>x. unmarshal_into zero_OnchainExtra dec_OnchainExtra (pr_Extra e) = Some x \<and>
         accountFromMacaroon (oe_Credential x) = Some acct \<and> oe_Confirmations x = 2"
    using topup_rails_share_account [OF s] by (auto simp: two_rail_gate_def sample_node_def int64_defs)
  then obtain entryO where "rest = [entryO]" by (auto simp: length_Suc_conv)
  with s r show ?thesis by auto
qed

section \<open>Spending\<close>

text \<open>
  C33: a request gated by credits runs only when it was paid for.  The handler behind
  \<open>RequireCredits\<close> runs only for a credential that verifies against the stored root key, and then
  the account it names was charged exactly the price, out of a balance that covered it, or the
  request repeats an idempotency key that was charged before and the ledger is unchanged; the
  balance it is told is the ledger's.  A request that is not served is not charged.
\<close>
theorem credits_charged:
  assumes "gc_Store g = SQLiteStore clock" and "gc_Ledger g = Some SQLiteLedger"
    and "RequireCredits g tool n now r w = (out, w')" and "db_inv (cn_db (w_ledger w))"
  defines "key \<equiv> header_get (hr_Header r) ''Idempotency-Key''" and "C \<equiv> db_credit (cn_db (w_ledger w))"
    and "C' \<equiv> db_credit (cn_db (w_ledger w'))"
  shows "if ho_Next out
    then \<exists>acct. credential_names g (db_view (w_store w)) now (header_get (hr_Header r) ''Authorization'') acct \<and> 0 < n \<and>
      ho_Header out = [(''Dcr402-Balance'', FormatInt (cd_balance C' acct))] \<and>
      (if key \<noteq> [] \<and> (acct, key) \<in> cd_charged C then C' = C
       else n \<le> cd_balance C acct \<and> cd_balance C' = (cd_balance C)(acct := cd_balance C acct - n) \<and>
         (key \<noteq> [] \<longrightarrow> (acct, key) \<in> cd_charged C'))
    else C' = C"
proof -
  obtain res w1 where c: "ChargeCredential g now (header_get (hr_Header r) ''Authorization'') tool n key w = (res, w1)"
    by (cases "ChargeCredential g now (header_get (hr_Header r) ''Authorization'') tool n key w")
  note cases = sq_credit.charge_cases [of clock g, unfolded credit_config [OF assms(1,2)], OF c assms(4)]
  show ?thesis
  proof (cases res)
    case (Inl e)
    with assms(3) c have "w' = w1" "\<not> ho_Next out"
      by (auto simp: RequireCredits_def key_def http_json_def http_error_def split: credit_error.splits ledger_error.splits)
    with cases Inl show ?thesis by (simp add: C_def C'_def)
  next
    case (Inr b)
    with assms(3) c have o: "w' = w1" "ho_Next out" "ho_Header out = [(''Dcr402-Balance'', FormatInt b)]"
      by (auto simp: RequireCredits_def key_def run_next_def header_set_single)
    from cases Inr obtain acct where "credential_names g (db_view (w_store w)) now (header_get (hr_Header r) ''Authorization'') acct"
      "charge_spec C acct n key (Inr b) C'" by (auto simp: C_def C'_def o(1))
    with o show ?thesis by (intro if_P [THEN iffD2] exI [of _ acct]) (auto simp: charge_spec_def split: if_splits)
  qed
qed

text \<open>The sample with five atoms on the account of its credential.\<close>

definition credit_account :: string where
  "credit_account = hex_encode (replicate 32 (CHR ''r''))"

definition credit_db :: ledger_db where
  "credit_db = \<lparr>db_accounts = [credit_account \<mapsto> \<lparr>ar_balance = 5, ar_created = 0, ar_last_seen = 0\<rparr>],
     db_grants = [\<lparr>gr_ref = ''ln:01'', gr_account = credit_account, gr_rail = MethodLightning, gr_amount = 5, gr_receipt = [], gr_created = 0\<rparr>],
     db_charges = []\<rparr>"

definition credit_request :: HttpRequest where
  "credit_request = \<lparr>hr_Method = ''GET'', hr_Host = ''h'', hr_TLS = False, hr_Path = ''/x'',
     hr_Header = [(''Authorization'', AuthorizationValue sample_macaroon_rk (hex_encode sample_preimage))], hr_Form = []\<rparr>"

lemma credit_request_header: "header_get (hr_Header credit_request) ''Authorization'' = AuthorizationValue sample_macaroon_rk (hex_encode sample_preimage)"
  "header_get (hr_Header credit_request) ''Idempotency-Key'' = []"
  by (simp_all add: credit_request_def header_get_def EqualFold_def ToLower_def lower_char_def Let_def)

lemma parse_not_blank: "ParseAuthorization v = Some x \<Longrightarrow> TrimSpace v \<noteq> []"
  by (auto simp: ParseAuthorization_def Fields_def)

lemma credit_sample_account:
  "credentialAccount credit_gate_sample 0 (AuthorizationValue sample_macaroon_rk (hex_encode sample_preimage)) (credit_world db) =
   (Inr credit_account, credit_world db)"
proof -
  let ?g = "sample_gate MemoryStore :: (store_mem, unit, unit, unit) GateConfig"
  have pre: "length sample_preimage = 32" and tok: "length (replicate 32 (CHR ''r'')) = 32" by (simp_all add: sample_preimage_def)
  have parse: "ParseAuthorization (AuthorizationValue sample_macaroon_rk (hex_encode sample_preimage)) =
      Some (Inr ([sample_macaroon_rk], hex_encode sample_preimage))"
    by (intro ParseAuthorization_value sample_mac) (simp_all add: sample_preimage_def)
  have ttl: "in_int64 (Unix (0 + gc_TokenTTL ?g))" "(0 :: int) < from_unix (Unix (0 + gc_TokenTTL ?g))"
    by (simp_all add: int64_defs Unix_def time_units from_unix_def)
  have name: "clean_name (gc_Service ?g)" by simp
  have "VerifyToken 0 (replicate 32 (CHR ''r'')) sample_macaroon_rk (hex_encode sample_preimage)
      \<lparr>vo_Service = ''api'', vo_Capability = [], vo_Now = Some 0\<rparr> = Inr ()"
    using minted_valid [OF pre tok name ttl(1), of 0 "replicate 32 (CHR ''r'')"] ttl(2) by (simp add: sample_macaroon_rk_def)
  moreover have "Sq_GetRootKey (StorageKey credit_identifier) credit_store = (Inr (replicate 32 (CHR ''r'')), credit_store)"
    by (simp add: Sq_GetRootKey_def andThen_def query_ok credit_store_def row_or_missing_def ret_def)
  moreover have "TrimSpace (AuthorizationValue sample_macaroon_rk (hex_encode sample_preimage)) \<noteq> []"
    using parse_not_blank parse by fastforce
  ultimately show ?thesis
    using sample_mac(2) parse
    by (simp add: credentialAccount_def authorizeToken_def SQLiteStore_def credit_identifier_def credit_account_def credit_world_def)
qed

theorem credits_charged_witness:
  "\<exists>out w'. RequireCredits credit_gate_sample ''search'' 3 0 credit_request (credit_world credit_db) = (out, w') \<and> ho_Next out \<and>
     (\<exists>acct. balance_of (cn_db (w_ledger w')) acct = balance_of credit_db acct - 3)"
proof -
  have inv: "db_inv (cn_db (w_ledger (credit_world credit_db)))"
    by (simp add: db_inv_def books_balance_def credit_db_def balance_of_def granted_to_def charged_to_def int64_defs)
  obtain out w' where s: "RequireCredits credit_gate_sample ''search'' 3 0 credit_request (credit_world credit_db) = (out, w')"
    by (cases "RequireCredits credit_gate_sample ''search'' 3 0 credit_request (credit_world credit_db)")
  have "ho_Next (fst (RequireCredits credit_gate_sample ''search'' 3 0 credit_request (credit_world credit_db)))"
    by (simp add: RequireCredits_def ChargeCredential_def credit_request_header credit_sample_account SQLiteLedger_def SQLite_Charge_def
        transaction_def andThen_def charge_body_def debit_body_def stmt_ok query_ok insert_charge_def debit_account_def
        select_balance_def must_row_def ret_def credit_db_def int64_defs in_int64_def run_next_def driver_ok Let_def)
  with s have n: "ho_Next out" by simp
  from credits_charged [OF credit_sample_simps(1,2) s inv] n obtain acct where
    "cd_balance (db_credit (cn_db (w_ledger w'))) = (cd_balance (db_credit credit_db))(acct := cd_balance (db_credit credit_db) acct - 3)"
    by (auto simp: credit_request_header)
  then have "balance_of (cn_db (w_ledger w')) acct = balance_of credit_db acct - 3" by (simp add: db_credit_def)
  with s n show ?thesis by blast
qed

end
