(* ===== verification/Mcp.thy ===== *)
theory Mcp
  imports GateServe
begin

text \<open>
  The MCP transport of the gate, \<open>lib/mcp.go\<close>: the challenge as a tool result, the payment in the
  \<open>_meta\<close> of a tools/call, the server half \<open>ServeMCPPaymentAt\<close> and the buyer's driver
  \<open>FetchPaidMCP\<close>.  A \<open>json.RawMessage\<close> is a \<open>json option\<close>, \<open>None\<close> the empty one; the tool
  caller and the payer of the driver are interfaces, here functions on a state of their own.
\<close>

definition MetaPayment :: string where "MetaPayment = ''x402/payment''"
definition MetaPaymentResponse :: string where "MetaPaymentResponse = ''x402/payment-response''"

definition MCPToolURL :: "string \<Rightarrow> string" where
  "MCPToolURL tool = ''mcp://tool/'' @ tool"

definition MCPResourceURL :: "string \<Rightarrow> string \<Rightarrow> string" where
  "MCPResourceURL serverURL tool = (if serverURL = [] then MCPToolURL tool else serverURL)"

record ToolContent =
  tc_Type :: string
  tc_Text :: string

record ToolResult =
  tr_IsError :: bool
  tr_StructuredContent :: "json option"
  tr_Content :: "ToolContent list"

definition json_ToolContent :: "ToolContent \<Rightarrow> json" where
  "json_ToolContent c = JObj [(''type'', JStr (tc_Type c)), (''text'', JStr (tc_Text c))]"

definition json_ToolResult :: "ToolResult \<Rightarrow> json" where
  "json_ToolResult r = JObj [(''isError'', JBool (tr_IsError r)), (''structuredContent'', enc_raw (tr_StructuredContent r)),
     (''content'', JArr (map json_ToolContent (tr_Content r)))]"

definition PaymentRequiredToolResult :: "PaymentRequired \<Rightarrow> ToolResult" where
  "PaymentRequiredToolResult pr =
     \<lparr>tr_IsError = True, tr_StructuredContent = Some (json_PaymentRequired pr),
      tr_Content = [\<lparr>tc_Type = ''text'', tc_Text = json_print (json_PaymentRequired pr)\<rparr>]\<rparr>"

section \<open>The server half\<close>

definition mcp_extensions :: "('s, 'l, 'b, 'o) GateConfig \<Rightarrow> string \<Rightarrow> Extension gomap" where
  "mcp_extensions g tool =
     (case gc_MCPDiscovery g of
        None \<Rightarrow> []
      | Some f \<Rightarrow> (case f tool of None \<Rightarrow> [] | Some ext \<Rightarrow> [(ExtensionBazaar, ext)]))"

definition MCPChallengeAt ::
  "('s, 'l, 'b, 'o) GateConfig \<Rightarrow> time \<Rightarrow> string \<Rightarrow> string \<Rightarrow> string \<Rightarrow> int \<Rightarrow>
   ('s, 'l, 'b, 'o) world \<Rightarrow> (gate_error, ToolResult) result \<times> ('s, 'l, 'b, 'o) world" where
  "MCPChallengeAt g now serverURL tool description amountAtoms w =
     (case buildChallenge g now
             (zero_ResourceInfo\<lparr>ri_URL := MCPResourceURL serverURL tool, ri_Description := description,
                ri_MimeType := ''application/json''\<rparr>)
             (MCPToolURL tool) amountAtoms (mcp_extensions g tool) w of
        (Inl e, w) \<Rightarrow> (Inl e, w)
      | (Inr art, w) \<Rightarrow> (Inr (PaymentRequiredToolResult (ca_PaymentRequired art)), w))"

definition MCPChallenge ::
  "('s, 'l, 'b, 'o) GateConfig \<Rightarrow> time \<Rightarrow> string \<Rightarrow> string \<Rightarrow> int \<Rightarrow>
   ('s, 'l, 'b, 'o) world \<Rightarrow> (gate_error, ToolResult) result \<times> ('s, 'l, 'b, 'o) world" where
  "MCPChallenge g now tool description amountAtoms = MCPChallengeAt g now (gc_MCPServerURL g) tool description amountAtoms"

datatype mcp_error =
    MetaPaymentBad | MetaResponseBad
  | NoStructuredContent | StructuredContentBad | NotAChallenge
  | ChallengeFailed gate_error
  | CallFailed string
  | ToolErrored string string
  | PayFailed string string
  | PaymentRejected string string

text \<open>\<open>Inr None\<close>: the key is absent (\<open>ok\<close> is false).\<close>

definition DecodeMetaPayment :: "json option gomap \<Rightarrow> (mcp_error, PaymentPayload option) result" where
  "DecodeMetaPayment meta =
     (case map_of meta MetaPayment of
        None \<Rightarrow> Inr None
      | Some raw \<Rightarrow>
          (case unmarshal_into zero_PaymentPayload dec_PaymentPayload raw of
             None \<Rightarrow> Inl MetaPaymentBad
           | Some pp \<Rightarrow> Inr (Some pp)))"

definition MCPSettle ::
  "('s, 'l, 'b, 'o) GateConfig \<Rightarrow> time \<Rightarrow> PaymentPayload \<Rightarrow> int \<Rightarrow> ('s, 'l, 'b, 'o) world \<Rightarrow>
   (VerifyError, SettlementResponse \<times> bool) result \<times> ('s, 'l, 'b, 'o) world" where
  "MCPSettle g now pp requiredAtoms w = Gate_Settle g now pp requiredAtoms w"

definition EncodeMetaPaymentResponse :: "SettlementResponse \<Rightarrow> json option gomap" where
  "EncodeMetaPaymentResponse sr = [(MetaPaymentResponse, Some (json_SettlementResponse sr))]"

record MCPPaymentOutcome =
  mo_Challenge :: "ToolResult option"
  mo_Paid :: bool
  mo_Settlement :: SettlementResponse
  mo_Already :: bool
  mo_ReceiptMeta :: "json option gomap"

definition zero_MCPPaymentOutcome :: MCPPaymentOutcome where
  "zero_MCPPaymentOutcome = \<lparr>mo_Challenge = None, mo_Paid = False, mo_Settlement = zero_SettlementResponse, mo_Already = False,
     mo_ReceiptMeta = []\<rparr>"

text \<open>The three results of the Go function: an outcome, a verification failure or an error.\<close>

datatype mcp_served = McpOutcome MCPPaymentOutcome | McpVerify VerifyError | McpError mcp_error

definition ServeMCPPaymentAt ::
  "('s, 'l, 'b, 'o) GateConfig \<Rightarrow> time \<Rightarrow> string \<Rightarrow> string \<Rightarrow> string \<Rightarrow> int \<Rightarrow> json option gomap \<Rightarrow>
   ('s, 'l, 'b, 'o) world \<Rightarrow> mcp_served \<times> ('s, 'l, 'b, 'o) world" where
  "ServeMCPPaymentAt g now serverURL tool description requiredAtoms meta w =
     (case DecodeMetaPayment meta of
        Inl e \<Rightarrow> (McpError e, w)
      | Inr None \<Rightarrow>
          (case MCPChallengeAt g now serverURL tool description requiredAtoms w of
             (Inl e, w) \<Rightarrow> (McpError (ChallengeFailed e), w)
           | (Inr ch, w) \<Rightarrow> (McpOutcome (zero_MCPPaymentOutcome\<lparr>mo_Challenge := Some ch\<rparr>), w))
      | Inr (Some pp) \<Rightarrow>
          (case MCPSettle g now pp requiredAtoms w of
             (Inl vErr, w) \<Rightarrow> (McpVerify vErr, w)
           | (Inr (settlement, already), w) \<Rightarrow>
               (McpOutcome \<lparr>mo_Challenge = None, mo_Paid = True, mo_Settlement = settlement, mo_Already = already,
                  mo_ReceiptMeta = EncodeMetaPaymentResponse settlement\<rparr>, w)))"

definition ServeMCPPayment ::
  "('s, 'l, 'b, 'o) GateConfig \<Rightarrow> time \<Rightarrow> string \<Rightarrow> string \<Rightarrow> int \<Rightarrow> json option gomap \<Rightarrow>
   ('s, 'l, 'b, 'o) world \<Rightarrow> mcp_served \<times> ('s, 'l, 'b, 'o) world" where
  "ServeMCPPayment g now tool description requiredAtoms meta =
     ServeMCPPaymentAt g now (gc_MCPServerURL g) tool description requiredAtoms meta"

section \<open>The buyer's half\<close>

definition EncodeMetaPayment :: "PaymentPayload \<Rightarrow> json option gomap" where
  "EncodeMetaPayment pp = [(MetaPayment, Some (json_PaymentPayload pp))]"

definition ParsePaymentRequiredResult :: "json option \<Rightarrow> (mcp_error, PaymentRequired) result" where
  "ParsePaymentRequiredResult structured =
     (if structured = None then Inl NoStructuredContent
      else (case unmarshal_into zero_PaymentRequired dec_PaymentRequired structured of
              None \<Rightarrow> Inl StructuredContentBad
            | Some pr \<Rightarrow> if rq_X402Version pr = 0 \<or> rq_Accepts pr = [] then Inl NotAChallenge else Inr pr))"

definition DecodeMetaPaymentResponse :: "json option gomap \<Rightarrow> (mcp_error, SettlementResponse option) result" where
  "DecodeMetaPaymentResponse meta =
     (case map_of meta MetaPaymentResponse of
        None \<Rightarrow> Inr None
      | Some raw \<Rightarrow>
          (case unmarshal_into zero_SettlementResponse dec_SettlementResponse raw of
             None \<Rightarrow> Inl MetaResponseBad
           | Some sr \<Rightarrow> Inr (Some sr)))"

record MCPToolResult =
  mt_StructuredContent :: "json option"
  mt_Meta :: "json option gomap"
  mt_IsError :: bool

record MCPPaidResult =
  mp_StructuredContent :: "json option"
  mp_Receipt :: "SettlementResponse option"
  mp_Paid :: bool

text \<open>\<open>MCPCaller\<close> and \<open>MCPPayer\<close>; an error is its text, and both run on one state.\<close>

type_synonym ('a, 'w) MCPCaller = "string \<Rightarrow> 'a \<Rightarrow> json option gomap \<Rightarrow> 'w \<Rightarrow> (string, MCPToolResult) result \<times> 'w"
type_synonym 'w MCPPayer = "PaymentRequired \<Rightarrow> 'w \<Rightarrow> (string, PaymentPayload) result \<times> 'w"

text \<open>The error of the probe's decoding is ignored: what was decoded before it stays.\<close>

definition toolErrText :: "MCPToolResult \<Rightarrow> string" where
  "toolErrText r =
     (case mt_StructuredContent r of
        None \<Rightarrow> ''unknown error''
      | Some j \<Rightarrow>
          (let probe = dec_fields [(''error'', set_field fst (\<lambda>f (e, m). (f e, m)) dec_string),
                                   (''message'', set_field snd (\<lambda>f (e, m). (e, f m)) dec_string)];
               (error, message) = fst (probe ([], []) j)
           in if error \<noteq> [] \<and> message \<noteq> [] then error @ '': '' @ message
              else if message \<noteq> [] then message
              else if error \<noteq> [] then error
              else json_print j))"

definition FetchPaidMCP ::
  "('a, 'w) MCPCaller \<Rightarrow> string \<Rightarrow> 'a \<Rightarrow> 'w MCPPayer \<Rightarrow> 'w \<Rightarrow> (mcp_error, MCPPaidResult) result \<times> 'w" where
  "FetchPaidMCP CallTool tool args pay w =
     (case CallTool tool args [] w of
        (Inl e, w) \<Rightarrow> (Inl (CallFailed e), w)
      | (Inr first, w) \<Rightarrow>
          if \<not> mt_IsError first
          then (Inr \<lparr>mp_StructuredContent = mt_StructuredContent first, mp_Receipt = None, mp_Paid = False\<rparr>, w)
          else (case ParsePaymentRequiredResult (mt_StructuredContent first) of
                  Inl e \<Rightarrow> (Inl (ToolErrored tool (toolErrText first)), w)
                | Inr pr \<Rightarrow>
                    (case pay pr w of
                       (Inl e, w) \<Rightarrow> (Inl (PayFailed tool e), w)
                     | (Inr pp, w) \<Rightarrow>
                         (case CallTool tool args (EncodeMetaPayment pp) w of
                            (Inl e, w) \<Rightarrow> (Inl (CallFailed e), w)
                          | (Inr again, w) \<Rightarrow>
                              if mt_IsError again then (Inl (PaymentRejected tool (toolErrText again)), w)
                              else (case DecodeMetaPaymentResponse (mt_Meta again) of
                                      Inl e \<Rightarrow> (Inl e, w)
                                    | Inr receipt \<Rightarrow>
                                        (Inr \<lparr>mp_StructuredContent = mt_StructuredContent again, mp_Receipt = receipt,
                                            mp_Paid = True\<rparr>, w))))))"

section \<open>The two halves are inverse\<close>

lemma DecodeMetaPayment_Encode [simp]:
  "wf_PaymentPayload pp \<Longrightarrow> DecodeMetaPayment (EncodeMetaPayment pp) = Inr (Some pp)"
  by (simp add: DecodeMetaPayment_def EncodeMetaPayment_def unmarshal_into_def)

lemma DecodeMetaPaymentResponse_Encode [simp]:
  "wf_Extensions (sr_Extensions sr) \<Longrightarrow> DecodeMetaPaymentResponse (EncodeMetaPaymentResponse sr) = Inr (Some sr)"
  by (simp add: DecodeMetaPaymentResponse_def EncodeMetaPaymentResponse_def unmarshal_into_def)

lemma ParsePaymentRequired_ToolResult [simp]:
  "wf_PaymentRequired pr \<Longrightarrow> rq_X402Version pr \<noteq> 0 \<Longrightarrow> rq_Accepts pr \<noteq> [] \<Longrightarrow>
   ParsePaymentRequiredResult (tr_StructuredContent (PaymentRequiredToolResult pr)) = Inr pr"
  by (simp add: ParsePaymentRequiredResult_def PaymentRequiredToolResult_def unmarshal_into_def)

end
