(* ===== verification/McpProps.thy ===== *)
theory McpProps
  imports GateProps Mcp
begin

text \<open>
  The two halves of the MCP transport against each other: a seller that serves a tool through
  \<open>ServeMCPPayment\<close> the way its comment says, and a buyer that drives it with \<open>FetchPaidMCP\<close>.
\<close>

section \<open>The challenge survives the wire\<close>

lemma wf_l402_advert: "wf_Extension (l402_advert g)"
proof -
  have "wf_num ''0''" by code_simp
  then show ?thesis by (simp add: l402_advert_def wf_Extension_def wf_raw_def l402AdvertSchema_def)
qed

lemma wf_paymentID: "wf_Extension (buildPaymentIDAdvert b)"
proof -
  have "wf_num ''16''" "wf_num ''128''" by code_simp+
  then show ?thesis by (simp add: buildPaymentIDAdvert_def wf_Extension_def wf_raw_def paymentIDSchema_def)
qed

lemma wf_offer:
  assumes "offerExtension g u es t = Some e"
  shows "wf_Extension e"
proof -
  have signed: "wf_json (signedObject f s i)" for f s i by (cases i) (simp_all add: signedObject_def)
  show ?thesis
    using assms by (auto simp: offerExtension_def wf_Extension_def wf_raw_def Let_def wf_elems_iff signed
        intro!: wf_json_jmap split: option.splits)
qed

lemma wf_fold_mput: "list_all (\<lambda>(k, e). wf_Extension e) kvs \<Longrightarrow> wf_Extensions m \<Longrightarrow> wf_Extensions (fold (\<lambda>(k, v) m. mput k v m) kvs m)"
  by (induction kvs arbitrary: m) (auto intro: wf_Extensions_mput)

lemma wf_challenge_extensions:
  assumes "wf_Extensions extra"
  shows "wf_Extensions (challenge_extensions g u e now extra)"
proof -
  have "wf_Extensions [(ExtensionL402, l402_advert g)]" by (simp add: wf_Extensions_def sorted_keys_def wf_l402_advert)
  then have "wf_Extensions (fold (\<lambda>(k, v) m. mput k v m) extra [(ExtensionL402, l402_advert g)])"
    using assms by (intro wf_fold_mput) (simp_all add: wf_Extensions_def)
  then show ?thesis
    unfolding challenge_extensions_def Let_def
    by (auto split: option.split intro!: wf_Extensions_mput wf_paymentID dest: wf_offer simp del: mput.simps)
qed

text \<open>What \<open>buildChallenge\<close> puts into the envelope, when it succeeds.\<close>

lemma buildChallenge_envelope:
  assumes "buildChallenge g now res bind n exts w = (Inr art, w')"
  shows "\<exists>invoice hash. ca_PaymentRequired art =
    \<lparr>rq_X402Version = Version, rq_Error = ''Payment required'', rq_Resource = res, rq_Accepts = [lightning_entry g n invoice hash],
     rq_Extensions = challenge_extensions g (ri_URL res) (lightning_entry g n invoice hash) now exts\<rparr>"
  using assms by (auto simp: buildChallenge_def Let_def split: if_splits prod.splits sum.splits option.splits) blast+

lemma wf_envelope:
  assumes "buildChallenge g now res bind n exts w = (Inr art, w')" and "wf_Extensions exts" and "in_int64 (Seconds (gc_ChallengeTTL g))"
  shows "wf_PaymentRequired (ca_PaymentRequired art)"
proof -
  from buildChallenge_envelope [OF assms(1)] obtain invoice hash where
    e: "ca_PaymentRequired art = \<lparr>rq_X402Version = Version, rq_Error = ''Payment required'', rq_Resource = res,
      rq_Accepts = [lightning_entry g n invoice hash],
      rq_Extensions = challenge_extensions g (ri_URL res) (lightning_entry g n invoice hash) now exts\<rparr>" by blast
  have "wf_PaymentRequirements (lightning_entry g n invoice hash)"
    using assms(3) by (simp add: wf_PaymentRequirements_def lightning_entry_def wf_raw_def)
  with e wf_challenge_extensions [OF assms(2)] show ?thesis
    by (simp add: wf_PaymentRequired_def Version_def int64_defs)
qed

section \<open>A seller and a buyer\<close>

text \<open>
  The seller: a challenge is the tool's result, a paid call runs the tool once and carries the
  receipt, a repeated one does not run it.  The state is the gate's world and the number of runs.
\<close>

definition mcp_seller ::
  "('s, 'l, 'b, 'o) GateConfig \<Rightarrow> time \<Rightarrow> string \<Rightarrow> int \<Rightarrow> ('a \<Rightarrow> json option) \<Rightarrow> ('a, ('s, 'l, 'b, 'o) world \<times> nat) MCPCaller" where
  "mcp_seller g now description price run tool args meta s =
     (case s of (w, runs) \<Rightarrow>
        (case ServeMCPPayment g now tool description price meta w of
           (McpOutcome out, w) \<Rightarrow>
             (case mo_Challenge out of
                Some ch \<Rightarrow> (Inr \<lparr>mt_StructuredContent = tr_StructuredContent ch, mt_Meta = [], mt_IsError = True\<rparr>, (w, runs))
              | None \<Rightarrow>
                  if mo_Already out
                  then (Inr \<lparr>mt_StructuredContent = None, mt_Meta = mo_ReceiptMeta out, mt_IsError = False\<rparr>, (w, runs))
                  else (Inr \<lparr>mt_StructuredContent = run args, mt_Meta = mo_ReceiptMeta out, mt_IsError = False\<rparr>, (w, Suc runs)))
         | (McpVerify ve, w) \<Rightarrow>
             (Inr \<lparr>mt_StructuredContent = Some (JObj [(''error'', JStr (ve_Reason ve))]), mt_Meta = [], mt_IsError = True\<rparr>, (w, runs))
         | (McpError e, w) \<Rightarrow> (Inl ''error'', (w, runs))))"

definition lightning_payload :: "PaymentRequired \<Rightarrow> bytes \<Rightarrow> PaymentPayload" where
  "lightning_payload pr pre = \<lparr>pp_X402Version = Version, pp_Resource = Some (rq_Resource pr), pp_Accepted = hd (rq_Accepts pr),
     pp_Payload = Some (lightning_proof pre), pp_Extensions = []\<rparr>"

text \<open>The buyer pays over Lightning: the node moves on to \<open>b\<close>, and the preimage is known.\<close>

definition lightning_payer :: "'b \<Rightarrow> bytes \<Rightarrow> (('s, 'l, 'b, 'o) world \<times> nat) MCPPayer" where
  "lightning_payer b pre pr s = (case s of (w, runs) \<Rightarrow> (Inr (lightning_payload pr pre), (w\<lparr>w_backend := b\<rparr>, runs)))"

lemma wf_lightning_payload:
  "rq_Accepts pr = [e] \<Longrightarrow> wf_PaymentRequirements e \<Longrightarrow> wf_PaymentPayload (lightning_payload pr pre)"
  by (simp add: lightning_payload_def wf_PaymentPayload_def lightning_proof_def wf_raw_def wf_Extensions_def sorted_keys_def
      Version_def int64_defs)

text \<open>The gate settles a payload for whatever tool it is presented to.\<close>

lemma mcp_cross_tool:
  assumes "DecodeMetaPayment meta = Inr (Some pp)"
  shows "ServeMCPPaymentAt g now url tool d n meta w = ServeMCPPaymentAt g now url' tool' d' n meta w"
  using assms by (simp add: ServeMCPPaymentAt_def)

lemma seller_challenges:
  assumes "MCPChallengeAt g now (gc_MCPServerURL g) tool d n w = (Inr ch, w1)"
  shows "mcp_seller g now d n run tool args [] (w, k) =
    (Inr \<lparr>mt_StructuredContent = tr_StructuredContent ch, mt_Meta = [], mt_IsError = True\<rparr>, (w1, k))"
  using assms by (simp add: mcp_seller_def ServeMCPPayment_def ServeMCPPaymentAt_def DecodeMetaPayment_def)

lemma seller_serves:
  assumes "settleFull g now pp n w = (Inr so, w1)" and "\<not> so_Already so" and "wf_PaymentPayload pp"
  shows "mcp_seller g now d n run tool args (EncodeMetaPayment pp) (w, k) =
    (Inr \<lparr>mt_StructuredContent = run args, mt_Meta = EncodeMetaPaymentResponse (so_Response so), mt_IsError = False\<rparr>, (w1, Suc k))"
  using assms by (simp add: mcp_seller_def ServeMCPPayment_def ServeMCPPaymentAt_def MCPSettle_def Gate_Settle_def)



end
