(* ===== verification/Discovery.thy ===== *)
theory Discovery
  imports Gate GoUrl
begin

text \<open>
  What a gate advertises to a catalogue, \<open>lib/bazaar.go\<close>: the discovery extension of an HTTP
  resource and of an MCP tool, and the rules that drop unfit service metadata.  The conversion of
  an internationalised host name (\<open>idna.Lookup.ToASCII\<close>) is a parameter.  The theory also has
  the validation of a gate's configuration, \<open>New\<close> of \<open>lib/gate.go\<close>.
\<close>

definition draft2020 :: string where
  "draft2020 = ''https://json-schema.org/draft/2020-12/schema''"

record DiscoveryOutput =
  do_Type :: string
  do_Format :: string
  do_Example :: "json option"

definition json_DiscoveryOutput :: "DiscoveryOutput \<Rightarrow> json" where
  "json_DiscoveryOutput d = JObj ([(''type'', JStr (do_Type d))] @ opt_field (do_Format d \<noteq> []) ''format'' (JStr (do_Format d)) @
     opt_field (do_Example d \<noteq> None) ''example'' (enc_raw (do_Example d)))"

definition isBodyMethod :: "string \<Rightarrow> bool" where
  "isBodyMethod m \<longleftrightarrow> ToUpper m \<in> {''POST'', ''PUT'', ''PATCH''}"

definition schema_type :: "string \<Rightarrow> json" where
  "schema_type t = jmap [(''type'', JStr t)]"

definition json_strings :: "string list \<Rightarrow> json" where
  "json_strings xs = JArr (map JStr xs)"

text \<open>The end the two builders share: info, schema and the optional output.\<close>

definition discovery_extension ::
  "(string \<times> json) list \<Rightarrow> (string \<times> json) list \<Rightarrow> string list \<Rightarrow> DiscoveryOutput option \<Rightarrow> Extension" where
  "discovery_extension input inputProps required out =
     (let inputSchema = jmap [(''type'', JStr ''object''), (''properties'', jmap inputProps),
            (''required'', json_strings required), (''additionalProperties'', JBool False)];
          info = (''input'', jmap input) # (case out of None \<Rightarrow> [] | Some d \<Rightarrow> [(''output'', json_DiscoveryOutput d)]);
          props = (''input'', inputSchema) # (case out of None \<Rightarrow> [] | Some d \<Rightarrow>
            [(''output'', jmap [(''type'', JStr ''object''), (''properties'', jmap [(''type'', schema_type ''string'')]),
               (''required'', json_strings [''type''])])])
      in \<lparr>ext_Info = Some (jmap info),
          ext_Schema = Some (jmap [(''$schema'', JStr draft2020), (''type'', JStr ''object''), (''properties'', jmap props),
            (''required'', json_strings [''input''])])\<rparr>)"

definition BuildHTTPDiscovery :: "string \<Rightarrow> string gomap \<Rightarrow> DiscoveryOutput option \<Rightarrow> Extension" where
  "BuildHTTPDiscovery meth queryParams out =
     (let m = ToUpper meth; keys = map fst (mmap queryParams);
          input = [(''type'', JStr ''http''), (''method'', JStr m)] @
            (if queryParams \<noteq> [] then [(''queryParams'', jmap (map (\<lambda>(k, v). (k, JStr v)) queryParams))] else []) @
            (if isBodyMethod m then [(''bodyType'', JStr ''json''), (''body'', jmap [])] else []);
          props = [(''type'', jmap [(''type'', JStr ''string''), (''const'', JStr ''http'')]),
                   (''method'', jmap [(''type'', JStr ''string''), (''enum'', json_strings [m])])] @
            (if queryParams \<noteq> [] then [(''queryParams'', jmap [(''type'', JStr ''object''),
               (''properties'', jmap (map (\<lambda>k. (k, schema_type ''string'')) keys)), (''required'', json_strings keys)])] else []) @
            (if isBodyMethod m
             then [(''bodyType'', jmap [(''type'', JStr ''string''), (''enum'', json_strings [''json'', ''form-data'', ''text''])]),
                   (''body'', schema_type ''object'')] else []);
          required = [''type'', ''method''] @ (if isBodyMethod m then [''bodyType'', ''body''] else [])
      in discovery_extension input props required out)"

definition BuildMCPDiscovery ::
  "string \<Rightarrow> json option \<Rightarrow> string \<Rightarrow> string \<Rightarrow> DiscoveryOutput option \<Rightarrow> Extension" where
  "BuildMCPDiscovery toolName inputSchema description transport out =
     (let input = [(''type'', JStr ''mcp''), (''toolName'', JStr toolName),
            (''inputSchema'', opt_default (schema_type ''object'') inputSchema)] @
            opt_field (description \<noteq> []) ''description'' (JStr description) @
            opt_field (transport \<noteq> []) ''transport'' (JStr transport);
          props = [(''type'', jmap [(''type'', JStr ''string''), (''const'', JStr ''mcp'')]),
                   (''toolName'', schema_type ''string''), (''inputSchema'', schema_type ''object'')] @
            opt_field (description \<noteq> []) ''description'' (schema_type ''string'') @
            opt_field (transport \<noteq> []) ''transport''
              (jmap [(''type'', JStr ''string''), (''enum'', json_strings [''streamable-http'', ''sse''])])
      in discovery_extension input props [''type'', ''toolName'', ''inputSchema''] out)"

section \<open>Service metadata\<close>

definition maxServiceNameLen :: nat where "maxServiceNameLen = 32"
definition maxTagLen :: nat where "maxTagLen = 32"
definition maxTags :: nat where "maxTags = 5"
definition maxIconURLLen :: nat where "maxIconURLLen = 2048"

definition printableASCII :: "string \<Rightarrow> bool" where
  "printableASCII s \<longleftrightarrow> s \<noteq> [] \<and> list_all (\<lambda>c. 32 \<le> byte c \<and> byte c \<le> 126) s"

text \<open>The control characters of UTF-8: the bytes below 32, 127, and the pairs C2 80 to C2 9F.\<close>

fun hasControlChar :: "string \<Rightarrow> bool" where
  "hasControlChar [] \<longleftrightarrow> False"
| "hasControlChar (c # s) \<longleftrightarrow>
     byte c < 32 \<or> byte c = 127 \<or>
     (byte c = 0xC2 \<and> (case s of [] \<Rightarrow> False | d # _ \<Rightarrow> 0x80 \<le> byte d \<and> byte d \<le> 0x9F)) \<or> hasControlChar s"

definition isValidServiceName :: "string \<Rightarrow> bool" where
  "isValidServiceName s \<longleftrightarrow> s \<noteq> [] \<and> length s \<le> maxServiceNameLen \<and> \<not> hasControlChar s \<and> printableASCII s"

definition isValidTag :: "string \<Rightarrow> bool" where
  "isValidTag s \<longleftrightarrow> s \<noteq> [] \<and> length s \<le> maxTagLen \<and> \<not> hasControlChar s \<and> printableASCII s"

text \<open>The loop: the tags still to read, the keys seen, the tags kept so far.\<close>

fun tag_loop :: "string list \<Rightarrow> string list \<Rightarrow> string list \<Rightarrow> string list" where
  "tag_loop [] seen out = out"
| "tag_loop (t # ts) seen out =
     (if \<not> isValidTag t then tag_loop ts seen out
      else if ToLower t \<in> set seen then tag_loop ts seen out
      else if length (out @ [t]) = maxTags then out @ [t]
      else tag_loop ts (ToLower t # seen) (out @ [t]))"

definition sanitizeTags :: "string list \<Rightarrow> string list" where
  "sanitizeTags tags = tag_loop tags [] []"

definition ipv4Host :: "string \<Rightarrow> bool" where
  "ipv4Host h \<longleftrightarrow> (let ps = Split h (CHR ''.'') in
     length ps = 4 \<and> list_all (\<lambda>p. p \<noteq> [] \<and> length p \<le> 3 \<and> list_all (\<lambda>c. digit_val c \<noteq> None) p) ps)"

definition allDigitsHost :: "string \<Rightarrow> bool" where
  "allDigitsHost h \<longleftrightarrow> h \<noteq> [] \<and> list_all (\<lambda>c. digit_val c \<noteq> None) h"

definition hexLiteralHost :: "string \<Rightarrow> bool" where
  "hexLiteralHost h \<longleftrightarrow> HasPrefix (ToLower h) ''0x'' \<and> length h > 2 \<and> list_all (\<lambda>c. hex_val c \<noteq> None) (drop 2 h)"

definition loopbackHosts :: "string list" where
  "loopbackHosts = [''localhost'', ''localhost.localdomain'', ''ip6-localhost'', ''ip6-loopback'']"

text \<open>The part of \<open>isValidIconURL\<close> that looks at the normalised host.\<close>

definition icon_host_ok :: "string \<Rightarrow> bool" where
  "icon_host_ok ascii \<longleftrightarrow>
     \<not> (ascii \<in> set loopbackHosts \<or> Contains ascii '':'') \<and> \<not> (ipv4Host ascii \<or> ParseIP ascii \<noteq> None) \<and>
     \<not> (allDigitsHost ascii \<or> hexLiteralHost ascii)"

definition isValidIconURL :: "(string \<Rightarrow> string option) \<Rightarrow> string \<Rightarrow> bool" where
  "isValidIconURL toASCII s \<longleftrightarrow>
     \<not> (s = [] \<or> length s > maxIconURLLen \<or> hasControlChar s) \<and>
     (case url_Parse s of
        None \<Rightarrow> False
      | Some u \<Rightarrow>
          (ur_Scheme u = ''http'' \<or> ur_Scheme u = ''https'') \<and> ur_User u = None \<and> Hostname u \<noteq> [] \<and>
          (case unescape encodePath (Hostname u) of
             None \<Rightarrow> False
           | Some decoded \<Rightarrow> icon_host_ok (ToLower (opt_default decoded (toASCII decoded)))))"

definition SanitizeServiceMetadata :: "(string \<Rightarrow> string option) \<Rightarrow> ResourceInfo \<Rightarrow> ResourceInfo" where
  "SanitizeServiceMetadata toASCII r =
     r\<lparr>ri_ServiceName := (if isValidServiceName (ri_ServiceName r) then ri_ServiceName r else []),
       ri_Tags := sanitizeTags (ri_Tags r),
       ri_IconURL := (if isValidIconURL toASCII (ri_IconURL r) then ri_IconURL r else [])\<rparr>"

section \<open>A gate's configuration\<close>

datatype new_error = NoBackend | NoStore | NoNetwork | BadPayTo | NoService | BadMCPServerURL

text \<open>\<open>URL.Parse\<close> of an absolute http(s) URL.\<close>

definition absolute_http :: "string \<Rightarrow> bool" where
  "absolute_http s \<longleftrightarrow> (case url_Parse s of None \<Rightarrow> False
     | Some u \<Rightarrow> (ur_Scheme u = ''http'' \<or> ur_Scheme u = ''https'') \<and> ur_Host u \<noteq> [])"

text \<open>
  \<open>New\<close>: the fields that may be nil come as options; the other fields are those of \<open>cfg\<close>.
\<close>

definition Gate_New ::
  "'b Invoice_ops option \<Rightarrow> 's Store_ops option \<Rightarrow> Network option \<Rightarrow> ('s, 'l, 'b, 'o) GateConfig \<Rightarrow>
   (new_error, ('s, 'l, 'b, 'o) GateConfig) result" where
  "Gate_New backend store network cfg =
     (case backend of
        None \<Rightarrow> Inl NoBackend
      | Some b \<Rightarrow>
          (case store of
             None \<Rightarrow> Inl NoStore
           | Some st \<Rightarrow>
               (case network of
                  None \<Rightarrow> Inl NoNetwork
                | Some net \<Rightarrow>
                    if nw_CAIP2 net = [] then Inl NoNetwork
                    else if (case hex_decode (gc_PayTo cfg) of None \<Rightarrow> True | Some raw \<Rightarrow> length raw \<noteq> 33) then Inl BadPayTo
                    else if gc_Service cfg = [] then Inl NoService
                    else (let server = TrimRight (gc_MCPServerURL cfg) (CHR ''/'') in
                          if gc_MCPServerURL cfg \<noteq> [] \<and> \<not> absolute_http server then Inl BadMCPServerURL
                          else Inr (cfg\<lparr>gc_Backend := b, gc_Store := st, gc_Network := net,
                                 gc_TokenTTL := (if gc_TokenTTL cfg \<le> 0 then 30 * 24 * hour else gc_TokenTTL cfg),
                                 gc_ChallengeTTL := (if gc_ChallengeTTL cfg \<le> 0 then hour else gc_ChallengeTTL cfg),
                                 gc_TopupPath := (if gc_TopupPath cfg = [] then ''/topup'' else gc_TopupPath cfg),
                                 gc_MCPServerURL := server\<rparr>)))))"

text \<open>What \<open>New\<close> promises of the configuration it returns.\<close>

definition wf_GateConfig :: "('s, 'l, 'b, 'o) GateConfig \<Rightarrow> bool" where
  "wf_GateConfig g \<longleftrightarrow>
     nw_CAIP2 (gc_Network g) \<noteq> [] \<and> (\<exists>raw. hex_decode (gc_PayTo g) = Some raw \<and> length raw = 33) \<and> gc_Service g \<noteq> [] \<and>
     0 < gc_TokenTTL g \<and> 0 < gc_ChallengeTTL g \<and> gc_TopupPath g \<noteq> [] \<and>
     (gc_MCPServerURL g \<noteq> [] \<longrightarrow> absolute_http (gc_MCPServerURL g)) \<and>
     \<not> HasSuffix (gc_MCPServerURL g) ''/''"

lemma TrimRight_idem [simp]: "TrimRight (TrimRight s c) c = TrimRight s c"
  by (simp add: TrimRight_def dropWhile_eq_self_iff hd_dropWhile)

lemma TrimRight_fixed_iff: "TrimRight s c = s \<longleftrightarrow> \<not> HasSuffix s [c]"
proof (cases s rule: rev_cases)
  case (snoc ys y)
  have "length (dropWhile (\<lambda>x. x = c) (rev ys)) \<le> length ys" by (metis length_dropWhile_le length_rev)
  then show ?thesis using snoc by (auto simp: TrimRight_def HasSuffix_def dest!: arg_cong [of _ _ length])
qed (simp add: TrimRight_def HasSuffix_def)

lemma Gate_New_wf:
  assumes "Gate_New b st net cfg = Inr g"
  shows "wf_GateConfig g"
  using assms TrimRight_fixed_iff [of "TrimRight (gc_MCPServerURL cfg) (CHR ''/'')" "CHR ''/''"]
  by (auto simp: Gate_New_def wf_GateConfig_def Let_def time_units TrimRight_def split: option.splits if_splits)

text \<open>A configuration that \<open>New\<close> returned is one it leaves alone.\<close>

lemma Gate_New_fixed:
  assumes "wf_GateConfig g"
  shows "Gate_New (Some (gc_Backend g)) (Some (gc_Store g)) (Some (gc_Network g)) g = Inr g"
  using assms TrimRight_fixed_iff [of "gc_MCPServerURL g" "CHR ''/''"]
  by (cases g) (auto simp: Gate_New_def wf_GateConfig_def)

section \<open>What is kept of the metadata\<close>

text \<open>The tags a catalogue may hold.\<close>

definition good_tags :: "string list \<Rightarrow> bool" where
  "good_tags ts \<longleftrightarrow> length ts \<le> maxTags \<and> list_all isValidTag ts \<and> distinct (map ToLower ts)"

lemma tag_loop_good:
  assumes "good_tags out" and "length out < maxTags" and "set seen = ToLower ` set out"
  shows "good_tags (tag_loop ts seen out)"
  using assms by (induction ts seen out rule: tag_loop.induct) (auto simp: good_tags_def)

lemma tag_loop_subseq: "\<exists>kept. tag_loop ts seen out = out @ kept \<and> set kept \<subseteq> set ts"
proof (induction ts seen out rule: tag_loop.induct)
  case (2 t ts seen out)
  then show ?case by (auto 0 3)
qed simp

lemma tag_loop_id:
  assumes "list_all isValidTag ts" and "distinct (map ToLower (out @ ts))" and "set seen = ToLower ` set out"
    and "length (out @ ts) \<le> maxTags"
  shows "tag_loop ts seen out = out @ ts"
  using assms
proof (induction ts seen out rule: tag_loop.induct)
  case (2 t ts seen out)
  then show ?case by (cases ts) (auto simp: image_iff)
qed simp

lemma good_sanitizeTags: "good_tags (sanitizeTags ts)"
  unfolding sanitizeTags_def by (rule tag_loop_good) (simp_all add: good_tags_def maxTags_def)

lemma sanitizeTags_good: "good_tags ts \<Longrightarrow> sanitizeTags ts = ts"
  using tag_loop_id [of ts "[]" "[]"] by (simp add: good_tags_def sanitizeTags_def)

lemma not_isValid_Nil [simp]: "\<not> isValidIconURL f []"
  by (simp add: isValidIconURL_def)

definition clean_metadata :: "(string \<Rightarrow> string option) \<Rightarrow> ResourceInfo \<Rightarrow> bool" where
  "clean_metadata toASCII r \<longleftrightarrow>
     (ri_ServiceName r = [] \<or> isValidServiceName (ri_ServiceName r)) \<and> good_tags (ri_Tags r) \<and>
     (ri_IconURL r = [] \<or> isValidIconURL toASCII (ri_IconURL r))"

lemma Sanitize_clean: "clean_metadata f (SanitizeServiceMetadata f r)"
  by (simp add: clean_metadata_def SanitizeServiceMetadata_def good_sanitizeTags)

lemma Sanitize_fixed: "clean_metadata f r \<Longrightarrow> SanitizeServiceMetadata f r = r"
  by (cases r) (auto simp: clean_metadata_def SanitizeServiceMetadata_def sanitizeTags_good)

text \<open>
  What the catalogue keeps of a resource's metadata is fit to be shown, and the rest of the
  resource is untouched.  After sanitizing, the service name is empty or at most 32 printable
  ASCII characters; there are at most five tags, each printable and short, no two alike up to
  case, all of them tags that were given; the icon is empty or an http(s) URL without user info
  whose normalised host is neither an address nor a loopback name.  Metadata that is already fit
  is kept as it is, so sanitizing twice changes nothing.
\<close>
theorem metadata_sanitized:
  "clean_metadata toASCII (SanitizeServiceMetadata toASCII r) \<and>
   (SanitizeServiceMetadata toASCII r = r \<longleftrightarrow> clean_metadata toASCII r) \<and>
   set (ri_Tags (SanitizeServiceMetadata toASCII r)) \<subseteq> set (ri_Tags r) \<and>
   (ri_URL (SanitizeServiceMetadata toASCII r), ri_Description (SanitizeServiceMetadata toASCII r),
    ri_MimeType (SanitizeServiceMetadata toASCII r)) = (ri_URL r, ri_Description r, ri_MimeType r)"
proof -
  have "set (sanitizeTags (ri_Tags r)) \<subseteq> set (ri_Tags r)"
    using tag_loop_subseq [of "ri_Tags r" "[]" "[]"] by (auto simp: sanitizeTags_def)
  then show ?thesis
    using Sanitize_clean [of toASCII r] Sanitize_fixed [of toASCII r] by (auto simp: SanitizeServiceMetadata_def)
qed

end
