(* ===== verification/Gateway.thy ===== *)
theory Gateway
  imports Topup Discovery Policy
begin

text \<open>
  The stand-alone gateway, \<open>gateway/config.go\<close>, \<open>httpgate.go\<close> and \<open>gateway.go\<close>: the configuration
  and its validation, the pricing of routes, the handlers of HTTP upstreams, and the assembly of
  the whole.  The YAML decoder is a parameter.  A Go map that is ranged over is a list in the
  order of the range; a map that is only looked up in is a \<open>gomap\<close>.  The reverse proxy is
  \<open>run_next\<close>: a handler either answers itself or runs it.
\<close>

section \<open>Configuration\<close>

definition ModePerCall :: string where "ModePerCall = ''percall''"
definition ModeCredits :: string where "ModeCredits = ''credits''"

record LNConfig =
  ln_Host :: string
  ln_TLSCert :: string
  ln_Macaroon :: string

record CreditsConfig =
  cr_Enabled :: bool
  cr_Onchain :: bool
  cr_Confirmations :: int

record TopupConfig =
  tp_Min :: string
  tp_Max :: string
  tp_Default :: string

record WebConfig =
  wb_StatusPage :: bool

record DiscoveryMeta =
  dm_ServiceName :: string
  dm_Description :: string
  dm_Tags :: "string list"
  dm_IconURL :: string

record UpstreamConfig =
  uc_Route :: string
  uc_Target :: string
  uc_MCP :: bool
  uc_Mode :: string
  uc_Prices :: "(string \<times> string) list"
  uc_PriceDefault :: string
  uc_ToolPrices :: "(string \<times> string) list"
  uc_ToolPriceDefault :: string
  uc_FreeTools :: "string list"
  uc_Discovery :: DiscoveryMeta

record gateway_Config =
  cf_Listen :: string
  cf_TLSCert :: string
  cf_TLSKey :: string
  cf_Network :: string
  cf_Service :: string
  cf_PayTo :: string
  cf_Store :: string
  cf_LN :: LNConfig
  cf_Credits :: CreditsConfig
  cf_Topup :: TopupConfig
  cf_Upstreams :: "UpstreamConfig list"
  cf_Web :: WebConfig

definition ParseDCR :: "string \<Rightarrow> int option" where
  "ParseDCR s0 =
     (let s = TrimSpace s0 in
      if s = [] then None
      else (case Cut s (CHR ''.'') of
              (whole, frac, hasFrac) \<Rightarrow>
                (case ParseInt (if whole = [] then ''0'' else whole) of
                   None \<Rightarrow> None
                 | Some w \<Rightarrow>
                     if w < 0 then None
                     else (case (if \<not> hasFrac then Some 0
                                 else if frac = [] \<or> length frac > 8 then None
                                 else (case ParseInt (frac @ replicate (8 - length frac) (CHR ''0'')) of
                                         None \<Rightarrow> None
                                       | Some f \<Rightarrow> if f < 0 then None else Some f)) of
                             None \<Rightarrow> None
                           | Some f \<Rightarrow>
                               if w > (2 ^ 63 - 1) div 100000000 - 1 then None
                               else (let atoms = add64 (mul64 w 100000000) f in
                                     if atoms \<le> 0 then None else Some atoms)))))"

record Upstream =
  up_Route :: string
  up_Target :: URL
  up_MCP :: bool
  up_Mode :: string
  up_Prices :: "int gomap"
  up_PriceDefault :: int
  up_ToolPrices :: "int gomap"
  up_ToolPriceDefault :: int
  up_FreeTools :: "bool gomap"
  up_Discovery :: DiscoveryMeta

datatype config_error =
    ConfigYAML | NoListen | UnknownNetwork string | ServiceMissing | PayToLength | StoreMissing | LNMissing | TLSPair
  | NoUpstreams | UnknownUpstreamMode string string | CreditsDisabled string | RouteNoSlash string | BadTarget string string
  | RouteCollides string | BadPrice string string | TopupMin | TopupMax | TopupDefault
  | NoLedgerProvided | GateFailed new_error | MuxPanic string

definition NetworkFor :: "gateway_Config \<Rightarrow> (config_error, Network) result" where
  "NetworkFor c =
     (if cf_Network c = ''mainnet'' then Inr Mainnet
      else if cf_Network c = ''testnet3'' then Inr Testnet3
      else if cf_Network c = ''simnet'' then Inr Simnet
      else Inl (UnknownNetwork (cf_Network c)))"

text \<open>One turn of the loop over the upstreams; the mode is written back.\<close>

definition validate_upstream :: "gateway_Config \<Rightarrow> UpstreamConfig \<Rightarrow> (config_error, UpstreamConfig) result" where
  "validate_upstream c u0 =
     (let u = u0\<lparr>uc_Mode := (if uc_Mode u0 = [] then ModePerCall else uc_Mode u0)\<rparr> in
      if uc_Mode u \<noteq> ModePerCall \<and> uc_Mode u \<noteq> ModeCredits then Inl (UnknownUpstreamMode (uc_Route u) (uc_Mode u))
      else if uc_Mode u = ModeCredits \<and> \<not> cr_Enabled (cf_Credits c) then Inl (CreditsDisabled (uc_Route u))
      else if \<not> HasPrefix (uc_Route u) ''/'' then Inl (RouteNoSlash (uc_Route u))
      else if \<not> absolute_http (uc_Target u) then Inl (BadTarget (uc_Route u) (uc_Target u))
      else if HasPrefix (uc_Route u) ''/_dcr402'' then Inl (RouteCollides (uc_Route u))
      else Inr u)"

fun map_res :: "('a \<Rightarrow> ('e, 'b) result) \<Rightarrow> 'a list \<Rightarrow> ('e, 'b list) result" where
  "map_res f [] = Inr []"
| "map_res f (x # xs) =
     (case f x of Inl e \<Rightarrow> Inl e | Inr y \<Rightarrow> (case map_res f xs of Inl e \<Rightarrow> Inl e | Inr ys \<Rightarrow> Inr (y # ys)))"

definition config_validate :: "gateway_Config \<Rightarrow> (config_error, gateway_Config) result" where
  "config_validate c =
     (if cf_Listen c = [] then Inl NoListen
      else (case NetworkFor c of
              Inl e \<Rightarrow> Inl e
            | Inr _ \<Rightarrow>
                if cf_Service c = [] then Inl ServiceMissing
                else if length (cf_PayTo c) \<noteq> 66 then Inl PayToLength
                else if cf_Store c = [] then Inl StoreMissing
                else if ln_Host (cf_LN c) = [] \<or> ln_TLSCert (cf_LN c) = [] \<or> ln_Macaroon (cf_LN c) = [] then Inl LNMissing
                else if (cf_TLSCert c = []) \<noteq> (cf_TLSKey c = []) then Inl TLSPair
                else if cf_Upstreams c = [] then Inl NoUpstreams
                else (case map_res (validate_upstream c) (cf_Upstreams c) of
                        Inl e \<Rightarrow> Inl e
                      | Inr us \<Rightarrow>
                          Inr (c\<lparr>cf_Upstreams := us,
                                 cf_Credits := (cf_Credits c)\<lparr>cr_Confirmations :=
                                   (if cr_Confirmations (cf_Credits c) \<le> 0 then 2 else cr_Confirmations (cf_Credits c))\<rparr>\<rparr>))))"

definition parseConfig :: "(bytes \<Rightarrow> gateway_Config option) \<Rightarrow> bytes \<Rightarrow> (config_error, gateway_Config) result" where
  "parseConfig yaml raw = (case yaml raw of None \<Rightarrow> Inl ConfigYAML | Some c \<Rightarrow> config_validate c)"

section \<open>Prices\<close>

text \<open>\<open>path.Clean\<close>: the elements kept so far, the last one first.\<close>

fun clean_elems :: "bool \<Rightarrow> string list \<Rightarrow> string list \<Rightarrow> string list" where
  "clean_elems rooted st [] = rev st"
| "clean_elems rooted st (e # es) =
     (if e = [] \<or> e = ''.'' then clean_elems rooted st es
      else if e = ''..'' then
        (case st of
           prev # rest \<Rightarrow> if prev = ''..'' then clean_elems rooted (''..'' # st) es else clean_elems rooted rest es
         | [] \<Rightarrow> if rooted then clean_elems rooted [] es else clean_elems rooted [''..''] es)
      else clean_elems rooted (e # st) es)"

definition path_Clean :: "string \<Rightarrow> string" where
  "path_Clean p =
     (if p = [] then ''.''
      else (let rooted = HasPrefix p ''/''; es = clean_elems rooted [] (Split p (CHR ''/''))
            in if rooted then ''/'' @ Join es ''/'' else if es = [] then ''.'' else Join es ''/''))"

definition cleanPath :: "string \<Rightarrow> string" where
  "cleanPath p = (if p = [] then ''/'' else path_Clean p)"

definition normalizePriceKey :: "string \<Rightarrow> string" where
  "normalizePriceKey k = (case Fields k of [m, p] \<Rightarrow> ToUpper m @ '' '' @ cleanPath p | _ \<Rightarrow> k)"

definition PriceFor :: "Upstream \<Rightarrow> string \<Rightarrow> string \<Rightarrow> int" where
  "PriceFor u meth path =
     (case map_of (up_Prices u) (ToUpper meth @ '' '' @ path) of Some atoms \<Rightarrow> atoms | None \<Rightarrow> up_PriceDefault u)"

definition ToolPriceFor :: "Upstream \<Rightarrow> string \<Rightarrow> int" where
  "ToolPriceFor u tool =
     (if map_of (up_FreeTools u) tool = Some True then 0
      else (case map_of (up_ToolPrices u) tool of Some atoms \<Rightarrow> atoms | None \<Rightarrow> up_ToolPriceDefault u))"

text \<open>The loop that parses a price table; later entries overwrite earlier ones.\<close>

fun price_table ::
  "string \<Rightarrow> (string \<Rightarrow> string) \<Rightarrow> (string \<times> string) list \<Rightarrow> int gomap \<Rightarrow> (config_error, int gomap) result" where
  "price_table route norm [] m = Inr m"
| "price_table route norm ((k, v) # kvs) m =
     (case ParseDCR v of None \<Rightarrow> Inl (BadPrice route k) | Some atoms \<Rightarrow> price_table route norm kvs (mput (norm k) atoms m))"

definition price_default :: "string \<Rightarrow> string \<Rightarrow> (config_error, int) result" where
  "price_default route v =
     (if v = [] then Inr 0 else (case ParseDCR v of None \<Rightarrow> Inl (BadPrice route v) | Some atoms \<Rightarrow> Inr atoms))"

definition resolve_upstream :: "UpstreamConfig \<Rightarrow> (config_error, Upstream) result" where
  "resolve_upstream uc =
     (case url_Parse (uc_Target uc) of
        None \<Rightarrow> Inl (BadTarget (uc_Route uc) (uc_Target uc))
      | Some target \<Rightarrow>
          (case price_table (uc_Route uc) normalizePriceKey (uc_Prices uc) [] of
             Inl e \<Rightarrow> Inl e
           | Inr prices \<Rightarrow>
               (case price_default (uc_Route uc) (uc_PriceDefault uc) of
                  Inl e \<Rightarrow> Inl e
                | Inr pd \<Rightarrow>
                    (case price_table (uc_Route uc) (\<lambda>k. k) (uc_ToolPrices uc) [] of
                       Inl e \<Rightarrow> Inl e
                     | Inr tools \<Rightarrow>
                         (case price_default (uc_Route uc) (uc_ToolPriceDefault uc) of
                            Inl e \<Rightarrow> Inl e
                          | Inr td \<Rightarrow>
                              Inr \<lparr>up_Route = uc_Route uc, up_Target = target, up_MCP = uc_MCP uc, up_Mode = uc_Mode uc,
                                   up_Prices = prices, up_PriceDefault = pd, up_ToolPrices = tools, up_ToolPriceDefault = td,
                                   up_FreeTools = mmap (map (\<lambda>n. (n, True)) (uc_FreeTools uc)),
                                   up_Discovery = uc_Discovery uc\<rparr>)))))"

text \<open>\<open>sort.Slice\<close>, longest route first; the order of routes of one length does not matter below.\<close>

definition ResolveUpstreams :: "gateway_Config \<Rightarrow> (config_error, Upstream list) result" where
  "ResolveUpstreams c =
     (case map_res resolve_upstream (cf_Upstreams c) of
        Inl e \<Rightarrow> Inl e
      | Inr us \<Rightarrow> Inr (sort_key (\<lambda>u. - int (length (up_Route u))) us))"

section \<open>HTTP upstreams\<close>

definition priced ::
  "('s, 'l, 'b, 'o) GateConfig \<Rightarrow> string \<Rightarrow> string \<Rightarrow> int \<Rightarrow> time \<Rightarrow> HttpRequest \<Rightarrow>
   ('s, 'l, 'b, 'o) world \<Rightarrow> HttpOut \<times> ('s, 'l, 'b, 'o) world" where
  "priced g mode tool atoms now r w =
     (if mode = ModeCredits then RequireCredits g tool atoms now r w else gate_serve g now r atoms w)"

text \<open>The handler of a route that is not an MCP server; \<open>proxy\<close> runs for every method and path without a price.\<close>

definition upstreamHandler ::
  "('s, 'l, 'b, 'o) GateConfig \<Rightarrow> Upstream \<Rightarrow> time \<Rightarrow> HttpRequest \<Rightarrow>
   ('s, 'l, 'b, 'o) world \<Rightarrow> HttpOut \<times> ('s, 'l, 'b, 'o) world" where
  "upstreamHandler g u now r w =
     (let key = ToUpper (hr_Method r) @ '' '' @ cleanPath (hr_Path r) in
      case map_of (up_Prices u) key of
        Some atoms \<Rightarrow> priced g (up_Mode u) key atoms now r w
      | None \<Rightarrow>
          if up_PriceDefault u > 0 then priced g (up_Mode u) (''default '' @ up_Route u) (up_PriceDefault u) now r w
          else (run_next [], w))"

section \<open>Assembly\<close>

definition TopupPath :: string where "TopupPath = ''/_dcr402/topup''"

text \<open>The loop of \<open>upFor\<close>: the best match so far.\<close>

fun up_for_loop :: "string \<Rightarrow> Upstream list \<Rightarrow> Upstream option \<Rightarrow> Upstream option" where
  "up_for_loop path [] best = best"
| "up_for_loop path (u # us) best =
     (if HasPrefix path (up_Route u) \<and> (case best of None \<Rightarrow> True | Some b \<Rightarrow> length (up_Route u) > length (up_Route b))
      then up_for_loop path us (Some u) else up_for_loop path us best)"

definition upFor :: "Upstream list \<Rightarrow> string \<Rightarrow> Upstream option" where
  "upFor ups path = up_for_loop path ups None"

definition gatewayURL :: "HttpRequest \<Rightarrow> string" where
  "gatewayURL r = (if hr_TLS r then ''https'' else ''http'') @ ''://'' @ hr_Host r @ hr_Path r"

definition gateway_resource :: "Upstream list \<Rightarrow> HttpRequest \<Rightarrow> ResourceInfo" where
  "gateway_resource ups r =
     (let ri = zero_ResourceInfo\<lparr>ri_URL := gatewayURL r\<rparr> in
      case upFor ups (hr_Path r) of
        None \<Rightarrow> ri
      | Some u \<Rightarrow> ri\<lparr>ri_ServiceName := dm_ServiceName (up_Discovery u), ri_Description := dm_Description (up_Discovery u),
                     ri_Tags := dm_Tags (up_Discovery u), ri_IconURL := dm_IconURL (up_Discovery u)\<rparr>)"

definition gateway_discovery :: "Upstream list \<Rightarrow> HttpRequest \<Rightarrow> string \<Rightarrow> Extension option" where
  "gateway_discovery ups r meth =
     (case upFor ups (hr_Path r) of
        None \<Rightarrow> None
      | Some u \<Rightarrow> if up_MCP u then None else Some (BuildHTTPDiscovery meth [] None))"

record ('s, 'l, 'b, 'o) Deps =
  dp_Backend :: "'b Invoice_ops"
  dp_Onchain :: "'o Onchain_ops option"
  dp_Store :: "'s Store_ops"
  dp_Ledger :: "'l Ledger_ops option"

text \<open>The configuration \<open>Build\<close> hands to \<open>New\<close>; randomness and the invoice decoder are the library's own.\<close>

definition gate_config ::
  "gateway_Config \<Rightarrow> ('s, 'l, 'b, 'o) Deps \<Rightarrow> Network \<Rightarrow> Upstream list \<Rightarrow> (nat \<Rightarrow> bytes option) \<Rightarrow>
   (string \<Rightarrow> Network \<Rightarrow> Invoice option) \<Rightarrow> ('s, 'l, 'b, 'o) GateConfig" where
  "gate_config cfg deps network ups rnd decode =
     \<lparr>gc_Backend = dp_Backend deps, gc_Onchain = dp_Onchain deps, gc_Ledger = dp_Ledger deps, gc_TopupPath = TopupPath,
      gc_Store = dp_Store deps, gc_Network = network, gc_PayTo = cf_PayTo cfg, gc_Service = cf_Service cfg, gc_Tier = 0,
      gc_Capabilities = [], gc_TokenTTL = 0, gc_ChallengeTTL = 0, gc_Resource = Some (gateway_resource ups),
      gc_DiscoveryExtension = Some (gateway_discovery ups),
      gc_MCPDiscovery = Some (\<lambda>tool. Some (BuildMCPDiscovery tool None [] ''streamable-http'' None)), gc_MCPServerURL = [],
      gc_PaymentIDEnabled = False, gc_PaymentIDRequired = False, gc_OfferReceiptKey = None, gc_Rand = rnd, gc_Decode = decode\<rparr>"

datatype endpoint = RouteEndpoint Upstream | TopupEndpoint TopupOptions | BalanceEndpoint | StatusEndpoint | InfoEndpoint

record ('s, 'l, 'b, 'o) Gateway =
  gw_cfg :: gateway_Config
  gw_gate :: "('s, 'l, 'b, 'o) GateConfig"
  gw_ups :: "Upstream list"
  gw_mux :: "(string \<times> endpoint) list"

text \<open>\<open>ServeMux.Handle\<close> panics on a pattern registered before; the routes have no wildcards.\<close>

fun mux_register :: "(string \<times> endpoint) list \<Rightarrow> (string \<times> endpoint) list \<Rightarrow> (config_error, (string \<times> endpoint) list) result" where
  "mux_register [] m = Inr m"
| "mux_register ((p, h) # hs) m = (if p \<in> fst ` set m then Inl (MuxPanic p) else mux_register hs (m @ [(p, h)]))"

definition topup_bound :: "config_error \<Rightarrow> string \<Rightarrow> (config_error, int) result" where
  "topup_bound e v = (if v = [] then Inr 0 else (case ParseDCR v of None \<Rightarrow> Inl e | Some n \<Rightarrow> Inr n))"

definition topup_options :: "gateway_Config \<Rightarrow> (config_error, TopupOptions) result" where
  "topup_options cfg =
     (case topup_bound TopupMin (tp_Min (cf_Topup cfg)) of
        Inl e \<Rightarrow> Inl e
      | Inr mn \<Rightarrow>
          (case topup_bound TopupMax (tp_Max (cf_Topup cfg)) of
             Inl e \<Rightarrow> Inl e
           | Inr mx \<Rightarrow>
               (case topup_bound TopupDefault (tp_Default (cf_Topup cfg)) of
                  Inl e \<Rightarrow> Inl e
                | Inr df \<Rightarrow> Inr \<lparr>to_MinAtoms = mn, to_MaxAtoms = mx, to_DefaultAtoms = df,
                                to_Confirmations = cr_Confirmations (cf_Credits cfg), to_Resource = None\<rparr>)))"

definition Build ::
  "gateway_Config \<Rightarrow> ('s, 'l, 'b, 'o) Deps \<Rightarrow> (nat \<Rightarrow> bytes option) \<Rightarrow> (string \<Rightarrow> Network \<Rightarrow> Invoice option) \<Rightarrow>
   (config_error, ('s, 'l, 'b, 'o) Gateway) result" where
  "Build cfg deps rnd decode =
     (case NetworkFor cfg of
        Inl e \<Rightarrow> Inl e
      | Inr network \<Rightarrow>
          if cr_Enabled (cf_Credits cfg) \<and> dp_Ledger deps = None then Inl NoLedgerProvided
          else (case ResolveUpstreams cfg of
                  Inl e \<Rightarrow> Inl e
                | Inr ups \<Rightarrow>
                    (case Gate_New (Some (dp_Backend deps)) (Some (dp_Store deps)) (Some network)
                            (gate_config cfg deps network ups rnd decode) of
                       Inl e \<Rightarrow> Inl (GateFailed e)
                     | Inr gate \<Rightarrow>
                         (case mux_register (map (\<lambda>u. (up_Route u, RouteEndpoint u)) ups) [] of
                            Inl e \<Rightarrow> Inl e
                          | Inr routes \<Rightarrow>
                              (case (if cr_Enabled (cf_Credits cfg)
                                     then map_sum id (\<lambda>opts. [(TopupPath, TopupEndpoint opts), (''/_dcr402/balance'', BalanceEndpoint)])
                                            (topup_options cfg)
                                     else Inr []) of
                                 Inl e \<Rightarrow> Inl e
                               | Inr credits \<Rightarrow>
                                   (case mux_register (credits @ (if wb_StatusPage (cf_Web cfg)
                                             then [(''/_dcr402/'', StatusEndpoint), (''/_dcr402/info'', InfoEndpoint)] else [])) routes of
                                      Inl e \<Rightarrow> Inl e
                                    | Inr mux \<Rightarrow> Inr \<lparr>gw_cfg = cfg, gw_gate = gate, gw_ups = ups, gw_mux = mux\<rparr>))))))"

end
