(* ===== verification/GatewayMcp.thy ===== *)
theory GatewayMcp
  imports Gateway Mcp GoFmt
begin

text \<open>
  The gateway in front of an MCP server, \<open>gateway/mcpgate.go\<close>: the JSON-RPC view of a request, the
  gating of tools/call, the answers, and the injection of the settlement into the upstream's
  response.  The upstream's response is the sequence of calls the reverse proxy makes on the
  response writer.
\<close>

section \<open>JSON-RPC\<close>

record rpcMessage =
  rm_JSONRPC :: string
  rm_ID :: "json option"
  rm_Method :: string
  rm_Params :: "json option"

definition zero_rpcMessage :: rpcMessage where
  "zero_rpcMessage = \<lparr>rm_JSONRPC = [], rm_ID = None, rm_Method = [], rm_Params = None\<rparr>"

definition dec_rpcMessage :: "rpcMessage decoder" where
  "dec_rpcMessage = dec_fields
     [(''jsonrpc'', set_field rm_JSONRPC rm_JSONRPC_update dec_string), (''id'', set_field rm_ID rm_ID_update dec_raw),
      (''method'', set_field rm_Method rm_Method_update dec_string), (''params'', set_field rm_Params rm_Params_update dec_raw)]"

record toolCallParams =
  tcp_Name :: string
  tcp_Meta :: "json option gomap"

definition zero_toolCallParams :: toolCallParams where
  "zero_toolCallParams = \<lparr>tcp_Name = [], tcp_Meta = []\<rparr>"

definition dec_toolCallParams :: "toolCallParams decoder" where
  "dec_toolCallParams = dec_fields
     [(''name'', set_field tcp_Name tcp_Name_update dec_string),
      (''_meta'', set_field tcp_Meta tcp_Meta_update (dec_map None dec_raw))]"

text \<open>The members of the object with exactly this key; the text is valid JSON where this is asked.\<close>

definition duplicateKey :: "json option \<Rightarrow> string \<Rightarrow> bool" where
  "duplicateKey obj key =
     (case obj of Some (JObj kvs) \<Rightarrow> length (filter (\<lambda>(k, v). k = key) kvs) > 1 | _ \<Rightarrow> False)"

section \<open>Answers\<close>

definition writeMCPResult :: "json option \<Rightarrow> json \<Rightarrow> HttpOut" where
  "writeMCPResult i rpcresult =
     http_json StatusOK [] (jmap [(''jsonrpc'', JStr ''2.0''), (''id'', opt_default JNull i), (''result'', rpcresult)])"

definition writeMCPToolChallenge ::
  "('s, 'l, 'b, 'o) GateConfig \<Rightarrow> time \<Rightarrow> HttpRequest \<Rightarrow> json option \<Rightarrow> string \<Rightarrow> int \<Rightarrow> string \<Rightarrow>
   ('s, 'l, 'b, 'o) world \<Rightarrow> HttpOut \<times> ('s, 'l, 'b, 'o) world" where
  "writeMCPToolChallenge g now r i tool price remark w =
     (case MCPChallengeAt g now (gatewayURL r) tool [] price w of
        (Inl e, w) \<Rightarrow> (http_error ''building payment challenge'' StatusInternalServerError, w)
      | (Inr res, w) \<Rightarrow>
          (writeMCPResult i
             (jmap [(''isError'', JBool True), (''structuredContent'', enc_raw (tr_StructuredContent res)),
                (''content'', JArr (map json_ToolContent (tr_Content res @
                   (if remark = [] then [] else [\<lparr>tc_Type = ''text'', tc_Text = remark\<rparr>]))))]), w))"

definition credit_tool_error :: "json option \<Rightarrow> json \<Rightarrow> HttpOut" where
  "credit_tool_error i structured =
     writeMCPResult i (jmap [(''isError'', JBool True), (''structuredContent'', structured),
       (''content'', JArr [json_ToolContent \<lparr>tc_Type = ''text'', tc_Text = json_print structured\<rparr>])])"

definition writeMCPCreditError :: "json option \<Rightarrow> credit_error \<Rightarrow> HttpOut" where
  "writeMCPCreditError i e =
     (case e of
        LedgerFailed (InsufficientBalance balance required) \<Rightarrow>
          credit_tool_error i (jmap [(''error'', JStr ''insufficient_credits''), (''balanceAtoms'', enc_int balance),
            (''requiredAtoms'', enc_int required), (''shortfallAtoms'', enc_int (Shortfall balance required)),
            (''topup'', JStr TopupPath)])
      | ErrNoCredential \<Rightarrow>
          credit_tool_error i (jmap [(''error'', JStr ''payment_required''),
            (''detail'', JStr (''credit account required '' @ [CHR 0xE2, CHR 0x80, CHR 0x94] @ '' top up to obtain a credential'')),
            (''topup'', JStr TopupPath)])
      | ErrInvalidCredential \<Rightarrow>
          credit_tool_error i (jmap [(''error'', JStr ''invalid_credential''), (''topup'', JStr TopupPath)])
      | _ \<Rightarrow> http_error ''ledger charge failed'' StatusInternalServerError)"

definition already_settled_text :: string where
  "already_settled_text = json_print (JObj [(''status'', JStr ''already_settled''),
     (''hint'', JStr ''use the credential from extensions.l402'')])"

section \<open>Gating\<close>

text \<open>What the handler does with a request: answer it, run the proxy, or run it and settle the answer.\<close>

datatype mcp_action = Answer HttpOut | ForwardSettled SettlementResponse

definition maxBody :: nat where "maxBody = 8 * 2 ^ 20"

definition StatusRequestEntityTooLarge :: int where "StatusRequestEntityTooLarge = 413"

definition tools_call :: string where "tools_call = ''tools/call''"

definition trim_json_left :: "string \<Rightarrow> string" where
  "trim_json_left s = dropWhile (\<lambda>c. c \<in> {CHR '' '', CHR 9, CHR 13, CHR 10}) s"

text \<open>A priced tools/call, once its parameters are read.\<close>

definition tools_call_priced ::
  "('s, 'l, 'b, 'o) GateConfig \<Rightarrow> Upstream \<Rightarrow> time \<Rightarrow> HttpRequest \<Rightarrow> rpcMessage \<Rightarrow> toolCallParams \<Rightarrow> int \<Rightarrow>
   ('s, 'l, 'b, 'o) world \<Rightarrow> mcp_action \<times> ('s, 'l, 'b, 'o) world" where
  "tools_call_priced g u now r msg params price w =
     (let challenge = (\<lambda>remark w. case writeMCPToolChallenge g now r (rm_ID msg) (tcp_Name params) price remark w of
                         (out, w) \<Rightarrow> (Answer out, w)) in
      if up_Mode u = ModeCredits
      then (case ChargeCredential g now (header_get (hr_Header r) ''Authorization'') (''mcp:'' @ tcp_Name params) price [] w of
              (Inl e, w) \<Rightarrow> (Answer (writeMCPCreditError (rm_ID msg) e), w)
            | (Inr balance, w) \<Rightarrow> (Answer (run_next (header_set ''Dcr402-Balance'' (FormatInt balance) [])), w))
      else (case DecodeMetaPayment (tcp_Meta params) of
              Inl e \<Rightarrow> challenge ''malformed x402/payment: '' w
            | Inr None \<Rightarrow> challenge [] w
            | Inr (Some pp) \<Rightarrow>
                (case MCPSettle g now pp price w of
                   (Inl vErr, w) \<Rightarrow> challenge (''payment verification failed: '' @ ve_Reason vErr) w
                 | (Inr (settle, already), w) \<Rightarrow>
                     if already
                     then (Answer (writeMCPResult (rm_ID msg)
                             (jmap [(''isError'', JBool False),
                                (''content'', JArr [json_ToolContent \<lparr>tc_Type = ''text'', tc_Text = already_settled_text\<rparr>]),
                                (''_meta'', jmap [(MetaPaymentResponse, json_SettlementResponse settle)])])), w)
                     else (ForwardSettled settle, w))))"

text \<open>\<open>body = None\<close>: reading the request failed.\<close>

definition mcpHandler ::
  "('s, 'l, 'b, 'o) GateConfig \<Rightarrow> Upstream \<Rightarrow> time \<Rightarrow> HttpRequest \<Rightarrow> bytes option \<Rightarrow>
   ('s, 'l, 'b, 'o) world \<Rightarrow> mcp_action \<times> ('s, 'l, 'b, 'o) world" where
  "mcpHandler g u now r body w =
     (if hr_Method r \<noteq> ''POST'' then (Answer (run_next []), w)
      else (case body of
              None \<Rightarrow> (Answer (http_error ''reading request body'' StatusBadRequest), w)
            | Some body \<Rightarrow>
                if length body > maxBody then (Answer (http_error ''request body too large'' StatusRequestEntityTooLarge), w)
                else if HasPrefix (trim_json_left body) ''['' then
                  (case unmarshal_into [] (dec_slice zero_rpcMessage dec_rpcMessage) (json_unmarshal body) of
                     None \<Rightarrow> (Answer (http_error ''malformed JSON-RPC batch'' StatusBadRequest), w)
                   | Some batch \<Rightarrow>
                       if list_ex (\<lambda>m. rm_Method m = tools_call) batch
                       then (Answer (http_error ''JSON-RPC batches containing tools/call are not supported by this gateway''
                               StatusBadRequest), w)
                       else (Answer (run_next []), w))
                else (case unmarshal_into zero_rpcMessage dec_rpcMessage (json_unmarshal body) of
                        None \<Rightarrow> (Answer (http_error ''malformed JSON-RPC message'' StatusBadRequest), w)
                      | Some msg \<Rightarrow>
                          if rm_Method msg \<noteq> tools_call then (Answer (run_next []), w)
                          else (case unmarshal_into zero_toolCallParams dec_toolCallParams (rm_Params msg) of
                                  None \<Rightarrow> (Answer (http_error ''malformed tools/call params'' StatusBadRequest), w)
                                | Some params \<Rightarrow>
                                    if duplicateKey (rm_Params msg) ''name''
                                    then (Answer (http_error ''ambiguous tools/call name'' StatusBadRequest), w)
                                    else (let price = ToolPriceFor u (tcp_Name params) in
                                          if price \<le> 0 then (Answer (run_next []), w)
                                          else tools_call_priced g u now r msg params price w)))))"

section \<open>Numbers of \<open>encoding/json\<close>\<close>

text \<open>
  A double is written with the fewest digits that read back as the same double, in the form with
  an exponent below 1e-6 and from 1e21 on.  The sign of zero is not kept.
\<close>

fun short_digits :: "nat \<Rightarrow> nat \<Rightarrow> nat \<times> nat \<Rightarrow> int \<Rightarrow> nat \<times> int" where
  "short_digits 0 n q x = (round_ratio (scaled q (x - int n)), x)"
| "short_digits (Suc fuel) n q x =
     (let m = round_ratio (scaled q (x - int n)); (a, b) = scaled (m, 1) (int n - x) in
      if f64_of_ratio a b = f64_of_ratio (fst q) (snd q)
      then (if m \<ge> 10 ^ Suc n then (10 ^ n, x + 1) else (m, x)) else short_digits fuel (Suc n) q x)"

definition float_json :: "int \<Rightarrow> int \<Rightarrow> string" where
  "float_json m e =
     (if m = 0 then ''0''
      else (let q = dyadic (\<bar>m\<bar>, e); (d, x) = short_digits 16 0 q (ratio_exp 700 q 0);
                ds = strip_zeros (show_nat d); len = length ds in
            (if m < 0 then ''-'' else []) @
            (if x < -6 \<or> x \<ge> 21 then
               take 1 ds @ (if len > 1 then ''.'' @ drop 1 ds else []) @ ''e'' @ (if x < 0 then ''-'' else ''+'') @
               (if 0 \<le> x \<and> x < 10 then ''0'' else []) @ show_nat (nat \<bar>x\<bar>)
             else if x < 0 then ''0.'' @ replicate (nat (- x) - 1) (CHR ''0'') @ ds
             else if len \<le> nat x + 1 then ds @ replicate (nat x + 1 - len) (CHR ''0'')
             else take (nat x + 1) ds @ ''.'' @ drop (nat x + 1) ds)))"

fun encode_any :: "jval \<Rightarrow> json" where
  "encode_any VNull = JNull"
| "encode_any (VBool b) = JBool b"
| "encode_any (VNum m e) = JNum (float_json m e)"
| "encode_any (VStr s) = JStr s"
| "encode_any (VArr xs) = JArr (map encode_any xs)"
| "encode_any (VObj kvs) = JObj (map (\<lambda>(k, v). (k, encode_any v)) kvs)"

definition encode_members :: "jval gomap \<Rightarrow> json gomap" where
  "encode_members kvs = map (\<lambda>(k, v). (k, encode_any v)) kvs"

section \<open>The upstream's response\<close>

definition inject_into :: "SettlementResponse \<Rightarrow> jval gomap \<Rightarrow> jval gomap \<Rightarrow> json" where
  "inject_into settle resp rpcresult =
     (let meta = (case map_of rpcresult ''_meta'' of Some (VObj m) \<Rightarrow> m | _ \<Rightarrow> []);
          meta = mput MetaPaymentResponse (json_SettlementResponse settle) (encode_members meta)
      in JObj (mput ''result'' (JObj (mput ''_meta'' (JObj meta) (encode_members rpcresult))) (encode_members resp)))"

definition injectSettlement :: "bytes \<Rightarrow> SettlementResponse \<Rightarrow> bytes" where
  "injectSettlement body settle =
     (case Option.bind (json_unmarshal body) decode_any of
        Some (VObj resp) \<Rightarrow>
          (case map_of resp ''result'' of
             Some (VObj rpcresult) \<Rightarrow> json_print (inject_into settle resp rpcresult)
           | _ \<Rightarrow> body)
      | _ \<Rightarrow> body)"

text \<open>The client's side of a response: its headers, its status once written, its body.\<close>

record ResponseWriter =
  rw_Header :: "(string \<times> string) list"
  rw_Code :: "int option"
  rw_Body :: bytes

definition header_del :: "string \<Rightarrow> (string \<times> string) list \<Rightarrow> (string \<times> string) list" where
  "header_del k hs = filter (\<lambda>(k', _). \<not> EqualFold k' k) hs"

definition gateway_owned :: "string \<Rightarrow> bool" where
  "gateway_owned k \<longleftrightarrow> EqualFold k ''Content-Length'' \<or> EqualFold k ''Set-Cookie'' \<or> EqualFold k HeaderPaymentResponse"

definition copyResponseHeaders :: "(string \<times> string) list \<Rightarrow> (string \<times> string) list \<Rightarrow> (string \<times> string) list" where
  "copyResponseHeaders dst src = dst @ filter (\<lambda>(k, _). \<not> gateway_owned k) src"

definition setSettlementHeader :: "SettlementResponse \<Rightarrow> (string \<times> string) list \<Rightarrow> (string \<times> string) list" where
  "setSettlementHeader settle h = header_set HeaderPaymentResponse (EncodeHeader (json_SettlementResponse settle)) h"

definition maxToolResponse :: nat where "maxToolResponse = 8 * 2 ^ 20"

record injectingWriter =
  iw_dst :: ResponseWriter
  iw_settle :: SettlementResponse
  iw_hdr :: "(string \<times> string) list"
  iw_hdrWritten :: bool
  iw_stream :: bool
  iw_code :: int
  iw_buf :: bytes
  iw_truncated :: bool

definition iw_WriteHeader :: "int \<Rightarrow> injectingWriter \<Rightarrow> injectingWriter" where
  "iw_WriteHeader code iw =
     (if iw_hdrWritten iw then iw
      else (let iw = iw\<lparr>iw_hdrWritten := True, iw_code := code\<rparr> in
            if HasPrefix (header_get (iw_hdr iw) ''Content-Type'') ''text/event-stream''
            then iw\<lparr>iw_stream := True,
                    iw_dst := (iw_dst iw)\<lparr>rw_Header := setSettlementHeader (iw_settle iw)
                                 (copyResponseHeaders (rw_Header (iw_dst iw)) (iw_hdr iw)),
                               rw_Code := Some code\<rparr>\<rparr>
            else iw))"

definition iw_Write :: "bytes \<Rightarrow> injectingWriter \<Rightarrow> injectingWriter" where
  "iw_Write p iw0 =
     (let iw = (if iw_hdrWritten iw0 then iw0 else iw_WriteHeader StatusOK iw0) in
      if iw_stream iw then iw\<lparr>iw_dst := (iw_dst iw)\<lparr>rw_Body := rw_Body (iw_dst iw) @ p\<rparr>\<rparr>
      else (let used = length (iw_buf iw) in
            if maxToolResponse \<le> used then iw\<lparr>iw_truncated := True\<rparr>
            else if length p > maxToolResponse - used
            then iw\<lparr>iw_truncated := True, iw_buf := iw_buf iw @ take (maxToolResponse - used) p\<rparr>
            else iw\<lparr>iw_buf := iw_buf iw @ p\<rparr>))"

text \<open>What the proxy calls: \<open>Header().Add\<close>, \<open>WriteHeader\<close>, \<open>Write\<close>; \<open>Flush\<close> changes nothing here.\<close>

datatype writer_call = AddHeader string string | WriteHeader int | Write bytes | Flush

fun iw_step :: "writer_call \<Rightarrow> injectingWriter \<Rightarrow> injectingWriter" where
  "iw_step (AddHeader k v) iw = iw\<lparr>iw_hdr := iw_hdr iw @ [(k, v)]\<rparr>"
| "iw_step (WriteHeader code) iw = iw_WriteHeader code iw"
| "iw_step (Write p) iw = iw_Write p iw"
| "iw_step Flush iw = iw"

definition new_injectingWriter :: "ResponseWriter \<Rightarrow> SettlementResponse \<Rightarrow> injectingWriter" where
  "new_injectingWriter w settle = \<lparr>iw_dst = w, iw_settle = settle, iw_hdr = [], iw_hdrWritten = False, iw_stream = False,
     iw_code = 0, iw_buf = [], iw_truncated = False\<rparr>"

definition finish_settled :: "injectingWriter \<Rightarrow> ResponseWriter" where
  "finish_settled iw =
     (if iw_stream iw then iw_dst iw
      else (let h = setSettlementHeader (iw_settle iw) (copyResponseHeaders (rw_Header (iw_dst iw)) (iw_hdr iw));
                body = (if \<not> iw_truncated iw \<and> HasPrefix (header_get (iw_hdr iw) ''Content-Type'') ''application/json''
                        then injectSettlement (iw_buf iw) (iw_settle iw) else iw_buf iw)
            in (iw_dst iw)\<lparr>rw_Header := header_del ''Content-Length'' h,
                 rw_Code := Some (if iw_code iw = 0 then StatusOK else iw_code iw),
                 rw_Body := rw_Body (iw_dst iw) @ body\<rparr>))"

definition forwardSettled :: "SettlementResponse \<Rightarrow> writer_call list \<Rightarrow> ResponseWriter \<Rightarrow> ResponseWriter" where
  "forwardSettled settle calls w = finish_settled (fold iw_step calls (new_injectingWriter w settle))"

section \<open>The gateway as a whole\<close>

definition StatusMovedPermanently :: int where "StatusMovedPermanently = 301"
definition StatusNotFound :: int where "StatusNotFound = 404"

definition balanceHandler ::
  "('s, 'l, 'b, 'o) GateConfig \<Rightarrow> time \<Rightarrow> HttpRequest \<Rightarrow> ('s, 'l, 'b, 'o) world \<Rightarrow> HttpOut \<times> ('s, 'l, 'b, 'o) world" where
  "balanceHandler g now r w =
     (case CredentialBalance g now (header_get (hr_Header r) ''Authorization'') w of
        (Inr (account, balance), w) \<Rightarrow>
          (http_json StatusOK [] (jmap [(''account'', JStr account), (''balanceAtoms'', enc_int balance)]), w)
      | (Inl ErrNoCredential, w) \<Rightarrow>
          (http_json StatusPaymentRequired [] (jmap [(''error'', JStr ''credential required''), (''topup'', JStr TopupPath)]), w)
      | (Inl ErrInvalidCredential, w) \<Rightarrow>
          (http_json StatusUnauthorized []
             (jmap [(''error'', JStr ''invalid or expired credential''), (''topup'', JStr TopupPath)]), w)
      | (Inl _, w) \<Rightarrow> (http_error ''balance lookup failed'' StatusInternalServerError, w))"

definition json_prices :: "int gomap \<Rightarrow> json" where
  "json_prices m = JObj (map (\<lambda>(k, v). (k, enc_int v)) m)"

definition json_upstreamInfo :: "Upstream \<Rightarrow> json" where
  "json_upstreamInfo u = JObj ([(''route'', JStr (up_Route u)), (''mode'', JStr (up_Mode u))] @
     opt_field (up_MCP u) ''mcp'' (JBool True) @
     opt_field (up_Prices u \<noteq> []) ''pricesAtoms'' (json_prices (up_Prices u)) @
     opt_field (up_PriceDefault u \<noteq> 0) ''priceDefaultAtoms'' (enc_int (up_PriceDefault u)) @
     opt_field (up_ToolPrices u \<noteq> []) ''toolPricesAtoms'' (json_prices (up_ToolPrices u)) @
     opt_field (up_ToolPriceDefault u \<noteq> 0) ''toolPriceDefaultAtoms'' (enc_int (up_ToolPriceDefault u)))"

definition infoHandler :: "('s, 'l, 'b, 'o) Gateway \<Rightarrow> HttpOut" where
  "infoHandler gw =
     (let network = (case NetworkFor (gw_cfg gw) of Inl _ \<Rightarrow> \<lparr>nw_Name = [], nw_CAIP2 = [], nw_HRP = []\<rparr> | Inr n \<Rightarrow> n) in
      http_json StatusOK [] (jmap [(''service'', JStr (cf_Service (gw_cfg gw))), (''network'', JStr (nw_Name network)),
        (''caip2'', JStr (nw_CAIP2 network)), (''upstreams'', JArr (map json_upstreamInfo (gw_ups gw))),
        (''creditsEnabled'', JBool (cr_Enabled (cf_Credits (gw_cfg gw)))), (''topup'', JStr TopupPath)]))"

text \<open>
  \<open>http.ServeMux\<close> on patterns without methods, hosts and wildcards: a pattern that ends in a slash
  owns the paths below it, the longest pattern wins, and unclean paths and the missing slash of a
  registered tree are redirected.  The path is compared as it is written.
\<close>

definition mux_clean :: "string \<Rightarrow> string" where
  "mux_clean p0 =
     (if p0 = [] then ''/''
      else (let p = (if HasPrefix p0 ''/'' then p0 else ''/'' @ p0); np = path_Clean p
            in if HasSuffix p ''/'' \<and> np \<noteq> ''/'' then np @ ''/'' else np))"

definition mux_owns :: "string \<Rightarrow> string \<Rightarrow> bool" where
  "mux_owns pat path \<longleftrightarrow> pat = path \<or> (HasSuffix pat ''/'' \<and> HasPrefix path pat)"

fun mux_best :: "string \<Rightarrow> (string \<times> endpoint) list \<Rightarrow> (string \<times> endpoint) option \<Rightarrow> (string \<times> endpoint) option" where
  "mux_best path [] best = best"
| "mux_best path ((pat, ep) # m) best =
     (if mux_owns pat path \<and> (case best of None \<Rightarrow> True | Some (b, _) \<Rightarrow> length pat > length b)
      then mux_best path m (Some (pat, ep)) else mux_best path m best)"

datatype mux_result = MuxRedirect string | MuxNotFound | MuxServe endpoint

definition mux_find :: "(string \<times> endpoint) list \<Rightarrow> string \<Rightarrow> string \<Rightarrow> mux_result" where
  "mux_find m meth path0 =
     (let path = (if meth = ''CONNECT'' then path0 else mux_clean path0); best = mux_best path m None in
      if (case best of None \<Rightarrow> True | Some (pat, _) \<Rightarrow> pat \<noteq> path) \<and> \<not> HasSuffix path ''/'' \<and> path @ ''/'' \<in> fst ` set m
      then MuxRedirect (path @ ''/'')
      else if path \<noteq> path0 then MuxRedirect path
      else (case best of None \<Rightarrow> MuxNotFound | Some (_, ep) \<Rightarrow> MuxServe ep))"

text \<open>\<open>page\<close> renders the HTML status page.\<close>

definition gateway_serve ::
  "(('s, 'l, 'b, 'o) Gateway \<Rightarrow> string) \<Rightarrow> ('s, 'l, 'b, 'o) Gateway \<Rightarrow> time \<Rightarrow> HttpRequest \<Rightarrow> bytes option \<Rightarrow>
   ('s, 'l, 'b, 'o) world \<Rightarrow> mcp_action \<times> ('s, 'l, 'b, 'o) world" where
  "gateway_serve page gw now r body w =
     (let answer = (\<lambda>(out, w). (Answer out, w)) in
      case mux_find (gw_mux gw) (hr_Method r) (hr_Path r) of
        MuxRedirect loc \<Rightarrow>
          (Answer \<lparr>ho_Status = StatusMovedPermanently, ho_Header = [(''Location'', loc)], ho_Body = NoBody, ho_Next = False\<rparr>, w)
      | MuxNotFound \<Rightarrow> (Answer (http_error ''404 page not found'' StatusNotFound), w)
      | MuxServe (RouteEndpoint u) \<Rightarrow>
          if up_MCP u then mcpHandler (gw_gate gw) u now r body w else answer (upstreamHandler (gw_gate gw) u now r w)
      | MuxServe (TopupEndpoint opts) \<Rightarrow> answer (gate_Topup (gw_gate gw) opts now r w)
      | MuxServe BalanceEndpoint \<Rightarrow> answer (balanceHandler (gw_gate gw) now r w)
      | MuxServe InfoEndpoint \<Rightarrow> (Answer (infoHandler gw), w)
      | MuxServe StatusEndpoint \<Rightarrow>
          if hr_Path r \<noteq> ''/_dcr402/'' \<and> hr_Path r \<noteq> ''/_dcr402'' then (Answer (http_error ''404 page not found'' StatusNotFound), w)
          else (Answer \<lparr>ho_Status = StatusOK, ho_Header = [(''Content-Type'', ''text/html; charset=utf-8'')],
                        ho_Body = TextBody (page gw), ho_Next = False\<rparr>, w))"

end
