(* ===== verification/GatewayProps.thy ===== *)
theory GatewayProps
  imports GatewayMcp TopupProps
begin

text \<open>
  What the gateway forwards.  \<open>paid_for\<close> and \<open>charged_for\<close> say what a request must have brought;
  the two lemmas of the gate locales show that the gate's answers rest on them, and \<open>entitled\<close>
  puts them together for one upstream.
\<close>

section \<open>Payments and charges\<close>

definition paid_for ::
  "('s, 'l, 'b, 'o) GateConfig \<Rightarrow> store_view \<Rightarrow> store_view \<Rightarrow> time \<Rightarrow> PaymentPayload \<Rightarrow> 'b \<Rightarrow> 'o \<Rightarrow> int \<Rightarrow> bool" where
  "paid_for g V V' now pp node wallet n \<longleftrightarrow>
     (\<exists>key. sv_settlements V key = None \<and> sv_settlements V' key \<noteq> None \<and>
        ((\<exists>ch. key = sc_PaymentHash ch \<and> lightning_paid g V now pp node ch \<and> n \<le> sc_AmountAtoms ch) \<or>
         (\<exists>oc txid. key = sha256 (''dcr402/onchain/'' @ txid @ ''/'' @ oc_Address oc) \<and>
            onchain_paid g V pp wallet oc txid \<and> n \<le> oc_AmountAtoms oc)))"

definition charged_for ::
  "('s, 'l, 'b, 'o) GateConfig \<Rightarrow> store_view \<Rightarrow> time \<Rightarrow> string \<Rightarrow> int \<Rightarrow> string \<Rightarrow> credit \<Rightarrow> credit \<Rightarrow> bool" where
  "charged_for g V now authz n key C C' \<longleftrightarrow>
     (\<exists>acct b. credential_names g V now authz acct \<and> charge_spec C acct n key (Inr b) C')"

context payment_gate
begin

lemma MCPSettle_pays:
  assumes "MCPSettle g now pp n w = (Inr (sr, False), w')" and "0 < n"
  shows "paid_for g (view (w_store w)) (view (w_store w')) now pp (w_backend w) (w_onchain w) n"
proof -
  from assms(1) obtain so where "settleFull g now pp n w = (Inr so, w')" "\<not> so_Already so"
    by (auto simp: MCPSettle_def Gate_Settle_def split: prod.splits sum.splits)
  from settleFull_proved [OF this] assms(2) show ?thesis unfolding paid_for_def by simp
qed

lemma gate_serve_pays:
  assumes "gate_serve g now r n w = (out, w')" and "ho_Next out" and "0 < n"
  shows "credential_valid g (view (w_store w)) now (header_get (hr_Header r) ''Authorization'') \<or>
    (\<exists>pp. DecodeHeader zero_PaymentPayload dec_PaymentPayload (header_get (hr_Header r) HeaderPaymentSignature) = Inr pp \<and>
       paid_for g (view (w_store w)) (view (w_store w')) now pp (w_backend w) (w_onchain w) n)"
proof (cases "check_credential g now r w = (GoodCredential, w')")
  case True
  then show ?thesis using check_credential_good by blast
next
  case False
  with gate_serve_cases [OF assms(1)] assms(2) obtain pp w1 so where
    p: "DecodeHeader zero_PaymentPayload dec_PaymentPayload (header_get (hr_Header r) HeaderPaymentSignature) = Inr pp"
      "view (w_store w1) = view (w_store w)" "w_backend w1 = w_backend w" "w_onchain w1 = w_onchain w"
      "settleFull g now pp n w1 = (Inr so, w')" "\<not> so_Already so" by blast
  from settleFull_proved [OF p(5,6)] p(1-4) assms(3) show ?thesis unfolding paid_for_def by auto
qed

end

context credit_gate
begin

lemma ChargeCredential_charges:
  assumes "ChargeCredential g now a tool n key w = (Inr b, w')" and "inv (w_ledger w)"
  shows "charged_for g (view (w_store w)) now a n key (abs (w_ledger w)) (abs (w_ledger w'))"
  using charge_cases [OF assms] unfolding charged_for_def by auto

lemma RequireCredits_charges:
  assumes "RequireCredits g tool n now r w = (out, w')" and "ho_Next out" and "inv (w_ledger w)"
  shows "charged_for g (view (w_store w)) now (header_get (hr_Header r) ''Authorization'') n
    (header_get (hr_Header r) ''Idempotency-Key'') (abs (w_ledger w)) (abs (w_ledger w'))"
proof -
  from assms(1,2) obtain b where "ChargeCredential g now (header_get (hr_Header r) ''Authorization'') tool n
      (header_get (hr_Header r) ''Idempotency-Key'') w = (Inr b, w')"
    by (auto simp: RequireCredits_def http_json_def http_error_def split: prod.splits sum.splits credit_error.splits ledger_error.splits)
  from ChargeCredential_charges [OF this assms(3)] show ?thesis .
qed

end

section \<open>The price of a request\<close>

text \<open>The tools/call of a request as the gateway reads it.\<close>

definition tool_call :: "HttpRequest \<Rightarrow> bytes option \<Rightarrow> toolCallParams option" where
  "tool_call r body =
     (case body of
        None \<Rightarrow> None
      | Some b \<Rightarrow>
          if hr_Method r \<noteq> ''POST'' \<or> HasPrefix (trim_json_left b) ''['' then None
          else (case unmarshal_into zero_rpcMessage dec_rpcMessage (json_unmarshal b) of
                  None \<Rightarrow> None
                | Some msg \<Rightarrow>
                    if rm_Method msg \<noteq> tools_call then None
                    else unmarshal_into zero_toolCallParams dec_toolCallParams (rm_Params msg)))"

definition request_price :: "Upstream \<Rightarrow> HttpRequest \<Rightarrow> bytes option \<Rightarrow> int" where
  "request_price u r body =
     (if up_MCP u then (case tool_call r body of None \<Rightarrow> 0 | Some params \<Rightarrow> ToolPriceFor u (tcp_Name params))
      else PriceFor u (hr_Method r) (cleanPath (hr_Path r)))"

definition presented :: "Upstream \<Rightarrow> HttpRequest \<Rightarrow> bytes option \<Rightarrow> PaymentPayload \<Rightarrow> bool" where
  "presented u r body pp \<longleftrightarrow>
     (if up_MCP u then (\<exists>params. tool_call r body = Some params \<and> DecodeMetaPayment (tcp_Meta params) = Inr (Some pp))
      else DecodeHeader zero_PaymentPayload dec_PaymentPayload (header_get (hr_Header r) HeaderPaymentSignature) = Inr pp)"

text \<open>A tool call of a credits upstream carries no idempotency key.\<close>

definition entitled ::
  "('s, 'l, 'b, 'o) GateConfig \<Rightarrow> Upstream \<Rightarrow> time \<Rightarrow> HttpRequest \<Rightarrow> bytes option \<Rightarrow> store_view \<Rightarrow> store_view \<Rightarrow>
   credit \<Rightarrow> credit \<Rightarrow> 'b \<Rightarrow> 'o \<Rightarrow> bool" where
  "entitled g u now r body V V' C C' node wallet \<longleftrightarrow>
     (let n = request_price u r body; authz = header_get (hr_Header r) ''Authorization'' in
      n \<le> 0 \<or>
      (if up_Mode u = ModeCredits
       then charged_for g V now authz n (if up_MCP u then [] else header_get (hr_Header r) ''Idempotency-Key'') C C'
       else (\<not> up_MCP u \<and> credential_valid g V now authz) \<or> (\<exists>pp. presented u r body pp \<and> paid_for g V V' now pp node wallet n)))"

definition forwards :: "mcp_action \<Rightarrow> bool" where
  "forwards a \<longleftrightarrow> (case a of Answer out \<Rightarrow> ho_Next out | ForwardSettled _ \<Rightarrow> True)"

lemma forwards_simps [simp]: "forwards (Answer out) = ho_Next out" "forwards (ForwardSettled s)"
  by (simp_all add: forwards_def)

lemma next_simps [simp]:
  "\<not> ho_Next (http_error m s)" "\<not> ho_Next (http_json s hs j)" "ho_Next (run_next hs)" "\<not> ho_Next (writeMCPResult i res)"
  "\<not> ho_Next (writeMCPCreditError i e)"
  by (simp_all add: http_error_def http_json_def run_next_def writeMCPResult_def writeMCPCreditError_def credit_tool_error_def
      split: credit_error.split ledger_error.split)

lemma writeMCPToolChallenge_next: "writeMCPToolChallenge g now r i tool n m w = (out, w') \<Longrightarrow> \<not> ho_Next out"
  by (auto simp: writeMCPToolChallenge_def split: prod.splits sum.splits)

context credit_gate
begin

lemma upstreamHandler_entitled:
  assumes "upstreamHandler g u now r w = (out, w')" and "ho_Next out" and "inv (w_ledger w)" and "\<not> up_MCP u"
  shows "entitled g u now r body (view (w_store w)) (view (w_store w')) (abs (w_ledger w)) (abs (w_ledger w')) (w_backend w) (w_onchain w)"
proof (cases "request_price u r body \<le> 0")
  case True
  then show ?thesis by (simp add: entitled_def)
next
  case False
  with assms(1,4) obtain tool where "priced g (up_Mode u) tool (request_price u r body) now r w = (out, w')"
    by (auto simp: upstreamHandler_def request_price_def PriceFor_def Let_def split: option.splits if_splits)
  with False assms(2-4) show ?thesis
    using RequireCredits_charges gate_serve_pays by (fastforce simp: entitled_def presented_def priced_def Let_def split: if_splits)
qed

lemma tools_call_priced_entitled:
  assumes "tools_call_priced g u now r msg params n w = (a, w')" and "forwards a" and "inv (w_ledger w)" and "0 < n"
  shows "if up_Mode u = ModeCredits
    then charged_for g (view (w_store w)) now (header_get (hr_Header r) ''Authorization'') n [] (abs (w_ledger w)) (abs (w_ledger w'))
    else \<exists>pp. DecodeMetaPayment (tcp_Meta params) = Inr (Some pp) \<and>
      paid_for g (view (w_store w)) (view (w_store w')) now pp (w_backend w) (w_onchain w) n"
proof (cases "up_Mode u = ModeCredits")
  case True
  with assms(1,2) obtain b where
    "ChargeCredential g now (header_get (hr_Header r) ''Authorization'') (''mcp:'' @ tcp_Name params) n [] w = (Inr b, w')"
    by (auto simp: tools_call_priced_def Let_def split: prod.splits sum.splits)
  with True ChargeCredential_charges [OF this assms(3)] show ?thesis by simp
next
  case False
  with assms(1,2) obtain pp sr where "DecodeMetaPayment (tcp_Meta params) = Inr (Some pp)" "MCPSettle g now pp n w = (Inr (sr, False), w')"
    by (auto simp: tools_call_priced_def Let_def split: prod.splits sum.splits option.splits if_splits dest!: writeMCPToolChallenge_next)
  with False MCPSettle_pays [OF this(2) assms(4)] show ?thesis by auto
qed

lemma mcpHandler_entitled:
  assumes "mcpHandler g u now r body w = (a, w')" and "forwards a" and "inv (w_ledger w)" and "up_MCP u"
  shows "entitled g u now r body (view (w_store w)) (view (w_store w')) (abs (w_ledger w)) (abs (w_ledger w')) (w_backend w) (w_onchain w)"
proof (cases "request_price u r body \<le> 0")
  case True
  then show ?thesis by (simp add: entitled_def)
next
  case False
  with assms(4) obtain params where call: "tool_call r body = Some params" "0 < ToolPriceFor u (tcp_Name params)"
    by (auto simp: request_price_def split: option.splits)
  with assms(1,2) obtain msg where "tools_call_priced g u now r msg params (ToolPriceFor u (tcp_Name params)) w = (a, w')"
    by (auto simp: tool_call_def mcpHandler_def Let_def split: option.splits if_splits)
  from tools_call_priced_entitled [OF this assms(2,3) call(2)] call assms(4) show ?thesis
    by (auto simp: entitled_def request_price_def presented_def Let_def)
qed

end

section \<open>Amounts\<close>

lemma ParseDCR_pos: "ParseDCR s = Some n \<Longrightarrow> 0 < n \<and> in_int64 n"
  by (auto simp: ParseDCR_def Let_def split: if_splits prod.splits option.splits)

lemma dropWhile_trimmed:
  "dropWhile P (rev (dropWhile P (rev (dropWhile P s)))) = rev (dropWhile P (rev (dropWhile P s)))"
proof -
  let ?x = "dropWhile P s" and ?y = "rev (dropWhile P (rev (dropWhile P s)))"
  have "?x = ?y @ rev (takeWhile P (rev ?x))"
    by (metis rev_append rev_rev_ident takeWhile_dropWhile_id)
  then have "?y \<noteq> [] \<Longrightarrow> hd ?y = hd ?x \<and> ?x \<noteq> []" by (metis append_is_Nil_conv hd_append)
  then have "?y \<noteq> [] \<Longrightarrow> \<not> P (hd ?y)" using hd_dropWhile by metis
  then show ?thesis using dropWhile_eq_self_iff by blast
qed

lemma TrimSpace_idem [simp]: "TrimSpace (TrimSpace s) = TrimSpace s"
  by (simp add: TrimSpace_def trim_by_def dropWhile_trimmed)

text \<open>The gateway's amounts are the policy's, without the unit and without zero.\<close>

lemma ParseDCR_ParseAmount:
  assumes "\<not> HasSuffix (TrimSpace s) ''DCR''" and "TrimSpace s \<noteq> []"
  shows "ParseDCR s = (case ParseAmount s of None \<Rightarrow> None | Some n \<Rightarrow> if n \<le> 0 then None else Some n)"
  using assms by (auto simp: ParseDCR_def ParseAmount_def TrimSuffix_def atomsPerDCR_def Let_def split: prod.split option.split)

section \<open>What the assembly guarantees\<close>

definition positive_table :: "int gomap \<Rightarrow> bool" where
  "positive_table m \<longleftrightarrow> (\<forall>(k, n)\<in>set m. 0 < n \<and> in_int64 n)"

definition wf_Upstream :: "Upstream \<Rightarrow> bool" where
  "wf_Upstream u \<longleftrightarrow> positive_table (up_Prices u) \<and> positive_table (up_ToolPrices u) \<and>
     0 \<le> up_PriceDefault u \<and> in_int64 (up_PriceDefault u) \<and> 0 \<le> up_ToolPriceDefault u \<and> in_int64 (up_ToolPriceDefault u)"

lemma positive_mput: "positive_table m \<Longrightarrow> 0 < n \<Longrightarrow> in_int64 n \<Longrightarrow> positive_table (mput k n m)"
  by (induction m) (auto simp: positive_table_def split: if_splits)

lemma price_table_positive: "price_table route norm kvs m = Inr m' \<Longrightarrow> positive_table m \<Longrightarrow> positive_table m'"
  by (induction route norm kvs m rule: price_table.induct) (auto split: option.splits dest!: ParseDCR_pos intro: positive_mput)

lemma price_default_ok: "price_default route v = Inr n \<Longrightarrow> 0 \<le> n \<and> in_int64 n"
  by (auto simp: price_default_def int64_defs split: if_splits option.splits dest!: ParseDCR_pos)

lemma resolve_upstream_wf: "resolve_upstream uc = Inr u \<Longrightarrow> wf_Upstream u \<and> up_Route u = uc_Route uc \<and> up_Mode u = uc_Mode uc"
proof -
  assume "resolve_upstream uc = Inr u"
  then have "price_table (uc_Route uc) normalizePriceKey (uc_Prices uc) [] = Inr (up_Prices u)"
    "price_table (uc_Route uc) (\<lambda>k. k) (uc_ToolPrices uc) [] = Inr (up_ToolPrices u)"
    "price_default (uc_Route uc) (uc_PriceDefault uc) = Inr (up_PriceDefault u)"
    "price_default (uc_Route uc) (uc_ToolPriceDefault uc) = Inr (up_ToolPriceDefault u)"
    "up_Route u = uc_Route uc \<and> up_Mode u = uc_Mode uc"
    by (auto simp: resolve_upstream_def split: option.splits sum.splits)
  then show ?thesis
    using price_table_positive price_default_ok by (fastforce simp: wf_Upstream_def positive_table_def)
qed

lemma map_res_set: "map_res f xs = Inr ys \<Longrightarrow> y \<in> set ys \<Longrightarrow> \<exists>x\<in>set xs. f x = Inr y"
  by (induction xs arbitrary: ys) (auto split: sum.splits)

lemma map_res_length: "map_res f xs = Inr ys \<Longrightarrow> length ys = length xs"
  by (induction xs arbitrary: ys) (auto split: sum.splits)

lemma ResolveUpstreams_wf:
  assumes "ResolveUpstreams c = Inr us" and "u \<in> set us"
  shows "wf_Upstream u \<and> (\<exists>uc\<in>set (cf_Upstreams c). up_Route u = uc_Route uc \<and> up_Mode u = uc_Mode uc)"
  using assms by (auto simp: ResolveUpstreams_def split: sum.splits dest!: map_res_set resolve_upstream_wf)

lemma mux_register_Inr:
  "mux_register hs m = Inr m' \<Longrightarrow> distinct (map fst m) \<Longrightarrow> m' = m @ hs \<and> distinct (map fst m')"
proof (induction hs m rule: mux_register.induct)
  case (2 p h hs m)
  then have "p \<notin> fst ` set m" "mux_register hs (m @ [(p, h)]) = Inr m'" by (auto split: if_splits)
  moreover from this(1) "2.prems"(2) have "distinct (map fst (m @ [(p, h)]))" by simp
  ultimately have "m' = (m @ [(p, h)]) @ hs \<and> distinct (map fst m')" by (rule "2.IH")
  then show ?case by (metis append.assoc append_Cons append_Nil)
qed simp

lemma Build_Inr:
  assumes "Build cfg deps rnd dec = Inr gw"
  shows "wf_GateConfig (gw_gate gw) \<and> gw_cfg gw = cfg \<and> gc_Store (gw_gate gw) = dp_Store deps \<and>
    gc_Ledger (gw_gate gw) = dp_Ledger deps \<and> ResolveUpstreams cfg = Inr (gw_ups gw) \<and> distinct (map fst (gw_mux gw)) \<and>
    (\<exists>own. gw_mux gw = map (\<lambda>u. (up_Route u, RouteEndpoint u)) (gw_ups gw) @ own \<and>
       (\<forall>(p, ep)\<in>set own. HasPrefix p ''/_dcr402/'' \<and> (\<forall>u. ep \<noteq> RouteEndpoint u)))"
proof -
  obtain network where n: "NetworkFor cfg = Inr network" using assms by (auto simp: Build_def split: sum.splits)
  obtain ups where r: "ResolveUpstreams cfg = Inr ups" using assms n by (auto simp: Build_def split: sum.splits if_splits)
  obtain gate where g: "Gate_New (Some (dp_Backend deps)) (Some (dp_Store deps)) (Some network)
      (gate_config cfg deps network ups rnd dec) = Inr gate"
    using assms n r by (auto simp: Build_def split: sum.splits if_splits)
  obtain routes where m: "mux_register (map (\<lambda>u. (up_Route u, RouteEndpoint u)) ups) [] = Inr routes"
    using assms n r g by (auto simp: Build_def split: sum.splits if_splits)
  let ?status = "if wb_StatusPage (cf_Web cfg) then [(''/_dcr402/'', StatusEndpoint), (''/_dcr402/info'', InfoEndpoint)] else []"
  obtain credits mux where
    c: "(if cr_Enabled (cf_Credits cfg)
       then map_sum id (\<lambda>opts. [(TopupPath, TopupEndpoint opts), (''/_dcr402/balance'', BalanceEndpoint)]) (topup_options cfg)
       else Inr []) = Inr credits"
    and x: "mux_register (credits @ ?status) routes = Inr mux"
    and gw: "gw = \<lparr>gw_cfg = cfg, gw_gate = gate, gw_ups = ups, gw_mux = mux\<rparr>"
    using assms n r g m unfolding Build_def by (simp only: sum.case split: sum.splits if_splits) simp_all
  have "\<forall>(p, ep)\<in>set (credits @ ?status). HasPrefix p ''/_dcr402/'' \<and> (\<forall>u. ep \<noteq> RouteEndpoint u)"
    using c by (cases "topup_options cfg") (auto simp: TopupPath_def HasPrefix_def split: if_splits)
  moreover have "gc_Store gate = dp_Store deps" "gc_Ledger gate = dp_Ledger deps"
    using g by (auto simp: Gate_New_def gate_config_def Let_def split: if_splits option.splits)
  moreover have "routes = map (\<lambda>u. (up_Route u, RouteEndpoint u)) ups \<and> distinct (map fst routes)"
    using mux_register_Inr [OF m] by (metis append_Nil distinct.simps(1) list.map(1))
  moreover from this have "mux = routes @ credits @ ?status \<and> distinct (map fst mux)"
    using mux_register_Inr [OF x] by blast
  ultimately show ?thesis
    unfolding gw using Gate_New_wf [OF g] r by (elim conjE, intro conjI exI [of _ "credits @ ?status"]) simp_all
qed

section \<open>Dispatch\<close>

lemma mux_best_owns:
  assumes "mux_best path m best = Some (p, ep)" and "\<And>q e. best = Some (q, e) \<Longrightarrow> mux_owns q path \<and> (q, e) \<in> M" and "set m \<subseteq> M"
  shows "mux_owns p path \<and> (p, ep) \<in> M"
  using assms by (induction path m best rule: mux_best.induct) (auto split: if_splits)

lemma mux_find_serves: "mux_find m meth path = MuxServe ep \<Longrightarrow> \<exists>p. (p, ep) \<in> set m \<and> mux_owns p path"
  by (auto simp: mux_find_def Let_def split: if_splits option.splits dest!: mux_best_owns [where M = "set m"])

lemma mux_owns_prefix: "mux_owns p path \<Longrightarrow> HasPrefix path p"
  by (auto simp: mux_owns_def HasPrefix_def)

lemma respondPaymentFailure_next: "respondPaymentFailure g now r n ve w = (out, w') \<Longrightarrow> \<not> ho_Next out"
  by (auto simp: respondPaymentFailure_def Let_def split: if_splits prod.splits)

lemma gate_Topup_next: "gate_Topup g opts now r w = (out, w') \<Longrightarrow> \<not> ho_Next out"
  by (auto simp: gate_Topup_def serveTopupSettlement_def Let_def
      split: option.splits prod.splits sum.splits if_splits dest!: respondPaymentFailure_next)

lemma balanceHandler_next: "balanceHandler g now r w = (out, w') \<Longrightarrow> \<not> ho_Next out"
  by (auto simp: balanceHandler_def split: prod.splits sum.splits credit_error.splits)

lemma gateway_forwards_route:
  assumes "gateway_serve page gw now r body w = (a, w')" and "forwards a" and "Build cfg deps rnd dec = Inr gw"
  shows "\<exists>u\<in>set (gw_ups gw). HasPrefix (hr_Path r) (up_Route u) \<and>
    (if up_MCP u then mcpHandler (gw_gate gw) u now r body w = (a, w')
     else \<exists>out. a = Answer out \<and> upstreamHandler (gw_gate gw) u now r w = (out, w'))"
proof -
  from assms(1,2) obtain u where u: "mux_find (gw_mux gw) (hr_Method r) (hr_Path r) = MuxServe (RouteEndpoint u)"
    and h: "if up_MCP u then mcpHandler (gw_gate gw) u now r body w = (a, w')
      else \<exists>out. a = Answer out \<and> upstreamHandler (gw_gate gw) u now r w = (out, w')"
    by (auto simp: gateway_serve_def infoHandler_def Let_def split: mux_result.splits endpoint.splits if_splits prod.splits
        dest!: gate_Topup_next balanceHandler_next)
  from mux_find_serves [OF u] obtain p where p: "(p, RouteEndpoint u) \<in> set (gw_mux gw)" "mux_owns p (hr_Path r)" by blast
  with Build_Inr [OF assms(3)] have "u \<in> set (gw_ups gw) \<and> p = up_Route u" by fastforce
  with h p(2) mux_owns_prefix show ?thesis by metis
qed

context credit_gate
begin

lemma forwarded_entitled:
  assumes "gateway_serve page gw now r body w = (a, w')" and "forwards a" and "Build cfg deps rnd dec = Inr gw"
    and "gw_gate gw = g" and "inv (w_ledger w)"
  shows "\<exists>u\<in>set (gw_ups gw). HasPrefix (hr_Path r) (up_Route u) \<and>
    entitled g u now r body (view (w_store w)) (view (w_store w')) (abs (w_ledger w)) (abs (w_ledger w')) (w_backend w) (w_onchain w)"
proof -
  from gateway_forwards_route [OF assms(1-3)] obtain u where u: "u \<in> set (gw_ups gw)" "HasPrefix (hr_Path r) (up_Route u)"
    "if up_MCP u then mcpHandler g u now r body w = (a, w')
     else \<exists>out. a = Answer out \<and> upstreamHandler g u now r w = (out, w')" unfolding assms(4) by blast
  with mcpHandler_entitled [OF _ assms(2,5)] upstreamHandler_entitled [OF _ _ assms(5)] assms(2) show ?thesis
    by (metis forwards_simps(1))
qed

end

end
