(* ===== verification/GatewayClaims.thy ===== *)
theory GatewayClaims
  imports GatewayProps TopupClaims
begin

text \<open>The properties of the gateway, over the SQLite store and ledger, with a sample gateway for the witnesses.\<close>

section \<open>Nothing priced is forwarded free\<close>


definition sample_upstream_config :: UpstreamConfig where
  "sample_upstream_config = \<lparr>uc_Route = ''/x'', uc_Target = ''http://h'', uc_MCP = False, uc_Mode = ModeCredits,
     uc_Prices = [(''get /x/'', ''0.00000003'')], uc_PriceDefault = [], uc_ToolPrices = [], uc_ToolPriceDefault = [], uc_FreeTools = [],
     uc_Discovery = \<lparr>dm_ServiceName = [], dm_Description = [], dm_Tags = [], dm_IconURL = []\<rparr>\<rparr>"

definition sample_upstream :: Upstream where
  "sample_upstream = \<lparr>up_Route = ''/x'', up_Target = \<lparr>ur_Scheme = ''http'', ur_Opaque = [], ur_User = None, ur_Host = ''h'', ur_Path = [],
       ur_RawQuery = [], ur_Fragment = []\<rparr>, up_MCP = False, up_Mode = ModeCredits, up_Prices = [(''GET /x'', 3)], up_PriceDefault = 0,
     up_ToolPrices = [], up_ToolPriceDefault = 0, up_FreeTools = [],
     up_Discovery = \<lparr>dm_ServiceName = [], dm_Description = [], dm_Tags = [], dm_IconURL = []\<rparr>\<rparr>"

definition sample_config :: gateway_Config where
  "sample_config = \<lparr>cf_Listen = '':1'', cf_TLSCert = [], cf_TLSKey = [], cf_Network = ''simnet'', cf_Service = ''api'',
     cf_PayTo = hex_encode (replicate 33 (CHR ''n'')), cf_Store = ''db'', cf_LN = \<lparr>ln_Host = ''h'', ln_TLSCert = ''c'', ln_Macaroon = ''m''\<rparr>,
     cf_Credits = \<lparr>cr_Enabled = True, cr_Onchain = False, cr_Confirmations = 2\<rparr>,
     cf_Topup = \<lparr>tp_Min = [], tp_Max = [], tp_Default = []\<rparr>, cf_Upstreams = [sample_upstream_config], cf_Web = \<lparr>wb_StatusPage = False\<rparr>\<rparr>"

definition sample_deps :: "(store_db conn, ledger_db conn, unit, unit) Deps" where
  "sample_deps = \<lparr>dp_Backend = sample_node, dp_Onchain = None, dp_Store = SQLiteStore 0, dp_Ledger = Some SQLiteLedger\<rparr>"

lemma sample_upstream_resolves: "resolve_upstream sample_upstream_config = Inr sample_upstream"
proof -
  have "url_Parse ''http://h'' = Some (up_Target sample_upstream)" and "normalizePriceKey ''get /x/'' = ''GET /x''" by code_simp+
  moreover have "ParseDCR ''0.00000003'' = Some 3"
  proof -
    have "TrimSpace ''0.00000003'' = ''0.00000003''" "Cut ''0.00000003'' (CHR ''.'') = (''0'', ''00000003'', True)" by code_simp+
    moreover have "ParseInt ''0'' = Some 0" "ParseInt ''00000003'' = Some 3" by (simp_all add: ParseInt_def digit_val_def int64_defs)
    ultimately show ?thesis by (simp add: ParseDCR_def wrap64_def int64_defs)
  qed
  ultimately show ?thesis by (simp add: resolve_upstream_def sample_upstream_config_def price_default_def mmap_def sample_upstream_def)
qed

lemma sample_builds:
  "\<exists>gw. Build sample_config sample_deps (\<lambda>_. None) (\<lambda>_ _. None) = Inr gw \<and> gw_ups gw = [sample_upstream] \<and>
     gw_mux gw = [(''/x'', RouteEndpoint sample_upstream), (TopupPath, TopupEndpoint \<lparr>to_MinAtoms = 0, to_MaxAtoms = 0, to_DefaultAtoms = 0,
       to_Confirmations = 2, to_Resource = None\<rparr>), (''/_dcr402/balance'', BalanceEndpoint)] \<and>
     gc_Service (gw_gate gw) = ''api'' \<and> gc_Store (gw_gate gw) = SQLiteStore 0 \<and> gc_Ledger (gw_gate gw) = Some SQLiteLedger"
  by (simp add: Build_def NetworkFor_def sample_config_def ResolveUpstreams_def sample_upstream_resolves Gate_New_def gate_config_def
      sample_deps_def topup_options_def topup_bound_def TopupPath_def sample_upstream_def Simnet_def TrimRight_def Let_def)

lemma credentialAccount_cong:
  assumes "gc_Store g = gc_Store g'" and "gc_Service g = gc_Service g'"
  shows "credentialAccount g = credentialAccount g'"
proof -
  have auth: "authorizeToken g = authorizeToken g'" unfolding authorizeToken_def assms ..
  show ?thesis unfolding credentialAccount_def auth ..
qed


section \<open>What an assembled gateway looks like\<close>

text \<open>
  C38: a gateway that starts is well formed.  Its gate has a valid configuration, every price in
  its tables is a positive 64-bit amount and every default is not negative, every route and mode
  is one of the configured ones, longer routes come first, and no two handlers share a pattern.
\<close>
theorem gateway_well_formed:
  assumes "Build cfg deps rnd dec = Inr gw"
  shows "wf_GateConfig (gw_gate gw) \<and> distinct (map fst (gw_mux gw)) \<and>
    (\<forall>u\<in>set (gw_ups gw). wf_Upstream u \<and> (\<exists>uc\<in>set (cf_Upstreams cfg). up_Route u = uc_Route uc \<and> up_Mode u = uc_Mode uc)) \<and>
    sorted_wrt (\<lambda>u v. length (up_Route v) \<le> length (up_Route u)) (gw_ups gw) \<and> length (gw_ups gw) = length (cf_Upstreams cfg)"
proof -
  note b = Build_Inr [OF assms]
  then obtain us where us: "map_res resolve_upstream (cf_Upstreams cfg) = Inr us"
      "gw_ups gw = sort_key (\<lambda>u. - int (length (up_Route u))) us"
    by (auto simp: ResolveUpstreams_def split: sum.splits)
  have "sorted (map (\<lambda>u. - int (length (up_Route u))) (gw_ups gw))" unfolding us(2) by simp
  then have "sorted_wrt (\<lambda>u v. length (up_Route v) \<le> length (up_Route u)) (gw_ups gw)" by (simp add: sorted_map)
  moreover have "length (gw_ups gw) = length (cf_Upstreams cfg)" using map_res_length [OF us(1)] us(2) by simp
  ultimately show ?thesis using b ResolveUpstreams_wf [of cfg "gw_ups gw"] by simp
qed

theorem gateway_well_formed_witness:
  "\<exists>gw. Build sample_config sample_deps (\<lambda>_. None) (\<lambda>_ _. None) = Inr gw \<and> wf_GateConfig (gw_gate gw) \<and> gw_ups gw = [sample_upstream] \<and>
     wf_Upstream sample_upstream"
proof -
  obtain gw where gw: "Build sample_config sample_deps (\<lambda>_. None) (\<lambda>_ _. None) = Inr gw" "gw_ups gw = [sample_upstream]"
    using sample_builds by blast
  with gateway_well_formed [OF gw(1)] show ?thesis by auto
qed

section \<open>The answer to a paid tool call\<close>

text \<open>What the upstream wrote, in order.\<close>

fun written :: "writer_call list \<Rightarrow> bytes" where
  "written [] = []"
| "written (Write p # cs) = p @ written cs"
| "written (_ # cs) = written cs"

definition iw_inv :: "ResponseWriter \<Rightarrow> SettlementResponse \<Rightarrow> injectingWriter \<Rightarrow> bytes \<Rightarrow> bool" where
  "iw_inv w0 settle iw sofar \<longleftrightarrow>
     iw_settle iw = settle \<and> (iw_hdrWritten iw \<or> sofar = [] \<and> iw_buf iw = [] \<and> \<not> iw_stream iw) \<and>
     (iw_truncated iw \<or> iw_stream iw \<or> length sofar \<le> maxToolResponse) \<and>
     (if iw_stream iw
      then (\<exists>hs c. iw_dst iw = \<lparr>rw_Header = setSettlementHeader settle (copyResponseHeaders (rw_Header w0) hs), rw_Code = Some c,
                                rw_Body = rw_Body w0 @ sofar\<rparr>)
      else iw_dst iw = w0 \<and> iw_buf iw = take maxToolResponse sofar)"

lemma take_room: "length (take m xs) < m \<Longrightarrow> take m (xs @ ys) = take m xs @ take (m - length (take m xs)) ys"
  by (auto simp: min_def split: if_splits)

lemma iw_WriteHeader_inv: "iw_inv w0 settle iw sofar \<Longrightarrow> iw_inv w0 settle (iw_WriteHeader c iw) sofar \<and> iw_hdrWritten (iw_WriteHeader c iw)"
  by (cases "iw_dst iw") (auto simp: iw_inv_def iw_WriteHeader_def Let_def)

lemma iw_Write_inv:
  assumes "iw_inv w0 settle iw sofar"
  shows "iw_inv w0 settle (iw_Write p iw) (sofar @ p)"
proof -
  define iw1 where "iw1 = (if iw_hdrWritten iw then iw else iw_WriteHeader StatusOK iw)"
  have i: "iw_inv w0 settle iw1 sofar" "iw_hdrWritten iw1" using iw_WriteHeader_inv [OF assms] assms by (auto simp: iw1_def)
  show ?thesis
  proof (cases "iw_stream iw1")
    case True
    then show ?thesis using i by (auto simp: iw_inv_def iw_Write_def iw1_def [symmetric] Let_def)
  next
    case False
    then have b: "iw_buf iw1 = take maxToolResponse sofar" "iw_dst iw1 = w0" using i by (auto simp: iw_inv_def)
    show ?thesis
    proof (cases "maxToolResponse \<le> length (iw_buf iw1)")
      case True
      with False b i show ?thesis by (auto simp: iw_inv_def iw_Write_def iw1_def [symmetric] Let_def)
    next
      case less: False
      with b take_room [of maxToolResponse sofar p] have
        "take maxToolResponse (sofar @ p) = iw_buf iw1 @ take (maxToolResponse - length (iw_buf iw1)) p" by simp
      with False b i less show ?thesis by (simp add: iw_inv_def iw_Write_def iw1_def [symmetric] Let_def) linarith
    qed
  qed
qed

lemma iw_fold_inv: "iw_inv w0 settle iw sofar \<Longrightarrow> iw_inv w0 settle (fold iw_step calls iw) (sofar @ written calls)"
proof (induction calls arbitrary: iw sofar)
  case (Cons c calls)
  have "iw_inv w0 settle (iw_step c iw) (sofar @ written [c])"
  proof (cases c)
    case (AddHeader k v)
    then show ?thesis using Cons.prems by (simp add: iw_inv_def)
  next
    case (WriteHeader code)
    then show ?thesis using iw_WriteHeader_inv [OF Cons.prems] by simp
  next
    case (Write p)
    then show ?thesis using iw_Write_inv [OF Cons.prems] by simp
  qed (use Cons.prems in simp)
  from Cons.IH [OF this] show ?case by (cases c) simp_all
qed simp

lemma header_set_filter: "filter (\<lambda>(k', _). EqualFold k' k) (header_set k v hs) = [(k, v)]"
  by (auto simp: header_set_def EqualFold_def filter_empty_conv)

definition settled_headers :: "SettlementResponse \<Rightarrow> (string \<times> string) list \<Rightarrow> bool" where
  "settled_headers settle hs \<longleftrightarrow>
     filter (\<lambda>(k, _). EqualFold k HeaderPaymentResponse) hs = [(HeaderPaymentResponse, EncodeHeader (json_SettlementResponse settle))] \<and>
     (\<forall>(k, v)\<in>set hs. \<not> EqualFold k ''Set-Cookie'' \<and> \<not> EqualFold k ''Content-Length'')"

lemma settled_headers_set: "settled_headers settle (setSettlementHeader settle (copyResponseHeaders [] hs))"
proof -
  have "\<not> EqualFold HeaderPaymentResponse ''Set-Cookie''" "\<not> EqualFold HeaderPaymentResponse ''Content-Length''" by code_simp+
  then show ?thesis
    by (auto simp: settled_headers_def setSettlementHeader_def header_set_filter header_set_def copyResponseHeaders_def gateway_owned_def
        filter_empty_conv)
qed

lemma settled_headers_del: "settled_headers settle hs \<Longrightarrow> settled_headers settle (header_del ''Content-Length'' hs)"
proof -
  assume s: "settled_headers settle hs"
  then have "header_del ''Content-Length'' hs = hs" by (auto simp: settled_headers_def header_del_def intro!: filter_True)
  with s show ?thesis by simp
qed


section \<open>Members that differ in case\<close>

text \<open>A tools/call whose members are written once each, followed by further members.\<close>

definition rpc_call :: "(string \<times> json) list \<Rightarrow> (string \<times> json) list \<Rightarrow> bytes" where
  "rpc_call params rest = json_print (JObj ([(''jsonrpc'', JStr ''2.0''), (''id'', JNum ''1''), (''method'', JStr tools_call),
     (''params'', JObj params)] @ rest))"

lemma wf_num_1: "wf_num ''1''"
  by code_simp

lemma rpc_call_parse:
  "wf_members params \<Longrightarrow> wf_members rest \<Longrightarrow> json_unmarshal (rpc_call params rest) = Some (JObj ([(''jsonrpc'', JStr ''2.0''),
     (''id'', JNum ''1''), (''method'', JStr tools_call), (''params'', JObj params)] @ rest))"
  unfolding rpc_call_def by (rule json_unmarshal_print) (simp add: wf_num_1)

lemma rpc_call_object: "\<not> HasPrefix (trim_json_left (rpc_call params rest)) ''[''"
  by (simp add: rpc_call_def trim_json_left_def HasPrefix_def)

text \<open>
  C36: the gateway reads the members of a message without regard to case, the last one winning, as
  \<open>encoding/json\<close> does, and its check for duplicates only sees the exact key.  So a tools/call that
  names a priced tool is forwarded free, untouched and unpaid, if a member \<open>Method\<close> with another
  method follows, or a member \<open>Name\<close> with a free tool: an MCP server that reads \<open>method\<close> and
  \<open>name\<close> as they are written runs the priced tool.
\<close>
theorem mcp_member_case_bypass:
  assumes "hr_Method r = ''POST''" and "length (rpc_call [(''name'', JStr tool)] [(''Method'', JStr ''ping'')]) \<le> maxBody"
    and "length (rpc_call [(''name'', JStr tool), (''Name'', JStr free)] []) \<le> maxBody" and "ToolPriceFor u free \<le> 0"
  shows "mcpHandler g u now r (Some (rpc_call [(''name'', JStr tool)] [(''Method'', JStr ''ping'')])) w = (Answer (run_next []), w) \<and>
    mcpHandler g u now r (Some (rpc_call [(''name'', JStr tool), (''Name'', JStr free)] [])) w = (Answer (run_next []), w)"
proof -
  have chars: "char_of (109 :: nat) = CHR ''m''" "char_of (110 :: nat) = CHR ''n''" by code_simp+
  have m: "unmarshal_into zero_rpcMessage dec_rpcMessage (json_unmarshal (rpc_call [(''name'', JStr tool)] [(''Method'', JStr ''ping'')])) =
      Some \<lparr>rm_JSONRPC = ''2.0'', rm_ID = Some (JNum ''1''), rm_Method = ''ping'', rm_Params = Some (JObj [(''name'', JStr tool)])\<rparr>"
    and n: "unmarshal_into zero_rpcMessage dec_rpcMessage (json_unmarshal (rpc_call [(''name'', JStr tool), (''Name'', JStr free)] [])) =
      Some \<lparr>rm_JSONRPC = ''2.0'', rm_ID = Some (JNum ''1''), rm_Method = tools_call,
        rm_Params = Some (JObj [(''name'', JStr tool), (''Name'', JStr free)])\<rparr>"
    using chars by (simp_all add: rpc_call_parse unmarshal_into_def dec_rpcMessage_def zero_rpcMessage_def field_defs)
  have p: "unmarshal_into zero_toolCallParams dec_toolCallParams (Some (JObj [(''name'', JStr tool), (''Name'', JStr free)])) =
      Some \<lparr>tcp_Name = free, tcp_Meta = []\<rparr>"
    using chars by (simp add: unmarshal_into_def dec_toolCallParams_def zero_toolCallParams_def field_defs)
  show ?thesis
    using assms m n p rpc_call_object by (simp add: mcpHandler_def tools_call_def duplicateKey_def Let_def)
qed

definition tool_upstream :: Upstream where
  "tool_upstream = sample_upstream\<lparr>up_MCP := True, up_Mode := ModePerCall, up_ToolPrices := [(''report'', 250000)]\<rparr>"

theorem mcp_member_case_bypass_witness:
  "ToolPriceFor tool_upstream ''report'' = 250000 \<and>
   mcpHandler credit_gate_sample tool_upstream 0 (credit_request\<lparr>hr_Method := ''POST''\<rparr>)
     (Some (rpc_call [(''name'', JStr ''report'')] [(''Method'', JStr ''ping'')])) (credit_world credit_db) =
   (Answer (run_next []), credit_world credit_db)"
proof -
  have len: "length (rpc_call [(''name'', JStr ''report'')] [(''Method'', JStr ''ping'')]) \<le> 100"
    "length (rpc_call [(''name'', JStr ''report''), (''Name'', JStr ''list'')] []) \<le> 100" by code_simp+
  have price: "ToolPriceFor tool_upstream ''report'' = 250000" "ToolPriceFor tool_upstream ''list'' \<le> 0"
    by (simp_all add: ToolPriceFor_def tool_upstream_def sample_upstream_def)
  have post: "hr_Method (credit_request\<lparr>hr_Method := ''POST''\<rparr>) = ''POST''" by simp
  show ?thesis
    using mcp_member_case_bypass [OF post _ _ price(2), where tool = "''report''" and g = credit_gate_sample and now = 0 and w = "credit_world credit_db"] price(1) len by (simp add: maxBody_def)
qed

text \<open>
  The receipt is injected by decoding the upstream's answer into \<open>any\<close> and encoding it again, so
  its numbers pass through a double: two answers that differ in one large integer reach the buyer
  as the same bytes.
\<close>
lemma injection_rounds_numbers:
  "injectSettlement (json_print (JObj [(''result'', JObj [(''n'', JNum ''9007199254740993'')])])) settle =
   injectSettlement (json_print (JObj [(''result'', JObj [(''n'', JNum ''9007199254740992'')])])) settle"
proof -
  let ?j = "\<lambda>n. JObj [(''result'', JObj [(''n'', JNum n)])]"
  have "wf_num ''9007199254740993''" "wf_num ''9007199254740992''" by code_simp+
  then have u: "json_unmarshal (json_print (?j ''9007199254740993'')) = Some (?j ''9007199254740993'')"
    "json_unmarshal (json_print (?j ''9007199254740992'')) = Some (?j ''9007199254740992'')"
    by (intro json_unmarshal_print; simp)+
  have "bit_len 9007199254740993 = 54" "bit_len 9007199254740992 = 54" "bit_len (Suc 0) = 1" by (simp_all add: bit_len.simps)
  then have "f64_of_ratio 9007199254740993 1 = Some (4503599627370496, 1)" "f64_of_ratio 9007199254740992 1 = Some (4503599627370496, 1)"
    by (simp_all add: f64_of_ratio_def round_even_def Let_def)
  moreover have "lit_parts ''9007199254740993'' = (False, 9007199254740993, 0)" "lit_parts ''9007199254740992'' = (False, 9007199254740992, 0)"
    by (simp_all add: lit_parts_def GoJson.is_digit_def digit_val_def)
  ultimately have "f64_of_literal ''9007199254740993'' = Some (4503599627370496, 1)" "f64_of_literal ''9007199254740992'' = Some (4503599627370496, 1)"
    by (simp_all add: f64_of_literal_def)
  then have "decode_any (?j ''9007199254740993'') = Some (VObj [(''result'', VObj [(''n'', VNum 4503599627370496 1)])])"
    "decode_any (?j ''9007199254740992'') = Some (VObj [(''result'', VObj [(''n'', VNum 4503599627370496 1)])])" by simp_all
  then show ?thesis unfolding injectSettlement_def u by simp
qed

end
