(* ===== verification/Bazaar.thy ===== *)
theory Bazaar
  imports GateVerify Discovery GoSql
begin

text \<open>
  The facilitator \<open>dcrbazaar\<close>, first part: configuration (\<open>bazaar/config.go\<close>), the store of
  settlements and indexed resources in memory and over SQLite (\<open>store.go\<close>, \<open>store_sqlite.go\<close>),
  and the chain reader of the on-chain method (\<open>onchain.go\<close>).  A stored resource is kept as the
  value its JSON blob denotes; the tables of resources are lists of rows in the order a range or a
  query yields them.  The HTTP transport of the chain reader is a parameter.
\<close>

section \<open>Configuration\<close>

record OnchainConfig =
  oq_Enabled :: bool
  oq_DcrdataURL :: string
  oq_MinConfs :: int

record DiscoveryConfig =
  dq_Enabled :: bool
  dq_PublicSubmit :: bool

record bazaar_Config =
  bq_Listen :: string
  bq_TLSCert :: string
  bq_TLSKey :: string
  bq_Networks :: "string list"
  bq_Store :: string
  bq_Discovery :: DiscoveryConfig
  bq_Onchain :: OnchainConfig
  bq_APIKeys :: "string list"

datatype bazaar_config_error =
    BzNoListen | BzNoNetwork | BzUnknownNetwork string | BzDuplicateNetwork string | BzTLSPair | BzOpenSubmit | BzNoDcrdata
  | BzYAML | BzNoStore

definition networkByName :: "string \<Rightarrow> Network option" where
  "networkByName name =
     (if name = ''mainnet'' then Some Mainnet else if name = ''testnet3'' then Some Testnet3
      else if name = ''simnet'' then Some Simnet else None)"

fun resolve_loop :: "string list \<Rightarrow> string list \<Rightarrow> Network list \<Rightarrow> (bazaar_config_error, Network list) result" where
  "resolve_loop [] seen out = Inr out"
| "resolve_loop (name # names) seen out =
     (case networkByName name of
        None \<Rightarrow> Inl (BzUnknownNetwork name)
      | Some net \<Rightarrow>
          if nw_CAIP2 net \<in> set seen then Inl (BzDuplicateNetwork name)
          else resolve_loop names (nw_CAIP2 net # seen) (out @ [net]))"

definition resolveNetworks :: "bazaar_Config \<Rightarrow> (bazaar_config_error, Network list) result" where
  "resolveNetworks c = resolve_loop (bq_Networks c) [] []"

definition bazaar_validate :: "bazaar_Config \<Rightarrow> (bazaar_config_error, bazaar_Config) result" where
  "bazaar_validate c =
     (if bq_Listen c = [] then Inl BzNoListen
      else if bq_Networks c = [] then Inl BzNoNetwork
      else (case resolveNetworks c of
              Inl e \<Rightarrow> Inl e
            | Inr _ \<Rightarrow>
                if (bq_TLSCert c = []) \<noteq> (bq_TLSKey c = []) then Inl BzTLSPair
                else if dq_Enabled (bq_Discovery c) \<and> \<not> dq_PublicSubmit (bq_Discovery c) \<and> bq_APIKeys c = [] then Inl BzOpenSubmit
                else if oq_Enabled (bq_Onchain c)
                then (if oq_DcrdataURL (bq_Onchain c) = [] then Inl BzNoDcrdata
                      else Inr (c\<lparr>bq_Onchain := (bq_Onchain c)\<lparr>oq_MinConfs :=
                             (if oq_MinConfs (bq_Onchain c) \<le> 0 then 1 else oq_MinConfs (bq_Onchain c))\<rparr>\<rparr>))
                else Inr c))"

definition bazaar_LoadConfig :: "(bytes \<Rightarrow> bazaar_Config option) \<Rightarrow> bytes \<Rightarrow> (bazaar_config_error, bazaar_Config) result" where
  "bazaar_LoadConfig yaml raw = (case yaml raw of None \<Rightarrow> Inl BzYAML | Some c \<Rightarrow> bazaar_validate c)"

section \<open>Resources and the store\<close>

record Resource =
  rs_URL :: string
  rs_ToolName :: string
  rs_Type :: string
  rs_Accepts :: "PaymentRequirements list"
  rs_Description :: string
  rs_MimeType :: string
  rs_ServiceName :: string
  rs_Tags :: "string list"
  rs_IconURL :: string
  rs_Extensions :: "Extension gomap"
  rs_Networks :: "string list"
  rs_LastUpdated :: time

type_synonym resourceKey = "string \<times> string"

definition resource_key :: "Resource \<Rightarrow> resourceKey" where
  "resource_key r = (rs_URL r, rs_ToolName r)"

record 's BazaarStore_ops =
  bs_Settle :: "string \<Rightarrow> bytes \<Rightarrow> bytes \<Rightarrow> time \<Rightarrow> 's \<Rightarrow> (unit, bytes \<times> bool) result \<times> 's"
  bs_GetSettlement :: "string \<Rightarrow> 's \<Rightarrow> (unit, bytes option) result \<times> 's"
  bs_PutResource :: "Resource \<Rightarrow> 's \<Rightarrow> (unit, unit) result \<times> 's"
  bs_Resources :: "'s \<Rightarrow> (unit, Resource list) result \<times> 's"

text \<open>An upsert by key keeps the place of an existing row.\<close>

fun upsert_row :: "('r \<Rightarrow> 'k) \<Rightarrow> 'r \<Rightarrow> 'r list \<Rightarrow> 'r list" where
  "upsert_row key r [] = [r]"
| "upsert_row key r (x # xs) = (if key x = key r then r # xs else x # upsert_row key r xs)"

record bazaar_mem =
  bm_settlements :: "string \<rightharpoonup> bytes"
  bm_resources :: "Resource list"

definition bazaar_NewMemory :: bazaar_mem where
  "bazaar_NewMemory = \<lparr>bm_settlements = Map.empty, bm_resources = []\<rparr>"

definition BMem_Settle :: "string \<Rightarrow> bytes \<Rightarrow> bytes \<Rightarrow> time \<Rightarrow> bazaar_mem \<Rightarrow> (unit, bytes \<times> bool) result \<times> bazaar_mem" where
  "BMem_Settle key response receipt at m =
     (case bm_settlements m key of
        Some stored \<Rightarrow> (Inr (stored, True), m)
      | None \<Rightarrow> (Inr (response, False), m\<lparr>bm_settlements := (bm_settlements m)(key \<mapsto> response)\<rparr>))"

definition BMem_GetSettlement :: "string \<Rightarrow> bazaar_mem \<Rightarrow> (unit, bytes option) result \<times> bazaar_mem" where
  "BMem_GetSettlement key m = (Inr (bm_settlements m key), m)"

definition BMem_PutResource :: "Resource \<Rightarrow> bazaar_mem \<Rightarrow> (unit, unit) result \<times> bazaar_mem" where
  "BMem_PutResource r m = (Inr (), m\<lparr>bm_resources := upsert_row resource_key r (bm_resources m)\<rparr>)"

definition BMem_Resources :: "bazaar_mem \<Rightarrow> (unit, Resource list) result \<times> bazaar_mem" where
  "BMem_Resources m = (Inr (bm_resources m), m)"

definition BazaarMemory :: "bazaar_mem BazaarStore_ops" where
  "BazaarMemory = \<lparr>bs_Settle = BMem_Settle, bs_GetSettlement = BMem_GetSettlement, bs_PutResource = BMem_PutResource,
     bs_Resources = BMem_Resources\<rparr>"

text \<open>The two tables: a settlement is response, receipt and time; a resource has its update time beside it.\<close>

record bazaar_db =
  bt_settlements :: "string \<rightharpoonup> bytes \<times> bytes \<times> int"
  bt_resources :: "(Resource \<times> int) list"

definition bz_insert_settlement :: "string \<Rightarrow> bytes \<Rightarrow> bytes \<Rightarrow> int \<Rightarrow> bazaar_db \<Rightarrow> int \<times> bazaar_db" where
  "bz_insert_settlement key response receipt at db =
     (if bt_settlements db key = None
      then (1, db\<lparr>bt_settlements := (bt_settlements db)(key \<mapsto> (response, receipt, at))\<rparr>) else (0, db))"

definition bz_select_response :: "string \<Rightarrow> bazaar_db \<Rightarrow> bytes option" where
  "bz_select_response key db = map_option fst (bt_settlements db key)"

definition bz_settle_body :: "string \<Rightarrow> bytes \<Rightarrow> bytes \<Rightarrow> time \<Rightarrow> (bazaar_db, unit, bytes \<times> bool) sql" where
  "bz_settle_body key response receipt at =
     andThen (stmt () (bz_insert_settlement key response receipt (Unix at))) (\<lambda>inserted.
     andThen (driver ()) (\<lambda>_.
     if inserted = 1 then ret (response, False)
     else andThen (query () (bz_select_response key)) (\<lambda>row.
       case row of None \<Rightarrow> throw () | Some stored \<Rightarrow> ret (stored, True))))"

definition BSq_Settle :: "string \<Rightarrow> bytes \<Rightarrow> bytes \<Rightarrow> time \<Rightarrow> (bazaar_db, unit, bytes \<times> bool) sql" where
  "BSq_Settle key response receipt at = transaction () (bz_settle_body key response receipt at)"

definition BSq_GetSettlement :: "string \<Rightarrow> (bazaar_db, unit, bytes option) sql" where
  "BSq_GetSettlement key = query () (bz_select_response key)"

definition BSq_PutResource :: "Resource \<Rightarrow> (bazaar_db, unit, unit) sql" where
  "BSq_PutResource r =
     stmt () (\<lambda>db. ((), db\<lparr>bt_resources := upsert_row (\<lambda>(x, _). resource_key x) (r, Unix (rs_LastUpdated r)) (bt_resources db)\<rparr>))"

definition BSq_Resources :: "(bazaar_db, unit, Resource list) sql" where
  "BSq_Resources = query () (\<lambda>db. map fst (bt_resources db))"

definition BazaarSQLite :: "bazaar_db conn BazaarStore_ops" where
  "BazaarSQLite = \<lparr>bs_Settle = BSq_Settle, bs_GetSettlement = BSq_GetSettlement, bs_PutResource = BSq_PutResource,
     bs_Resources = BSq_Resources\<rparr>"

section \<open>Reading the chain\<close>

definition wrap32 :: "int \<Rightarrow> int" where
  "wrap32 v = (v + 2 ^ 31) mod 2 ^ 32 - 2 ^ 31"

definition dec_int32 :: "int decoder" where
  "dec_int32 cur j =
     (case dec_int cur j of (v, ok) \<Rightarrow> if ok \<and> - (2 ^ 31) \<le> v \<and> v < 2 ^ 31 then (v, True) else (cur, False))"

text \<open>\<open>json.Number\<close>: the literal of a number, or a string that is one.\<close>

definition dec_Number :: "string decoder" where
  "dec_Number cur j =
     (case j of
        JNum t \<Rightarrow> (t, True)
      | JStr s \<Rightarrow> (if parse_num s = Some (s, []) then (s, True) else (cur, False))
      | JNull \<Rightarrow> (cur, True)
      | _ \<Rightarrow> (cur, False))"

record insightVout =
  vo_Value :: string
  vo_Addresses :: "string list"

record insightTx =
  tx_Confirmations :: int
  tx_Vout :: "insightVout list"

definition zero_insightVout :: insightVout where
  "zero_insightVout = \<lparr>vo_Value = [], vo_Addresses = []\<rparr>"

definition zero_insightTx :: insightTx where
  "zero_insightTx = \<lparr>tx_Confirmations = 0, tx_Vout = []\<rparr>"

definition dec_insightVout :: "insightVout decoder" where
  "dec_insightVout = dec_fields
     [(''value'', set_field vo_Value vo_Value_update dec_Number),
      (''scriptPubKey'', set_field vo_Addresses vo_Addresses_update
         (dec_fields [(''addresses'', set_field (\<lambda>x. x) (\<lambda>f x. f x) (dec_slice [] dec_string))]))]"

definition dec_insightTx :: "insightTx decoder" where
  "dec_insightTx = dec_fields
     [(''confirmations'', set_field tx_Confirmations tx_Confirmations_update dec_int32),
      (''vout'', set_field tx_Vout tx_Vout_update (dec_slice zero_insightVout dec_insightVout))]"

definition containsAddr :: "string list \<Rightarrow> string \<Rightarrow> bool" where
  "containsAddr addrs want \<longleftrightarrow> list_ex (\<lambda>a. a = want) addrs"

definition defZero :: "string \<Rightarrow> string" where
  "defZero s = (if s = [] then ''0'' else s)"

definition dcrToAtoms :: "string \<Rightarrow> int option" where
  "dcrToAtoms s0 =
     (let neg = HasPrefix s0 ''-''; s = TrimPrefix s0 ''-''; (intPart, fracPart, _) = Cut s (CHR ''.'') in
      if length fracPart > 8 then None
      else (case (ParseInt (defZero intPart), ParseInt (defZero (fracPart @ replicate (8 - length fracPart) (CHR ''0'')))) of
              (Some whole, Some frac) \<Rightarrow>
                (let atoms = add64 (mul64 whole 100000000) frac in Some (if neg then sub64 0 atoms else atoms))
            | _ \<Rightarrow> None))"

text \<open>The outputs that pay the address, added up.\<close>

fun sum_outputs :: "string \<Rightarrow> insightVout list \<Rightarrow> int \<Rightarrow> int option" where
  "sum_outputs address [] atoms = Some atoms"
| "sum_outputs address (v # vs) atoms =
     (if \<not> containsAddr (vo_Addresses v) address then sum_outputs address vs atoms
      else (case dcrToAtoms (vo_Value v) of None \<Rightarrow> None | Some a \<Rightarrow> sum_outputs address vs (add64 atoms a)))"

datatype lookup_error = BadTxid | TransportFailed string | UnexpectedStatus int | BadTxJSON | BadTxAmount

text \<open>\<open>get\<close> is one HTTP request: the status and the body, or an error.\<close>

definition lookupDeposit ::
  "(string \<Rightarrow> 'c \<Rightarrow> (string, int \<times> bytes) result \<times> 'c) \<Rightarrow> string \<Rightarrow> string \<Rightarrow> string \<Rightarrow> 'c \<Rightarrow>
   (lookup_error, DepositStatus) result \<times> 'c" where
  "lookupDeposit get baseURL txid address c =
     (if hex32 txid = None then (Inl BadTxid, c)
      else (case get (baseURL @ ''/insight/api/tx/'' @ txid) c of
              (Inl e, c) \<Rightarrow> (Inl (TransportFailed e), c)
            | (Inr (status, body), c) \<Rightarrow>
                if status = 404 \<or> status = 400
                then (Inr \<lparr>ds_Found = False, ds_Confirmations = 0, ds_AmountToAddressAtoms = 0\<rparr>, c)
                else if status \<noteq> 200 then (Inl (UnexpectedStatus status), c)
                else (case unmarshal_into zero_insightTx dec_insightTx (json_decode_first (take (8 * 2 ^ 20) body)) of
                        None \<Rightarrow> (Inl BadTxJSON, c)
                      | Some tx \<Rightarrow>
                          (case sum_outputs address (tx_Vout tx) 0 of
                             None \<Rightarrow> (Inl BadTxAmount, c)
                           | Some atoms \<Rightarrow>
                               (Inr \<lparr>ds_Found = True, ds_Confirmations = tx_Confirmations tx, ds_AmountToAddressAtoms = atoms\<rparr>, c)))))"

end
