(* ===== verification/BazaarService.thy ===== *)
theory BazaarService
  imports Bazaar GateServe
begin

text \<open>
  The facilitator \<open>dcrbazaar\<close>, second part: verification and settlement (\<open>bazaar/verify.go\<close>),
  cataloging from settled payments (\<open>bazaar.go\<close>), submissions (\<open>submit.go\<close>), the discovery
  index (\<open>discovery.go\<close>) and the HTTP routes (\<open>service.go\<close>).  Third-party code is collected in one record: the
  invoice decoder, the JSON schema validator, the IDNA conversion, the number of bytes a raw message
  takes, and the HTTP transport of the chain reader.  The text of a JSON syntax error is abbreviated.
\<close>

section \<open>The service\<close>

record 'c third_party =
  tp_Decode :: "string \<Rightarrow> Network \<Rightarrow> Invoice option"
  tp_Validate :: "json \<Rightarrow> json \<Rightarrow> bool"
  tp_ToASCII :: "string \<Rightarrow> string option"
  tp_RawLen :: "json \<Rightarrow> nat"
  tp_Get :: "string \<Rightarrow> 'c \<Rightarrow> (string, int \<times> bytes) result \<times> 'c"

record ('s, 'c) FacilitatorService =
  sv_cfg :: bazaar_Config
  sv_networks :: "Network list"
  sv_keys :: "string list"
  sv_store :: "'s BazaarStore_ops"
  sv_onchain :: "(string \<Rightarrow> string \<Rightarrow> 'c \<Rightarrow> (lookup_error, DepositStatus) result \<times> 'c) option"
  sv_tp :: "'c third_party"

record ('s, 'c) bazaar_world =
  bw_store :: 's
  bw_chain :: 'c

definition Service_New ::
  "'c third_party \<Rightarrow> bazaar_Config \<Rightarrow> 's BazaarStore_ops option \<Rightarrow> (bazaar_config_error, ('s, 'c) FacilitatorService) result" where
  "Service_New tp cfg st =
     (case st of
        None \<Rightarrow> Inl BzNoStore
      | Some store \<Rightarrow>
          (case resolveNetworks cfg of
             Inl e \<Rightarrow> Inl e
           | Inr nets \<Rightarrow>
               Inr \<lparr>sv_cfg = cfg, sv_networks = nets, sv_keys = bq_APIKeys cfg, sv_store = store,
                    sv_onchain = (if oq_Enabled (bq_Onchain cfg)
                                  then Some (lookupDeposit (tp_Get tp) (TrimRight (oq_DcrdataURL (bq_Onchain cfg)) (CHR ''/'')))
                                  else None),
                    sv_tp = tp\<rparr>))"

definition networkFor :: "('s, 'c) FacilitatorService \<Rightarrow> string \<Rightarrow> Network option" where
  "networkFor sv caip2 = find (\<lambda>n. nw_CAIP2 n = caip2) (sv_networks sv)"

section \<open>Verification\<close>

record verifyRequest =
  vq_X402Version :: int
  vq_PaymentPayload :: PaymentPayload
  vq_PaymentRequirements :: PaymentRequirements

definition zero_verifyRequest :: verifyRequest where
  "zero_verifyRequest = \<lparr>vq_X402Version = 0, vq_PaymentPayload = zero_PaymentPayload,
     vq_PaymentRequirements = zero_PaymentRequirements\<rparr>"

definition dec_verifyRequest :: "verifyRequest decoder" where
  "dec_verifyRequest = dec_fields [
     (''x402Version'', set_field vq_X402Version vq_X402Version_update dec_int),
     (''paymentPayload'', set_field vq_PaymentPayload vq_PaymentPayload_update dec_PaymentPayload),
     (''paymentRequirements'', set_field vq_PaymentRequirements vq_PaymentRequirements_update dec_PaymentRequirements)]"

record settleIdentity =
  si_method :: string
  si_transaction :: string
  si_key :: string
  si_receipt :: json

text \<open>\<open>dec_int\<close> reads \<open>extra.confirmations\<close>; the conversion to \<open>int32\<close> drops the upper bits.\<close>

definition checkOnchain ::
  "('s, 'c) FacilitatorService \<Rightarrow> verifyRequest \<Rightarrow> ('s, 'c) bazaar_world \<Rightarrow> (VerifyError, string) result \<times> ('s, 'c) bazaar_world" where
  "checkOnchain sv req w =
     (let pp = vq_PaymentPayload req; acc = pp_Accepted pp in
      case sv_onchain sv of
        None \<Rightarrow> (Inl (verifyErrf ReasonInvalidPayload ''onchain method is not enabled on this dcrbazaar''), w)
      | Some look \<Rightarrow>
          (case unmarshal_into zero_OnchainPayload dec_OnchainPayload (pp_Payload pp) of
             None \<Rightarrow> (Inl (verifyErrf ReasonInvalidPayload ''malformed onchain payload''), w)
           | Some pay \<Rightarrow>
               if op_TxID pay = [] then (Inl (verifyErrf ReasonInvalidPayload ''malformed onchain payload''), w)
               else if hex32 (op_TxID pay) = None then (Inl (verifyErrf ReasonInvalidPayload ''txid is not 32 hex bytes''), w)
               else if pr_PayTo acc = [] then (Inl (verifyErrf ReasonInvalidRequirements ''payTo is required''), w)
               else (case ParseInt (pr_Amount acc) of
                       None \<Rightarrow> (Inl (verifyErrf ReasonInvalidRequirements ''amount is not a positive atoms integer''), w)
                     | Some requiredAtoms \<Rightarrow>
                         if requiredAtoms \<le> 0
                         then (Inl (verifyErrf ReasonInvalidRequirements ''amount is not a positive atoms integer''), w)
                         else
                           (let extra = (case pr_Extra acc of None \<Rightarrow> zero_OnchainExtra
                                         | Some j \<Rightarrow> fst (dec_OnchainExtra zero_OnchainExtra j));
                                confs = wrap32 (oe_Confirmations extra); minconfs = oq_MinConfs (bq_Onchain (sv_cfg sv));
                                requiredConfs = (if minconfs > confs then minconfs else confs) in
                            case look (op_TxID pay) (pr_PayTo acc) (bw_chain w) of
                              (Inl e, c) \<Rightarrow> (Inl (verifyErrf ReasonUnexpectedVerify ''dcrdata''), w\<lparr>bw_chain := c\<rparr>)
                            | (Inr dep, c) \<Rightarrow>
                                (if \<not> ds_Found dep
                                 then Inl (verifyErrf ReasonInsufficientConfs ''transaction not yet visible on-chain'')
                                 else if ds_AmountToAddressAtoms dep = 0
                                 then Inl (verifyErrf ReasonAddressMismatch ''transaction pays no output to payTo'')
                                 else if ds_AmountToAddressAtoms dep \<noteq> requiredAtoms
                                 then Inl (verifyErrf ReasonAmountMismatch (''outputs to payTo sum to '' @
                                   FormatInt (ds_AmountToAddressAtoms dep) @ '' atoms, want '' @ FormatInt requiredAtoms))
                                 else if ds_Confirmations dep < requiredConfs
                                 then Inl (verifyErrf ReasonInsufficientConfs (FormatInt (ds_Confirmations dep) @ '' of '' @
                                   FormatInt requiredConfs @ '' confirmations''))
                                 else Inr (ToLower (op_TxID pay)), w\<lparr>bw_chain := c\<rparr>)))))"

definition lightning_identity :: "PaymentRequirements \<Rightarrow> LightningPayload \<Rightarrow> Network \<Rightarrow> time \<Rightarrow> settleIdentity" where
  "lightning_identity acc pay net now =
     (let extra = (case pr_Extra acc of None \<Rightarrow> zero_LightningExtra | Some j \<Rightarrow> fst (dec_LightningExtra zero_LightningExtra j)) in
      \<lparr>si_method = MethodLightning, si_transaction = lp_PaymentHash pay, si_key = ToLower (lp_PaymentHash pay),
       si_receipt = jmap [(''method'', JStr MethodLightning), (''invoice'', JStr (le_Invoice extra)),
         (''preimage'', JStr (lp_Preimage pay)), (''amount'', JStr (pr_Amount acc)), (''network'', JStr (nw_CAIP2 net)),
         (''settledAt'', JStr (rfc3339 now))]\<rparr>)"

definition onchain_identity :: "PaymentRequirements \<Rightarrow> string \<Rightarrow> Network \<Rightarrow> time \<Rightarrow> settleIdentity" where
  "onchain_identity acc txid net now =
     \<lparr>si_method = MethodOnchain, si_transaction = txid, si_key = txid,
      si_receipt = jmap [(''method'', JStr MethodOnchain), (''txid'', JStr txid), (''address'', JStr (pr_PayTo acc)),
        (''amount'', JStr (pr_Amount acc)), (''network'', JStr (nw_CAIP2 net)), (''settledAt'', JStr (rfc3339 now))]\<rparr>"

definition checkAny ::
  "('s, 'c) FacilitatorService \<Rightarrow> time \<Rightarrow> verifyRequest \<Rightarrow> ('s, 'c) bazaar_world \<Rightarrow>
   (VerifyError, settleIdentity) result \<times> ('s, 'c) bazaar_world" where
  "checkAny sv now req w =
     (let pp = vq_PaymentPayload req; acc = pp_Accepted pp in
      case networkFor sv (pr_Network acc) of
        None \<Rightarrow> (Inl (verifyErrf ReasonInvalidNetwork (''unsupported network '' @ pr_Network acc)), w)
      | Some net \<Rightarrow>
          (case CheckEnvelope pp net of
             Some ve \<Rightarrow> (Inl ve, w)
           | None \<Rightarrow>
               if TransferMethod acc = MethodLightning
               then (case VerifyLightningProof (tp_Decode (sv_tp sv)) pp (vq_PaymentRequirements req) net (Some now) of
                       Inl ve \<Rightarrow> (Inl ve, w)
                     | Inr pay \<Rightarrow> (Inr (lightning_identity acc pay net now), w))
               else if TransferMethod acc = MethodOnchain
               then (case checkOnchain sv req w of
                       (Inl ve, w) \<Rightarrow> (Inl ve, w)
                     | (Inr txid, w) \<Rightarrow> (Inr (onchain_identity acc txid net now), w))
               else (Inl (verifyErrf ReasonInvalidPayload ''unknown assetTransferMethod''), w)))"

definition Service_verify ::
  "('s, 'c) FacilitatorService \<Rightarrow> time \<Rightarrow> verifyRequest \<Rightarrow> ('s, 'c) bazaar_world \<Rightarrow> VerifyResponse \<times> ('s, 'c) bazaar_world" where
  "Service_verify sv now req w =
     (case checkAny sv now req w of
        (Inl ve, w) \<Rightarrow> (\<lparr>vr_IsValid = False, vr_InvalidReason = ve_Reason ve, vr_InvalidMessage = ve_Detail ve, vr_Payer = []\<rparr>, w)
      | (Inr _, w) \<Rightarrow> (\<lparr>vr_IsValid = True, vr_InvalidReason = [], vr_InvalidMessage = [], vr_Payer = []\<rparr>, w))"

section \<open>Settlement\<close>

definition idempotencyKey :: "PaymentPayload \<Rightarrow> string" where
  "idempotencyKey pp =
     (if TransferMethod (pp_Accepted pp) = MethodLightning
      then (case unmarshal_into zero_LightningPayload dec_LightningPayload (pp_Payload pp) of
              Some pay \<Rightarrow> ToLower (lp_PaymentHash pay) | None \<Rightarrow> [])
      else if TransferMethod (pp_Accepted pp) = MethodOnchain
      then (case unmarshal_into zero_OnchainPayload dec_OnchainPayload (pp_Payload pp) of
              Some pay \<Rightarrow> ToLower (op_TxID pay) | None \<Rightarrow> [])
      else [])"

definition refuse_settle :: "string \<Rightarrow> string \<Rightarrow> SettlementResponse" where
  "refuse_settle reason network = zero_SettlementResponse\<lparr>sr_ErrorReason := reason, sr_Network := network\<rparr>"

definition failSettle :: "string \<Rightarrow> SettlementResponse" where
  "failSettle networkCAIP2 = refuse_settle ReasonUnexpectedSettle networkCAIP2"

text \<open>The recorded answer under a key, when there is one and it can be read.\<close>

definition recorded ::
  "('s, 'c) FacilitatorService \<Rightarrow> string \<Rightarrow> ('s, 'c) bazaar_world \<Rightarrow> SettlementResponse option \<times> ('s, 'c) bazaar_world" where
  "recorded sv key w =
     (if key = [] then (None, w)
      else (case bs_GetSettlement (sv_store sv) key (bw_store w) of
              (Inr (Some stored), s) \<Rightarrow>
                (unmarshal_into zero_SettlementResponse dec_SettlementResponse (json_unmarshal stored), w\<lparr>bw_store := s\<rparr>)
            | (_, s) \<Rightarrow> (None, w\<lparr>bw_store := s\<rparr>)))"

definition notarize ::
  "('s, 'c) FacilitatorService \<Rightarrow> time \<Rightarrow> PaymentRequirements \<Rightarrow> Network \<Rightarrow> settleIdentity \<Rightarrow> ('s, 'c) bazaar_world \<Rightarrow>
   SettlementResponse \<times> ('s, 'c) bazaar_world" where
  "notarize sv now acc net si w =
     (let resp = \<lparr>sr_Success = True, sr_ErrorReason = [], sr_Payer = [], sr_Transaction = si_transaction si,
                  sr_Network = nw_CAIP2 net, sr_Amount = pr_Amount acc, sr_Extensions = []\<rparr> in
      case bs_Settle (sv_store sv) (si_key si) (json_print (json_SettlementResponse resp)) (json_print (si_receipt si)) now
             (bw_store w) of
        (Inl _, s) \<Rightarrow> (failSettle (nw_CAIP2 net), w\<lparr>bw_store := s\<rparr>)
      | (Inr (stored, _), s) \<Rightarrow>
          (case unmarshal_into resp dec_SettlementResponse (json_unmarshal stored) of
             None \<Rightarrow> failSettle (nw_CAIP2 net)
           | Some resp \<Rightarrow> resp, w\<lparr>bw_store := s\<rparr>))"

definition Service_settle ::
  "('s, 'c) FacilitatorService \<Rightarrow> time \<Rightarrow> verifyRequest \<Rightarrow> ('s, 'c) bazaar_world \<Rightarrow> SettlementResponse \<times> ('s, 'c) bazaar_world" where
  "Service_settle sv now req w =
     (let pp = vq_PaymentPayload req in
      case networkFor sv (pr_Network (pp_Accepted pp)) of
        None \<Rightarrow> (refuse_settle ReasonInvalidNetwork (pr_Network (pp_Accepted pp)), w)
      | Some net \<Rightarrow>
          (case CheckEnvelope pp net of
             Some ve \<Rightarrow> (refuse_settle (ve_Reason ve) (nw_CAIP2 net), w)
           | None \<Rightarrow>
               (case recorded sv (idempotencyKey pp) w of
                  (Some resp, w) \<Rightarrow> (resp, w)
                | (None, w) \<Rightarrow>
                    (case checkAny sv now req w of
                       (Inl ve, w) \<Rightarrow> (refuse_settle (ve_Reason ve) (nw_CAIP2 net), w)
                     | (Inr si, w) \<Rightarrow> notarize sv now (pp_Accepted pp) net si w))))"

end
