(* ===== verification/BazaarIndex.thy ===== *)
theory BazaarIndex
  imports BazaarService
begin

text \<open>
  The discovery index of \<open>dcrbazaar\<close> and its HTTP routes: cataloging from a settled payment
  (\<open>bazaar/bazaar.go\<close>), submissions (\<open>submit.go\<close>), filters and pages (\<open>discovery.go\<close>), and the
  handlers of \<open>service.go\<close>.
\<close>

section \<open>Cataloging from a payment\<close>

definition maxExtensionBytes :: nat where "maxExtensionBytes = 64 * 2 ^ 10"

text \<open>An absent message is empty; a present one is a JSON value, so it never is.\<close>

definition validateDiscoveryInfo :: "'c third_party \<Rightarrow> Extension \<Rightarrow> bool" where
  "validateDiscoveryInfo tp ext =
     (case (ext_Schema ext, ext_Info ext) of
        (Some schema, Some info) \<Rightarrow> decode_any info \<noteq> None \<and> tp_Validate tp schema info
      | _ \<Rightarrow> False)"

text \<open>The members are read as far as they can be; the error is dropped.\<close>

definition probe_input :: "string \<Rightarrow> json option \<Rightarrow> string" where
  "probe_input tag info =
     (case info of
        None \<Rightarrow> []
      | Some j \<Rightarrow> fst (dec_fields [(''input'', \<lambda>v s. dec_fields [(tag, \<lambda>v s. dec_string s v)] s v)] [] j))"

definition bazaarInputType :: "json option \<Rightarrow> string" where
  "bazaarInputType info = probe_input ''type'' info"

definition bazaarInputToolName :: "json option \<Rightarrow> string" where
  "bazaarInputToolName info = probe_input ''toolName'' info"

definition extension_bytes :: "'c third_party \<Rightarrow> Extension \<Rightarrow> nat" where
  "extension_bytes tp ext =
     (case ext_Info ext of None \<Rightarrow> 0 | Some j \<Rightarrow> tp_RawLen tp j) + (case ext_Schema ext of None \<Rightarrow> 0 | Some j \<Rightarrow> tp_RawLen tp j)"

definition harvested ::
  "'c third_party \<Rightarrow> time \<Rightarrow> ResourceInfo \<Rightarrow> PaymentRequirements \<Rightarrow> Extension \<Rightarrow> string \<Rightarrow> string \<Rightarrow> Resource" where
  "harvested tp now info offered ext typ toolName =
     (let meta = SanitizeServiceMetadata (tp_ToASCII tp) info in
      \<lparr>rs_URL = ri_URL meta, rs_ToolName = toolName, rs_Type = typ, rs_Accepts = [offered],
       rs_Description = ri_Description meta, rs_MimeType = ri_MimeType meta, rs_ServiceName = ri_ServiceName meta,
       rs_Tags = ri_Tags meta, rs_IconURL = ri_IconURL meta,
       rs_Extensions = (if extension_bytes tp ext \<le> maxExtensionBytes then [(ExtensionBazaar, ext)] else []),
       rs_Networks = (if pr_Network offered = [] then [] else [pr_Network offered]), rs_LastUpdated = now\<rparr>)"

definition harvestBazaar ::
  "('s, 'c) FacilitatorService \<Rightarrow> time \<Rightarrow> PaymentPayload \<Rightarrow> PaymentRequirements \<Rightarrow> ('s, 'c) bazaar_world \<Rightarrow>
   (string \<times> string) \<times> ('s, 'c) bazaar_world" where
  "harvestBazaar sv now pp offered w =
     (case map_of (pp_Extensions pp) ExtensionBazaar of
        None \<Rightarrow> (([], []), w)
      | Some ext \<Rightarrow>
          (case pp_Resource pp of
             None \<Rightarrow> ((''rejected'', ''missing resource url''), w)
           | Some info \<Rightarrow>
               if ri_URL info = [] then ((''rejected'', ''missing resource url''), w)
               else if \<not> validateDiscoveryInfo (sv_tp sv) ext then ((''rejected'', ''info failed schema validation''), w)
               else
                 (let typ = bazaarInputType (ext_Info ext);
                      toolName = (if typ = ''mcp'' then bazaarInputToolName (ext_Info ext) else []) in
                  if typ \<noteq> ''http'' \<and> typ \<noteq> ''mcp'' then ((''rejected'', ''unknown discovery type''), w)
                  else if typ = ''mcp'' \<and> toolName = [] then ((''rejected'', ''missing input.toolName''), w)
                  else (case bs_PutResource (sv_store sv) (harvested (sv_tp sv) now info offered ext typ toolName) (bw_store w) of
                          (Inl _, s) \<Rightarrow> ((''rejected'', ''storage error''), w\<lparr>bw_store := s\<rparr>)
                        | (Inr _, s) \<Rightarrow> ((''success'', []), w\<lparr>bw_store := s\<rparr>)))))"

definition extensionResponsesHeader :: "string \<Rightarrow> string \<Rightarrow> string option" where
  "extensionResponsesHeader status reason =
     (if status = [] then None
      else Some (b64_encode (json_print (jmap [(''bazaar'',
             jmap ((''status'', JStr status) # opt_field (reason \<noteq> []) ''rejectedReason'' (JStr reason)))]))))"

section \<open>Submissions\<close>

record SubmitRequest =
  sq_Resource :: string
  sq_Type :: string
  sq_Accepts :: "PaymentRequirements list"
  sq_Metadata :: ResourceInfo
  sq_Extensions :: "Extension gomap"

definition zero_SubmitRequest :: SubmitRequest where
  "zero_SubmitRequest = \<lparr>sq_Resource = [], sq_Type = [], sq_Accepts = [], sq_Metadata = zero_ResourceInfo, sq_Extensions = []\<rparr>"

definition dec_SubmitRequest :: "SubmitRequest decoder" where
  "dec_SubmitRequest = dec_fields [
     (''resource'', set_field sq_Resource sq_Resource_update dec_string),
     (''type'', set_field sq_Type sq_Type_update dec_string),
     (''accepts'', set_field sq_Accepts sq_Accepts_update (dec_slice zero_PaymentRequirements dec_PaymentRequirements)),
     (''metadata'', set_field sq_Metadata sq_Metadata_update dec_ResourceInfo),
     (''extensions'', set_field sq_Extensions sq_Extensions_update dec_Extensions)]"

definition json_SubmitRequest :: "SubmitRequest \<Rightarrow> json" where
  "json_SubmitRequest r = JObj (
     (''resource'', JStr (sq_Resource r)) # opt_field (sq_Type r \<noteq> []) ''type'' (JStr (sq_Type r)) @
     [(''accepts'', JArr (map json_PaymentRequirements (sq_Accepts r))), (''metadata'', json_ResourceInfo (sq_Metadata r))] @
     opt_field (sq_Extensions r \<noteq> []) ''extensions'' (json_Extensions (sq_Extensions r)))"

definition validResourceURL :: "string \<Rightarrow> bool" where
  "validResourceURL raw =
     (case url_Parse (TrimSpace raw) of
        None \<Rightarrow> False
      | Some u \<Rightarrow>
          if ur_Scheme u = ''http'' \<or> ur_Scheme u = ''https'' then ur_Host u \<noteq> [] else ur_Scheme u = ''mcp'')"

fun network_loop :: "PaymentRequirements list \<Rightarrow> string list \<Rightarrow> string list" where
  "network_loop [] networks = networks"
| "network_loop (a # as) networks =
     network_loop as (if pr_Network a \<noteq> [] \<and> pr_Network a \<notin> set networks then networks @ [pr_Network a] else networks)"

definition submitted :: "'c third_party \<Rightarrow> time \<Rightarrow> SubmitRequest \<Rightarrow> string \<Rightarrow> Resource" where
  "submitted tp now req typ =
     (let meta = SanitizeServiceMetadata (tp_ToASCII tp) (sq_Metadata req) in
      \<lparr>rs_URL = sq_Resource req, rs_ToolName = [], rs_Type = typ, rs_Accepts = sq_Accepts req,
       rs_Description = ri_Description meta, rs_MimeType = ri_MimeType meta, rs_ServiceName = ri_ServiceName meta,
       rs_Tags = ri_Tags meta, rs_IconURL = ri_IconURL meta, rs_Extensions = [],
       rs_Networks = network_loop (sq_Accepts req) [], rs_LastUpdated = now\<rparr>)"

definition with_extension :: "'c third_party \<Rightarrow> SubmitRequest \<Rightarrow> Resource \<Rightarrow> (string, Resource) result" where
  "with_extension tp req res =
     (case map_of (sq_Extensions req) ExtensionBazaar of
        None \<Rightarrow> Inr res
      | Some ext \<Rightarrow>
          if extension_bytes tp ext > maxExtensionBytes then Inl ''bazaar extension exceeds its size limit''
          else if \<not> validateDiscoveryInfo tp ext then Inl ''bazaar extension info failed schema validation''
          else if bazaarInputType (ext_Info ext) \<noteq> rs_Type res
          then Inl (''bazaar extension input type '' @ Quote (bazaarInputType (ext_Info ext)) @
                    '' does not match resource type '' @ Quote (rs_Type res))
          else Inr (res\<lparr>rs_ToolName := bazaarInputToolName (ext_Info ext), rs_Extensions := [(ExtensionBazaar, ext)]\<rparr>))"

definition toResource :: "'c third_party \<Rightarrow> time \<Rightarrow> SubmitRequest \<Rightarrow> (string, Resource) result" where
  "toResource tp now req =
     (let typ = (if sq_Type req = [] then ''http'' else sq_Type req) in
      if TrimSpace (sq_Resource req) = [] then Inl ''resource is required''
      else if sq_Accepts req = [] then Inl ''at least one accepts entry is required''
      else if typ \<noteq> ''http'' \<and> typ \<noteq> ''mcp'' then Inl (''type must be '' @ Quote ''http'' @ '' or '' @ Quote ''mcp'')
      else if \<not> validResourceURL (sq_Resource req) then Inl ''resource must be an http(s) or mcp URL''
      else if length (ri_Description (sq_Metadata req)) > 2048 then Inl ''description exceeds its length limit''
      else (case with_extension tp req (submitted tp now req typ) of
              Inl e \<Rightarrow> Inl e
            | Inr res \<Rightarrow>
                if typ = ''mcp'' \<and> rs_ToolName res = [] \<and> \<not> HasPrefix (TrimSpace (sq_Resource req)) ''mcp:''
                then Inl (''an mcp resource listed under a server URL requires the bazaar extension'' @ [CHR 0x27] @
                          ''s input.toolName'')
                else Inr res))"

text \<open>The client: \<open>post\<close> is the HTTP exchange, given the URL, the headers and the body.\<close>

datatype submit_error = SubmitRequestError | SubmitPostError string | SubmitStatus int string

definition Submit ::
  "(string \<Rightarrow> (string \<times> string) list \<Rightarrow> bytes \<Rightarrow> 'n \<Rightarrow> (string, int \<times> bytes) result \<times> 'n) \<Rightarrow> string \<Rightarrow> string \<Rightarrow> SubmitRequest \<Rightarrow>
   'n \<Rightarrow> (submit_error, unit) result \<times> 'n" where
  "Submit post facURL apiKey req n =
     (let url = TrimRight facURL (CHR ''/'') @ ''/discovery/submit'' in
      if url_Parse url = None then (Inl SubmitRequestError, n)
      else (case post url ((''Content-Type'', ''application/json'') # (if apiKey = [] then [] else [(''X-API-Key'', apiKey)]))
                   (json_print (json_SubmitRequest req)) n of
              (Inl e, n) \<Rightarrow> (Inl (SubmitPostError e), n)
            | (Inr (status, body), n) \<Rightarrow>
                (if status div 100 \<noteq> 2 then Inl (SubmitStatus status (TrimSpace (take 512 body))) else Inr (), n)))"

section \<open>Filters and pages\<close>

definition maxPageSize :: int where "maxPageSize = 100"
definition maxResources :: nat where "maxResources = 10000"

definition clampPageSize :: "int \<Rightarrow> int" where
  "clampPageSize limit = (if limit \<le> 0 \<or> limit > maxPageSize then maxPageSize else limit)"

definition indexFull ::
  "('s, 'c) FacilitatorService \<Rightarrow> string \<Rightarrow> string \<Rightarrow> ('s, 'c) bazaar_world \<Rightarrow> bool \<times> ('s, 'c) bazaar_world" where
  "indexFull sv url toolName w =
     (case bs_Resources (sv_store sv) (bw_store w) of
        (Inl _, s) \<Rightarrow> (False, w\<lparr>bw_store := s\<rparr>)
      | (Inr all, s) \<Rightarrow>
          (maxResources \<le> length all \<and> \<not> list_ex (\<lambda>x. rs_URL x = url \<and> rs_ToolName x = toolName) all, w\<lparr>bw_store := s\<rparr>))"

record resourceFilter =
  rf_Type :: string
  rf_PayTo :: string
  rf_Scheme :: string
  rf_Network :: string
  rf_Query :: string

definition containsFold :: "string list \<Rightarrow> string \<Rightarrow> bool" where
  "containsFold haystack needle \<longleftrightarrow> list_ex (\<lambda>h. EqualFold h needle) haystack"

definition acceptsHaveScheme :: "Resource \<Rightarrow> string \<Rightarrow> bool" where
  "acceptsHaveScheme r scheme \<longleftrightarrow> list_ex (\<lambda>a. EqualFold (pr_Scheme a) scheme) (rs_Accepts r)"

definition acceptsHavePayTo :: "Resource \<Rightarrow> string \<Rightarrow> bool" where
  "acceptsHavePayTo r payTo \<longleftrightarrow> list_ex (\<lambda>a. EqualFold (pr_PayTo a) payTo) (rs_Accepts r)"

definition matchesQuery :: "Resource \<Rightarrow> string \<Rightarrow> bool" where
  "matchesQuery r wanted \<longleftrightarrow>
     (let q = ToLower wanted in
      Contains (ToLower (rs_ServiceName r)) q \<or> Contains (ToLower (rs_Description r)) q \<or>
      Contains (ToLower (rs_URL r)) q \<or> Contains (ToLower (rs_ToolName r)) q \<or>
      list_ex (\<lambda>tag. Contains (ToLower tag) q) (rs_Tags r))"

definition passes_filter :: "resourceFilter \<Rightarrow> Resource \<Rightarrow> bool" where
  "passes_filter f r \<longleftrightarrow>
     (rf_Type f \<noteq> [] \<longrightarrow> EqualFold (rs_Type r) (rf_Type f)) \<and>
     (rf_Network f \<noteq> [] \<longrightarrow> containsFold (rs_Networks r) (rf_Network f)) \<and>
     (rf_Scheme f \<noteq> [] \<longrightarrow> acceptsHaveScheme r (rf_Scheme f)) \<and>
     (rf_PayTo f \<noteq> [] \<longrightarrow> acceptsHavePayTo r (rf_PayTo f)) \<and>
     (rf_Query f \<noteq> [] \<longrightarrow> matchesQuery r (rf_Query f))"

text \<open>The pair of URL and tool name, compared lexicographically: a list of two strings.\<close>

definition resource_order :: "Resource \<Rightarrow> string list" where
  "resource_order r = [rs_URL r, rs_ToolName r]"

definition filterResources :: "Resource list \<Rightarrow> resourceFilter \<Rightarrow> Resource list" where
  "filterResources all f = sort_key resource_order (filter (passes_filter f) all)"

definition paginate :: "Resource list \<Rightarrow> int \<Rightarrow> int \<Rightarrow> Resource list" where
  "paginate rs offset limit =
     (let offset = (if offset < 0 then 0 else offset) in
      if offset \<ge> int (length rs) then []
      else (let rs = drop (nat offset) rs in
            if limit > 0 \<and> limit < int (length rs) then take (nat limit) rs else rs))"

definition json_discoveryResource :: "Resource \<Rightarrow> json" where
  "json_discoveryResource r = JObj (
     [(''resource'', JStr (rs_URL r)), (''type'', JStr (rs_Type r)), (''x402Version'', enc_int Version),
      (''accepts'', JArr (map json_PaymentRequirements (rs_Accepts r))), (''lastUpdated'', JStr (rfc3339 (rs_LastUpdated r)))] @
     opt_field (rs_Description r \<noteq> []) ''description'' (JStr (rs_Description r)) @
     opt_field (rs_MimeType r \<noteq> []) ''mimeType'' (JStr (rs_MimeType r)) @
     opt_field (rs_ServiceName r \<noteq> []) ''serviceName'' (JStr (rs_ServiceName r)) @
     opt_field (rs_Tags r \<noteq> []) ''tags'' (JArr (map JStr (rs_Tags r))) @
     opt_field (rs_IconURL r \<noteq> []) ''iconUrl'' (JStr (rs_IconURL r)) @
     opt_field (rs_Extensions r \<noteq> []) ''extensions'' (json_Extensions (rs_Extensions r)))"

definition atoiDefault :: "string \<Rightarrow> int \<Rightarrow> int" where
  "atoiDefault s def = (if s = [] then def else opt_default def (ParseInt s))"

section \<open>Handlers\<close>

definition StatusForbidden :: int where "StatusForbidden = 403"
definition StatusServiceUnavailable :: int where "StatusServiceUnavailable = 503"

definition maxBodyBytes :: nat where "maxBodyBytes = 2 ^ 20"

definition decodeJSON :: "'a \<Rightarrow> 'a decoder \<Rightarrow> bytes \<Rightarrow> 'a option" where
  "decodeJSON zero d body = unmarshal_into zero d (json_decode_first (take maxBodyBytes body))"

definition bz_error :: "int \<Rightarrow> string \<Rightarrow> HttpOut" where
  "bz_error status msg = http_json status [] (jmap [(''error'', JStr msg)])"

definition validKey :: "('s, 'c) FacilitatorService \<Rightarrow> string \<Rightarrow> bool" where
  "validKey sv presented \<longleftrightarrow> list_ex (\<lambda>k. k = presented) (sv_keys sv)"

type_synonym ('s, 'c) bazaar_handler =
  "HttpRequest \<Rightarrow> bytes \<Rightarrow> ('s, 'c) bazaar_world \<Rightarrow> HttpOut \<times> ('s, 'c) bazaar_world"

definition gated :: "('s, 'c) FacilitatorService \<Rightarrow> ('s, 'c) bazaar_handler \<Rightarrow> ('s, 'c) bazaar_handler" where
  "gated sv nxt r body w =
     (if sv_keys sv \<noteq> [] \<and> \<not> validKey sv (header_get (hr_Header r) ''X-API-Key'')
      then (bz_error StatusUnauthorized ''missing or invalid X-API-Key'', w) else nxt r body w)"

definition handleVerify :: "('s, 'c) FacilitatorService \<Rightarrow> time \<Rightarrow> ('s, 'c) bazaar_handler" where
  "handleVerify sv now r body w =
     (case decodeJSON zero_verifyRequest dec_verifyRequest body of
        None \<Rightarrow> (bz_error StatusBadRequest ''invalid body'', w)
      | Some req \<Rightarrow> (case Service_verify sv now req w of (resp, w) \<Rightarrow> (http_json StatusOK [] (json_VerifyResponse resp), w)))"

definition handleSettle :: "('s, 'c) FacilitatorService \<Rightarrow> time \<Rightarrow> ('s, 'c) bazaar_handler" where
  "handleSettle sv now r body w =
     (case decodeJSON zero_verifyRequest dec_verifyRequest body of
        None \<Rightarrow> (bz_error StatusBadRequest ''invalid body'', w)
      | Some req \<Rightarrow>
          (case Service_settle sv now req w of
             (resp, w) \<Rightarrow>
               if sr_Success resp \<and> dq_Enabled (bq_Discovery (sv_cfg sv))
               then (case harvestBazaar sv now (vq_PaymentPayload req) (vq_PaymentRequirements req) w of
                       ((status, reason), w) \<Rightarrow>
                         (http_json StatusOK
                            (case extensionResponsesHeader status reason of
                               None \<Rightarrow> [] | Some hdr \<Rightarrow> [(''Extension-Responses'', hdr)])
                            (json_SettlementResponse resp), w))
               else (http_json StatusOK [] (json_SettlementResponse resp), w)))"

definition bz_extensions :: "('s, 'c) FacilitatorService \<Rightarrow> string list" where
  "bz_extensions sv = (if dq_Enabled (bq_Discovery (sv_cfg sv)) then [''bazaar''] else [])"

definition bz_supported :: "('s, 'c) FacilitatorService \<Rightarrow> SupportedResponse" where
  "bz_supported sv =
     (let methods = MethodLightning # (if oq_Enabled (bq_Onchain (sv_cfg sv)) then [MethodOnchain] else []) in
      \<lparr>sup_Kinds = concat (map (\<lambda>n. map (\<lambda>m. \<lparr>sk_X402Version = Version, sk_Scheme = SchemeExact, sk_Network = nw_CAIP2 n,
           sk_Extra = Some (jmap [(''assetTransferMethod'', JStr m)])\<rparr>) methods) (sv_networks sv)),
       sup_Extensions = bz_extensions sv, sup_Signers = []\<rparr>)"

definition handleSupported :: "('s, 'c) FacilitatorService \<Rightarrow> ('s, 'c) bazaar_handler" where
  "handleSupported sv r body w = (http_json StatusOK [] (json_SupportedResponse (bz_supported sv)), w)"

definition list_filter :: "HttpRequest \<Rightarrow> string \<Rightarrow> resourceFilter" where
  "list_filter r wanted = \<lparr>rf_Type = FormValue r ''type'', rf_PayTo = FormValue r ''payTo'', rf_Scheme = FormValue r ''scheme'',
     rf_Network = FormValue r ''network'', rf_Query = wanted\<rparr>"

definition handleListResources :: "('s, 'c) FacilitatorService \<Rightarrow> ('s, 'c) bazaar_handler" where
  "handleListResources sv r body w =
     (case bs_Resources (sv_store sv) (bw_store w) of
        (Inl _, s) \<Rightarrow> (bz_error StatusInternalServerError ''internal error'', w\<lparr>bw_store := s\<rparr>)
      | (Inr all, s) \<Rightarrow>
          (let matched = filterResources all (list_filter r []);
               offset = atoiDefault (FormValue r ''offset'') 0;
               limit = clampPageSize (atoiDefault (FormValue r ''limit'') 0) in
           (http_json StatusOK [] (JObj [(''x402Version'', enc_int Version),
              (''items'', JArr (map json_discoveryResource (paginate matched offset limit))),
              (''pagination'', JObj [(''limit'', enc_int limit), (''offset'', enc_int offset),
                 (''total'', enc_int (int (length matched)))])]), w\<lparr>bw_store := s\<rparr>)))"

definition handleSearchResources :: "('s, 'c) FacilitatorService \<Rightarrow> ('s, 'c) bazaar_handler" where
  "handleSearchResources sv r body w =
     (case bs_Resources (sv_store sv) (bw_store w) of
        (Inl _, s) \<Rightarrow> (bz_error StatusInternalServerError ''internal error'', w\<lparr>bw_store := s\<rparr>)
      | (Inr all, s) \<Rightarrow>
          (let matched = paginate (filterResources all (list_filter r (FormValue r ''query''))) 0
                           (clampPageSize (atoiDefault (FormValue r ''limit'') 0)) in
           (http_json StatusOK [] (JObj [(''x402Version'', enc_int Version),
              (''resources'', JArr (map json_discoveryResource matched))]), w\<lparr>bw_store := s\<rparr>)))"

definition handleSubmit :: "('s, 'c) FacilitatorService \<Rightarrow> time \<Rightarrow> ('s, 'c) bazaar_handler" where
  "handleSubmit sv now r body w =
     (case decodeJSON zero_SubmitRequest dec_SubmitRequest body of
        None \<Rightarrow> (bz_error StatusBadRequest ''invalid body'', w)
      | Some req \<Rightarrow>
          (case toResource (sv_tp sv) now req of
             Inl e \<Rightarrow> (bz_error StatusBadRequest e, w)
           | Inr res \<Rightarrow>
               (case indexFull sv (rs_URL res) (rs_ToolName res) w of
                  (True, w) \<Rightarrow> (bz_error StatusServiceUnavailable ''discovery index is full'', w)
                | (False, w) \<Rightarrow>
                    (case bs_PutResource (sv_store sv) res (bw_store w) of
                       (Inl _, s) \<Rightarrow> (bz_error StatusInternalServerError ''internal error'', w\<lparr>bw_store := s\<rparr>)
                     | (Inr _, s) \<Rightarrow>
                         (http_json StatusOK [] (jmap ([(''status'', JStr ''indexed''), (''resource'', JStr (rs_URL res))] @
                            opt_field (rs_ToolName res \<noteq> []) ''toolName'' (JStr (rs_ToolName res)))), w\<lparr>bw_store := s\<rparr>)))))"

definition gatedSubmit :: "('s, 'c) FacilitatorService \<Rightarrow> ('s, 'c) bazaar_handler \<Rightarrow> ('s, 'c) bazaar_handler" where
  "gatedSubmit sv nxt =
     (if dq_PublicSubmit (bq_Discovery (sv_cfg sv)) then nxt
      else if sv_keys sv = [] then (\<lambda>r body w. (bz_error StatusForbidden ''submit is disabled'', w))
      else gated sv nxt)"

definition bazaar_routes :: "('s, 'c) FacilitatorService \<Rightarrow> time \<Rightarrow> (string \<times> string \<times> ('s, 'c) bazaar_handler) list" where
  "bazaar_routes sv now =
     [(''POST'', ''/verify'', gated sv (handleVerify sv now)), (''POST'', ''/settle'', gated sv (handleSettle sv now)),
      (''GET'', ''/supported'', handleSupported sv)] @
     (if dq_Enabled (bq_Discovery (sv_cfg sv))
      then [(''GET'', ''/discovery/resources'', handleListResources sv), (''GET'', ''/discovery/search'', handleSearchResources sv),
            (''POST'', ''/discovery/submit'', gatedSubmit sv (handleSubmit sv now))]
      else [])"

text \<open>
  \<open>http.ServeMux\<close> on these patterns, for a clean path: a \<open>GET\<close> route also takes \<open>HEAD\<close>, and a path that is
  registered for other methods only is answered 405.
\<close>

definition bazaar_serve :: "('s, 'c) FacilitatorService \<Rightarrow> time \<Rightarrow> ('s, 'c) bazaar_handler" where
  "bazaar_serve sv now r body w =
     (case find (\<lambda>(m, p, _). p = hr_Path r \<and> (m = hr_Method r \<or> m = ''GET'' \<and> hr_Method r = ''HEAD'')) (bazaar_routes sv now) of
        Some (_, _, h) \<Rightarrow> h r body w
      | None \<Rightarrow>
          if list_ex (\<lambda>(_, p, _). p = hr_Path r) (bazaar_routes sv now) then (http_error ''Method Not Allowed'' 405, w)
          else (http_error ''404 page not found'' 404, w))"

end
