(* ===== verification/BazaarProps.thy ===== *)
theory BazaarProps
  imports BazaarIndex GateSafety
begin

text \<open>
  What the facilitator guarantees, over any store that meets the contract \<open>bazaar_store\<close>; the contract is
  discharged for the in-memory store and for SQLite under every schedule of faults.  A history is a list
  of HTTP requests, each with its time and with the chain as it is then.
\<close>

section \<open>Verified payments\<close>

lemma networkFor_Some: "networkFor sv caip2 = Some net \<Longrightarrow> nw_CAIP2 net = caip2 \<and> net \<in> set (sv_networks sv)"
  by (auto simp: networkFor_def find_Some_iff)

text \<open>Which requests verify depends on the time and on the chain, never on the store.\<close>

definition verified :: "('s, 'c) FacilitatorService \<Rightarrow> time \<Rightarrow> 'c \<Rightarrow> verifyRequest \<Rightarrow> settleIdentity \<Rightarrow> bool" where
  "verified sv now ch req si \<longleftrightarrow> (\<exists>s w'. checkAny sv now req \<lparr>bw_store = s, bw_chain = ch\<rparr> = (Inr si, w'))"

lemma checkOnchain_Inr:
  assumes "checkOnchain sv req w = (Inr txid, w')"
  shows "\<exists>look pay raw a c dep.
    sv_onchain sv = Some look \<and> bw_store w' = bw_store w \<and>
    unmarshal_into zero_OnchainPayload dec_OnchainPayload (pp_Payload (vq_PaymentPayload req)) = Some pay \<and>
    hex32 (op_TxID pay) = Some raw \<and> txid = ToLower (op_TxID pay) \<and> pr_PayTo (pp_Accepted (vq_PaymentPayload req)) \<noteq> [] \<and>
    ParseInt (pr_Amount (pp_Accepted (vq_PaymentPayload req))) = Some a \<and> 0 < a \<and>
    look (op_TxID pay) (pr_PayTo (pp_Accepted (vq_PaymentPayload req))) (bw_chain w) = (Inr dep, c) \<and>
    ds_Found dep \<and> ds_AmountToAddressAtoms dep = a \<and> oq_MinConfs (bq_Onchain (sv_cfg sv)) \<le> ds_Confirmations dep"
  using assms unfolding checkOnchain_def Let_def
  by (auto split: option.splits if_splits prod.splits sum.splits)

lemma checkOnchain_store: "checkOnchain sv req w = (r, w') \<Longrightarrow> bw_store w' = bw_store w"
  unfolding checkOnchain_def Let_def by (auto split: option.splits if_splits prod.splits sum.splits)

lemma checkAny_store: "checkAny sv now req w = (r, w') \<Longrightarrow> bw_store w' = bw_store w"
  unfolding checkAny_def Let_def
  by (auto split: option.splits if_splits prod.splits sum.splits dest: checkOnchain_store)

lemma checkAny_verified: "checkAny sv now req w = (Inr si, w') \<Longrightarrow> verified sv now (bw_chain w) req si"
  unfolding verified_def by (rule exI [of _ "bw_store w"], rule exI [of _ w']) (cases w, simp)

text \<open>What a verified request comes with.\<close>

lemma checkAny_Inr:
  assumes "checkAny sv now req w = (Inr si, w')"
  shows "\<exists>net. networkFor sv (pr_Network (pp_Accepted (vq_PaymentPayload req))) = Some net \<and>
     CheckEnvelope (vq_PaymentPayload req) net = None \<and>
     ((\<exists>pay. VerifyLightningProof (tp_Decode (sv_tp sv)) (vq_PaymentPayload req) (vq_PaymentRequirements req) net (Some now) = Inr pay \<and>
         TransferMethod (pp_Accepted (vq_PaymentPayload req)) = MethodLightning \<and>
         si = lightning_identity (pp_Accepted (vq_PaymentPayload req)) pay net now) \<or>
      (\<exists>txid. checkOnchain sv req w = (Inr txid, w') \<and>
         TransferMethod (pp_Accepted (vq_PaymentPayload req)) = MethodOnchain \<and>
         si = onchain_identity (pp_Accepted (vq_PaymentPayload req)) txid net now))"
  using assms unfolding checkAny_def Let_def
  by (auto split: option.splits if_splits prod.splits sum.splits)

lemma ToLower_Nil_iff [simp]: "ToLower s = [] \<longleftrightarrow> s = []"
  by (simp add: ToLower_def)

lemma VerifyLightningProof_fields:
  assumes "VerifyLightningProof decode pp offered net now = Inr pay"
  shows "unmarshal_into zero_LightningPayload dec_LightningPayload (pp_Payload pp) = Some pay" "lp_PaymentHash pay \<noteq> []"
    "pr_Amount (pp_Accepted pp) \<noteq> []"
proof -
  show "unmarshal_into zero_LightningPayload dec_LightningPayload (pp_Payload pp) = Some pay" "lp_PaymentHash pay \<noteq> []"
    using assms unfolding VerifyLightningProof_def Let_def by (auto split: option.splits if_splits)
  obtain extra where "proof_ok decode pp offered net now extra pay" using VerifyLightningProof_ok [OF assms] by blast
  then obtain iv where "check_invoice iv (pp_Accepted pp) now = None" unfolding proof_ok_def by blast
  from check_invoice_ok [OF this] show "pr_Amount (pp_Accepted pp) \<noteq> []" by (auto simp: ParseInt_def)
qed

lemma checkAny_key:
  assumes "checkAny sv now req w = (Inr si, w')"
  shows "si_key si = idempotencyKey (vq_PaymentPayload req)" "si_key si \<noteq> []"
    "pr_Amount (pp_Accepted (vq_PaymentPayload req)) \<noteq> []"
proof -
  have diff: "MethodOnchain \<noteq> MethodLightning" by (simp add: x402_consts)
  have hex: "op_TxID pay \<noteq> []" if "hex32 (op_TxID pay) = Some raw" for pay raw
    using that by (auto simp: hex32_def)
  have amount: "s \<noteq> []" if "ParseInt s = Some a" for s a using that by (auto simp: ParseInt_def)
  from checkAny_Inr [OF assms] obtain net where
    "(\<exists>pay. VerifyLightningProof (tp_Decode (sv_tp sv)) (vq_PaymentPayload req) (vq_PaymentRequirements req) net (Some now) = Inr pay \<and>
         TransferMethod (pp_Accepted (vq_PaymentPayload req)) = MethodLightning \<and>
         si = lightning_identity (pp_Accepted (vq_PaymentPayload req)) pay net now) \<or>
      (\<exists>txid. checkOnchain sv req w = (Inr txid, w') \<and>
         TransferMethod (pp_Accepted (vq_PaymentPayload req)) = MethodOnchain \<and>
         si = onchain_identity (pp_Accepted (vq_PaymentPayload req)) txid net now)" by blast
  then have "si_key si = idempotencyKey (vq_PaymentPayload req) \<and> si_key si \<noteq> [] \<and>
    pr_Amount (pp_Accepted (vq_PaymentPayload req)) \<noteq> []"
    by (elim disjE exE conjE)
      (auto simp: idempotencyKey_def lightning_identity_def onchain_identity_def Let_def diff
        dest: VerifyLightningProof_fields hex amount dest!: checkOnchain_Inr)
  then show "si_key si = idempotencyKey (vq_PaymentPayload req)" "si_key si \<noteq> []"
    "pr_Amount (pp_Accepted (vq_PaymentPayload req)) \<noteq> []" by blast+
qed

section \<open>The store contract\<close>

text \<open>\<open>settled\<close> is the settlement table and \<open>rows\<close> the index; both survive whatever fails.\<close>

locale bazaar_store =
  fixes ops :: "'s BazaarStore_ops" and settled :: "'s \<Rightarrow> string \<Rightarrow> bytes option" and rows :: "'s \<Rightarrow> Resource list"
  assumes settle_law: "bs_Settle ops k r receipt t s = (x, s') \<Longrightarrow> rows s' = rows s \<and>
      (case x of
         Inl _ \<Rightarrow> settled s' = settled s
       | Inr (stored, True) \<Rightarrow> settled s k = Some stored \<and> settled s' = settled s
       | Inr (stored, False) \<Rightarrow> settled s k = None \<and> stored = r \<and> settled s' = (settled s)(k \<mapsto> r))"
    and get_law: "bs_GetSettlement ops k s = (y, s') \<Longrightarrow> rows s' = rows s \<and> settled s' = settled s \<and>
      (case y of Inl _ \<Rightarrow> True | Inr v \<Rightarrow> v = settled s k)"
    and put_law: "bs_PutResource ops res s = (z, s') \<Longrightarrow> settled s' = settled s \<and>
      rows s' = (case z of Inl _ \<Rightarrow> rows s | Inr _ \<Rightarrow> upsert_row resource_key res (rows s))"
    and list_law: "bs_Resources ops s = (l, s') \<Longrightarrow> rows s' = rows s \<and> settled s' = settled s \<and>
      (case l of Inl _ \<Rightarrow> True | Inr all \<Rightarrow> all = rows s)"

lemma bazaar_memory_store: "bazaar_store BazaarMemory bm_settlements bm_resources"
  by unfold_locales
    (auto simp: BazaarMemory_def BMem_Settle_def BMem_GetSettlement_def BMem_PutResource_def BMem_Resources_def split: option.splits)

interpretation bmem: bazaar_store BazaarMemory bm_settlements bm_resources
  by (rule bazaar_memory_store)

definition bz_settled :: "bazaar_db conn \<Rightarrow> string \<Rightarrow> bytes option" where
  "bz_settled c k = bz_select_response k (cn_db c)"

definition bz_rows :: "bazaar_db conn \<Rightarrow> Resource list" where
  "bz_rows c = map fst (bt_resources (cn_db c))"

lemma upsert_row_map:
  "map f (upsert_row (\<lambda>x. key (f x)) r rs) = upsert_row key (f r) (map f rs)"
  by (induction rs) auto

lemma upsert_row_fst:
  "map fst (upsert_row (\<lambda>(x, _). key x) r rs) = upsert_row key (fst r) (map fst rs)"
proof -
  have eq: "(\<lambda>(x, _). key x) = (\<lambda>p. key (fst p))" by auto
  show ?thesis unfolding eq by (rule upsert_row_map)
qed

lemma bsq_settle:
  assumes "BSq_Settle k r receipt t s = (x, s')"
  shows "bz_rows s' = bz_rows s \<and>
    (case x of
       Inl _ \<Rightarrow> bz_settled s' = bz_settled s
     | Inr (stored, True) \<Rightarrow> bz_settled s k = Some stored \<and> bz_settled s' = bz_settled s
     | Inr (stored, False) \<Rightarrow> bz_settled s k = None \<and> stored = r \<and> bz_settled s' = (bz_settled s)(k \<mapsto> r))"
proof (cases x)
  case (Inl e)
  with assms have "cn_db s' = cn_db s" unfolding BSq_Settle_def by (blast dest: transaction_Inl)
  with Inl show ?thesis by (simp add: bz_rows_def bz_settled_def fun_eq_iff)
next
  case (Inr y)
  from assms obtain c1 c2 where c: "cn_db c1 = cn_db s" "bz_settle_body k r receipt t c1 = (Inr y, c2)" "cn_db s' = cn_db c2"
    unfolding BSq_Settle_def Inr by (blast dest: transaction_Inr)
  from c(2) obtain n c3 c4 where ins: "bz_insert_settlement k r receipt (Unix t) (cn_db c1) = (n, cn_db c3)"
    and dr: "driver () c3 = (Inr (), c4)"
    and rest: "(if n = 1 then ret (r, False) else andThen (query () (bz_select_response k))
        (\<lambda>row. case row of None \<Rightarrow> throw () | Some stored \<Rightarrow> ret (stored, True))) c4 = (Inr y, c2)"
    unfolding bz_settle_body_def by (auto elim!: andThen_InrE dest!: stmt_Inr)
  have c4: "cn_db c4 = cn_db c3" using dr by (rule driver_db)
  show ?thesis
  proof (cases "bt_settlements (cn_db s) k")
    case None
    with ins c(1) have n: "n = 1" "cn_db c3 = (cn_db s)\<lparr>bt_settlements := (bt_settlements (cn_db s))(k \<mapsto> (r, receipt, Unix t))\<rparr>"
      by (simp_all add: bz_insert_settlement_def)
    with rest c c4 None Inr show ?thesis
      by (auto simp: bz_rows_def bz_settled_def bz_select_response_def)
  next
    case (Some row)
    with ins c(1) have n: "n = 0" "cn_db c3 = cn_db s" by (simp_all add: bz_insert_settlement_def)
    with rest c c4 Some Inr show ?thesis
      by (auto simp: bz_rows_def bz_settled_def bz_select_response_def fun_eq_iff elim!: andThen_InrE dest!: query_Inr)
  qed
qed

lemma bazaar_sqlite_store: "bazaar_store BazaarSQLite bz_settled bz_rows"
proof
  fix k r receipt t x and s s' :: "bazaar_db conn"
  assume "bs_Settle BazaarSQLite k r receipt t s = (x, s')"
  then show "bz_rows s' = bz_rows s \<and>
    (case x of
       Inl _ \<Rightarrow> bz_settled s' = bz_settled s
     | Inr (stored, True) \<Rightarrow> bz_settled s k = Some stored \<and> bz_settled s' = bz_settled s
     | Inr (stored, False) \<Rightarrow> bz_settled s k = None \<and> stored = r \<and> bz_settled s' = (bz_settled s)(k \<mapsto> r))"
    by (simp only: BazaarSQLite_def BazaarStore_ops.simps bsq_settle)
next
  fix k y and s s' :: "bazaar_db conn"
  assume "bs_GetSettlement BazaarSQLite k s = (y, s')"
  then show "bz_rows s' = bz_rows s \<and> bz_settled s' = bz_settled s \<and> (case y of Inl _ \<Rightarrow> True | Inr v \<Rightarrow> v = bz_settled s k)"
    by (cases y) (auto simp: BazaarSQLite_def BSq_GetSettlement_def bz_rows_def bz_settled_def dest!: query_Inl query_Inr)
next
  fix res z and s s' :: "bazaar_db conn"
  assume put: "bs_PutResource BazaarSQLite res s = (z, s')"
  show "bz_settled s' = bz_settled s \<and>
      bz_rows s' = (case z of Inl _ \<Rightarrow> bz_rows s | Inr _ \<Rightarrow> upsert_row resource_key res (bz_rows s))"
  proof (cases z)
    case (Inl e)
    with put have "cn_db s' = cn_db s" by (auto simp: BazaarSQLite_def BSq_PutResource_def dest: stmt_Inl)
    with Inl show ?thesis by (simp add: bz_rows_def bz_settled_def fun_eq_iff)
  next
    case (Inr u)
    with put have "cn_db s' = (cn_db s)\<lparr>bt_resources :=
        upsert_row (\<lambda>(x, _). resource_key x) (res, Unix (rs_LastUpdated res)) (bt_resources (cn_db s))\<rparr>"
      by (auto simp: BazaarSQLite_def BSq_PutResource_def dest: stmt_Inr)
    with Inr show ?thesis by (simp add: bz_rows_def bz_settled_def bz_select_response_def fun_eq_iff upsert_row_fst)
  qed
next
  fix l and s s' :: "bazaar_db conn"
  assume "bs_Resources BazaarSQLite s = (l, s')"
  then show "bz_rows s' = bz_rows s \<and> bz_settled s' = bz_settled s \<and> (case l of Inl _ \<Rightarrow> True | Inr all \<Rightarrow> all = bz_rows s)"
    by (cases l) (auto simp: BazaarSQLite_def BSq_Resources_def bz_rows_def bz_settled_def dest!: query_Inl query_Inr)
qed

interpretation bsql: bazaar_store BazaarSQLite bz_settled bz_rows
  by (rule bazaar_sqlite_store)

section \<open>Settling once\<close>

definition success_response :: "PaymentRequirements \<Rightarrow> Network \<Rightarrow> settleIdentity \<Rightarrow> SettlementResponse" where
  "success_response acc net si = \<lparr>sr_Success = True, sr_ErrorReason = [], sr_Payer = [], sr_Transaction = si_transaction si,
     sr_Network = nw_CAIP2 net, sr_Amount = pr_Amount acc, sr_Extensions = []\<rparr>"

definition notary_record :: "SettlementResponse \<Rightarrow> bytes" where
  "notary_record r = json_print (json_SettlementResponse r)"

text \<open>What the service writes: the optional fields it never sets are empty, the amount is there.\<close>

definition plain_success :: "SettlementResponse \<Rightarrow> bool" where
  "plain_success r \<longleftrightarrow> sr_Success r \<and> sr_ErrorReason r = [] \<and> sr_Payer r = [] \<and> sr_Extensions r = [] \<and> sr_Amount r \<noteq> []"

lemma dec_plain_over:
  assumes "plain_success r" and "plain_success cur \<or> cur = zero_SettlementResponse"
  shows "dec_SettlementResponse cur (json_SettlementResponse r) = (r, True)"
proof (cases "cur = zero_SettlementResponse")
  case True
  with assms(1) show ?thesis by (simp add: plain_success_def wf_Extensions_def sorted_keys_def)
next
  case False
  with assms(2) have "sr_ErrorReason cur = []" "sr_Payer cur = []" "sr_Extensions cur = []" by (simp_all add: plain_success_def)
  with assms(1) show ?thesis
    by (cases r; cases cur) (simp add: plain_success_def dec_SettlementResponse_def json_SettlementResponse_def field_defs)
qed

lemma read_notary_record:
  assumes "plain_success r" and "plain_success cur \<or> cur = zero_SettlementResponse"
  shows "unmarshal_into cur dec_SettlementResponse (json_unmarshal (notary_record r)) = Some r"
proof -
  have "wf_json (json_SettlementResponse r)"
    using assms(1) by (simp add: plain_success_def wf_Extensions_def sorted_keys_def)
  then show ?thesis using dec_plain_over [OF assms] by (simp add: notary_record_def unmarshal_into_def)
qed

definition readable :: "(string \<Rightarrow> bytes option) \<Rightarrow> bool" where
  "readable tbl \<longleftrightarrow> (\<forall>k b. tbl k = Some b \<longrightarrow> (\<exists>r. plain_success r \<and> b = notary_record r))"

lemma notary_record_inject:
  "plain_success r \<Longrightarrow> plain_success r' \<Longrightarrow> notary_record r = notary_record r' \<Longrightarrow> r = r'"
  by (metis option.inject read_notary_record)

lemma refuse_settle_fields [simp]: "\<not> sr_Success (refuse_settle e n)" "\<not> sr_Success (failSettle n)"
  by (simp_all add: refuse_settle_def failSettle_def zero_SettlementResponse_def)

text \<open>The extension field of every answer is empty, so a client reads back what was sent.\<close>

definition sendable :: "SettlementResponse \<Rightarrow> bool" where
  "sendable r \<longleftrightarrow> sr_Extensions r = []"

lemma sendable_refuse [simp]: "sendable (refuse_settle e n)" "sendable (failSettle n)"
  by (simp_all add: sendable_def refuse_settle_def failSettle_def zero_SettlementResponse_def)

lemma sendable_plain: "plain_success r \<Longrightarrow> sendable r"
  by (simp add: plain_success_def sendable_def)

text \<open>One settlement, on the table before and after it.\<close>

definition settle_effect ::
  "('s, 'c) FacilitatorService \<Rightarrow> time \<Rightarrow> 'c \<Rightarrow> verifyRequest \<Rightarrow> SettlementResponse \<Rightarrow> (string \<Rightarrow> bytes option) \<Rightarrow> (string \<Rightarrow> bytes option) \<Rightarrow> bool"
  where
  "settle_effect sv now ch req resp tbl tbl' \<longleftrightarrow>
     (let key = idempotencyKey (vq_PaymentPayload req) in
      sendable resp \<and>
      (sr_Success resp \<longrightarrow> plain_success resp \<and> key \<noteq> [] \<and> tbl' key = Some (notary_record resp)) \<and>
      (tbl' = tbl \<or>
       tbl key = None \<and> tbl' = tbl(key \<mapsto> notary_record resp) \<and> plain_success resp \<and>
       (\<exists>net si. networkFor sv (pr_Network (pp_Accepted (vq_PaymentPayload req))) = Some net \<and> verified sv now ch req si \<and>
          si_key si = key \<and> resp = success_response (pp_Accepted (vq_PaymentPayload req)) net si)))"

context bazaar_store
begin

lemma recorded_effect:
  assumes "recorded sv key w = (r, w')" and "sv_store sv = ops" and "readable (settled (bw_store w))"
  shows "rows (bw_store w') = rows (bw_store w)" "settled (bw_store w') = settled (bw_store w)" "bw_chain w' = bw_chain w"
    "r = Some resp \<Longrightarrow> key \<noteq> [] \<and> plain_success resp \<and> settled (bw_store w) key = Some (notary_record resp)"
proof -
  have "rows (bw_store w') = rows (bw_store w) \<and> settled (bw_store w') = settled (bw_store w) \<and> bw_chain w' = bw_chain w \<and>
    (r = Some resp \<longrightarrow> key \<noteq> [] \<and> plain_success resp \<and> settled (bw_store w) key = Some (notary_record resp))"
  proof (cases "key = []")
    case False
    obtain y s where get: "bs_GetSettlement ops key (bw_store w) = (y, s)" by fastforce
    note law = get_law [OF get]
    show ?thesis
    proof (cases "\<exists>stored. y = Inr (Some stored)")
      case True
      then obtain stored where y: "y = Inr (Some stored)" by blast
      with law have row: "settled (bw_store w) key = Some stored" by simp
      with assms(3) obtain r0 where "plain_success r0" "stored = notary_record r0"
        unfolding readable_def by blast
      with assms(1,2) get law y False row read_notary_record [of r0 zero_SettlementResponse] show ?thesis
        by (auto simp: recorded_def)
    next
      case False
      with assms(1,2) get law \<open>key \<noteq> []\<close> show ?thesis
        by (cases y) (auto simp: recorded_def split: option.splits)
    qed
  qed (use assms(1) in \<open>simp add: recorded_def\<close>)
  then show "rows (bw_store w') = rows (bw_store w)" "settled (bw_store w') = settled (bw_store w)" "bw_chain w' = bw_chain w"
    "r = Some resp \<Longrightarrow> key \<noteq> [] \<and> plain_success resp \<and> settled (bw_store w) key = Some (notary_record resp)" by auto
qed

lemma notarize_effect:
  assumes "notarize sv now acc net si w = (resp, w')" and "sv_store sv = ops" and "readable (settled (bw_store w))"
    and "pr_Amount acc \<noteq> []"
  shows "rows (bw_store w') = rows (bw_store w)" "sendable resp"
    "sr_Success resp \<Longrightarrow> plain_success resp \<and> settled (bw_store w') (si_key si) = Some (notary_record resp)"
    "settled (bw_store w') = settled (bw_store w) \<or>
     settled (bw_store w) (si_key si) = None \<and> resp = success_response acc net si \<and> plain_success resp \<and>
     settled (bw_store w') = (settled (bw_store w))(si_key si \<mapsto> notary_record resp)"
proof -
  define r0 where "r0 = success_response acc net si"
  have p0: "plain_success r0" using assms(4) by (simp add: r0_def success_response_def plain_success_def)
  define receipt where "receipt = json_print (si_receipt si)"
  obtain y s where st: "bs_Settle ops (si_key si) (notary_record r0) receipt now (bw_store w) = (y, s)" by fastforce
  note law = settle_law [OF st]
  have eq: "notarize sv now acc net si w =
    (case y of
       Inl _ \<Rightarrow> (failSettle (nw_CAIP2 net), w\<lparr>bw_store := s\<rparr>)
     | Inr (stored, _) \<Rightarrow>
         (case unmarshal_into r0 dec_SettlementResponse (json_unmarshal stored) of
            None \<Rightarrow> failSettle (nw_CAIP2 net) | Some resp \<Rightarrow> resp, w\<lparr>bw_store := s\<rparr>))"
    using st unfolding notarize_def Let_def r0_def success_response_def notary_record_def receipt_def assms(2) by simp
  consider (err) e where "y = Inl e" | (old) stored where "y = Inr (stored, True)" | (new) stored where "y = Inr (stored, False)"
    by (metis (full_types) old.prod.exhaust sumE)
  then have "rows (bw_store w') = rows (bw_store w) \<and> sendable resp \<and>
    (sr_Success resp \<longrightarrow> plain_success resp \<and> settled (bw_store w') (si_key si) = Some (notary_record resp)) \<and>
    (settled (bw_store w') = settled (bw_store w) \<or>
     settled (bw_store w) (si_key si) = None \<and> resp = r0 \<and> plain_success resp \<and>
     settled (bw_store w') = (settled (bw_store w))(si_key si \<mapsto> notary_record resp))"
  proof cases
    case err
    with eq law assms(1) show ?thesis by auto
  next
    case old
    with law have "settled (bw_store w) (si_key si) = Some stored" by simp
    with assms(3) obtain r1 where "plain_success r1" "stored = notary_record r1" unfolding readable_def by blast
    with eq law assms(1) old read_notary_record [of r1 r0] p0 sendable_plain show ?thesis by auto
  next
    case new
    with eq law assms(1) read_notary_record [of r0 r0] p0 sendable_plain show ?thesis by auto
  qed
  then show "rows (bw_store w') = rows (bw_store w)" "sendable resp"
    "sr_Success resp \<Longrightarrow> plain_success resp \<and> settled (bw_store w') (si_key si) = Some (notary_record resp)"
    "settled (bw_store w') = settled (bw_store w) \<or>
     settled (bw_store w) (si_key si) = None \<and> resp = success_response acc net si \<and> plain_success resp \<and>
     settled (bw_store w') = (settled (bw_store w))(si_key si \<mapsto> notary_record resp)"
    unfolding r0_def by auto
qed

lemma settle_effects:
  assumes "Service_settle sv now req w = (resp, w')" and "sv_store sv = ops" and "readable (settled (bw_store w))"
  shows "rows (bw_store w') = rows (bw_store w)"
    "settle_effect sv now (bw_chain w) req resp (settled (bw_store w)) (settled (bw_store w'))"
proof -
  define pp where "pp = vq_PaymentPayload req"
  have "rows (bw_store w') = rows (bw_store w) \<and>
    settle_effect sv now (bw_chain w) req resp (settled (bw_store w)) (settled (bw_store w'))"
  proof (cases "\<exists>net. networkFor sv (pr_Network (pp_Accepted pp)) = Some net \<and> CheckEnvelope pp net = None")
    case False
    with assms(1) show ?thesis
      unfolding Service_settle_def settle_effect_def Let_def pp_def by (auto split: option.splits)
  next
    case True
    then obtain net where net: "networkFor sv (pr_Network (pp_Accepted pp)) = Some net" "CheckEnvelope pp net = None" by blast
    obtain r w1 where rec: "recorded sv (idempotencyKey pp) w = (r, w1)" by fastforce
    note keeps = recorded_effect [OF rec assms(2,3)]
    show ?thesis
    proof (cases r)
      case (Some old)
      with assms(1) net rec have "resp = old" "w' = w1" unfolding Service_settle_def Let_def pp_def by auto
      with keeps(1,2) keeps(4) [OF Some] show ?thesis
        unfolding settle_effect_def Let_def pp_def by (simp add: sendable_plain)
    next
      case None
      obtain c w2 where chk: "checkAny sv now req w1 = (c, w2)" by fastforce
      have w2: "bw_store w2 = bw_store w1" using chk by (rule checkAny_store)
      show ?thesis
      proof (cases c)
        case (Inl ve)
        with assms(1) net rec None chk have "resp = refuse_settle (ve_Reason ve) (nw_CAIP2 net)" "w' = w2"
          unfolding Service_settle_def Let_def pp_def by auto
        with keeps w2 show ?thesis unfolding settle_effect_def Let_def by simp
      next
        case (Inr si)
        with assms(1) net rec None chk have fin: "notarize sv now (pp_Accepted pp) net si w2 = (resp, w')"
          unfolding Service_settle_def Let_def pp_def by auto
        note v = checkAny_verified [OF chk [unfolded Inr]] and k = checkAny_key [OF chk [unfolded Inr]]
        have "readable (settled (bw_store w2))" using assms(3) keeps(2) w2 by simp
        note eff = notarize_effect [OF fin assms(2) this k(3) [folded pp_def]]
        show ?thesis
          using eff keeps(1-3) w2 v k(1,2) net(1) unfolding settle_effect_def Let_def pp_def by auto
      qed
    qed
  qed
  then show "rows (bw_store w') = rows (bw_store w)"
    "settle_effect sv now (bw_chain w) req resp (settled (bw_store w)) (settled (bw_store w'))" by blast+
qed

lemma harvest_effects:
  assumes "harvestBazaar sv now pp offered w = (st, w')" and "sv_store sv = ops"
  shows "settled (bw_store w') = settled (bw_store w)"
    "rows (bw_store w') = rows (bw_store w) \<or>
     (\<exists>ext info typ toolName. map_of (pp_Extensions pp) ExtensionBazaar = Some ext \<and> pp_Resource pp = Some info \<and>
        validateDiscoveryInfo (sv_tp sv) ext \<and> typ = bazaarInputType (ext_Info ext) \<and>
        (typ = ''http'' \<and> toolName = [] \<or> typ = ''mcp'' \<and> toolName = bazaarInputToolName (ext_Info ext) \<and> toolName \<noteq> []) \<and>
        rows (bw_store w') = upsert_row resource_key (harvested (sv_tp sv) now info offered ext typ toolName) (rows (bw_store w)))"
proof -
  have "settled (bw_store w') = settled (bw_store w) \<and> (rows (bw_store w') = rows (bw_store w) \<or>
     (\<exists>ext info typ toolName. map_of (pp_Extensions pp) ExtensionBazaar = Some ext \<and> pp_Resource pp = Some info \<and>
        validateDiscoveryInfo (sv_tp sv) ext \<and> typ = bazaarInputType (ext_Info ext) \<and>
        (typ = ''http'' \<and> toolName = [] \<or> typ = ''mcp'' \<and> toolName = bazaarInputToolName (ext_Info ext) \<and> toolName \<noteq> []) \<and>
        rows (bw_store w') = upsert_row resource_key (harvested (sv_tp sv) now info offered ext typ toolName) (rows (bw_store w))))"
    using assms(1) unfolding harvestBazaar_def Let_def
    by (auto split: option.splits if_splits prod.splits sum.splits dest!: put_law [folded assms(2)])
  then show "settled (bw_store w') = settled (bw_store w)"
    "rows (bw_store w') = rows (bw_store w) \<or>
     (\<exists>ext info typ toolName. map_of (pp_Extensions pp) ExtensionBazaar = Some ext \<and> pp_Resource pp = Some info \<and>
        validateDiscoveryInfo (sv_tp sv) ext \<and> typ = bazaarInputType (ext_Info ext) \<and>
        (typ = ''http'' \<and> toolName = [] \<or> typ = ''mcp'' \<and> toolName = bazaarInputToolName (ext_Info ext) \<and> toolName \<noteq> []) \<and>
        rows (bw_store w') = upsert_row resource_key (harvested (sv_tp sv) now info offered ext typ toolName) (rows (bw_store w)))"
    by blast+
qed

end

end
