(* ===== verification/BazaarClaims.thy ===== *)
theory BazaarClaims
  imports BazaarProps
begin

text \<open>
  The facilitator as a server: what one request does to its tables, histories of requests, and the
  properties of settlements, of the index and of its pages.
\<close>

section \<open>One request\<close>

record 'c bazaar_event =
  be_Now :: time
  be_Chain :: 'c
  be_Request :: HttpRequest
  be_Body :: bytes

definition bazaar_step ::
  "('s, 'c) FacilitatorService \<Rightarrow> 'c bazaar_event \<Rightarrow> ('s, 'c) bazaar_world \<Rightarrow> HttpOut \<times> ('s, 'c) bazaar_world" where
  "bazaar_step sv e w = bazaar_serve sv (be_Now e) (be_Request e) (be_Body e) (w\<lparr>bw_chain := be_Chain e\<rparr>)"

fun bazaar_after :: "('s, 'c) FacilitatorService \<Rightarrow> 'c bazaar_event list \<Rightarrow> ('s, 'c) bazaar_world \<Rightarrow> ('s, 'c) bazaar_world" where
  "bazaar_after sv [] w = w"
| "bazaar_after sv (e # es) w = bazaar_after sv es (snd (bazaar_step sv e w))"

definition authorized :: "('s, 'c) FacilitatorService \<Rightarrow> HttpRequest \<Rightarrow> bool" where
  "authorized sv r \<longleftrightarrow> sv_keys sv = [] \<or> header_get (hr_Header r) ''X-API-Key'' \<in> set (sv_keys sv)"

definition settle_request :: "'c bazaar_event \<Rightarrow> bool" where
  "settle_request e \<longleftrightarrow> hr_Method (be_Request e) = ''POST'' \<and> hr_Path (be_Request e) = ''/settle''"

text \<open>What a client of \<open>/settle\<close> reads out of the answer.\<close>

definition settle_answer :: "HttpOut \<Rightarrow> SettlementResponse option" where
  "settle_answer out =
     (case ho_Body out of
        JsonBody j \<Rightarrow> unmarshal_into zero_SettlementResponse dec_SettlementResponse (Some j) | _ \<Rightarrow> None)"

lemma gated_cases:
  obtains "authorized sv r" "gated sv h r body w = h r body w"
    | "\<not> authorized sv r" "gated sv h r body w = (bz_error StatusUnauthorized ''missing or invalid X-API-Key'', w)"
proof (cases "authorized sv r")
  case True
  then show ?thesis using that(1) by (auto simp: authorized_def gated_def validKey_def list_ex_iff)
next
  case False
  then show ?thesis using that(2) by (auto simp: authorized_def gated_def validKey_def list_ex_iff)
qed

lemma settle_route:
  "settle_request e \<Longrightarrow>
   bazaar_step sv e w = gated sv (handleSettle sv (be_Now e)) (be_Request e) (be_Body e) (w\<lparr>bw_chain := be_Chain e\<rparr>)"
  by (simp add: settle_request_def bazaar_step_def bazaar_serve_def bazaar_routes_def)

lemma answer_error [simp]: "settle_answer (bz_error st msg) = Some zero_SettlementResponse"
  by (simp add: settle_answer_def bz_error_def http_json_def jmap_def mmap_def unmarshal_into_def
      dec_SettlementResponse_def field_defs)

lemma answer_sent:
  "sendable resp \<Longrightarrow> settle_answer (http_json st hs (json_SettlementResponse resp)) = Some resp"
  by (simp add: settle_answer_def http_json_def unmarshal_into_def sendable_def wf_Extensions_def sorted_keys_def)

lemma find_SomeD: "find P xs = Some x \<Longrightarrow> x \<in> set xs \<and> P x"
  by (auto simp: find_Some_iff)

text \<open>The rows a request may add.\<close>

definition new_row :: "'c third_party \<Rightarrow> Resource \<Rightarrow> bool" where
  "new_row tp res \<longleftrightarrow>
     (\<exists>now req. toResource tp now req = Inr res) \<or>
     (\<exists>now info offered ext typ toolName. res = harvested tp now info offered ext typ toolName \<and> validateDiscoveryInfo tp ext \<and>
        typ = bazaarInputType (ext_Info ext) \<and> (typ = ''http'' \<and> toolName = [] \<or> typ = ''mcp'' \<and> toolName \<noteq> []))"

definition rows_step :: "'c third_party \<Rightarrow> Resource list \<Rightarrow> Resource list \<Rightarrow> bool" where
  "rows_step tp rs rs' \<longleftrightarrow> rs' = rs \<or> (\<exists>res. new_row tp res \<and> rs' = upsert_row resource_key res rs)"

lemma checkAny_keeps: "Service_verify sv now req w = (resp, w') \<Longrightarrow> bw_store w' = bw_store w"
  by (auto simp: Service_verify_def split: prod.splits sum.splits dest: checkAny_store)

context bazaar_store
begin

lemma verify_step: "handleVerify sv now r body w = (out, w') \<Longrightarrow> bw_store w' = bw_store w"
  by (auto simp: handleVerify_def split: option.splits prod.splits dest: checkAny_keeps)

lemma list_steps:
  assumes "sv_store sv = ops"
    and "handleListResources sv r body w = (out, w') \<or> handleSearchResources sv r body w = (out, w')"
  shows "settled (bw_store w') = settled (bw_store w)" "rows (bw_store w') = rows (bw_store w)"
  using assms(2) unfolding handleListResources_def handleSearchResources_def Let_def
  by (auto split: prod.splits sum.splits dest!: list_law [folded assms(1)])

lemma indexFull_step:
  assumes "indexFull sv u t w = (b, w')" and "sv_store sv = ops"
  shows "settled (bw_store w') = settled (bw_store w)" "rows (bw_store w') = rows (bw_store w)"
  using assms(1) unfolding indexFull_def
  by (auto split: prod.splits sum.splits dest!: list_law [folded assms(2)])

lemma submit_step:
  assumes "handleSubmit sv now r body w = (out, w')" and "sv_store sv = ops"
  shows "settled (bw_store w') = settled (bw_store w)" "rows_step (sv_tp sv) (rows (bw_store w)) (rows (bw_store w'))"
proof -
  have "settled (bw_store w') = settled (bw_store w) \<and> rows_step (sv_tp sv) (rows (bw_store w)) (rows (bw_store w'))"
  proof (cases "\<exists>req res. decodeJSON zero_SubmitRequest dec_SubmitRequest body = Some req \<and> toResource (sv_tp sv) now req = Inr res")
    case False
    with assms(1) show ?thesis by (auto simp: handleSubmit_def rows_step_def split: option.splits sum.splits)
  next
    case True
    then obtain req res where res: "decodeJSON zero_SubmitRequest dec_SubmitRequest body = Some req"
      "toResource (sv_tp sv) now req = Inr res" by blast
    obtain b w1 where full: "indexFull sv (rs_URL res) (rs_ToolName res) w = (b, w1)" by fastforce
    note keeps = indexFull_step [OF full assms(2)]
    obtain z s where put: "bs_PutResource ops res (bw_store w1) = (z, s)" by fastforce
    have new: "new_row (sv_tp sv) res" using res(2) unfolding new_row_def by blast
    from put_law [OF put] assms res full keeps put new show ?thesis
      by (cases b; cases z) (auto simp: handleSubmit_def rows_step_def)
  qed
  then show "settled (bw_store w') = settled (bw_store w)" "rows_step (sv_tp sv) (rows (bw_store w)) (rows (bw_store w'))"
    by blast+
qed

lemma settle_step:
  assumes "handleSettle sv now r body w = (out, w')" and "sv_store sv = ops" and "readable (settled (bw_store w))"
  shows "rows_step (sv_tp sv) (rows (bw_store w)) (rows (bw_store w'))"
    "(\<exists>req resp. decodeJSON zero_verifyRequest dec_verifyRequest body = Some req \<and> settle_answer out = Some resp \<and>
        settle_effect sv now (bw_chain w) req resp (settled (bw_store w)) (settled (bw_store w'))) \<or>
     settle_answer out = Some zero_SettlementResponse \<and> settled (bw_store w') = settled (bw_store w)"
proof -
  have "rows_step (sv_tp sv) (rows (bw_store w)) (rows (bw_store w')) \<and>
    ((\<exists>req resp. decodeJSON zero_verifyRequest dec_verifyRequest body = Some req \<and> settle_answer out = Some resp \<and>
        settle_effect sv now (bw_chain w) req resp (settled (bw_store w)) (settled (bw_store w'))) \<or>
     settle_answer out = Some zero_SettlementResponse \<and> settled (bw_store w') = settled (bw_store w))"
  proof (cases "decodeJSON zero_verifyRequest dec_verifyRequest body")
    case None
    with assms(1) show ?thesis by (auto simp: handleSettle_def rows_step_def)
  next
    case (Some req)
    obtain resp w1 where st: "Service_settle sv now req w = (resp, w1)" by fastforce
    note eff = settle_effects [OF st assms(2,3)]
    have send: "sendable resp" using eff(2) by (simp add: settle_effect_def Let_def)
    show ?thesis
    proof (cases "sr_Success resp \<and> dq_Enabled (bq_Discovery (sv_cfg sv))")
      case False
      with assms(1) Some st have "out = http_json StatusOK [] (json_SettlementResponse resp)" "w' = w1"
        by (auto simp: handleSettle_def split: if_splits)
      with eff Some answer_sent [OF send] show ?thesis by (auto simp: rows_step_def)
    next
      case True
      obtain hs w2 where hv: "harvestBazaar sv now (vq_PaymentPayload req) (vq_PaymentRequirements req) w1 = (hs, w2)" by fastforce
      note h = harvest_effects [OF hv assms(2)]
      from assms(1) Some st True hv obtain hdrs where
        o: "out = http_json StatusOK hdrs (json_SettlementResponse resp)" "w' = w2"
        by (cases hs) (auto simp: handleSettle_def)
      have "rows_step (sv_tp sv) (rows (bw_store w)) (rows (bw_store w'))"
        using h(2) eff(1) o(2) unfolding rows_step_def new_row_def by metis
      with h(1) eff(2) Some o answer_sent [OF send] show ?thesis by auto
    qed
  qed
  then show "rows_step (sv_tp sv) (rows (bw_store w)) (rows (bw_store w'))"
    "(\<exists>req resp. decodeJSON zero_verifyRequest dec_verifyRequest body = Some req \<and> settle_answer out = Some resp \<and>
        settle_effect sv now (bw_chain w) req resp (settled (bw_store w)) (settled (bw_store w'))) \<or>
     settle_answer out = Some zero_SettlementResponse \<and> settled (bw_store w') = settled (bw_store w)" by blast+
qed

text \<open>The effect of one request on the settlement table and on what the client of \<open>/settle\<close> is told.\<close>

lemma step_settled:
  assumes "bazaar_step sv e w = (out, w')" and "sv_store sv = ops" and "readable (settled (bw_store w))"
  shows "(\<exists>req resp. settle_request e \<and> authorized sv (be_Request e) \<and>
      decodeJSON zero_verifyRequest dec_verifyRequest (be_Body e) = Some req \<and> settle_answer out = Some resp \<and>
      settle_effect sv (be_Now e) (be_Chain e) req resp (settled (bw_store w)) (settled (bw_store w'))) \<or>
    (settle_request e \<longrightarrow> settle_answer out = Some zero_SettlementResponse) \<and> settled (bw_store w') = settled (bw_store w)"
    and "rows_step (sv_tp sv) (rows (bw_store w)) (rows (bw_store w'))"
proof -
  let ?w = "w\<lparr>bw_chain := be_Chain e\<rparr>"
  have rd: "readable (settled (bw_store ?w))" using assms(3) by simp
  have "((\<exists>req resp. settle_request e \<and> authorized sv (be_Request e) \<and>
      decodeJSON zero_verifyRequest dec_verifyRequest (be_Body e) = Some req \<and> settle_answer out = Some resp \<and>
      settle_effect sv (be_Now e) (be_Chain e) req resp (settled (bw_store w)) (settled (bw_store w'))) \<or>
    (settle_request e \<longrightarrow> settle_answer out = Some zero_SettlementResponse) \<and> settled (bw_store w') = settled (bw_store w)) \<and>
    rows_step (sv_tp sv) (rows (bw_store w)) (rows (bw_store w'))"
  proof (cases "settle_request e")
    case True
    show ?thesis
    proof (rule gated_cases [of sv "be_Request e" "handleSettle sv (be_Now e)" "be_Body e" ?w])
      assume a: "authorized sv (be_Request e)"
        and "gated sv (handleSettle sv (be_Now e)) (be_Request e) (be_Body e) ?w = handleSettle sv (be_Now e) (be_Request e) (be_Body e) ?w"
      with assms(1) True have h: "handleSettle sv (be_Now e) (be_Request e) (be_Body e) ?w = (out, w')"
        by (simp add: settle_route)
      from settle_step [OF h assms(2) rd] a True show ?thesis by auto
    next
      assume "gated sv (handleSettle sv (be_Now e)) (be_Request e) (be_Body e) ?w =
        (bz_error StatusUnauthorized ''missing or invalid X-API-Key'', ?w)"
      with assms(1) True show ?thesis by (auto simp: settle_route rows_step_def)
    qed
  next
    case False
    have other: "settled (bw_store w') = settled (bw_store w) \<and> rows_step (sv_tp sv) (rows (bw_store w)) (rows (bw_store w'))"
    proof (cases "find (\<lambda>(m, p, _). p = hr_Path (be_Request e) \<and>
        (m = hr_Method (be_Request e) \<or> m = ''GET'' \<and> hr_Method (be_Request e) = ''HEAD'')) (bazaar_routes sv (be_Now e))")
      case None
      then have "w' = ?w" using assms(1) unfolding bazaar_step_def bazaar_serve_def by (auto split: if_splits)
      then show ?thesis by (simp add: rows_step_def)
    next
      case (Some route)
      obtain m p h where route: "route = (m, p, h)" by (cases route)
      from Some route have mem: "(m, p, h) \<in> set (bazaar_routes sv (be_Now e))" and
        key: "p = hr_Path (be_Request e)" "m = hr_Method (be_Request e) \<or> m = ''GET'' \<and> hr_Method (be_Request e) = ''HEAD''"
        by (auto dest!: find_SomeD)
      have h: "h (be_Request e) (be_Body e) ?w = (out, w')"
        using assms(1) Some route unfolding bazaar_step_def bazaar_serve_def by simp
      have gated: "bw_store w' = bw_store w \<or> g (be_Request e) (be_Body e) ?w = (out, w')"
        if "gated sv g (be_Request e) (be_Body e) ?w = (out, w')" for g
        by (rule gated_cases [of sv "be_Request e" g "be_Body e" ?w]) (use that in auto)
      consider "h = gated sv (handleVerify sv (be_Now e))" | "h = handleSupported sv"
        | "h = handleListResources sv \<or> h = handleSearchResources sv" | "h = gatedSubmit sv (handleSubmit sv (be_Now e))"
        using mem key False by (auto simp: bazaar_routes_def settle_request_def split: if_splits)
      then show ?thesis
      proof cases
        case 1
        with gated h have "bw_store w' = bw_store w"
          using verify_step [of sv "be_Now e" "be_Request e" "be_Body e" ?w out w'] by auto
        then show ?thesis by (simp add: rows_step_def)
      next
        case 2
        with h have "w' = ?w" by (simp add: handleSupported_def)
        then show ?thesis by (simp add: rows_step_def)
      next
        case 3
        with h list_steps [OF assms(2), of "be_Request e" "be_Body e" ?w out w'] show ?thesis by (auto simp: rows_step_def)
      next
        case 4
        with h gated [of "handleSubmit sv (be_Now e)"]
        have "bw_store w' = bw_store w \<or> handleSubmit sv (be_Now e) (be_Request e) (be_Body e) ?w = (out, w')"
          by (auto simp: gatedSubmit_def split: if_splits)
        with submit_step [of sv "be_Now e" "be_Request e" "be_Body e" ?w out w'] assms(2) show ?thesis
          by (auto simp: rows_step_def)
      qed
    qed
    with False show ?thesis by blast
  qed
  then show "(\<exists>req resp. settle_request e \<and> authorized sv (be_Request e) \<and>
      decodeJSON zero_verifyRequest dec_verifyRequest (be_Body e) = Some req \<and> settle_answer out = Some resp \<and>
      settle_effect sv (be_Now e) (be_Chain e) req resp (settled (bw_store w)) (settled (bw_store w'))) \<or>
    (settle_request e \<longrightarrow> settle_answer out = Some zero_SettlementResponse) \<and> settled (bw_store w') = settled (bw_store w)"
    and "rows_step (sv_tp sv) (rows (bw_store w)) (rows (bw_store w'))" by blast+
qed

end

section \<open>Histories\<close>

text \<open>\<open>e\<close> is an authorized settle request that verified, and \<open>resp\<close> is what it settled under \<open>k\<close>.\<close>

definition notarized :: "('s, 'c) FacilitatorService \<Rightarrow> 'c bazaar_event \<Rightarrow> string \<Rightarrow> SettlementResponse \<Rightarrow> bool" where
  "notarized sv e k resp \<longleftrightarrow>
     settle_request e \<and> authorized sv (be_Request e) \<and>
     (\<exists>req net si. decodeJSON zero_verifyRequest dec_verifyRequest (be_Body e) = Some req \<and>
        networkFor sv (pr_Network (pp_Accepted (vq_PaymentPayload req))) = Some net \<and>
        verified sv (be_Now e) (be_Chain e) req si \<and> si_key si = k \<and>
        resp = success_response (pp_Accepted (vq_PaymentPayload req)) net si)"

definition backed :: "('s, 'c) FacilitatorService \<Rightarrow> 'c bazaar_event list \<Rightarrow> (string \<Rightarrow> bytes option) \<Rightarrow> bool" where
  "backed sv es tbl \<longleftrightarrow>
     (\<forall>k b. tbl k = Some b \<longrightarrow> (\<exists>resp. plain_success resp \<and> b = notary_record resp \<and> (\<exists>e\<in>set es. notarized sv e k resp)))"

lemma backed_readable: "backed sv es tbl \<Longrightarrow> readable tbl"
  unfolding backed_def readable_def by blast

lemma backed_mono: "backed sv es tbl \<Longrightarrow> backed sv (es @ fs) tbl"
  unfolding backed_def by fastforce

lemma backed_empty: "backed sv es Map.empty"
  by (simp add: backed_def)

lemma bazaar_after_append: "bazaar_after sv (es @ fs) w = bazaar_after sv fs (bazaar_after sv es w)"
  by (induction es arbitrary: w) auto

context bazaar_store
begin

lemma step_backed:
  assumes "bazaar_step sv e w = (out, w')" and "sv_store sv = ops" and "backed sv es (settled (bw_store w))"
  shows "backed sv (es @ [e]) (settled (bw_store w'))"
    "settled (bw_store w) k = Some b \<Longrightarrow> settled (bw_store w') k = Some b"
proof -
  have "backed sv (es @ [e]) (settled (bw_store w')) \<and> (settled (bw_store w) k = Some b \<longrightarrow> settled (bw_store w') k = Some b)"
  proof (cases "settled (bw_store w') = settled (bw_store w)")
    case True
    then show ?thesis using backed_mono [OF assms(3)] by simp
  next
    case False
    with step_settled(1) [OF assms(1,2) backed_readable [OF assms(3)]]
    obtain req resp where ev: "settle_request e" "authorized sv (be_Request e)"
      "decodeJSON zero_verifyRequest dec_verifyRequest (be_Body e) = Some req"
      and eff: "settle_effect sv (be_Now e) (be_Chain e) req resp (settled (bw_store w)) (settled (bw_store w'))" by blast
    let ?key = "idempotencyKey (vq_PaymentPayload req)"
    from eff False have new: "settled (bw_store w) ?key = None" "plain_success resp"
      "settled (bw_store w') = (settled (bw_store w))(?key \<mapsto> notary_record resp)" "notarized sv e ?key resp"
      using ev unfolding settle_effect_def Let_def notarized_def by blast+
    then have "\<exists>r. plain_success r \<and> b' = notary_record r \<and> (\<exists>e\<in>set (es @ [e]). notarized sv e k' r)"
      if "settled (bw_store w') k' = Some b'" for k' b'
      using that assms(3) unfolding backed_def by (cases "k' = ?key") (auto, blast)
    with new show ?thesis unfolding backed_def by auto
  qed
  then show "backed sv (es @ [e]) (settled (bw_store w'))"
    "settled (bw_store w) k = Some b \<Longrightarrow> settled (bw_store w') k = Some b" by blast+
qed

lemma after_backed:
  assumes "sv_store sv = ops" and "backed sv es (settled (bw_store w))"
  shows "backed sv (es @ fs) (settled (bw_store (bazaar_after sv fs w)))"
    "settled (bw_store w) k = Some b \<Longrightarrow> settled (bw_store (bazaar_after sv fs w)) k = Some b"
proof -
  have "backed sv (es @ fs) (settled (bw_store (bazaar_after sv fs w))) \<and>
      (settled (bw_store w) k = Some b \<longrightarrow> settled (bw_store (bazaar_after sv fs w)) k = Some b)"
    using assms(2)
  proof (induction fs arbitrary: es w)
    case (Cons f fs)
    obtain out w' where st: "bazaar_step sv f w = (out, w')" by fastforce
    note b = step_backed(1) [OF st assms(1) Cons.prems]
    show ?case using Cons.IH [OF b] step_backed(2) [OF st assms(1) Cons.prems, of k b] st by simp
  qed simp
  then show "backed sv (es @ fs) (settled (bw_store (bazaar_after sv fs w)))"
    "settled (bw_store w) k = Some b \<Longrightarrow> settled (bw_store (bazaar_after sv fs w)) k = Some b" by blast+
qed

lemma settle_answer_backed:
  assumes "sv_store sv = ops" and "backed sv es (settled (bw_store w))" and "bazaar_step sv e w = (out, w')"
    and "settle_request e" and "settle_answer out = Some resp" and "sr_Success resp"
  shows "\<exists>req. decodeJSON zero_verifyRequest dec_verifyRequest (be_Body e) = Some req \<and> authorized sv (be_Request e) \<and>
    plain_success resp \<and> settled (bw_store w') (idempotencyKey (vq_PaymentPayload req)) = Some (notary_record resp) \<and>
    (\<exists>e0\<in>set (es @ [e]). notarized sv e0 (idempotencyKey (vq_PaymentPayload req)) resp)"
proof -
  have "\<not> sr_Success zero_SettlementResponse" by (simp add: zero_SettlementResponse_def)
  with step_settled(1) [OF assms(3,1) backed_readable [OF assms(2)]] assms(4-6)
  obtain req where req: "authorized sv (be_Request e)" "decodeJSON zero_verifyRequest dec_verifyRequest (be_Body e) = Some req"
    and eff: "settle_effect sv (be_Now e) (be_Chain e) req resp (settled (bw_store w)) (settled (bw_store w'))" by auto
  let ?key = "idempotencyKey (vq_PaymentPayload req)"
  from eff assms(6) have st: "plain_success resp" "settled (bw_store w') ?key = Some (notary_record resp)"
    unfolding settle_effect_def Let_def by blast+
  from step_backed(1) [OF assms(3,1,2)] st(2) obtain r where
    "plain_success r" "notary_record resp = notary_record r" "\<exists>e0\<in>set (es @ [e]). notarized sv e0 ?key r"
    unfolding backed_def by blast
  with notary_record_inject [OF st(1)] req st show ?thesis by blast
qed

text \<open>Every success is backed by a verified payment under its key, and the key always answers the same.\<close>

lemma settlements_final:
  assumes "sv_store sv = ops" and "settled (bw_store w0) = Map.empty"
    and "bazaar_step sv e (bazaar_after sv es w0) = (out, w1)"
    and "settle_request e" and "settle_answer out = Some resp" and "sr_Success resp"
  shows "\<exists>req. decodeJSON zero_verifyRequest dec_verifyRequest (be_Body e) = Some req \<and> authorized sv (be_Request e) \<and>
    (\<exists>e0\<in>set (es @ [e]). notarized sv e0 (idempotencyKey (vq_PaymentPayload req)) resp) \<and>
    (\<forall>fs f out' w2 req' resp'. bazaar_step sv f (bazaar_after sv fs w1) = (out', w2) \<and> settle_request f \<and>
       decodeJSON zero_verifyRequest dec_verifyRequest (be_Body f) = Some req' \<and>
       idempotencyKey (vq_PaymentPayload req') = idempotencyKey (vq_PaymentPayload req) \<and>
       settle_answer out' = Some resp' \<and> sr_Success resp' \<longrightarrow> resp' = resp)"
proof -
  have b0: "backed sv es (settled (bw_store (bazaar_after sv es w0)))"
    using after_backed(1) [OF assms(1), of "[]" w0 es] assms(2) by (simp add: backed_empty)
  from settle_answer_backed [OF assms(1) b0 assms(3-6)] obtain req where
    req: "decodeJSON zero_verifyRequest dec_verifyRequest (be_Body e) = Some req" "authorized sv (be_Request e)"
    and st: "plain_success resp" "settled (bw_store w1) (idempotencyKey (vq_PaymentPayload req)) = Some (notary_record resp)"
    and ev: "\<exists>e0\<in>set (es @ [e]). notarized sv e0 (idempotencyKey (vq_PaymentPayload req)) resp" by blast
  have b1: "backed sv (es @ [e]) (settled (bw_store w1))" by (rule step_backed(1) [OF assms(3,1) b0])
  have "resp' = resp" if f: "bazaar_step sv f (bazaar_after sv fs w1) = (out', w2)" "settle_request f"
      "decodeJSON zero_verifyRequest dec_verifyRequest (be_Body f) = Some req'"
      "idempotencyKey (vq_PaymentPayload req') = idempotencyKey (vq_PaymentPayload req)"
      "settle_answer out' = Some resp'" "sr_Success resp'" for fs f out' w2 req' resp'
  proof -
    note b2 = after_backed(1) [OF assms(1) b1, of fs]
    have "settled (bw_store w2) (idempotencyKey (vq_PaymentPayload req)) = Some (notary_record resp)"
      by (rule step_backed(2) [OF f(1) assms(1) b2 after_backed(2) [OF assms(1) b1 st(2)]])
    with settle_answer_backed [OF assms(1) b2 f(1,2,5,6)] f(3,4) notary_record_inject [OF st(1)] show ?thesis by fastforce
  qed
  with req ev show ?thesis by blast
qed

end

end
