(* ===== verification/Facilitator.thy ===== *)
theory Facilitator
  imports BazaarClaims GateProps
begin

text \<open>
  The properties of the facilitator: what its index holds, what its pages show, and what its
  settlements mean.
\<close>

section \<open>What the index holds\<close>

definition row_metadata :: "Resource \<Rightarrow> ResourceInfo" where
  "row_metadata r = \<lparr>ri_URL = rs_URL r, ri_Description = rs_Description r, ri_MimeType = rs_MimeType r,
     ri_ServiceName = rs_ServiceName r, ri_Tags = rs_Tags r, ri_IconURL = rs_IconURL r\<rparr>"

definition wf_row :: "'c third_party \<Rightarrow> Resource \<Rightarrow> bool" where
  "wf_row tp r \<longleftrightarrow>
     (rs_Type r = ''http'' \<or> rs_Type r = ''mcp'') \<and> clean_metadata (tp_ToASCII tp) (row_metadata r) \<and> rs_Accepts r \<noteq> [] \<and>
     (rs_Type r = ''mcp'' \<longrightarrow> rs_ToolName r \<noteq> [] \<or> HasPrefix (TrimSpace (rs_URL r)) ''mcp:'') \<and>
     list_all (\<lambda>(k, ext). k = ExtensionBazaar \<and> extension_bytes tp ext \<le> maxExtensionBytes \<and>
        validateDiscoveryInfo tp ext \<and> bazaarInputType (ext_Info ext) = rs_Type r) (rs_Extensions r) \<and>
     distinct (rs_Networks r) \<and> set (rs_Networks r) = pr_Network ` set (rs_Accepts r) - {[]}"

lemma network_loop_set:
  "distinct ns \<Longrightarrow> [] \<notin> set ns \<Longrightarrow>
   distinct (network_loop as ns) \<and> set (network_loop as ns) = set ns \<union> (pr_Network ` set as - {[]})"
proof (induction as arbitrary: ns)
  case (Cons a as)
  let ?ns = "if pr_Network a \<noteq> [] \<and> pr_Network a \<notin> set ns then ns @ [pr_Network a] else ns"
  have "distinct ?ns" "[] \<notin> set ?ns" using Cons.prems by auto
  from Cons.IH [OF this] show ?case by (auto split: if_splits)
qed simp

lemma row_metadata_simps [simp]:
  "clean_metadata f (row_metadata (submitted tp now req ty)) = clean_metadata f (SanitizeServiceMetadata (tp_ToASCII tp) (sq_Metadata req))"
  "clean_metadata f (row_metadata (harvested tp now info offered ext ty tool)) = clean_metadata f (SanitizeServiceMetadata (tp_ToASCII tp) info)"
  by (simp_all add: clean_metadata_def row_metadata_def submitted_def harvested_def Let_def)

lemma toResource_wf:
  assumes "toResource tp now req = Inr res"
  shows "wf_row tp res"
proof -
  let ?ty = "if sq_Type req = [] then ''http'' else sq_Type req"
  let ?sub = "submitted tp now req ?ty"
  from assms have c: "sq_Accepts req \<noteq> []" "?ty = ''http'' \<or> ?ty = ''mcp''" "with_extension tp req ?sub = Inr res"
    "\<not> (?ty = ''mcp'' \<and> rs_ToolName res = [] \<and> \<not> HasPrefix (TrimSpace (sq_Resource req)) ''mcp:'')"
    unfolding toResource_def Let_def by (simp_all split: if_splits sum.splits)
  have sub: "rs_Type ?sub = ?ty" "rs_URL ?sub = sq_Resource req" "rs_Accepts ?sub = sq_Accepts req" "rs_Extensions ?sub = []"
    "rs_Networks ?sub = network_loop (sq_Accepts req) []"
    by (simp_all add: submitted_def Let_def)
  have nets: "distinct (rs_Networks ?sub)" "set (rs_Networks ?sub) = pr_Network ` set (sq_Accepts req) - {[]}"
    using network_loop_set [of "[]" "sq_Accepts req"] by (simp_all add: submitted_def Let_def)
  from c(3) consider "res = ?sub"
    | ext where "res = ?sub\<lparr>rs_ToolName := bazaarInputToolName (ext_Info ext), rs_Extensions := [(ExtensionBazaar, ext)]\<rparr>"
        "extension_bytes tp ext \<le> maxExtensionBytes" "validateDiscoveryInfo tp ext" "bazaarInputType (ext_Info ext) = rs_Type ?sub"
    unfolding with_extension_def by (force split: option.splits if_splits)
  then show ?thesis
  proof cases
    case 1
    with c sub nets Sanitize_clean show ?thesis by (auto simp: wf_row_def)
  next
    case 2
    have "clean_metadata (tp_ToASCII tp) (row_metadata res)"
      using row_metadata_simps(1) [of "tp_ToASCII tp" tp now req ?ty] Sanitize_clean [of "tp_ToASCII tp" "sq_Metadata req"] 2(1)
      by (simp add: row_metadata_def)
    with 2 c sub nets show ?thesis by (auto simp: wf_row_def)
  qed
qed

lemma harvested_wf:
  assumes "validateDiscoveryInfo tp ext" and "ty = bazaarInputType (ext_Info ext)"
    and "ty = ''http'' \<and> toolName = [] \<or> ty = ''mcp'' \<and> toolName \<noteq> []"
  shows "wf_row tp (harvested tp now info offered ext ty toolName)"
  using assms Sanitize_clean unfolding wf_row_def row_metadata_simps by (auto simp: harvested_def Let_def)

lemma new_row_wf: "new_row tp res \<Longrightarrow> wf_row tp res"
  unfolding new_row_def using toResource_wf harvested_wf by metis

lemma upsert_row_keys: "distinct (map key rs) \<Longrightarrow> distinct (map key (upsert_row key r rs)) \<and>
    key ` set (upsert_row key r rs) = insert (key r) (key ` set rs)"
  by (induction rs) auto

lemma upsert_row_set: "set (upsert_row key r rs) \<subseteq> insert r (set rs)"
  by (induction rs) auto

definition wf_index :: "'c third_party \<Rightarrow> Resource list \<Rightarrow> bool" where
  "wf_index tp rs \<longleftrightarrow> distinct (map resource_key rs) \<and> list_all (wf_row tp) rs"

lemma rows_step_wf:
  assumes "rows_step tp rs rs'" and "wf_index tp rs"
  shows "wf_index tp rs'"
proof -
  { fix res assume "new_row tp res" "rs' = upsert_row resource_key res rs"
    then have ?thesis
      using upsert_row_keys [of resource_key rs res] upsert_row_set [of resource_key res rs] new_row_wf [of tp res] assms(2)
      unfolding wf_index_def list_all_iff by blast
  }
  then show ?thesis using assms unfolding rows_step_def by blast
qed

context bazaar_store
begin

lemma after_wf_index:
  assumes "sv_store sv = ops" and "backed sv es (settled (bw_store w))" and "wf_index (sv_tp sv) (rows (bw_store w))"
  shows "wf_index (sv_tp sv) (rows (bw_store (bazaar_after sv fs w)))"
  using assms(2,3)
proof (induction fs arbitrary: es w)
  case (Cons f fs)
  obtain out w' where st: "bazaar_step sv f w = (out, w')" by fastforce
  note b = step_backed(1) [OF st assms(1) Cons.prems(1)]
  have "wf_index (sv_tp sv) (rows (bw_store w'))"
    by (rule rows_step_wf [OF step_settled(2) [OF st assms(1) backed_readable [OF Cons.prems(1)]] Cons.prems(2)])
  from Cons.IH [OF b this] st show ?case by simp
qed simp

text \<open>A settled payment is cataloged whatever the size of the index.\<close>

lemma harvest_ignores_cap:
  assumes "harvestBazaar sv now pp offered w = ((''success'', reason), w')" and "sv_store sv = ops"
    and "list_all (\<lambda>r. rs_URL r \<noteq> u) (rows (bw_store w))" and "pp_Resource pp = Some info" and "ri_URL info = u"
  shows "length (rows (bw_store w')) = Suc (length (rows (bw_store w)))"
proof -
  have up: "list_all (\<lambda>x. rs_URL x \<noteq> rs_URL r) rs \<Longrightarrow> length (upsert_row resource_key r rs) = Suc (length rs)" for r rs
    by (induction rs) (auto simp: resource_key_def)
  from assms(1,4) obtain ext ty tool where
    put: "bs_PutResource ops (harvested (sv_tp sv) now info offered ext ty tool) (bw_store w) = (Inr (), bw_store w')"
    unfolding harvestBazaar_def Let_def assms(2)
    by (auto split: option.splits if_splits prod.splits sum.splits)
  have "rs_URL (harvested (sv_tp sv) now info offered ext ty tool) = u"
    using assms(5) by (simp add: harvested_def Let_def SanitizeServiceMetadata_def)
  with put_law [OF put] up assms(3) show ?thesis by simp
qed

end

section \<open>Pages\<close>

lemma paginate_eq:
  "0 < limit \<Longrightarrow> paginate rs (int i * limit) limit = take (nat limit) (drop (i * nat limit) rs)"
proof -
  assume pos: "0 < limit"
  then have n: "nat (int i * limit) = i * nat limit" by (simp add: nat_mult_distrib)
  have "int i * limit = int (i * nat limit)" using pos by simp
  then have "int (length rs) \<le> int i * limit \<longleftrightarrow> length rs \<le> i * nat limit" by (simp only: of_nat_le_iff)
  with n pos show ?thesis by (auto simp: paginate_def Let_def not_less split: if_splits)
qed

lemma pages_concat:
  "0 < limit \<Longrightarrow> concat (map (\<lambda>i. paginate rs (int i * limit) limit) [0..<n]) = take (n * nat limit) rs"
proof (induction n)
  case (Suc n)
  then show ?case using take_add [of "n * nat limit" "nat limit" rs] by (simp add: paginate_eq add.commute)
qed simp

lemma resource_order_inj: "inj_on resource_key A \<Longrightarrow> inj_on resource_order A"
  by (auto simp: inj_on_def resource_order_def resource_key_def)

lemma filterResources_sorted:
  assumes "distinct (map resource_key all)"
  shows "sorted_wrt (<) (map resource_order (filterResources all f))"
    "set (filterResources all f) = set (filter (passes_filter f) all)"
proof -
  have inj: "inj_on resource_order (set all)" and d: "distinct all"
    using assms resource_order_inj by (auto simp: distinct_map)
  have "distinct (map resource_order (filterResources all f))"
    using d inj by (auto simp: distinct_map filterResources_def intro: inj_on_subset)
  then show "sorted_wrt (<) (map resource_order (filterResources all f))"
    by (simp add: strict_sorted_iff filterResources_def)
  show "set (filterResources all f) = set (filter (passes_filter f) all)" by (simp add: filterResources_def)
qed

lemma filterResources_order:
  assumes "distinct (map resource_key all)" and "distinct (map resource_key all')" and "set all' = set all"
  shows "filterResources all' f = filterResources all f"
proof -
  have inj: "inj_on resource_order (set all)" using assms(1) resource_order_inj by (auto simp: distinct_map)
  have "map resource_order (filterResources all' f) = map resource_order (filterResources all f)"
    using filterResources_sorted [OF assms(1), of f] filterResources_sorted [OF assms(2), of f] assms(3)
    by (intro strict_sorted_equal) auto
  moreover have "set (filterResources all f) \<union> set (filterResources all' f) \<subseteq> set all"
    using assms(3) by (auto simp: filterResources_def)
  ultimately show ?thesis using inj by (metis inj_on_map_eq_map inj_on_subset Un_commute)
qed

lemma clampPageSize_bounds: "0 < clampPageSize l \<and> clampPageSize l \<le> maxPageSize"
  by (auto simp: clampPageSize_def maxPageSize_def)

section \<open>A sample facilitator\<close>

text \<open>A facilitator on simnet whose chain reader sees one confirmed deposit of 5 atoms.\<close>

definition bz_sample_config :: bazaar_Config where
  "bz_sample_config = \<lparr>bq_Listen = '':1'', bq_TLSCert = [], bq_TLSKey = [], bq_Networks = [''simnet''], bq_Store = ''x.db'',
     bq_Discovery = \<lparr>dq_Enabled = False, dq_PublicSubmit = False\<rparr>,
     bq_Onchain = \<lparr>oq_Enabled = True, oq_DcrdataURL = ''http://d'', oq_MinConfs = 2\<rparr>, bq_APIKeys = []\<rparr>"

definition bz_sample :: "(bazaar_db conn, unit) FacilitatorService" where
  "bz_sample = \<lparr>sv_cfg = bz_sample_config, sv_networks = [Simnet], sv_keys = [], sv_store = BazaarSQLite,
     sv_onchain = Some (\<lambda>_ _ c. (Inr \<lparr>ds_Found = True, ds_Confirmations = 3, ds_AmountToAddressAtoms = 5\<rparr>, c)),
     sv_tp = \<lparr>tp_Decode = (\<lambda>_ _. None), tp_Validate = (\<lambda>_ _. True), tp_ToASCII = (\<lambda>_. None), tp_RawLen = (\<lambda>_. 0),
       tp_Get = (\<lambda>_ c. (Inl [], c))\<rparr>\<rparr>"

definition bz_sample_world :: "(bazaar_db conn, unit) bazaar_world" where
  "bz_sample_world = \<lparr>bw_store = \<lparr>cn_db = \<lparr>bt_settlements = Map.empty, bt_resources = []\<rparr>, cn_faults = []\<rparr>, bw_chain = ()\<rparr>"

definition bz_sample_txid :: string where
  "bz_sample_txid = replicate 64 (CHR ''a'')"

definition bz_sample_entry :: PaymentRequirements where
  "bz_sample_entry = \<lparr>pr_Scheme = ''exact'', pr_Network = nw_CAIP2 Simnet, pr_Amount = ''5'', pr_Asset = ''DCR'', pr_PayTo = ''Ss'',
     pr_MaxTimeoutSeconds = 60, pr_Extra = Some (JObj [(''assetTransferMethod'', JStr ''onchain'')])\<rparr>"

definition bz_sample_payload :: PaymentPayload where
  "bz_sample_payload = \<lparr>pp_X402Version = 2, pp_Resource = None, pp_Accepted = bz_sample_entry,
     pp_Payload = Some (JObj [(''txid'', JStr bz_sample_txid)]), pp_Extensions = []\<rparr>"

definition bz_sample_json :: json where
  "bz_sample_json = JObj [(''x402Version'', enc_int 2), (''paymentPayload'', json_PaymentPayload bz_sample_payload),
     (''paymentRequirements'', json_PaymentRequirements bz_sample_entry)]"

definition bz_sample_event :: "unit bazaar_event" where
  "bz_sample_event = \<lparr>be_Now = 0, be_Chain = (),
     be_Request = \<lparr>hr_Method = ''POST'', hr_Host = ''h'', hr_TLS = False, hr_Path = ''/settle'', hr_Header = [], hr_Form = []\<rparr>,
     be_Body = json_print bz_sample_json\<rparr>"

definition bz_sample_response :: SettlementResponse where
  "bz_sample_response = \<lparr>sr_Success = True, sr_ErrorReason = [], sr_Payer = [], sr_Transaction = bz_sample_txid,
     sr_Network = nw_CAIP2 Simnet, sr_Amount = ''5'', sr_Extensions = []\<rparr>"

lemma bz_sample_wf:
  "wf_PaymentPayload bz_sample_payload" "wf_json bz_sample_json" "in_int64 (pr_MaxTimeoutSeconds bz_sample_entry)"
  by (simp_all add: bz_sample_json_def bz_sample_payload_def bz_sample_entry_def wf_PaymentPayload_def
      wf_PaymentRequirements_def wf_raw_def wf_Extensions_def sorted_keys_def int64_defs)

text \<open>An upper bound for the length of a printed document that evaluates quickly.\<close>

fun json_weight :: "json \<Rightarrow> nat"
and elems_weight :: "json list \<Rightarrow> nat"
and members_weight :: "(string \<times> json) list \<Rightarrow> nat" where
  "json_weight JNull = 5"
| "json_weight (JBool b) = 5"
| "json_weight (JNum t) = length t"
| "json_weight (JStr s) = 6 * length s + 2"
| "json_weight (JArr xs) = elems_weight xs + 2"
| "json_weight (JObj kvs) = members_weight kvs + 2"
| "elems_weight [] = 0"
| "elems_weight (x # xs) = json_weight x + elems_weight xs + 1"
| "members_weight [] = 0"
| "members_weight ((k, v) # kvs) = 6 * length k + 4 + json_weight v + members_weight kvs"

lemma length_print_str: "length (print_str s) \<le> 6 * length s + 2"
proof -
  have "length (concat (map print_char s)) \<le> 6 * length s"
  proof (induction s)
    case (Cons c s)
    have "length (print_char c) \<le> 6" by (simp add: print_char_def hex4_def)
    with Cons show ?case by simp
  qed simp
  then show ?thesis by (simp add: print_str_def)
qed

lemma length_json_print:
  "length (json_print j) \<le> json_weight j" "length (elems_print xs) \<le> elems_weight xs"
  "length (members_print kvs) \<le> members_weight kvs"
proof (induction j and xs and kvs rule: json_print_elems_print_members_print.induct)
  case (4 s)
  show ?case using length_print_str [of s] by simp
next
  case (10 k v kvs)
  then show ?case using length_print_str [of k] by auto
qed auto

lemma bz_sample_decode:
  "decodeJSON zero_verifyRequest dec_verifyRequest (be_Body bz_sample_event) =
     Some \<lparr>vq_X402Version = 2, vq_PaymentPayload = bz_sample_payload, vq_PaymentRequirements = bz_sample_entry\<rparr>"
proof -
  have "json_weight bz_sample_json \<le> maxBodyBytes"
    by (simp add: bz_sample_json_def bz_sample_payload_def bz_sample_entry_def json_PaymentPayload_def json_PaymentRequirements_def
        enc_int_def FormatInt_def show_nat.simps opt_field_def enc_raw_def bz_sample_txid_def Simnet_def maxBodyBytes_def)
  then have "length (json_print bz_sample_json) \<le> maxBodyBytes" using length_json_print(1) [of bz_sample_json] by linarith
  then have "take maxBodyBytes (json_print bz_sample_json) = json_print bz_sample_json" by simp
  moreover have "dec_verifyRequest zero_verifyRequest bz_sample_json =
      (\<lparr>vq_X402Version = 2, vq_PaymentPayload = bz_sample_payload, vq_PaymentRequirements = bz_sample_entry\<rparr>, True)"
    using bz_sample_wf by (simp add: bz_sample_json_def dec_verifyRequest_def zero_verifyRequest_def field_defs int64_defs)
  ultimately show ?thesis
    using bz_sample_wf by (simp add: decodeJSON_def bz_sample_event_def unmarshal_into_def)
qed

lemma bz_sample_txid_ok: "hex32 bz_sample_txid \<noteq> None" "ToLower bz_sample_txid = bz_sample_txid" "bz_sample_txid \<noteq> []"
  by (simp_all add: hex32_def bz_sample_txid_def numeral_eq_Suc hex_val_def ToLower_def lower_char_def)

lemma bz_sample_method: "TransferMethod bz_sample_entry = MethodOnchain"
  by (simp add: TransferMethod_def bz_sample_entry_def unmarshal_into_def field_defs MethodOnchain_def)

lemma bz_sample_settles:
  "\<exists>w1. bazaar_step bz_sample bz_sample_event bz_sample_world = (http_json StatusOK [] (json_SettlementResponse bz_sample_response), w1)"
proof -
  let ?w = "bz_sample_world\<lparr>bw_chain := be_Chain bz_sample_event\<rparr>"
  let ?req = "\<lparr>vq_X402Version = 2, vq_PaymentPayload = bz_sample_payload, vq_PaymentRequirements = bz_sample_entry\<rparr>"
  have w: "?w = bz_sample_world" by (simp add: bz_sample_world_def)
  have parts: "pp_Accepted bz_sample_payload = bz_sample_entry" "pr_Network bz_sample_entry = nw_CAIP2 Simnet"
    "networkFor bz_sample (nw_CAIP2 Simnet) = Some Simnet" "CheckEnvelope bz_sample_payload Simnet = None"
    "unmarshal_into zero_OnchainPayload dec_OnchainPayload (pp_Payload bz_sample_payload) = Some \<lparr>op_TxID = bz_sample_txid\<rparr>"
    "pr_PayTo bz_sample_entry \<noteq> []" "ParseInt (pr_Amount bz_sample_entry) = Some 5" "pr_Amount bz_sample_entry = ''5''"
    "fst (dec_OnchainExtra zero_OnchainExtra (JObj [(''assetTransferMethod'', JStr ''onchain'')])) =
       zero_OnchainExtra\<lparr>oe_AssetTransferMethod := ''onchain''\<rparr>" "pr_Extra bz_sample_entry = Some (JObj [(''assetTransferMethod'', JStr ''onchain'')])"
    by (simp_all add: bz_sample_payload_def bz_sample_entry_def networkFor_def bz_sample_def CheckEnvelope_def x402_consts
        unmarshal_into_def dec_OnchainPayload_def zero_OnchainPayload_def dec_OnchainExtra_def zero_OnchainExtra_def field_defs
        ParseInt_def digit_val_def int64_defs)
  have key: "idempotencyKey bz_sample_payload = bz_sample_txid"
    using parts bz_sample_txid_ok bz_sample_method by (simp add: idempotencyKey_def x402_consts)
  have onchain: "checkOnchain bz_sample ?req bz_sample_world = (Inr bz_sample_txid, bz_sample_world)"
    using parts bz_sample_txid_ok
    by (simp add: checkOnchain_def bz_sample_def bz_sample_config_def zero_OnchainExtra_def wrap32_def Let_def)
  have chk: "checkAny bz_sample 0 ?req bz_sample_world = (Inr (onchain_identity bz_sample_entry bz_sample_txid Simnet 0), bz_sample_world)"
    using parts onchain bz_sample_method by (simp add: checkAny_def x402_consts)
  have rec: "recorded bz_sample bz_sample_txid bz_sample_world = (None, bz_sample_world)"
    by (simp add: recorded_def bz_sample_def BazaarSQLite_def BSq_GetSettlement_def bz_sample_world_def query_ok
        bz_select_response_def bz_sample_txid_ok)
  define out where "out = notarize bz_sample 0 bz_sample_entry Simnet (onchain_identity bz_sample_entry bz_sample_txid Simnet 0) bz_sample_world"
  have resp: "success_response bz_sample_entry Simnet (onchain_identity bz_sample_entry bz_sample_txid Simnet 0) = bz_sample_response"
    by (simp add: success_response_def bz_sample_response_def onchain_identity_def parts)
  have plain: "plain_success bz_sample_response" by (simp add: plain_success_def bz_sample_response_def)
  have "\<exists>s. BSq_Settle bz_sample_txid (notary_record bz_sample_response) receipt 0 (bw_store bz_sample_world) =
      (Inr (notary_record bz_sample_response, False), s)" for receipt
    by (simp add: BSq_Settle_def bz_settle_body_def transaction_def bz_sample_world_def andThen_def driver_def stmt_def
        bz_insert_settlement_def ret_def)
  then obtain s where "BSq_Settle bz_sample_txid (notary_record bz_sample_response)
      (json_print (si_receipt (onchain_identity bz_sample_entry bz_sample_txid Simnet 0))) 0 (bw_store bz_sample_world) =
      (Inr (notary_record bz_sample_response, False), s)" by blast
  then have "out = (bz_sample_response, bz_sample_world\<lparr>bw_store := s\<rparr>)"
    using read_notary_record [OF plain, of bz_sample_response] plain resp
    unfolding out_def notarize_def Let_def success_response_def notary_record_def
    by (simp add: bz_sample_def BazaarSQLite_def onchain_identity_def)
  then have st: "Service_settle bz_sample 0 ?req bz_sample_world = (bz_sample_response, bz_sample_world\<lparr>bw_store := s\<rparr>)"
    using parts key rec chk by (simp add: Service_settle_def out_def)
  have "\<not> dq_Enabled (bq_Discovery (sv_cfg bz_sample))" "sv_keys bz_sample = []" "settle_request bz_sample_event"
    "be_Now bz_sample_event = 0"
    by (simp_all add: bz_sample_def bz_sample_config_def settle_request_def bz_sample_event_def)
  then show ?thesis
    using bz_sample_decode st unfolding settle_route [OF \<open>settle_request bz_sample_event\<close>] w
    by (simp add: gated_def handleSettle_def)
qed

section \<open>Settlements are final and backed\<close>

text \<open>
  C32: a success of the facilitator is backed by a verified payment, and is final.  Start from an
  empty settlement table in SQLite and let any requests arrive, in any order, at any times, with
  the chain in any state and the driver failing wherever it likes.  If a client of \<open>/settle\<close>
  reads a success, the caller was authorized, and some settle request so far, under the same
  idempotency key, was authorized and verified when it came, its proof or its deposit; the
  answer carries exactly that payment's identifier, network and amount.  And every success read
  under this key later on, however the proof is dressed up, is the same answer.
\<close>
theorem facilitator_settles_once:
  assumes "sv_store sv = BazaarSQLite" and "bz_settled (bw_store w0) = Map.empty"
    and "bazaar_step sv e (bazaar_after sv es w0) = (out, w1)"
    and "settle_request e" and "settle_answer out = Some resp" and "sr_Success resp"
  shows "\<exists>req. decodeJSON zero_verifyRequest dec_verifyRequest (be_Body e) = Some req \<and> authorized sv (be_Request e) \<and>
    (\<exists>e0\<in>set (es @ [e]). notarized sv e0 (idempotencyKey (vq_PaymentPayload req)) resp) \<and>
    (\<forall>fs f out' w2 req' resp'. bazaar_step sv f (bazaar_after sv fs w1) = (out', w2) \<and> settle_request f \<and>
       decodeJSON zero_verifyRequest dec_verifyRequest (be_Body f) = Some req' \<and>
       idempotencyKey (vq_PaymentPayload req') = idempotencyKey (vq_PaymentPayload req) \<and>
       settle_answer out' = Some resp' \<and> sr_Success resp' \<longrightarrow> resp' = resp)"
  by (rule bsql.settlements_final [OF assms])

theorem facilitator_settles_once_witness:
  "\<exists>out w1. bazaar_step bz_sample bz_sample_event (bazaar_after bz_sample [] bz_sample_world) = (out, w1) \<and>
     settle_answer out = Some bz_sample_response \<and>
     (\<exists>req. decodeJSON zero_verifyRequest dec_verifyRequest (be_Body bz_sample_event) = Some req \<and>
        notarized bz_sample bz_sample_event (idempotencyKey (vq_PaymentPayload req)) bz_sample_response)"
proof -
  obtain w1 where st: "bazaar_step bz_sample bz_sample_event (bazaar_after bz_sample [] bz_sample_world) =
      (http_json StatusOK [] (json_SettlementResponse bz_sample_response), w1)"
    using bz_sample_settles by auto
  have an: "settle_answer (http_json StatusOK [] (json_SettlementResponse bz_sample_response)) = Some bz_sample_response"
    by (rule answer_sent) (simp add: sendable_def bz_sample_response_def)
  have "sv_store bz_sample = BazaarSQLite" "bz_settled (bw_store bz_sample_world) = Map.empty"
    "settle_request bz_sample_event" "sr_Success bz_sample_response"
    by (simp_all add: bz_sample_def bz_settled_def bz_sample_world_def bz_select_response_def fun_eq_iff settle_request_def
        bz_sample_event_def bz_sample_response_def)
  from facilitator_settles_once [OF this(1,2) st this(3) an this(4)] st an show ?thesis by fastforce
qed



text \<open>
  C40: the pages of a listing partition the matching entries.  The listing depends only on which
  entries the store holds, not on the order in which it yields them: it is the entries that pass
  the filter, strictly ascending by URL and tool name.  A page never has more than a hundred
  entries, whatever limit is asked for, and walking the pages from offset zero in steps of the
  effective limit yields every entry exactly once, in order.
\<close>
theorem listing_pages:
  assumes "distinct (map resource_key all)" and "distinct (map resource_key all')" and "set all' = set all"
    and "length (filterResources all f) \<le> n * nat (clampPageSize l)"
  shows "filterResources all' f = filterResources all f \<and>
    sorted_wrt (<) (map resource_order (filterResources all f)) \<and>
    set (filterResources all f) = set (filter (passes_filter f) all) \<and>
    length (paginate (filterResources all f) off (clampPageSize l)) \<le> 100 \<and>
    concat (map (\<lambda>i. paginate (filterResources all f) (int i * clampPageSize l) (clampPageSize l)) [0..<n]) = filterResources all f"
proof (intro conjI)
  show "length (paginate (filterResources all f) off (clampPageSize l)) \<le> 100"
    using clampPageSize_bounds [of l] by (auto simp: paginate_def Let_def maxPageSize_def)
  show "concat (map (\<lambda>i. paginate (filterResources all f) (int i * clampPageSize l) (clampPageSize l)) [0..<n]) = filterResources all f"
    using assms(4) clampPageSize_bounds [of l] by (simp add: pages_concat)
qed (rule filterResources_order [OF assms(1-3)] filterResources_sorted [OF assms(1)])+

definition sample_row :: "string \<Rightarrow> Resource" where
  "sample_row u = \<lparr>rs_URL = u, rs_ToolName = [], rs_Type = ''http'', rs_Accepts = [], rs_Description = [], rs_MimeType = [],
     rs_ServiceName = [], rs_Tags = [], rs_IconURL = [], rs_Extensions = [], rs_Networks = [], rs_LastUpdated = 0\<rparr>"

theorem listing_pages_witness:
  "filterResources [sample_row ''a'', sample_row ''b''] \<lparr>rf_Type = [], rf_PayTo = [], rf_Scheme = [], rf_Network = [], rf_Query = []\<rparr> =
   filterResources [sample_row ''b'', sample_row ''a''] \<lparr>rf_Type = [], rf_PayTo = [], rf_Scheme = [], rf_Network = [], rf_Query = []\<rparr>"
  using listing_pages [of "[sample_row ''b'', sample_row ''a'']" "[sample_row ''a'', sample_row ''b'']"
      "\<lparr>rf_Type = [], rf_PayTo = [], rf_Scheme = [], rf_Network = [], rf_Query = []\<rparr>" 2 1]
  by (auto simp: sample_row_def resource_key_def filterResources_def passes_filter_def clampPageSize_def maxPageSize_def
      resource_order_def)

end
