(* ===== verification/Base58.thy ===== *)
theory Base58
  imports Gate
begin

text \<open>
  The conversion to base 58 of \<open>lib/offerreceipt.go\<close>: two nested loops over a buffer whose length is
  estimated as 138 percent of the input's.  The model makes running off the front of the buffer a
  panic; the lemmas carry the number that is held in the buffer through the loops and show that
  the estimate always suffices.
\<close>

section \<open>Numbers in a buffer\<close>

definition big_endian :: "nat \<Rightarrow> nat list \<Rightarrow> nat" where
  "big_endian b ds = foldl (\<lambda>v d. v * b + d) 0 ds"

lemma foldl_big_endian: "foldl (\<lambda>v d. v * b + d) a ds = a * b ^ length ds + big_endian b ds"
proof (induction ds arbitrary: a)
  case (Cons d ds)
  show ?case
    using Cons [of "a * b + d"] Cons [of d] by (simp add: big_endian_def algebra_simps)
qed (simp add: big_endian_def)

lemma big_endian_Nil [simp]: "big_endian b [] = 0"
  by (simp add: big_endian_def)

lemma big_endian_Cons: "big_endian b (d # ds) = d * b ^ length ds + big_endian b ds"
  using foldl_big_endian [of b d ds] by (simp add: big_endian_def)

lemma big_endian_append: "big_endian b (xs @ ys) = big_endian b xs * b ^ length ys + big_endian b ys"
  using foldl_big_endian [of b "big_endian b xs" ys] by (simp add: big_endian_def)

lemma big_endian_snoc: "big_endian b (xs @ [d]) = big_endian b xs * b + d"
  by (simp add: big_endian_append big_endian_Cons)

lemma big_endian_zeros: "list_all (\<lambda>d. d = 0) ds \<Longrightarrow> big_endian b ds = 0"
  by (induction ds) (simp_all add: big_endian_Cons)

lemma big_endian_less: "list_all (\<lambda>d. d < b) ds \<Longrightarrow> big_endian b ds < b ^ length ds"
proof (induction ds)
  case (Cons d ds)
  then have "d * b ^ length ds + big_endian b ds < Suc d * b ^ length ds" by simp
  also have "\<dots> \<le> b * b ^ length ds" using Cons.prems by (intro mult_right_mono) simp_all
  finally show ?case by (simp add: big_endian_Cons)
qed simp

lemma big_endian_strip: "big_endian b (dropWhile (\<lambda>d. d = 0) ds) = big_endian b ds"
  by (induction ds) (simp_all add: big_endian_Cons)

section \<open>The loops\<close>

text \<open>
  One pass of the inner loop at position \<open>k\<close>: it multiplies the number in the first \<open>k\<close> digits by 256
  and adds the carry, provided the result has room in \<open>k\<close> digits and the digits at \<open>high\<close> and before
  are zero; it stops at a position before which everything is zero.
\<close>

lemma b58_inner_ok:
  assumes "k \<le> length buf" and "- 1 \<le> high" and "\<forall>i. int i \<le> high \<and> i < k \<longrightarrow> buf ! i = 0"
    and "list_all (\<lambda>d. d < 58) buf" and "256 * big_endian 58 (take k buf) + carry < 58 ^ k"
  shows "\<exists>j buf'. b58_inner k high carry buf = Some (j, buf') \<and> length buf' = length buf \<and> list_all (\<lambda>d. d < 58) buf' \<and>
    drop k buf' = drop k buf \<and> big_endian 58 (take k buf') = 256 * big_endian 58 (take k buf) + carry \<and> - 1 \<le> j \<and>
    (\<forall>i. int i \<le> j \<longrightarrow> i < k \<and> buf' ! i = 0)"
  using assms
proof (induction k arbitrary: carry buf)
  case 0
  then have "carry = 0" by simp
  with 0 show ?case by (simp add: b58_inner.simps [of 0])
next
  case (Suc k)
  let ?v = "big_endian 58 (take k buf)" and ?d = "buf ! k"
  have tk: "take (Suc k) buf = take k buf @ [?d]" using Suc.prems(1) by (simp add: take_Suc_conv_app_nth)
  have val: "big_endian 58 (take (Suc k) buf) = ?v * 58 + ?d" by (simp add: tk big_endian_snoc)
  show ?case
  proof (cases "int (Suc k) - 1 > high \<or> carry \<noteq> 0")
    case True
    let ?c = "carry + 256 * ?d"
    let ?buf = "buf[k := ?c mod 58]"
    have step: "b58_inner (Suc k) high carry buf = b58_inner k high (?c div 58) ?buf"
      using True by (subst b58_inner.simps) (simp add: Let_def)
    have same: "take k ?buf = take k buf" by simp
    have sum: "256 * big_endian 58 (take (Suc k) buf) + carry = (256 * ?v + ?c div 58) * 58 + ?c mod 58"
      by (simp add: val algebra_simps)
    have "(256 * ?v + ?c div 58) * 58 \<le> 256 * big_endian 58 (take (Suc k) buf) + carry" using sum by simp
    also have "\<dots> < 58 * 58 ^ k" using Suc.prems(5) by simp
    finally have room: "256 * big_endian 58 (take k ?buf) + ?c div 58 < 58 ^ k" by (simp add: same)
    have "k \<le> length ?buf" "\<forall>i. int i \<le> high \<and> i < k \<longrightarrow> ?buf ! i = 0" "list_all (\<lambda>d. d < 58) ?buf"
      using Suc.prems(1,3,4) by (auto simp: list_all_length nth_list_update)
    from Suc.IH [OF this(1) Suc.prems(2) this(2,3) room] obtain j buf' where
      r: "b58_inner k high (?c div 58) ?buf = Some (j, buf')" "length buf' = length buf" "list_all (\<lambda>d. d < 58) buf'"
        "drop k buf' = drop k ?buf" "big_endian 58 (take k buf') = 256 * ?v + ?c div 58" "- 1 \<le> j"
        "\<forall>i. int i \<le> j \<longrightarrow> i < k \<and> buf' ! i = 0" by auto
    have k: "k < length buf" using Suc.prems(1) by simp
    have d: "drop k ?buf = (?c mod 58) # drop (Suc k) buf" using k by (simp add: Cons_nth_drop_Suc [symmetric])
    then have kd: "buf' ! k = ?c mod 58" "drop (Suc k) buf' = drop (Suc k) buf"
      using r(2,4) k by (metis hd_drop_conv_nth list.sel(1), metis drop_Suc list.sel(3) tl_drop)
    have "take (Suc k) buf' = take k buf' @ [?c mod 58]" using k r(2) kd(1) by (simp add: take_Suc_conv_app_nth)
    then have "big_endian 58 (take (Suc k) buf') = 256 * big_endian 58 (take (Suc k) buf) + carry"
      using r(5) sum by (simp add: big_endian_snoc)
    with step r kd(2) show ?thesis by (auto intro: less_SucI)
  next
    case False
    then have stop: "b58_inner (Suc k) high carry buf = Some (int k, buf)" "carry = 0" "int k \<le> high"
      by (subst b58_inner.simps, simp_all)
    have zero: "buf ! i = 0" if "i < Suc k" for i using that stop(3) Suc.prems(3) by auto
    then have "list_all (\<lambda>d. d = 0) (take (Suc k) buf)" using Suc.prems(1) by (auto simp: list_all_length)
    then have "big_endian 58 (take (Suc k) buf) = 0" by (rule big_endian_zeros)
    with stop Suc.prems(4) zero show ?thesis by auto
  qed
qed

lemma b58_outer_ok:
  assumes "length buf = sz" and "- 1 \<le> high" and "\<forall>i. int i \<le> high \<and> i < sz \<longrightarrow> buf ! i = 0"
    and "list_all (\<lambda>d. d < 58) buf" and "big_endian 58 buf * 256 ^ length cs + big_endian 256 (map byte cs) < 58 ^ sz"
  shows "\<exists>buf'. b58_outer sz cs high buf = Some buf' \<and> length buf' = sz \<and> list_all (\<lambda>d. d < 58) buf' \<and>
    big_endian 58 buf' = big_endian 58 buf * 256 ^ length cs + big_endian 256 (map byte cs)"
  using assms
proof (induction cs arbitrary: high buf)
  case (Cons c cs)
  let ?n = "256 * big_endian 58 buf + byte c"
  have sum: "big_endian 58 buf * 256 ^ length (c # cs) + big_endian 256 (map byte (c # cs)) =
      ?n * 256 ^ length cs + big_endian 256 (map byte cs)"
    by (simp add: big_endian_Cons algebra_simps)
  have "?n \<le> ?n * 256 ^ length cs + big_endian 256 (map byte cs)"
    by (rule trans_le_add1) (simp add: mult_le_mono2 [of 1, simplified])
  also have "\<dots> < 58 ^ sz" using Cons.prems(5) unfolding sum .
  finally have "?n < 58 ^ sz" .
  with b58_inner_ok [of sz buf high "byte c"] Cons.prems obtain j buf' where
    i: "b58_inner sz high (byte c) buf = Some (j, buf')" "length buf' = sz" "list_all (\<lambda>d. d < 58) buf'"
      "big_endian 58 buf' = ?n" "- 1 \<le> j" "\<forall>i. int i \<le> j \<longrightarrow> i < sz \<and> buf' ! i = 0" by auto
  from Cons.IH [of buf' j] i sum Cons.prems(5) show ?case by simp
qed simp

text \<open>The size estimate: 256 to the 100 is at most 58 to the 138.\<close>

lemma b58_room: "(256 :: nat) ^ n < 58 ^ (n * 138 div 100 + 1)"
proof -
  let ?m = "n * 138 div 100 + 1"
  have "(256 :: nat) ^ 100 \<le> 58 ^ 138" by simp
  then have "(256 ^ 100) ^ n \<le> (58 ^ 138 :: nat) ^ n" by (rule power_mono) simp
  then have "(256 ^ n) ^ 100 \<le> (58 :: nat) ^ (n * 138)" by (simp only: power_mult [symmetric] mult.commute)
  also have "\<dots> < 58 ^ (?m * 100)" by (rule power_strict_increasing) simp_all
  finally have "((256 :: nat) ^ n) ^ 100 < (58 ^ ?m) ^ 100" by (simp only: power_mult)
  then show ?thesis by (rule power_less_imp_less_base) simp
qed

lemma base58_digits:
  "\<exists>ds. base58btc input = Some (replicate (length (takeWhile (\<lambda>c. c = CHR 0x00) input)) (CHR ''1'') @ map (\<lambda>d. b58alphabet ! d) ds) \<and>
     list_all (\<lambda>d. d < 58) ds \<and> (ds = [] \<or> hd ds \<noteq> 0) \<and> big_endian 58 ds = big_endian 256 (map byte input)"
proof -
  let ?zeros = "length (takeWhile (\<lambda>c. c = CHR 0x00) input)"
  let ?rest = "drop ?zeros input"
  define sz where "sz = (length input - ?zeros) * 138 div 100 + 1"
  have z0: "big_endian 58 (replicate sz 0) = 0" by (rule big_endian_zeros) (simp add: list_all_iff)
  have "list_all (\<lambda>d. d < 256) (map byte ?rest)" by (simp add: list_all_iff)
  then have "big_endian 256 (map byte ?rest) < 256 ^ (length input - ?zeros)"
    using big_endian_less [of 256 "map byte ?rest"] by simp
  also have "\<dots> < 58 ^ sz" unfolding sz_def by (rule b58_room)
  finally have room: "big_endian 58 (replicate sz 0) * 256 ^ length ?rest + big_endian 256 (map byte ?rest) < 58 ^ sz"
    by (simp add: z0)
  have "list_all (\<lambda>d. d < 58) (replicate sz (0 :: nat))" by (simp add: list_all_iff)
  with b58_outer_ok [of "replicate sz 0" sz "int sz - 1" ?rest] room obtain buf where
    b: "b58_outer sz ?rest (int sz - 1) (replicate sz 0) = Some buf" "list_all (\<lambda>d. d < 58) buf"
      "big_endian 58 buf = big_endian 256 (map byte ?rest)"
    by (auto simp: z0)
  have split: "input = replicate ?zeros (CHR 0x00) @ ?rest"
  proof -
    have "takeWhile (\<lambda>c. c = CHR 0x00) input = replicate ?zeros (CHR 0x00)"
      by (rule replicate_length_same [symmetric]) (auto dest: set_takeWhileD)
    then show ?thesis by (metis append_take_drop_id takeWhile_eq_take)
  qed
  have lead: "big_endian 256 (map byte (replicate ?zeros (CHR 0x00))) = 0"
    by (rule big_endian_zeros) (simp add: list_all_iff)
  have "big_endian 256 (map byte (replicate ?zeros (CHR 0x00) @ ?rest)) = big_endian 256 (map byte ?rest)"
    unfolding map_append big_endian_append lead by simp
  with split have "big_endian 256 (map byte input) = big_endian 256 (map byte ?rest)" by simp
  moreover have "list_all (\<lambda>d. d < 58) (dropWhile (\<lambda>d. d = 0) buf)"
    using b(2) by (auto simp: list_all_iff dest: set_dropWhileD)
  moreover have "dropWhile (\<lambda>d. d = 0) buf = [] \<or> hd (dropWhile (\<lambda>d. d = 0) buf) \<noteq> 0"
    using hd_dropWhile [of "\<lambda>d. d = 0" buf] by blast
  ultimately show ?thesis
    using b unfolding sz_def
    by (intro exI [of _ "dropWhile (\<lambda>d. d = 0) buf"]) (simp add: base58btc_def Let_def big_endian_strip)
qed

section \<open>The property\<close>

text \<open>Reading the text back: leading ones are zero bytes, the rest is a number in base 58.\<close>

definition digit58 :: "char \<Rightarrow> nat" where
  "digit58 c = length (takeWhile (\<lambda>x. x \<noteq> c) b58alphabet)"

lemma digit58_nth: "d < 58 \<Longrightarrow> digit58 (b58alphabet ! d) = d"
proof -
  have "list_all (\<lambda>d. digit58 (b58alphabet ! d) = d) [0..<58]" by code_simp
  then show "d < 58 \<Longrightarrow> digit58 (b58alphabet ! d) = d" by (simp add: list_all_iff del: upt_rec_numeral)
qed

text \<open>
  C17: the base-58 conversion of the did:key identifier terminates without running off its buffer,
  on every input, and loses nothing.  Its text is one character \<open>1\<close> per leading zero byte,
  followed by digits of which the first is not zero and which, read in base 58, are the number
  the input denotes in base 256; so two inputs of the same length never have the same text.
\<close>
theorem base58_total:
  "\<exists>out. base58btc input = Some out \<and>
     (let zeros = length (takeWhile (\<lambda>c. c = CHR 0x00) input) in
      takeWhile (\<lambda>c. c = CHR ''1'') out = replicate zeros (CHR ''1'') \<and>
      list_all (\<lambda>c. c \<in> set b58alphabet) out \<and>
      big_endian 58 (map digit58 (drop zeros out)) = big_endian 256 (map byte input))"
proof -
  from base58_digits [of input] obtain ds where
    ds: "base58btc input = Some (replicate (length (takeWhile (\<lambda>c. c = CHR 0x00) input)) (CHR ''1'') @ map (\<lambda>d. b58alphabet ! d) ds)"
      "list_all (\<lambda>d. d < 58) ds" "ds = [] \<or> hd ds \<noteq> 0" "big_endian 58 ds = big_endian 256 (map byte input)" by blast
  have len: "length b58alphabet = 58" by (simp add: b58alphabet_def)
  have one: "b58alphabet ! 0 = CHR ''1''" by (simp add: b58alphabet_def)
  have readback: "map digit58 (map (\<lambda>d. b58alphabet ! d) ds) = ds"
    using ds(2) digit58_nth by (simp add: list_all_iff map_idI)
  have nonzero: "hd (map (\<lambda>d. b58alphabet ! d) ds) \<noteq> CHR ''1''" if "ds \<noteq> []"
  proof
    assume "hd (map (\<lambda>d. b58alphabet ! d) ds) = CHR ''1''"
    with that one have "b58alphabet ! hd ds = b58alphabet ! 0" by (simp add: hd_map)
    moreover have "hd ds < 58" using that ds(2) by (cases ds) simp_all
    ultimately have "hd ds = 0" using digit58_nth [of "hd ds"] digit58_nth [of 0] by simp
    with ds(3) that show False by blast
  qed
  have "CHR ''1'' \<in> set b58alphabet" by (simp add: b58alphabet_def)
  moreover have "list_all (\<lambda>c. c \<in> set b58alphabet) (map (\<lambda>d. b58alphabet ! d) ds)"
    using ds(2) len by (auto simp: list_all_iff)
  moreover have "takeWhile (\<lambda>c. c = CHR ''1'') (map (\<lambda>d. b58alphabet ! d) ds) = []"
    using nonzero by (cases ds) auto
  then have "takeWhile (\<lambda>c. c = CHR ''1'') (replicate n (CHR ''1'') @ map (\<lambda>d. b58alphabet ! d) ds) = replicate n (CHR ''1'')" for n
    by (induction n) simp_all
  ultimately show ?thesis using ds(1,4) readback by (auto simp: Let_def list_all_iff)
qed

end
