(* ===== verification/Channels.thy ===== *)
theory Channels
  imports Agent GateServe
begin

text \<open>
  What surrounds the agent's service: the dialer guard of paid fetches (\<open>agent/payclient/ssrf.go\<close>), the
  environment configuration (\<open>agent/config.go\<close>) and approvals over Bison Relay
  (\<open>agent/approve/bisonrelay/bisonrelay.go\<close>).  Name resolution, the connection itself and the Bison
  Relay client are parameters.
\<close>

section \<open>The dialer guard\<close>

text \<open>\<open>net.SplitHostPort\<close>.\<close>

definition net_SplitHostPort :: "string \<Rightarrow> (string \<times> string) option" where
  "net_SplitHostPort hostport =
     (case cut_last (CHR '':'') hostport of
        None \<Rightarrow> None
      | Some (before, port) \<Rightarrow>
          if HasPrefix hostport ''['' then
            (let host = takeWhile (\<lambda>c. c \<noteq> CHR '']'') (tl hostport) in
             if CHR '']'' \<notin> set hostport \<or> before \<noteq> ''['' @ host @ '']'' then None
             else if CHR ''['' \<in> set host \<or> CHR ''['' \<in> set port \<or> CHR '']'' \<in> set port then None
             else Some (host, port))
          else if CHR '':'' \<in> set before \<or> CHR ''['' \<in> set hostport \<or> CHR '']'' \<in> set hostport then None
          else Some (before, port))"

definition isInternalIP :: "nat list \<Rightarrow> bool" where
  "isInternalIP ip \<longleftrightarrow> IsLoopback ip \<or> IsPrivate ip \<or> IsLinkLocalUnicast ip \<or> IsLinkLocalMulticast ip \<or> IsUnspecified ip"

datatype dial_error =
    BadAddress | OwnAddress | LookupFailed string | NoAddress | InternalAddress "nat list" | ConnectFailed string

text \<open>The loop over the resolved addresses: the first one, unless any is refused.\<close>

fun pick_target :: "bool \<Rightarrow> nat list list \<Rightarrow> nat list option \<Rightarrow> (dial_error, nat list option) result" where
  "pick_target allowed [] target = Inr target"
| "pick_target allowed (ip # ips) target =
     (if \<not> allowed \<and> isInternalIP ip then Inl (InternalAddress ip)
      else pick_target allowed ips (case target of None \<Rightarrow> Some ip | Some t \<Rightarrow> Some t))"

definition allow_set :: "string list \<Rightarrow> string set" where
  "allow_set allow = set (filter (\<lambda>a. a \<noteq> []) (map TrimSpace allow))"

text \<open>\<open>connect ip port\<close> is the dial of the address it is given; \<open>lookup\<close> the resolver.\<close>

definition guarded_dial ::
  "(string \<Rightarrow> 'n \<Rightarrow> (string, nat list list) result \<times> 'n) \<Rightarrow> (nat list \<Rightarrow> string \<Rightarrow> 'n \<Rightarrow> (string, 'conn) result \<times> 'n) \<Rightarrow>
   string \<Rightarrow> string list \<Rightarrow> string \<Rightarrow> 'n \<Rightarrow> (dial_error, 'conn) result \<times> 'n" where
  "guarded_dial lookup connect self allow addr n =
     (case net_SplitHostPort addr of
        None \<Rightarrow> (Inl BadAddress, n)
      | Some (host, port) \<Rightarrow>
          if self \<noteq> [] \<and> addr = self then (Inl OwnAddress, n)
          else (case lookup host n of
                  (Inl e, n) \<Rightarrow> (Inl (LookupFailed e), n)
                | (Inr ips, n) \<Rightarrow>
                    if ips = [] then (Inl NoAddress, n)
                    else (case pick_target (addr \<in> allow_set allow) ips None of
                            Inl e \<Rightarrow> (Inl e, n)
                          | Inr None \<Rightarrow> (Inl NoAddress, n)
                          | Inr (Some ip) \<Rightarrow>
                              (case connect ip port n of
                                 (Inl e, n) \<Rightarrow> (Inl (ConnectFailed e), n) | (Inr c, n) \<Rightarrow> (Inr c, n)))))"

section \<open>Configuration from the environment\<close>

record agent_LNConfig =
  al_RPC :: string
  al_TLSCert :: string
  al_Macaroon :: string

record WalletConfig =
  wc_RPC :: string
  wc_TLSCert :: string
  wc_ClientCert :: string
  wc_ClientKey :: string
  wc_Account :: string
  wc_PassphraseFile :: string

record BRConfig =
  bc_RPC :: string
  bc_ServerCert :: string
  bc_ClientCert :: string
  bc_ClientKey :: string
  bc_User :: string
  bc_Pass :: string
  bc_Owner :: string

record agent_Config =
  ac_Network :: string
  ac_MCP :: string
  ac_HTTPAddr :: string
  ac_HTTPToken :: string
  ac_FetchAllow :: "string list"
  ac_DB :: string
  ac_Policy :: string
  ac_LN :: agent_LNConfig
  ac_Wallet :: WalletConfig
  ac_BR :: BRConfig

definition splitList :: "string \<Rightarrow> string list" where
  "splitList s = filter (\<lambda>p. p \<noteq> []) (map TrimSpace (Split s (CHR '','')))"

definition FromEnv :: "(string \<Rightarrow> string) \<Rightarrow> agent_Config" where
  "FromEnv getenv =
     (let get = (\<lambda>k d. if getenv k \<noteq> [] then getenv k else d) in
      \<lparr>ac_Network = get ''DCR402_AGENT_NETWORK'' ''mainnet'', ac_MCP = get ''DCR402_AGENT_MCP'' ''http'',
       ac_HTTPAddr = get ''DCR402_AGENT_HTTP_ADDR'' ''127.0.0.1:9377'', ac_HTTPToken = getenv ''DCR402_AGENT_HTTP_TOKEN'',
       ac_FetchAllow = splitList (getenv ''DCR402_AGENT_FETCH_ALLOW''), ac_DB = get ''DCR402_AGENT_DB'' ''dcr402-agent.db'',
       ac_Policy = get ''DCR402_AGENT_POLICY'' ''policy.yaml'',
       ac_LN = \<lparr>al_RPC = getenv ''DCRLND_RPC'', al_TLSCert = getenv ''DCRLND_TLS_CERT'', al_Macaroon = getenv ''DCRLND_MACAROON''\<rparr>,
       ac_Wallet = \<lparr>wc_RPC = getenv ''DCRWALLET_RPC'', wc_TLSCert = getenv ''DCRWALLET_TLS_CERT'',
         wc_ClientCert = getenv ''DCRWALLET_CLIENT_CERT'', wc_ClientKey = getenv ''DCRWALLET_CLIENT_KEY'',
         wc_Account = get ''DCRWALLET_ACCOUNT'' ''agent'', wc_PassphraseFile = getenv ''DCRWALLET_PASSPHRASE_FILE''\<rparr>,
       ac_BR = \<lparr>bc_RPC = getenv ''BR_CLIENTRPC'', bc_ServerCert = getenv ''BR_SERVER_CERT'', bc_ClientCert = getenv ''BR_CLIENT_CERT'',
         bc_ClientKey = getenv ''BR_CLIENT_KEY'', bc_User = getenv ''BR_RPCUSER'', bc_Pass = getenv ''BR_RPCPASS'',
         bc_Owner = getenv ''BR_OWNER''\<rparr>\<rparr>)"

definition agent_NetworkFor :: "agent_Config \<Rightarrow> Network option" where
  "agent_NetworkFor c =
     (if ac_Network c = ''mainnet'' then Some Mainnet else if ac_Network c = ''testnet3'' then Some Testnet3
      else if ac_Network c = ''simnet'' then Some Simnet else None)"

datatype agent_config_error =
    AcUnknownNetwork | AcMCPMode | AcNoHTTPAddr | AcNoLN | AcNoWalletTLS | AcNoAccount | AcNoBRTLS | AcNoOwner | AcNoPaths

definition agent_Validate :: "agent_Config \<Rightarrow> agent_config_error option" where
  "agent_Validate c =
     (if agent_NetworkFor c = None then Some AcUnknownNetwork
      else if ac_MCP c \<noteq> ''stdio'' \<and> ac_MCP c \<noteq> ''http'' \<and> ac_MCP c \<noteq> ''both'' then Some AcMCPMode
      else if ac_MCP c \<noteq> ''stdio'' \<and> ac_HTTPAddr c = [] then Some AcNoHTTPAddr
      else if al_RPC (ac_LN c) = [] \<or> al_TLSCert (ac_LN c) = [] \<or> al_Macaroon (ac_LN c) = [] then Some AcNoLN
      else if wc_RPC (ac_Wallet c) \<noteq> [] \<and>
        (wc_TLSCert (ac_Wallet c) = [] \<or> wc_ClientCert (ac_Wallet c) = [] \<or> wc_ClientKey (ac_Wallet c) = []) then Some AcNoWalletTLS
      else if wc_RPC (ac_Wallet c) \<noteq> [] \<and> wc_Account (ac_Wallet c) = [] then Some AcNoAccount
      else if bc_RPC (ac_BR c) \<noteq> [] \<and>
        (bc_ServerCert (ac_BR c) = [] \<or> bc_ClientCert (ac_BR c) = [] \<or> bc_ClientKey (ac_BR c) = []) then Some AcNoBRTLS
      else if bc_RPC (ac_BR c) \<noteq> [] \<and> bc_Owner (ac_BR c) = [] then Some AcNoOwner
      else if ac_DB c = [] \<or> ac_Policy c = [] then Some AcNoPaths
      else None)"

section \<open>Approvals over Bison Relay\<close>

definition ackStateKey :: string where "ackStateKey = ''br_ack''"

record BRApprover =
  ba_Owner :: string
  ba_ownerUID :: string
  ba_Freezer :: bool

datatype br_error = BrMissing | BrUnwired | BrClient | BrOwnerLength | BrOwnerHex

text \<open>
  \<open>New\<close>: \<open>wired\<close> tells whether registry and store were given, \<open>client\<close> whether the WebSocket client
  could be built; the client itself is a parameter of the operations below.
\<close>

definition br_New :: "string \<Rightarrow> string \<Rightarrow> bool \<Rightarrow> bool \<Rightarrow> bool \<Rightarrow> (br_error, BRApprover) result" where
  "br_New rpc owner wired client freezer =
     (if rpc = [] \<or> owner = [] then Inl BrMissing
      else if \<not> wired then Inl BrUnwired
      else if \<not> client then Inl BrClient
      else if length (TrimSpace owner) \<noteq> 64 then Inl BrOwnerLength
      else if hex_decode (TrimSpace owner) = None then Inl BrOwnerHex
      else Inr \<lparr>ba_Owner = owner, ba_ownerUID = ToLower (TrimSpace owner), ba_Freezer = freezer\<rparr>)"

text \<open>\<open>send\<close> is the private-message call; the approver for the service's list of channels.\<close>

definition br_approver :: "BRApprover \<Rightarrow> (string \<Rightarrow> string \<Rightarrow> 'h \<Rightarrow> bool \<times> 'h) \<Rightarrow> 'h Approver" where
  "br_approver br send = \<lparr>ar_Name = ''bisonrelay'', ar_Notify = \<lambda>q h. send (ba_Owner br) (aq_Summary q) h\<rparr>"

record ReceivedPM =
  pm_Uid :: bytes
  pm_Msg :: "string option"
  pm_SequenceId :: nat

definition isOwner :: "BRApprover \<Rightarrow> ReceivedPM \<Rightarrow> bool" where
  "isOwner br pm \<longleftrightarrow> EqualFold (hex_encode (pm_Uid pm)) (ba_ownerUID br)"

definition parseVerdict :: "string \<Rightarrow> bool option" where
  "parseVerdict s =
     (if s \<in> {''yes'', ''y'', ''approve'', ''approved'', ''ok''} then Some True
      else if s \<in> {''no'', ''n'', ''deny'', ''denied''} then Some False else None)"

definition freeze_word :: "string \<Rightarrow> bool" where
  "freeze_word f \<longleftrightarrow> f = ''freeze'' \<or> f = ''block''"

definition br_freeze :: "BRApprover \<Rightarrow> ('s, 'n, 'h) Service \<Rightarrow> time \<Rightarrow> ('s, 'n, 'h, agent_store_error, unit) agent_act" where
  "br_freeze br sv now w =
     (if ba_Freezer br then Freeze sv now (ba_Owner br) ''owner freeze over Bison Relay'' w else (Inr (), w))"

fun resolveIDs ::
  "('s, 'n, 'h) Service \<Rightarrow> time \<Rightarrow> string list \<Rightarrow> bool \<Rightarrow> string \<Rightarrow> ('s, 'n, 'h, agent_store_error, unit) agent_act" where
  "resolveIDs sv now [] verdict responder w = (Inr (), w)"
| "resolveIDs sv now (f # fs) verdict responder w =
     (if f = [] \<or> freeze_word f then resolveIDs sv now fs verdict responder w
      else (case registry_Resolve sv now f verdict responder w of
              (Inl e, w) \<Rightarrow> (Inl e, w)
            | (Inr won, w) \<Rightarrow> if won then (Inr (), w) else resolveIDs sv now fs verdict responder w))"

definition handleReply ::
  "BRApprover \<Rightarrow> ('s, 'n, 'h) Service \<Rightarrow> time \<Rightarrow> string \<Rightarrow> ('s, 'n, 'h, agent_store_error, unit) agent_act" where
  "handleReply br sv now text w =
     (case Fields (ToLower (TrimSpace text)) of
        [] \<Rightarrow> (Inr (), w)
      | f # fs \<Rightarrow>
          if freeze_word f then
            (case br_freeze br sv now w of
               (Inl e, w) \<Rightarrow> (Inl e, w)
             | (Inr _, w) \<Rightarrow> resolveIDs sv now fs False (ba_Owner br @ '' (freeze)'') w)
          else if f = ''unfreeze'' \<or> f = ''resume'' \<or> f = ''unblock'' then (if ba_Freezer br then Unfreeze sv w else (Inr (), w))
          else if fs = [] then (Inr (), w)
          else (case parseVerdict f of
                  None \<Rightarrow> (Inr (), w)
                | Some verdict \<Rightarrow>
                    if list_ex freeze_word fs then
                      (case br_freeze br sv now w of
                         (Inl e, w) \<Rightarrow> (Inl e, w)
                       | (Inr _, w) \<Rightarrow> resolveIDs sv now fs False (ba_Owner br @ '' (freeze)'') w)
                    else resolveIDs sv now fs verdict (ba_Owner br) w))"

text \<open>\<open>strconv.ParseUint\<close>, and the persisted acknowledgement.\<close>

definition ParseUint :: "string \<Rightarrow> nat option" where
  "ParseUint s = (if s = [] then None else (case digits_val 0 s of None \<Rightarrow> None | Some n \<Rightarrow> if n < 2 ^ 64 then Some n else None))"

definition loadAck :: "('s, 'n, 'h) Service \<Rightarrow> nat \<Rightarrow> ('s, 'n, 'h) agent_world \<Rightarrow> nat \<times> ('s, 'n, 'h) agent_world" where
  "loadAck sv ack w =
     (case on_store (as_GetState (sv_Store sv) ackStateKey) w of
        (Inl e, w) \<Rightarrow> (ack, w)
      | (Inr v, w) \<Rightarrow> (opt_default ack (ParseUint v), w))"

text \<open>
  One private message of the stream with the time it is handled at; \<open>acked\<close> tells whether the
  acknowledgement call succeeds.  The answer is the new pointer and whether the loop goes on.
\<close>

definition consume_pm ::
  "BRApprover \<Rightarrow> ('s, 'n, 'h) Service \<Rightarrow> time \<times> ReceivedPM \<times> bool \<Rightarrow> nat \<Rightarrow> ('s, 'n, 'h) agent_world \<Rightarrow>
   (nat \<times> bool) \<times> ('s, 'n, 'h) agent_world" where
  "consume_pm br sv x ack w =
     (case x of (now, pm, acked) \<Rightarrow>
        (case (if isOwner br pm then (case pm_Msg pm of None \<Rightarrow> (Inr (), w) | Some text \<Rightarrow> handleReply br sv now text w) else (Inr (), w)) of
           (Inl e, w) \<Rightarrow> ((ack, False), w)
         | (Inr _, w) \<Rightarrow>
             if \<not> acked then ((ack, False), w)
             else ((pm_SequenceId pm, True), snd (on_store (as_SetState (sv_Store sv) ackStateKey (show_nat (pm_SequenceId pm))) w))))"

fun br_consume ::
  "BRApprover \<Rightarrow> ('s, 'n, 'h) Service \<Rightarrow> (time \<times> ReceivedPM \<times> bool) list \<Rightarrow> nat \<Rightarrow> ('s, 'n, 'h) agent_world \<Rightarrow> nat \<times> ('s, 'n, 'h) agent_world" where
  "br_consume br sv [] ack w = (ack, w)"
| "br_consume br sv (x # xs) ack w =
     (case consume_pm br sv x ack w of ((ack, go), w) \<Rightarrow> if go then br_consume br sv xs ack w else (ack, w))"

text \<open>
  \<open>Run\<close>: the pointer is loaded once and every broken stream is resumed from it; \<open>deliver\<close> is
  what the relay sends from a pointer on, in the n-th connection.
\<close>

fun br_rounds ::
  "BRApprover \<Rightarrow> ('s, 'n, 'h) Service \<Rightarrow> (nat \<Rightarrow> nat \<Rightarrow> (time \<times> ReceivedPM \<times> bool) list) \<Rightarrow> nat \<Rightarrow> nat \<Rightarrow> ('s, 'n, 'h) agent_world \<Rightarrow>
   nat \<times> ('s, 'n, 'h) agent_world" where
  "br_rounds br sv deliver 0 ack w = (ack, w)"
| "br_rounds br sv deliver (Suc n) ack w =
     (case br_rounds br sv deliver n ack w of (ack, w) \<Rightarrow> br_consume br sv (deliver n ack) ack w)"

definition br_Run ::
  "BRApprover \<Rightarrow> ('s, 'n, 'h) Service \<Rightarrow> (nat \<Rightarrow> nat \<Rightarrow> (time \<times> ReceivedPM \<times> bool) list) \<Rightarrow> nat \<Rightarrow> ('s, 'n, 'h) agent_world \<Rightarrow>
   nat \<times> ('s, 'n, 'h) agent_world" where
  "br_Run br sv deliver n w = (case loadAck sv 0 w of (ack, w) \<Rightarrow> br_rounds br sv deliver n ack w)"

end
