(* ===== verification/AgentApi.thy ===== *)
theory AgentApi
  imports Agent GateServe
begin

text \<open>
  The two interfaces of the agent: the tools of the MCP server, which the driving agent calls
  (\<open>agent/mcpserver/mcpserver.go\<close>), and the dashboard of the owner (\<open>agent/web/web.go\<close>).  The MCP SDK
  hands a tool its decoded input, so a call is a value of \<open>tool_call\<close>; a result, a structured error
  body and an answer of the API are kept as values, their JSON text is not modelled, and an error
  that has no structured body is represented by itself in place of its message.
\<close>

section \<open>The MCP tools\<close>

datatype tool_call =
    wallet_status
  | estimate string string
  | pay_ln_invoice string string int
  | pay_dcr_address string int string
  | fetch_paid string string string string
  | get_receive_address
  | create_invoice int string
  | payments_list int int
  | receipt_get int
  | approval_status string

text \<open>The tools that are registered with \<open>writeHint\<close>.\<close>

fun read_only :: "tool_call \<Rightarrow> bool" where
  "read_only (pay_ln_invoice invoice memo maxAmount) = False"
| "read_only (pay_dcr_address address amount memo) = False"
| "read_only (fetch_paid url meth body memo) = False"
| "read_only c = True"

record fetch_reply =
  fy_Status :: int
  fy_Rail :: string
  fy_PaidAtoms :: int
  fy_Preimage :: string
  fy_Body :: bytes
  fy_TokenCached :: bool

datatype tool_value =
    VStatus Status | VEstimate Estimate | VPay PayResult | VFetch fetch_reply | VAddress string | VInvoice string string
  | VPayments "Payment list" | VReceipt Payment | VApproval Approval

datatype tool_error = NoTarget | ServiceError service_error

datatype error_payload =
    PendingBody string string
  | PolicyBody string "RuleResult list" int int
  | FrozenBody string
  | FailedBody tool_error

definition policy_body :: "Decision \<Rightarrow> error_payload" where
  "policy_body d = PolicyBody (de_Reason d) (de_Trace d) (de_RemainingDayAtoms d) (de_RemainingWeekAtoms d)"

definition errorPayload :: "tool_error \<Rightarrow> error_payload" where
  "errorPayload e =
     (case e of
        ServiceError (Pending i expires) \<Rightarrow> PendingBody i (rfc3339 expires)
      | ServiceError (PolicyDenied d) \<Rightarrow> policy_body d
      | ServiceError (FetchError (GateError (GateDenied d))) \<Rightarrow> policy_body d
      | ServiceError (Frozen st) \<Rightarrow> FrozenBody (fz_Reason st)
      | _ \<Rightarrow> FailedBody e)"

text \<open>\<open>result\<close>: an error becomes a tool result marked as an error.\<close>

definition tool_result :: "('e \<Rightarrow> tool_error) \<Rightarrow> ('a \<Rightarrow> tool_value) \<Rightarrow> ('e, 'a) result \<Rightarrow> (error_payload, tool_value) result" where
  "tool_result e v r = (case r of Inl x \<Rightarrow> Inl (errorPayload (e x)) | Inr x \<Rightarrow> Inr (v x))"

definition fetch_options :: "string \<Rightarrow> string \<Rightarrow> string \<Rightarrow> FetchOptions" where
  "fetch_options meth body memo =
     \<lparr>fo_Method = meth, fo_Body = body, fo_ContentType = (if body = [] then [] else ''application/json''), fo_Memo = memo,
      fo_MaxAmountAtoms = 0, fo_ForceLegacy = False\<rparr>"

definition json_fetch_reply :: "fetch_Result \<Rightarrow> fetch_reply" where
  "json_fetch_reply r = \<lparr>fy_Status = re_Status r, fy_Rail = re_Rail r, fy_PaidAtoms = re_PaidAtoms r, fy_Preimage = re_Preimage r,
     fy_Body = re_Body r, fy_TokenCached = re_TokenCached r\<rparr>"

text \<open>
  The handler of every tool, with the time of the call.  A fetch that has an error drops its result;
  without one the client has always a result.
\<close>

definition call_tool ::
  "('s, 'n, 'h) Service \<Rightarrow> string \<Rightarrow> time \<Rightarrow> tool_call \<Rightarrow> ('s, 'n, 'h, error_payload, tool_value) agent_act" where
  "call_tool sv network now c w =
     (case c of
        wallet_status \<Rightarrow> (case service_Status sv now network w of (st, w) \<Rightarrow> (Inr (VStatus st), w))
      | estimate invoice url \<Rightarrow>
          (let target = (if invoice = [] then url else invoice) in
           if target = [] then (Inl (errorPayload NoTarget), w)
           else (case service_Estimate sv now target w of
                   (r, w) \<Rightarrow> (tool_result (ServiceError \<circ> FetchError) VEstimate r, w)))
      | pay_ln_invoice invoice memo maxAmount \<Rightarrow>
          (case PayLNInvoice sv now invoice memo maxAmount w of (r, w) \<Rightarrow> (tool_result ServiceError VPay r, w))
      | pay_dcr_address address amount memo \<Rightarrow>
          (case PayDCRAddress sv now address amount memo w of (r, w) \<Rightarrow> (tool_result ServiceError VPay r, w))
      | fetch_paid url meth body memo \<Rightarrow>
          (case FetchPaid sv now None url (fetch_options meth body memo) w of
             ((res, Some e), w) \<Rightarrow> (Inl (errorPayload (ServiceError e)), w)
           | ((Some r, None), w) \<Rightarrow> (Inr (VFetch (json_fetch_reply r)), w)
           | ((None, None), w) \<Rightarrow> (Inl (errorPayload NoTarget), w))
      | get_receive_address \<Rightarrow> (case GetReceiveAddress sv w of (r, w) \<Rightarrow> (tool_result ServiceError VAddress r, w))
      | create_invoice amount memo \<Rightarrow>
          (case service_CreateInvoice sv amount memo w of
             (r, w) \<Rightarrow> (tool_result ServiceError (\<lambda>(invoice, hash). VInvoice invoice hash) r, w))
      | payments_list limit before \<Rightarrow>
          (case service_Payments sv limit before w of (r, w) \<Rightarrow> (tool_result (ServiceError \<circ> StoreError) VPayments r, w))
      | receipt_get i \<Rightarrow> (case service_Receipt sv i w of (r, w) \<Rightarrow> (tool_result (ServiceError \<circ> StoreError) VReceipt r, w))
      | approval_status i \<Rightarrow> (case registry_Get sv i w of (r, w) \<Rightarrow> (tool_result (ServiceError \<circ> StoreError) VApproval r, w)))"

section \<open>The dashboard\<close>

datatype web_body =
    WbText string
  | WbError string
  | WbStoreError agent_store_error
  | WbStatus Status
  | WbAttempts "Attempt list"
  | WbPayments "Payment list"
  | WbApprovals "Approval list"
  | WbResolved
  | WbFrozen bool
  | WbEvents
  | WbStatic

record WebOut =
  wo_Status :: int
  wo_Header :: "(string \<times> string) list"
  wo_Body :: web_body

record Web =
  wb_network :: string
  wb_token :: string

definition web_New :: "string \<Rightarrow> string \<Rightarrow> Web option" where
  "web_New network token = (if token = [] then None else Some \<lparr>wb_network = network, wb_token = token\<rparr>)"

definition csp_quoted :: "string \<Rightarrow> string" where "csp_quoted s = CHR 0x27 # s @ [CHR 0x27]"

definition csp_header :: string where
  "csp_header = ''default-src '' @ csp_quoted ''self'' @ ''; script-src '' @ csp_quoted ''self'' @ ''; style-src '' @ csp_quoted ''self'' @
     '' '' @ csp_quoted ''unsafe-inline'' @ ''; img-src '' @ csp_quoted ''self'' @ '' data:; connect-src '' @ csp_quoted ''self'' @
     ''; base-uri '' @ csp_quoted ''none'' @ ''; frame-ancestors '' @ csp_quoted ''none'' @ ''; form-action '' @ csp_quoted ''none''"

definition security_header_lines :: "(string \<times> string) list" where
  "security_header_lines =
     header_set ''Referrer-Policy'' ''no-referrer'' (header_set ''X-Content-Type-Options'' ''nosniff''
       (header_set ''Content-Security-Policy'' csp_header []))"

definition web_json :: "int \<Rightarrow> web_body \<Rightarrow> WebOut" where
  "web_json status body = \<lparr>wo_Status = status, wo_Header = [(''Content-Type'', ''application/json'')], wo_Body = body\<rparr>"

definition post_only :: WebOut where
  "post_only = \<lparr>wo_Status = 405, wo_Header = [(''Allow'', ''POST'')], wo_Body = WbText ''POST only''\<rparr>"

definition web_list :: "(agent_store_error, 'a) result \<Rightarrow> ('a \<Rightarrow> web_body) \<Rightarrow> WebOut" where
  "web_list r v = (case r of Inl e \<Rightarrow> web_json StatusInternalServerError (WbStoreError e) | Inr x \<Rightarrow> web_json StatusOK (v x))"

text \<open>\<open>hr_Form\<close> holds the query of the URL here.\<close>

definition authorized :: "Web \<Rightarrow> HttpRequest \<Rightarrow> bool" where
  "authorized s r \<longleftrightarrow> wb_token s \<noteq> [] \<and>
     (let h = header_get (hr_Header r) ''Authorization'';
          presented = (if HasPrefix h ''Bearer '' then TrimPrefix h ''Bearer '' else FormValue r ''token'') in
      presented = wb_token s)"

text \<open>
  The value of \<open>strconv.Atoi\<close> and of a 64-bit \<open>strconv.ParseInt\<close> with the error dropped: zero for a malformed
  number, the closest bound for one that is out of range, which is noticed before what follows it.
\<close>

fun scan_uint64 :: "nat \<Rightarrow> string \<Rightarrow> nat option" where
  "scan_uint64 n [] = Some n"
| "scan_uint64 n (c # cs) =
     (case digit_val c of
        None \<Rightarrow> None
      | Some d \<Rightarrow> if 10 * n + d \<ge> 2 ^ 64 then Some (2 ^ 64 - 1) else scan_uint64 (10 * n + d) cs)"

definition lenient_int :: "string \<Rightarrow> int" where
  "lenient_int s =
     (let (neg, ds) = strip_sign s in
      if ds = [] then 0
      else (case scan_uint64 0 ds of
              None \<Rightarrow> 0
            | Some n \<Rightarrow> if neg then max (- (2 ^ 63)) (- int n) else min (2 ^ 63 - 1) (int n)))"

definition limitParam :: "HttpRequest \<Rightarrow> int \<times> int" where
  "limitParam r = (lenient_int (FormValue r ''limit''), lenient_int (FormValue r ''before_id''))"

type_synonym ('s, 'n, 'h) web_handler =
  "HttpRequest \<Rightarrow> bytes \<Rightarrow> ('s, 'n, 'h) agent_world \<Rightarrow> WebOut \<times> ('s, 'n, 'h) agent_world"

definition handleStatus :: "('s, 'n, 'h) Service \<Rightarrow> Web \<Rightarrow> time \<Rightarrow> ('s, 'n, 'h) web_handler" where
  "handleStatus sv s now r body w = (case service_Status sv now (wb_network s) w of (st, w) \<Rightarrow> (web_json StatusOK (WbStatus st), w))"

definition handleAttempts :: "('s, 'n, 'h) Service \<Rightarrow> ('s, 'n, 'h) web_handler" where
  "handleAttempts sv r body w =
     (case limitParam r of (limit, before) \<Rightarrow> case service_Attempts sv limit before w of (q, w) \<Rightarrow> (web_list q WbAttempts, w))"

definition handlePayments :: "('s, 'n, 'h) Service \<Rightarrow> ('s, 'n, 'h) web_handler" where
  "handlePayments sv r body w =
     (case limitParam r of (limit, before) \<Rightarrow> case service_Payments sv limit before w of (q, w) \<Rightarrow> (web_list q WbPayments, w))"

definition handleApprovals :: "('s, 'n, 'h) Service \<Rightarrow> time \<Rightarrow> ('s, 'n, 'h) web_handler" where
  "handleApprovals sv now r body w = (case registry_Pending sv now w of (q, w) \<Rightarrow> (web_list q WbApprovals, w))"

record resolve_body =
  rb_ID :: string
  rb_Approved :: bool

definition dec_resolve_body :: "resolve_body decoder" where
  "dec_resolve_body = dec_fields [
     (''id'', set_field rb_ID rb_ID_update dec_string),
     (''approved'', set_field rb_Approved rb_Approved_update dec_bool)]"

definition handleResolve :: "('s, 'n, 'h) Service \<Rightarrow> time \<Rightarrow> ('s, 'n, 'h) web_handler" where
  "handleResolve sv now r body w =
     (if hr_Method r \<noteq> ''POST'' then (post_only, w)
      else (case unmarshal_into \<lparr>rb_ID = [], rb_Approved = False\<rparr> dec_resolve_body (json_decode_first body) of
              None \<Rightarrow> (web_json StatusBadRequest (WbError ''id and approved are required''), w)
            | Some b \<Rightarrow>
                if rb_ID b = [] then (web_json StatusBadRequest (WbError ''id and approved are required''), w)
                else (case registry_Resolve sv now (rb_ID b) (rb_Approved b) ''web'' w of
                        (Inl e, w) \<Rightarrow> (web_json StatusInternalServerError (WbStoreError e), w)
                      | (Inr won, w) \<Rightarrow>
                          (if won then web_json StatusOK WbResolved else web_json 409 (WbError ''already resolved or expired''), w))))"

record freeze_body =
  fb_Frozen :: bool
  fb_Reason :: string

definition dec_freeze_body :: "freeze_body decoder" where
  "dec_freeze_body = dec_fields [
     (''frozen'', set_field fb_Frozen fb_Frozen_update dec_bool),
     (''reason'', set_field fb_Reason fb_Reason_update dec_string)]"

definition handleFreeze :: "('s, 'n, 'h) Service \<Rightarrow> time \<Rightarrow> ('s, 'n, 'h) web_handler" where
  "handleFreeze sv now r body w =
     (if hr_Method r \<noteq> ''POST'' then (post_only, w)
      else (case unmarshal_into \<lparr>fb_Frozen = False, fb_Reason = []\<rparr> dec_freeze_body (json_decode_first body) of
              None \<Rightarrow> (web_json StatusBadRequest (WbError ''frozen is required''), w)
            | Some b \<Rightarrow>
                (case (if fb_Frozen b then Freeze sv now ''dashboard'' (fb_Reason b) w else Unfreeze sv w) of
                   (Inl e, w) \<Rightarrow> (web_json StatusInternalServerError (WbError ''internal error''), w)
                 | (Inr _, w) \<Rightarrow> (web_json StatusOK (WbFrozen (fb_Frozen b)), w))))"

text \<open>
  The event stream: the counter of open streams, the snapshot, and the loop, which sends one snapshot
  at once and one a tick until a write fails or the ticks end with the request; leaving it gives the
  place in the count back.
\<close>

definition maxSSE :: int where "maxSSE = 64"

definition sse_enter :: "int \<Rightarrow> bool \<times> int" where
  "sse_enter n = (if n + 1 > maxSSE then (False, n + 1 - 1) else (True, n + 1))"

definition sse_leave :: "int \<Rightarrow> int" where "sse_leave n = n - 1"

record Snapshot =
  sn_Status :: Status
  sn_Approvals :: "Approval list option"
  sn_Attempts :: "Attempt list option"

definition web_snapshot :: "('s, 'n, 'h) Service \<Rightarrow> Web \<Rightarrow> time \<Rightarrow> ('s, 'n, 'h) agent_world \<Rightarrow> Snapshot \<times> ('s, 'n, 'h) agent_world" where
  "web_snapshot sv s now w =
     (let (st, w) = service_Status sv now (wb_network s) w;
          (ap, w) = registry_Pending sv now w;
          (att, w) = service_Attempts sv 12 0 w in
      (\<lparr>sn_Status = st, sn_Approvals = (case ap of Inl e \<Rightarrow> None | Inr x \<Rightarrow> Some x),
        sn_Attempts = (case att of Inl e \<Rightarrow> None | Inr x \<Rightarrow> Some x)\<rparr>, w))"

fun sse_loop :: "('s, 'n, 'h) Service \<Rightarrow> Web \<Rightarrow> (time \<times> bool) list \<Rightarrow> ('s, 'n, 'h) agent_world \<Rightarrow> Snapshot list \<times> ('s, 'n, 'h) agent_world" where
  "sse_loop sv s [] w = ([], w)"
| "sse_loop sv s ((now, written) # ticks) w =
     (case web_snapshot sv s now w of
        (x, w) \<Rightarrow> if \<not> written then ([], w) else (case sse_loop sv s ticks w of (xs, w) \<Rightarrow> (x # xs, w)))"

definition handleEvents :: "int \<Rightarrow> bool \<Rightarrow> WebOut \<times> int" where
  "handleEvents open_streams flusher =
     (if \<not> flusher then (\<lparr>wo_Status = 500, wo_Header = [], wo_Body = WbText ''streaming unsupported''\<rparr>, open_streams)
      else (case sse_enter open_streams of
              (False, n) \<Rightarrow> (\<lparr>wo_Status = 503, wo_Header = [], wo_Body = WbText ''too many event streams''\<rparr>, n)
            | (True, n) \<Rightarrow> (\<lparr>wo_Status = 200, wo_Header = header_set ''Connection'' ''keep-alive'' (header_set ''Cache-Control'' ''no-cache''
                (header_set ''Content-Type'' ''text/event-stream'' [])), wo_Body = WbEvents\<rparr>, n)))"

text \<open>
  The routes under the guard.  The event stream is answered with its headers; its ticks are
  \<open>sse_loop\<close>.  \<open>open_streams\<close> is the counter the request finds, \<open>flusher\<close> whether the connection can stream.
  Every other path belongs to the file server, whose answer is a parameter of the outside.
\<close>

definition guard :: "Web \<Rightarrow> ('s, 'n, 'h) web_handler \<Rightarrow> ('s, 'n, 'h) web_handler" where
  "guard s nxt r body w = (if \<not> authorized s r then (web_json StatusUnauthorized (WbError ''unauthorized''), w) else nxt r body w)"

definition dashboard_routes :: "('s, 'n, 'h) Service \<Rightarrow> Web \<Rightarrow> time \<Rightarrow> int \<Rightarrow> bool \<Rightarrow> (string \<times> ('s, 'n, 'h) web_handler) list" where
  "dashboard_routes sv s now open_streams flusher =
     [(''/api/status'', guard s (handleStatus sv s now)), (''/api/attempts'', guard s (handleAttempts sv)),
      (''/api/payments'', guard s (handlePayments sv)), (''/api/approvals'', guard s (handleApprovals sv now)),
      (''/api/approvals/resolve'', guard s (handleResolve sv now)), (''/api/freeze'', guard s (handleFreeze sv now)),
      (''/api/events'', guard s (\<lambda>r body w. (fst (handleEvents open_streams flusher), w)))]"

definition securityHeaders :: "WebOut \<Rightarrow> WebOut" where
  "securityHeaders out = out\<lparr>wo_Header := security_header_lines @ wo_Header out\<rparr>"

definition dashboard_serve ::
  "('s, 'n, 'h) Service \<Rightarrow> Web \<Rightarrow> time \<Rightarrow> int \<Rightarrow> bool \<Rightarrow> WebOut \<Rightarrow> ('s, 'n, 'h) web_handler" where
  "dashboard_serve sv s now open_streams flusher static r body w =
     (case map_of (dashboard_routes sv s now open_streams flusher) (hr_Path r) of
        Some h \<Rightarrow> (case h r body w of (out, w) \<Rightarrow> (securityHeaders out, w))
      | None \<Rightarrow> (securityHeaders static, w))"

end
