(* ===== verification/Rails.thy ===== *)
theory Rails
  imports Channels
begin

text \<open>
  The clients of the Lightning node and the wallet: the agent's rails \<open>agent/rails/ln/ln.go\<close> and
  \<open>agent/rails/onchain/onchain.go\<close>, the gate's backend \<open>lib/dcrlnd/client.go\<close>, and the assembly of the
  agent from its configuration in \<open>agent/daemon.go\<close>.  The remote procedures are parameters, a record
  of functions of the other side's state \<open>'n\<close>: their answers carry the fields the code reads.  The
  protobuf coding, the connection, the transaction decoder and the script analysis are parameters too.
\<close>

section \<open>The Lightning node\<close>

text \<open>
  \<open>SendPaymentV2\<close> answers with a stream of updates; it is given by the finite list of what it delivers and
  the error of the \<open>Recv\<close> that ends it (the node closes it after the final state or the timeout).
\<close>

datatype payment_state = SUCCEEDED | FAILED | IN_FLIGHT

record payment_update =
  pu_Status :: payment_state
  pu_PaymentPreimage :: string
  pu_FeeAtoms :: int
  pu_FailureReason :: string

record lnrpc_Transaction =
  lt_TxHash :: string
  lt_RawTxHex :: string
  lt_NumConfirmations :: int

record 'n lnrpc =
  rpc_SendPaymentV2 :: "string \<Rightarrow> int \<Rightarrow> int \<Rightarrow> 'n \<Rightarrow> (string, payment_update list \<times> string) result \<times> 'n"
  rpc_ChannelBalance :: "'n \<Rightarrow> (string, int option) result \<times> 'n"
  rpc_GetInfo :: "'n \<Rightarrow> (string, string \<times> bool) result \<times> 'n"
  rpc_AddInvoice :: "string \<Rightarrow> int \<Rightarrow> int \<Rightarrow> 'n \<Rightarrow> (string, string \<times> bytes) result \<times> 'n"
  rpc_LookupInvoice :: "bytes \<Rightarrow> 'n \<Rightarrow> (string, bool \<times> int) result \<times> 'n"
  rpc_NewAddress :: "'n \<Rightarrow> (string, string) result \<times> 'n"
  rpc_GetTransactions :: "'n \<Rightarrow> (string, lnrpc_Transaction list) result \<times> 'n"

text \<open>The receive loop of \<open>Pay\<close>.\<close>

fun pay_stream :: "payment_update list \<Rightarrow> string \<Rightarrow> (string, string \<times> int) result" where
  "pay_stream [] err = Inl err"
| "pay_stream (u # us) err =
     (case pu_Status u of
        SUCCEEDED \<Rightarrow> Inr (pu_PaymentPreimage u, pu_FeeAtoms u)
      | FAILED \<Rightarrow> Inl (pu_FailureReason u)
      | IN_FLIGHT \<Rightarrow> pay_stream us err)"

definition wrap32 :: "int \<Rightarrow> int" where
  "wrap32 v = (v + 2 ^ 31) mod 2 ^ 32 - 2 ^ 31"

definition ln_client_Pay :: "'n lnrpc \<Rightarrow> 'n ln_pay" where
  "ln_client_Pay rpc invoice feeLimit timeout n =
     (let fee = (if feeLimit \<le> 0 then 10000 else feeLimit);
          secs = wrap32 (timeout sdiv second);
          secs = (if secs \<le> 0 then 60 else secs) in
      case rpc_SendPaymentV2 rpc invoice secs fee n of
        (Inl e, n) \<Rightarrow> (Inl e, n)
      | (Inr (us, err), n) \<Rightarrow> (pay_stream us err, n))"

text \<open>The balance is unsigned on the wire.\<close>

definition ln_client_SpendableAtoms :: "'n lnrpc \<Rightarrow> 'n \<Rightarrow> (string, int) result \<times> 'n" where
  "ln_client_SpendableAtoms rpc n =
     (case rpc_ChannelBalance rpc n of
        (Inl e, n) \<Rightarrow> (Inl e, n)
      | (Inr bal, n) \<Rightarrow> (Inr (case bal of None \<Rightarrow> 0 | Some atoms \<Rightarrow> wrap64 atoms), n))"

text \<open>\<open>int64(expiry.Seconds())\<close>, exact for the expiries in use.\<close>

definition whole_seconds :: "duration \<Rightarrow> int" where
  "whole_seconds d = d sdiv second"

definition ln_client_CreateInvoice :: "'n lnrpc \<Rightarrow> int \<Rightarrow> string \<Rightarrow> duration \<Rightarrow> 'n \<Rightarrow> (string, string \<times> string) result \<times> 'n" where
  "ln_client_CreateInvoice rpc amountAtoms memo expiry n =
     (case rpc_AddInvoice rpc memo (mul64 amountAtoms 1000) (whole_seconds expiry) n of
        (Inl e, n) \<Rightarrow> (Inl e, n)
      | (Inr (invoice, rhash), n) \<Rightarrow> (Inr (invoice, hex_encode rhash), n))"

definition ln_rail :: "'n lnrpc \<Rightarrow> 'n LN_ops" where
  "ln_rail rpc = \<lparr>ln_Pay = ln_client_Pay rpc, ln_SpendableAtoms = ln_client_SpendableAtoms rpc, ln_Info = rpc_GetInfo rpc,
     ln_CreateInvoice = ln_client_CreateInvoice rpc\<rparr>"

text \<open>Connecting: files are read through \<open>read\<close>, \<open>parses\<close> tells whether the certificate does; the metadata of every call.\<close>

datatype rail_error = NoParams | CertFile | CertParse | MacaroonFile | KeyPair | AccountUnknown string | PassphraseFile | NoHost | NoCert | NoMacaroon

definition macaroon_metadata :: "bytes \<Rightarrow> (string \<times> string) list" where
  "macaroon_metadata mac = [(''macaroon'', hex_encode mac)]"

definition ln_New :: "(string \<Rightarrow> bytes option) \<Rightarrow> (bytes \<Rightarrow> bool) \<Rightarrow> agent_LNConfig \<Rightarrow> bool \<Rightarrow> (rail_error, (string \<times> string) list) result" where
  "ln_New read parses cfg params =
     (if \<not> params then Inl NoParams
      else (case read (al_TLSCert cfg) of
              None \<Rightarrow> Inl CertFile
            | Some pem \<Rightarrow>
                if \<not> parses pem then Inl CertParse
                else (case read (al_Macaroon cfg) of None \<Rightarrow> Inl MacaroonFile | Some mac \<Rightarrow> Inr (macaroon_metadata mac))))"

section \<open>The wallet\<close>

record 'n walletrpc =
  wr_AccountNumber :: "string \<Rightarrow> 'n \<Rightarrow> (string, nat) result \<times> 'n"
  wr_NextAccount :: "bytes \<Rightarrow> string \<Rightarrow> 'n \<Rightarrow> (string, nat) result \<times> 'n"
  wr_Balance :: "nat \<Rightarrow> int \<Rightarrow> 'n \<Rightarrow> (string, int \<times> int) result \<times> 'n"
  wr_NextAddress :: "nat \<Rightarrow> 'n \<Rightarrow> (string, string) result \<times> 'n"
  wr_ConstructTransaction :: "nat \<Rightarrow> int \<Rightarrow> string \<Rightarrow> int \<Rightarrow> 'n \<Rightarrow> (string, bytes) result \<times> 'n"
  wr_SignTransactions :: "bytes \<Rightarrow> bytes \<Rightarrow> 'n \<Rightarrow> (string, bytes list) result \<times> 'n"
  wr_PublishTransaction :: "bytes \<Rightarrow> 'n \<Rightarrow> (string, bytes) result \<times> 'n"

record wallet_Client =
  wt_account :: nat
  wt_passphrase :: bytes

definition wallet_dial :: "(string \<Rightarrow> bytes option) \<Rightarrow> (bytes \<Rightarrow> bool) \<Rightarrow> (string \<Rightarrow> string \<Rightarrow> bool) \<Rightarrow> WalletConfig \<Rightarrow> rail_error option" where
  "wallet_dial read parses keypair cfg =
     (case read (wc_TLSCert cfg) of
        None \<Rightarrow> Some CertFile
      | Some pem \<Rightarrow>
          if \<not> parses pem then Some CertParse
          else if \<not> keypair (wc_ClientCert cfg) (wc_ClientKey cfg) then Some KeyPair else None)"

definition wallet_New ::
  "(string \<Rightarrow> bytes option) \<Rightarrow> (bytes \<Rightarrow> bool) \<Rightarrow> (string \<Rightarrow> string \<Rightarrow> bool) \<Rightarrow> 'n walletrpc \<Rightarrow> WalletConfig \<Rightarrow> bytes \<Rightarrow> 'n \<Rightarrow>
   (rail_error, wallet_Client) result \<times> 'n" where
  "wallet_New read parses keypair rpc cfg passphrase n =
     (case wallet_dial read parses keypair cfg of
        Some e \<Rightarrow> (Inl e, n)
      | None \<Rightarrow>
          (case wr_AccountNumber rpc (wc_Account cfg) n of
             (Inl e, n) \<Rightarrow> (Inl (AccountUnknown e), n)
           | (Inr acct, n) \<Rightarrow> (Inr \<lparr>wt_account = acct, wt_passphrase = passphrase\<rparr>, n)))"

definition CreateAccount ::
  "(string \<Rightarrow> bytes option) \<Rightarrow> (bytes \<Rightarrow> bool) \<Rightarrow> (string \<Rightarrow> string \<Rightarrow> bool) \<Rightarrow> 'n walletrpc \<Rightarrow> WalletConfig \<Rightarrow> bytes \<Rightarrow> 'n \<Rightarrow>
   (rail_error, nat) result \<times> 'n" where
  "CreateAccount read parses keypair rpc cfg passphrase n =
     (case wallet_dial read parses keypair cfg of
        Some e \<Rightarrow> (Inl e, n)
      | None \<Rightarrow>
          (case wr_AccountNumber rpc (wc_Account cfg) n of
             (Inr acct, n) \<Rightarrow> (Inr acct, n)
           | (Inl _, n) \<Rightarrow>
               (case wr_NextAccount rpc passphrase (wc_Account cfg) n of
                  (Inl e, n) \<Rightarrow> (Inl (AccountUnknown e), n) | (Inr acct, n) \<Rightarrow> (Inr acct, n))))"

text \<open>\<open>chainhash.Hash\<close>: 32 bytes, printed in reverse order.\<close>

definition chainhash_String :: "bytes \<Rightarrow> string option" where
  "chainhash_String h = (if length h \<noteq> 32 then None else Some (hex_encode (rev h)))"

definition wallet_Send :: "wallet_Client \<Rightarrow> 'n walletrpc \<Rightarrow> string \<Rightarrow> int \<Rightarrow> 'n \<Rightarrow> (string, string) result \<times> 'n" where
  "wallet_Send c rpc address amountAtoms n =
     (if amountAtoms \<le> 0 then (Inl ''onchain: amount must be positive'', n)
      else (case wr_ConstructTransaction rpc (wt_account c) 1 address amountAtoms n of
              (Inl e, n) \<Rightarrow> (Inl e, n)
            | (Inr raw, n) \<Rightarrow>
                (case wr_SignTransactions rpc (wt_passphrase c) raw n of
                   (Inl e, n) \<Rightarrow> (Inl e, n)
                 | (Inr txs, n) \<Rightarrow>
                     (case txs of
                        [tx] \<Rightarrow>
                          (case wr_PublishTransaction rpc tx n of
                             (Inl e, n) \<Rightarrow> (Inl e, n)
                           | (Inr hash, n) \<Rightarrow>
                               ((case chainhash_String hash of None \<Rightarrow> Inl ''onchain: transaction hash'' | Some txid \<Rightarrow> Inr txid), n))
                      | _ \<Rightarrow> (Inl ''onchain: expected 1 signed transaction'', n)))))"

definition wallet_rail :: "wallet_Client \<Rightarrow> 'n walletrpc \<Rightarrow> 'n Chain_ops" where
  "wallet_rail c rpc = \<lparr>oc_BalanceAtoms = wr_Balance rpc (wt_account c), oc_NewAddress = wr_NextAddress rpc (wt_account c),
     oc_Send = wallet_Send c rpc\<rparr>"

section \<open>The gate's backend\<close>

record dcrlnd_Config =
  dl_Host :: string
  dl_TLSCertPath :: string
  dl_TLSCert :: bytes
  dl_MacaroonPath :: string
  dl_Macaroon :: bytes

definition dcrlnd_New :: "(string \<Rightarrow> bytes option) \<Rightarrow> (bytes \<Rightarrow> bool) \<Rightarrow> dcrlnd_Config \<Rightarrow> (rail_error, (string \<times> string) list) result" where
  "dcrlnd_New read parses cfg =
     (if dl_Host cfg = [] then Inl NoHost
      else if dl_TLSCert cfg = [] \<and> dl_TLSCertPath cfg = [] then Inl NoCert
      else (case (if dl_TLSCert cfg \<noteq> [] then Some (dl_TLSCert cfg) else read (dl_TLSCertPath cfg)) of
              None \<Rightarrow> Inl CertFile
            | Some pem \<Rightarrow>
                if \<not> parses pem then Inl CertParse
                else if dl_Macaroon cfg = [] \<and> dl_MacaroonPath cfg = [] then Inl NoMacaroon
                else (case (if dl_Macaroon cfg \<noteq> [] then Some (dl_Macaroon cfg) else read (dl_MacaroonPath cfg)) of
                        None \<Rightarrow> Inl MacaroonFile
                      | Some mac \<Rightarrow> Inr (macaroon_metadata mac))))"

definition dcrlnd_CreateInvoice :: "'n lnrpc \<Rightarrow> int \<Rightarrow> string \<Rightarrow> duration \<Rightarrow> 'n \<Rightarrow> (unit, string \<times> bytes) result \<times> 'n" where
  "dcrlnd_CreateInvoice rpc amountAtoms memo expiry n =
     (if amountAtoms \<le> 0 then (Inl (), n)
      else (case rpc_AddInvoice rpc memo (mul64 amountAtoms 1000) (whole_seconds expiry) n of
              (Inl _, n) \<Rightarrow> (Inl (), n)
            | (Inr (invoice, rhash), n) \<Rightarrow> if length rhash \<noteq> 32 then (Inl (), n) else (Inr (invoice, rhash), n)))"

definition dcrlnd_LookupInvoice :: "'n lnrpc \<Rightarrow> bytes \<Rightarrow> 'n \<Rightarrow> (unit, InvoiceStatus) result \<times> 'n" where
  "dcrlnd_LookupInvoice rpc paymentHash n =
     (case rpc_LookupInvoice rpc paymentHash n of
        (Inl _, n) \<Rightarrow> (Inl (), n)
      | (Inr (settled, paid_m), n) \<Rightarrow> (Inr \<lparr>is_Settled = settled, is_AmtPaidMAtoms = paid_m\<rparr>, n))"

definition dcrlnd_NewDepositAddress :: "'n lnrpc \<Rightarrow> 'n \<Rightarrow> (unit, string) result \<times> 'n" where
  "dcrlnd_NewDepositAddress rpc n = (case rpc_NewAddress rpc n of (Inl _, n) \<Rightarrow> (Inl (), n) | (Inr a, n) \<Rightarrow> (Inr a, n))"

record TxOut =
  xo_Version :: nat
  xo_PkScript :: bytes
  xo_Value :: int

text \<open>The sum over the outputs, once for every occurrence of the address among the addresses of a script.\<close>

definition paid_to :: "(nat \<Rightarrow> bytes \<Rightarrow> string list) \<Rightarrow> string \<Rightarrow> TxOut list \<Rightarrow> int" where
  "paid_to addrs address outs =
     fold (\<lambda>out sum. fold (\<lambda>a sum. if a = address then add64 sum (xo_Value out) else sum) (addrs (xo_Version out) (xo_PkScript out)) sum) outs 0"

text \<open>\<open>extract\<close> is \<open>stdscript.ExtractAddrs\<close> for the configured network, if there is one; \<open>decode\<close> is \<open>MsgTx.Deserialize\<close>.\<close>

definition dcrlnd_LookupDeposit ::
  "(bytes \<Rightarrow> TxOut list option) \<Rightarrow> (nat \<Rightarrow> bytes \<Rightarrow> string list) option \<Rightarrow> 'n lnrpc \<Rightarrow> string \<Rightarrow> string \<Rightarrow> 'n \<Rightarrow> (unit, DepositStatus) result \<times> 'n" where
  "dcrlnd_LookupDeposit decode extract rpc txid address n =
     (case extract of
        None \<Rightarrow> (Inl (), n)
      | Some addrs \<Rightarrow>
          (case rpc_GetTransactions rpc n of
             (Inl _, n) \<Rightarrow> (Inl (), n)
           | (Inr txs, n) \<Rightarrow>
               ((case find (\<lambda>tx. lt_TxHash tx = txid) txs of
                   None \<Rightarrow> Inr \<lparr>ds_Found = False, ds_Confirmations = 0, ds_AmountToAddressAtoms = 0\<rparr>
                 | Some tx \<Rightarrow>
                     (case hex_decode (lt_RawTxHex tx) of
                        None \<Rightarrow> Inl ()
                      | Some raw \<Rightarrow>
                          (case decode raw of
                             None \<Rightarrow> Inl ()
                           | Some outs \<Rightarrow>
                               Inr \<lparr>ds_Found = True, ds_Confirmations = lt_NumConfirmations tx,
                                    ds_AmountToAddressAtoms = paid_to addrs address outs\<rparr>))), n)))"

definition dcrlnd_invoices :: "'n lnrpc \<Rightarrow> 'n Invoice_ops" where
  "dcrlnd_invoices rpc = \<lparr>ib_CreateInvoice = dcrlnd_CreateInvoice rpc, ib_LookupInvoice = dcrlnd_LookupInvoice rpc\<rparr>"

definition dcrlnd_onchain :: "(bytes \<Rightarrow> TxOut list option) \<Rightarrow> (nat \<Rightarrow> bytes \<Rightarrow> string list) option \<Rightarrow> 'n lnrpc \<Rightarrow> 'n Onchain_ops" where
  "dcrlnd_onchain decode extract rpc = \<lparr>ob_NewDepositAddress = dcrlnd_NewDepositAddress rpc, ob_LookupDeposit = dcrlnd_LookupDeposit decode extract rpc\<rparr>"

lemma pay_stream_paid:
  "pay_stream us err = Inr (preimage, fee) \<longleftrightarrow>
   (\<exists>before u after. us = before @ u # after \<and> (\<forall>v\<in>set before. pu_Status v = IN_FLIGHT) \<and> pu_Status u = SUCCEEDED \<and>
      preimage = pu_PaymentPreimage u \<and> fee = pu_FeeAtoms u)" (is "?l \<longleftrightarrow> ?r us")
proof
  show "?l \<Longrightarrow> ?r us"
  proof (induction us)
    case (Cons v us)
    show ?case
    proof (cases "pu_Status v")
      case SUCCEEDED
      with Cons.prems show ?thesis by (intro exI [of _ "[]"] exI [of _ v] exI [of _ us]) auto
    next
      case IN_FLIGHT
      with Cons obtain before u after where "us = before @ u # after" "\<forall>w\<in>set before. pu_Status w = IN_FLIGHT" "pu_Status u = SUCCEEDED"
        "preimage = pu_PaymentPreimage u" "fee = pu_FeeAtoms u" by auto
      with IN_FLIGHT show ?thesis by (intro exI [of _ "v # before"] exI [of _ u] exI [of _ after]) auto
    qed (use Cons.prems in simp)
  qed simp
next
  assume "?r us"
  then obtain before u after where us: "us = before @ u # after" "\<forall>v\<in>set before. pu_Status v = IN_FLIGHT" "pu_Status u = SUCCEEDED"
    "preimage = pu_PaymentPreimage u" "fee = pu_FeeAtoms u" by blast
  from us(2) show ?l unfolding us(1) by (induction before) (simp_all add: us(3-5))
qed

text \<open>A deposit is worth the outputs that pay the address, as long as their sum is a 64-bit number.\<close>

lemma paid_to_sum:
  assumes "\<forall>out\<in>set outs. 0 \<le> xo_Value out \<and> (addrs (xo_Version out) (xo_PkScript out) = [] \<or> (\<exists>a. addrs (xo_Version out) (xo_PkScript out) = [a]))"
    and "in_int64 (sum_list (map xo_Value outs))"
  shows "paid_to addrs address outs = sum_list (map xo_Value (filter (\<lambda>out. addrs (xo_Version out) (xo_PkScript out) = [address]) outs))"
proof -
  let ?mine = "\<lambda>out. addrs (xo_Version out) (xo_PkScript out) = [address]"
  let ?step = "\<lambda>out sum. fold (\<lambda>a sum. if a = address then add64 sum (xo_Value out) else sum) (addrs (xo_Version out) (xo_PkScript out)) sum"
  have "fold ?step outs acc = acc + sum_list (map xo_Value (filter ?mine outs))"
    if "\<forall>out\<in>set outs. 0 \<le> xo_Value out \<and> (addrs (xo_Version out) (xo_PkScript out) = [] \<or> (\<exists>a. addrs (xo_Version out) (xo_PkScript out) = [a]))"
      and "0 \<le> acc" "in_int64 (acc + sum_list (map xo_Value outs))" for acc
    using that
  proof (induction outs arbitrary: acc)
    case (Cons out outs)
    have nn: "0 \<le> sum_list (map xo_Value outs)" using Cons.prems(1) by (intro sum_list_nonneg) auto
    have v: "0 \<le> xo_Value out" using Cons.prems(1) by simp
    have fit: "in_int64 (acc + xo_Value out)" using Cons.prems(2,3) nn v by (simp add: int64_defs)
    have st: "?step out acc = (if ?mine out then acc + xo_Value out else acc)"
      using Cons.prems(1) fit by (auto simp: add64_id)
    have "in_int64 ((if ?mine out then acc + xo_Value out else acc) + sum_list (map xo_Value outs))"
      using Cons.prems(2,3) nn v by (auto simp: int64_defs)
    with Cons.IH [of "if ?mine out then acc + xo_Value out else acc"] Cons.prems(1,2) v st show ?case
      by (simp split: if_splits)
  qed simp
  from this [of 0] assms show ?thesis by (simp add: paid_to_def)
qed

section \<open>The assembly of the agent\<close>

text \<open>
  \<open>agent.New\<close>: every part that can fail, in order, by its outcome: the policy file, the database, the
  node, the passphrase file, the wallet and the Bison Relay approver.  The result is the service with
  its channels and, when configured, the relay's approver.  \<open>http\<close> is a request through the dialer
  guard (\<open>guarded_dial\<close> with \<open>HTTPAddr\<close> and \<open>FetchAllow\<close>), \<open>send\<close> the relay's private message.
\<close>

datatype assembly_error =
    AsConfig agent_config_error | AsPolicy policy_error | AsStore | AsLN rail_error | AsPassphrase | AsWallet rail_error | AsRelay br_error

definition agent_assemble ::
  "agent_Config \<Rightarrow> (policy_error, Policy) result \<Rightarrow> 's AgentStore_ops option \<Rightarrow> (rail_error, 'n LN_ops) result \<Rightarrow> bytes option \<Rightarrow>
   (bytes \<Rightarrow> (rail_error, 'n Chain_ops) result) \<Rightarrow> bool \<Rightarrow> zpay32_decoder \<Rightarrow>
   (string \<Rightarrow> string list \<Rightarrow> OutRequest \<Rightarrow> 'h \<Rightarrow> (string, InResponse) result \<times> 'h) \<Rightarrow>
   (string \<Rightarrow> string \<Rightarrow> 'h \<Rightarrow> bool \<times> 'h) \<Rightarrow> (nat \<Rightarrow> bytes option) \<Rightarrow>
   (assembly_error, Policy \<times> ('s, 'n, 'h) Service \<times> BRApprover option) result" where
  "agent_assemble cfg policy database ln passphrase wallet relay_client decode http send rand =
     (case agent_Validate cfg of
        Some e \<Rightarrow> Inl (AsConfig e)
      | None \<Rightarrow>
     (case agent_NetworkFor cfg of
        None \<Rightarrow> Inl (AsConfig AcUnknownNetwork)
      | Some network \<Rightarrow>
     (case policy of
        Inl e \<Rightarrow> Inl (AsPolicy e)
      | Inr pol \<Rightarrow>
     (case database of
        None \<Rightarrow> Inl AsStore
      | Some st \<Rightarrow>
     (case ln of
        Inl e \<Rightarrow> Inl (AsLN e)
      | Inr rail \<Rightarrow>
     (case (if wc_RPC (ac_Wallet cfg) = [] then Inr None
            else (case passphrase of None \<Rightarrow> Inl AsPassphrase
                  | Some pass \<Rightarrow> (case wallet pass of Inl e \<Rightarrow> Inl (AsWallet e) | Inr oc \<Rightarrow> Inr (Some oc)))) of
        Inl e \<Rightarrow> Inl e
      | Inr onchain \<Rightarrow>
          (let sv = (\<lambda>channels. \<lparr>sv_Store = st, sv_LN = rail, sv_Onchain = onchain, sv_Network = network, sv_Decode = decode,
                 sv_HTTP = http (ac_HTTPAddr cfg) (ac_FetchAllow cfg), sv_Approvers = WebApprover # channels, sv_Rand = rand\<rparr>) in
           if bc_RPC (ac_BR cfg) = [] then Inr (pol, sv [], None)
           else (case br_New (bc_RPC (ac_BR cfg)) (bc_Owner (ac_BR cfg)) True relay_client True of
                   Inl e \<Rightarrow> Inl (AsRelay e)
                 | Inr br \<Rightarrow> Inr (pol, sv [br_approver br send], Some br)))))))))"

text \<open>\<open>Close\<close>: last opened first; the first error is the answer.\<close>

definition daemon_Close :: "('e option) list \<Rightarrow> 'e option" where
  "daemon_Close closed = fold (\<lambda>r first. case first of None \<Rightarrow> r | Some e \<Rightarrow> Some e) (rev closed) None"

end
