(* ===== verification/ApiClaims.thy ===== *)
theory ApiClaims
  imports AgentClaims AgentApi Channels
begin

text \<open>
  Properties of the agent's surroundings: what a driving agent can reach through the MCP tools, who
  can act on approvals and the kill switch from the dashboard and over Bison Relay, and where the
  dialer of paid fetches connects.
\<close>

section \<open>Operations that only read\<close>

locale agent_reads = agent_service ops view sv
  for ops :: "'s AgentStore_ops" and view :: "'s \<Rightarrow> agent_view" and sv :: "('s, 'n, 'h) Service" +
  assumes reads: "view (snd (as_ListPayments ops limit before s)) = view s" "view (snd (as_ListAttempts ops limit before s)) = view s"
    "view (snd (as_GetPayment ops i s)) = view s" "view (snd (as_GetApproval ops k s)) = view s"
    "view (snd (as_ListPendingApprovals ops now s)) = view s"
begin

text \<open>What no call through the tools may change.\<close>

definition within_reach :: "('s, 'n, 'h) agent_world \<Rightarrow> ('s, 'n, 'h) agent_world \<Rightarrow> bool" where
  "within_reach w w' \<longleftrightarrow> aw_policy w' = aw_policy w \<and> aw_running w' = aw_running w \<and> av_state (V w') = av_state (V w) \<and>
     approved_ids (av_approvals (V w')) \<subseteq> approved_ids (av_approvals (V w))"

definition untouched :: "('s, 'n, 'h) agent_world \<Rightarrow> ('s, 'n, 'h) agent_world \<Rightarrow> bool" where
  "untouched w w' \<longleftrightarrow> aw_policy w' = aw_policy w \<and> aw_running w' = aw_running w \<and> aw_waiting w' = aw_waiting w \<and>
     aw_reads w' = aw_reads w \<and> V w' = V w"

lemma reach_refl [simp]: "within_reach w w" "untouched w w"
  by (simp_all add: within_reach_def untouched_def)

lemma reach_trans: "within_reach a b \<Longrightarrow> within_reach b c \<Longrightarrow> within_reach a c"
  by (auto simp: within_reach_def)

lemma untouched_trans: "untouched a b \<Longrightarrow> untouched b c \<Longrightarrow> untouched a c"
  by (simp add: untouched_def)

lemma untouched_reach: "untouched w w' \<Longrightarrow> within_reach w w'"
  by (simp add: untouched_def within_reach_def)

lemma quiet_reach: "quiet w w' \<Longrightarrow> within_reach w w'"
  by (auto simp: quiet_def within_reach_def)

lemma escalated_reach: "escalated w w' \<Longrightarrow> within_reach w w'"
  by (simp add: escalated_def within_reach_def)

lemma spent_reach: "spent now pre a w w' \<Longrightarrow> within_reach w w'"
  by (auto simp: spent_def within_reach_def)

lemma untouched_rail: "on_rail f w = (r, w') \<Longrightarrow> untouched w w'"
  by (erule on_railE) (simp add: untouched_def)

lemma untouched_store: "on_store f w = (r, w') \<Longrightarrow> view (snd (f (aw_store w))) = V w \<Longrightarrow> untouched w w'"
  by (erule on_storeE) (simp add: untouched_def)

lemma read_store:
  "on_store (as_ListPayments (sv_Store sv) limit before) w = (rp, w') \<Longrightarrow> untouched w w'"
  "on_store (as_ListAttempts (sv_Store sv) limit before) w = (ra, w') \<Longrightarrow> untouched w w'"
  "on_store (as_GetPayment (sv_Store sv) i) w = (rg, w') \<Longrightarrow> untouched w w'"
  "on_store (as_GetApproval (sv_Store sv) k) w = (rk, w') \<Longrightarrow> untouched w w'"
  "on_store (as_ListPendingApprovals (sv_Store sv) now) w = (rl, w') \<Longrightarrow> untouched w w'"
  by (erule untouched_store, simp add: store_ops reads)+

lemma freeze_untouched: "FreezeStatus sv w = (st, w') \<Longrightarrow> untouched w w'"
  by (drule FreezeStatus_cases) (auto simp: untouched_def)

lemma usage_untouched: "service_usage sv now w = (r, w') \<Longrightarrow> untouched w w'"
  by (erule usage_cases) (simp add: untouched_def)

lemma status_untouched:
  assumes "service_Status sv now network w = (st, w')" shows "untouched w w'"
proof -
  obtain info w1 where 1: "on_rail (ln_Info (sv_LN sv)) w = (info, w1)" by fastforce
  obtain bal w2 where 2: "on_rail (ln_SpendableAtoms (sv_LN sv)) w1 = (bal, w2)" by fastforce
  obtain coins w3 where 3: "(case sv_Onchain sv of None \<Rightarrow> (Inl [], w2) | Some oc \<Rightarrow> on_rail (oc_BalanceAtoms oc 1) w2) = (coins, w3)" by fastforce
  obtain u w4 where 4: "service_usage sv now w3 = (u, w4)" by fastforce
  obtain ps w5 where 5: "registry_Pending sv now w4 = (ps, w5)" by fastforce
  obtain fz w6 where 6: "FreezeStatus sv w5 = (fz, w6)" by fastforce
  have w': "w' = w6" using assms 1 2 3 4 5 6 by (simp add: service_Status_def Let_def)
  have c3: "untouched w2 w3" using 3 by (cases "sv_Onchain sv") (auto dest: untouched_rail)
  show ?thesis unfolding w'
    using untouched_rail [OF 1] untouched_rail [OF 2] c3 usage_untouched [OF 4] read_store(5) [OF 5 [unfolded registry_Pending_def]]
      freeze_untouched [OF 6] by (metis untouched_trans)
qed

lemma estimate_untouched:
  assumes "service_Estimate sv now target w = (r, w')" shows "untouched w w'"
proof -
  have "idle (service_client sv now None) w w'"
    using assms by (auto simp: service_Estimate_def client_Estimate_def client_do_def split: if_splits option.splits prod.splits sum.splits
        dest!: doRetry_idle)
  then show ?thesis by (rule idle_service) (simp add: untouched_def)
qed

text \<open>The tools registered as read-only are.\<close>

lemma read_only_untouched:
  assumes "call_tool sv network now c w = (r, w')" "read_only c" shows "untouched w w'"
proof (cases c)
  case wallet_status
  with assms show ?thesis by (auto simp: call_tool_def split: prod.splits intro: status_untouched)
next
  case (estimate invoice url)
  with assms show ?thesis by (auto simp: call_tool_def Let_def split: prod.splits if_splits intro: estimate_untouched)
next
  case get_receive_address
  with assms show ?thesis
    by (auto simp: call_tool_def GetReceiveAddress_def split: prod.splits option.splits sum.splits dest: untouched_rail)
next
  case (create_invoice amount memo)
  with assms show ?thesis
    by (auto simp: call_tool_def service_CreateInvoice_def split: prod.splits if_splits sum.splits dest: untouched_rail)
next
  case (payments_list limit before)
  with assms show ?thesis by (auto simp: call_tool_def service_Payments_def split: prod.splits dest: read_store)
next
  case (receipt_get i)
  with assms show ?thesis by (auto simp: call_tool_def service_Receipt_def split: prod.splits dest: read_store)
next
  case (approval_status i)
  with assms show ?thesis by (auto simp: call_tool_def registry_Get_def split: prod.splits dest: read_store)
qed (use assms(2) in simp_all)

lemma direct_reach:
  assumes "executeOrEscalate sv now a exec w = (r, w')" "direct_amount exec = pa_AmountAtoms a" shows "within_reach w w'"
  using assms by (cases rule: direct_cases) (use quiet_reach escalated_reach spent_reach reach_trans in blast)+

lemma fetch_reach:
  assumes "FetchPaid sv now pre url opt w = (rf, w')" shows "within_reach w w'"
proof -
  obtain res err where rf: "rf = (res, err)" by fastforce
  from assms [unfolded rf] show ?thesis
    by (cases rule: FetchPaid_cases) (use quiet_reach escalated_reach spent_reach reach_trans in blast)+
qed

lemma tool_reach:
  assumes "call_tool sv network now c w = (r, w')" shows "within_reach w w'"
proof (cases "read_only c")
  case True
  with read_only_untouched [OF assms] show ?thesis by (intro untouched_reach)
next
  case False
  then consider invoice memo m where "c = pay_ln_invoice invoice memo m" | address amount memo where "c = pay_dcr_address address amount memo"
    | url meth body memo where "c = fetch_paid url meth body memo" by (cases c) auto
  then show ?thesis
  proof cases
    case 1
    obtain q where "PayLNInvoice sv now invoice memo m w = (q, w')" using assms 1 by (auto simp: call_tool_def split: prod.splits)
    then show ?thesis by (cases rule: pay_ln_cases) (auto dest: direct_reach)
  next
    case 2
    obtain q where "PayDCRAddress sv now address amount memo w = (q, w')" using assms 2 by (auto simp: call_tool_def split: prod.splits)
    then show ?thesis by (cases rule: pay_dcr_cases) (auto dest: direct_reach)
  next
    case 3
    obtain q where "FetchPaid sv now None url (fetch_options meth body memo) w = (q, w')"
      using assms 3 by (auto simp: call_tool_def split: prod.splits option.splits)
    then show ?thesis by (rule fetch_reach)
  qed
qed

end

interpretation mem_reads: agent_reads AgentMemory mem_agent_view "sv\<lparr>sv_Store := AgentMemory\<rparr>" for sv
  by unfold_locales (simp_all add: AgentMemory_def AMem_ListPayments_def AMem_ListAttempts_def AMem_GetPayment_def AMem_GetApproval_def
      AMem_ListPendingApprovals_def)

definition writes_nothing :: "'a agent_sql \<Rightarrow> bool" where
  "writes_nothing m \<longleftrightarrow> (\<forall>c. cn_db (snd (m c)) = cn_db c)"

lemma writes_nothing_basic: "writes_nothing (driver e)" "writes_nothing (ret x)" "writes_nothing (throw e')"
  by (auto simp: writes_nothing_def driver_def ret_def throw_def split: list.splits bool.splits)

lemma writes_nothing_query: "writes_nothing (query e f)"
proof -
  have "cn_db c' = cn_db c" if "query e f c = (r, c')" for c c' r
    using that by (cases r) (auto dest: query_Inl query_Inr)
  then show ?thesis unfolding writes_nothing_def by (metis surjective_pairing)
qed

lemma writes_nothing_then: "writes_nothing m \<Longrightarrow> (\<And>x. writes_nothing (k x)) \<Longrightarrow> writes_nothing (andThen m k)"
  unfolding writes_nothing_def andThen_def by (auto split: prod.splits sum.splits) (metis snd_conv)+

lemma writes_nothing_row: "writes_nothing (agent_row x)"
  by (cases x) (simp_all add: agent_row_def writes_nothing_basic)

lemma writes_nothing_ops: "writes_nothing (ASq_ListPayments limit before)" "writes_nothing (ASq_ListAttempts limit before)"
  "writes_nothing (ASq_GetPayment i)" "writes_nothing (ASq_GetApproval k)" "writes_nothing (ASq_ListPendingApprovals now)"
  by (auto simp: ASq_ListPayments_def ASq_ListAttempts_def ASq_GetPayment_def ASq_GetApproval_def ASq_ListPendingApprovals_def result_of_def
      intro!: writes_nothing_then writes_nothing_query writes_nothing_basic writes_nothing_row)

lemma writes_nothing_view: "writes_nothing m \<Longrightarrow> sql_agent_view (snd (m c)) = sql_agent_view c"
  unfolding writes_nothing_def by (blast intro: sql_view_cong)

interpretation sql_reads: agent_reads AgentSQLite sql_agent_view "with_sqlite sv" for sv
  by unfold_locales (simp_all only: AgentSQLite_def AgentStore_ops.select_convs writes_nothing_view [OF writes_nothing_ops(1)]
      writes_nothing_view [OF writes_nothing_ops(2)] writes_nothing_view [OF writes_nothing_ops(3)]
      writes_nothing_view [OF writes_nothing_ops(4)] writes_nothing_view [OF writes_nothing_ops(5)])

section \<open>The driving agent\<close>

text \<open>Any number of tool calls, one after the other.\<close>

fun run_tools :: "('s, 'n, 'h) Service \<Rightarrow> string \<Rightarrow> (time \<times> tool_call) list \<Rightarrow> ('s, 'n, 'h) agent_world \<Rightarrow> ('s, 'n, 'h) agent_world" where
  "run_tools sv network [] w = w"
| "run_tools sv network ((now, c) # cs) w = run_tools sv network cs (snd (call_tool sv network now c w))"

lemma run_tools_reach: "sql_reads.within_reach w (run_tools (with_sqlite sv) network cs w)"
proof (induction cs arbitrary: w)
  case (Cons x cs)
  obtain now c where x: "x = (now, c)" by fastforce
  have "sql_reads.within_reach w (snd (call_tool (with_sqlite sv) network now c w))"
    by (rule sql_reads.tool_reach [OF surjective_pairing])
  with Cons.IH show ?case unfolding x by (auto intro: sql_reads.reach_trans)
qed simp

text \<open>C12: the driving agent cannot lift the owner's controls.  Whatever sequence of MCP tools it calls, with whatever input, over the
  SQLite store with arbitrary faults: the policy, the kill switch and every other stored setting are as they were, no approval is
  granted, and no waiting continuation is started.\<close>
theorem tools_cannot_override:
  "aw_policy (run_tools (with_sqlite sv) network calls w) = aw_policy w \<and>
   av_state (ledger (run_tools (with_sqlite sv) network calls w)) = av_state (ledger w) \<and>
   approved_ids (av_approvals (ledger (run_tools (with_sqlite sv) network calls w))) \<subseteq> approved_ids (av_approvals (ledger w)) \<and>
   aw_running (run_tools (with_sqlite sv) network calls w) = aw_running w"
  using run_tools_reach [of w sv network calls] by (simp add: sql_reads.within_reach_def)

section \<open>The dashboard\<close>

lemma TrimPrefix_split: "HasPrefix s p \<Longrightarrow> s = p @ TrimPrefix s p"
  by (simp add: HasPrefix_def TrimPrefix_def) (metis append_take_drop_id)

text \<open>C26: the dashboard's API is closed without its token.  For a server that could be built, a request that presents the token
  neither as a bearer credential nor in the query changes nothing at all, whatever its path, method and body, and on every API path
  it is answered 401.\<close>
theorem dashboard_needs_token:
  assumes "web_New network token = Some s" and "header_get (hr_Header r) ''Authorization'' \<noteq> ''Bearer '' @ token" and "FormValue r ''token'' \<noteq> token"
  shows "snd (dashboard_serve sv s now n flusher static r body w) = w \<and>
    (hr_Path r \<in> {''/api/status'', ''/api/attempts'', ''/api/payments'', ''/api/approvals'', ''/api/approvals/resolve'', ''/api/freeze'', ''/api/events''} \<longrightarrow>
     wo_Status (fst (dashboard_serve sv s now n flusher static r body w)) = 401 \<and>
     wo_Body (fst (dashboard_serve sv s now n flusher static r body w)) = WbError ''unauthorized'')"
proof -
  let ?h = "header_get (hr_Header r) ''Authorization''"
  have tk: "wb_token s = token" using assms(1) by (auto simp: web_New_def split: if_splits)
  have "\<not> authorized s r"
  proof
    assume a: "authorized s r"
    show False
    proof (cases "HasPrefix ?h ''Bearer ''")
      case True
      with a tk TrimPrefix_split [OF True] assms(2) show False unfolding authorized_def Let_def by metis
    next
      case False
      with a tk assms(3) show False unfolding authorized_def Let_def by metis
    qed
  qed
  then have g: "guard s h r body w = (web_json StatusUnauthorized (WbError ''unauthorized''), w)" for h by (simp add: guard_def)
  show ?thesis
    by (auto simp: dashboard_serve_def dashboard_routes_def g securityHeaders_def web_json_def StatusUnauthorized_def split: option.splits if_splits)
qed

definition sample_web :: Web where "sample_web = \<lparr>wb_network = ''simnet'', wb_token = ''secret''\<rparr>"

definition sample_unfreeze :: HttpRequest where
  "sample_unfreeze = \<lparr>hr_Method = ''POST'', hr_Host = ''127.0.0.1:9377'', hr_TLS = False, hr_Path = ''/api/freeze'',
     hr_Header = [(''Authorization'', ''Bearer guess'')], hr_Form = []\<rparr>"

theorem dashboard_needs_token_witness:
  "dashboard_serve sample_svc sample_web minute 0 True (web_json 200 WbStatic) sample_unfreeze ''{}'' sample_w0 =
     (fst (dashboard_serve sample_svc sample_web minute 0 True (web_json 200 WbStatic) sample_unfreeze ''{}'' sample_w0), sample_w0) \<and>
   wo_Status (fst (dashboard_serve sample_svc sample_web minute 0 True (web_json 200 WbStatic) sample_unfreeze ''{}'' sample_w0)) = 401"
proof -
  have h: "web_New ''simnet'' ''secret'' = Some sample_web" "header_get (hr_Header sample_unfreeze) ''Authorization'' \<noteq> ''Bearer '' @ ''secret''"
    "FormValue sample_unfreeze ''token'' \<noteq> ''secret''" "hr_Path sample_unfreeze = ''/api/freeze''"
    by (code_simp)+
  from dashboard_needs_token [OF h(1-3), of sample_svc minute 0 True "web_json 200 WbStatic" "''{}''" sample_w0] h(4)
  show ?thesis by (metis insertI1 insertI2 prod.collapse)
qed

section \<open>Bison Relay\<close>

lemma hex_val_lower: "hex_val c = Some d \<Longrightarrow> lower_char c = hex_chr d \<and> d < 16"
  by (auto simp: hex_val_def hex_chr_def lower_char_def Let_def split: if_splits)

lemma hex_decode_lower: "hex_decode s = Some u \<Longrightarrow> ToLower s = hex_encode u"
proof (induction s arbitrary: u rule: hex_decode.induct)
  case (3 a b cs)
  then show ?case by (auto simp: ToLower_def split: option.splits dest!: hex_val_lower)
qed (simp_all add: ToLower_def)

lemma hex_encode_lower: "ToLower (hex_encode u) = hex_encode u"
  by (rule hex_decode_lower) simp

text \<open>The configured owner is the one user whose key the setting spells.\<close>

lemma isOwner_iff:
  assumes "br_New rpc owner wired client freezer = Inr br"
  shows "isOwner br pm \<longleftrightarrow> hex_decode (TrimSpace owner) = Some (pm_Uid pm)"
proof -
  obtain u where u: "hex_decode (TrimSpace owner) = Some u" using assms by (auto simp: br_New_def split: if_splits)
  have "ba_ownerUID br = hex_encode u" using assms hex_decode_lower [OF u] by (auto simp: br_New_def split: if_splits)
  with u show ?thesis by (auto simp: isOwner_def EqualFold_def hex_encode_lower)
qed

context agent_service
begin

definition only_acked :: "('s, 'n, 'h) agent_world \<Rightarrow> ('s, 'n, 'h) agent_world \<Rightarrow> bool" where
  "only_acked w w' \<longleftrightarrow> (\<exists>s. w' = w\<lparr>aw_store := s\<rparr> \<and> (view s = V w \<or> (\<exists>v. view s = (V w)\<lparr>av_state := (av_state (V w))(ackStateKey \<mapsto> v)\<rparr>)))"

lemma only_acked_refl: "only_acked w w"
  by (auto simp: only_acked_def intro: exI [of _ "aw_store w"])

lemma only_acked_trans: "only_acked a b \<Longrightarrow> only_acked b c \<Longrightarrow> only_acked a c"
  unfolding only_acked_def by (elim exE conjE disjE) auto

lemma stranger_acked:
  assumes "\<not> isOwner br pm" shows "only_acked w (snd (consume_pm br sv (now, pm, acked) ack w))"
proof -
  obtain r s where g: "as_SetState ops ackStateKey (show_nat (pm_SequenceId pm)) (aw_store w) = (r, s)" by fastforce
  have "view s = V w \<or> (\<exists>v. view s = (V w)\<lparr>av_state := (av_state (V w))(ackStateKey \<mapsto> v)\<rparr>)"
    using set_state [OF g] by (cases r) auto
  with assms g show ?thesis using only_acked_refl
    by (auto simp: consume_pm_def on_store_def store_ops only_acked_def)
qed

lemma strangers_acked:
  "\<forall>x\<in>set xs. \<not> isOwner br (fst (snd x)) \<Longrightarrow> only_acked w (snd (br_consume br sv xs ack w))"
proof (induction xs arbitrary: ack w)
  case (Cons x xs)
  obtain now pm acked where x: "x = (now, pm, acked)" by (cases x) auto
  obtain a go w1 where c: "consume_pm br sv x ack w = ((a, go), w1)" by (cases "consume_pm br sv x ack w") auto
  have 1: "only_acked w w1" using stranger_acked [of br pm w now acked ack] Cons.prems c x by simp
  have 2: "only_acked w1 (snd (br_consume br sv xs a w1))" using Cons.IH Cons.prems by simp
  show ?case using 1 only_acked_trans [OF 1 2] c by simp
qed (simp add: only_acked_refl)

end


definition sample_relay :: BRApprover where
  "sample_relay = \<lparr>ba_Owner = replicate 64 (CHR ''A''), ba_ownerUID = replicate 64 (CHR ''a''), ba_Freezer = True\<rparr>"


text \<open>
  Replaying a message is not idempotent for the owner's other channel: an ``unfreeze'' whose
  acknowledgement fails is handled again when the stream resumes, and lifts a freeze the owner has set
  on the dashboard in the meantime.
\<close>

lemma frozen_store:
  assumes "cn_faults (aw_store w) = []"
  shows "Freeze (with_sqlite sv) now who reason w = (Inr (), snd (Freeze (with_sqlite sv) now who reason w))"
    "cn_faults (aw_store (snd (Freeze (with_sqlite sv) now who reason w))) = []"
  using assms by (simp_all add: Freeze_def on_store_def with_sqlite_def AgentSQLite_def run_SetState)

lemma unfreeze_handled:
  assumes "ba_Freezer br" "isOwner br pm" "pm_Msg pm = Some ''unfreeze''" "cn_faults (aw_store w) = []"
  shows "snd (consume_pm br (with_sqlite sv) (now, pm, False) ack w) = snd (Unfreeze (with_sqlite sv) w)"
    "fst (consume_pm br (with_sqlite sv) (now, pm, False) ack w) = (ack, False)"
    "cn_faults (aw_store (snd (Unfreeze (with_sqlite sv) w))) = []"
    "fst (notFrozen (with_sqlite sv) (snd (Unfreeze (with_sqlite sv) w))) = Inr ()"
proof -
  have f: "Fields (ToLower (TrimSpace ''unfreeze'')) = [''unfreeze'']" by code_simp
  have u: "Unfreeze (with_sqlite sv) w = (Inr (), snd (Unfreeze (with_sqlite sv) w))"
    "cn_faults (aw_store (snd (Unfreeze (with_sqlite sv) w))) = []"
    "ad_state (cn_db (aw_store (snd (Unfreeze (with_sqlite sv) w)))) freezeStateKey = Some []"
    using assms(4) by (simp_all add: Unfreeze_def on_store_def with_sqlite_def AgentSQLite_def run_SetState)
  show "snd (consume_pm br (with_sqlite sv) (now, pm, False) ack w) = snd (Unfreeze (with_sqlite sv) w)"
    "fst (consume_pm br (with_sqlite sv) (now, pm, False) ack w) = (ack, False)"
    using assms(1-3) f u(1) by (simp_all add: consume_pm_def handleReply_def freeze_word_def split: prod.splits sum.splits)
  show "fst (notFrozen (with_sqlite sv) (snd (Unfreeze (with_sqlite sv) w))) = Inr ()"
    using run_GetState [OF u(2), of freezeStateKey] u(3)
    by (simp add: notFrozen_def FreezeStatus_def on_store_def with_sqlite_def AgentSQLite_def read_freeze_def zero_FreezeState_def)
qed (use assms(4) in \<open>simp add: Unfreeze_def on_store_def with_sqlite_def AgentSQLite_def run_SetState\<close>)

text \<open>C28: replaying a relayed message is not idempotent.  Over a store that does not fail: the owner's ``unfreeze'' is carried out but
  its acknowledgement fails, so the position in the stream stays; the owner then freezes on the dashboard and spending is refused;
  the stream resumes with the same message, and spending is open again, against the owner's last word.\<close>
theorem replayed_unfreeze_undoes_freeze:
  assumes "ba_Freezer br" "isOwner br pm" "pm_Msg pm = Some ''unfreeze''" "cn_faults (aw_store w) = []"
    and "w1 = snd (consume_pm br (with_sqlite sv) (t1, pm, False) ack w)"
    and "w2 = snd (Freeze (with_sqlite sv) t2 ''dashboard'' reason w1)"
    and "w3 = snd (consume_pm br (with_sqlite sv) (t3, pm, False) ack w2)"
  shows "fst (consume_pm br (with_sqlite sv) (t1, pm, False) ack w) = (ack, False) \<and>
    (\<exists>st. fst (notFrozen (with_sqlite sv) w2) = Inl (Frozen st)) \<and> fst (notFrozen (with_sqlite sv) w3) = Inr ()"
proof -
  note u = unfreeze_handled [OF assms(1-4)]
  have ok1: "cn_faults (aw_store w1) = []" using u(1,3) assms(5) by simp
  note f = frozen_store [OF ok1, of sv t2 "''dashboard''" reason]
  have fz: "notFrozen (with_sqlite sv) w2 = (Inl (Frozen \<lparr>fz_Frozen = True, fz_At = rfc3339 t2, fz_By = ''dashboard'', fz_Reason = reason\<rparr>), w2)"
    unfolding assms(6) by (rule frozen_reads [OF f])
  have ok2: "cn_faults (aw_store w2) = []" using f(2) assms(6) by simp
  note v = unfreeze_handled [OF assms(1-3) ok2]
  show ?thesis using u(2) fz v(1,4) assms(7) by auto
qed

theorem replayed_unfreeze_undoes_freeze_witness:
  "let pm = \<lparr>pm_Uid = replicate 32 (CHR 0xAA), pm_Msg = Some ''unfreeze'', pm_SequenceId = 7\<rparr>;
       w1 = snd (consume_pm sample_relay (with_sqlite sample_svc) (0, pm, False) 0 sample_w0);
       w2 = snd (Freeze (with_sqlite sample_svc) minute ''dashboard'' ''lost phone'' w1) in
   fst (notFrozen (with_sqlite sample_svc) (snd (consume_pm sample_relay (with_sqlite sample_svc) (2 * minute, pm, False) 0 w2))) = Inr ()"
proof -
  let ?pm = "\<lparr>pm_Uid = replicate 32 (CHR 0xAA), pm_Msg = Some ''unfreeze'', pm_SequenceId = 7\<rparr>"
  have h: "ba_Freezer sample_relay" "isOwner sample_relay ?pm" "pm_Msg ?pm = Some ''unfreeze''" by code_simp+
  have n: "cn_faults (aw_store sample_w0) = []" by (simp add: sample_start_def sample_db_def)
  show ?thesis unfolding Let_def
    using replayed_unfreeze_undoes_freeze [OF h n refl refl refl, where sv = sample_svc and ack = 0 and ?t1.0 = 0 and ?t2.0 = minute and
      reason = "''lost phone''" and ?t3.0 = "2 * minute"] by blast
qed

section \<open>The dialer\<close>

lemma pick_target_Some: "pick_target allowed ips (Some t) = Inr r \<Longrightarrow> r = Some t"
  by (induction allowed ips "Some t" rule: pick_target.induct) (auto split: if_splits)

lemma pick_target_safe: "pick_target allowed ips t = Inr r \<Longrightarrow> allowed \<or> (\<forall>ip\<in>set ips. \<not> isInternalIP ip)"
  by (induction allowed ips t rule: pick_target.induct) (auto split: if_splits)

lemma pick_target_first: "pick_target allowed (ip # ips) None = Inr r \<Longrightarrow> r = Some ip"
  by (auto split: if_splits dest: pick_target_Some)



end
