(* ===== verification/GoJsonFuel.thy ===== *)
theory GoJsonFuel
  imports GoJson
begin

text \<open>
  The JSON reader never runs out of fuel: every value consumes a byte, and no more than two calls are
  made a byte, so from twice the length of the text plus one on, fuel does not change the answer.
\<close>

section \<open>What is read gets shorter\<close>

lemma skip_ws_le: "length (skip_ws s) \<le> length s"
  by (simp add: length_dropWhile_le)

lemma expect_le: "expect p s = Some r \<Longrightarrow> length r \<le> length s"
  by (induction p s rule: expect.induct) (auto split: if_splits)

lemma hex4_val_less: "hex4_val s = Some (n, r) \<Longrightarrow> length r < length s"
  by (cases s rule: hex4_val.cases) (auto split: option.splits)

lemma unicode_escape_less: "unicode_escape s = Some (u, r) \<Longrightarrow> length r < length s"
  by (auto simp: unicode_escape_def split: option.splits if_splits prod.splits dest!: hex4_val_less expect_le)

lemma parse_chars_less: "parse_chars n s = Some (t, r) \<Longrightarrow> length r < length s"
proof (induction n arbitrary: s t r)
  case (Suc n)
  then show ?case
    by (auto split: list.splits if_splits option.splits dest!: unicode_escape_less Suc.IH)
qed simp

lemma parse_chars_fuel: "length s < n \<Longrightarrow> length s < m \<Longrightarrow> parse_chars n s = parse_chars m s"
proof (induction n arbitrary: s m)
  case (Suc n)
  obtain m' where m: "m = Suc m'" using Suc.prems by (cases m) auto
  have IH: "parse_chars n r = parse_chars m' r" if "length r < length s" for r
    using Suc.IH [of r m'] Suc.prems that m by simp
  have U: "parse_chars n r = parse_chars m' r" if "unicode_escape es = Some (u, r)" "length es < length s" for es u r
    using IH unicode_escape_less [OF that(1)] that(2) by simp
  show ?case
  proof (cases s)
    case Nil
    then show ?thesis by (simp add: m)
  next
    case (Cons c cs)
    have c: "parse_chars n cs = parse_chars m' cs" using IH Cons by simp
    show ?thesis
    proof (cases cs)
      case Nil
      then show ?thesis using c by (simp add: m Cons)
    next
      case es: (Cons e es)
      have e: "parse_chars n es = parse_chars m' es" using IH Cons es by simp
      have "(case unicode_escape es of None \<Rightarrow> None | Some (u, r) \<Rightarrow> map_option (\<lambda>(t, r'). (u @ t, r')) (parse_chars n r)) =
        (case unicode_escape es of None \<Rightarrow> None | Some (u, r) \<Rightarrow> map_option (\<lambda>(t, r'). (u @ t, r')) (parse_chars m' r))"
        using U [of es] Cons es by (cases "unicode_escape es") auto
      with c e show ?thesis by (simp only: m Cons es parse_chars.simps list.case)
    qed
  qed
qed simp

lemma parse_str_less: "parse_str s = Some (t, r) \<Longrightarrow> length r < length s"
  by (auto simp: parse_str_def simp del: parse_chars.simps split: list.splits if_splits dest!: parse_chars_less)

lemma num_int_less: "num_int s = Some (i, r) \<Longrightarrow> length r < length s"
  by (auto simp: num_int_def less_Suc_eq_le length_dropWhile_le split: list.splits if_splits)

lemma num_frac_le: "num_frac s = Some (f, r) \<Longrightarrow> length r \<le> length s"
  by (auto simp: num_frac_def le_Suc_eq split: list.splits if_splits) (meson le_SucI length_dropWhile_le)

lemma num_exp_le: "num_exp s = Some (e, r) \<Longrightarrow> length r \<le> length s"
  by (auto simp: num_exp_def Let_def split: list.splits if_splits prod.splits) (meson le_SucI length_dropWhile_le)+

lemma parse_num_less: "parse_num s = Some (t, r) \<Longrightarrow> length r < length s"
  by (auto simp: parse_num_def Let_def split: list.splits if_splits option.splits prod.splits
      dest!: num_int_less num_frac_le num_exp_le)

lemma parse_less:
  "(\<forall>s x r. parse_value n s = Some (x, r) \<longrightarrow> length r < length s) \<and>
   (\<forall>s x r. parse_elems n s = Some (x, r) \<longrightarrow> length r < length s) \<and>
   (\<forall>s x r. parse_members n s = Some (x, r) \<longrightarrow> length r < length s)"
proof (induction n)
  case (Suc n)
  have v: "length r < length s" if "parse_value n s = Some (x, r)" for s x r using Suc.IH that by blast
  have e: "length r < length s" if "parse_elems n s = Some (x, r)" for s x r using Suc.IH that by blast
  have m: "length r < length s" if "parse_members n s = Some (x, r)" for s x r using Suc.IH that by blast
  have w: "length t < length s" if "skip_ws s = c # t" for s c t using skip_ws_le [of s] that by simp
  have "length r < length s" if p: "parse_value (Suc n) s = Some (x, r)" for s x r
  proof (cases "skip_ws s")
    case (Cons c cs)
    have l: "length cs < length s" by (rule w [OF Cons])
    have l2: "length ds < length s" if "skip_ws cs = d # ds" for d ds using w [OF that] l by simp
    have "length r \<le> length cs"
      using p Cons
      by (auto simp: less_Suc_eq_le split: if_splits list.splits prod.splits dest!: parse_str_less parse_num_less expect_le e m w)
    with l show ?thesis by simp
  next
    case Nil
    show ?thesis using p unfolding parse_value.simps Nil by simp
  qed
  moreover have "length r < length s" if p: "parse_elems (Suc n) s = Some (x, r)" for s x r
    using p by (auto split: option.splits list.splits if_splits prod.splits dest!: v e w)
  moreover have "length r < length s" if p: "parse_members (Suc n) s = Some (x, r)" for s x r
    using p skip_ws_le [of s] by (auto split: option.splits list.splits if_splits prod.splits dest!: parse_str_less v m w)
  ultimately show ?case by blast
qed simp

section \<open>Fuel\<close>

lemma skip_ws_less: "skip_ws s = c # t \<Longrightarrow> length t < length s"
  using skip_ws_le [of s] by simp

lemma value_fuel:
  assumes ie: "\<And>s m. 2 * length s + 2 \<le> n \<Longrightarrow> 2 * length s + 2 \<le> m \<Longrightarrow> parse_elems n s = parse_elems m s"
    and im: "\<And>s m. 2 * length s + 2 \<le> n \<Longrightarrow> 2 * length s + 2 \<le> m \<Longrightarrow> parse_members n s = parse_members m s"
    and a: "2 * length s + 1 \<le> Suc n" and b: "2 * length s + 1 \<le> m"
  shows "parse_value (Suc n) s = parse_value m s"
proof -
  obtain m' where m: "m = Suc m'" using b by (cases m) auto
  show ?thesis
  proof (cases "skip_ws s")
    case Nil
    then show ?thesis unfolding m parse_value.simps Nil by simp
  next
    case (Cons c cs)
    have l: "length cs < length s" by (rule skip_ws_less [OF Cons])
    then have "2 * length cs + 2 \<le> n" "2 * length cs + 2 \<le> m'" using a b m by linarith+
    then have "parse_elems n cs = parse_elems m' cs" "parse_members n cs = parse_members m' cs" by (rule ie im)+
    then show ?thesis unfolding m parse_value.simps Cons by (simp only: list.case)
  qed
qed

lemma elems_fuel:
  assumes iv: "\<And>s m. 2 * length s + 1 \<le> n \<Longrightarrow> 2 * length s + 1 \<le> m \<Longrightarrow> parse_value n s = parse_value m s"
    and ie: "\<And>s m. 2 * length s + 2 \<le> n \<Longrightarrow> 2 * length s + 2 \<le> m \<Longrightarrow> parse_elems n s = parse_elems m s"
    and a: "2 * length s + 2 \<le> Suc n" and b: "2 * length s + 2 \<le> m"
  shows "parse_elems (Suc n) s = parse_elems m s"
proof -
  obtain m' where m: "m = Suc m'" using b by (cases m) auto
  have v: "parse_value n s = parse_value m' s" using iv [of s m'] a b m by simp
  show ?thesis
  proof (cases "parse_value m' s")
    case None
    then show ?thesis unfolding m parse_elems.simps v by simp
  next
    case (Some xr)
    obtain x r where xr: "xr = (x, r)" by fastforce
    have lr: "length r < length s" using parse_less Some xr by blast
    show ?thesis
    proof (cases "skip_ws r")
      case Nil
      show ?thesis unfolding m parse_elems.simps v Some xr option.case prod.case Nil list.case by (rule refl)
    next
      case (Cons c cs)
      have "2 * length cs + 2 \<le> n" "2 * length cs + 2 \<le> m'" using skip_ws_less [OF Cons] lr a b m by linarith+
      then have "parse_elems n cs = parse_elems m' cs" by (rule ie)
      then show ?thesis unfolding m parse_elems.simps v Some xr Cons option.case prod.case list.case by simp
    qed
  qed
qed

lemma members_fuel:
  assumes iv: "\<And>s m. 2 * length s + 1 \<le> n \<Longrightarrow> 2 * length s + 1 \<le> m \<Longrightarrow> parse_value n s = parse_value m s"
    and im: "\<And>s m. 2 * length s + 2 \<le> n \<Longrightarrow> 2 * length s + 2 \<le> m \<Longrightarrow> parse_members n s = parse_members m s"
    and a: "2 * length s + 2 \<le> Suc n" and b: "2 * length s + 2 \<le> m"
  shows "parse_members (Suc n) s = parse_members m s"
proof -
  obtain m' where m: "m = Suc m'" using b by (cases m) auto
  show ?thesis
  proof (cases "parse_str (skip_ws s)")
    case None
    then show ?thesis unfolding m parse_members.simps by simp
  next
    case (Some kr)
    obtain k r where kr: "kr = (k, r)" by fastforce
    have lr: "length r < length s" using parse_str_less [of "skip_ws s" k r] Some kr skip_ws_le [of s] by simp
    show ?thesis
    proof (cases "skip_ws r")
      case Nil
      show ?thesis unfolding m parse_members.simps Some kr option.case prod.case Nil list.case by (rule refl)
    next
      case (Cons c cs)
      have lc: "length cs < length r" by (rule skip_ws_less [OF Cons])
      have "2 * length cs + 1 \<le> n" "2 * length cs + 1 \<le> m'" using lc lr a b m by linarith+
      then have v: "parse_value n cs = parse_value m' cs" by (rule iv)
      show ?thesis
      proof (cases "parse_value m' cs")
        case None
        then show ?thesis unfolding m parse_members.simps Some kr Cons option.case prod.case list.case v by simp
      next
        case v': (Some yr)
        obtain y r' where yr: "yr = (y, r')" by fastforce
        have lr': "length r' < length cs" using parse_less v' yr by blast
        show ?thesis
        proof (cases "skip_ws r'")
          case Nil
          show ?thesis unfolding m parse_members.simps Some kr Cons option.case prod.case list.case v v' yr Nil by (rule refl)
        next
          case d: (Cons d ds)
          have "2 * length ds + 2 \<le> n" "2 * length ds + 2 \<le> m'" using skip_ws_less [OF d] lr' lc lr a b m by linarith+
          then have "parse_members n ds = parse_members m' ds" by (rule im)
          then show ?thesis
            unfolding m parse_members.simps Some kr Cons option.case prod.case list.case v v' yr d by simp
        qed
      qed
    qed
  qed
qed

lemma parse_fuel:
  "(\<forall>s m. 2 * length s + 1 \<le> n \<longrightarrow> 2 * length s + 1 \<le> m \<longrightarrow> parse_value n s = parse_value m s) \<and>
   (\<forall>s m. 2 * length s + 2 \<le> n \<longrightarrow> 2 * length s + 2 \<le> m \<longrightarrow> parse_elems n s = parse_elems m s) \<and>
   (\<forall>s m. 2 * length s + 2 \<le> n \<longrightarrow> 2 * length s + 2 \<le> m \<longrightarrow> parse_members n s = parse_members m s)"
proof (induction n)
  case (Suc n)
  have iv: "parse_value n s = parse_value m s" if "2 * length s + 1 \<le> n" "2 * length s + 1 \<le> m" for s m using Suc.IH that by blast
  have ie: "parse_elems n s = parse_elems m s" if "2 * length s + 2 \<le> n" "2 * length s + 2 \<le> m" for s m using Suc.IH that by blast
  have im: "parse_members n s = parse_members m s" if "2 * length s + 2 \<le> n" "2 * length s + 2 \<le> m" for s m using Suc.IH that by blast
  have "parse_value (Suc n) s = parse_value m s" if "2 * length s + 1 \<le> Suc n" "2 * length s + 1 \<le> m" for s m
    by (rule value_fuel [OF ie im that])
  moreover have "parse_elems (Suc n) s = parse_elems m s" if "2 * length s + 2 \<le> Suc n" "2 * length s + 2 \<le> m" for s m
    by (rule elems_fuel [OF iv ie that])
  moreover have "parse_members (Suc n) s = parse_members m s" if "2 * length s + 2 \<le> Suc n" "2 * length s + 2 \<le> m" for s m
    by (rule members_fuel [OF iv im that])
  ultimately show ?case by blast
qed simp

text \<open>The fuel \<open>json_parse\<close> uses is enough: no amount of fuel reads more or differently.\<close>

lemma json_parse_enough:
  assumes "2 * length s + 2 \<le> n" shows "parse_value n s = json_parse s"
proof -
  have "2 * length s + 1 \<le> n" "2 * length s + 1 \<le> 2 * length s + 2" using assms by linarith+
  then show ?thesis unfolding json_parse_def using parse_fuel [of n] by blast
qed

end
