(* ===== verification/Spec2Isabelle.thy ===== *)
theory Spec2Isabelle
  imports X402 L402 Ledger GateStore GateProps Sha256KAT Policy AgentStore GoUrl GoFmt Payclient Agent AgentSafety AgentProps AgentClaims TopupClaims McpProps GatewayClaims Facilitator Base58 Channels AgentApi Rails ApiClaims GoJsonFuel
begin

text \<open>
  A verification library for dcr402, the HTTP 402 payment stack for Decred: an embeddable payment gate
  (\<open>src/lib\<close>), a stand-alone gateway in front of existing services (\<open>src/gateway\<close>), a paying agent under its
  owner's policy (\<open>src/agent\<close>), and a facilitator with a public index of paid resources (\<open>src/bazaar\<close>).  This
  theory only imports the others; it says here what they model, what they show, and what they leave out.

  \<^bold>\<open>How the parts interact.\<close>  A gate answers an unpaid request with a challenge: an x402 envelope in a header,
  and an L402 macaroon with a Lightning invoice.  The buyer pays the invoice or an on-chain address and comes
  back with a proof (a preimage or a transaction id) or with the credential.  The gate verifies the proof against
  the node, consumes the stored challenge once, and runs the protected handler.  With a ledger, the same two rails
  buy credits that later requests spend.  The gateway wires gates to configured routes and MCP tools and forwards
  what was paid for.  The agent is the buyer: its client reads the challenge, asks the owner's policy, pays, and
  retries; payments above a threshold wait for an approval from the dashboard or over Bison Relay, and a kill switch
  stops new spending.  The facilitator verifies and settles for services without a gate of their own and lists
  what it has seen paid.

  \<^bold>\<open>Conventions.\<close>  A Go string and a byte slice are an Isabelle \<open>string\<close>; \<open>int64\<close> is an \<open>int\<close> whose arithmetic wraps
  explicitly (\<open>wrap64\<close>, theory Prelude); structs are records, errors are the left side of a sum, a nil pointer is
  \<open>None\<close>.  Time is the number of nanoseconds since 1970, and a request is handled at one instant \<open>now\<close>.  Code that is
  not in the repository is a parameter: the node, the wallet and their remote procedures, invoice decoding
  (zpay32), signing and recovery of public keys, randomness, HTTP transports, name resolution, YAML decoding, the
  JSON schema validator, the IDNA conversion, the transaction decoder, the relay and MCP libraries.  A gate, an agent
  or a facilitator is a record of such functions, and an operation maps a world (store, node, wallet, network) to
  a result and a new world.

  \<^bold>\<open>Go's library.\<close>  GoStrings, GoCodec (hexadecimal, base 64), GoTime, GoUrl, GoFmt, GoJson (parser, printer and
  decoders), GoJsonRoundtrip, GoSha256 with the known answer of Sha256KAT, and GoSql, where a connection carries
  a schedule of driver faults, so a theorem about a store holds for every failure of every statement and commit.

  \<^bold>\<open>The gate.\<close>  X402 is \<open>lib/x402\<close>, L402 is \<open>lib/l402\<close> (identifiers, HMAC chains, the V2 binary form, caveats), Ledger
  and GateStore are the packages \<open>lib/ledger\<close> and \<open>lib/store\<close>, each with its interface as a locale (\<open>ledger\<close>,
  \<open>gate_store\<close>) interpreted on the memory and on the SQLite implementation.  Gate, GateVerify and GateServe are
  \<open>gate.go\<close>, \<open>challenge.go\<close>, \<open>verify.go\<close>, \<open>offerreceipt.go\<close>, \<open>paymentid.go\<close> and the small files beside them; Base58 is about
  the encoder of \<open>offerreceipt.go\<close>.  GateSafety states what a verified proof is and proves the locale \<open>payment_gate\<close>
  from the contract of the store; GateComplete is the buyer's side; GateProps has the theorems over both stores.
  Topup, TopupProps and TopupClaims are \<open>topup.go\<close> and join the contracts of store and ledger in \<open>credit_gate\<close>.  Mcp
  and McpProps are \<open>mcp.go\<close>, both halves of the conversation.  Discovery is \<open>lib/bazaar.go\<close>.

  \<^bold>\<open>The gateway.\<close>  Gateway and GatewayMcp are \<open>gateway/*.go\<close>: the configuration after YAML decoding, prices, routes, and
  the HTTP and JSON-RPC gates.  GatewayProps and GatewayClaims show that what is forwarded was free, paid or charged,
  and that the answer to a settled request is the gateway's own.

  \<^bold>\<open>The agent.\<close>  Policy is \<open>agent/policy\<close>, AgentStore is \<open>agent/store\<close> with the contract \<open>agent_store\<close>, Payclient is
  \<open>agent/payclient\<close>, Agent is \<open>service.go\<close>, \<open>freeze.go\<close> and the approval registry.  All spending runs under the mutex
  \<open>payMu\<close>, so a spending operation is one step of the relation \<open>agent_step\<close>; resolutions, expiry, the goroutines they
  start, freezes, reloads and restarts are the other steps, in any order.  AgentSafety proves the invariants of all
  histories inside the locale \<open>agent_service\<close>; AgentProps interprets it on both stores and adds the budgets; AgentClaims
  has the theorems and a concrete agent for the witnesses.  Channels is the dialer guard (\<open>ssrf.go\<close>), the
  configuration (\<open>config.go\<close>) and the Bison Relay approver; AgentApi is the MCP server and the dashboard; ApiClaims shows
  who can reach what through them.  Rails is the gRPC clients of node and wallet, of the agent and of the gate
  (\<open>lib/dcrlnd\<close>), and the assembly of the daemon.

  \<^bold>\<open>The facilitator.\<close>  Bazaar, BazaarService and BazaarIndex are \<open>bazaar/*.go\<close>: stores, dcrdata reader, verification,
  settlement, cataloging, submissions, listing, routes.  BazaarProps has the contract \<open>bazaar_store\<close> and what
  settlement means; BazaarClaims runs requests as steps; Facilitator has the theorems.

  \<^bold>\<open>What is shown.\<close>  Safety: the handler runs only for a verified payment or a valid credential, and once for a proof;
  a settlement is consumed once; credit is conserved and granted once per payment; attenuating a credential never
  widens it; money leaves the agent only with the policy's leave or an approval, each approval is used once, budgets hold,
  a frozen agent starts no payment, and neither the driving agent nor a stranger on a channel can change that.
  Completeness: an honest payment is served, and a buyer that follows the protocol completes.  Refinement and
  equivalence: the rule pipeline against its specification, the stores against their contracts, the semantic equality
  of entries.  Round trips of credentials, headers and amounts; termination and the exact buffer of the base 58
  conversion; error answers of every refusal.  Some theorems record behaviour a reader would not expect: a kill
  switch that a failed read opens, approved payments that ignore it, a budget sum that wraps, a relay message that undoes a
  later freeze, a gate that a differently spelled JSON member passes.

  \<^bold>\<open>Bounds and fuel.\<close>  The JSON reader has fuel for two calls a byte, twice the length plus two, and never runs out of it
  (theory GoJsonFuel).  The decimal exponent search starts at zero: 700 steps cover every double and 40 every amount in DCR;
  17 digits identify a double.  Lists of faults, of relayed messages and of payment updates are arbitrary and finite.
  The buffer of the base 58 encoder is the code's own estimate, proved sufficient.

  \<^bold>\<open>Not modelled.\<close>  The commands (flags, signals, listeners), the examples, the simnet drivers and the generator of test
  vectors, which only start or exercise the rest.  Dialing and TLS beyond the checks of the constructors.  YAML decoding, the
  schema migrations and pragmas of SQLite.  The HTML pages and static files.  The JSON text of tool results and
  dashboard answers, and the messages of errors nothing reads.  Deadlines and cancellation: a call returns when its
  parameter does.  Data races: an operation is atomic where the code holds a lock or runs one transaction.
\<close>

end
